(* ===== verification/Prelude.thy ===== *)
theory Prelude
  imports Complex_Main
begin

text \<open>
  The vocabulary the components share: the Python values a JSON payload is made of, the
  string methods the code calls, exceptions as values, and the generic lemmas on lists and
  association lists that carry the component proofs.

  Strings are lists of \<^typ>\<open>char\<close>, one character per code point: the model covers the code
  points U+0000 to U+00FF, on which \<open>len\<close>, \<open>strip\<close>, \<open>lower\<close> and slicing are exactly the list
  operations below.  A \<open>dict\<close> is an association list in insertion order.  Every \<open>raise\<close> is
  the left injection of a sum.
\<close>

named_theorems flow_simps
  \<open>definitions the flow components unfold\<close>
named_theorems payload_simps
  \<open>definitions the payload validators unfold\<close>
named_theorems lifecycle_simps
  \<open>definitions the lifecycle components unfold\<close>

section \<open>Python values\<close>

text \<open>A binary64 value is a rational number, an infinity or not a number.\<close>

datatype pyfloat = FFin rat | FInf bool | FNan

datatype pyval =
    PNone
  | PBool bool
  | PInt int
  | PFloat pyfloat
  | PStr string
  | PList "pyval list"
  | PDict "(string \<times> pyval) list"

type_synonym dict = "(string \<times> pyval) list"

text \<open>The exceptions of the language that the modelled code can raise by itself.\<close>

datatype py_error =
    KeyError string
  | TypeError string
  | ValueError string
  | AttributeError string
  | OverflowError string
  | RecursionError

text \<open>\<open>d.get(k)\<close> with and without a default, and \<open>k in d\<close>.\<close>

definition dict_get :: "dict \<Rightarrow> string \<Rightarrow> pyval \<Rightarrow> pyval" where
  "dict_get d k v = (case map_of d k of None \<Rightarrow> v | Some x \<Rightarrow> x)"

definition has_key :: "dict \<Rightarrow> string \<Rightarrow> bool" where
  "has_key d k \<longleftrightarrow> k \<in> set (map fst d)"

text \<open>\<open>d[k] = v\<close>: an existing key keeps its position, a new one goes to the end.\<close>

fun dict_set :: "(string \<times> 'v) list \<Rightarrow> string \<Rightarrow> 'v \<Rightarrow> (string \<times> 'v) list" where
  "dict_set [] k v = [(k, v)]"
| "dict_set ((k', v') # d) k v = (if k' = k then (k, v) # d else (k', v') # dict_set d k v)"

text \<open>The truth value of an object, as \<open>if x\<close> and \<open>not x\<close> read it.\<close>

fun truthy :: "pyval \<Rightarrow> bool" where
  "truthy PNone = False"
| "truthy (PBool b) = b"
| "truthy (PInt i) = (i \<noteq> 0)"
| "truthy (PFloat f) = (f \<noteq> FFin 0)"
| "truthy (PStr s) = (s \<noteq> [])"
| "truthy (PList xs) = (xs \<noteq> [])"
| "truthy (PDict d) = (d \<noteq> [])"

text \<open>\<open>isinstance(v, str)\<close> and the like; a \<open>bool\<close> is also an \<open>int\<close>.\<close>

fun is_str :: "pyval \<Rightarrow> bool" where
  "is_str (PStr _) = True" | "is_str _ = False"

fun is_dict :: "pyval \<Rightarrow> bool" where
  "is_dict (PDict _) = True" | "is_dict _ = False"

fun is_bool :: "pyval \<Rightarrow> bool" where
  "is_bool (PBool _) = True" | "is_bool _ = False"

fun as_int :: "pyval \<Rightarrow> int option" where
  "as_int (PInt i) = Some i"
| "as_int (PBool b) = Some (if b then 1 else 0)"
| "as_int _ = None"

text \<open>Values that \<open>x in some_set\<close> can hash; a list or a dict raises \<open>TypeError\<close>.\<close>

fun hashable :: "pyval \<Rightarrow> bool" where
  "hashable (PList _) = False"
| "hashable (PDict _) = False"
| "hashable _ = True"

definition in_str_set :: "pyval \<Rightarrow> string list \<Rightarrow> py_error + bool" where
  "in_str_set v S =
     (if hashable v then Inr (case v of PStr s \<Rightarrow> s \<in> set S | _ \<Rightarrow> False)
      else Inl (TypeError ''unhashable type''))"

text \<open>\<open>v.get(k, default)\<close> of a JSON value, and \<open>a or b\<close>.\<close>

definition get_of :: "pyval \<Rightarrow> string \<Rightarrow> pyval \<Rightarrow> py_error + pyval" where
  "get_of v k dflt = (case v of PDict d \<Rightarrow> Inr (dict_get d k dflt) | _ \<Rightarrow> Inl (AttributeError ''get''))"

definition py_or :: "pyval \<Rightarrow> pyval \<Rightarrow> pyval" where
  "py_or a b = (if truthy a then a else b)"

text \<open>The elements \<open>for x in v\<close> visits; the text of a string and the keys of an object are texts.\<close>

definition elements_of :: "pyval \<Rightarrow> py_error + pyval list" where
  "elements_of v =
     (case v of
        PList xs \<Rightarrow> Inr xs
      | PStr s \<Rightarrow> Inr (map (\<lambda>c. PStr [c]) s)
      | PDict d \<Rightarrow> Inr (map (PStr \<circ> fst) d)
      | _ \<Rightarrow> Inl (TypeError ''not iterable''))"

section \<open>String methods\<close>

definition code_of :: "char \<Rightarrow> nat" where
  "code_of c = of_char c"

text \<open>\<open>str.isspace\<close> on the code points below 256.\<close>

definition is_space :: "char \<Rightarrow> bool" where
  "is_space c \<longleftrightarrow> (let n = code_of c in
     (9 \<le> n \<and> n \<le> 13) \<or> (28 \<le> n \<and> n \<le> 32) \<or> n = 133 \<or> n = 160)"

definition lstrip :: "string \<Rightarrow> string" where
  "lstrip s = dropWhile is_space s"

definition strip :: "string \<Rightarrow> string" where
  "strip s = rev (dropWhile is_space (rev (dropWhile is_space s)))"

text \<open>\<open>str.lower\<close>: A to Z, and U+00C0 to U+00DE without the multiplication sign.\<close>

definition lower_char :: "char \<Rightarrow> char" where
  "lower_char c = (let n = code_of c in
     if (65 \<le> n \<and> n \<le> 90) \<or> (192 \<le> n \<and> n \<le> 222 \<and> n \<noteq> 215)
     then char_of (n + 32) else c)"

definition lower :: "string \<Rightarrow> string" where
  "lower s = map lower_char s"

definition is_digit :: "char \<Rightarrow> bool" where
  "is_digit c \<longleftrightarrow> 48 \<le> code_of c \<and> code_of c \<le> 57"

definition is_alpha :: "char \<Rightarrow> bool" where
  "is_alpha c \<longleftrightarrow> (65 \<le> code_of c \<and> code_of c \<le> 90) \<or> (97 \<le> code_of c \<and> code_of c \<le> 122)"

fun starts_with :: "string \<Rightarrow> string \<Rightarrow> bool" where
  "starts_with [] s = True"
| "starts_with (p # ps) [] = False"
| "starts_with (p # ps) (c # s) = (p = c \<and> starts_with ps s)"

definition ends_with :: "string \<Rightarrow> string \<Rightarrow> bool" where
  "ends_with p s = starts_with (rev p) (rev s)"

text \<open>\<open>p in s\<close> for strings.\<close>

fun contains :: "string \<Rightarrow> string \<Rightarrow> bool" where
  "contains p [] = (p = [])"
| "contains p (c # s) = (starts_with p (c # s) \<or> contains p s)"

text \<open>The decimal form of an integer, as an f-string prints it.\<close>

fun nat_digits :: "nat \<Rightarrow> string" where
  "nat_digits n =
     (if n < 10 then [char_of (48 + n)] else nat_digits (n div 10) @ [char_of (48 + n mod 10)])"

declare nat_digits.simps [simp del]

definition str_of_int :: "int \<Rightarrow> string" where
  "str_of_int i = (if i < 0 then ''-'' @ nat_digits (nat (- i)) else nat_digits (nat i))"

fun join_with :: "string \<Rightarrow> string list \<Rightarrow> string" where
  "join_with sep [] = []"
| "join_with sep [x] = x"
| "join_with sep (x # y # xs) = x @ sep @ join_with sep (y # xs)"

section \<open>Dictionaries and sets\<close>

text \<open>
  The keys of a dict built from a list of keys, in order of first insertion; also one order
  in which a \<open>set\<close> built from the list can be iterated.
\<close>

fun dict_keys :: "'a list \<Rightarrow> 'a list" where
  "dict_keys [] = []"
| "dict_keys (x # xs) = x # filter (\<lambda>y. y \<noteq> x) (dict_keys xs)"

text \<open>
  \<open>list(s)\<close> of a Python set: every element once, in an order the language does not fix.  The
  rank \<open>h\<close> by which the interpreter visits the elements is a parameter of the definitions that
  iterate over a set; the rank is arbitrary, so nothing is assumed about that order.
\<close>

definition set_list :: "('a \<Rightarrow> nat) \<Rightarrow> 'a list \<Rightarrow> 'a list" where
  "set_list h xs = sort_key h (dict_keys xs)"

lemma set_dict_keys [simp]: "set (dict_keys xs) = set xs"
  by (induction xs) auto

lemma distinct_dict_keys [simp]: "distinct (dict_keys xs)"
  by (induction xs) auto

lemma dict_keys_distinct_id: "distinct xs \<Longrightarrow> dict_keys xs = xs"
  by (induction xs) (auto simp: filter_id_conv)

lemma length_dict_keys_le: "length (dict_keys xs) \<le> length xs"
  by (metis card_length distinct_card distinct_dict_keys set_dict_keys)

lemma length_dict_keys_eq_iff: "length (dict_keys xs) = length xs \<longleftrightarrow> distinct xs"
  by (metis card_distinct distinct_card distinct_dict_keys set_dict_keys)

lemma set_set_list [simp]: "set (set_list h xs) = set xs"
  by (simp add: set_list_def)

lemma distinct_set_list [simp]: "distinct (set_list h xs)"
  by (simp add: set_list_def)

lemma length_set_list_le: "length (set_list h xs) \<le> length xs"
  by (simp add: set_list_def length_dict_keys_le)

lemma dict_set_same: "map_of (dict_set d k v) k = Some v"
  by (induction d k v rule: dict_set.induct) auto

lemma dict_set_other: "k' \<noteq> k \<Longrightarrow> map_of (dict_set d k v) k' = map_of d k'"
  by (induction d k v rule: dict_set.induct) auto

lemma map_of_dict_set [simp]: "map_of (dict_set d k v) = (map_of d)(k \<mapsto> v)"
  by (auto simp: fun_eq_iff dict_set_same dict_set_other)

lemma keys_dict_set [simp]: "set (map fst (dict_set d k v)) = insert k (set (map fst d))"
  by (induction d k v rule: dict_set.induct) auto

lemma distinct_dict_set [simp]:
  "distinct (map fst d) \<Longrightarrow> distinct (map fst (dict_set d k v))"
proof (induction d k v rule: dict_set.induct)
  case (2 k' v' d k v)
  then show ?case using keys_dict_set [of d k v] by auto
qed simp

section \<open>Lemmas on strings\<close>

lemma code_of_char_of [simp]: "n < 256 \<Longrightarrow> code_of (char_of n) = n"
  by (simp add: code_of_def)

lemma code_of_less [simp]: "code_of c < 256"
  by (simp add: code_of_def)

lemma starts_with_append: "starts_with p s \<longleftrightarrow> (\<exists>t. s = p @ t)"
  by (induction p s rule: starts_with.induct) auto

lemma ends_with_append: "ends_with p s \<longleftrightarrow> (\<exists>t. s = t @ p)"
proof -
  have "ends_with p s \<longleftrightarrow> (\<exists>t. rev s = rev p @ t)"
    by (simp add: ends_with_def starts_with_append)
  also have "\<dots> \<longleftrightarrow> (\<exists>t. s = t @ p)"
    by (metis rev_append rev_rev_ident)
  finally show ?thesis .
qed

lemma contains_append: "contains p s \<longleftrightarrow> (\<exists>u v. s = u @ p @ v)"
proof (induction p s rule: contains.induct)
  case (2 p c s)
  have "(\<exists>u v. c # s = u @ p @ v) \<longleftrightarrow> (\<exists>v. c # s = p @ v) \<or> (\<exists>u v. s = u @ p @ v)"
    by (metis append_Cons append_Nil list.exhaust list.inject)
  with 2 show ?case by (simp add: starts_with_append)
qed simp

lemma lower_char_idem [simp]: "lower_char (lower_char c) = lower_char c"
proof (cases "(65 \<le> code_of c \<and> code_of c \<le> 90)
    \<or> (192 \<le> code_of c \<and> code_of c \<le> 222 \<and> code_of c \<noteq> 215)")
  case True
  then have "lower_char c = char_of (code_of c + 32)" by (simp add: lower_char_def)
  moreover have "code_of (char_of (code_of c + 32)) = code_of c + 32"
    using True by (intro code_of_char_of) auto
  ultimately show ?thesis using True by (auto simp: lower_char_def Let_def)
next
  case False
  then have "lower_char c = c" by (auto simp: lower_char_def Let_def)
  then show ?thesis by simp
qed

lemma lower_idem [simp]: "lower (lower s) = lower s"
  by (simp add: lower_def)

lemma length_lower [simp]: "length (lower s) = length s"
  by (simp add: lower_def)

lemma dropWhile_Nil_or_hd: "dropWhile P s = [] \<or> \<not> P (hd (dropWhile P s))"
  using hd_dropWhile by blast

lemma strip_no_trailing: "strip s \<noteq> [] \<Longrightarrow> \<not> is_space (last (strip s))"
  using dropWhile_Nil_or_hd [of is_space "rev (dropWhile is_space s)"]
  by (auto simp: strip_def last_rev)

lemma rev_dropWhile_prefix: "\<exists>w. t = rev (dropWhile P (rev t)) @ w"
proof
  show "t = rev (dropWhile P (rev t)) @ rev (takeWhile P (rev t))"
    by (subst rev_append [symmetric]) simp
qed

lemma strip_no_leading: "strip s \<noteq> [] \<Longrightarrow> \<not> is_space (hd (strip s))"
proof -
  assume ne: "strip s \<noteq> []"
  obtain w where "dropWhile is_space s = strip s @ w"
    using rev_dropWhile_prefix unfolding strip_def by blast
  with ne have "hd (strip s) = hd (dropWhile is_space s)" and "dropWhile is_space s \<noteq> []"
    by auto
  then show ?thesis by (metis dropWhile_Nil_or_hd)
qed

lemma dropWhile_edges:
  assumes "s \<noteq> []" and "\<not> P (hd s)" and "\<not> P (last s)"
  shows "rev (dropWhile P (rev (dropWhile P s))) = s"
proof -
  have d: "dropWhile P t = t" if "t \<noteq> []" "\<not> P (hd t)" for t
    using that by (cases t) auto
  have "dropWhile P s = s" using assms by (intro d)
  moreover have "dropWhile P (rev s) = rev s"
    using assms by (intro d) (auto simp: hd_rev)
  ultimately show ?thesis by simp
qed

lemma strip_id:
  assumes "s \<noteq> []" and "\<not> is_space (hd s)" and "\<not> is_space (last s)"
  shows "strip s = s"
  unfolding strip_def using assms by (rule dropWhile_edges)

lemma strip_Nil [simp]: "strip [] = []"
  by (simp add: strip_def)

lemma strip_idem [simp]: "strip (strip s) = strip s"
proof (cases "strip s = []")
  case False
  then show ?thesis
    by (intro strip_id strip_no_leading strip_no_trailing)
qed simp

lemma length_strip_le: "length (strip s) \<le> length s"
  unfolding strip_def by (metis length_dropWhile_le length_rev order_trans)

end
