(* ===== verification/FlowModel.thy ===== *)
theory FlowModel
  imports Prelude
begin

text \<open>
  The data of a flow: the enumerations and the definition sub-schemas of
  \<open>app/schemas/flow.py\<close>, with every field of the Pydantic models, and the messages a
  validation produces.
\<close>

section \<open>Enumerations\<close>

datatype FlowStatus = FS_DRAFT | FS_ACTIVE | FS_INACTIVE | FS_ARCHIVED

datatype ExecutionType = MANUAL | SCHEDULED | TRIGGERED | TEST

datatype ExecutionStatus = PENDING | RUNNING | COMPLETED | FAILED | CANCELLED

datatype NodeStatus = NS_PENDING | NS_RUNNING | NS_COMPLETED | NS_WARNING | NS_FAILED | NS_SKIPPED

datatype NodeType = SOURCE | CHECK | JOIN | FILTER | AGGREGATE | TRANSFORM

text \<open>The \<open>.value\<close> of each member, as the database and the messages hold it.\<close>

fun status_value :: "ExecutionStatus \<Rightarrow> string" where
  "status_value PENDING = ''pending''"
| "status_value RUNNING = ''running''"
| "status_value COMPLETED = ''completed''"
| "status_value FAILED = ''failed''"
| "status_value CANCELLED = ''cancelled''"

fun node_status_value :: "NodeStatus \<Rightarrow> string" where
  "node_status_value NS_PENDING = ''pending''"
| "node_status_value NS_RUNNING = ''running''"
| "node_status_value NS_COMPLETED = ''completed''"
| "node_status_value NS_WARNING = ''warning''"
| "node_status_value NS_FAILED = ''failed''"
| "node_status_value NS_SKIPPED = ''skipped''"

fun node_type_value :: "NodeType \<Rightarrow> string" where
  "node_type_value SOURCE = ''source''"
| "node_type_value CHECK = ''check''"
| "node_type_value JOIN = ''join''"
| "node_type_value FILTER = ''filter''"
| "node_type_value AGGREGATE = ''aggregate''"
| "node_type_value TRANSFORM = ''transform''"

section \<open>Flow definitions\<close>

record FlowNode =
  node_id :: string
  node_type :: NodeType
  node_label :: "string option"
  config :: dict
  position :: "(pyfloat \<times> pyfloat) option"
  checkType :: "string option"
  style :: "dict option"

record FlowConnection =
  conn_id :: string
  source :: string
  target :: string
  sourcePort :: "string option"
  targetPort :: "string option"
  conn_label :: "string option"

record FlowDefinition =
  nodes :: "FlowNode list"
  connections :: "FlowConnection list"
  metadata :: "dict option"

section \<open>Validation results\<close>

record ValidationError =
  err_type :: string
  message :: string
  err_node_id :: "string option"
  err_connection_id :: "string option"

record FlowValidationResponse =
  is_valid :: bool
  errors :: "ValidationError list"
  warnings :: "ValidationError list"
  node_count :: nat
  connection_count :: nat
  has_source :: bool
  has_checks :: bool
  has_circular_dependencies :: bool

text \<open>The identifiers of a list of nodes and the dictionary from identifier to node.\<close>

abbreviation ids :: "FlowNode list \<Rightarrow> string list" where
  "ids ns \<equiv> map node_id ns"

text \<open>\<open>{node.id: node for node in nodes}\<close>: a later node with the same id wins.\<close>

definition node_dict :: "FlowNode list \<Rightarrow> string \<rightharpoonup> FlowNode" where
  "node_dict ns = map_of (rev (map (\<lambda>n. (node_id n, n)) ns))"

lemma dom_node_dict [simp]: "dom (node_dict ns) = set (ids ns)"
  by (simp add: node_dict_def dom_map_of_conv_image_fst image_image)

lemma node_dict_None [simp]: "node_dict ns k = None \<longleftrightarrow> k \<notin> set (ids ns)"
  by (metis dom_node_dict domIff)

lemma node_dict_Some_id: "node_dict ns k = Some n \<Longrightarrow> node_id n = k \<and> n \<in> set ns"
  by (auto simp: node_dict_def dest!: map_of_SomeD)

section \<open>A sample flow\<close>

text \<open>A source that feeds two checks; the witnesses evaluate the operations on it.\<close>

definition sample_node :: "string \<Rightarrow> NodeType \<Rightarrow> FlowNode" where
  "sample_node v t = \<lparr>node_id = v, node_type = t, node_label = None,
     config = [(''dataset_id'', PStr ''d1'')], position = None, checkType = Some ''row_count'', style = None\<rparr>"

definition sample_conn :: "string \<Rightarrow> string \<Rightarrow> FlowConnection" where
  "sample_conn u v = \<lparr>conn_id = u @ v, source = u, target = v, sourcePort = None,
     targetPort = None, conn_label = None\<rparr>"

definition sample_nodes :: "FlowNode list" where
  "sample_nodes = [sample_node ''c'' CHECK, sample_node ''s'' SOURCE, sample_node ''b'' CHECK]"

definition sample_conns :: "FlowConnection list" where
  "sample_conns = [sample_conn ''s'' ''c'', sample_conn ''s'' ''b'']"

definition sample_flow :: FlowDefinition where
  "sample_flow = \<lparr>nodes = sample_nodes, connections = sample_conns, metadata = None\<rparr>"

lemma sample_ids [simp]: "ids sample_nodes = [''c'', ''s'', ''b'']"
  by (simp add: sample_nodes_def sample_node_def)

lemma sample_length [simp]: "length sample_nodes = 3" "sample_nodes \<noteq> []"
  by (simp_all add: sample_nodes_def)

end
