(* ===== verification/FlowOrder.thy ===== *)
theory FlowOrder
  imports FlowModel
begin

text \<open>
  The execution plan of a flow: \<open>get_execution_order\<close> and \<open>get_execution_levels\<close> of
  \<open>FlowValidator\<close> in \<open>app/services/flows/validator.py\<close>.  Both are Kahn's algorithm; the
  first pops a queue, the second peels off one level at a time.  Both share the invariant
  \<open>kahn_inv\<close> over (processed nodes, ready nodes, in-degree counters).
\<close>

section \<open>The graph of a flow\<close>

definition edges :: "FlowConnection list \<Rightarrow> (string \<times> string) set" where
  "edges cs = (\<lambda>c. (source c, target c)) ` set cs"

text \<open>The adjacency list \<open>graph[conn.source].append(conn.target)\<close>, parallel edges kept.\<close>

definition graph :: "FlowConnection list \<Rightarrow> string \<Rightarrow> string list" where
  "graph cs u = map target (filter (\<lambda>c. source c = u) cs)"

text \<open>The loop \<open>in_degree[conn.target] += 1\<close>; an unknown target is a \<open>KeyError\<close>.\<close>

fun count_in_degree ::
    "string list \<Rightarrow> (string \<Rightarrow> int) \<Rightarrow> FlowConnection list \<Rightarrow> py_error + (string \<Rightarrow> int)" where
  "count_in_degree ks d [] = Inr d"
| "count_in_degree ks d (c # cs) =
     (if target c \<in> set ks then count_in_degree ks (d(target c := d (target c) + 1)) cs
      else Inl (KeyError (target c)))"

text \<open>The inner loop over the neighbours of a processed node.\<close>

fun relax :: "(string \<Rightarrow> int) \<Rightarrow> string list \<Rightarrow> string list \<Rightarrow> (string \<Rightarrow> int) \<times> string list" where
  "relax d q [] = (d, q)"
| "relax d q (v # vs) =
     (let d' = d(v := d v - 1) in relax d' (if d' v = 0 then q @ [v] else q) vs)"

text \<open>The same for every node of the current level, collecting \<open>next_level\<close>.\<close>

fun relax_level ::
    "FlowConnection list \<Rightarrow> (string \<Rightarrow> int) \<Rightarrow> string list \<Rightarrow> string list \<Rightarrow>
     (string \<Rightarrow> int) \<times> string list" where
  "relax_level cs d nxt [] = (d, nxt)"
| "relax_level cs d nxt (u # us) =
     (case relax d nxt (graph cs u) of (d', nxt') \<Rightarrow> relax_level cs d' nxt' us)"

section \<open>Termination of the two loops\<close>

definition positive :: "FlowConnection list \<Rightarrow> (string \<Rightarrow> int) \<Rightarrow> string set" where
  "positive cs d = {v \<in> set (map target cs). 0 < d v}"

lemma finite_positive [simp]: "finite (positive cs d)"
  by (simp add: positive_def)

lemma set_graph: "set (graph cs u) = {v. (u, v) \<in> edges cs}"
  by (auto simp: graph_def edges_def)

lemma graph_targets: "set (graph cs u) \<subseteq> set (map target cs)"
  by (auto simp: graph_def)

lemma relax_measure:
  "set vs \<subseteq> set (map target cs) \<Longrightarrow> relax d q vs = (d', q') \<Longrightarrow>
   length q' + card (positive cs d') \<le> length q + card (positive cs d)"
proof (induction d q vs rule: relax.induct)
  case (2 d q v vs)
  let ?d = "d(v := d v - 1)"
  let ?q = "if ?d v = 0 then q @ [v] else q"
  have "length ?q + card (positive cs ?d) \<le> length q + card (positive cs d)"
  proof (cases "d v = 1")
    case True
    have "positive cs ?d = positive cs d - {v}" and "v \<in> positive cs d"
      using True "2.prems"(1) by (auto simp: positive_def)
    then show ?thesis using True
      by (simp add: card_Diff_singleton) (metis One_nat_def Suc_pred card_gt_0_iff empty_iff finite_positive le_refl)
  next
    case False
    have "positive cs ?d \<subseteq> positive cs d" by (auto simp: positive_def)
    then show ?thesis using False by (simp add: card_mono)
  qed
  moreover have "length q' + card (positive cs d') \<le> length ?q + card (positive cs ?d)"
    using "2.IH" [OF refl] "2.prems" by (simp add: Let_def del: fun_upd_apply)
  ultimately show ?case by linarith
qed simp

lemma relax_level_measure:
  "relax_level cs d nxt us = (d', nxt') \<Longrightarrow>
   length nxt' + card (positive cs d') \<le> length nxt + card (positive cs d)"
proof (induction cs d nxt us rule: relax_level.induct)
  case (2 cs d nxt u us)
  obtain d1 n1 where r: "relax d nxt (graph cs u) = (d1, n1)" by fastforce
  with "2.prems" have "relax_level cs d1 n1 us = (d', nxt')" by simp
  with "2.IH" r have "length nxt' + card (positive cs d') \<le> length n1 + card (positive cs d1)"
    by simp
  with relax_measure [OF graph_targets r] show ?case by simp
qed simp

text \<open>The \<open>while queue\<close> loop.\<close>

function kahn_loop ::
    "FlowConnection list \<Rightarrow> (string \<Rightarrow> int) \<Rightarrow> string list \<Rightarrow> string list \<Rightarrow> string list" where
  "kahn_loop cs d [] order = order"
| "kahn_loop cs d (u # q) order =
     (case relax d q (graph cs u) of (d', q') \<Rightarrow> kahn_loop cs d' q' (order @ [u]))"
  by pat_completeness auto
termination
proof (relation "measure (\<lambda>(cs, d, q, order). length q + card (positive cs d))", goal_cases)
  case (2 cs d u q order d' q')
  then have "relax d q (graph cs u) = (d', q')" by simp
  from relax_measure [OF graph_targets this] show ?case by simp
qed simp

text \<open>The \<open>while current_level\<close> loop; \<open>list(next_level)\<close> is \<open>set_list h\<close>.\<close>

function levels_loop ::
    "(string \<Rightarrow> nat) \<Rightarrow> FlowConnection list \<Rightarrow> (string \<Rightarrow> int) \<Rightarrow> string list \<Rightarrow> string list list \<Rightarrow>
     string list list" where
  "levels_loop h cs d cur acc =
     (if cur = [] then acc
      else case relax_level cs d [] cur of (d', nxt) \<Rightarrow>
             levels_loop h cs d' (set_list h nxt) (acc @ [cur]))"
  by pat_completeness auto
termination
proof (relation "measure (\<lambda>(h, cs, d, cur, acc). length cur + card (positive cs d))", goal_cases)
  case (2 h cs d cur acc d' nxt)
  then have "relax_level cs d [] cur = (d', nxt)" by simp
  from relax_level_measure [OF this] length_set_list_le [of h nxt] 2(1)
  show ?case by (cases cur) auto
qed simp

declare levels_loop.simps [simp del]

section \<open>The two operations\<close>

definition initial_degrees :: "FlowNode list \<Rightarrow> FlowConnection list \<Rightarrow> py_error + (string \<Rightarrow> int)" where
  "initial_degrees ns cs = count_in_degree (ids ns) (\<lambda>_. 0) cs"

definition roots :: "FlowNode list \<Rightarrow> (string \<Rightarrow> int) \<Rightarrow> string list" where
  "roots ns d = filter (\<lambda>v. d v = 0) (dict_keys (ids ns))"

definition get_execution_order ::
    "FlowNode list \<Rightarrow> FlowConnection list \<Rightarrow> py_error + string list" where
  "get_execution_order ns cs =
     (case initial_degrees ns cs of
        Inl e \<Rightarrow> Inl e
      | Inr d \<Rightarrow>
          let order = kahn_loop cs d (roots ns d) []
          in if length order \<noteq> length ns
             then Inl (ValueError ''Cannot create execution order: circular dependency detected'')
             else Inr order)"

definition get_execution_levels ::
    "(string \<Rightarrow> nat) \<Rightarrow> FlowNode list \<Rightarrow> FlowConnection list \<Rightarrow> py_error + string list list" where
  "get_execution_levels h ns cs =
     (case initial_degrees ns cs of
        Inl e \<Rightarrow> Inl e
      | Inr d \<Rightarrow>
          let levels = levels_loop h cs d (roots ns d) []
          in if sum_list (map length levels) \<noteq> length ns
             then Inl (ValueError ''Cannot create execution levels: circular dependency detected'')
             else Inr levels)"

section \<open>The invariant of Kahn's algorithm\<close>

text \<open>The connections into \<open>v\<close> whose source has not been processed, counted with multiplicity.\<close>

definition pending :: "FlowConnection list \<Rightarrow> string set \<Rightarrow> string \<Rightarrow> int" where
  "pending cs P v = int (length (filter (\<lambda>c. target c = v \<and> source c \<notin> P) cs))"

text \<open>Every predecessor of a node stands before it.\<close>

definition topo :: "FlowConnection list \<Rightarrow> string list \<Rightarrow> bool" where
  "topo cs order \<longleftrightarrow> (\<forall>xs v ys. order = xs @ v # ys \<longrightarrow> (\<forall>u. (u, v) \<in> edges cs \<longrightarrow> u \<in> set xs))"

definition kahn_inv ::
    "FlowConnection list \<Rightarrow> string set \<Rightarrow> string list \<Rightarrow> string list \<Rightarrow> (string \<Rightarrow> int) \<Rightarrow> bool" where
  "kahn_inv cs K order q d \<longleftrightarrow>
     distinct (order @ q) \<and> set order \<subseteq> K \<and> d = pending cs (set order) \<and>
     set q = {v \<in> K. v \<notin> set order \<and> d v = 0} \<and> topo cs order"

lemma in_edges_iff: "(u, v) \<in> edges cs \<longleftrightarrow> (\<exists>c \<in> set cs. source c = u \<and> target c = v)"
  by (auto simp: edges_def)

lemma pending_nonneg [simp]: "0 \<le> pending cs P v"
  by (simp add: pending_def)

lemma pending_0_iff: "pending cs P v = 0 \<longleftrightarrow> (\<forall>u. (u, v) \<in> edges cs \<longrightarrow> u \<in> P)"
  by (auto simp: pending_def in_edges_iff filter_empty_conv)

lemma count_graph: "count_list (graph cs u) v = length (filter (\<lambda>c. source c = u \<and> target c = v) cs)"
  by (induction cs) (auto simp: graph_def)

lemma pending_insert:
  "u \<notin> P \<Longrightarrow> pending cs (insert u P) v = pending cs P v - int (count_list (graph cs u) v)"
  unfolding count_graph pending_def by (induction cs) auto

lemma count_graph_le: "u \<notin> P \<Longrightarrow> int (count_list (graph cs u) v) \<le> pending cs P v"
  using pending_insert [of u P cs v] pending_nonneg [of cs "insert u P" v] by linarith

lemma topo_Nil [simp]: "topo cs []"
  by (simp add: topo_def)

lemma topo_snoc: "topo cs (order @ [u]) \<longleftrightarrow> topo cs order \<and> (\<forall>w. (w, u) \<in> edges cs \<longrightarrow> w \<in> set order)"
proof -
  have "(order @ [u] = xs @ v # ys) \<longleftrightarrow>
      (ys = [] \<and> xs = order \<and> v = u) \<or> (\<exists>zs. ys = zs @ [u] \<and> order = xs @ v # zs)" for xs v ys
    by (cases ys rule: rev_cases) auto
  then show ?thesis unfolding topo_def by (auto 0 3)
qed

lemma topo_pred: "topo cs order \<Longrightarrow> v \<in> set order \<Longrightarrow> (u, v) \<in> edges cs \<Longrightarrow> u \<in> set order"
  by (auto simp: topo_def dest!: split_list)

lemma count_in_degree_spec:
  "count_in_degree ks d cs = Inr d' \<longleftrightarrow>
   set (map target cs) \<subseteq> set ks \<and> d' = (\<lambda>v. d v + int (count_list (map target cs) v))"
proof (induction cs arbitrary: d)
  case Nil
  then show ?case by auto
next
  case (Cons c cs)
  have "(\<lambda>v. (d(target c := d (target c) + 1)) v + int (count_list (map target cs) v))
      = (\<lambda>v. d v + int (count_list (map target (c # cs)) v))"
    by auto
  with Cons show ?case by simp
qed

lemma initial_degrees_spec:
  "initial_degrees ns cs = Inr d \<longleftrightarrow> target ` set cs \<subseteq> set (ids ns) \<and> d = pending cs {}"
proof -
  have "count_list (map target cs) v = length (filter (\<lambda>c. target c = v) cs)" for v
    by (induction cs) auto
  then have "(\<lambda>v. 0 + int (count_list (map target cs) v)) = pending cs {}"
    by (simp add: pending_def fun_eq_iff)
  then show ?thesis by (simp add: initial_degrees_def count_in_degree_spec)
qed

lemma relax_spec:
  assumes "relax d q vs = (d', q')" and "\<And>v. int (count_list vs v) \<le> d v"
  shows "d' = (\<lambda>v. d v - int (count_list vs v)) \<and>
     (\<exists>new. q' = q @ new \<and> distinct new \<and> set new = {v \<in> set vs. d' v = 0})"
  using assms
proof (induction d q vs rule: relax.induct)
  case (2 d q v vs)
  let ?d = "d(v := d v - 1)"
  let ?q = "if ?d v = 0 then q @ [v] else q"
  have le: "int (count_list vs w) \<le> ?d w" for w
    using "2.prems"(2) [of w] by (auto split: if_splits)
  have "relax ?d ?q vs = (d', q')"
    using "2.prems"(1) by (simp add: Let_def del: fun_upd_apply)
  then obtain new where d': "d' = (\<lambda>w. ?d w - int (count_list vs w))"
    and q': "q' = ?q @ new" and "distinct new" and new: "set new = {w \<in> set vs. d' w = 0}"
    using "2.IH" [OF refl] le by blast
  have eq: "d' = (\<lambda>w. d w - int (count_list (v # vs) w))"
    by (auto simp: d')
  show ?case
  proof (cases "?d v = 0")
    case True
    with le [of v] have "v \<notin> set vs" by (simp add: count_list_0_iff)
    with True new have "set (v # new) = {w \<in> set (v # vs). d' w = 0}"
      by (auto simp: d' count_list_0_iff)
    moreover have "distinct (v # new)" using \<open>distinct new\<close> new \<open>v \<notin> set vs\<close> by auto
    ultimately show ?thesis using eq q' True by (auto intro!: exI [of _ "v # new"])
  next
    case False
    have "v \<in> set vs" if "d' v = 0"
      using that False by (auto simp: d' intro: ccontr dest: count_notin)
    with new have "set new = {w \<in> set (v # vs). d' w = 0}" by auto
    then show ?thesis using eq q' False \<open>distinct new\<close> by auto
  qed
qed simp

lemma kahn_inv_step:
  assumes inv: "kahn_inv cs K order (u # q) d" and K: "target ` set cs \<subseteq> K"
    and relax: "relax d q (graph cs u) = (d', q')"
  shows "kahn_inv cs K (order @ [u]) q' d' \<and>
    (\<exists>new. q' = q @ new \<and> set new \<subseteq> {v. (u, v) \<in> edges cs})"
proof -
  from inv have d: "d = pending cs (set order)" and u: "u \<notin> set order" "u \<in> K" "d u = 0"
    and q: "set (u # q) = {v \<in> K. v \<notin> set order \<and> d v = 0}" and topo: "topo cs order"
    and dist: "distinct (order @ u # q)" and sub: "set order \<subseteq> K"
    by (auto simp: kahn_inv_def)
  have le: "int (count_list (graph cs u) v) \<le> d v" for v
    using count_graph_le [OF u(1)] d by simp
  from relax_spec [OF relax le] obtain new where
      d': "d' = (\<lambda>v. d v - int (count_list (graph cs u) v))" and q': "q' = q @ new"
      and dn: "distinct new" and new: "set new = {v \<in> set (graph cs u). d' v = 0}"
    by blast
  have pend: "d' = pending cs (set (order @ [u]))"
    using pending_insert [OF u(1)] by (simp add: d' d fun_eq_iff)
  have fresh: "0 < d v" if "v \<in> set (graph cs u)" for v
    using that le [of v] count_list_0_iff [of "graph cs u" v] by (cases "count_list (graph cs u) v") auto
  have new_K: "set new \<subseteq> K" using new K by (auto simp: graph_def)
  have new_order: "v \<notin> set order" if "v \<in> set new" for v
    using that new topo_pred [OF topo, of v u] u(1) by (auto simp: set_graph)
  have new_q: "v \<noteq> u \<and> v \<notin> set q" if "v \<in> set new" for v
  proof -
    from that new have "0 < d v" by (auto intro: fresh)
    then have "v \<notin> set (u # q)" unfolding q by simp
    then show ?thesis by simp
  qed
  have zero: "d v = 0 \<Longrightarrow> d' v = 0" for v
    using le [of v] by (simp add: d')
  have nonzero: "v \<in> set (graph cs u)" if "d v \<noteq> 0" "d' v = 0" for v
    using that by (auto simp: d' intro: ccontr dest: count_notin)
  have set_q': "set q' = {v \<in> K. v \<notin> set (order @ [u]) \<and> d' v = 0}"
  proof (intro equalityI subsetI)
    fix v assume "v \<in> set q'"
    then consider "v \<in> set q" | "v \<in> set new" by (auto simp: q')
    then show "v \<in> {v \<in> K. v \<notin> set (order @ [u]) \<and> d' v = 0}"
    proof cases
      case 1
      with q have "v \<in> K" "v \<notin> set order" "d v = 0" by auto
      with 1 dist zero show ?thesis by auto
    next
      case 2
      with new new_K new_order new_q show ?thesis by auto
    qed
  next
    fix v assume "v \<in> {v \<in> K. v \<notin> set (order @ [u]) \<and> d' v = 0}"
    then have v: "v \<in> K" "v \<notin> set order" "v \<noteq> u" "d' v = 0" by auto
    show "v \<in> set q'"
    proof (cases "d v = 0")
      case True
      with v q show ?thesis by (auto simp: q')
    next
      case False
      with v new nonzero show ?thesis by (auto simp: q')
    qed
  qed
  have "distinct ((order @ [u]) @ q')"
    using dist dn new_order new_q by (auto simp: q')
  moreover have "topo cs (order @ [u])"
    using topo u(3) by (auto simp: topo_snoc d pending_0_iff)
  ultimately have "kahn_inv cs K (order @ [u]) q' d'"
    using pend set_q' sub u(2) by (simp add: kahn_inv_def)
  with q' new show ?thesis by (auto simp: set_graph)
qed

lemma kahn_inv_initial:
  "kahn_inv cs (set (ids ns)) [] (roots ns (pending cs {})) (pending cs {})"
  by (auto simp: kahn_inv_def roots_def)

lemma kahn_loop_inv:
  assumes "kahn_inv cs K order q d" and "target ` set cs \<subseteq> K"
  shows "\<exists>d'. kahn_inv cs K (kahn_loop cs d q order) [] d'"
  using assms
proof (induction cs d q order rule: kahn_loop.induct)
  case (2 cs d u q order)
  obtain d' q' where r: "relax d q (graph cs u) = (d', q')" by fastforce
  with kahn_inv_step [OF "2.prems" r] have "kahn_inv cs K (order @ [u]) q' d'" by blast
  with "2.IH" [OF r [symmetric]] "2.prems"(2) r show ?case by auto
qed auto

section \<open>The invariant of the level loop\<close>

text \<open>
  The levels found so far: the predecessors of a node lie in earlier levels, and a node of a
  later level has a predecessor in the level just before, so no node waits longer than it has to.
\<close>

definition strata :: "FlowConnection list \<Rightarrow> string list list \<Rightarrow> bool" where
  "strata cs L \<longleftrightarrow> (\<forall>ls l rs. L = ls @ l # rs \<longrightarrow>
     (\<forall>v \<in> set l. (\<forall>u. (u, v) \<in> edges cs \<longrightarrow> u \<in> set (concat ls)) \<and>
        (ls \<noteq> [] \<longrightarrow> (\<exists>u \<in> set (last ls). (u, v) \<in> edges cs))))"

lemma strata_Nil [simp]: "strata cs []"
  by (simp add: strata_def)

lemma strata_snoc:
  "strata cs (L @ [l]) \<longleftrightarrow> strata cs L \<and>
     (\<forall>v \<in> set l. (\<forall>u. (u, v) \<in> edges cs \<longrightarrow> u \<in> set (concat L)) \<and>
        (L \<noteq> [] \<longrightarrow> (\<exists>u \<in> set (last L). (u, v) \<in> edges cs)))"
proof -
  have "(L @ [l] = ls @ l' # rs) \<longleftrightarrow>
      (rs = [] \<and> ls = L \<and> l' = l) \<or> (\<exists>zs. rs = zs @ [l] \<and> L = ls @ l' # zs)" for ls l' rs
    by (cases rs rule: rev_cases) auto
  then show ?thesis unfolding strata_def by (auto 0 3)
qed

lemma kahn_inv_perm:
  "kahn_inv cs K order q d \<Longrightarrow> set q' = set q \<Longrightarrow> distinct q' \<Longrightarrow> kahn_inv cs K order q' d"
  by (auto simp: kahn_inv_def)

lemma relax_prefix: "relax d q vs = (d', q') \<Longrightarrow> relax d (p @ q) vs = (d', p @ q')"
proof (induction d q vs rule: relax.induct)
  case (2 d q v vs)
  then show ?case by (cases "(d(v := d v - 1)) v = 0") (simp_all add: Let_def del: fun_upd_apply)
qed simp

lemma relax_level_inv:
  assumes "kahn_inv cs K order (us @ nxt) d" and "target ` set cs \<subseteq> K"
    and "relax_level cs d nxt us = (d', nxt')"
  shows "kahn_inv cs K (order @ us) nxt' d' \<and>
    (\<forall>v \<in> set nxt'. v \<in> set nxt \<or> (\<exists>u \<in> set us. (u, v) \<in> edges cs))"
  using assms
proof (induction us arbitrary: order nxt d)
  case (Cons u us)
  obtain d1 n1 where r: "relax d nxt (graph cs u) = (d1, n1)" by fastforce
  have "relax d (us @ nxt) (graph cs u) = (d1, us @ n1)" by (rule relax_prefix [OF r])
  with kahn_inv_step [of cs K order u "us @ nxt" d] Cons.prems(1,2)
  obtain new where inv: "kahn_inv cs K (order @ [u]) (us @ n1) d1"
    and new: "n1 = nxt @ new" "set new \<subseteq> {v. (u, v) \<in> edges cs}"
    by auto
  have "relax_level cs d1 n1 us = (d', nxt')" using Cons.prems(3) r by simp
  from Cons.IH [OF inv Cons.prems(2) this] new show ?case by auto
qed simp

lemma levels_loop_inv:
  assumes "kahn_inv cs K (concat acc) cur d" and "target ` set cs \<subseteq> K" and "strata cs acc"
    and "acc \<noteq> [] \<longrightarrow> (\<forall>v \<in> set cur. \<exists>u \<in> set (last acc). (u, v) \<in> edges cs)"
    and "[] \<notin> set acc"
  shows "\<exists>d'. kahn_inv cs K (concat (levels_loop h cs d cur acc)) [] d' \<and>
    strata cs (levels_loop h cs d cur acc) \<and> [] \<notin> set (levels_loop h cs d cur acc)"
  using assms
proof (induction h cs d cur acc rule: levels_loop.induct)
  case (1 h cs d cur acc)
  show ?case
  proof (cases "cur = []")
    case True
    with "1.prems" show ?thesis by (auto simp: levels_loop.simps)
  next
    case False
    obtain d1 nxt where r: "relax_level cs d [] cur = (d1, nxt)" by fastforce
    have "kahn_inv cs K (concat acc) (cur @ []) d" using "1.prems"(1) by simp
    from relax_level_inv [OF this "1.prems"(2) r]
    have inv: "kahn_inv cs K (concat (acc @ [cur])) (set_list h nxt) d1"
      and nxt: "\<forall>v \<in> set nxt. \<exists>u \<in> set cur. (u, v) \<in> edges cs"
      by (auto intro: kahn_inv_perm)
    have "strata cs (acc @ [cur])"
      using "1.prems" by (auto simp: strata_snoc kahn_inv_def pending_0_iff)
    with "1.IH" [OF False r [symmetric] inv "1.prems"(2)] nxt False "1.prems"(5)
    show ?thesis by (simp add: levels_loop.simps [of h cs d cur acc] r)
  qed
qed

section \<open>Soundness and completeness\<close>

definition closed_flow :: "FlowNode list \<Rightarrow> FlowConnection list \<Rightarrow> bool" where
  "closed_flow ns cs \<longleftrightarrow> (\<forall>c \<in> set cs. source c \<in> set (ids ns) \<and> target c \<in> set (ids ns))"

lemma topo_acyclic:
  assumes topo: "topo cs order" and cover: "target ` set cs \<subseteq> set order"
  shows "acyclic (edges cs)"
proof -
  define pos where "pos v = length (takeWhile (\<lambda>w. w \<noteq> v) order)" for v
  have "(u, v) \<in> measure pos" if uv: "(u, v) \<in> edges cs" for u v
  proof -
    from uv cover have "v \<in> set order" by (auto simp: edges_def)
    then obtain xs ys where o: "order = xs @ v # ys" and "v \<notin> set xs"
      by (meson split_list_first)
    then have "takeWhile (\<lambda>w. w \<noteq> v) xs = xs" by (auto simp: takeWhile_eq_all_conv)
    with o have "pos v = length xs" by (simp add: pos_def takeWhile_tail)
    moreover from topo o uv have "u \<in> set xs" by (auto simp: topo_def)
    then have "pos u < length xs" unfolding pos_def o
      by (metis (mono_tags, lifting) length_takeWhile_le le_neq_implies_less nth_mem
          takeWhile_append1 takeWhile_eq_all_conv takeWhile_eq_take take_all_iff nle_le)
    ultimately show ?thesis by simp
  qed
  then have "edges cs \<subseteq> measure pos" by auto
  then show ?thesis using wf_acyclic wf_measure wf_subset by blast
qed

lemma kahn_done:
  assumes inv: "kahn_inv cs K order [] d" and acyc: "acyclic (edges cs)"
    and src: "source ` set cs \<subseteq> K"
  shows "set order = K"
proof (rule ccontr)
  assume ne: "set order \<noteq> K"
  have "wf (edges cs)" using acyc by (auto intro: finite_acyclic_wf simp: edges_def)
  moreover from ne inv obtain x where "x \<in> K - set order" by (auto simp: kahn_inv_def)
  ultimately obtain z where z: "z \<in> K - set order" and min: "\<And>y. (y, z) \<in> edges cs \<Longrightarrow> y \<notin> K - set order"
    by (meson wfE_min)
  from min src have "\<forall>u. (u, z) \<in> edges cs \<longrightarrow> u \<in> set order"
    by (auto simp: edges_def)
  with inv have "d z = 0" by (simp add: kahn_inv_def pending_0_iff)
  with z inv show False by (auto simp: kahn_inv_def)
qed

text \<open>An incomplete source can never be processed, so its target stays out of the plan.\<close>

lemma kahn_cover_sources:
  assumes "kahn_inv cs K order [] d" and "set order = K" and "target ` set cs \<subseteq> K"
  shows "source ` set cs \<subseteq> K"
  using assms topo_pred [of cs order] by (force simp: kahn_inv_def edges_def)

text \<open>The plan covers every node exactly when the number of planned nodes is that of the flow's nodes.\<close>

lemma plan_length_iff:
  assumes "distinct order" and "set order \<subseteq> set (ids ns)"
  shows "length order = length ns \<longleftrightarrow> set order = set (ids ns) \<and> distinct (ids ns)"
  by (metis assms List.finite_set card_length card_subset_eq distinct_card card_distinct length_map
      card_mono order_antisym)

definition plan :: "FlowNode list \<Rightarrow> FlowConnection list \<Rightarrow> string list \<Rightarrow> bool" where
  "plan ns cs order \<longleftrightarrow> distinct (ids ns) \<and> closed_flow ns cs \<and> distinct order \<and>
     set order = set (ids ns) \<and> topo cs order"

lemma kahn_result_plan:
  assumes inv: "kahn_inv cs (set (ids ns)) order [] d" and tgt: "target ` set cs \<subseteq> set (ids ns)"
  shows "length order = length ns \<longleftrightarrow> plan ns cs order"
proof -
  from inv have o: "distinct order" "set order \<subseteq> set (ids ns)" "topo cs order"
    by (auto simp: kahn_inv_def)
  have "closed_flow ns cs" if "set order = set (ids ns)"
    using kahn_cover_sources [OF inv that tgt] tgt by (auto simp: closed_flow_def)
  then show ?thesis
    using plan_length_iff [OF o(1,2)] o by (auto simp: plan_def)
qed

lemma kahn_result_acyclic:
  assumes inv: "kahn_inv cs (set (ids ns)) order [] d"
    and dist: "distinct (ids ns)" and closed: "closed_flow ns cs"
  shows "plan ns cs order \<longleftrightarrow> acyclic (edges cs)"
proof
  assume "plan ns cs order"
  with closed show "acyclic (edges cs)"
    by (intro topo_acyclic [of cs order]) (auto simp: plan_def closed_flow_def)
next
  assume "acyclic (edges cs)"
  moreover from closed have "source ` set cs \<subseteq> set (ids ns)" by (auto simp: closed_flow_def)
  ultimately have "set order = set (ids ns)" by (rule kahn_done [OF inv])
  with inv dist closed show "plan ns cs order" by (auto simp: plan_def kahn_inv_def)
qed

definition kahn_order :: "FlowNode list \<Rightarrow> FlowConnection list \<Rightarrow> string list" where
  "kahn_order ns cs = kahn_loop cs (pending cs {}) (roots ns (pending cs {})) []"

definition kahn_levels ::
    "(string \<Rightarrow> nat) \<Rightarrow> FlowNode list \<Rightarrow> FlowConnection list \<Rightarrow> string list list" where
  "kahn_levels h ns cs = levels_loop h cs (pending cs {}) (roots ns (pending cs {})) []"

lemma initial_degrees_cases:
  obtains "target ` set cs \<subseteq> set (ids ns)" "initial_degrees ns cs = Inr (pending cs {})"
  | e where "\<not> target ` set cs \<subseteq> set (ids ns)" "initial_degrees ns cs = Inl e"
proof (cases "initial_degrees ns cs")
  case (Inl e)
  then have "\<not> target ` set cs \<subseteq> set (ids ns)"
    using initial_degrees_spec [of ns cs "pending cs {}"] by auto
  with Inl that(2) show ?thesis by blast
next
  case (Inr d)
  with initial_degrees_spec [of ns cs d] that(1) show ?thesis by auto
qed

lemma get_execution_order_iff:
  "get_execution_order ns cs = Inr order \<longleftrightarrow>
   target ` set cs \<subseteq> set (ids ns) \<and> length (kahn_order ns cs) = length ns \<and> order = kahn_order ns cs"
  by (rule initial_degrees_cases [of cs ns])
    (auto simp: get_execution_order_def kahn_order_def Let_def)

lemma get_execution_levels_iff:
  "get_execution_levels h ns cs = Inr L \<longleftrightarrow>
   target ` set cs \<subseteq> set (ids ns) \<and> length (concat (kahn_levels h ns cs)) = length ns \<and>
   L = kahn_levels h ns cs"
  by (rule initial_degrees_cases [of cs ns])
    (auto simp: get_execution_levels_def kahn_levels_def Let_def length_concat)

lemma closed_flow_degrees: "closed_flow ns cs \<Longrightarrow> initial_degrees ns cs = Inr (pending cs {})"
  by (rule initial_degrees_cases [of cs ns]) (auto simp: closed_flow_def)

lemma get_execution_levels_cases:
  "closed_flow ns cs \<Longrightarrow> (\<exists>L. get_execution_levels h ns cs = Inr L) \<or>
     (\<exists>m. get_execution_levels h ns cs = Inl (ValueError m))"
  by (simp add: get_execution_levels_def closed_flow_degrees Let_def)

lemma get_execution_order_cases:
  "closed_flow ns cs \<Longrightarrow> (\<exists>L. get_execution_order ns cs = Inr L) \<or>
     (\<exists>m. get_execution_order ns cs = Inl (ValueError m))"
  by (simp add: get_execution_order_def closed_flow_degrees Let_def)

lemma kahn_order_inv:
  "target ` set cs \<subseteq> set (ids ns) \<Longrightarrow> \<exists>d. kahn_inv cs (set (ids ns)) (kahn_order ns cs) [] d"
  unfolding kahn_order_def by (rule kahn_loop_inv [OF kahn_inv_initial])

lemma kahn_levels_inv:
  assumes "target ` set cs \<subseteq> set (ids ns)"
  shows "\<exists>d. kahn_inv cs (set (ids ns)) (concat (kahn_levels h ns cs)) [] d \<and>
    strata cs (kahn_levels h ns cs) \<and> [] \<notin> set (kahn_levels h ns cs)"
  unfolding kahn_levels_def
  by (rule levels_loop_inv) (use assms kahn_inv_initial [of cs ns] in auto)

lemma closed_flow_targets: "closed_flow ns cs \<Longrightarrow> target ` set cs \<subseteq> set (ids ns)"
  by (auto simp: closed_flow_def)

lemma execution_order_plan: "get_execution_order ns cs = Inr order \<Longrightarrow> plan ns cs order"
  unfolding get_execution_order_iff using kahn_order_inv kahn_result_plan by blast

lemma execution_levels_plan:
  "get_execution_levels h ns cs = Inr L \<Longrightarrow> plan ns cs (concat L) \<and> strata cs L \<and> [] \<notin> set L"
  unfolding get_execution_levels_iff using kahn_levels_inv kahn_result_plan by metis

lemma execution_order_acyclic:
  assumes "distinct (ids ns)" and "closed_flow ns cs"
  shows "(\<exists>order. get_execution_order ns cs = Inr order) \<longleftrightarrow> acyclic (edges cs)"
proof -
  note tgt = closed_flow_targets [OF assms(2)]
  obtain d where inv: "kahn_inv cs (set (ids ns)) (kahn_order ns cs) [] d"
    using kahn_order_inv [OF tgt] by blast
  show ?thesis
    using kahn_result_plan [OF inv tgt] kahn_result_acyclic [OF inv assms] tgt
    by (simp add: get_execution_order_iff)
qed

lemma execution_levels_acyclic:
  assumes "distinct (ids ns)" and "closed_flow ns cs"
  shows "(\<exists>L. get_execution_levels h ns cs = Inr L) \<longleftrightarrow> acyclic (edges cs)"
proof -
  note tgt = closed_flow_targets [OF assms(2)]
  obtain d where inv: "kahn_inv cs (set (ids ns)) (concat (kahn_levels h ns cs)) [] d"
    using kahn_levels_inv [OF tgt] by blast
  show ?thesis
    using kahn_result_plan [OF inv tgt] kahn_result_acyclic [OF inv assms] tgt
    by (simp add: get_execution_levels_iff)
qed

section \<open>Properties\<close>

lemma sample_levels:
  "get_execution_levels (\<lambda>_. 0) sample_nodes sample_conns = Inr [[''s''], [''c'', ''b'']]"
  by code_simp

lemma sample_closed [simp]: "closed_flow sample_nodes sample_conns"
  by code_simp

text \<open>
  C1: The levels of \<open>get_execution_levels\<close> are a partition of the flow's nodes into non-empty
  groups: every node occurs exactly once, all predecessors of a node lie in earlier levels, and
  a node that is not in the first level has a predecessor in the level just before its own, so
  no node is started later than its inputs force it to.
\<close>

theorem levels_partition_flow:
  assumes "get_execution_levels h ns cs = Inr L"
  shows "distinct (concat L) \<and> set (concat L) = set (ids ns) \<and> length (concat L) = length ns \<and>
    [] \<notin> set L \<and>
    (\<forall>ls l rs v. L = ls @ l # rs \<longrightarrow> v \<in> set l \<longrightarrow>
       (\<forall>u. (u, v) \<in> edges cs \<longrightarrow> u \<in> set (concat ls)) \<and>
       (ls \<noteq> [] \<longrightarrow> (\<exists>u \<in> set (last ls). (u, v) \<in> edges cs)))"
proof -
  from execution_levels_plan [OF assms] have p: "plan ns cs (concat L)" and s: "strata cs L" "[] \<notin> set L"
    by auto
  have "length (concat L) = length ns" using assms by (auto simp: get_execution_levels_iff)
  with p s show ?thesis unfolding plan_def strata_def by blast
qed

theorem levels_partition_flow_witness:
  "set (concat [[''s''], [''c'', ''b'']]) = set (ids sample_nodes)"
  using levels_partition_flow [OF sample_levels] by blast

text \<open>
  C2: The two planners accept the same flows.  On a flow without duplicate node ids whose
  connections name existing nodes, they accept it exactly when it has no cycle, and reject it
  with \<open>ValueError\<close> otherwise.
\<close>

theorem planners_accept_acyclic:
  assumes "distinct (ids ns)" and "closed_flow ns cs"
  shows "((\<exists>order. get_execution_order ns cs = Inr order) \<longleftrightarrow> acyclic (edges cs)) \<and>
    ((\<exists>L. get_execution_levels h ns cs = Inr L) \<longleftrightarrow> acyclic (edges cs)) \<and>
    (\<not> acyclic (edges cs) \<longrightarrow> (\<exists>m m'. get_execution_order ns cs = Inl (ValueError m) \<and>
       get_execution_levels h ns cs = Inl (ValueError m')))"
  using execution_order_acyclic [OF assms] execution_levels_acyclic [OF assms, of h]
    get_execution_order_cases [OF assms(2)] get_execution_levels_cases [OF assms(2), of h]
  by blast

theorem planners_accept_acyclic_witness:
  "(\<exists>order. get_execution_order sample_nodes sample_conns = Inr order) \<longleftrightarrow> acyclic (edges sample_conns)"
  by (rule conjunct1 [OF planners_accept_acyclic]) simp_all

end
