(* ===== verification/FlowCycles.thy ===== *)
theory FlowCycles
  imports FlowOrder
begin

text \<open>
  \<open>_detect_circular_dependencies\<close> of \<open>FlowValidator\<close>: a depth-first search with the visit
  states 0 (unvisited), 1 (visiting) and 2 (visited).  The first argument of \<open>dfs\<close> is the
  number of stack frames the interpreter still allows, so that running out is the
  \<open>RecursionError\<close> Python raises; \<open>dfs_outcome\<close> shows that one frame more than the flow has
  nodes is enough.
\<close>

section \<open>The search\<close>

text \<open>\<open>path.index(x)\<close>.\<close>

definition index_of :: "string list \<Rightarrow> string \<Rightarrow> nat" where
  "index_of xs x = length (takeWhile (\<lambda>y. y \<noteq> x) xs)"

text \<open>
  The result is \<open>Some cycle_nodes\<close> when a cycle is found and \<open>None\<close> otherwise, with the
  visit states.  \<open>path\<close> is the shared list: a call that returns \<open>False\<close> has popped what it
  pushed, so the caller goes on with the path it had.
\<close>

function dfs ::
    "nat \<Rightarrow> FlowConnection list \<Rightarrow> (string \<rightharpoonup> nat) \<Rightarrow> string list \<Rightarrow> string \<Rightarrow>
     py_error + (string list option \<times> (string \<rightharpoonup> nat))"
  and dfs_list ::
    "nat \<Rightarrow> FlowConnection list \<Rightarrow> (string \<rightharpoonup> nat) \<Rightarrow> string list \<Rightarrow> string list \<Rightarrow>
     py_error + (string list option \<times> (string \<rightharpoonup> nat))" where
  "dfs 0 cs vs path n = Inl RecursionError"
| "dfs (Suc k) cs vs path n =
     (case vs n of
        None \<Rightarrow> Inl (KeyError n)
      | Some st \<Rightarrow>
          if st = 1 then
            (if n \<in> set path then Inr (Some (drop (index_of path n) path), vs)
             else Inl (ValueError ''not in list''))
          else if st = 2 then Inr (None, vs)
          else (case dfs_list k cs (vs(n \<mapsto> 1)) (path @ [n]) (graph cs n) of
                  Inl e \<Rightarrow> Inl e
                | Inr (Some cyc, vs') \<Rightarrow> Inr (Some cyc, vs')
                | Inr (None, vs') \<Rightarrow> Inr (None, vs'(n \<mapsto> 2))))"
| "dfs_list k cs vs path [] = Inr (None, vs)"
| "dfs_list k cs vs path (m # ms) =
     (case dfs k cs vs path m of
        Inl e \<Rightarrow> Inl e
      | Inr (Some cyc, vs') \<Rightarrow> Inr (Some cyc, vs')
      | Inr (None, vs') \<Rightarrow> dfs_list k cs vs' path ms)"
  by pat_completeness auto
termination
  by (relation "measures [\<lambda>x. case x of Inl (k, _) \<Rightarrow> k | Inr (k, _) \<Rightarrow> k,
      \<lambda>x. case x of Inl _ \<Rightarrow> 0 | Inr (_, _, _, _, ms) \<Rightarrow> Suc (length ms)]") auto

text \<open>The outer loop over all nodes.\<close>

fun detect_loop ::
    "nat \<Rightarrow> FlowConnection list \<Rightarrow> (string \<rightharpoonup> nat) \<Rightarrow> string list \<Rightarrow> py_error + (bool \<times> string list)" where
  "detect_loop k cs vs [] = Inr (False, [])"
| "detect_loop k cs vs (n # ns) =
     (if vs n = Some 0 then
        (case dfs k cs vs [] n of
           Inl e \<Rightarrow> Inl e
         | Inr (Some cyc, vs') \<Rightarrow> Inr (True, cyc)
         | Inr (None, vs') \<Rightarrow> detect_loop k cs vs' ns)
      else detect_loop k cs vs ns)"

definition initial_visit :: "FlowNode list \<Rightarrow> string \<rightharpoonup> nat" where
  "initial_visit ns = (\<lambda>v. if v \<in> set (ids ns) then Some 0 else None)"

definition detect_circular_dependencies ::
    "nat \<Rightarrow> FlowNode list \<Rightarrow> FlowConnection list \<Rightarrow> py_error + (bool \<times> string list)" where
  "detect_circular_dependencies limit ns cs = detect_loop limit cs (initial_visit ns) (ids ns)"

section \<open>The invariant of the search\<close>

abbreviation white :: "(string \<rightharpoonup> nat) \<Rightarrow> string set" where
  "white vs \<equiv> {v. vs v = Some 0}"

abbreviation grey :: "(string \<rightharpoonup> nat) \<Rightarrow> string set" where
  "grey vs \<equiv> {v. vs v = Some 1}"

abbreviation black :: "(string \<rightharpoonup> nat) \<Rightarrow> string set" where
  "black vs \<equiv> {v. vs v = Some 2}"

text \<open>Consecutive nodes of the list are connected.\<close>

fun chain :: "FlowConnection list \<Rightarrow> string list \<Rightarrow> bool" where
  "chain cs (x # y # xs) = ((x, y) \<in> edges cs \<and> chain cs (y # xs))"
| "chain cs _ = True"

text \<open>A chain that closes on itself.\<close>

definition cycle :: "FlowConnection list \<Rightarrow> string list \<Rightarrow> bool" where
  "cycle cs c \<longleftrightarrow> c \<noteq> [] \<and> distinct c \<and> chain cs c \<and> (last c, hd c) \<in> edges cs"

definition dfs_inv ::
    "FlowConnection list \<Rightarrow> string set \<Rightarrow> (string \<rightharpoonup> nat) \<Rightarrow> string list \<Rightarrow> bool" where
  "dfs_inv cs K vs path \<longleftrightarrow>
     dom vs = K \<and> ran vs \<subseteq> {0, 1, 2} \<and> grey vs = set path \<and> distinct path \<and> chain cs path \<and>
     (\<forall>b \<in> black vs. \<forall>v. (b, v) \<in> edges cs \<longrightarrow> v \<in> black vs) \<and>
     (\<forall>b \<in> black vs. (b, b) \<notin> (edges cs)\<^sup>+)"

text \<open>What a call guarantees: enough frames, a real cycle, or all of its targets finished.\<close>

definition dfs_post ::
    "FlowConnection list \<Rightarrow> string set \<Rightarrow> (string \<rightharpoonup> nat) \<Rightarrow> string list \<Rightarrow> string set \<Rightarrow>
     py_error + (string list option \<times> (string \<rightharpoonup> nat)) \<Rightarrow> bool" where
  "dfs_post cs K vs path T r \<longleftrightarrow>
     (case r of
        Inl e \<Rightarrow> False
      | Inr (Some c, vs') \<Rightarrow> cycle cs c
      | Inr (None, vs') \<Rightarrow> dfs_inv cs K vs' path \<and> T \<subseteq> black vs' \<and>
          black vs \<subseteq> black vs' \<and> white vs' \<subseteq> white vs)"

lemma dfs_post_simps [simp]:
  "dfs_post cs K vs path T (Inl e) \<longleftrightarrow> False"
  "dfs_post cs K vs path T (Inr (Some c, vs')) \<longleftrightarrow> cycle cs c"
  "dfs_post cs K vs path T (Inr (None, vs')) \<longleftrightarrow> dfs_inv cs K vs' path \<and> T \<subseteq> black vs' \<and>
     black vs \<subseteq> black vs' \<and> white vs' \<subseteq> white vs"
  by (simp_all add: dfs_post_def)

lemma dfs_postE:
  assumes "dfs_post cs K vs path T r"
  obtains c vs' where "r = Inr (Some c, vs')" "cycle cs c"
  | vs' where "r = Inr (None, vs')" "dfs_inv cs K vs' path" "T \<subseteq> black vs'"
      "black vs \<subseteq> black vs'" "white vs' \<subseteq> white vs"
proof (cases r)
  case (Inl e)
  with assms show ?thesis by simp
next
  case (Inr p)
  obtain o' vs' where "p = (o', vs')" by fastforce
  with Inr assms that show ?thesis by (cases o') auto
qed

lemma chain_append:
  "chain cs (xs @ ys) \<longleftrightarrow> chain cs xs \<and> chain cs ys \<and>
     (xs \<noteq> [] \<longrightarrow> ys \<noteq> [] \<longrightarrow> (last xs, hd ys) \<in> edges cs)"
proof (induction xs)
  case (Cons x xs)
  then show ?case by (cases xs; cases ys) auto
qed simp

lemma drop_index_of:
  assumes "n \<in> set path"
  shows "\<exists>xs ys. path = xs @ n # ys \<and> drop (index_of path n) path = n # ys"
proof -
  obtain xs ys where p: "path = xs @ n # ys" and "n \<notin> set xs"
    using assms by (meson split_list_first)
  then have "takeWhile (\<lambda>y. y \<noteq> n) xs = xs" by (auto simp: takeWhile_eq_all_conv)
  with p have "index_of path n = length xs" by (simp add: index_of_def takeWhile_tail)
  with p show ?thesis by auto
qed

lemma closing_cycle:
  assumes "chain cs path" and "distinct path" and "n \<in> set path" and "(last path, n) \<in> edges cs"
  shows "cycle cs (drop (index_of path n) path)"
proof -
  obtain xs ys where p: "path = xs @ n # ys" and d: "drop (index_of path n) path = n # ys"
    using drop_index_of [OF assms(3)] by blast
  with assms show ?thesis by (simp add: cycle_def chain_append)
qed

text \<open>Nodes reachable from a black node are black.\<close>

lemma black_reach:
  assumes "(x, y) \<in> (edges cs)\<^sup>*" and "dfs_inv cs K vs path" and "x \<in> black vs"
  shows "y \<in> black vs"
  using assms by (induction rule: rtrancl_induct) (auto simp: dfs_inv_def)

lemma dfs_inv_greyD: "dfs_inv cs K vs path \<Longrightarrow> vs n = Some 1 \<longleftrightarrow> n \<in> set path"
  unfolding dfs_inv_def by blast

lemma dfs_inv_push:
  assumes "dfs_inv cs K vs path" and "vs n = Some 0" and "path \<noteq> [] \<longrightarrow> (last path, n) \<in> edges cs"
  shows "dfs_inv cs K (vs(n \<mapsto> 1)) (path @ [n])"
proof -
  have "n \<notin> set path" using dfs_inv_greyD [OF assms(1), of n] assms(2) by simp
  moreover have "black (vs(n \<mapsto> 1)) = black vs" using assms(2) by auto
  moreover have "grey (vs(n \<mapsto> 1)) = insert n (grey vs)" by auto
  moreover have "ran (vs(n \<mapsto> 1)) \<subseteq> {0, 1, 2}"
    using assms(1) by (auto simp: dfs_inv_def ran_def)
  moreover have "n \<in> K" using assms(1,2) by (auto simp: dfs_inv_def)
  ultimately show ?thesis
    using assms by (simp add: dfs_inv_def chain_append insert_absorb)
qed

lemma dfs_inv_pop:
  assumes inv: "dfs_inv cs K vs (path @ [n])" and succ: "{v. (n, v) \<in> edges cs} \<subseteq> black vs"
  shows "dfs_inv cs K (vs(n \<mapsto> 2)) path"
proof -
  have grey: "vs n = Some 1" using inv by (auto simp: dfs_inv_def)
  have n: "n \<notin> set path" "n \<in> K" using inv grey by (auto simp: dfs_inv_def)
  have black: "black (vs(n \<mapsto> 2)) = insert n (black vs)" by auto
  have "grey (vs(n \<mapsto> 2)) = grey vs - {n}" by auto
  with inv n have grey': "grey (vs(n \<mapsto> 2)) = set path" by (auto simp: dfs_inv_def)
  have "(n, n) \<notin> (edges cs)\<^sup>+"
  proof
    assume "(n, n) \<in> (edges cs)\<^sup>+"
    then obtain v where "(n, v) \<in> edges cs" "(v, n) \<in> (edges cs)\<^sup>*"
      by (meson tranclD)
    with succ black_reach [OF _ inv] have "n \<in> black vs" by blast
    with grey show False by simp
  qed
  moreover have "ran (vs(n \<mapsto> 2)) \<subseteq> {0, 1, 2}"
    using inv by (auto simp: dfs_inv_def ran_def)
  ultimately show ?thesis
    unfolding dfs_inv_def black grey' using inv n succ
    by (auto simp: dfs_inv_def chain_append)
qed

section \<open>The outcome of the search\<close>

lemma dfs_outcome:
  shows "dfs_inv cs K vs path \<Longrightarrow> target ` set cs \<subseteq> K \<Longrightarrow> finite K \<Longrightarrow> n \<in> K \<Longrightarrow>
      (path \<noteq> [] \<longrightarrow> (last path, n) \<in> edges cs) \<Longrightarrow> (path = [] \<longrightarrow> vs n = Some 0) \<Longrightarrow>
      card (white vs) < k \<Longrightarrow> dfs_post cs K vs path {n} (dfs k cs vs path n)"
    and "dfs_inv cs K vs path \<Longrightarrow> target ` set cs \<subseteq> K \<Longrightarrow> finite K \<Longrightarrow> path \<noteq> [] \<Longrightarrow>
      (\<forall>m \<in> set ms. (last path, m) \<in> edges cs) \<Longrightarrow>
      card (white vs) < k \<Longrightarrow> dfs_post cs K vs path (set ms) (dfs_list k cs vs path ms)"
proof (induction k cs vs path n and k cs vs path ms rule: dfs_dfs_list.induct)
  case (2 k cs vs path n)
  from "2.prems"(1,4) obtain st where st: "vs n = Some st" "st \<in> {0, 1, 2}"
    by (fastforce simp: dfs_inv_def ran_def dom_def)
  consider "st = 1" | "st = 2" | "st = 0" using st(2) by auto
  then show ?case
  proof cases
    case 1
    then have "n \<in> set path" using st "2.prems"(1) by (auto simp: dfs_inv_def)
    moreover from this have "path \<noteq> []" by auto
    ultimately show ?thesis using "2.prems" st 1
      by (auto simp: dfs_inv_def intro!: closing_cycle)
  next
    case 2
    then show ?thesis using "2.prems"(1) st by simp
  next
    case 3
    let ?vs = "vs(n \<mapsto> 1)"
    have fin: "finite (white vs)"
      by (rule finite_subset [of _ K]) (use "2.prems"(1,3) in \<open>auto simp: dfs_inv_def\<close>)
    have "white ?vs \<subset> white vs" using st(1) 3 by auto
    then have "card (white ?vs) < card (white vs)" by (rule psubset_card_mono [OF fin])
    then have card: "card (white ?vs) < k" using "2.prems"(7) by simp
    have push: "dfs_inv cs K ?vs (path @ [n])"
      using dfs_inv_push "2.prems"(1,5) st(1) 3 by blast
    have "dfs_post cs K ?vs (path @ [n]) (set (graph cs n)) (dfs_list k cs ?vs (path @ [n]) (graph cs n))"
      using 2(1) [OF st(1) _ _ push "2.prems"(2,3) _ _ card] 3
      by (simp add: set_graph del: fun_upd_apply)
    then show ?thesis
    proof (cases rule: dfs_postE)
      case (1 c vs')
      then show ?thesis using st 3 by simp
    next
      case (2 vs')
      have "dfs_inv cs K (vs'(n \<mapsto> 2)) path"
        using dfs_inv_pop [OF 2(2)] 2(3) by (simp add: set_graph)
      moreover have "black vs \<subseteq> black (vs'(n \<mapsto> 2))" using 2(4) st 3 by auto
      moreover have "white (vs'(n \<mapsto> 2)) \<subseteq> white vs" using 2(5) by (auto split: if_splits)
      ultimately show ?thesis using 2(1) st 3 by simp
    qed
  qed
next
  case (4 k cs vs path m ms)
  have "m \<in> K" using "4.prems"(2,5) by (auto simp: edges_def)
  with 4(1) "4.prems" have "dfs_post cs K vs path {m} (dfs k cs vs path m)" by simp
  then show ?case
  proof (cases rule: dfs_postE)
    case (1 c vs')
    then show ?thesis by simp
  next
    case (2 vs')
    have "finite (white vs)"
      by (rule finite_subset [of _ K]) (use "4.prems"(1,3) in \<open>auto simp: dfs_inv_def\<close>)
    then have "card (white vs') < k" using card_mono [OF _ 2(5)] "4.prems"(6) by simp
    with 4(2) [OF 2(1) refl refl 2(2) "4.prems"(2,3,4)] "4.prems"(5)
    have "dfs_post cs K vs' path (set ms) (dfs_list k cs vs' path ms)" by simp
    then show ?thesis by (cases rule: dfs_postE) (use 2 in auto)
  qed
qed auto

section \<open>The outer loop\<close>

lemma cycle_not_acyclic:
  assumes "cycle cs c"
  shows "\<not> acyclic (edges cs)"
proof -
  have reach: "(hd xs, last xs) \<in> (edges cs)\<^sup>*" if "chain cs xs" "xs \<noteq> []" for xs
    using that by (induction cs xs rule: chain.induct) (auto intro: converse_rtrancl_into_rtrancl)
  with assms have "(hd c, hd c) \<in> (edges cs)\<^sup>+"
    by (auto simp: cycle_def intro: rtrancl_into_trancl1)
  then show ?thesis by (auto simp: acyclic_def)
qed

lemma all_black_acyclic:
  assumes "dfs_inv cs K vs path" and "source ` set cs \<subseteq> black vs"
  shows "acyclic (edges cs)"
proof (rule acyclicI, rule allI, rule notI)
  fix x assume "(x, x) \<in> (edges cs)\<^sup>+"
  moreover from this have "x \<in> source ` set cs" by (auto dest!: tranclD simp: edges_def)
  ultimately show False using assms by (auto simp: dfs_inv_def)
qed

lemma detect_loop_outcome:
  assumes "dfs_inv cs K vs []" and "target ` set cs \<subseteq> K" and "source ` set cs \<subseteq> K"
    and "finite K" and "set xs \<subseteq> K" and "K \<subseteq> black vs \<union> set xs" and "card (white vs) < k"
  shows "(\<exists>c. detect_loop k cs vs xs = Inr (True, c) \<and> cycle cs c) \<or>
    (detect_loop k cs vs xs = Inr (False, []) \<and> acyclic (edges cs))"
  using assms
proof (induction k cs vs xs rule: detect_loop.induct)
  case (1 k cs vs)
  then show ?case using all_black_acyclic [OF "1.prems"(1)] by auto
next
  case (2 k cs vs n ns)
  show ?case
  proof (cases "vs n = Some 0")
    case True
    have "dfs_post cs K vs [] {n} (dfs k cs vs [] n)"
      using dfs_outcome(1) "2.prems" True by simp
    then show ?thesis
    proof (cases rule: dfs_postE)
      case (1 c vs')
      with True show ?thesis by simp
    next
      case (2 vs')
      have "finite (white vs)"
        by (rule finite_subset [of _ K]) (use "2.prems"(1,4) in \<open>auto simp: dfs_inv_def\<close>)
      then have "card (white vs') < k" using card_mono [OF _ 2(5)] "2.prems"(7) by simp
      moreover have "K \<subseteq> black vs' \<union> set ns" using "2.prems"(6) 2(3,4) by auto
      ultimately show ?thesis
        using "2.IH"(1) [OF True 2(1) refl refl 2(2)] "2.prems" True 2(1) by simp
    qed
  next
    case False
    have "vs n = Some 0 \<or> vs n = Some 1 \<or> vs n = Some 2"
      using "2.prems"(1,5) by (fastforce simp: dfs_inv_def ran_def dom_def)
    with False dfs_inv_greyD [OF "2.prems"(1), of n] have "n \<in> black vs" by auto
    then have "K \<subseteq> black vs \<union> set ns" using "2.prems"(6) by auto
    with "2.IH"(2) [OF False "2.prems"(1-4)] "2.prems"(5,7) False show ?thesis by simp
  qed
qed

lemma detect_outcome:
  assumes closed: "closed_flow ns cs" and limit: "length ns < limit"
  shows "(\<exists>c. detect_circular_dependencies limit ns cs = Inr (True, c) \<and> cycle cs c) \<or>
    (detect_circular_dependencies limit ns cs = Inr (False, []) \<and> acyclic (edges cs))"
proof -
  have white: "white (initial_visit ns) = set (ids ns)" by (auto simp: initial_visit_def)
  have "card (set (ids ns)) \<le> length ns" by (metis card_length length_map)
  with limit white have "card (white (initial_visit ns)) < limit" by simp
  moreover have "dfs_inv cs (set (ids ns)) (initial_visit ns) []"
    by (auto simp: dfs_inv_def initial_visit_def ran_def dom_def split: if_splits)
  ultimately show ?thesis unfolding detect_circular_dependencies_def
    using closed by (intro detect_loop_outcome) (auto simp: closed_flow_def)
qed

lemma detect_iff_acyclic:
  assumes "closed_flow ns cs" and "length ns < limit"
  shows "detect_circular_dependencies limit ns cs = Inr (False, []) \<longleftrightarrow> acyclic (edges cs)"
  using detect_outcome [OF assms] cycle_not_acyclic by auto

section \<open>Properties\<close>

text \<open>
  C3: On connections between existing nodes, and with one stack frame more than the flow has
  nodes, the depth-first search returns without an exception; it reports a cycle exactly when
  the flow has one, and the reported node list is such a cycle: distinct nodes, each connected
  to the next and the last to the first.
\<close>

theorem detection_is_exact:
  assumes "closed_flow ns cs" and "length ns < limit"
  shows "\<exists>found c. detect_circular_dependencies limit ns cs = Inr (found, c) \<and>
    (found \<longleftrightarrow> \<not> acyclic (edges cs)) \<and> (found \<longrightarrow> cycle cs c) \<and> (\<not> found \<longrightarrow> c = [])"
  using detect_outcome [OF assms] cycle_not_acyclic by blast

theorem detection_is_exact_witness:
  "\<exists>found c. detect_circular_dependencies 4 sample_nodes (sample_conn ''c'' ''s'' # sample_conns) = Inr (found, c) \<and>
    (found \<longrightarrow> cycle (sample_conn ''c'' ''s'' # sample_conns) c)"
proof -
  have "closed_flow sample_nodes (sample_conn ''c'' ''s'' # sample_conns)" by code_simp
  from detection_is_exact [OF this, of 4] show ?thesis by (auto simp: sample_nodes_def)
qed

end
