(* ===== verification/FlowValidator.thy ===== *)
theory FlowValidator
  imports FlowCycles
begin

text \<open>
  \<open>FlowValidator.validate_flow\<close> and its helpers (\<open>app/services/flows/validator.py\<close>), with
  the errors and warnings in the order the code appends them.
\<close>

section \<open>Rules on single nodes and connections\<close>

text \<open>\<open>self.valid_connections\<close>: which node types may follow which.\<close>

fun valid_connections :: "NodeType \<Rightarrow> NodeType list" where
  "valid_connections SOURCE = [CHECK, FILTER, JOIN, TRANSFORM]"
| "valid_connections CHECK = [AGGREGATE]"
| "valid_connections FILTER = [CHECK, FILTER, TRANSFORM]"
| "valid_connections JOIN = [CHECK, FILTER, TRANSFORM]"
| "valid_connections TRANSFORM = [CHECK, FILTER, TRANSFORM]"
| "valid_connections AGGREGATE = []"

definition flow_error :: "string \<Rightarrow> string \<Rightarrow> ValidationError" where
  "flow_error t m = \<lparr>err_type = t, message = m, err_node_id = None, err_connection_id = None\<rparr>"

definition node_error :: "string \<Rightarrow> string \<Rightarrow> string \<Rightarrow> ValidationError" where
  "node_error t m n = \<lparr>err_type = t, message = m, err_node_id = Some n, err_connection_id = None\<rparr>"

definition conn_error :: "string \<Rightarrow> string \<Rightarrow> string \<Rightarrow> ValidationError" where
  "conn_error t m c = \<lparr>err_type = t, message = m, err_node_id = None, err_connection_id = Some c\<rparr>"

text \<open>\<open>_validate_node_config\<close>.\<close>

definition validate_node_config :: "FlowNode \<Rightarrow> ValidationError list" where
  "validate_node_config n =
     (let nid = node_id n; cfg = config n;
          err = (\<lambda>m. [node_error ''incomplete_config'' m nid])
      in case node_type n of
        SOURCE \<Rightarrow>
          (if cfg = [] then err (''Source node '' @ [CHR 0x27] @ nid @ [CHR 0x27] @ '' has no configuration'')
           else if \<not> has_key cfg ''data_source_id'' \<and> \<not> has_key cfg ''dataset_id''
                 \<and> \<not> has_key cfg ''file_path'' \<and> \<not> has_key cfg ''file_id''
           then err (''Source node '' @ [CHR 0x27] @ nid @ [CHR 0x27] @
                     '' must specify data_source_id, dataset_id, file_path, or file_id'')
           else [])
      | CHECK \<Rightarrow>
          (if checkType n = None \<or> checkType n = Some []
           then err (''Check node '' @ [CHR 0x27] @ nid @ [CHR 0x27] @ '' must specify checkType'') else []) @
          (if cfg = []
           then err (''Check node '' @ [CHR 0x27] @ nid @ [CHR 0x27] @ '' has no configuration'') else [])
      | JOIN \<Rightarrow>
          (if cfg = [] then err (''Join node '' @ [CHR 0x27] @ nid @ [CHR 0x27] @ '' has no configuration'')
           else if \<not> has_key cfg ''join_type'' \<or> \<not> has_key cfg ''left_key'' \<or> \<not> has_key cfg ''right_key''
           then err (''Join node '' @ [CHR 0x27] @ nid @ [CHR 0x27] @
                     '' must specify join_type, left_key, and right_key'')
           else [])
      | FILTER \<Rightarrow>
          (if cfg = [] \<or> \<not> has_key cfg ''expression''
           then err (''Filter node '' @ [CHR 0x27] @ nid @ [CHR 0x27] @ '' must specify filter expression'')
           else [])
      | _ \<Rightarrow> [])"

text \<open>\<open>_find_orphaned_nodes\<close>; the result is a set, iterated in the order of rank \<open>h\<close>.\<close>

definition find_orphaned_nodes ::
    "(string \<Rightarrow> nat) \<Rightarrow> FlowNode list \<Rightarrow> FlowConnection list \<Rightarrow> string list" where
  "find_orphaned_nodes h ns cs =
     set_list h (filter (\<lambda>v. v \<notin> set (map source cs) \<and> v \<notin> set (map target cs)) (ids ns))"

text \<open>\<open>_validate_connection_compatibility\<close>.\<close>

definition validate_connection_compatibility ::
    "FlowNode list \<Rightarrow> FlowConnection list \<Rightarrow> ValidationError list" where
  "validate_connection_compatibility ns cs =
     concat (map (\<lambda>c.
       case (node_dict ns (source c), node_dict ns (target c)) of
         (Some s, Some t) \<Rightarrow>
           if node_type t \<notin> set (valid_connections (node_type s))
           then [conn_error ''invalid_connection_type''
                   (''Cannot connect '' @ node_type_value (node_type s) @ '' node to '' @
                    node_type_value (node_type t) @ '' node'') (conn_id c)]
           else []
       | _ \<Rightarrow> []) cs)"

section \<open>The whole validation\<close>

text \<open>Step 3: the connections that reference an unknown node, with the error each gets.\<close>

definition reference_error :: "FlowNode list \<Rightarrow> FlowConnection \<Rightarrow> ValidationError option" where
  "reference_error ns c =
     (if source c \<notin> set (ids ns)
      then Some (conn_error ''invalid_connection''
             (''Connection references non-existent source node: '' @ source c) (conn_id c))
      else if target c \<notin> set (ids ns)
      then Some (conn_error ''invalid_connection''
             (''Connection references non-existent target node: '' @ target c) (conn_id c))
      else None)"

text \<open>In the non-strict mode an error becomes a warning with a longer message.\<close>

definition suffix_message :: "string \<Rightarrow> ValidationError \<Rightarrow> ValidationError" where
  "suffix_message m e = e\<lparr>message := message e @ m\<rparr>"

text \<open>Step 8: a check node needs an incoming connection.\<close>

definition check_without_source ::
    "bool \<Rightarrow> FlowConnection list \<Rightarrow> FlowNode \<Rightarrow> ValidationError list" where
  "check_without_source strict cs n =
     (if target ` set cs \<inter> {node_id n} \<noteq> {} then []
      else [node_error ''check_without_source''
             (''Check node '' @ [CHR 0x27] @ node_id n @ [CHR 0x27] @ '' has no input connection'' @
              (if strict then '''' else '' (connect before executing)'')) (node_id n)])"

definition empty_flow_response :: FlowValidationResponse where
  "empty_flow_response = \<lparr>is_valid = True, errors = [],
     warnings = [flow_error ''empty_flow'' ''Flow is empty - add nodes to make it functional''],
     node_count = 0, connection_count = 0, has_source = False, has_checks = False,
     has_circular_dependencies = False\<rparr>"

text \<open>
  \<open>validate_flow\<close>: \<open>h\<close> is the iteration order of the orphan set, \<open>limit\<close> the stack frames
  left for the depth-first search.
\<close>

definition validate_flow ::
    "(string \<Rightarrow> nat) \<Rightarrow> nat \<Rightarrow> FlowDefinition \<Rightarrow> bool \<Rightarrow> py_error + FlowValidationResponse" where
  "validate_flow h limit fd strict =
     (let ns = nodes fd; cs = connections fd in
      if ns = [] then Inr empty_flow_response
      else
        let source_nodes = filter (\<lambda>n. node_type n = SOURCE) ns;
            check_nodes = filter (\<lambda>n. node_type n = CHECK) ns;
            w_source = (if source_nodes = []
              then [flow_error ''missing_source''
                ''Flow has no source nodes - add a data source to make it executable''] else []);
            w_checks = (if check_nodes = []
              then [flow_error ''no_checks''
                ''Flow has no check nodes - no data quality validation will be performed''] else []);
            ref_errors = List.map_filter (reference_error ns) cs;
            invalid = filter (\<lambda>c. reference_error ns c \<noteq> None) cs;
            valid = filter (\<lambda>c. c \<notin> set invalid) cs;
            config_errors = concat (map validate_node_config ns);
            w_orphans = map (\<lambda>v. node_error ''orphaned_node''
              (''Node '' @ [CHR 0x27] @ v @ [CHR 0x27] @ '' is not connected to any other nodes'') v)
              (find_orphaned_nodes h ns valid);
            compat = validate_connection_compatibility ns valid;
            no_input = concat (map (check_without_source strict valid) check_nodes)
        in case detect_circular_dependencies limit ns valid of
             Inl e \<Rightarrow> Inl e
           | Inr (circular, cycle_nodes) \<Rightarrow>
               let circ = (if circular then [flow_error ''circular_dependency''
                     (''Circular dependency detected involving nodes: '' @ join_with '', '' cycle_nodes)]
                     else []);
                   errs = (if strict then ref_errors @ config_errors @ circ @ compat @ no_input else circ);
                   warns = (if strict then w_source @ w_checks @ w_orphans
                     else w_source @ w_checks @ ref_errors @
                       map (suffix_message '' (configure before executing)'') config_errors @ w_orphans @
                       map (suffix_message '' (fix before executing)'') compat @ no_input)
               in Inr \<lparr>is_valid = (errs = []), errors = errs, warnings = warns,
                       node_count = length ns, connection_count = length valid,
                       has_source = (source_nodes \<noteq> []), has_checks = (check_nodes \<noteq> []),
                       has_circular_dependencies = circular\<rparr>)"

section \<open>Facts about the validation\<close>

definition valid_part :: "FlowNode list \<Rightarrow> FlowConnection list \<Rightarrow> FlowConnection list" where
  "valid_part ns cs = filter (\<lambda>c. source c \<in> set (ids ns) \<and> target c \<in> set (ids ns)) cs"

lemma reference_error_None:
  "reference_error ns c = None \<longleftrightarrow> source c \<in> set (ids ns) \<and> target c \<in> set (ids ns)"
  by (simp add: reference_error_def)

lemma valid_filter:
  "filter (\<lambda>c. c \<notin> set (filter (\<lambda>c. reference_error ns c \<noteq> None) cs)) cs = valid_part ns cs"
  by (auto simp: valid_part_def reference_error_None intro!: filter_cong)

lemma closed_valid_part [simp]: "closed_flow ns (valid_part ns cs)"
  by (auto simp: closed_flow_def valid_part_def)

lemma valid_part_closed: "closed_flow ns cs \<Longrightarrow> valid_part ns cs = cs"
  by (auto simp: closed_flow_def valid_part_def filter_id_conv)

lemma map_filter_Nil_iff: "List.map_filter f xs = [] \<longleftrightarrow> (\<forall>x \<in> set xs. f x = None)"
  by (induction xs) (auto simp: List.map_filter_simps split: option.splits)

lemma ref_errors_Nil: "List.map_filter (reference_error ns) cs = [] \<longleftrightarrow> closed_flow ns cs"
  by (auto simp: map_filter_Nil_iff reference_error_None closed_flow_def)

lemma check_without_source_Nil:
  "check_without_source strict cs n = [] \<longleftrightarrow> node_id n \<in> target ` set cs"
  by (auto simp: check_without_source_def)

text \<open>A connection between types the table allows.\<close>

definition compatible :: "FlowNode list \<Rightarrow> FlowConnection \<Rightarrow> bool" where
  "compatible ns c \<longleftrightarrow> (case (node_dict ns (source c), node_dict ns (target c)) of
     (Some s, Some t) \<Rightarrow> node_type t \<in> set (valid_connections (node_type s)) | _ \<Rightarrow> True)"

lemma compatibility_Nil:
  "validate_connection_compatibility ns cs = [] \<longleftrightarrow> (\<forall>c \<in> set cs. compatible ns c)"
  by (auto simp: validate_connection_compatibility_def compatible_def split: option.splits)

lemma set_orphans:
  "set (find_orphaned_nodes h ns cs) =
   {v \<in> set (ids ns). \<forall>c \<in> set cs. source c \<noteq> v \<and> target c \<noteq> v}"
  unfolding find_orphaned_nodes_def by force

lemma circular_flag:
  assumes "length ns < limit"
  obtains c where "detect_circular_dependencies limit ns (valid_part ns cs) = Inr (True, c)"
      "cycle (valid_part ns cs) c" "\<not> acyclic (edges (valid_part ns cs))"
  | "detect_circular_dependencies limit ns (valid_part ns cs) = Inr (False, [])"
      "acyclic (edges (valid_part ns cs))"
  using detect_outcome [OF closed_valid_part assms] cycle_not_acyclic by metis

lemma validate_flow_total:
  assumes "length (nodes fd) < limit"
  shows "\<exists>r. validate_flow h limit fd strict = Inr r"
proof (rule circular_flag [OF assms(1), of "connections fd"])
  fix c
  assume "detect_circular_dependencies limit (nodes fd) (valid_part (nodes fd) (connections fd)) = Inr (True, c)"
  then show ?thesis unfolding validate_flow_def Let_def valid_filter by simp
next
  assume "detect_circular_dependencies limit (nodes fd) (valid_part (nodes fd) (connections fd)) = Inr (False, [])"
  then show ?thesis unfolding validate_flow_def Let_def valid_filter by simp
qed

lemma validate_flow_strict_iff:
  assumes "length (nodes fd) < limit" and "nodes fd \<noteq> []"
  shows "(\<exists>r. validate_flow h limit fd True = Inr r \<and> is_valid r) \<longleftrightarrow>
    closed_flow (nodes fd) (connections fd) \<and>
    (\<forall>n \<in> set (nodes fd). validate_node_config n = []) \<and>
    acyclic (edges (connections fd)) \<and>
    (\<forall>c \<in> set (connections fd). compatible (nodes fd) c) \<and>
    (\<forall>n \<in> set (nodes fd). node_type n = CHECK \<longrightarrow> node_id n \<in> target ` set (connections fd))"
proof (rule circular_flag [OF assms(1), of "connections fd"])
  fix c
  assume "detect_circular_dependencies limit (nodes fd) (valid_part (nodes fd) (connections fd)) = Inr (True, c)"
    and "\<not> acyclic (edges (valid_part (nodes fd) (connections fd)))"
  then show ?thesis using assms(2) unfolding validate_flow_def Let_def valid_filter
    by (auto simp: valid_part_closed)
next
  assume "detect_circular_dependencies limit (nodes fd) (valid_part (nodes fd) (connections fd)) = Inr (False, [])"
    and "acyclic (edges (valid_part (nodes fd) (connections fd)))"
  then show ?thesis using assms(2) unfolding validate_flow_def Let_def valid_filter
    by (auto simp: ref_errors_Nil check_without_source_Nil compatibility_Nil valid_part_closed)
qed

lemma validate_flow_lenient:
  assumes "length (nodes fd) < limit" and "nodes fd \<noteq> []"
  shows "\<exists>r. validate_flow h limit fd False = Inr r \<and>
    (is_valid r \<longleftrightarrow> acyclic (edges (valid_part (nodes fd) (connections fd)))) \<and>
    has_circular_dependencies r = (\<not> is_valid r)"
proof (rule circular_flag [OF assms(1), of "connections fd"])
  fix c
  assume "detect_circular_dependencies limit (nodes fd) (valid_part (nodes fd) (connections fd)) = Inr (True, c)"
    and "\<not> acyclic (edges (valid_part (nodes fd) (connections fd)))"
  then show ?thesis using assms(2) unfolding validate_flow_def Let_def valid_filter by simp
next
  assume "detect_circular_dependencies limit (nodes fd) (valid_part (nodes fd) (connections fd)) = Inr (False, [])"
    and "acyclic (edges (valid_part (nodes fd) (connections fd)))"
  then show ?thesis using assms(2) unfolding validate_flow_def Let_def valid_filter by simp
qed

section \<open>Properties\<close>

text \<open>
  C4: With enough stack for the search, strict validation of a non-empty flow never raises, and
  the flow is valid exactly when every connection names existing nodes, every node's
  configuration is complete, there is no cycle, every connection is allowed by the table of
  node types, and every check node has an incoming connection.
\<close>

theorem strict_validation_characterised:
  assumes "length (nodes fd) < limit" and "nodes fd \<noteq> []"
  shows "\<exists>r. validate_flow h limit fd True = Inr r \<and>
    (is_valid r \<longleftrightarrow> closed_flow (nodes fd) (connections fd) \<and>
      (\<forall>n \<in> set (nodes fd). validate_node_config n = []) \<and>
      acyclic (edges (connections fd)) \<and>
      (\<forall>c \<in> set (connections fd). compatible (nodes fd) c) \<and>
      (\<forall>n \<in> set (nodes fd). node_type n = CHECK \<longrightarrow> node_id n \<in> target ` set (connections fd)))"
  using validate_flow_strict_iff [OF assms, of h] validate_flow_total [OF assms(1), of h True] by auto

theorem strict_validation_characterised_witness:
  "\<exists>r. validate_flow (\<lambda>_. 0) 4 sample_flow True = Inr r \<and> is_valid r"
proof -
  have l: "length (nodes sample_flow) < 4" "nodes sample_flow \<noteq> []"
    by (simp_all add: sample_flow_def sample_nodes_def)
  obtain r where r: "validate_flow (\<lambda>_. 0) 4 sample_flow True = Inr r"
    using strict_validation_characterised [OF l] by blast
  moreover have "is_valid (projr (validate_flow (\<lambda>_. 0) 4 sample_flow True))" by code_simp
  ultimately show ?thesis by simp
qed

text \<open>
  The lenient validation used when a flow is saved rejects a flow only for a cycle among the
  connections that name existing nodes: it never raises, and a flow that passes the strict
  validation also passes the lenient one.
\<close>

theorem lenient_validation_only_cycles:
  assumes "length (nodes fd) < limit"
  shows "\<exists>r. validate_flow h limit fd False = Inr r \<and>
    (is_valid r \<longleftrightarrow> nodes fd = [] \<or> acyclic (edges (valid_part (nodes fd) (connections fd)))) \<and>
    (\<forall>e \<in> set (errors r). err_type e = ''circular_dependency'') \<and>
    (\<forall>s. validate_flow h limit fd True = Inr s \<longrightarrow> is_valid s \<longrightarrow> is_valid r)"
proof (cases "nodes fd = []")
  case True
  then show ?thesis by (simp add: validate_flow_def empty_flow_response_def)
next
  case False
  obtain r where r: "validate_flow h limit fd False = Inr r"
    and v: "is_valid r \<longleftrightarrow> acyclic (edges (valid_part (nodes fd) (connections fd)))"
    using validate_flow_lenient [OF assms False, of h] by blast
  have "\<forall>e \<in> set (errors r). err_type e = ''circular_dependency''"
    using r False unfolding validate_flow_def Let_def
    by (auto simp: flow_error_def split: sum.splits prod.splits if_splits)
  moreover have "is_valid s \<longrightarrow> is_valid r" if "validate_flow h limit fd True = Inr s" for s
    using validate_flow_strict_iff [OF assms False, of h] that v by (auto simp: valid_part_closed)
  ultimately show ?thesis using r v False by blast
qed

theorem lenient_validation_only_cycles_witness:
  "\<exists>r. validate_flow (\<lambda>_. 0) 4 sample_flow False = Inr r \<and>
    (\<forall>e \<in> set (errors r). err_type e = ''circular_dependency'')"
  using lenient_validation_only_cycles [of sample_flow 4 "\<lambda>_. 0"]
  by (auto simp: sample_flow_def sample_nodes_def)

end
