(* ===== verification/FlowExecutor.thy ===== *)
theory FlowExecutor
  imports FlowValidator
begin

text \<open>
  \<open>FlowExecutor\<close> of \<open>app/services/flows/executor.py\<close>: one node, one level, all levels, the
  aggregation and the whole execution with its early return, its normal end and its
  \<open>except\<close> branch.

  The node handlers (\<open>SourceNodeHandler\<close>, \<open>CheckNodeHandler\<close>) talk to databases; they are
  parameters of an execution.  So are the faults of the database session and the moments at
  which another session has set the execution to cancelled.  Time stamps and durations are
  left out; floating-point sums are exact rational sums.
\<close>

section \<open>Records\<close>

text \<open>An exception as the handlers of the code see it: its type name and its text.\<close>

type_synonym exn = "string \<times> string"

record FlowNodeResult =
  r_node_id :: string
  r_node_type :: NodeType
  r_status :: NodeStatus
  r_order :: nat
  r_result_data :: "dict option"
  r_error_message :: "string option"
  r_error_details :: "dict option"

record NodeExecutionResult =
  h_status :: NodeStatus
  h_result_data :: dict
  h_error_message :: "string option"
  h_error_details :: "dict option"
  h_output_data :: dict

type_synonym handler = "FlowNode \<Rightarrow> dict \<Rightarrow> exn + NodeExecutionResult"

text \<open>
  What an execution depends on.  \<open>fault v\<close> is the exception the session raises when the
  running record of node \<open>v\<close> is added: the record is then not stored, and the session is
  usable again.  Other faults of the session are not modelled.  \<open>cancelled i\<close> says whether the refreshed execution is
  cancelled before level \<open>i\<close>.
\<close>

record exec_env =
  env_nodes :: "FlowNode list"
  env_conns :: "FlowConnection list"
  source_handler :: handler
  check_handler :: handler
  fault :: "string \<Rightarrow> exn option"
  cancelled :: "nat \<Rightarrow> bool"
  execution_config :: dict

text \<open>\<open>node_results\<close>, \<open>node_output_data\<close>, the result rows of the database, \<open>order_idx\<close>.\<close>

record run_state =
  results :: "(string \<times> FlowNodeResult) list"
  outputs :: "(string \<times> dict) list"
  rows :: "FlowNodeResult list"
  order_idx :: nat

definition initial_run :: run_state where
  "initial_run = \<lparr>results = [], outputs = [], rows = [], order_idx = 0\<rparr>"

section \<open>One node\<close>

text \<open>\<open>sanitize_for_json\<close>: not a number and the infinities become \<open>None\<close>, recursively.\<close>

fun sanitize_for_json :: "pyval \<Rightarrow> pyval" where
  "sanitize_for_json PNone = PNone"
| "sanitize_for_json (PFloat f) = (case f of FFin x \<Rightarrow> PFloat (FFin x) | _ \<Rightarrow> PNone)"
| "sanitize_for_json (PDict d) = PDict (map (\<lambda>(k, v). (k, sanitize_for_json v)) d)"
| "sanitize_for_json (PList xs) = PList (map sanitize_for_json xs)"
| "sanitize_for_json v = v"

definition sanitize_result_data :: "dict \<Rightarrow> dict" where
  "sanitize_result_data d = map (\<lambda>(k, v). (k, sanitize_for_json v)) d"

text \<open>\<open>self.node_handlers.get(node.type)\<close>.\<close>

definition node_handler :: "exec_env \<Rightarrow> NodeType \<Rightarrow> handler option" where
  "node_handler E t = (case t of SOURCE \<Rightarrow> Some (source_handler E)
     | CHECK \<Rightarrow> Some (check_handler E) | _ \<Rightarrow> None)"

text \<open>\<open>_create_node_result\<close>.\<close>

definition create_node_result ::
    "string \<Rightarrow> NodeType \<Rightarrow> NodeStatus \<Rightarrow> nat \<Rightarrow> string option \<Rightarrow> FlowNodeResult" where
  "create_node_result v t s i m = \<lparr>r_node_id = v, r_node_type = t, r_status = s, r_order = i,
     r_result_data = None, r_error_message = m, r_error_details = None\<rparr>"

text \<open>The data stored for a finished node: handler data, output data and the node's label.\<close>

definition stored_data :: "FlowNode \<Rightarrow> NodeExecutionResult \<Rightarrow> dict" where
  "stored_data n r =
     (let raw = dict_set (h_result_data r) ''output_data'' (PDict (h_output_data r))
      in sanitize_result_data
           (case node_label n of
              Some l \<Rightarrow> if l \<noteq> [] \<and> \<not> has_key raw ''node_label''
                        then dict_set raw ''node_label'' (PStr l) else raw
            | None \<Rightarrow> raw))"

text \<open>
  \<open>_execute_node\<close>: no handler, the handler's result, or the exception it raised.  An
  exception of the session before the \<open>try\<close> leaves the call and reaches \<open>asyncio.gather\<close>.
\<close>

definition execute_node :: "exec_env \<Rightarrow> FlowNode \<Rightarrow> dict \<Rightarrow> nat \<Rightarrow> exn + FlowNodeResult" where
  "execute_node E n input i =
     (case node_handler E (node_type n) of
        None \<Rightarrow> Inr (create_node_result (node_id n) (node_type n) NS_FAILED i
                  (Some (''No handler for node type: '' @ node_type_value (node_type n))))
      | Some h \<Rightarrow>
          (case fault E (node_id n) of
             Some e \<Rightarrow> Inl e
           | None \<Rightarrow>
               (case h n input of
                  Inr r \<Rightarrow> Inr \<lparr>r_node_id = node_id n, r_node_type = node_type n,
                    r_status = h_status r, r_order = i, r_result_data = Some (stored_data n r),
                    r_error_message = h_error_message r, r_error_details = h_error_details r\<rparr>
                | Inl (t, m) \<Rightarrow> Inr \<lparr>r_node_id = node_id n, r_node_type = node_type n,
                    r_status = NS_FAILED, r_order = i, r_result_data = None,
                    r_error_message = Some m,
                    r_error_details = Some [(''error_type'', PStr t), (''node_id'', PStr (node_id n)),
                      (''node_type'', PStr (node_type_value (node_type n)))]\<rparr>)))"

section \<open>One level\<close>

text \<open>\<open>dependencies[conn.target].append(conn.source)\<close>.\<close>

definition dependencies :: "FlowConnection list \<Rightarrow> string \<Rightarrow> string list" where
  "dependencies cs v = map source (filter (\<lambda>c. target c = v) cs)"

text \<open>\<open>input_data.update(node_output_data[dep])\<close> for every dependency with output.\<close>

definition dict_update :: "dict \<Rightarrow> dict \<Rightarrow> dict" where
  "dict_update d e = foldl (\<lambda>d (k, v). dict_set d k v) d e"

definition gather_input :: "FlowConnection list \<Rightarrow> (string \<times> dict) list \<Rightarrow> string \<Rightarrow> dict" where
  "gather_input cs outs v =
     foldl (\<lambda>d u. case map_of outs u of None \<Rightarrow> d | Some e \<Rightarrow> dict_update d e) []
       (dependencies cs v)"

text \<open>\<open>node_dict[node_id]\<close> for every id of a list.\<close>

fun lookup_nodes :: "FlowNode list \<Rightarrow> string list \<Rightarrow> py_error + FlowNode list" where
  "lookup_nodes ns [] = Inr []"
| "lookup_nodes ns (v # vs) =
     (case node_dict ns v of
        None \<Rightarrow> Inl (KeyError v)
      | Some n \<Rightarrow> (case lookup_nodes ns vs of Inl e \<Rightarrow> Inl e | Inr ms \<Rightarrow> Inr (n # ms)))"

text \<open>Mark all remaining nodes as skipped: rows only, no entry of \<open>node_results\<close>.\<close>

fun mark_skipped :: "FlowNode list \<Rightarrow> string list \<Rightarrow> run_state \<Rightarrow> py_error + run_state" where
  "mark_skipped ns [] st = Inr st"
| "mark_skipped ns (v # vs) st =
     (case node_dict ns v of
        None \<Rightarrow> Inl (KeyError v)
      | Some n \<Rightarrow> mark_skipped ns vs
          (st\<lparr>rows := rows st @ [create_node_result v (node_type n) NS_SKIPPED (order_idx st) None],
              order_idx := Suc (order_idx st)\<rparr>))"

text \<open>
  What the loop over the results of \<open>asyncio.gather\<close> does with one of them: an exception
  becomes a failed row, and a non-empty \<open>result_data\<close> passes its output on.
\<close>

definition settle :: "FlowNode \<Rightarrow> nat \<Rightarrow> exn + FlowNodeResult \<Rightarrow> FlowNodeResult" where
  "settle n i r =
     (case r of
        Inr x \<Rightarrow> x
      | Inl (t, m) \<Rightarrow> create_node_result (node_id n) (node_type n) NS_FAILED i (Some (t @ '': '' @ m)))"

definition output_of :: "FlowNodeResult \<Rightarrow> dict option" where
  "output_of r =
     (case r_result_data r of
        None \<Rightarrow> None
      | Some d \<Rightarrow> (case map_of d ''output_data'' of Some (PDict o') \<Rightarrow> Some o' | _ \<Rightarrow> None))"

definition record_result :: "string \<Rightarrow> FlowNodeResult \<Rightarrow> run_state \<Rightarrow> run_state" where
  "record_result v r st =
     st\<lparr>results := dict_set (results st) v r,
        outputs := (case output_of r of None \<Rightarrow> outputs st | Some o' \<Rightarrow> dict_set (outputs st) v o'),
        rows := rows st @ [r],
        order_idx := Suc (order_idx st)\<rparr>"

text \<open>
  All nodes of a level start from the outputs of the levels before; their order numbers are
  given out in the order of the level.  The flag says whether a result failed.
\<close>

fun settle_level ::
    "exec_env \<Rightarrow> (string \<times> dict) list \<Rightarrow> FlowNode list \<Rightarrow> run_state \<Rightarrow> run_state \<times> bool" where
  "settle_level E outs [] st = (st, False)"
| "settle_level E outs (n # ns) st =
     (let i = order_idx st;
          r = settle n i (execute_node E n (gather_input (env_conns E) outs (node_id n)) i);
          (st', failed) = settle_level E outs ns (record_result (node_id n) r st)
      in (st', r_status r = NS_FAILED \<or> failed))"

definition run_level :: "exec_env \<Rightarrow> string list \<Rightarrow> run_state \<Rightarrow> py_error + (run_state \<times> bool)" where
  "run_level E level st =
     (case lookup_nodes (env_nodes E) level of
        Inl e \<Rightarrow> Inl e
      | Inr ns \<Rightarrow> Inr (settle_level E (outputs st) ns st))"

section \<open>All levels\<close>

definition continue_on_error :: "exec_env \<Rightarrow> bool" where
  "continue_on_error E = truthy (dict_get (execution_config E) ''continue_on_error'' (PBool False))"

text \<open>\<open>_execute_nodes_parallel\<close>, from level number \<open>i\<close>.\<close>

fun execute_levels ::
    "exec_env \<Rightarrow> nat \<Rightarrow> string list list \<Rightarrow> run_state \<Rightarrow> py_error + run_state" where
  "execute_levels E i [] st = Inr st"
| "execute_levels E i (level # levels) st =
     (if cancelled E i then mark_skipped (env_nodes E) (concat (level # levels)) st
      else case run_level E level st of
        Inl e \<Rightarrow> Inl e
      | Inr (st', failed) \<Rightarrow>
          if failed \<and> \<not> continue_on_error E then mark_skipped (env_nodes E) (concat levels) st'
          else execute_levels E (Suc i) levels st')"

section \<open>Aggregation\<close>

text \<open>\<open>a + b\<close> on Python numbers; anything else is a \<open>TypeError\<close>.\<close>

definition as_rat :: "pyval \<Rightarrow> rat option" where
  "as_rat v = (case v of PFloat (FFin x) \<Rightarrow> Some x | _ \<Rightarrow> map_option of_int (as_int v))"

definition py_plus :: "pyval \<Rightarrow> pyval \<Rightarrow> py_error + pyval" where
  "py_plus a b =
     (case (as_int a, as_int b) of
        (Some i, Some j) \<Rightarrow> Inr (PInt (i + j))
      | _ \<Rightarrow> (case (as_rat a, as_rat b) of
                (Some x, Some y) \<Rightarrow> Inr (PFloat (FFin (x + y)))
              | _ \<Rightarrow> Inl (TypeError ''unsupported operand'')))"

record summary =
  nodes_executed :: nat
  nodes_passed :: nat
  nodes_failed :: nat
  nodes_skipped :: nat
  all_passed :: bool
  total_rows_scanned :: pyval
  total_violations :: pyval
  success_rate :: rat

text \<open>The running totals over the check results.\<close>

fun add_totals ::
    "FlowNodeResult list \<Rightarrow> pyval \<times> pyval \<Rightarrow> py_error + (pyval \<times> pyval)" where
  "add_totals [] acc = Inr acc"
| "add_totals (r # rs) (s, v) =
     (case r_result_data r of
        Some d \<Rightarrow>
          if d \<noteq> [] \<and> r_node_type r = CHECK then
            (case py_plus s (dict_get d ''rows_scanned'' (PInt 0)) of
               Inl e \<Rightarrow> Inl e
             | Inr s' \<Rightarrow>
                 (case py_plus v (dict_get d ''violation_count'' (PInt 0)) of
                    Inl e \<Rightarrow> Inl e | Inr v' \<Rightarrow> add_totals rs (s', v')))
          else add_totals rs (s, v)
      | None \<Rightarrow> add_totals rs (s, v))"

definition count_status :: "NodeStatus \<Rightarrow> (string \<times> FlowNodeResult) list \<Rightarrow> nat" where
  "count_status s rs = length (filter (\<lambda>(v, r). r_status r = s) rs)"

text \<open>\<open>_aggregate_results\<close>.\<close>

definition aggregate_results :: "(string \<times> FlowNodeResult) list \<Rightarrow> py_error + summary" where
  "aggregate_results rs =
     (case add_totals (map snd rs) (PInt 0, PInt 0) of
        Inl e \<Rightarrow> Inl e
      | Inr (s, v) \<Rightarrow> Inr
          \<lparr>nodes_executed = length rs,
           nodes_passed = count_status NS_COMPLETED rs,
           nodes_failed = count_status NS_FAILED rs,
           nodes_skipped = count_status NS_SKIPPED rs,
           all_passed = (count_status NS_FAILED rs = 0),
           total_rows_scanned = s, total_violations = v,
           success_rate = (if length rs > 0
             then of_nat (count_status NS_COMPLETED rs) / of_nat (length rs) * 100 else 0)\<rparr>)"

section \<open>The whole execution\<close>

text \<open>The execution record, without its identifiers, time stamps and duration.\<close>

record FlowExecution =
  ex_status :: ExecutionStatus
  ex_nodes_executed :: nat
  ex_nodes_passed :: nat
  ex_nodes_failed :: nat
  ex_nodes_skipped :: nat
  ex_summary :: "summary option"
  ex_error_message :: "string option"

text \<open>\<open>str(e)\<close> of an exception.\<close>

fun error_text :: "py_error \<Rightarrow> string" where
  "error_text (KeyError k) = [CHR 0x27] @ k @ [CHR 0x27]"
| "error_text (TypeError m) = m"
| "error_text (ValueError m) = m"
| "error_text (AttributeError m) = m"
| "error_text (OverflowError m) = m"
| "error_text RecursionError = ''maximum recursion depth exceeded''"

text \<open>Inside the \<open>try\<close>: plan, run, aggregate.\<close>

definition run_flow ::
    "(string \<Rightarrow> nat) \<Rightarrow> exec_env \<Rightarrow> py_error + (run_state \<times> summary)" where
  "run_flow h E =
     (case get_execution_levels h (env_nodes E) (env_conns E) of
        Inl e \<Rightarrow> Inl e
      | Inr levels \<Rightarrow>
          (case execute_levels E 0 levels initial_run of
             Inl e \<Rightarrow> Inl e
           | Inr st \<Rightarrow> (case aggregate_results (results st) of Inl e \<Rightarrow> Inl e | Inr s \<Rightarrow> Inr (st, s))))"

text \<open>
  \<open>execute_flow\<close>: the record as it is left in the database, with the exception that leaves
  the call, if any.  \<open>rec\<close> is the record before: the given one or a fresh one.  An exception
  of the validation itself leaves the call before the record is touched.
\<close>

definition execute_flow ::
    "(string \<Rightarrow> nat) \<Rightarrow> nat \<Rightarrow> exec_env \<Rightarrow> FlowExecution \<Rightarrow> FlowExecution \<times> py_error option" where
  "execute_flow h limit E rec =
     (case validate_flow h limit
             \<lparr>nodes = env_nodes E, connections = env_conns E, metadata = None\<rparr> True of
        Inl e \<Rightarrow> (rec, Some e)
      | Inr v \<Rightarrow>
          if \<not> is_valid v
          then (rec\<lparr>ex_status := FAILED, ex_error_message := Some ''Flow validation failed''\<rparr>, None)
          else
            (let rec = rec\<lparr>ex_status := RUNNING\<rparr> in
             case run_flow h E of
               Inr (st, s) \<Rightarrow>
                 (rec\<lparr>ex_status := (if all_passed s then COMPLETED else FAILED),
                      ex_nodes_executed := nodes_executed s, ex_nodes_passed := nodes_passed s,
                      ex_nodes_failed := nodes_failed s, ex_nodes_skipped := nodes_skipped s,
                      ex_summary := Some s\<rparr>, None)
             | Inl e \<Rightarrow>
                 (rec\<lparr>ex_status := FAILED, ex_error_message := Some (error_text e)\<rparr>, Some e)))"

text \<open>\<open>cancel_execution\<close>: only a running execution can be cancelled.\<close>

definition cancel_execution ::
    "FlowExecution option \<Rightarrow> FlowExecution option \<times> bool" where
  "cancel_execution ex =
     (case ex of
        None \<Rightarrow> (None, False)
      | Some x \<Rightarrow> if ex_status x \<noteq> RUNNING then (Some x, False)
                  else (Some (x\<lparr>ex_status := CANCELLED\<rparr>), True))"

section \<open>Rows and order numbers\<close>

text \<open>The row a node gets when it starts from the outputs \<open>outs\<close> with order number \<open>i\<close>.\<close>

definition node_row :: "exec_env \<Rightarrow> (string \<times> dict) list \<Rightarrow> FlowNode \<Rightarrow> nat \<Rightarrow> FlowNodeResult" where
  "node_row E outs n i =
     settle n i (execute_node E n (gather_input (env_conns E) outs (node_id n)) i)"

lemma node_row_simps [simp]:
  "r_node_id (node_row E outs n i) = node_id n"
  "r_order (node_row E outs n i) = i"
  "r_node_type (node_row E outs n i) = node_type n"
  by (auto simp: node_row_def settle_def execute_node_def create_node_result_def
      split: option.splits sum.splits)

text \<open>The input of a node depends on the outputs of its predecessors only.\<close>

lemma gather_input_cong:
  assumes "\<And>u. (u, v) \<in> edges cs \<Longrightarrow> map_of outs u = map_of outs' u"
  shows "gather_input cs outs v = gather_input cs outs' v"
proof -
  have "map_of outs u = map_of outs' u" if "u \<in> set (dependencies cs v)" for u
    using that assms [of u] by (auto simp: dependencies_def edges_def)
  then show ?thesis unfolding gather_input_def by (intro foldl_cong) simp_all
qed

lemma node_row_cong:
  assumes "\<And>u. (u, node_id n) \<in> edges (env_conns E) \<Longrightarrow> map_of outs u = map_of outs' u"
  shows "node_row E outs n i = node_row E outs' n i"
  using gather_input_cong [of "node_id n" "env_conns E" outs outs'] assms
  by (simp add: node_row_def)

lemma lookup_nodes_ids: "lookup_nodes ns vs = Inr ms \<Longrightarrow> map node_id ms = vs \<and> set ms \<subseteq> set ns"
proof (induction ns vs arbitrary: ms rule: lookup_nodes.induct)
  case (2 ns v vs)
  then obtain n ms' where n: "node_dict ns v = Some n" and ms': "lookup_nodes ns vs = Inr ms'"
    and ms: "ms = n # ms'"
    by (auto split: option.splits sum.splits)
  from "2.IH" [OF n ms'] node_dict_Some_id [OF n] show ?case by (simp add: ms)
qed simp

lemma node_dict_total: "v \<in> set (ids ns) \<Longrightarrow> \<exists>n. node_dict ns v = Some n"
  using node_dict_None [of ns v] by (cases "node_dict ns v") auto

lemma lookup_nodes_total: "set vs \<subseteq> set (ids ns) \<Longrightarrow> \<exists>ms. lookup_nodes ns vs = Inr ms"
proof (induction vs)
  case (Cons v vs)
  then obtain ms where "lookup_nodes ns vs = Inr ms" by auto
  moreover obtain n where "node_dict ns v = Some n"
    using Cons.prems node_dict_total [of v ns] by auto
  ultimately show ?case by simp
qed simp

text \<open>A state whose rows carry the order numbers 0, 1, 2, \<dots>\<close>

definition numbered :: "run_state \<Rightarrow> bool" where
  "numbered st \<longleftrightarrow> map r_order (rows st) = [0..<order_idx st]"

lemma numbered_initial [simp]: "numbered initial_run"
  by (simp add: numbered_def initial_run_def)

text \<open>A list of rows that only record that their nodes were skipped.\<close>

definition skip_rows :: "string list \<Rightarrow> FlowNodeResult list \<Rightarrow> bool" where
  "skip_rows vs rs \<longleftrightarrow> map r_node_id rs = vs \<and>
     (\<forall>r \<in> set rs. r_status r = NS_SKIPPED \<and> r_result_data r = None)"

lemma skip_rows_length: "skip_rows vs rs \<Longrightarrow> length rs = length vs"
  unfolding skip_rows_def by (metis length_map)

lemma mark_skipped_spec:
  "mark_skipped ns vs st = Inr st' \<Longrightarrow> numbered st \<Longrightarrow>
   numbered st' \<and> results st' = results st \<and> outputs st' = outputs st \<and>
   (\<exists>rs. rows st' = rows st @ rs \<and> skip_rows vs rs)"
proof (induction ns vs st rule: mark_skipped.induct)
  case (2 ns v vs st)
  then obtain n where n: "node_dict ns v = Some n"
    by (auto split: option.splits)
  let ?r = "create_node_result v (node_type n) NS_SKIPPED (order_idx st) None"
  let ?st = "st\<lparr>rows := rows st @ [?r], order_idx := Suc (order_idx st)\<rparr>"
  have "numbered ?st" using "2.prems"(2) by (simp add: numbered_def create_node_result_def)
  with 2 n obtain rs where "numbered st'" "results st' = results st" "outputs st' = outputs st"
      "rows st' = rows ?st @ rs" "skip_rows vs rs"
    by auto
  then show ?case by (intro conjI exI [of _ "?r # rs"]) (auto simp: create_node_result_def skip_rows_def)
qed (auto simp: skip_rows_def)

lemma mark_skipped_total: "set vs \<subseteq> set (ids ns) \<Longrightarrow> \<exists>st'. mark_skipped ns vs st = Inr st'"
proof (induction vs arbitrary: st)
  case (Cons v vs)
  then obtain n where "node_dict ns v = Some n" using node_dict_total [of v ns] by auto
  with Cons show ?case by simp
qed simp

text \<open>A new key goes to the end of the results.\<close>

lemma dict_set_fresh: "k \<notin> set (map fst d) \<Longrightarrow> dict_set d k v = d @ [(k, v)]"
  by (induction d k v rule: dict_set.induct) auto

text \<open>The outputs on record are those of the results on record.\<close>

definition outputs_ok :: "run_state \<Rightarrow> bool" where
  "outputs_ok st \<longleftrightarrow> (\<forall>u. map_of (outputs st) u = Option.bind (map_of (results st) u) output_of)"

lemma outputs_ok_initial [simp]: "outputs_ok initial_run"
  by (simp add: outputs_ok_def initial_run_def)

lemma outputs_ok_record:
  assumes "outputs_ok st" and "v \<notin> set (map fst (results st))"
  shows "outputs_ok (record_result v r st)"
proof -
  have "map_of (results st) v = None" using assms(2) by (simp add: map_of_eq_None_iff)
  with assms(1) show ?thesis by (auto simp: outputs_ok_def record_result_def split: option.splits)
qed

lemma settle_level_outputs:
  assumes "outputs_ok st" and "distinct (map fst (results st) @ map node_id ns)"
  shows "outputs_ok (fst (settle_level E outs ns st))"
  using assms
proof (induction E outs ns st rule: settle_level.induct)
  case (2 E outs n ns st)
  let ?r = "settle n (order_idx st) (execute_node E n (gather_input (env_conns E) outs (node_id n)) (order_idx st))"
  let ?st = "record_result (node_id n) ?r st"
  have "results ?st = results st @ [(node_id n, ?r)]"
    using "2.prems"(2) by (simp add: record_result_def dict_set_fresh)
  then have "distinct (map fst (results ?st) @ map node_id ns)" using "2.prems"(2) by simp
  moreover have "outputs_ok ?st" using "2.prems" by (intro outputs_ok_record) auto
  ultimately have "outputs_ok (fst (settle_level E outs ns ?st))" by (intro "2.IH") simp_all
  then show ?case by (cases "settle_level E outs ns ?st") (simp add: Let_def)
qed simp

lemma settle_level_spec:
  assumes "settle_level E outs ns st = (st', failed)" and "numbered st"
    and "distinct (map fst (results st) @ map node_id ns)"
  shows "numbered st' \<and> (\<forall>u. u \<notin> node_id ` set ns \<longrightarrow> map_of (outputs st') u = map_of (outputs st) u) \<and>
    (\<exists>rs. rows st' = rows st @ rs \<and> map r_node_id rs = map node_id ns \<and>
      results st' = results st @ zip (map node_id ns) rs \<and>
      (\<forall>r \<in> set rs. \<exists>n \<in> set ns. r = node_row E outs n (r_order r)) \<and>
      (failed \<longleftrightarrow> (\<exists>r \<in> set rs. r_status r = NS_FAILED)))"
  using assms
proof (induction E outs ns st arbitrary: st' failed rule: settle_level.induct)
  case (2 E outs n ns st)
  let ?i = "order_idx st"
  define r where "r = node_row E outs n ?i"
  then have r0: "r = settle n ?i (execute_node E n (gather_input (env_conns E) outs (node_id n)) ?i)"
    by (simp add: node_row_def)
  have r: "r_node_id r = node_id n" "r_order r = ?i" by (simp_all add: r_def)
  let ?st = "record_result (node_id n) r st"
  have res: "results ?st = results st @ [(node_id n, r)]"
    using "2.prems"(3) by (simp add: record_result_def dict_set_fresh)
  have num: "numbered ?st" using "2.prems"(2) r by (simp add: numbered_def record_result_def)
  have out: "map_of (outputs ?st) u = map_of (outputs st) u" if "u \<noteq> node_id n" for u
    using that by (auto simp: record_result_def split: option.splits)
  obtain failed' where f: "settle_level E outs ns ?st = (st', failed')"
    and fl: "failed \<longleftrightarrow> r_status r = NS_FAILED \<or> failed'"
    using "2.prems"(1) by (auto simp: Let_def r0 split: prod.splits)
  have dist: "distinct (map fst (results ?st) @ map node_id ns)"
    using "2.prems"(3) by (simp add: res)
  from "2.IH" [OF refl r0 f num dist]
  obtain rs where rs: "rows st' = rows ?st @ rs" "map r_node_id rs = map node_id ns"
      "results st' = results ?st @ zip (map node_id ns) rs"
      "\<forall>r \<in> set rs. \<exists>n \<in> set ns. r = node_row E outs n (r_order r)"
      "failed' \<longleftrightarrow> (\<exists>r \<in> set rs. r_status r = NS_FAILED)"
    and st': "numbered st'" "\<forall>u. u \<notin> node_id ` set ns \<longrightarrow> map_of (outputs st') u = map_of (outputs ?st) u"
    by blast
  have "r = node_row E outs n (r_order r)" using r(2) r_def by simp
  then have "\<forall>x \<in> set (r # rs). \<exists>m \<in> set (n # ns). x = node_row E outs m (r_order x)"
    using rs(4) by auto
  then show ?case using r fl res rs st' out
    by (intro conjI exI [of _ "r # rs"]) (auto simp: record_result_def)
qed simp

section \<open>A run over the levels\<close>

text \<open>Every predecessor of a planned node is done or planned in an earlier level.\<close>

fun ordered_from :: "FlowConnection list \<Rightarrow> string set \<Rightarrow> string list list \<Rightarrow> bool" where
  "ordered_from cs D [] = True"
| "ordered_from cs D (l # ls) =
     ((\<forall>v \<in> set l. \<forall>u. (u, v) \<in> edges cs \<longrightarrow> u \<in> D) \<and> ordered_from cs (D \<union> set l) ls)"

lemma strata_ordered: "strata cs (xs @ L) \<Longrightarrow> ordered_from cs (set (concat xs)) L"
proof (induction L arbitrary: xs)
  case (Cons l L)
  then have "\<forall>v \<in> set l. \<forall>u. (u, v) \<in> edges cs \<longrightarrow> u \<in> set (concat xs)"
    unfolding strata_def by blast
  moreover have "ordered_from cs (set (concat (xs @ [l]))) L"
    using Cons by (intro Cons.IH) simp
  ultimately show ?case by simp
qed simp

lemma topo_ordered:
  "topo cs (xs @ vs) \<Longrightarrow> ordered_from cs (set xs) (map (\<lambda>v. [v]) vs)"
proof (induction vs arbitrary: xs)
  case (Cons v vs)
  then have "\<forall>u. (u, v) \<in> edges cs \<longrightarrow> u \<in> set xs" unfolding topo_def by blast
  moreover have "ordered_from cs (set (xs @ [v])) (map (\<lambda>v. [v]) vs)"
    using Cons.prems by (intro Cons.IH) simp
  ultimately show ?case by simp
qed simp

text \<open>
  What a run from state \<open>st\<close> to \<open>st'\<close> over the levels \<open>L\<close> has done: a prefix \<open>X\<close> of the levels
  is executed with the rows \<open>rs\<close>, the rest \<open>Y\<close> is skipped with the rows \<open>ss\<close>, every executed
  node got exactly the merged outputs of its predecessors, and the run stopped early for a
  reason.
\<close>

definition run_shape ::
    "exec_env \<Rightarrow> nat \<Rightarrow> run_state \<Rightarrow> run_state \<Rightarrow> string list list \<Rightarrow> string list list \<Rightarrow>
     FlowNodeResult list \<Rightarrow> FlowNodeResult list \<Rightarrow> bool" where
  "run_shape E i st st' X Y rs ss \<longleftrightarrow>
     rows st' = rows st @ rs @ ss \<and> results st' = results st @ zip (concat X) rs \<and>
     map r_node_id rs = concat X \<and> skip_rows (concat Y) ss \<and>
     (\<forall>r \<in> set rs. \<exists>n \<in> set (env_nodes E). r = node_row E (outputs st') n (r_order r)) \<and>
     (\<not> continue_on_error E \<longrightarrow>
        (\<forall>r \<in> set rs. r_status r = NS_FAILED \<longrightarrow> r_node_id r \<in> set (last X))) \<and>
     (Y \<noteq> [] \<longrightarrow> cancelled E (i + length X) \<or>
        (\<not> continue_on_error E \<and> (\<exists>r \<in> set rs. r_status r = NS_FAILED)))"

lemma run_level_spec:
  assumes "run_level E l st = Inr (st', failed)" and "numbered st"
    and "distinct (map fst (results st) @ l)"
  shows "numbered st' \<and> (\<forall>u. u \<notin> set l \<longrightarrow> map_of (outputs st') u = map_of (outputs st) u) \<and>
    (\<exists>rs. rows st' = rows st @ rs \<and> map r_node_id rs = l \<and> results st' = results st @ zip l rs \<and>
      (\<forall>r \<in> set rs. \<exists>n \<in> set (env_nodes E). r = node_row E (outputs st) n (r_order r)) \<and>
      (failed \<longleftrightarrow> (\<exists>r \<in> set rs. r_status r = NS_FAILED)))"
proof -
  obtain ns where ns: "lookup_nodes (env_nodes E) l = Inr ns"
    and s: "settle_level E (outputs st) ns st = (st', failed)"
    using assms(1) by (auto simp: run_level_def split: sum.splits)
  note l = lookup_nodes_ids [OF ns]
  have ids: "node_id ` set ns = set l" using l by (metis list.set_map)
  have "distinct (map fst (results st) @ map node_id ns)" using assms(3) l by simp
  from settle_level_spec [OF s assms(2) this] obtain rs where "numbered st'"
      "\<forall>u. u \<notin> set l \<longrightarrow> map_of (outputs st') u = map_of (outputs st) u"
      "rows st' = rows st @ rs" "map r_node_id rs = l" "results st' = results st @ zip l rs"
      and row: "\<forall>r \<in> set rs. \<exists>n \<in> set ns. r = node_row E (outputs st) n (r_order r)"
      and fl: "failed \<longleftrightarrow> (\<exists>r \<in> set rs. r_status r = NS_FAILED)"
    using l ids by auto
  moreover have "\<forall>r \<in> set rs. \<exists>n \<in> set (env_nodes E). r = node_row E (outputs st) n (r_order r)"
    using row l by blast
  ultimately show ?thesis by blast
qed

lemma run_level_outputs:
  assumes "run_level E l st = Inr (st', failed)" and "outputs_ok st"
    and "distinct (map fst (results st) @ l)"
  shows "outputs_ok st'"
proof -
  obtain ns where ns: "lookup_nodes (env_nodes E) l = Inr ns"
    and s: "settle_level E (outputs st) ns st = (st', failed)"
    using assms(1) by (auto simp: run_level_def split: sum.splits)
  have "distinct (map fst (results st) @ map node_id ns)"
    using assms(3) lookup_nodes_ids [OF ns] by simp
  from settle_level_outputs [OF assms(2) this, of E "outputs st"] s show ?thesis by simp
qed

lemma run_level_total:
  "set l \<subseteq> set (ids (env_nodes E)) \<Longrightarrow> \<exists>st' failed. run_level E l st = Inr (st', failed)"
  using lookup_nodes_total [of l "env_nodes E"] by (auto simp: run_level_def)

text \<open>The outputs a level leaves are those its predecessors had when the level started.\<close>

lemma run_shape_Cons:
  assumes shape: "run_shape E (Suc i) st1 st' X Y rs ss"
    and r1: "rows st1 = rows st @ r1s" "map r_node_id r1s = l" "results st1 = results st @ zip l r1s"
    and row: "\<forall>r \<in> set r1s. \<exists>n \<in> set (env_nodes E). r = node_row E (outputs st) n (r_order r)"
    and keep: "\<And>u v. v \<in> set l \<Longrightarrow> (u, v) \<in> edges (env_conns E) \<Longrightarrow> map_of (outputs st') u = map_of (outputs st) u"
    and ok: "\<not> continue_on_error E \<Longrightarrow> \<forall>r \<in> set r1s. r_status r \<noteq> NS_FAILED"
  shows "run_shape E i st st' (l # X) Y (r1s @ rs) ss"
proof -
  have "\<exists>n \<in> set (env_nodes E). r = node_row E (outputs st') n (r_order r)" if "r \<in> set r1s" for r
  proof -
    from row that obtain n where n: "n \<in> set (env_nodes E)" "r = node_row E (outputs st) n (r_order r)"
      by blast
    then have "node_id n = r_node_id r" by (metis node_row_simps(1))
    with r1(2) that have "node_id n \<in> set l" by auto
    then have "node_row E (outputs st) n (r_order r) = node_row E (outputs st') n (r_order r)"
      using keep by (intro node_row_cong) simp
    with n show ?thesis by auto
  qed
  moreover have "length r1s = length l" using r1(2) by (metis length_map)
  moreover have "\<not> continue_on_error E \<Longrightarrow> r \<in> set rs \<Longrightarrow> r_status r = NS_FAILED \<Longrightarrow>
      r_node_id r \<in> set (last (l # X))" for r
    using shape by (cases "X = []") (auto simp: run_shape_def)
  ultimately show ?thesis
    using shape r1 ok by (auto simp: run_shape_def)
qed

lemma execute_levels_spec:
  assumes "execute_levels E i L st = Inr st'" and "numbered st"
    and "distinct (map fst (results st) @ concat L)"
    and "ordered_from (env_conns E) (set (map fst (results st))) L"
  shows "numbered st' \<and> (\<forall>u. u \<notin> set (concat L) \<longrightarrow> map_of (outputs st') u = map_of (outputs st) u) \<and>
    (\<exists>X Y rs ss. L = X @ Y \<and> run_shape E i st st' X Y rs ss)"
  using assms
proof (induction E i L st rule: execute_levels.induct)
  case (1 E i st)
  then have "run_shape E i st st' [] [] [] []" by (simp add: run_shape_def skip_rows_def)
  with 1 show ?case by auto
next
  case (2 E i l L st)
  show ?case
  proof (cases "cancelled E i")
    case True
    then have "mark_skipped (env_nodes E) (concat (l # L)) st = Inr st'" using "2.prems"(1) by simp
    from mark_skipped_spec [OF this "2.prems"(2)] obtain ss where st': "numbered st'"
        "results st' = results st" "outputs st' = outputs st"
        "rows st' = rows st @ ss" "skip_rows (concat (l # L)) ss" by blast
    then have "run_shape E i st st' [] (l # L) [] ss" using True by (simp add: run_shape_def)
    with st' show ?thesis by (metis append_Nil)
  next
    case False
    then obtain st1 failed where s: "run_level E l st = Inr (st1, failed)"
      using "2.prems"(1) by (auto split: sum.splits)
    have "distinct (map fst (results st) @ l)" using "2.prems"(3) by auto
    from run_level_spec [OF s "2.prems"(2) this] obtain r1s where
      num: "numbered st1" and out: "\<And>u. u \<notin> set l \<Longrightarrow> map_of (outputs st1) u = map_of (outputs st) u"
      and r1: "rows st1 = rows st @ r1s" "map r_node_id r1s = l" "results st1 = results st @ zip l r1s"
      and row: "\<forall>r \<in> set r1s. \<exists>n \<in> set (env_nodes E). r = node_row E (outputs st) n (r_order r)"
      and fl: "failed \<longleftrightarrow> (\<exists>r \<in> set r1s. r_status r = NS_FAILED)" by blast
    have len: "length r1s = length l" using r1(2) by (metis length_map)
    have fst1: "map fst (results st1) = map fst (results st) @ l" using r1(3) len by simp
    have pred: "u \<in> set (map fst (results st))" if "v \<in> set l" "(u, v) \<in> edges (env_conns E)" for u v
      using "2.prems"(4) that by auto
    show ?thesis
    proof (cases "failed \<and> \<not> continue_on_error E")
      case True
      then have "mark_skipped (env_nodes E) (concat L) st1 = Inr st'"
        using "2.prems"(1) False s by simp
      from mark_skipped_spec [OF this num] obtain ss where st': "numbered st'"
          "results st' = results st1" "outputs st' = outputs st1"
          "rows st' = rows st1 @ ss" "skip_rows (concat L) ss" by blast
      have keep: "map_of (outputs st') u = map_of (outputs st) u"
        if "v \<in> set l" "(u, v) \<in> edges (env_conns E)" for u v
        using pred [OF that] "2.prems"(3) out [of u] st'(3) by auto
      have rows': "\<exists>n \<in> set (env_nodes E). r = node_row E (outputs st') n (r_order r)" if "r \<in> set r1s" for r
      proof -
        from row that obtain n where n: "n \<in> set (env_nodes E)" "r = node_row E (outputs st) n (r_order r)"
          by blast
        then have "node_id n = r_node_id r" by (metis node_row_simps(1))
        with r1(2) that have "node_id n \<in> set l" by auto
        with n keep show ?thesis by (metis node_row_cong)
      qed
      have "run_shape E i st st' [l] L r1s ss"
        using True fl rows' st' r1 by (auto simp: run_shape_def)
      moreover have "\<forall>u. u \<notin> set (concat (l # L)) \<longrightarrow> map_of (outputs st') u = map_of (outputs st) u"
        using out st'(3) by simp
      ultimately show ?thesis using st'(1) by (metis append_Cons append_Nil)
    next
      case cont: False
      then have e: "execute_levels E (Suc i) L st1 = Inr st'"
        using "2.prems"(1) False s by (simp split: if_splits)
      have d: "distinct (map fst (results st1) @ concat L)" using "2.prems"(3) fst1 by simp
      have o: "ordered_from (env_conns E) (set (map fst (results st1))) L"
        using "2.prems"(4) fst1 by simp
      from "2.IH" [OF False s refl cont e num d o] obtain X Y rs ss where st': "numbered st'"
        and out': "\<And>u. u \<notin> set (concat L) \<Longrightarrow> map_of (outputs st') u = map_of (outputs st1) u"
        and L: "L = X @ Y" and shape: "run_shape E (Suc i) st1 st' X Y rs ss" by blast
      have "run_shape E i st st' (l # X) Y (r1s @ rs) ss"
      proof (rule run_shape_Cons [OF shape r1 row])
        fix u v assume "v \<in> set l" "(u, v) \<in> edges (env_conns E)"
        then have "u \<notin> set l" "u \<notin> set (concat L)" using pred [of v u] "2.prems"(3) by auto
        then show "map_of (outputs st') u = map_of (outputs st) u" using out out' by simp
      qed (use cont fl in auto)
      with L st' out out' show ?thesis by (metis append_Cons concat.simps(2) UnCI set_append)
    qed
  qed
qed

lemma execute_levels_outputs:
  assumes "execute_levels E i L st = Inr st'" and "numbered st" and "outputs_ok st"
    and "distinct (map fst (results st) @ concat L)"
  shows "outputs_ok st'"
  using assms
proof (induction E i L st rule: execute_levels.induct)
  case (2 E i l L st)
  have skip: "outputs_ok s'" if "mark_skipped (env_nodes E) vs s = Inr s'" "numbered s" "outputs_ok s" for vs s s'
    using mark_skipped_spec [OF that(1,2)] that(3) by (auto simp: outputs_ok_def)
  show ?case
  proof (cases "cancelled E i")
    case True
    with "2.prems" skip show ?thesis by simp
  next
    case False
    then obtain st1 failed where s: "run_level E l st = Inr (st1, failed)"
      using "2.prems"(1) by (auto split: sum.splits)
    have d: "distinct (map fst (results st) @ l)" using "2.prems"(4) by auto
    from run_level_spec [OF s "2.prems"(2) d] obtain r1s where num: "numbered st1"
      and r1: "map r_node_id r1s = l" "results st1 = results st @ zip l r1s" by blast
    have "length r1s = length l" using r1(1) by (metis length_map)
    with r1 have d1: "distinct (map fst (results st1) @ concat L)" using "2.prems"(4) by simp
    have o1: "outputs_ok st1" by (rule run_level_outputs [OF s "2.prems"(3) d])
    show ?thesis
    proof (cases "failed \<and> \<not> continue_on_error E")
      case True
      with "2.prems"(1) False s skip [OF _ num o1] show ?thesis by simp
    next
      case cont: False
      then have "execute_levels E (Suc i) L st1 = Inr st'"
        using "2.prems"(1) False s by (simp split: if_splits)
      from "2.IH" [OF False s refl cont this num o1 d1] show ?thesis .
    qed
  qed
qed simp

lemma execute_levels_total:
  "set (concat L) \<subseteq> set (ids (env_nodes E)) \<Longrightarrow> \<exists>st'. execute_levels E i L st = Inr st'"
proof (induction L arbitrary: i st)
  case (Cons l L)
  obtain st1 failed where s: "run_level E l st = Inr (st1, failed)"
    using Cons.prems run_level_total [of l E st] by auto
  obtain st2 where "mark_skipped (env_nodes E) (concat (l # L)) st = Inr st2"
    using mark_skipped_total [OF Cons.prems] by blast
  moreover obtain st3 where "mark_skipped (env_nodes E) (concat L) st1 = Inr st3"
    using mark_skipped_total [of "concat L" "env_nodes E" st1] Cons.prems by auto
  moreover have "\<exists>st'. execute_levels E (Suc i) L st1 = Inr st'" using Cons by simp
  ultimately show ?case using s by auto
qed simp

end
