(* ===== verification/FlowRuns.thy ===== *)
theory FlowRuns
  imports FlowExecutor
begin

text \<open>
  The interface between the planner and the executor: what the executor relies on about a
  plan, proved once for any planner that promises it, and the two planners of
  \<open>FlowExecutor\<close> (levels and single order) as its instances.  Then the agreement of the
  validator with the planner and the outcome of a whole execution.
\<close>

section \<open>The contract of a planner\<close>

locale planner =
  fixes plan_of :: "FlowNode list \<Rightarrow> FlowConnection list \<Rightarrow> py_error + string list list"
  assumes plan_once: "plan_of ns cs = Inr L \<Longrightarrow> distinct (concat L) \<and> set (concat L) = set (ids ns)"
    and plan_ordered: "plan_of ns cs = Inr L \<Longrightarrow> ordered_from cs {} L"
    and plan_exists: "distinct (ids ns) \<Longrightarrow> closed_flow ns cs \<Longrightarrow> acyclic (edges cs) \<Longrightarrow>
      \<exists>L. plan_of ns cs = Inr L"
begin

text \<open>A run over a plan always finishes, and leaves exactly one row for every node of the flow.\<close>

lemma run_over_plan:
  assumes "plan_of (env_nodes E) (env_conns E) = Inr L"
  shows "\<exists>st X Y rs ss. execute_levels E 0 L initial_run = Inr st \<and> numbered st \<and> L = X @ Y \<and>
    run_shape E 0 initial_run st X Y rs ss"
proof -
  have once: "distinct (concat L)" "set (concat L) = set (ids (env_nodes E))"
    using plan_once [OF assms] by auto
  then obtain st where st: "execute_levels E 0 L initial_run = Inr st"
    using execute_levels_total [of L E 0 initial_run] by auto
  have "distinct (map fst (results initial_run) @ concat L)"
    using once by (simp add: initial_run_def)
  moreover have "ordered_from (env_conns E) (set (map fst (results initial_run))) L"
    using plan_ordered [OF assms] by (simp add: initial_run_def)
  ultimately show ?thesis
    using execute_levels_spec [OF st numbered_initial] st by blast
qed

lemma one_row_per_node:
  assumes "plan_of (env_nodes E) (env_conns E) = Inr L"
  shows "\<exists>st. execute_levels E 0 L initial_run = Inr st \<and> map r_node_id (rows st) = concat L \<and>
    map r_order (rows st) = [0..<length (concat L)] \<and>
    (\<forall>v \<in> set (ids (env_nodes E)). \<exists>!r. r \<in> set (rows st) \<and> r_node_id r = v)"
proof -
  obtain st X Y rs ss where st: "execute_levels E 0 L initial_run = Inr st" "numbered st" "L = X @ Y"
    "run_shape E 0 initial_run st X Y rs ss" using run_over_plan [OF assms] by blast
  then have m: "map r_node_id (rows st) = concat L"
    by (simp add: run_shape_def initial_run_def skip_rows_def)
  moreover from m have "length (rows st) = length (concat L)" by (metis length_map)
  moreover from st(2) have "length (rows st) = order_idx st"
    unfolding numbered_def by (metis length_map length_upt minus_nat.diff_0)
  moreover have "\<exists>!r. r \<in> set (rows st) \<and> r_node_id r = v" if "v \<in> set (ids (env_nodes E))" for v
  proof -
    have "distinct (map r_node_id (rows st))" and "v \<in> set (map r_node_id (rows st))"
      using plan_once [OF assms] m that by auto
    then show ?thesis by (auto simp: distinct_map inj_on_def)
  qed
  ultimately show ?thesis using st(1,2) by (auto simp: numbered_def)
qed

end

interpretation levels: planner "get_execution_levels h" for h
proof unfold_locales
  fix ns cs L
  assume "get_execution_levels h ns cs = Inr L"
  from execution_levels_plan [OF this] have p: "plan ns cs (concat L)" and s: "strata cs ([] @ L)" by auto
  from p show "distinct (concat L) \<and> set (concat L) = set (ids ns)" by (simp add: plan_def)
  from strata_ordered [OF s] show "ordered_from cs {} L" by simp
qed (use execution_levels_acyclic in blast)

text \<open>The sequential order is a plan with one node per level.\<close>

definition order_plan :: "FlowNode list \<Rightarrow> FlowConnection list \<Rightarrow> py_error + string list list" where
  "order_plan ns cs = map_sum id (map (\<lambda>v. [v])) (get_execution_order ns cs)"

lemma order_plan_Inr:
  "order_plan ns cs = Inr L \<longleftrightarrow> (\<exists>order. get_execution_order ns cs = Inr order \<and> L = map (\<lambda>v. [v]) order)"
  by (cases "get_execution_order ns cs") (auto simp: order_plan_def)

lemma concat_singletons [simp]: "concat (map (\<lambda>v. [v]) xs) = xs"
  by (induction xs) auto

interpretation order: planner order_plan
proof unfold_locales
  fix ns cs L
  assume "order_plan ns cs = Inr L"
  then obtain ord where o: "get_execution_order ns cs = Inr ord" and L: "L = map (\<lambda>v. [v]) ord"
    by (auto simp: order_plan_Inr)
  from execution_order_plan [OF o] have p: "plan ns cs ord" .
  then show "distinct (concat L) \<and> set (concat L) = set (ids ns)" by (simp add: plan_def L)
  from p have "topo cs ([] @ ord)" by (simp add: plan_def)
  from topo_ordered [OF this] show "ordered_from cs {} L" by (simp add: L)
next
  fix ns cs
  assume "distinct (ids ns)" "closed_flow ns cs" "acyclic (edges cs)"
  then show "\<exists>L. order_plan ns cs = Inr L" using execution_order_acyclic by (auto simp: order_plan_Inr)
qed

section \<open>Validator and planner\<close>

lemma valid_flow_planned:
  assumes "validate_flow h limit fd True = Inr r" and "is_valid r"
    and "length (nodes fd) < limit" and "distinct (ids (nodes fd))"
    and "connections fd = [] \<or> nodes fd \<noteq> []"
  shows "\<exists>L. get_execution_levels h (nodes fd) (connections fd) = Inr L"
proof (cases "nodes fd = []")
  case True
  with assms(5) have "closed_flow (nodes fd) (connections fd)" "acyclic (edges (connections fd))"
    by (auto simp: closed_flow_def edges_def acyclic_def)
  with assms(4) show ?thesis by (rule levels.plan_exists)
next
  case False
  then show ?thesis
    using validate_flow_strict_iff [OF assms(3) False, of h] assms
    by (intro levels.plan_exists) auto
qed

section \<open>The outcome of an execution\<close>

lemma aggregate_counts:
  assumes "aggregate_results rs = Inr s"
  shows "nodes_executed s = length rs \<and> nodes_passed s = count_status NS_COMPLETED rs \<and>
    nodes_failed s = count_status NS_FAILED rs \<and> nodes_skipped s = count_status NS_SKIPPED rs \<and>
    all_passed s = (count_status NS_FAILED rs = 0)"
  using assms by (auto simp: aggregate_results_def split: sum.splits prod.splits)

lemma run_flow_Inr:
  assumes "run_flow h E = Inr (st, s)"
  obtains L X Y rs ss where "get_execution_levels h (env_nodes E) (env_conns E) = Inr L"
    "execute_levels E 0 L initial_run = Inr st" "L = X @ Y"
    "run_shape E 0 initial_run st X Y rs ss" "numbered st" "aggregate_results (results st) = Inr s"
proof -
  from assms obtain L where L: "get_execution_levels h (env_nodes E) (env_conns E) = Inr L"
    "execute_levels E 0 L initial_run = Inr st" "aggregate_results (results st) = Inr s"
    by (auto simp: run_flow_def split: sum.splits)
  with levels.run_over_plan [OF L(1)] that show ?thesis by auto
qed

lemma count_status_0: "count_status x rs = 0 \<longleftrightarrow> (\<forall>r \<in> set (map snd rs). r_status r \<noteq> x)"
  by (auto simp: count_status_def filter_empty_conv)

lemma run_results:
  assumes "run_shape E i initial_run st X Y rs ss"
  shows "map snd (results st) = rs \<and> map fst (results st) = concat X"
proof -
  have "length rs = length (concat X)" using assms unfolding run_shape_def by (metis length_map)
  then show ?thesis using assms by (simp add: run_shape_def initial_run_def)
qed

text \<open>Only a plan that is missing or a sum of values that are not numbers stops a run.\<close>

lemma add_totals_error: "add_totals rs acc = Inl e \<Longrightarrow> \<exists>m. e = TypeError m"
  by (induction rs acc rule: add_totals.induct)
    (auto simp: py_plus_def split: option.splits sum.splits if_splits)

lemma run_flow_error:
  assumes "validate_flow h limit \<lparr>nodes = env_nodes E, connections = env_conns E, metadata = None\<rparr> True = Inr v"
    and "is_valid v" and "length (env_nodes E) < limit"
    and "distinct (ids (env_nodes E))" and "env_nodes E \<noteq> []" and "run_flow h E = Inl e"
  shows "\<exists>m. e = TypeError m"
proof -
  obtain L where L: "get_execution_levels h (env_nodes E) (env_conns E) = Inr L"
    using valid_flow_planned [OF assms(1,2)] assms(3-5) by auto
  obtain st where "execute_levels E 0 L initial_run = Inr st"
    using levels.run_over_plan [OF L] by blast
  with L assms(6) have "add_totals (map snd (results st)) (PInt 0, PInt 0) = Inl e"
    by (auto simp: run_flow_def aggregate_results_def split: sum.splits prod.splits)
  then show ?thesis by (rule add_totals_error)
qed

section \<open>Properties\<close>

definition sample_ok :: handler where
  "sample_ok n d = Inr \<lparr>h_status = NS_COMPLETED, h_result_data = [(''rows_scanned'', PInt 7)],
     h_error_message = None, h_error_details = None, h_output_data = [(node_id n, PInt 1)]\<rparr>"

definition sample_env :: exec_env where
  "sample_env = \<lparr>env_nodes = sample_nodes, env_conns = sample_conns, source_handler = sample_ok,
     check_handler = sample_ok, fault = (\<lambda>_. None), cancelled = (\<lambda>_. False), execution_config = []\<rparr>"

definition sample_record :: FlowExecution where
  "sample_record = \<lparr>ex_status = PENDING, ex_nodes_executed = 0, ex_nodes_passed = 0,
     ex_nodes_failed = 0, ex_nodes_skipped = 0, ex_summary = None, ex_error_message = None\<rparr>"

abbreviation flow_of :: "exec_env \<Rightarrow> FlowDefinition" where
  "flow_of E \<equiv> \<lparr>nodes = env_nodes E, connections = env_conns E, metadata = None\<rparr>"

lemma sample_env_simps [simp]:
  "env_nodes sample_env = sample_nodes" "env_conns sample_env = sample_conns"
  "env_nodes (sample_env\<lparr>cancelled := f\<rparr>) = sample_nodes"
  "env_conns (sample_env\<lparr>cancelled := f\<rparr>) = sample_conns"
  "cancelled (sample_env\<lparr>cancelled := f\<rparr>) = f"
  by (simp_all add: sample_env_def)

lemma sample_valid: "\<exists>r. validate_flow (\<lambda>_. 0) 4 \<lparr>nodes = sample_nodes, connections = sample_conns, metadata = None\<rparr> True = Inr r \<and> is_valid r"
proof -
  have "case validate_flow (\<lambda>_. 0) 4 \<lparr>nodes = sample_nodes, connections = sample_conns, metadata = None\<rparr> True of
      Inl e \<Rightarrow> False | Inr r \<Rightarrow> is_valid r" by code_simp
  then show ?thesis by (auto split: sum.splits)
qed

text \<open>
  C5: A flow with distinct node ids that passes the strict validation can be run to its end,
  whatever the handlers, the faults in adding a record and the cancellations do: the planner accepts it, no lookup
  fails, and the run leaves exactly one result row for each node of the flow, in plan order and
  numbered from 0 without a gap.
\<close>

theorem valid_flow_runs_completely:
  assumes "validate_flow h limit (flow_of E) True = Inr r" and "is_valid r"
    and "length (env_nodes E) < limit" and "distinct (ids (env_nodes E))" and "env_nodes E \<noteq> []"
  shows "\<exists>L st. get_execution_levels h (env_nodes E) (env_conns E) = Inr L \<and>
    execute_levels E 0 L initial_run = Inr st \<and> map r_node_id (rows st) = concat L \<and>
    map r_order (rows st) = [0..<length (env_nodes E)] \<and>
    (\<forall>v \<in> set (ids (env_nodes E)). \<exists>!x. x \<in> set (rows st) \<and> r_node_id x = v)"
proof -
  obtain L where L: "get_execution_levels h (env_nodes E) (env_conns E) = Inr L"
    using valid_flow_planned [OF assms(1,2)] assms(3-5) by auto
  then have "length (concat L) = length (env_nodes E)" by (auto simp: get_execution_levels_iff)
  with levels.one_row_per_node [OF L] L show ?thesis by auto
qed

theorem valid_flow_runs_completely_witness:
  "\<exists>L st. get_execution_levels (\<lambda>_. 0) sample_nodes sample_conns = Inr L \<and>
    execute_levels sample_env 0 L initial_run = Inr st \<and> map r_order (rows st) = [0..<3]"
proof -
  obtain r where r: "validate_flow (\<lambda>_. 0) 4 (flow_of sample_env) True = Inr r" "is_valid r"
    using sample_valid by auto
  from valid_flow_runs_completely [OF r] show ?thesis by (simp del: upt_rec_numeral) blast
qed

text \<open>
  C6: Running the nodes of a level concurrently is free of races: in the state a run leaves,
  the result of every executed node is what its handler makes of the merged outputs of its
  predecessors, and these have all been executed; so a node never sees a partial or foreign
  input, in whatever order the levels list their nodes.  The outputs on record are exactly those
  of the results on record, so the results are determined by the handlers and the connections.
\<close>

theorem executed_nodes_see_all_inputs:
  assumes "run_flow h E = Inr (st, s)" and "map_of (results st) v = Some r"
  shows "(\<exists>n \<in> set (env_nodes E). node_id n = v \<and>
      r = settle n (r_order r)
        (execute_node E n (gather_input (env_conns E) (outputs st) v) (r_order r))) \<and>
    (\<forall>u. (u, v) \<in> edges (env_conns E) \<longrightarrow> u \<in> set (map fst (results st))) \<and>
    (\<forall>u. map_of (outputs st) u = Option.bind (map_of (results st) u) output_of)"
proof -
  from run_flow_Inr [OF assms(1)] obtain L X Y rs ss where
    L: "get_execution_levels h (env_nodes E) (env_conns E) = Inr L" "L = X @ Y"
    and ex: "execute_levels E 0 L initial_run = Inr st"
    and shape: "run_shape E 0 initial_run st X Y rs ss" by metis
  have "distinct (map fst (results initial_run) @ concat L)"
    using execution_levels_plan [OF L(1)] by (simp add: initial_run_def plan_def)
  from execute_levels_outputs [OF ex numbered_initial outputs_ok_initial this]
  have outs: "\<forall>u. map_of (outputs st) u = Option.bind (map_of (results st) u) output_of"
    by (simp add: outputs_ok_def)
  note res = run_results [OF shape]
  from assms(2) have mem: "(v, r) \<in> set (results st)" by (rule map_of_SomeD)
  with res have "r \<in> set rs" and vX: "v \<in> set (concat X)"
    by (metis in_set_zipE zip_map_fst_snd)+
  with shape obtain n where n: "n \<in> set (env_nodes E)" "r = node_row E (outputs st) n (r_order r)"
    unfolding run_shape_def by blast
  have "results st = zip (concat X) rs" "map r_node_id rs = concat X"
    using shape by (auto simp: run_shape_def initial_run_def)
  with mem have "r_node_id r = v" by (metis in_set_zip nth_map fst_conv snd_conv)
  then have "node_id n = v" using n by (metis node_row_simps(1))
  moreover have "u \<in> set (map fst (results st))" if "(u, v) \<in> edges (env_conns E)" for u
  proof -
    from execution_levels_plan [OF L(1)] have "strata (env_conns E) L" by simp
    moreover obtain ls l ls' where X: "X = ls @ l # ls'" "v \<in> set l"
      using vX by (metis in_set_conv_decomp set_concat UN_E)
    ultimately have "u \<in> set (concat ls)" using L(2) that unfolding strata_def by simp
    with X res show ?thesis by simp
  qed
  ultimately show ?thesis using n outs by (auto simp: node_row_def)
qed

theorem executed_nodes_see_all_inputs_witness:
  "\<exists>st s r. run_flow (\<lambda>_. 0) sample_env = Inr (st, s) \<and> map_of (results st) ''b'' = Some r \<and>
    r = settle (sample_node ''b'' CHECK) (r_order r)
      (execute_node sample_env (sample_node ''b'' CHECK) (gather_input sample_conns (outputs st) ''b'') (r_order r))"
proof -
  have "case run_flow (\<lambda>_. 0) sample_env of Inl e \<Rightarrow> False
    | Inr (st, s) \<Rightarrow> map_of (results st) ''b'' \<noteq> None" by code_simp
  then obtain st s r where r: "run_flow (\<lambda>_. 0) sample_env = Inr (st, s)" "map_of (results st) ''b'' = Some r"
    by (auto split: sum.splits)
  with executed_nodes_see_all_inputs [OF r] show ?thesis
    by (auto simp: sample_nodes_def sample_node_def)
qed

text \<open>
  The executor stops only for a reason and skips consistently.  Without
  \<open>continue_on_error\<close> all failed nodes lie in the last executed level; nodes are skipped only
  after a failure or a cancellation; executed and skipped nodes together are all the nodes of
  the flow; and no skipped node has an executed successor.
\<close>

theorem skipping_is_justified:
  assumes "run_flow h E = Inr (st, s)"
  shows "\<exists>X Y ss. get_execution_levels h (env_nodes E) (env_conns E) = Inr (X @ Y) \<and>
    map fst (results st) = concat X \<and> rows st = map snd (results st) @ ss \<and> skip_rows (concat Y) ss \<and>
    (\<not> continue_on_error E \<longrightarrow> (\<forall>(v, r) \<in> set (results st). r_status r = NS_FAILED \<longrightarrow> v \<in> set (last X))) \<and>
    (Y \<noteq> [] \<longrightarrow> cancelled E (length X) \<or>
      (\<not> continue_on_error E \<and> (\<exists>(v, r) \<in> set (results st). r_status r = NS_FAILED))) \<and>
    (\<forall>u \<in> set (concat Y). \<forall>v \<in> set (concat X). (u, v) \<notin> edges (env_conns E))"
proof -
  from run_flow_Inr [OF assms] obtain L X Y rs ss where
    L: "get_execution_levels h (env_nodes E) (env_conns E) = Inr L" "L = X @ Y"
    and shape: "run_shape E 0 initial_run st X Y rs ss" by metis
  note res = run_results [OF shape]
  have z: "results st = zip (concat X) rs" "map r_node_id rs = concat X"
    using shape by (auto simp: run_shape_def initial_run_def)
  have id: "r_node_id r = v \<and> r \<in> set rs" if "(v, r) \<in> set (results st)" for v r
    using that z by (metis in_set_zip nth_map fst_conv snd_conv set_zip_rightD)
  have ex: "\<exists>(v, r) \<in> set (results st). r = x" if "x \<in> set rs" for x
  proof -
    have "x \<in> snd ` set (results st)" using that res by (metis list.set_map)
    then show ?thesis by auto
  qed
  have dist: "distinct (concat (X @ Y))" and st: "strata (env_conns E) (X @ Y)"
    using execution_levels_plan [OF L(1)] L(2) by (auto simp: plan_def)
  have "(u, v) \<notin> edges (env_conns E)" if u: "u \<in> set (concat Y)" and v: "v \<in> set (concat X)" for u v
  proof
    assume e: "(u, v) \<in> edges (env_conns E)"
    obtain ls l ls' where X: "X = ls @ l # ls'" "v \<in> set l"
      using v by (metis in_set_conv_decomp set_concat UN_E)
    with st e have "u \<in> set (concat ls)" unfolding strata_def by simp
    with X u dist show False by auto
  qed
  moreover have "\<not> continue_on_error E \<longrightarrow>
      (\<forall>(v, r) \<in> set (results st). r_status r = NS_FAILED \<longrightarrow> v \<in> set (last X))"
    using shape id unfolding run_shape_def by fastforce
  moreover have "Y \<noteq> [] \<longrightarrow> cancelled E (length X) \<or>
      (\<not> continue_on_error E \<and> (\<exists>(v, r) \<in> set (results st). r_status r = NS_FAILED))"
    using shape ex unfolding run_shape_def by fastforce
  moreover have "rows st = map snd (results st) @ ss" "skip_rows (concat Y) ss"
    using shape res by (auto simp: run_shape_def initial_run_def)
  ultimately show ?thesis using L res by blast
qed

theorem skipping_is_justified_witness:
  "\<exists>st s X Y. run_flow (\<lambda>_. 0) sample_env = Inr (st, s) \<and>
    get_execution_levels (\<lambda>_. 0) sample_nodes sample_conns = Inr (X @ Y) \<and> map fst (results st) = concat X"
proof -
  have "case run_flow (\<lambda>_. 0) sample_env of Inl e \<Rightarrow> False | Inr (st, s) \<Rightarrow> True" by code_simp
  then obtain st s where r: "run_flow (\<lambda>_. 0) sample_env = Inr (st, s)"
    by (auto split: sum.splits)
  from skipping_is_justified [OF r] show ?thesis using r by auto
qed

text \<open>
  C7: \<open>execute_flow\<close> always leaves the record completed or failed, never running.  It is
  completed exactly when the run ended without a failed node, with the counters of that run;
  an exception leaves it failed with the text of the exception; and for a valid flow without
  duplicate ids the only exception that can leave the call is a \<open>TypeError\<close> of the final
  summation of the reported row counts.
\<close>

theorem execution_always_settles:
  assumes "length (env_nodes E) < limit"
  shows "\<exists>x e. execute_flow h limit E rec = (x, e) \<and>
    (ex_status x = COMPLETED \<or> ex_status x = FAILED) \<and>
    (ex_status x = COMPLETED \<longleftrightarrow>
      (\<exists>v st s. validate_flow h limit (flow_of E) True = Inr v \<and> is_valid v \<and>
        run_flow h E = Inr (st, s) \<and> (\<forall>(u, r) \<in> set (results st). r_status r \<noteq> NS_FAILED) \<and>
        ex_nodes_executed x = length (results st) \<and>
        ex_nodes_passed x = count_status NS_COMPLETED (results st) \<and> ex_nodes_failed x = 0)) \<and>
    (\<forall>err. e = Some err \<longrightarrow> ex_status x = FAILED \<and> ex_error_message x = Some (error_text err) \<and>
      (distinct (ids (env_nodes E)) \<longrightarrow> env_nodes E \<noteq> [] \<longrightarrow> (\<exists>m. err = TypeError m)))"
proof -
  obtain v where v: "validate_flow h limit (flow_of E) True = Inr v"
    using validate_flow_total [of "flow_of E" limit h True] assms by auto
  show ?thesis
  proof (cases "is_valid v")
    case False
    then show ?thesis using v by (simp add: execute_flow_def)
  next
    case True
    show ?thesis
    proof (cases "run_flow h E")
      case (Inl err)
      have "\<exists>m. err = TypeError m" if "distinct (ids (env_nodes E))" "env_nodes E \<noteq> []"
        by (rule run_flow_error [OF v True assms that Inl])
      with Inl v True show ?thesis by (simp add: execute_flow_def Let_def)
    next
      case (Inr p)
      obtain st s where p: "run_flow h E = Inr (st, s)" using Inr by (cases p) auto
      from run_flow_Inr [OF p] have "aggregate_results (results st) = Inr s" by metis
      note c = aggregate_counts [OF this]
      have "all_passed s \<longleftrightarrow> (\<forall>(u, r) \<in> set (results st). r_status r \<noteq> NS_FAILED)"
        using c by (auto simp: count_status_0)
      with c p v True show ?thesis
        by (cases "all_passed s") (simp_all add: execute_flow_def Let_def)
    qed
  qed
qed

theorem execution_always_settles_witness:
  "\<exists>x e. execute_flow (\<lambda>_. 0) 4 sample_env sample_record = (x, e) \<and>
    (ex_status x = COMPLETED \<or> ex_status x = FAILED)"
  using execution_always_settles [of sample_env 4 "\<lambda>_. 0" sample_record] by auto

text \<open>
  A cancellation is lost.  When a valid flow is cancelled before its first level starts, no
  node is executed and every node is recorded as skipped, but the record that
  \<open>execute_flow\<close> leaves is completed, with no node executed and no error.
\<close>

theorem cancelled_run_ends_completed:
  assumes "validate_flow h limit (flow_of E) True = Inr v" and "is_valid v"
    and "length (env_nodes E) < limit" and "distinct (ids (env_nodes E))" and "env_nodes E \<noteq> []"
    and "cancelled E 0"
  shows "\<exists>st s. run_flow h E = Inr (st, s) \<and> results st = [] \<and>
    length (rows st) = length (env_nodes E) \<and> (\<forall>r \<in> set (rows st). r_status r = NS_SKIPPED) \<and>
    ex_status (fst (execute_flow h limit E rec)) = COMPLETED \<and>
    ex_nodes_executed (fst (execute_flow h limit E rec)) = 0"
proof -
  obtain L where L: "get_execution_levels h (env_nodes E) (env_conns E) = Inr L"
    using valid_flow_planned [OF assms(1,2)] assms(3-5) by auto
  then have len: "length (concat L) = length (env_nodes E)" by (auto simp: get_execution_levels_iff)
  with assms(5) obtain l L' where LL: "L = l # L'" by (cases L) auto
  obtain st where st: "execute_levels E 0 L initial_run = Inr st"
    using levels.run_over_plan [OF L] by blast
  then have "mark_skipped (env_nodes E) (concat L) initial_run = Inr st"
    using LL assms(6) by simp
  from mark_skipped_spec [OF this numbered_initial] obtain rs where
    r: "results st = []" "rows st = rs" "skip_rows (concat L) rs"
    by (auto simp: initial_run_def)
  then have "length (rows st) = length (env_nodes E)" "\<forall>r \<in> set (rows st). r_status r = NS_SKIPPED"
    using len by (auto simp: skip_rows_def) (metis length_map)
  moreover obtain s where s: "aggregate_results (results st) = Inr s"
    using r(1) by (simp add: aggregate_results_def)
  moreover from aggregate_counts [OF s] r(1) have "all_passed s" "nodes_executed s = 0"
    by (simp_all add: count_status_def)
  ultimately show ?thesis using L st r(1) assms(1,2)
    by (auto simp: run_flow_def execute_flow_def Let_def)
qed

theorem cancelled_run_ends_completed_witness:
  "ex_status (fst (execute_flow (\<lambda>_. 0) 4 (sample_env\<lparr>cancelled := (\<lambda>_. True)\<rparr>) sample_record)) = COMPLETED"
proof -
  obtain v where v: "validate_flow (\<lambda>_. 0) 4 (flow_of (sample_env\<lparr>cancelled := (\<lambda>_. True)\<rparr>)) True = Inr v" "is_valid v"
    using sample_valid by auto
  from cancelled_run_ends_completed [OF v, of sample_record] show ?thesis by auto
qed

text \<open>
  Duplicate node ids are not caught by the validation but always break the run: a flow with
  a repeated node id that passes the strict validation ends failed, with the \<open>ValueError\<close> the
  planner raises for a cycle although the flow has none.
\<close>

theorem duplicate_ids_break_the_run:
  assumes "validate_flow h limit (flow_of E) True = Inr v" and "is_valid v"
    and "length (env_nodes E) < limit" and "\<not> distinct (ids (env_nodes E))"
  shows "acyclic (edges (env_conns E)) \<and>
    (\<exists>x m. execute_flow h limit E rec = (x, Some (ValueError m)) \<and> ex_status x = FAILED)"
proof -
  have ne: "env_nodes E \<noteq> []" using assms(4) by auto
  then have c: "closed_flow (env_nodes E) (env_conns E)" "acyclic (edges (env_conns E))"
    using validate_flow_strict_iff [of "flow_of E" limit h] assms by auto
  have "get_execution_levels h (env_nodes E) (env_conns E) \<noteq> Inr L" for L
    using levels.plan_once [of h "env_nodes E" "env_conns E" L] assms(4)
      execution_levels_plan [of h "env_nodes E" "env_conns E" L] by (auto simp: plan_def)
  then obtain m where "get_execution_levels h (env_nodes E) (env_conns E) = Inl (ValueError m)"
    using get_execution_levels_cases [OF c(1), of h] by blast
  then show ?thesis using assms(1,2) c by (simp add: execute_flow_def run_flow_def Let_def)
qed

theorem duplicate_ids_break_the_run_witness:
  "\<exists>x m. execute_flow (\<lambda>_. 0) 9 (sample_env\<lparr>env_nodes := sample_nodes @ sample_nodes\<rparr>) sample_record =
    (x, Some (ValueError m)) \<and> ex_status x = FAILED"
proof -
  let ?E = "sample_env\<lparr>env_nodes := sample_nodes @ sample_nodes\<rparr>"
  have "case validate_flow (\<lambda>_. 0) 9 \<lparr>nodes = sample_nodes @ sample_nodes, connections = sample_conns, metadata = None\<rparr> True of
      Inl e \<Rightarrow> False | Inr r \<Rightarrow> is_valid r" by code_simp
  then obtain v where v: "validate_flow (\<lambda>_. 0) 9 (flow_of ?E) True = Inr v" "is_valid v"
    by (auto simp: sample_env_def split: sum.splits)
  from duplicate_ids_break_the_run [OF v, of sample_record] show ?thesis by simp
qed

text \<open>
  The nodes the executor itself skips are never counted: unless a handler reports the status
  skipped, \<open>nodes_skipped\<close> of the summary is 0, although executed and skipped rows together are
  all the nodes of the flow.
\<close>

theorem executor_skips_are_not_counted:
  assumes "run_flow h E = Inr (st, s)"
    and "\<And>n d r. source_handler E n d = Inr r \<Longrightarrow> h_status r \<noteq> NS_SKIPPED"
    and "\<And>n d r. check_handler E n d = Inr r \<Longrightarrow> h_status r \<noteq> NS_SKIPPED"
  shows "nodes_skipped s = 0 \<and>
    nodes_executed s + length (filter (\<lambda>r. r_status r = NS_SKIPPED) (rows st)) = length (env_nodes E)"
proof -
  from run_flow_Inr [OF assms(1)] obtain L X Y rs ss where
    L: "get_execution_levels h (env_nodes E) (env_conns E) = Inr L" "L = X @ Y"
    and shape: "run_shape E 0 initial_run st X Y rs ss" and agg: "aggregate_results (results st) = Inr s"
    by metis
  note res = run_results [OF shape]
  have ns: "r_status (node_row E outs n i) \<noteq> NS_SKIPPED" for outs n i
    using assms(2,3) by (auto simp: node_row_def settle_def execute_node_def create_node_result_def
        node_handler_def split: option.splits sum.splits NodeType.splits)
  have "r_status r \<noteq> NS_SKIPPED" if "r \<in> set rs" for r
    using shape that ns unfolding run_shape_def by metis
  moreover have "\<forall>r \<in> set ss. r_status r = NS_SKIPPED" "length ss = length (concat Y)"
    using shape skip_rows_length [of "concat Y" ss] by (simp_all add: run_shape_def skip_rows_def)
  moreover have "length rs = length (concat X)" using shape unfolding run_shape_def by (metis length_map)
  moreover have "length (concat L) = length (env_nodes E)" using L(1) by (auto simp: get_execution_levels_iff)
  moreover have "rows st = rs @ ss" using shape by (simp add: run_shape_def initial_run_def)
  moreover have "length (results st) = length rs" using res by (metis length_map)
  ultimately show ?thesis using aggregate_counts [OF agg] L(2) res
    by (simp add: count_status_0 filter_id_conv)
qed

theorem executor_skips_are_not_counted_witness:
  "\<exists>st s. run_flow (\<lambda>_. 0) (sample_env\<lparr>source_handler := (\<lambda>_ _. Inl (''E'', ''no table''))\<rparr>) = Inr (st, s) \<and>
    nodes_skipped s = 0 \<and> length (filter (\<lambda>r. r_status r = NS_SKIPPED) (rows st)) = 2"
proof -
  let ?E = "sample_env\<lparr>source_handler := (\<lambda>_ _. Inl (''E'', ''no table''))\<rparr>"
  have "case run_flow (\<lambda>_. 0) ?E of Inl e \<Rightarrow> False | Inr (st, s) \<Rightarrow> nodes_executed s = 1" by code_simp
  then obtain st s where r: "run_flow (\<lambda>_. 0) ?E = Inr (st, s)" "nodes_executed s = 1"
    by (auto split: sum.splits)
  from executor_skips_are_not_counted [OF r(1)]
  have "nodes_skipped s = 0 \<and>
      nodes_executed s + length (filter (\<lambda>r. r_status r = NS_SKIPPED) (rows st)) = length (env_nodes ?E)"
    by (auto simp: sample_env_def sample_ok_def)
  then show ?thesis using r by (simp add: sample_env_def)
qed

end
