(* ===== verification/FilterExpr.thy ===== *)
theory FilterExpr
  imports Prelude
begin

text \<open>
  The guard of user-supplied filter expressions in \<open>app/services/rules/compiler.py\<close>:
  \<open>_validate_filter_expression\<close> with its token pattern and word list, \<open>_build_where_clause\<close> and
  \<open>_format_placeholder_list\<close>.  The regular expressions are written out as the deterministic
  matchers they denote, backtracking included.
\<close>

section \<open>Blanking string literals\<close>

abbreviation quote :: char where
  "quote \<equiv> CHR 0x27"

abbreviation backslash :: char where
  "backslash \<equiv> CHR 0x5C"

text \<open>
  The pattern \<open>'(?:[^']|'')*'\<close> after its first quote: the rest behind the match.  A doubled
  quote is first tried as part of the literal; when that fails, its first quote closes it.
\<close>

fun literal_end :: "string \<Rightarrow> string option" where
  "literal_end [] = None"
| "literal_end (c # s) =
     (if c \<noteq> quote then literal_end s
      else case s of
             [] \<Rightarrow> Some s
           | d # s' \<Rightarrow> if d = quote
                then (case literal_end s' of Some r \<Rightarrow> Some r | None \<Rightarrow> Some s)
                else Some s)"

lemma literal_end_shorter: "literal_end s = Some r \<Longrightarrow> length r < length s"
proof (induction s arbitrary: r rule: literal_end.induct)
  case (2 c s)
  show ?case
  proof (cases "c = quote")
    case False
    then show ?thesis using 2 by fastforce
  next
    case True
    with 2 show ?thesis by (cases s) (fastforce split: if_splits option.splits)+
  qed
qed simp

text \<open>\<open>re.sub\<close> of the pattern by two quotes.\<close>

function blank_literals :: "string \<Rightarrow> string" where
  "blank_literals [] = []"
| "blank_literals (c # s) =
     (if c = quote then
        (case literal_end s of
           Some r \<Rightarrow> [quote, quote] @ blank_literals r
         | None \<Rightarrow> c # blank_literals s)
      else c # blank_literals s)"
  by pat_completeness auto
termination
  by (relation "measure length") (auto dest: literal_end_shorter)

text \<open>\<open>s.replace("''", "")\<close>.\<close>

fun remove_pairs :: "string \<Rightarrow> string" where
  "remove_pairs (c # d # s) =
     (if c = quote \<and> d = quote then remove_pairs s else c # remove_pairs (d # s))"
| "remove_pairs s = s"

section \<open>Forbidden text and parentheses\<close>

text \<open>The search for comment markers, separators and escape characters.\<close>

definition forbidden_marker :: "string \<Rightarrow> bool" where
  "forbidden_marker s \<longleftrightarrow>
     contains ''--'' s \<or> contains ''/*'' s \<or> contains ''*/'' s \<or> contains ''#'' s \<or>
     contains '';'' s \<or> contains [backslash] s \<or> contains ''`'' s"

fun balanced_from :: "nat \<Rightarrow> string \<Rightarrow> bool" where
  "balanced_from n [] = (n = 0)"
| "balanced_from n (c # s) =
     (if c = CHR ''('' then balanced_from (Suc n) s
      else if c = CHR '')'' then (case n of 0 \<Rightarrow> False | Suc m \<Rightarrow> balanced_from m s)
      else balanced_from n s)"

section \<open>Tokens\<close>

definition word_start :: "char \<Rightarrow> bool" where
  "word_start c \<longleftrightarrow> is_alpha c \<or> c = CHR ''_''"

definition quoted_char :: "char \<Rightarrow> bool" where
  "quoted_char c \<longleftrightarrow> is_alpha c \<or> is_digit c \<or> c = CHR ''_'' \<or> c = CHR '' ''"

definition word_char :: "char \<Rightarrow> bool" where
  "word_char c \<longleftrightarrow> is_alpha c \<or> is_digit c \<or> c = CHR ''_'' \<or> c = CHR ''$''"

text \<open>A quoted identifier between \<open>a\<close> and \<open>b\<close>.\<close>

definition quoted_token :: "char \<Rightarrow> char \<Rightarrow> string \<Rightarrow> string option" where
  "quoted_token a b s =
     (case s of
        c # d # t \<Rightarrow>
          if c = a \<and> word_start d then
            (let body = takeWhile quoted_char t; rest = dropWhile quoted_char t
             in if rest \<noteq> [] \<and> hd rest = b then Some (c # d # body @ [b]) else None)
          else None
      | _ \<Rightarrow> None)"

text \<open>\<open>\d+(?:\.\d+)?\<close>.\<close>

definition number_token :: "string \<Rightarrow> string option" where
  "number_token s =
     (let whole = takeWhile is_digit s; rest = dropWhile is_digit s;
          frac = (case rest of c # t \<Rightarrow> if c = CHR ''.'' then takeWhile is_digit t else [] | [] \<Rightarrow> [])
      in if whole = [] then None
         else Some (if frac = [] then whole else whole @ CHR ''.'' # frac))"

definition word_token :: "string \<Rightarrow> string option" where
  "word_token s =
     (case s of
        c # t \<Rightarrow> if word_start c then Some (c # takeWhile word_char t) else None
      | [] \<Rightarrow> None)"

text \<open>The fixed tokens in the order of the alternatives; the first that is a prefix is taken.\<close>

definition symbol_tokens :: "string list" where
  "symbol_tokens = [''!~*'', ''!~'', ''~*'', ''~'', ''||'', ''::'', ''<>'', ''!='', ''<='', ''>='',
     ''='', ''<'', ''>'', ''('', '')'', '','', ''.'', ''+'', ''-'', ''*'', ''/'', ''%'']"

definition space_token :: "string \<Rightarrow> string option" where
  "space_token s = (if takeWhile is_space s = [] then None else Some (takeWhile is_space s))"

fun first_some :: "'a option list \<Rightarrow> 'a option" where
  "first_some [] = None"
| "first_some (None # xs) = first_some xs"
| "first_some (Some x # xs) = Some x"

text \<open>\<open>_FILTER_TOKEN.match(stripped, pos)\<close>: the token at the start of the rest.\<close>

definition filter_token :: "string \<Rightarrow> string option" where
  "filter_token s = first_some
     [space_token s,
      if starts_with [quote, quote] s then Some [quote, quote] else None,
      quoted_token (CHR 0x22) (CHR 0x22) s,
      quoted_token (CHR ''['') (CHR '']'') s,
      number_token s,
      word_token s,
      find (\<lambda>t. starts_with t s) symbol_tokens]"

definition forbidden_words :: "string list" where
  "forbidden_words = [''select'', ''insert'', ''update'', ''delete'', ''drop'', ''alter'',
     ''create'', ''truncate'', ''merge'', ''grant'', ''revoke'', ''exec'', ''execute'', ''call'',
     ''copy'', ''vacuum'', ''union'', ''into'', ''returning'', ''sleep'', ''pg_sleep'',
     ''benchmark'', ''waitfor'', ''load_file'', ''outfile'', ''dumpfile'',
     ''information_schema'', ''pg_catalog'', ''sysobjects'', ''xp_cmdshell'']"

lemma takeWhile_prefix: "starts_with (takeWhile P s) s"
  unfolding starts_with_append by (metis takeWhile_dropWhile_id)

text \<open>A token is a non-empty prefix, so the tokenizer advances.\<close>

lemma symbol_tokens_nonempty: "[] \<notin> set symbol_tokens"
  by (simp add: symbol_tokens_def)

lemma first_some_Some: "first_some xs = Some x \<Longrightarrow> Some x \<in> set xs"
  by (induction xs rule: first_some.induct) auto

lemma quoted_token_prefix: "quoted_token a b s = Some t \<Longrightarrow> t \<noteq> [] \<and> starts_with t s"
proof -
  assume a: "quoted_token a b s = Some t"
  then obtain c d r where s: "s = c # d # r"
    by (auto simp: quoted_token_def split: list.splits if_splits)
  with a have t: "t = c # d # takeWhile quoted_char r @ [b]"
    and ne: "dropWhile quoted_char r \<noteq> []" and hd: "hd (dropWhile quoted_char r) = b"
    by (auto simp: quoted_token_def Let_def split: if_splits)
  have "r = takeWhile quoted_char r @ b # tl (dropWhile quoted_char r)"
    using ne hd by (metis list.collapse takeWhile_dropWhile_id)
  then have "s = t @ tl (dropWhile quoted_char r)" using s t by simp
  then show ?thesis using t unfolding starts_with_append by auto
qed

lemma number_token_prefix: "number_token s = Some t \<Longrightarrow> t \<noteq> [] \<and> starts_with t s"
proof -
  assume a: "number_token s = Some t"
  let ?w = "takeWhile is_digit s" and ?r = "dropWhile is_digit s"
  have w: "?w \<noteq> []" using a by (auto simp: number_token_def Let_def split: if_splits)
  have s: "s = ?w @ ?r" by simp
  show ?thesis
  proof (cases "t = ?w")
    case True
    then show ?thesis using w takeWhile_prefix by simp
  next
    case False
    with a obtain u where r: "?r = CHR ''.'' # u" and t: "t = ?w @ CHR ''.'' # takeWhile is_digit u"
      by (auto simp: number_token_def Let_def split: if_splits list.splits)
    have "u = takeWhile is_digit u @ dropWhile is_digit u" by simp
    then have "s = t @ dropWhile is_digit u" using s r t by (metis append.assoc append_Cons)
    moreover have "t \<noteq> []" using t by simp
    ultimately show ?thesis unfolding starts_with_append by blast
  qed
qed

lemma word_token_prefix: "word_token s = Some t \<Longrightarrow> t \<noteq> [] \<and> starts_with t s"
  by (auto simp: word_token_def takeWhile_prefix split: list.splits if_splits)

lemma filter_token_prefix: "filter_token s = Some t \<Longrightarrow> t \<noteq> [] \<and> starts_with t s"
proof -
  assume "filter_token s = Some t"
  then have "Some t \<in> set [space_token s,
      if starts_with [quote, quote] s then Some [quote, quote] else None,
      quoted_token (CHR 0x22) (CHR 0x22) s, quoted_token (CHR ''['') (CHR '']'') s,
      number_token s, word_token s, find (\<lambda>t. starts_with t s) symbol_tokens]"
    unfolding filter_token_def by (rule first_some_Some)
  moreover have "t \<noteq> [] \<and> starts_with t s" if "space_token s = Some t"
    using that takeWhile_prefix by (auto simp: space_token_def split: if_splits)
  moreover have "t \<noteq> [] \<and> starts_with t s" if "find (\<lambda>t. starts_with t s) symbol_tokens = Some t"
    using that symbol_tokens_nonempty by (auto simp: find_Some_iff) (metis nth_mem)
  ultimately show ?thesis
    using quoted_token_prefix number_token_prefix word_token_prefix
    by (auto split: if_splits) metis+
qed

lemma filter_token_advances: "filter_token s = Some t \<Longrightarrow> s \<noteq> [] \<and> t \<noteq> []"
  using filter_token_prefix [of s t] by (auto simp: starts_with_append)

section \<open>The validation\<close>

text \<open>The tokenizing loop; \<open>pos\<close> is the length of what has been dropped.\<close>

function tokens_ok :: "string \<Rightarrow> bool" where
  "tokens_ok s =
     (if s = [] then True
      else case filter_token s of
             None \<Rightarrow> False
           | Some t \<Rightarrow> if lower t \<in> set forbidden_words then False else tokens_ok (drop (length t) s))"
  by pat_completeness auto
termination
  by (relation "measure length") (auto dest!: filter_token_advances)

declare tokens_ok.simps [simp del]

definition validate_filter_expression :: "string \<Rightarrow> bool" where
  "validate_filter_expression e =
     (if e = [] \<or> length e > 2000 then False
      else let stripped = blank_literals e in
        if quote \<in> set (remove_pairs stripped) then False
        else if forbidden_marker stripped then False
        else if \<not> balanced_from 0 stripped then False
        else tokens_ok stripped)"

section \<open>Composing clauses\<close>

text \<open>\<open>_build_where_clause\<close>; a falsy part is an absent one.\<close>

definition build_where_clause :: "string option \<Rightarrow> string option \<Rightarrow> string" where
  "build_where_clause f w =
     (let part = (\<lambda>x. case x of None \<Rightarrow> [] | Some s \<Rightarrow> if s = [] then [] else [''('' @ s @ '')'']);
          clauses = part f @ part w
      in if clauses = [] then [] else ''WHERE '' @ join_with '' AND '' clauses)"

text \<open>\<open>p.strip().lower().replace("'", "''")\<close> and the list of literals.\<close>

definition double_quotes :: "string \<Rightarrow> string" where
  "double_quotes s = concat (map (\<lambda>c. if c = quote then [quote, quote] else [c]) s)"

definition placeholder_literal :: "string \<Rightarrow> string" where
  "placeholder_literal p = [quote] @ double_quotes (lower (strip p)) @ [quote]"

definition format_placeholder_list :: "string list \<Rightarrow> string" where
  "format_placeholder_list ps = join_with '', '' (map placeholder_literal ps)"

section \<open>Reading the text as SQL does\<close>

text \<open>
  A reader that switches between code and string literal at every quote; a doubled quote inside
  a literal switches twice and stays.  \<open>code_part\<close> is the text outside literals.
\<close>

fun code_part :: "bool \<Rightarrow> string \<Rightarrow> string" where
  "code_part inside [] = []"
| "code_part inside (c # s) =
     (if c = quote then code_part (\<not> inside) s
      else if inside then code_part inside s else c # code_part inside s)"

fun ends_inside :: "bool \<Rightarrow> string \<Rightarrow> bool" where
  "ends_inside inside [] = inside"
| "ends_inside inside (c # s) = ends_inside (if c = quote then \<not> inside else inside) s"

lemma code_part_append:
  "code_part b (s @ t) = code_part b s @ code_part (ends_inside b s) t"
  by (induction b s rule: code_part.induct) auto

lemma ends_inside_append: "ends_inside b (s @ t) = ends_inside (ends_inside b s) t"
  by (induction b s rule: ends_inside.induct) auto

text \<open>A match of the literal pattern is a closed literal for that reader.\<close>

lemma literal_end_reads:
  "literal_end s = Some r \<Longrightarrow> code_part True s = code_part False r \<and> ends_inside True s = ends_inside False r"
proof (induction s arbitrary: r rule: literal_end.induct)
  case (2 c s)
  show ?case
  proof (cases "c = quote")
    case False
    with 2 show ?thesis by auto
  next
    case True
    show ?thesis
    proof (cases s)
      case Nil
      with True "2.prems" show ?thesis by simp
    next
      case (Cons d s')
      with 2 True show ?thesis by (auto split: if_splits option.splits)
    qed
  qed
qed simp

lemma blank_literals_reads:
  "code_part False (blank_literals s) = code_part False s \<and>
   ends_inside False (blank_literals s) = ends_inside False s"
proof (induction s rule: blank_literals.induct)
  case (2 c s)
  show ?case
  proof (cases "c = quote \<and> literal_end s \<noteq> None")
    case True
    then obtain r where r: "c = quote" "literal_end s = Some r" by auto
    from 2(2) [OF r] literal_end_reads [OF r(2)] r show ?thesis by simp
  next
    case False
    show ?thesis
    proof (cases "c = quote")
      case True
      with False have n: "literal_end s = None" by simp
      have "quote \<notin> set s" using n
        by (induction s rule: literal_end.induct) (auto split: if_splits list.splits option.splits)
      then have "blank_literals s = s" by (induction s) auto
      with True n show ?thesis by simp
    next
      case False
      with 2 show ?thesis by simp
    qed
  qed
qed simp

lemma remove_pairs_reads:
  "quote \<notin> set (remove_pairs s) \<Longrightarrow> code_part False s = remove_pairs s \<and> \<not> ends_inside False s"
proof (induction s rule: remove_pairs.induct)
  case (1 c d s)
  then show ?case by (cases "c = quote"; cases "d = quote") auto
qed (auto split: if_splits)

lemma remove_pairs_balanced: "balanced_from n (remove_pairs s) = balanced_from n s"
  by (induction s arbitrary: n rule: remove_pairs.induct) (auto split: nat.splits)

text \<open>The text outside literals, cut into the pieces between two quotes.\<close>

fun code_segments :: "bool \<Rightarrow> string \<Rightarrow> string list" where
  "code_segments inside [] = [[]]"
| "code_segments inside (c # s) =
     (if c = quote then [] # code_segments (\<not> inside) s
      else if inside then code_segments inside s
      else (c # hd (code_segments inside s)) # tl (code_segments inside s))"

lemma code_segments_nonempty: "code_segments b s \<noteq> []"
  by (induction b s rule: code_segments.induct) auto

lemma concat_code_segments: "concat (code_segments b s) = code_part b s"
proof (induction b s rule: code_segments.induct)
  case (2 b c s)
  then show ?case using code_segments_nonempty [of b s] by (cases "code_segments b s") auto
qed simp

lemma literal_end_segments:
  "literal_end s = Some r \<Longrightarrow> set (code_segments True s) \<subseteq> insert [] (set (code_segments False r))"
proof (induction s arbitrary: r rule: literal_end.induct)
  case (2 c s)
  show ?case
  proof (cases "c = quote")
    case False
    with 2 show ?thesis by simp
  next
    case c: True
    show ?thesis
    proof (cases s)
      case Nil
      with c "2.prems" show ?thesis by simp
    next
      case (Cons d s')
      show ?thesis
      proof (cases "d = quote \<and> literal_end s' \<noteq> None")
        case True
        then obtain r' where "literal_end s' = Some r'" "d = quote" by auto
        with "2.prems" "2.IH"(2) [of d s' r'] c Cons show ?thesis by auto
      next
        case False
        with "2.prems" c Cons show ?thesis by (auto split: if_splits)
      qed
    qed
  qed
qed simp

lemma contains_Nil [simp]: "contains [] s"
  by (cases s) simp_all

lemma contains_Cons_I: "contains x s \<Longrightarrow> contains x (c # s)"
  by simp

lemma no_quote_segments: "quote \<notin> set s \<Longrightarrow> code_segments True s = [[]]"
  by (induction s) auto

lemma literal_end_None: "literal_end s = None \<Longrightarrow> quote \<notin> set s"
  by (induction s rule: literal_end.induct) (auto split: if_splits list.splits option.splits)

lemma segments_in_blanked:
  "starts_with (hd (code_segments False s)) (blank_literals s) \<and>
   (\<forall>x \<in> set (code_segments False s). contains x (blank_literals s))"
proof (induction s rule: blank_literals.induct)
  case (2 c s)
  show ?case
  proof (cases "c = quote")
    case False
    then have b: "blank_literals (c # s) = c # blank_literals s" by simp
    from 2(3) [OF False] code_segments_nonempty [of False s] False show ?thesis
      unfolding b by (cases "code_segments False s") (auto intro: contains_Cons_I)
  next
    case c: True
    show ?thesis
    proof (cases "literal_end s")
      case None
      with c literal_end_None [OF None] show ?thesis by (simp add: no_quote_segments)
    next
      case (Some r)
      have "set (code_segments False (c # s)) \<subseteq> insert [] (set (code_segments False r))"
        using literal_end_segments [OF Some] c by auto
      then have "\<forall>x \<in> set (code_segments False (c # s)). contains x (blank_literals r)"
        using 2(2) [OF c Some] by auto
      then show ?thesis using c Some by (auto intro: contains_Cons_I)
    qed
  qed
qed simp

lemma contains_trans: "contains x y \<Longrightarrow> contains y z \<Longrightarrow> contains x z"
  unfolding contains_append by (metis append.assoc)

lemma forbidden_marker_mono: "contains x s \<Longrightarrow> \<not> forbidden_marker s \<Longrightarrow> \<not> forbidden_marker x"
  unfolding forbidden_marker_def using contains_trans by blast

lemma validated:
  assumes "validate_filter_expression e"
  shows "e \<noteq> []" and "length e \<le> 2000" and "quote \<notin> set (remove_pairs (blank_literals e))"
    and "\<not> forbidden_marker (blank_literals e)" and "balanced_from 0 (blank_literals e)"
    and "tokens_ok (blank_literals e)"
  using assms by (auto simp: validate_filter_expression_def Let_def split: if_splits)

lemma tokens_ok_split:
  "tokens_ok s \<Longrightarrow> \<exists>ts. concat ts = s \<and>
     (\<forall>t \<in> set ts. lower t \<notin> set forbidden_words \<and> (\<exists>r. filter_token (t @ r) = Some t))"
proof (induction s rule: tokens_ok.induct)
  case (1 s)
  show ?case
  proof (cases "s = []")
    case True
    then show ?thesis by (intro exI [of _ "[]"]) simp
  next
    case False
    with "1.prems" obtain t where t: "filter_token s = Some t" "lower t \<notin> set forbidden_words"
        "tokens_ok (drop (length t) s)"
      by (auto simp: tokens_ok.simps [of s] split: option.splits if_splits)
    then obtain ts where ts: "concat ts = drop (length t) s"
        "\<forall>t \<in> set ts. lower t \<notin> set forbidden_words \<and> (\<exists>r. filter_token (t @ r) = Some t)"
      using "1.IH" [OF False t(1,2)] by blast
    obtain r where "s = t @ r" using filter_token_prefix [OF t(1)] by (auto simp: starts_with_append)
    with t ts show ?thesis by (intro exI [of _ "t # ts"]) auto
  qed
qed

section \<open>Reading placeholder lists back\<close>

text \<open>A string literal at the start of the text, with doubled quotes read as one.\<close>

fun literal_body :: "string \<Rightarrow> (string \<times> string) option" where
  "literal_body [] = None"
| "literal_body (c # s) =
     (if c \<noteq> quote then map_option (\<lambda>(x, r). (c # x, r)) (literal_body s)
      else case s of
             [] \<Rightarrow> Some ([], [])
           | d # s' \<Rightarrow> if d = quote then map_option (\<lambda>(x, r). (quote # x, r)) (literal_body s')
                       else Some ([], s))"

lemma literal_body_shorter: "literal_body s = Some (x, r) \<Longrightarrow> length r < length s"
proof (induction s arbitrary: x r rule: literal_body.induct)
  case (2 c s)
  show ?case
  proof (cases "c = quote")
    case False
    with 2 show ?thesis by fastforce
  next
    case True
    with 2 show ?thesis by (cases s) (fastforce split: if_splits)+
  qed
qed simp

function read_literals :: "string \<Rightarrow> string list option" where
  "read_literals [] = None"
| "read_literals (c # s) =
     (if c \<noteq> quote then None
      else case literal_body s of
             None \<Rightarrow> None
           | Some (x, r) \<Rightarrow>
               if r = [] then Some [x]
               else if starts_with '', '' r then map_option ((#) x) (read_literals (drop 2 r)) else None)"
  by pat_completeness auto
termination
  by (relation "measure length") (auto dest: literal_body_shorter)

lemma literal_body_double:
  "r = [] \<or> hd r \<noteq> quote \<Longrightarrow> literal_body (double_quotes s @ quote # r) = Some (s, r)"
proof (induction s)
  case Nil
  then show ?case by (cases r) (auto simp: double_quotes_def)
next
  case (Cons c s)
  then show ?case by (simp add: double_quotes_def)
qed

section \<open>Properties\<close>

text \<open>
  C28: An accepted filter expression cannot break out of the parentheses it is put into.  Read
  with the standard quoting rules of SQL, all its string literals are closed, the rest of the
  query is read as if the expression were not there, its parentheses outside literals are
  balanced and never close more than they open, and no piece of it outside literals contains a
  comment marker, a semicolon, a backslash or a backtick.
\<close>

theorem filter_cannot_break_out:
  assumes "validate_filter_expression e"
  shows "code_part False (''WHERE ('' @ e @ '')'' @ rest) = ''WHERE ('' @ code_part False e @ code_part False ('')'' @ rest) \<and>
    balanced_from 0 (code_part False e) \<and>
    (\<forall>x \<in> set (code_segments False e). \<not> forbidden_marker x)"
proof -
  note v = validated [OF assms]
  have r: "code_part False e = remove_pairs (blank_literals e)" "\<not> ends_inside False e"
    using remove_pairs_reads [OF v(3)] blank_literals_reads [of e] by simp_all
  have "balanced_from 0 (code_part False e)" using v(5) r(1) remove_pairs_balanced by simp
  moreover have "\<forall>x \<in> set (code_segments False e). \<not> forbidden_marker x"
    using segments_in_blanked [of e] forbidden_marker_mono v(4) by blast
  ultimately show ?thesis using r(2) by (simp add: code_part_append)
qed

theorem filter_cannot_break_out_witness:
  "balanced_from 0 (code_part False (''(age > 21) AND name = '' @ [quote] @ ''O'' @ [quote, quote] @ ''Neil'' @ [quote]))"
proof -
  have "validate_filter_expression (''(age > 21) AND name = '' @ [quote] @ ''O'' @ [quote, quote] @ ''Neil'' @ [quote])"
    by code_simp
  from filter_cannot_break_out [OF this] show ?thesis by blast
qed

text \<open>
  An accepted filter expression is a sequence of allowed tokens: with its literals blanked
  it splits into tokens of the pattern, none of which is a forbidden word in any case.
\<close>

theorem filter_is_allowed_tokens:
  assumes "validate_filter_expression e"
  shows "\<exists>ts. concat ts = blank_literals e \<and>
    (\<forall>t \<in> set ts. lower t \<notin> set forbidden_words \<and> (\<exists>r. filter_token (t @ r) = Some t))"
  using tokens_ok_split [OF validated(6) [OF assms]] .

theorem filter_is_allowed_tokens_witness:
  "\<exists>ts. concat ts = blank_literals ''a IS NOT NULL'' \<and> (\<forall>t \<in> set ts. lower t \<notin> set forbidden_words)"
proof -
  have "validate_filter_expression ''a IS NOT NULL''" by code_simp
  from filter_is_allowed_tokens [OF this] show ?thesis by blast
qed

text \<open>The reader of a dialect in which a backslash inside a literal escapes the next character.\<close>

fun code_part_escaped :: "bool \<Rightarrow> string \<Rightarrow> string" where
  "code_part_escaped inside [] = []"
| "code_part_escaped inside [c] = (if inside \<or> c = quote then [] else [c])"
| "code_part_escaped inside (c # d # s) =
     (if inside \<and> c = backslash then code_part_escaped inside s
      else if c = quote then code_part_escaped (\<not> inside) (d # s)
      else if inside then code_part_escaped inside (d # s)
      else c # code_part_escaped inside (d # s))"

text \<open>
  The guard does not hold for literals with backslash escapes (the \<open>E'...'\<close> literals of
  PostgreSQL, every literal of MySQL): there is an accepted expression whose text outside
  literals, read that way, closes the enclosing parenthesis, starts a new statement and ends
  with a comment marker.
\<close>

theorem escape_literal_breaks_out:
  "\<exists>e. validate_filter_expression e \<and>
    code_part_escaped False e = ''name = E); DROP TABLE x --''"
proof -
  let ?e = "''name = E'' @ [quote, backslash, quote, quote] @ ''); DROP TABLE x --'' @ [quote]"
  have "validate_filter_expression ?e" by code_simp
  moreover have "code_part_escaped False ?e = ''name = E); DROP TABLE x --''" by code_simp
  ultimately show ?thesis by blast
qed

text \<open>
  Quoting a function name hides it from the word list: the call of \<open>pg_sleep\<close> is rejected
  bare and accepted as a quoted identifier, which names the same function.
\<close>

theorem quoted_sleep_is_accepted:
  "\<not> validate_filter_expression ''pg_sleep(10) IS NULL'' \<and>
   validate_filter_expression ([CHR 0x22] @ ''pg_sleep'' @ [CHR 0x22] @ ''(10) IS NULL'')"
  by code_simp

text \<open>
  A placeholder list is read back unchanged: SQL reads the list that
  \<open>_format_placeholder_list\<close> writes as the stripped and lower-cased placeholders, in order,
  whatever quotes and commas they contain.
\<close>

theorem placeholder_list_roundtrip:
  assumes "ps \<noteq> []"
  shows "read_literals (format_placeholder_list ps) = Some (map (\<lambda>p. lower (strip p)) ps)"
  using assms
proof (induction ps rule: join_with.induct [where ?a0.0 = "'', ''"])
  case (2 sep p)
  then show ?case
    using literal_body_double [of "[]" "lower (strip p)"]
    by (simp add: format_placeholder_list_def placeholder_literal_def)
next
  case (3 sep p p' ps)
  let ?rest = "'', '' @ format_placeholder_list (p' # ps)"
  have "format_placeholder_list (p # p' # ps) = quote # double_quotes (lower (strip p)) @ quote # ?rest"
    by (simp add: format_placeholder_list_def placeholder_literal_def)
  moreover have "literal_body (double_quotes (lower (strip p)) @ quote # ?rest) = Some (lower (strip p), ?rest)"
    by (rule literal_body_double) simp
  ultimately show ?case using 3 by simp
qed simp

theorem placeholder_list_roundtrip_witness:
  "read_literals (format_placeholder_list ['' N/A '', ''it'' @ [quote] @ ''s, '']) = Some [''n/a'', ''it'' @ [quote] @ ''s,'']"
proof -
  have "map (\<lambda>p. lower (strip p)) ['' N/A '', ''it'' @ [quote] @ ''s, ''] = [''n/a'', ''it'' @ [quote] @ ''s,'']"
    by code_simp
  then show ?thesis using placeholder_list_roundtrip [of "['' N/A '', ''it'' @ [quote] @ ''s, '']"] by simp
qed

end
