(* ===== verification/Lifecycle.thy ===== *)
theory Lifecycle
  imports Prelude
begin

text \<open>
  What the connection and the dataset lifecycle modules promise to the code that drives a
  status column through them: a table of allowed successors with one terminal state, and string
  values that parse back.  The lemmas of the contract are proved here once.
\<close>

text \<open>A value the modules accept: a member of the enumeration or a raw string.\<close>

datatype 's state_value = Member 's | Raw string

text \<open>\<open>Illegal\<dots>TransitionError\<close> and the \<open>ValueError\<close> of an unknown state.\<close>

datatype 's transition_error = IllegalTransition 's 's | UnknownState string

text \<open>
  Driving the status column of a row: \<open>row.status = assert_transition(row.status, t).value\<close> for
  each target; a refused target leaves the column as it is.
\<close>

fun drive ::
    "('s state_value \<Rightarrow> 's state_value \<Rightarrow> 's transition_error + 's) \<Rightarrow> ('s \<Rightarrow> string) \<Rightarrow>
     string \<Rightarrow> 's list \<Rightarrow> string" where
  "drive assert val row [] = row"
| "drive assert val row (t # ts) =
     (case assert (Raw row) (Member t) of
        Inl e \<Rightarrow> drive assert val row ts
      | Inr t' \<Rightarrow> drive assert val (val t') ts)"

locale lifecycle =
  fixes val :: "'s \<Rightarrow> string"
    and coerce :: "'s state_value \<Rightarrow> 's transition_error + 's"
    and can :: "'s state_value \<Rightarrow> 's state_value \<Rightarrow> 's transition_error + bool"
    and assert :: "'s state_value \<Rightarrow> 's state_value \<Rightarrow> 's transition_error + 's"
    and allowed :: "'s state_value \<Rightarrow> 's transition_error + 's list"
    and archived :: 's
  assumes coerce_member: "coerce (Member s) = Inr s"
    and coerce_raw: "coerce (Raw v) = Inr s \<longleftrightarrow> val s = v"
    and coerce_unknown: "(\<nexists>s. val s = v) \<Longrightarrow> coerce (Raw v) = Inl (UnknownState v)"
    and can_allowed: "coerce x = Inr s \<Longrightarrow> coerce y = Inr t \<Longrightarrow>
      can x y = Inr (s = t \<or> t \<in> set (projr (allowed (Member s))))"
    and assert_can: "coerce x = Inr s \<Longrightarrow> coerce y = Inr t \<Longrightarrow>
      assert x y = (if can x y = Inr True then Inr t else Inl (IllegalTransition s t))"
    and assert_unknown: "coerce x = Inl e \<Longrightarrow> assert x y = Inl e"
    and allowed_total: "\<exists>ts. allowed (Member s) = Inr ts"
    and archived_terminal: "allowed (Member archived) = Inr []"
    and archived_always: "s \<noteq> archived \<Longrightarrow> archived \<in> set (projr (allowed (Member s)))"
begin

lemma val_inj: "val s = val t \<Longrightarrow> s = t"
  by (metis coerce_raw sum.inject(2))

text \<open>The relation of single hops.\<close>

abbreviation hop :: "('s \<times> 's) set" where
  "hop \<equiv> {(s, t). t \<in> set (projr (allowed (Member s)))}"

lemma assert_iff:
  "assert (Raw (val s)) (Member t) = (if s = t \<or> (s, t) \<in> hop then Inr t else Inl (IllegalTransition s t))"
proof -
  have "coerce (Raw (val s)) = Inr s" by (simp add: coerce_raw)
  from can_allowed [OF this coerce_member] assert_can [OF this coerce_member] show ?thesis by simp
qed

lemma archived_stuck: "(archived, t) \<in> hop\<^sup>* \<Longrightarrow> t = archived"
  by (induction rule: rtrancl_induct) (simp_all add: archived_terminal)

lemma archived_reachable: "(s, archived) \<in> hop\<^sup>="
  using archived_always by blast

text \<open>A driven column always holds the value of a state that the hops reach.\<close>

lemma drive_path: "\<exists>t. drive assert val (val s) ts = val t \<and> (s, t) \<in> hop\<^sup>*"
proof (induction ts arbitrary: s)
  case (Cons t ts)
  show ?case
  proof (cases "s = t \<or> (s, t) \<in> hop")
    case True
    then have "drive assert val (val s) (t # ts) = drive assert val (val t) ts"
      by (auto simp: assert_iff)
    moreover obtain u where "drive assert val (val t) ts = val u" "(t, u) \<in> hop\<^sup>*"
      using Cons by blast
    moreover have "(s, t) \<in> hop\<^sup>*" using True by blast
    ultimately show ?thesis by (metis rtrancl_trans)
  next
    case False
    then show ?thesis using Cons by (simp add: assert_iff)
  qed
qed auto

lemma drive_archived: "drive assert val (val archived) ts = val archived"
  using drive_path [of archived ts] archived_stuck by metis

lemma drive_to_archived: "drive assert val (val s) (ts @ [archived]) = val archived"
proof (induction ts arbitrary: s)
  case Nil
  have "s = archived \<or> (s, archived) \<in> hop" using archived_reachable by auto
  then show ?case by (auto simp: assert_iff)
next
  case (Cons t ts)
  then show ?case by (auto simp: assert_iff)
qed

text \<open>A row whose status is not a state is never changed.\<close>

lemma drive_unknown: "(\<nexists>s. val s = v) \<Longrightarrow> drive assert val v ts = v"
  by (induction ts) (simp_all add: assert_unknown [OF coerce_unknown])

end

end
