(* ===== verification/ConnectionLifecycle.thy ===== *)
theory ConnectionLifecycle
  imports Lifecycle
begin

text \<open>
  \<open>app/services/connections/lifecycle.py\<close>: the connection states, the transition table and the
  three public functions.
\<close>

datatype ConnectionState =
    C_DRAFT | C_CREATED | C_TEST_FAILED | C_TEST_SUCCESSFUL | C_DISCOVERY_AVAILABLE
  | C_ACTIVE | C_DISABLED | C_ARCHIVED

fun connection_value :: "ConnectionState \<Rightarrow> string" where
  "connection_value C_DRAFT = ''draft''"
| "connection_value C_CREATED = ''created''"
| "connection_value C_TEST_FAILED = ''test_failed''"
| "connection_value C_TEST_SUCCESSFUL = ''test_successful''"
| "connection_value C_DISCOVERY_AVAILABLE = ''discovery_available''"
| "connection_value C_ACTIVE = ''active''"
| "connection_value C_DISABLED = ''disabled''"
| "connection_value C_ARCHIVED = ''archived''"

definition connection_states :: "ConnectionState list" where
  "connection_states = [C_DRAFT, C_CREATED, C_TEST_FAILED, C_TEST_SUCCESSFUL,
     C_DISCOVERY_AVAILABLE, C_ACTIVE, C_DISABLED, C_ARCHIVED]"

fun connection_transitions :: "ConnectionState \<Rightarrow> ConnectionState list" where
  "connection_transitions C_DRAFT = [C_CREATED]"
| "connection_transitions C_CREATED = [C_TEST_FAILED, C_TEST_SUCCESSFUL]"
| "connection_transitions C_TEST_FAILED = [C_CREATED, C_TEST_SUCCESSFUL]"
| "connection_transitions C_TEST_SUCCESSFUL = [C_DISCOVERY_AVAILABLE, C_ACTIVE]"
| "connection_transitions C_DISCOVERY_AVAILABLE = [C_ACTIVE]"
| "connection_transitions C_ACTIVE = [C_DISABLED]"
| "connection_transitions C_DISABLED = [C_ACTIVE]"
| "connection_transitions C_ARCHIVED = []"

text \<open>\<open>_coerce\<close>: the enumeration looked up by value.\<close>

definition connection_coerce ::
    "ConnectionState state_value \<Rightarrow> ConnectionState transition_error + ConnectionState" where
  "connection_coerce x =
     (case x of
        Member s \<Rightarrow> Inr s
      | Raw v \<Rightarrow> (case find (\<lambda>s. connection_value s = v) connection_states of
                    Some s \<Rightarrow> Inr s | None \<Rightarrow> Inl (UnknownState v)))"

definition connection_can_transition ::
    "ConnectionState state_value \<Rightarrow> ConnectionState state_value \<Rightarrow>
     ConnectionState transition_error + bool" where
  "connection_can_transition current tgt =
     (case connection_coerce current of
        Inl e \<Rightarrow> Inl e
      | Inr cur \<Rightarrow>
          (case connection_coerce tgt of
             Inl e \<Rightarrow> Inl e
           | Inr t \<Rightarrow>
               if cur = t then Inr True
               else if t = C_ARCHIVED then Inr (cur \<noteq> C_ARCHIVED)
               else Inr (t \<in> set (connection_transitions cur))))"

definition connection_assert_transition ::
    "ConnectionState state_value \<Rightarrow> ConnectionState state_value \<Rightarrow>
     ConnectionState transition_error + ConnectionState" where
  "connection_assert_transition current tgt =
     (case connection_coerce current of
        Inl e \<Rightarrow> Inl e
      | Inr cur \<Rightarrow>
          (case connection_coerce tgt of
             Inl e \<Rightarrow> Inl e
           | Inr t \<Rightarrow>
               (case connection_can_transition (Member cur) (Member t) of
                  Inl e \<Rightarrow> Inl e
                | Inr ok \<Rightarrow> if \<not> ok then Inl (IllegalTransition cur t) else Inr t)))"

definition connection_allowed_next ::
    "ConnectionState state_value \<Rightarrow> ConnectionState transition_error + ConnectionState list" where
  "connection_allowed_next current =
     (case connection_coerce current of
        Inl e \<Rightarrow> Inl e
      | Inr cur \<Rightarrow> if cur = C_ARCHIVED then Inr []
                   else Inr (connection_transitions cur @ [C_ARCHIVED]))"

lemmas connection_defs = connection_coerce_def connection_can_transition_def
  connection_assert_transition_def connection_allowed_next_def

lemma connection_states_all: "s \<in> set connection_states"
  by (cases s) (simp_all add: connection_states_def)

lemma connection_value_inj: "connection_value s = connection_value t \<Longrightarrow> s = t"
  by (cases s; cases t) simp_all

lemma connection_coerce_raw: "connection_coerce (Raw v) = Inr s \<longleftrightarrow> connection_value s = v"
proof
  assume "connection_value s = v"
  then have "find (\<lambda>s. connection_value s = v) connection_states \<noteq> None"
    using connection_states_all by (auto simp: find_None_iff)
  then obtain t where t: "find (\<lambda>s. connection_value s = v) connection_states = Some t" by blast
  then have "connection_value t = v" by (auto simp: find_Some_iff)
  with \<open>connection_value s = v\<close> have "t = s" using connection_value_inj by simp
  with t show "connection_coerce (Raw v) = Inr s" by (simp add: connection_coerce_def)
qed (auto simp: connection_coerce_def find_Some_iff split: option.splits)

interpretation connection: lifecycle connection_value connection_coerce connection_can_transition
  connection_assert_transition connection_allowed_next C_ARCHIVED
proof unfold_locales
  fix v assume "\<nexists>s. connection_value s = v"
  then show "connection_coerce (Raw v) = Inl (UnknownState v)"
    by (auto simp: connection_coerce_def find_Some_iff split: option.splits)
next
  fix x y s t
  assume "connection_coerce x = Inr s" "connection_coerce y = Inr t"
  then show "connection_can_transition x y = Inr (s = t \<or> t \<in> set (projr (connection_allowed_next (Member s))))"
    by (cases s; cases t) (simp_all add: connection_can_transition_def connection_allowed_next_def
        connection_coerce_def [of "Member _"])
  show "connection_assert_transition x y =
      (if connection_can_transition x y = Inr True then Inr t else Inl (IllegalTransition s t))"
    using \<open>connection_coerce x = Inr s\<close> \<open>connection_coerce y = Inr t\<close>
    by (simp add: connection_assert_transition_def connection_can_transition_def
        connection_coerce_def [of "Member _"])
qed (auto simp: connection_coerce_raw connection_assert_transition_def connection_allowed_next_def
    connection_coerce_def [of "Member _"])

section \<open>Properties\<close>

text \<open>
  A connection whose status column is driven through \<open>assert_transition\<close> with any sequence
  of targets always holds the value of a state reachable from its first one; an archived
  connection stays archived, and every connection can be archived at any moment.  A column with
  an unknown value is never overwritten.
\<close>

theorem connection_status_is_sound:
  "(\<exists>t. drive connection_assert_transition connection_value (connection_value s) ts = connection_value t \<and>
     (s, t) \<in> {(s, t). connection_can_transition (Member s) (Member t) = Inr True}\<^sup>*) \<and>
   drive connection_assert_transition connection_value ''archived'' ts = ''archived'' \<and>
   drive connection_assert_transition connection_value (connection_value s) (ts @ [C_ARCHIVED]) = ''archived'' \<and>
   (v \<notin> range connection_value \<longrightarrow> drive connection_assert_transition connection_value v ts = v)"
proof -
  obtain t where t: "drive connection_assert_transition connection_value (connection_value s) ts = connection_value t"
    "(s, t) \<in> connection.hop\<^sup>*" using connection.drive_path by blast
  have "connection.hop \<subseteq> {(s, t). connection_can_transition (Member s) (Member t) = Inr True}"
    using connection.can_allowed [OF connection.coerce_member connection.coerce_member] by auto
  with t have "(s, t) \<in> {(s, t). connection_can_transition (Member s) (Member t) = Inr True}\<^sup>*"
    using rtrancl_mono by blast
  moreover have "v \<notin> range connection_value \<Longrightarrow> drive connection_assert_transition connection_value v ts = v"
    by (rule connection.drive_unknown) auto
  ultimately show ?thesis
    using t connection.drive_archived [of ts] connection.drive_to_archived [of s ts] by auto
qed

theorem connection_status_is_sound_witness:
  "drive connection_assert_transition connection_value ''weird'' [C_ACTIVE] = ''weird''"
proof -
  have "''weird'' \<notin> range connection_value"
  proof
    assume "''weird'' \<in> range connection_value"
    then obtain s where "connection_value s = ''weird''" by auto
    then show False by (cases s) simp_all
  qed
  with connection_status_is_sound [of C_DRAFT "[C_ACTIVE]" "''weird''"] show ?thesis by blast
qed

text \<open>
  A draft connection becomes active only after a successful test: every sequence of legal
  single transitions from draft to active passes through \<open>test_successful\<close>.
\<close>

theorem active_needs_successful_test:
  "(C_DRAFT, C_ACTIVE) \<notin> {(s, t). connection_can_transition (Member s) (Member t) = Inr True \<and>
      s \<noteq> C_TEST_SUCCESSFUL \<and> t \<noteq> C_TEST_SUCCESSFUL}\<^sup>*"
proof -
  have "t \<in> {C_DRAFT, C_CREATED, C_TEST_FAILED, C_ARCHIVED}"
    if "(C_DRAFT, t) \<in> {(s, t). connection_can_transition (Member s) (Member t) = Inr True \<and>
      s \<noteq> C_TEST_SUCCESSFUL \<and> t \<noteq> C_TEST_SUCCESSFUL}\<^sup>*" for t
    using that
    by (induction rule: rtrancl_induct)
      (auto simp: connection_can_transition_def connection_coerce_def split: if_splits)
  from this [of C_ACTIVE] show ?thesis by auto
qed

end
