(* ===== verification/DatasetLifecycle.thy ===== *)
theory DatasetLifecycle
  imports Lifecycle
begin

text \<open>
  \<open>app/services/datasets/lifecycle.py\<close>: the dataset states, the transition table and the
  three public functions.
\<close>

datatype DatasetState =
    D_DISCOVERED | D_REGISTERED | D_ACTIVE | D_CHECKED | D_INACCESSIBLE | D_ARCHIVED
  | D_DRAFT | D_INACTIVE

fun dataset_value :: "DatasetState \<Rightarrow> string" where
  "dataset_value D_DISCOVERED = ''discovered''"
| "dataset_value D_REGISTERED = ''registered''"
| "dataset_value D_ACTIVE = ''active''"
| "dataset_value D_CHECKED = ''checked''"
| "dataset_value D_INACCESSIBLE = ''inaccessible''"
| "dataset_value D_ARCHIVED = ''archived''"
| "dataset_value D_DRAFT = ''draft''"
| "dataset_value D_INACTIVE = ''inactive''"

definition dataset_states :: "DatasetState list" where
  "dataset_states = [D_DISCOVERED, D_REGISTERED, D_ACTIVE, D_CHECKED, D_INACCESSIBLE,
     D_ARCHIVED, D_DRAFT, D_INACTIVE]"

fun dataset_transitions :: "DatasetState \<Rightarrow> DatasetState list" where
  "dataset_transitions D_DISCOVERED = [D_REGISTERED]"
| "dataset_transitions D_REGISTERED = [D_ACTIVE]"
| "dataset_transitions D_ACTIVE = [D_CHECKED, D_INACCESSIBLE]"
| "dataset_transitions D_CHECKED = [D_ACTIVE, D_INACCESSIBLE]"
| "dataset_transitions D_INACCESSIBLE = [D_ACTIVE]"
| "dataset_transitions D_ARCHIVED = []"
| "dataset_transitions D_DRAFT = [D_REGISTERED, D_ACTIVE]"
| "dataset_transitions D_INACTIVE = [D_ACTIVE]"

text \<open>\<open>_coerce\<close>: the enumeration looked up by value.\<close>

definition dataset_coerce ::
    "DatasetState state_value \<Rightarrow> DatasetState transition_error + DatasetState" where
  "dataset_coerce x =
     (case x of
        Member s \<Rightarrow> Inr s
      | Raw v \<Rightarrow> (case find (\<lambda>s. dataset_value s = v) dataset_states of
                    Some s \<Rightarrow> Inr s | None \<Rightarrow> Inl (UnknownState v)))"

definition dataset_can_transition ::
    "DatasetState state_value \<Rightarrow> DatasetState state_value \<Rightarrow>
     DatasetState transition_error + bool" where
  "dataset_can_transition current tgt =
     (case dataset_coerce current of
        Inl e \<Rightarrow> Inl e
      | Inr cur \<Rightarrow>
          (case dataset_coerce tgt of
             Inl e \<Rightarrow> Inl e
           | Inr t \<Rightarrow>
               if cur = t then Inr True
               else if t = D_ARCHIVED then Inr (cur \<noteq> D_ARCHIVED)
               else Inr (t \<in> set (dataset_transitions cur))))"

definition dataset_assert_transition ::
    "DatasetState state_value \<Rightarrow> DatasetState state_value \<Rightarrow>
     DatasetState transition_error + DatasetState" where
  "dataset_assert_transition current tgt =
     (case dataset_coerce current of
        Inl e \<Rightarrow> Inl e
      | Inr cur \<Rightarrow>
          (case dataset_coerce tgt of
             Inl e \<Rightarrow> Inl e
           | Inr t \<Rightarrow>
               (case dataset_can_transition (Member cur) (Member t) of
                  Inl e \<Rightarrow> Inl e
                | Inr ok \<Rightarrow> if \<not> ok then Inl (IllegalTransition cur t) else Inr t)))"

definition dataset_allowed_next ::
    "DatasetState state_value \<Rightarrow> DatasetState transition_error + DatasetState list" where
  "dataset_allowed_next current =
     (case dataset_coerce current of
        Inl e \<Rightarrow> Inl e
      | Inr cur \<Rightarrow> if cur = D_ARCHIVED then Inr []
                   else Inr (dataset_transitions cur @ [D_ARCHIVED]))"

lemmas dataset_defs = dataset_coerce_def dataset_can_transition_def
  dataset_assert_transition_def dataset_allowed_next_def

lemma dataset_states_all: "s \<in> set dataset_states"
  by (cases s) (simp_all add: dataset_states_def)

lemma dataset_value_inj: "dataset_value s = dataset_value t \<Longrightarrow> s = t"
  by (cases s; cases t) simp_all

lemma dataset_coerce_raw: "dataset_coerce (Raw v) = Inr s \<longleftrightarrow> dataset_value s = v"
proof
  assume "dataset_value s = v"
  then have "find (\<lambda>s. dataset_value s = v) dataset_states \<noteq> None"
    using dataset_states_all by (auto simp: find_None_iff)
  then obtain t where t: "find (\<lambda>s. dataset_value s = v) dataset_states = Some t" by blast
  then have "dataset_value t = v" by (auto simp: find_Some_iff)
  with \<open>dataset_value s = v\<close> have "t = s" using dataset_value_inj by simp
  with t show "dataset_coerce (Raw v) = Inr s" by (simp add: dataset_coerce_def)
qed (auto simp: dataset_coerce_def find_Some_iff split: option.splits)

interpretation dataset: lifecycle dataset_value dataset_coerce dataset_can_transition
  dataset_assert_transition dataset_allowed_next D_ARCHIVED
proof unfold_locales
  fix v assume "\<nexists>s. dataset_value s = v"
  then show "dataset_coerce (Raw v) = Inl (UnknownState v)"
    by (auto simp: dataset_coerce_def find_Some_iff split: option.splits)
next
  fix x y s t
  assume "dataset_coerce x = Inr s" "dataset_coerce y = Inr t"
  then show "dataset_can_transition x y = Inr (s = t \<or> t \<in> set (projr (dataset_allowed_next (Member s))))"
    by (cases s; cases t) (simp_all add: dataset_can_transition_def dataset_allowed_next_def
        dataset_coerce_def [of "Member _"])
  show "dataset_assert_transition x y =
      (if dataset_can_transition x y = Inr True then Inr t else Inl (IllegalTransition s t))"
    using \<open>dataset_coerce x = Inr s\<close> \<open>dataset_coerce y = Inr t\<close>
    by (simp add: dataset_assert_transition_def dataset_can_transition_def
        dataset_coerce_def [of "Member _"])
qed (auto simp: dataset_coerce_raw dataset_assert_transition_def dataset_allowed_next_def
    dataset_coerce_def [of "Member _"])

section \<open>Properties\<close>

text \<open>
  A dataset whose status column is driven through \<open>assert_transition\<close> with any sequence
  of targets always holds the value of a state reachable from its first one; an archived
  dataset stays archived, and every dataset can be archived at any moment.  A column with
  an unknown value is never overwritten.
\<close>

theorem dataset_status_is_sound:
  "(\<exists>t. drive dataset_assert_transition dataset_value (dataset_value s) ts = dataset_value t \<and>
     (s, t) \<in> {(s, t). dataset_can_transition (Member s) (Member t) = Inr True}\<^sup>*) \<and>
   drive dataset_assert_transition dataset_value ''archived'' ts = ''archived'' \<and>
   drive dataset_assert_transition dataset_value (dataset_value s) (ts @ [D_ARCHIVED]) = ''archived'' \<and>
   (v \<notin> range dataset_value \<longrightarrow> drive dataset_assert_transition dataset_value v ts = v)"
proof -
  obtain t where t: "drive dataset_assert_transition dataset_value (dataset_value s) ts = dataset_value t"
    "(s, t) \<in> dataset.hop\<^sup>*" using dataset.drive_path by blast
  have "dataset.hop \<subseteq> {(s, t). dataset_can_transition (Member s) (Member t) = Inr True}"
    using dataset.can_allowed [OF dataset.coerce_member dataset.coerce_member] by auto
  with t have "(s, t) \<in> {(s, t). dataset_can_transition (Member s) (Member t) = Inr True}\<^sup>*"
    using rtrancl_mono by blast
  moreover have "v \<notin> range dataset_value \<Longrightarrow> drive dataset_assert_transition dataset_value v ts = v"
    by (rule dataset.drive_unknown) auto
  ultimately show ?thesis
    using t dataset.drive_archived [of ts] dataset.drive_to_archived [of s ts] by auto
qed

theorem dataset_status_is_sound_witness:
  "drive dataset_assert_transition dataset_value ''weird'' [D_ACTIVE] = ''weird''"
proof -
  have "''weird'' \<notin> range dataset_value"
  proof
    assume "''weird'' \<in> range dataset_value"
    then obtain s where "dataset_value s = ''weird''" by auto
    then show False by (cases s) simp_all
  qed
  with dataset_status_is_sound [of D_DRAFT "[D_ACTIVE]" "''weird''"] show ?thesis by blast
qed

text \<open>
  The legacy states \<open>draft\<close> and \<open>inactive\<close> are left for good: a dataset that is in another
  state never returns to one of them, whatever sequence of targets is tried.
\<close>

theorem legacy_states_are_left:
  assumes "s \<notin> {D_DRAFT, D_INACTIVE}"
  shows "drive dataset_assert_transition dataset_value (dataset_value s) ts \<notin> {''draft'', ''inactive''}"
proof -
  obtain t where t: "drive dataset_assert_transition dataset_value (dataset_value s) ts = dataset_value t"
    "(s, t) \<in> dataset.hop\<^sup>*" using dataset.drive_path by blast
  from t(2) have "t \<notin> {D_DRAFT, D_INACTIVE}"
  proof (induction rule: rtrancl_induct)
    case (step y z)
    then show ?case by (cases y) (auto simp: dataset_allowed_next_def dataset_coerce_def)
  qed (rule assms)
  then show ?thesis using t(1) by (cases t) simp_all
qed

theorem legacy_states_are_left_witness:
  "drive dataset_assert_transition dataset_value (dataset_value D_ACTIVE) [D_DRAFT, D_CHECKED, D_INACTIVE]
     \<notin> {''draft'', ''inactive''}"
  by (rule legacy_states_are_left) simp

end
