(* ===== verification/Tickets.thy ===== *)
theory Tickets
  imports Prelude
begin

text \<open>
  What the issue and the incident lifecycle services share: the repository they read and
  update a row through, scoped to a workspace, and the audit diff of
  \<open>app/services/audit/models.py\<close>.
\<close>

section \<open>The audit diff\<close>

text \<open>
  \<open>compute_audit_diff\<close>.  The values the services pass are strings and \<open>None\<close>, on which
  Python's inequality is that of the model; the order of the keys of the results is not
  observable.
\<close>

definition compute_audit_diff :: "dict \<Rightarrow> dict \<Rightarrow> dict option \<times> dict" where
  "compute_audit_diff before after =
     (let ks = filter (\<lambda>k. dict_get before k PNone \<noteq> dict_get after k PNone)
                 (dict_keys (map fst before @ map fst after))
      in if ks = [] then (None, [])
         else (Some (map (\<lambda>k. (k, dict_get before k PNone)) ks),
               map (\<lambda>k. (k, dict_get after k PNone)) ks))"

lemma map_of_map_key: "map_of (map (\<lambda>k. (k, f k)) ks) k = (if k \<in> set ks then Some (f k) else None)"
  by (induction ks) auto

lemma audit_diff_after:
  "map_of (snd (compute_audit_diff b a)) k =
     (if k \<in> set (map fst b @ map fst a) \<and> dict_get b k PNone \<noteq> dict_get a k PNone
      then Some (dict_get a k PNone) else None)"
proof -
  let ?ks = "filter (\<lambda>k. dict_get b k PNone \<noteq> dict_get a k PNone) (dict_keys (map fst b @ map fst a))"
  have "snd (compute_audit_diff b a) = map (\<lambda>k. (k, dict_get a k PNone)) ?ks"
    by (simp add: compute_audit_diff_def Let_def)
  then show ?thesis by (simp add: map_of_map_key)
qed

text \<open>An audit entry, without the actor fields that are copied from the context.\<close>

record AuditEntry =
  a_action :: string
  a_entity_type :: string
  a_entity_id :: string
  a_workspace :: string
  a_before :: "dict option"
  a_after :: dict

section \<open>The repository contract\<close>

locale ticket_store =
  fixes lookup :: "'db \<Rightarrow> string \<Rightarrow> string \<Rightarrow> 'row option"
    and update :: "'db \<Rightarrow> string \<Rightarrow> string \<Rightarrow> 'u \<Rightarrow> 'db"
    and apply_to :: "'u \<Rightarrow> 'row \<Rightarrow> 'row"
  assumes lookup_update: "lookup db i w = Some r \<Longrightarrow> lookup (update db i w u) i w = Some (apply_to u r)"
    and lookup_other: "lookup db i w = Some r \<Longrightarrow> (i', w') \<noteq> (i, w) \<Longrightarrow>
      lookup (update db i w u) i' w' = lookup db i' w'"
    and one_workspace: "lookup db i w = Some r \<Longrightarrow> lookup db i w' = Some r' \<Longrightarrow> w = w'"
begin

text \<open>Every visible row satisfies \<open>P\<close>.\<close>

definition all_rows :: "('row \<Rightarrow> bool) \<Rightarrow> 'db \<Rightarrow> bool" where
  "all_rows P db \<longleftrightarrow> (\<forall>i w r. lookup db i w = Some r \<longrightarrow> P r)"

lemma all_rows_update:
  assumes "all_rows P db" and "lookup db i w = Some r" and "P (apply_to u r)"
  shows "all_rows P (update db i w u)"
  unfolding all_rows_def
proof (intro allI impI)
  fix i' w' r' assume l: "lookup (update db i w u) i' w' = Some r'"
  show "P r'"
  proof (cases "(i', w') = (i, w)")
    case True
    with l lookup_update [OF assms(2)] assms(3) show ?thesis by simp
  next
    case False
    from lookup_other [OF assms(2) False] l assms(1) show ?thesis by (simp add: all_rows_def)
  qed
qed

end

end
