(* ===== verification/IssueLifecycle.thy ===== *)
theory IssueLifecycle
  imports Tickets
begin

text \<open>
  \<open>IssueLifecycleService\<close> of \<open>app/services/issues/issue_lifecycle_service.py\<close> over
  \<open>IssueRepository\<close>.  A time is a natural number; the ISO format of a due date and the rows of
  \<open>workspace_role_assignments\<close> are parameters.  The statuses are the strings of the code.
\<close>

record Issue =
  i_workspace :: string
  i_status :: string
  i_assignee :: "string option"
  i_due :: "nat option"
  i_summary :: "string option"
  i_resolved_at :: "nat option"
  i_closed_at :: "nat option"

type_synonym issue_table = "string \<rightharpoonup> Issue"

datatype issue_error =
    IssueNotFoundError
  | InvalidStatusTransitionError string string
  | ResolutionSummaryRequiredError
  | ResolutionSummaryTooLongError
  | InvalidAssigneeError
  | EmptyUpdateError

text \<open>The dict \<open>updates\<close>: \<open>None\<close> is a key that is absent, \<open>Some None\<close> a key with value \<open>None\<close>.\<close>

record issue_updates =
  u_status :: "string option"
  u_summary :: "string option option"
  u_assignee :: "string option option"
  u_due :: "nat option option"
  u_resolved_at :: "nat option option"
  u_closed_at :: "nat option option"

definition no_updates :: issue_updates where
  "no_updates = \<lparr>u_status = None, u_summary = None, u_assignee = None, u_due = None,
     u_resolved_at = None, u_closed_at = None\<rparr>"

text \<open>The request: the fields that were present, and their values.\<close>

record issue_request =
  fields_provided :: "string list"
  q_status :: "string option"
  q_assignee :: "string option"
  q_due :: "nat option"
  q_summary :: "string option"
  q_audit :: bool

section \<open>The tables and the helpers of the service\<close>

definition issue_transitions :: "string \<Rightarrow> string list" where
  "issue_transitions s =
     (if s = ''open'' then [''in_progress'', ''resolved'', ''closed'']
      else if s = ''in_progress'' then [''open'', ''resolved'', ''closed'']
      else if s = ''resolved'' then [''closed'', ''reopened'']
      else if s = ''closed'' then [''reopened'']
      else if s = ''reopened'' then [''in_progress'', ''resolved'', ''closed'']
      else [])"

definition resolution_required :: "string list" where
  "resolution_required = [''resolved'', ''closed'']"

definition summary_max_length :: nat where
  "summary_max_length = 5000"

definition issue_validate_transition :: "string \<Rightarrow> string \<Rightarrow> issue_error + unit" where
  "issue_validate_transition cur tgt =
     (if tgt \<notin> set (issue_transitions cur) then Inl (InvalidStatusTransitionError cur tgt) else Inr ())"

definition check_workspace_membership ::
    "(string \<times> string) list \<Rightarrow> string \<Rightarrow> string \<Rightarrow> issue_error + unit" where
  "check_workspace_membership members w v =
     (if (w, v) \<in> set members then Inr () else Inl InvalidAssigneeError)"

definition issue_timestamp_effects :: "nat \<Rightarrow> string \<Rightarrow> issue_updates \<Rightarrow> issue_updates" where
  "issue_timestamp_effects now tgt u =
     (if tgt = ''resolved'' then u\<lparr>u_resolved_at := Some (Some now)\<rparr>
      else if tgt = ''closed'' then u\<lparr>u_closed_at := Some (Some now)\<rparr>
      else if tgt = ''reopened'' then u\<lparr>u_resolved_at := Some None, u_closed_at := Some None\<rparr>
      else u)"

section \<open>The repository\<close>

definition issue_get :: "issue_table \<Rightarrow> string \<Rightarrow> string \<Rightarrow> Issue option" where
  "issue_get db i w =
     (case db i of None \<Rightarrow> None | Some r \<Rightarrow> if i_workspace r = w then Some r else None)"

text \<open>\<open>for field, value in updates.items(): setattr(row, field, value)\<close>.\<close>

definition issue_apply :: "issue_updates \<Rightarrow> Issue \<Rightarrow> Issue" where
  "issue_apply u r = r\<lparr>
     i_status := (case u_status u of None \<Rightarrow> i_status r | Some s \<Rightarrow> s),
     i_summary := (case u_summary u of None \<Rightarrow> i_summary r | Some s \<Rightarrow> s),
     i_assignee := (case u_assignee u of None \<Rightarrow> i_assignee r | Some s \<Rightarrow> s),
     i_due := (case u_due u of None \<Rightarrow> i_due r | Some s \<Rightarrow> s),
     i_resolved_at := (case u_resolved_at u of None \<Rightarrow> i_resolved_at r | Some s \<Rightarrow> s),
     i_closed_at := (case u_closed_at u of None \<Rightarrow> i_closed_at r | Some s \<Rightarrow> s)\<rparr>"

definition issue_repo_update :: "issue_table \<Rightarrow> string \<Rightarrow> string \<Rightarrow> issue_updates \<Rightarrow> issue_table" where
  "issue_repo_update db i w u =
     (case issue_get db i w of None \<Rightarrow> db | Some r \<Rightarrow> db(i \<mapsto> issue_apply u r))"

lemma issue_apply_simps [simp]:
  "i_workspace (issue_apply u r) = i_workspace r"
  "i_status (issue_apply u r) = (case u_status u of None \<Rightarrow> i_status r | Some s \<Rightarrow> s)"
  "i_summary (issue_apply u r) = (case u_summary u of None \<Rightarrow> i_summary r | Some s \<Rightarrow> s)"
  "i_assignee (issue_apply u r) = (case u_assignee u of None \<Rightarrow> i_assignee r | Some s \<Rightarrow> s)"
  "i_due (issue_apply u r) = (case u_due u of None \<Rightarrow> i_due r | Some s \<Rightarrow> s)"
  "i_resolved_at (issue_apply u r) = (case u_resolved_at u of None \<Rightarrow> i_resolved_at r | Some s \<Rightarrow> s)"
  "i_closed_at (issue_apply u r) = (case u_closed_at u of None \<Rightarrow> i_closed_at r | Some s \<Rightarrow> s)"
  by (simp_all add: issue_apply_def)

interpretation issues: ticket_store issue_get issue_repo_update issue_apply
  by unfold_locales (auto simp: issue_get_def issue_repo_update_def split: option.splits if_splits)

section \<open>The update\<close>

text \<open>The updates the request asks for, before the side effects on the time stamps.\<close>

definition requested_updates :: "issue_request \<Rightarrow> issue_updates" where
  "requested_updates q =
     (let given = (\<lambda>f. f \<in> set (fields_provided q)) in
      \<lparr>u_status = (if given ''status'' then q_status q else None),
       u_summary = (if given ''resolution_summary'' then Some (q_summary q) else None),
       u_assignee = (if given ''assignee_id'' then Some (q_assignee q) else None),
       u_due = (if given ''due_at'' then Some (q_due q) else None),
       u_resolved_at = None, u_closed_at = None\<rparr>)"

text \<open>Steps 2 to 4: the checks, in the order of the code.\<close>

definition summary_too_long :: "issue_updates \<Rightarrow> bool" where
  "summary_too_long u =
     (case u_summary u of Some (Some s) \<Rightarrow> length s > summary_max_length | _ \<Rightarrow> False)"

definition effective_summary :: "Issue \<Rightarrow> issue_updates \<Rightarrow> string option" where
  "effective_summary cur u = (case u_summary u of None \<Rightarrow> i_summary cur | Some s \<Rightarrow> s)"

definition summary_missing :: "Issue \<Rightarrow> issue_request \<Rightarrow> issue_updates \<Rightarrow> bool" where
  "summary_missing cur q u \<longleftrightarrow>
     ''status'' \<in> set (fields_provided q) \<and>
     (case u_status u of None \<Rightarrow> i_status cur | Some s \<Rightarrow> s) \<in> set resolution_required \<and>
     (effective_summary cur u = None \<or> effective_summary cur u = Some [])"

definition check_update ::
    "(string \<times> string) list \<Rightarrow> string \<Rightarrow> Issue \<Rightarrow> issue_request \<Rightarrow> issue_updates \<Rightarrow> issue_error + unit" where
  "check_update members w cur q u =
     (case (case u_status u of None \<Rightarrow> Inr () | Some s \<Rightarrow> issue_validate_transition (i_status cur) s) of
        Inl e \<Rightarrow> Inl e
      | Inr _ \<Rightarrow>
          if summary_too_long u then Inl ResolutionSummaryTooLongError
          else if summary_missing cur q u then Inl ResolutionSummaryRequiredError
          else (case u_assignee u of
                  Some (Some v) \<Rightarrow> check_workspace_membership members w v
                | _ \<Rightarrow> Inr ()))"

text \<open>Steps 2 to 6 together.\<close>

definition collect_updates ::
    "(string \<times> string) list \<Rightarrow> nat \<Rightarrow> string \<Rightarrow> Issue \<Rightarrow> issue_request \<Rightarrow> issue_error + issue_updates" where
  "collect_updates members now w cur q =
     (let u = requested_updates q in
      case check_update members w cur q u of
        Inl e \<Rightarrow> Inl e
      | Inr _ \<Rightarrow> Inr (case u_status u of None \<Rightarrow> u | Some s \<Rightarrow> issue_timestamp_effects now s u))"

text \<open>Step 7a: the fields before and after, as the audit hook formats them.\<close>

definition str_or_none :: "string option \<Rightarrow> pyval" where
  "str_or_none x = (case x of None \<Rightarrow> PNone | Some s \<Rightarrow> PStr s)"

definition issue_before_fields :: "(nat \<Rightarrow> string) \<Rightarrow> Issue \<Rightarrow> dict" where
  "issue_before_fields isofmt r =
     [(''status'', PStr (i_status r)), (''assignee_id'', str_or_none (i_assignee r)),
      (''due_at'', str_or_none (map_option isofmt (i_due r))),
      (''resolution_summary'', str_or_none (i_summary r))]"

definition opt_field :: "string \<Rightarrow> pyval option \<Rightarrow> dict" where
  "opt_field k x = (case x of None \<Rightarrow> [] | Some v \<Rightarrow> [(k, v)])"

definition issue_after_fields :: "(nat \<Rightarrow> string) \<Rightarrow> issue_updates \<Rightarrow> dict" where
  "issue_after_fields isofmt u =
     opt_field ''status'' (map_option PStr (u_status u)) @
     opt_field ''resolution_summary'' (map_option str_or_none (u_summary u)) @
     opt_field ''assignee_id'' (map_option str_or_none (u_assignee u)) @
     opt_field ''due_at'' (map_option (\<lambda>d. str_or_none (map_option isofmt d)) (u_due u))"

definition issue_audit ::
    "(nat \<Rightarrow> string) \<Rightarrow> string \<Rightarrow> string \<Rightarrow> Issue \<Rightarrow> issue_updates \<Rightarrow> AuditEntry option" where
  "issue_audit isofmt i w cur u =
     (case compute_audit_diff (issue_before_fields isofmt cur) (issue_after_fields isofmt u) of
        (before, after) \<Rightarrow>
          if after = [] then None
          else Some \<lparr>a_action = (if u_status u \<noteq> None then ''issue_status_changed''
                       else if u_assignee u \<noteq> None then ''issue_assigned'' else ''issue_updated''),
                     a_entity_type = ''issue'', a_entity_id = i, a_workspace = w,
                     a_before = before, a_after = after\<rparr>)"

definition recognized_fields :: "string list" where
  "recognized_fields = [''status'', ''assignee_id'', ''due_at'', ''resolution_summary'']"

text \<open>\<open>update_issue\<close>: the new table with the audit entry, or the exception.\<close>

definition update_issue ::
    "(nat \<Rightarrow> string) \<Rightarrow> (string \<times> string) list \<Rightarrow> nat \<Rightarrow> issue_table \<Rightarrow> string \<Rightarrow> string \<Rightarrow> issue_request \<Rightarrow>
     issue_error + issue_table \<times> AuditEntry option" where
  "update_issue isofmt members now db i w q =
     (if set (fields_provided q) \<inter> set recognized_fields = {} then Inl EmptyUpdateError
      else case issue_get db i w of
             None \<Rightarrow> Inl IssueNotFoundError
           | Some cur \<Rightarrow>
               (case collect_updates members now w cur q of
                  Inl e \<Rightarrow> Inl e
                | Inr u \<Rightarrow> Inr (issue_repo_update db i w u,
                             if q_audit q then issue_audit isofmt i w cur u else None)))"

section \<open>What a successful update has checked\<close>

lemma requested_simps [simp]:
  "u_status (requested_updates q) = (if ''status'' \<in> set (fields_provided q) then q_status q else None)"
  "u_summary (requested_updates q) =
     (if ''resolution_summary'' \<in> set (fields_provided q) then Some (q_summary q) else None)"
  "u_assignee (requested_updates q) =
     (if ''assignee_id'' \<in> set (fields_provided q) then Some (q_assignee q) else None)"
  "u_due (requested_updates q) = (if ''due_at'' \<in> set (fields_provided q) then Some (q_due q) else None)"
  "u_resolved_at (requested_updates q) = None"
  "u_closed_at (requested_updates q) = None"
  by (simp_all add: requested_updates_def Let_def)

lemma timestamp_effects_simps [simp]:
  "u_status (issue_timestamp_effects now s u) = u_status u"
  "u_summary (issue_timestamp_effects now s u) = u_summary u"
  "u_assignee (issue_timestamp_effects now s u) = u_assignee u"
  "u_due (issue_timestamp_effects now s u) = u_due u"
  by (simp_all add: issue_timestamp_effects_def)

lemma check_update_iff:
  "check_update members w cur q u = Inr x \<longleftrightarrow>
     (\<forall>s. u_status u = Some s \<longrightarrow> s \<in> set (issue_transitions (i_status cur))) \<and>
     \<not> summary_too_long u \<and> \<not> summary_missing cur q u \<and>
     (\<forall>v. u_assignee u = Some (Some v) \<longrightarrow> (w, v) \<in> set members)"
  by (auto simp: check_update_def issue_validate_transition_def check_workspace_membership_def
      split: option.splits)

text \<open>
  The outcome of a successful collection: the requested fields, and either no new status or an
  allowed one with its time stamps.
\<close>

lemma collect_updates_Inr:
  assumes "collect_updates members now w cur q = Inr u"
  shows "u_summary u = u_summary (requested_updates q) \<and> u_assignee u = u_assignee (requested_updates q) \<and>
    u_due u = u_due (requested_updates q) \<and> u_status u = u_status (requested_updates q) \<and>
    check_update members w cur q (requested_updates q) = Inr () \<and>
    (case u_status u of
       None \<Rightarrow> u_resolved_at u = None \<and> u_closed_at u = None
     | Some s \<Rightarrow> s \<in> set (issue_transitions (i_status cur)) \<and>
         u = issue_timestamp_effects now s (requested_updates q) \<and>
         (s \<in> set resolution_required \<longrightarrow> effective_summary cur u \<notin> {None, Some []}))"
proof -
  let ?u = "requested_updates q"
  from assms have c: "check_update members w cur q ?u = Inr ()"
    by (auto simp: collect_updates_def Let_def split: sum.splits)
  with assms have u: "u = (case u_status ?u of None \<Rightarrow> ?u | Some s \<Rightarrow> issue_timestamp_effects now s ?u)"
    by (simp add: collect_updates_def Let_def)
  show ?thesis
  proof (cases "u_status ?u")
    case None
    with u c show ?thesis by simp
  next
    case (Some s)
    then have u': "u = issue_timestamp_effects now s ?u" using u by simp
    have "\<not> summary_missing cur q ?u" and "s \<in> set (issue_transitions (i_status cur))"
      using c Some unfolding check_update_iff by auto
    moreover have "''status'' \<in> set (fields_provided q)" using Some by (auto split: if_splits)
    moreover have "effective_summary cur u = effective_summary cur ?u"
      by (simp add: u' effective_summary_def)
    ultimately show ?thesis using c Some u' unfolding summary_missing_def by auto
  qed
qed

lemma update_issue_Inr:
  assumes "update_issue isofmt members now db i w q = Inr (db', a)"
  obtains cur u where "issue_get db i w = Some cur" "collect_updates members now w cur q = Inr u"
    "db' = issue_repo_update db i w u" "a = (if q_audit q then issue_audit isofmt i w cur u else None)"
  using assms by (auto simp: update_issue_def split: if_splits option.splits sum.splits)

section \<open>Reachable tables\<close>

text \<open>A row as \<open>IssueRepository.insert\<close> creates it: open, without resolution.\<close>

definition new_issue :: "string \<Rightarrow> string option \<Rightarrow> nat option \<Rightarrow> Issue" where
  "new_issue w a d = \<lparr>i_workspace = w, i_status = ''open'', i_assignee = a, i_due = d,
     i_summary = None, i_resolved_at = None, i_closed_at = None\<rparr>"

inductive issue_reachable :: "issue_table \<Rightarrow> bool" where
  empty: "issue_reachable (\<lambda>_. None)"
| insert: "issue_reachable db \<Longrightarrow> db i = None \<Longrightarrow> issue_reachable (db(i \<mapsto> new_issue w a d))"
| updated: "issue_reachable db \<Longrightarrow> update_issue isofmt members now db i w q = Inr (db', e) \<Longrightarrow>
    issue_reachable db'"

inductive_cases issue_reachableE: "issue_reachable db"

definition issue_ok :: "Issue \<Rightarrow> bool" where
  "issue_ok r \<longleftrightarrow>
     i_status r \<in> {''open'', ''in_progress'', ''resolved'', ''closed'', ''reopened''} \<and>
     (i_closed_at r \<noteq> None \<longleftrightarrow> i_status r = ''closed'') \<and>
     (i_status r = ''resolved'' \<longrightarrow> i_resolved_at r \<noteq> None) \<and>
     (i_resolved_at r \<noteq> None \<longrightarrow> i_status r \<in> {''resolved'', ''closed''})"

lemma new_issue_ok [simp]: "issue_ok (new_issue w a d)"
  by (simp add: issue_ok_def new_issue_def)

lemma issue_get_empty [simp]: "issue_get (\<lambda>_. None) i w = None"
  by (simp add: issue_get_def)

lemma issue_get_insert:
  "issue_get (db(i \<mapsto> r)) i' w =
     (if i' = i then if i_workspace r = w then Some r else None else issue_get db i' w)"
  by (simp add: issue_get_def)

lemma transitions_cases:
  "s \<in> set (issue_transitions c) \<Longrightarrow>
     (c = ''open'' \<and> s \<in> {''in_progress'', ''resolved'', ''closed''}) \<or>
     (c = ''in_progress'' \<and> s \<in> {''open'', ''resolved'', ''closed''}) \<or>
     (c = ''resolved'' \<and> s \<in> {''closed'', ''reopened''}) \<or>
     (c = ''closed'' \<and> s = ''reopened'') \<or>
     (c = ''reopened'' \<and> s \<in> {''in_progress'', ''resolved'', ''closed''})"
  by (simp add: issue_transitions_def split: if_splits)

lemma issue_ok_apply:
  assumes "issue_ok r" and "collect_updates members now w r q = Inr u"
  shows "issue_ok (issue_apply u r)"
proof (cases "u_status u")
  case None
  with collect_updates_Inr [OF assms(2)] have "u_resolved_at u = None" "u_closed_at u = None"
    by (simp_all del: requested_simps)
  with None assms(1) show ?thesis by (simp add: issue_ok_def)
next
  case (Some s)
  with collect_updates_Inr [OF assms(2)]
  have s: "s \<in> set (issue_transitions (i_status r))" "u = issue_timestamp_effects now s (requested_updates q)"
    by simp_all
  have r: "u_resolved_at u = (if s = ''resolved'' then Some (Some now) else if s = ''reopened'' then Some None else None)"
    and c: "u_closed_at u = (if s = ''closed'' then Some (Some now) else if s = ''reopened'' then Some None else None)"
    by (simp_all add: s(2) issue_timestamp_effects_def)
  from transitions_cases [OF s(1)] show ?thesis
    by (elim disjE conjE insertE emptyE) (use assms(1) Some r c in \<open>auto simp: issue_ok_def\<close>)
qed

section \<open>Properties\<close>

text \<open>
  C29: In every table that insertions and updates can produce, the time stamps of an issue follow
  its status: it has a closing time exactly when it is closed, a resolved issue has a resolution
  time, and only resolved and closed issues have one.
\<close>

theorem issue_timestamps_follow_status:
  assumes "issue_reachable db" and "issue_get db i w = Some r"
  shows "issue_ok r"
proof -
  have "issues.all_rows issue_ok db"
    using assms(1)
  proof (induction rule: issue_reachable.induct)
    case (insert db i w a d)
    then show ?case unfolding issues.all_rows_def issue_get_insert by auto
  next
    case (updated db isofmt members now i w q db' e)
    from updated.hyps(2) obtain cur u where "issue_get db i w = Some cur"
      "collect_updates members now w cur q = Inr u" "db' = issue_repo_update db i w u"
      by (rule update_issue_Inr)
    moreover from this updated.IH have "issue_ok cur" by (simp add: issues.all_rows_def)
    ultimately show ?case using issues.all_rows_update [OF updated.IH] issue_ok_apply by simp
  qed (simp add: issues.all_rows_def)
  with assms(2) show ?thesis by (simp add: issues.all_rows_def)
qed

definition sample_issues :: issue_table where
  "sample_issues = [''i1'' \<mapsto> new_issue ''w1'' (Some ''u1'') None]"

definition resolve_request :: issue_request where
  "resolve_request = \<lparr>fields_provided = [''status'', ''resolution_summary''], q_status = Some ''resolved'',
     q_assignee = None, q_due = None, q_summary = Some ''fixed'', q_audit = True\<rparr>"

theorem issue_timestamps_follow_status_witness:
  "issue_ok (new_issue ''w1'' (Some ''u1'') None)"
proof (rule issue_timestamps_follow_status)
  show "issue_reachable sample_issues"
    unfolding sample_issues_def by (rule issue_reachable.insert [OF issue_reachable.empty]) simp
  show "issue_get sample_issues ''i1'' ''w1'' = Some (new_issue ''w1'' (Some ''u1'') None)"
    by (simp add: issue_get_def sample_issues_def new_issue_def)
qed

text \<open>
  \<open>update_issue\<close> succeeds exactly when a known field is present, the issue exists in the
  workspace, a new status is an allowed successor, a given summary is not too long, a request
  that names the status and targets resolved or closed ends with a non-empty summary, and a new
  assignee is a member of the workspace; it then changes the addressed issue only, and of that
  issue only the named fields and the time stamps.
\<close>

theorem update_issue_exactly:
  "(\<exists>db' e. update_issue isofmt members now db i w q = Inr (db', e)) \<longleftrightarrow>
     set (fields_provided q) \<inter> set recognized_fields \<noteq> {} \<and>
     (\<exists>cur. issue_get db i w = Some cur \<and>
        (\<forall>s. u_status (requested_updates q) = Some s \<longrightarrow> s \<in> set (issue_transitions (i_status cur))) \<and>
        \<not> summary_too_long (requested_updates q) \<and> \<not> summary_missing cur q (requested_updates q) \<and>
        (\<forall>v. u_assignee (requested_updates q) = Some (Some v) \<longrightarrow> (w, v) \<in> set members))"
  (is "?L \<longleftrightarrow> ?R")
proof
  assume ?L
  then obtain db' e where s: "update_issue isofmt members now db i w q = Inr (db', e)" by blast
  then have "set (fields_provided q) \<inter> set recognized_fields \<noteq> {}"
    by (auto simp: update_issue_def split: if_splits)
  moreover from s obtain cur u where "issue_get db i w = Some cur" "collect_updates members now w cur q = Inr u"
    by (rule update_issue_Inr)
  ultimately show ?R using collect_updates_Inr check_update_iff by metis
next
  assume ?R
  then obtain cur where "issue_get db i w = Some cur"
    and c: "check_update members w cur q (requested_updates q) = Inr ()"
    unfolding check_update_iff by blast
  with \<open>?R\<close> show ?L by (auto simp: update_issue_def collect_updates_def Let_def)
qed

theorem update_issue_exactly_witness:
  "\<exists>db' e. update_issue (\<lambda>_. []) [] 7 sample_issues ''i1'' ''w1'' resolve_request = Inr (db', e)"
proof -
  have g: "issue_get sample_issues ''i1'' ''w1'' = Some (new_issue ''w1'' (Some ''u1'') None)"
    by (simp add: issue_get_def sample_issues_def new_issue_def)
  have "\<not> summary_too_long (requested_updates resolve_request)"
    "\<not> summary_missing (new_issue ''w1'' (Some ''u1'') None) resolve_request (requested_updates resolve_request)"
    "u_status (requested_updates resolve_request) = Some ''resolved''"
    "u_assignee (requested_updates resolve_request) = None"
    "''resolved'' \<in> set (issue_transitions (i_status (new_issue ''w1'' (Some ''u1'') None)))"
    "set (fields_provided resolve_request) \<inter> set recognized_fields \<noteq> {}" by code_simp+
  with g show ?thesis
    unfolding update_issue_exactly by (simp del: requested_simps)
qed

text \<open>
  An update is confined: it changes no issue but the addressed one, never moves it to
  another workspace, and leaves every field that the request does not name as it was.
\<close>

theorem update_issue_is_confined:
  assumes "update_issue isofmt members now db i w q = Inr (db', e)"
  shows "(\<forall>i'. i' \<noteq> i \<longrightarrow> db' i' = db i') \<and>
    (\<exists>r r'. db i = Some r \<and> db' i = Some r' \<and> i_workspace r = w \<and> i_workspace r' = w \<and>
      (''status'' \<notin> set (fields_provided q) \<longrightarrow> i_status r' = i_status r \<and>
        i_resolved_at r' = i_resolved_at r \<and> i_closed_at r' = i_closed_at r) \<and>
      (''assignee_id'' \<notin> set (fields_provided q) \<longrightarrow> i_assignee r' = i_assignee r) \<and>
      (''due_at'' \<notin> set (fields_provided q) \<longrightarrow> i_due r' = i_due r) \<and>
      (''resolution_summary'' \<notin> set (fields_provided q) \<longrightarrow> i_summary r' = i_summary r))"
proof -
  obtain cur u where g: "issue_get db i w = Some cur" and u: "collect_updates members now w cur q = Inr u"
    and db': "db' = issue_repo_update db i w u" using assms by (rule update_issue_Inr)
  from g have c: "db i = Some cur" "i_workspace cur = w"
    by (auto simp: issue_get_def split: option.splits if_splits)
  then have "db' = db(i \<mapsto> issue_apply u cur)" using g db' by (simp add: issue_repo_update_def)
  then show ?thesis using c collect_updates_Inr [OF u] by auto
qed

theorem update_issue_is_confined_witness:
  "\<exists>db' e. update_issue (\<lambda>_. []) [] 7 sample_issues ''i1'' ''w1'' resolve_request = Inr (db', e) \<and>
    (\<exists>r'. db' ''i1'' = Some r' \<and> i_assignee r' = Some ''u1'')"
proof -
  have g: "issue_get sample_issues ''i1'' ''w1'' = Some (new_issue ''w1'' (Some ''u1'') None)"
    by (simp add: issue_get_def sample_issues_def new_issue_def)
  have "check_update [] ''w1'' (new_issue ''w1'' (Some ''u1'') None) resolve_request (requested_updates resolve_request) = Inr ()"
    by code_simp
  then obtain db' e where s: "update_issue (\<lambda>_. []) [] 7 sample_issues ''i1'' ''w1'' resolve_request = Inr (db', e)"
    using g by (auto simp: update_issue_def collect_updates_def Let_def resolve_request_def recognized_fields_def)
  from update_issue_is_confined [OF s] show ?thesis using s
    by (auto simp: resolve_request_def sample_issues_def new_issue_def)
qed

text \<open>
  The required resolution summary can be erased.  A request that names only
  \<open>resolution_summary\<close>, with value \<open>None\<close>, succeeds on a resolved issue and leaves it resolved
  without any summary.
\<close>

theorem resolution_summary_can_be_erased:
  assumes "issue_get db i w = Some r" and "i_status r = ''resolved''"
    and "fields_provided q = [''resolution_summary'']" and "q_summary q = None"
  shows "\<exists>db' e r'. update_issue isofmt members now db i w q = Inr (db', e) \<and>
    issue_get db' i w = Some r' \<and> i_status r' = ''resolved'' \<and> i_summary r' = None"
proof -
  have "check_update members w r q (requested_updates q) = Inr ()"
    unfolding check_update_iff using assms
    by (simp add: summary_too_long_def summary_missing_def)
  then have "collect_updates members now w r q = Inr (requested_updates q)"
    by (simp add: collect_updates_def Let_def assms)
  then have "update_issue isofmt members now db i w q =
      Inr (issue_repo_update db i w (requested_updates q),
        if q_audit q then issue_audit isofmt i w r (requested_updates q) else None)"
    using assms by (simp add: update_issue_def recognized_fields_def)
  then show ?thesis using issues.lookup_update [OF assms(1)] assms by simp
qed

theorem resolution_summary_can_be_erased_witness:
  "\<exists>db' e r'. update_issue (\<lambda>_. []) [] 8
      [''i1'' \<mapsto> (new_issue ''w1'' None None)\<lparr>i_status := ''resolved'', i_summary := Some ''fixed''\<rparr>] ''i1'' ''w1''
      (resolve_request\<lparr>fields_provided := [''resolution_summary''], q_summary := None\<rparr>) = Inr (db', e) \<and>
    issue_get db' ''i1'' ''w1'' = Some r' \<and> i_status r' = ''resolved'' \<and> i_summary r' = None"
  by (rule resolution_summary_can_be_erased, simp add: issue_get_def new_issue_def)
    (simp_all add: new_issue_def)

text \<open>
  The audit entry of an update reports changes that did not happen: when the issue has an
  assignee and the request does not name \<open>assignee_id\<close>, the issue keeps its assignee, but the
  entry, if one is written, says that the assignee became \<open>None\<close>.
\<close>

theorem audit_reports_lost_assignee:
  assumes "update_issue isofmt members now db i w q = Inr (db', Some entry)"
    and "issue_get db i w = Some r" and "i_assignee r = Some v"
    and "''assignee_id'' \<notin> set (fields_provided q)"
  shows "map_of (a_after entry) ''assignee_id'' = Some PNone \<and>
    (\<exists>r'. issue_get db' i w = Some r' \<and> i_assignee r' = Some v)"
proof -
  obtain u where u: "collect_updates members now w r q = Inr u"
    and db': "db' = issue_repo_update db i w u"
    and e: "Some entry = (if q_audit q then issue_audit isofmt i w r u else None)"
    using assms(1,2) by (auto elim: update_issue_Inr)
  from collect_updates_Inr [OF u] assms(4) have ua: "u_assignee u = None" by simp
  have "a_after entry = snd (compute_audit_diff (issue_before_fields isofmt r) (issue_after_fields isofmt u))"
    using e by (auto simp: issue_audit_def split: if_splits prod.splits)
  moreover have "dict_get (issue_before_fields isofmt r) ''assignee_id'' PNone = PStr v"
    using assms(3) by (simp add: issue_before_fields_def dict_get_def str_or_none_def)
  moreover have "dict_get (issue_after_fields isofmt u) ''assignee_id'' PNone = PNone"
    using ua by (simp add: issue_after_fields_def opt_field_def dict_get_def split: option.splits)
  ultimately have "map_of (a_after entry) ''assignee_id'' = Some PNone"
    by (simp add: audit_diff_after issue_before_fields_def)
  then show ?thesis using issues.lookup_update [OF assms(2)] db' ua assms(3) by simp
qed

theorem audit_reports_lost_assignee_witness:
  "\<exists>db' entry. update_issue (\<lambda>_. []) [] 7 sample_issues ''i1'' ''w1'' resolve_request = Inr (db', Some entry) \<and>
    map_of (a_after entry) ''assignee_id'' = Some PNone"
proof -
  have g: "issue_get sample_issues ''i1'' ''w1'' = Some (new_issue ''w1'' (Some ''u1'') None)"
    by (simp add: issue_get_def sample_issues_def new_issue_def)
  have "check_update [] ''w1'' (new_issue ''w1'' (Some ''u1'') None) resolve_request (requested_updates resolve_request) = Inr ()"
    by code_simp
  then have c: "collect_updates [] 7 ''w1'' (new_issue ''w1'' (Some ''u1'') None) resolve_request =
      Inr (issue_timestamp_effects 7 ''resolved'' (requested_updates resolve_request))"
    by (simp add: collect_updates_def Let_def resolve_request_def)
  have "issue_audit (\<lambda>_. []) ''i1'' ''w1'' (new_issue ''w1'' (Some ''u1'') None)
      (issue_timestamp_effects 7 ''resolved'' (requested_updates resolve_request)) \<noteq> None" by code_simp
  then obtain db' entry where s: "update_issue (\<lambda>_. []) [] 7 sample_issues ''i1'' ''w1'' resolve_request = Inr (db', Some entry)"
    using g c by (auto simp: update_issue_def resolve_request_def recognized_fields_def)
  from audit_reports_lost_assignee [OF s g] s show ?thesis
    by (auto simp: new_issue_def resolve_request_def)
qed

end
