(* ===== verification/IncidentLifecycle.thy ===== *)
theory IncidentLifecycle
  imports Tickets
begin

text \<open>
  \<open>IncidentLifecycleService\<close> of \<open>app/services/incidents/incident_lifecycle_service.py\<close> over
  \<open>IncidentRepository\<close>.  Unlike the issue service, the incident service holds the row object of
  the session, and the repository updates that same object: a session keeps one object per
  primary key (the identity map SQLAlchemy documents).  So \<open>current\<close> is modelled as the key of
  the row, and a read of \<open>current.status\<close> after the update reads the updated row.
\<close>

record Incident =
  n_workspace :: string
  n_title :: string
  n_status :: string
  n_owner :: "string option"
  n_impact :: "string option"
  n_summary :: "string option"
  n_acknowledged_at :: "nat option"
  n_resolved_at :: "nat option"
  n_closed_at :: "nat option"

type_synonym incident_session = "string \<rightharpoonup> Incident"

datatype incident_error =
    IncidentNotFoundError
  | InvalidIncidentTransition string string
  | IncidentSummaryRequired
  | EmptyIncidentUpdate

record incident_updates =
  v_status :: "string option"
  v_summary :: "string option option"
  v_owner :: "string option option"
  v_impact :: "string option option"
  v_acknowledged_at :: "nat option option"
  v_resolved_at :: "nat option option"
  v_closed_at :: "nat option option"

record incident_request =
  given_fields :: "string list"
  p_status :: "string option"
  p_owner :: "string option"
  p_impact :: "string option"
  p_summary :: "string option"
  p_audit :: bool

record alert =
  al_trigger :: string
  al_payload :: dict

section \<open>The tables and the helpers of the service\<close>

definition incident_transitions :: "string \<Rightarrow> string list" where
  "incident_transitions s =
     (if s = ''open'' then [''acknowledged'']
      else if s = ''acknowledged'' then [''mitigated'', ''resolved'', ''closed'']
      else if s = ''mitigated'' then [''resolved'', ''closed'']
      else if s = ''resolved'' then [''closed'']
      else if s = ''closed'' then [''reopened'']
      else if s = ''reopened'' then [''acknowledged'', ''mitigated'', ''resolved'', ''closed'']
      else [])"

definition incident_validate_transition :: "string \<Rightarrow> string \<Rightarrow> incident_error + unit" where
  "incident_validate_transition cur tgt =
     (if tgt \<notin> set (incident_transitions cur) then Inl (InvalidIncidentTransition cur tgt) else Inr ())"

definition incident_timestamp_effects :: "nat \<Rightarrow> string \<Rightarrow> incident_updates \<Rightarrow> incident_updates" where
  "incident_timestamp_effects now tgt u =
     (if tgt = ''acknowledged'' then u\<lparr>v_acknowledged_at := Some (Some now)\<rparr>
      else if tgt = ''resolved'' then u\<lparr>v_resolved_at := Some (Some now)\<rparr>
      else if tgt = ''closed'' then u\<lparr>v_closed_at := Some (Some now)\<rparr>
      else u)"

section \<open>The repository\<close>

definition incident_get :: "incident_session \<Rightarrow> string \<Rightarrow> string \<Rightarrow> Incident option" where
  "incident_get db i w =
     (case db i of None \<Rightarrow> None | Some r \<Rightarrow> if n_workspace r = w then Some r else None)"

definition incident_apply :: "incident_updates \<Rightarrow> Incident \<Rightarrow> Incident" where
  "incident_apply u r = r\<lparr>
     n_status := (case v_status u of None \<Rightarrow> n_status r | Some s \<Rightarrow> s),
     n_summary := (case v_summary u of None \<Rightarrow> n_summary r | Some s \<Rightarrow> s),
     n_owner := (case v_owner u of None \<Rightarrow> n_owner r | Some s \<Rightarrow> s),
     n_impact := (case v_impact u of None \<Rightarrow> n_impact r | Some s \<Rightarrow> s),
     n_acknowledged_at := (case v_acknowledged_at u of None \<Rightarrow> n_acknowledged_at r | Some s \<Rightarrow> s),
     n_resolved_at := (case v_resolved_at u of None \<Rightarrow> n_resolved_at r | Some s \<Rightarrow> s),
     n_closed_at := (case v_closed_at u of None \<Rightarrow> n_closed_at r | Some s \<Rightarrow> s)\<rparr>"

definition incident_repo_update ::
    "incident_session \<Rightarrow> string \<Rightarrow> string \<Rightarrow> incident_updates \<Rightarrow> incident_session" where
  "incident_repo_update db i w u =
     (case incident_get db i w of None \<Rightarrow> db | Some r \<Rightarrow> db(i \<mapsto> incident_apply u r))"

lemma incident_apply_simps [simp]:
  "n_workspace (incident_apply u r) = n_workspace r"
  "n_title (incident_apply u r) = n_title r"
  "n_status (incident_apply u r) = (case v_status u of None \<Rightarrow> n_status r | Some s \<Rightarrow> s)"
  "n_summary (incident_apply u r) = (case v_summary u of None \<Rightarrow> n_summary r | Some s \<Rightarrow> s)"
  "n_owner (incident_apply u r) = (case v_owner u of None \<Rightarrow> n_owner r | Some s \<Rightarrow> s)"
  "n_impact (incident_apply u r) = (case v_impact u of None \<Rightarrow> n_impact r | Some s \<Rightarrow> s)"
  "n_acknowledged_at (incident_apply u r) =
     (case v_acknowledged_at u of None \<Rightarrow> n_acknowledged_at r | Some s \<Rightarrow> s)"
  "n_resolved_at (incident_apply u r) = (case v_resolved_at u of None \<Rightarrow> n_resolved_at r | Some s \<Rightarrow> s)"
  "n_closed_at (incident_apply u r) = (case v_closed_at u of None \<Rightarrow> n_closed_at r | Some s \<Rightarrow> s)"
  by (simp_all add: incident_apply_def)

interpretation incidents: ticket_store incident_get incident_repo_update incident_apply
  by unfold_locales (auto simp: incident_get_def incident_repo_update_def split: option.splits if_splits)

section \<open>The update\<close>

definition incident_recognized :: "string list" where
  "incident_recognized = [''status'', ''owner_id'', ''impact_summary'', ''resolution_summary'']"

definition incident_requested :: "incident_request \<Rightarrow> incident_updates" where
  "incident_requested q =
     (let given = (\<lambda>f. f \<in> set (given_fields q)) in
      \<lparr>v_status = (if given ''status'' then p_status q else None),
       v_summary = (if given ''resolution_summary'' then Some (p_summary q) else None),
       v_owner = (if given ''owner_id'' then Some (p_owner q) else None),
       v_impact = (if given ''impact_summary'' then Some (p_impact q) else None),
       v_acknowledged_at = None, v_resolved_at = None, v_closed_at = None\<rparr>)"

definition incident_summary :: "Incident \<Rightarrow> incident_updates \<Rightarrow> string option" where
  "incident_summary cur u = (case v_summary u of None \<Rightarrow> n_summary cur | Some s \<Rightarrow> s)"

definition incident_summary_missing :: "Incident \<Rightarrow> incident_request \<Rightarrow> incident_updates \<Rightarrow> bool" where
  "incident_summary_missing cur q u \<longleftrightarrow>
     ''status'' \<in> set (given_fields q) \<and>
     (case v_status u of None \<Rightarrow> n_status cur | Some s \<Rightarrow> s) \<in> {''resolved'', ''closed''} \<and>
     (incident_summary cur u = None \<or> incident_summary cur u = Some [])"

text \<open>Steps 2 to 6.\<close>

definition incident_collect ::
    "nat \<Rightarrow> Incident \<Rightarrow> incident_request \<Rightarrow> incident_error + incident_updates" where
  "incident_collect now cur q =
     (let u = incident_requested q in
      case (case v_status u of None \<Rightarrow> Inr () | Some s \<Rightarrow> incident_validate_transition (n_status cur) s) of
        Inl e \<Rightarrow> Inl e
      | Inr _ \<Rightarrow>
          if incident_summary_missing cur q u then Inl IncidentSummaryRequired
          else Inr (case v_status u of None \<Rightarrow> u | Some s \<Rightarrow> incident_timestamp_effects now s u))"

text \<open>Step 8: the entry holds the updates as text; \<open>str\<close> of a time stamp is a parameter.\<close>

definition text_field :: "string \<Rightarrow> string option option \<Rightarrow> dict" where
  "text_field k x = (case x of None \<Rightarrow> [] | Some None \<Rightarrow> [(k, PNone)] | Some (Some s) \<Rightarrow> [(k, PStr s)])"

definition incident_audit ::
    "(nat \<Rightarrow> string) \<Rightarrow> string \<Rightarrow> string \<Rightarrow> incident_updates \<Rightarrow> AuditEntry" where
  "incident_audit fmt i w u =
     \<lparr>a_action = (if v_status u \<noteq> None then ''incident_status_changed''
        else if v_owner u \<noteq> None then ''incident_owner_changed'' else ''incident_updated''),
      a_entity_type = ''incident'', a_entity_id = i, a_workspace = w, a_before = None,
      a_after = text_field ''status'' (map_option Some (v_status u)) @
        text_field ''resolution_summary'' (v_summary u) @ text_field ''owner_id'' (v_owner u) @
        text_field ''impact_summary'' (v_impact u) @
        text_field ''acknowledged_at'' (map_option (map_option fmt) (v_acknowledged_at u)) @
        text_field ''resolved_at'' (map_option (map_option fmt) (v_resolved_at u)) @
        text_field ''closed_at'' (map_option (map_option fmt) (v_closed_at u))\<rparr>"

text \<open>Step 8b: the alerts, with \<open>cur\<close> the row object at the time the payload is built.\<close>

definition owner_or_none :: "string option \<Rightarrow> pyval" where
  "owner_or_none x = (case x of None \<Rightarrow> PNone | Some s \<Rightarrow> PStr s)"

definition incident_alerts :: "string \<Rightarrow> Incident \<Rightarrow> incident_updates \<Rightarrow> alert list" where
  "incident_alerts i cur u =
     (case v_status u of
        None \<Rightarrow> []
      | Some s \<Rightarrow> [\<lparr>al_trigger = ''incident_status_changed'',
          al_payload = [(''incident_id'', PStr i), (''title'', PStr (n_title cur)),
            (''old_status'', PStr (n_status cur)), (''new_status'', PStr s)]\<rparr>]) @
     (case v_owner u of
        Some (Some v) \<Rightarrow> [\<lparr>al_trigger = ''incident_assigned'',
          al_payload = [(''incident_id'', PStr i), (''title'', PStr (n_title cur)),
            (''owner_id'', PStr v), (''previous_owner_id'', owner_or_none (n_owner cur))]\<rparr>]
      | _ \<Rightarrow> [])"

text \<open>The triggers run in order; the first that raises ends the block, and is swallowed.\<close>

fun attempt_alerts :: "(alert \<Rightarrow> bool) \<Rightarrow> alert list \<Rightarrow> alert list" where
  "attempt_alerts raises [] = []"
| "attempt_alerts raises (a # as) = a # (if raises a then [] else attempt_alerts raises as)"

text \<open>
  \<open>update_incident\<close>: the new session, the audit entry and the alerts handed to the trigger
  service, or the exception.
\<close>

definition update_incident ::
    "(nat \<Rightarrow> string) \<Rightarrow> (alert \<Rightarrow> bool) \<Rightarrow> nat \<Rightarrow> incident_session \<Rightarrow> string \<Rightarrow> string \<Rightarrow> incident_request \<Rightarrow>
     incident_error + incident_session \<times> AuditEntry option \<times> alert list" where
  "update_incident fmt raises now db i w q =
     (if set (given_fields q) \<inter> set incident_recognized = {} then Inl EmptyIncidentUpdate
      else case incident_get db i w of
             None \<Rightarrow> Inl IncidentNotFoundError
           | Some cur \<Rightarrow>
               (case incident_collect now cur q of
                  Inl e \<Rightarrow> Inl e
                | Inr u \<Rightarrow>
                    (let db' = incident_repo_update db i w u;
                         current = (case db' i of Some r \<Rightarrow> r | None \<Rightarrow> cur)
                     in Inr (db', if p_audit q then Some (incident_audit fmt i w u) else None,
                             attempt_alerts raises (incident_alerts i current u)))))"

section \<open>What a successful update has checked\<close>

lemma incident_requested_simps [simp]:
  "v_status (incident_requested q) = (if ''status'' \<in> set (given_fields q) then p_status q else None)"
  "v_summary (incident_requested q) =
     (if ''resolution_summary'' \<in> set (given_fields q) then Some (p_summary q) else None)"
  "v_owner (incident_requested q) = (if ''owner_id'' \<in> set (given_fields q) then Some (p_owner q) else None)"
  "v_impact (incident_requested q) =
     (if ''impact_summary'' \<in> set (given_fields q) then Some (p_impact q) else None)"
  "v_acknowledged_at (incident_requested q) = None"
  "v_resolved_at (incident_requested q) = None"
  "v_closed_at (incident_requested q) = None"
  by (simp_all add: incident_requested_def Let_def)

lemma incident_effects_simps [simp]:
  "v_status (incident_timestamp_effects now s u) = v_status u"
  "v_summary (incident_timestamp_effects now s u) = v_summary u"
  "v_owner (incident_timestamp_effects now s u) = v_owner u"
  "v_impact (incident_timestamp_effects now s u) = v_impact u"
  "v_acknowledged_at (incident_timestamp_effects now s u) =
     (if s = ''acknowledged'' then Some (Some now) else v_acknowledged_at u)"
  "v_resolved_at (incident_timestamp_effects now s u) =
     (if s = ''resolved'' then Some (Some now) else v_resolved_at u)"
  "v_closed_at (incident_timestamp_effects now s u) =
     (if s = ''closed'' then Some (Some now) else v_closed_at u)"
  by (simp_all add: incident_timestamp_effects_def)

lemma incident_collect_Inr:
  assumes "incident_collect now cur q = Inr u"
  shows "(v_status u = None \<and> u = incident_requested q) \<or>
    (\<exists>s. v_status u = Some s \<and> s \<in> set (incident_transitions (n_status cur)) \<and>
      u = incident_timestamp_effects now s (incident_requested q) \<and>
      (s \<in> {''resolved'', ''closed''} \<longrightarrow> n_summary (incident_apply u cur) \<notin> {None, Some []}))"
proof (cases "v_status (incident_requested q)")
  case None
  then have "u = incident_requested q" using assms
    by (simp add: incident_collect_def Let_def del: incident_requested_simps split: if_splits)
  with None show ?thesis by simp
next
  case (Some s)
  then have s: "s \<in> set (incident_transitions (n_status cur))"
    and m: "\<not> incident_summary_missing cur q (incident_requested q)"
    and u: "u = incident_timestamp_effects now s (incident_requested q)"
    using assms by (auto simp: incident_collect_def Let_def incident_validate_transition_def
        simp del: incident_requested_simps split: if_splits)
  have "''status'' \<in> set (given_fields q)" using Some by (auto split: if_splits)
  with m Some have "s \<in> {''resolved'', ''closed''} \<longrightarrow>
      incident_summary cur (incident_requested q) \<notin> {None, Some []}"
    unfolding incident_summary_missing_def by (auto simp del: incident_requested_simps)
  moreover have "n_summary (incident_apply u cur) = incident_summary cur (incident_requested q)"
    by (simp add: u incident_summary_def)
  ultimately show ?thesis using s u Some
    by (intro disjI2 exI [of _ s]) (auto simp del: incident_requested_simps)
qed

lemma update_incident_Inr:
  assumes "update_incident fmt raises now db i w q = Inr (db', a, al)"
  obtains cur u where "incident_get db i w = Some cur" "incident_collect now cur q = Inr u"
    "db' = incident_repo_update db i w u" "incident_get db' i w = Some (incident_apply u cur)"
    "al = attempt_alerts raises (incident_alerts i (incident_apply u cur) u)"
    "a = (if p_audit q then Some (incident_audit fmt i w u) else None)"
proof -
  from assms obtain cur u where g: "incident_get db i w = Some cur" and u: "incident_collect now cur q = Inr u"
    and db': "db' = incident_repo_update db i w u"
    and r: "al = attempt_alerts raises (incident_alerts i (case db' i of Some r \<Rightarrow> r | None \<Rightarrow> cur) u)"
      "a = (if p_audit q then Some (incident_audit fmt i w u) else None)"
    by (auto simp: update_incident_def Let_def split: if_splits option.splits sum.splits)
  moreover have n: "incident_get db' i w = Some (incident_apply u cur)"
    using incidents.lookup_update [OF g] db' by simp
  moreover from n have "db' i = Some (incident_apply u cur)"
    by (auto simp: incident_get_def split: option.splits if_splits)
  ultimately show ?thesis using that by simp
qed

section \<open>Reachable sessions\<close>

definition new_incident :: "string \<Rightarrow> string \<Rightarrow> string option \<Rightarrow> string option \<Rightarrow> Incident" where
  "new_incident w title v m = \<lparr>n_workspace = w, n_title = title, n_status = ''open'', n_owner = v,
     n_impact = m, n_summary = None, n_acknowledged_at = None, n_resolved_at = None, n_closed_at = None\<rparr>"

inductive incident_reachable :: "incident_session \<Rightarrow> bool" where
  empty: "incident_reachable (\<lambda>_. None)"
| insert: "incident_reachable db \<Longrightarrow> db i = None \<Longrightarrow> incident_reachable (db(i \<mapsto> new_incident w t v m))"
| updated: "incident_reachable db \<Longrightarrow> update_incident fmt raises now db i w q = Inr (db', a, al) \<Longrightarrow>
    incident_reachable db'"

inductive_cases incident_reachableE: "incident_reachable db"

definition incident_ok :: "Incident \<Rightarrow> bool" where
  "incident_ok r \<longleftrightarrow>
     n_status r \<in> {''open'', ''acknowledged'', ''mitigated'', ''resolved'', ''closed'', ''reopened''} \<and>
     (n_status r \<noteq> ''open'' \<longrightarrow> n_acknowledged_at r \<noteq> None) \<and>
     (n_status r = ''resolved'' \<longrightarrow> n_resolved_at r \<noteq> None) \<and>
     (n_status r \<in> {''closed'', ''reopened''} \<longrightarrow> n_closed_at r \<noteq> None)"

lemma incident_transitions_cases:
  "s \<in> set (incident_transitions c) \<Longrightarrow>
     (c = ''open'' \<and> s = ''acknowledged'') \<or>
     (c = ''acknowledged'' \<and> s \<in> {''mitigated'', ''resolved'', ''closed''}) \<or>
     (c = ''mitigated'' \<and> s \<in> {''resolved'', ''closed''}) \<or>
     (c = ''resolved'' \<and> s = ''closed'') \<or> (c = ''closed'' \<and> s = ''reopened'') \<or>
     (c = ''reopened'' \<and> s \<in> {''acknowledged'', ''mitigated'', ''resolved'', ''closed''})"
  by (simp add: incident_transitions_def split: if_splits)

lemma incident_ok_apply:
  assumes "incident_ok r" and "incident_collect now r q = Inr u"
  shows "incident_ok (incident_apply u r)"
  using incident_collect_Inr [OF assms(2)]
proof (elim disjE exE conjE)
  assume "v_status u = None" "u = incident_requested q"
  then have "v_acknowledged_at u = None" "v_resolved_at u = None" "v_closed_at u = None"
    by (simp_all add: incident_requested_simps)
  with \<open>v_status u = None\<close> assms(1) show ?thesis by (simp add: incident_ok_def)
next
  fix s assume s: "v_status u = Some s" "s \<in> set (incident_transitions (n_status r))"
    and u: "u = incident_timestamp_effects now s (incident_requested q)"
  have "v_acknowledged_at u = (if s = ''acknowledged'' then Some (Some now) else None)"
    "v_resolved_at u = (if s = ''resolved'' then Some (Some now) else None)"
    "v_closed_at u = (if s = ''closed'' then Some (Some now) else None)"
    by (simp_all add: u)
  with incident_transitions_cases [OF s(2)] s(1) assms(1) show ?thesis
    by (elim disjE conjE insertE emptyE) (auto simp: incident_ok_def)
qed

lemma new_incident_ok [simp]: "incident_ok (new_incident w t v m)"
  by (simp add: incident_ok_def new_incident_def)

lemma incident_get_empty [simp]: "incident_get (\<lambda>_. None) i w = None"
  by (simp add: incident_get_def)

lemma incident_get_insert:
  "incident_get (db(i \<mapsto> r)) i' w =
     (if i' = i then if n_workspace r = w then Some r else None else incident_get db i' w)"
  by (simp add: incident_get_def)

section \<open>Properties\<close>

text \<open>
  In every session that insertions and updates can produce, an incident that has left the
  status open has been acknowledged, a resolved one has a resolution time, and a closed one has a
  closing time; a reopened incident keeps the closing time of its last closure.
\<close>

theorem incident_timestamps_follow_status:
  assumes "incident_reachable db" and "incident_get db i w = Some r"
  shows "incident_ok r"
proof -
  have "incidents.all_rows incident_ok db"
    using assms(1)
  proof (induction rule: incident_reachable.induct)
    case (insert db i w t v m)
    then show ?case unfolding incidents.all_rows_def incident_get_insert by auto
  next
    case (updated db fmt raises now i w q db' a al)
    from updated.hyps(2) obtain cur u where "incident_get db i w = Some cur"
      "incident_collect now cur q = Inr u" "db' = incident_repo_update db i w u"
      by (rule update_incident_Inr)
    moreover from this updated.IH have "incident_ok cur" by (simp add: incidents.all_rows_def)
    ultimately show ?case using incidents.all_rows_update [OF updated.IH] incident_ok_apply by simp
  qed (simp add: incidents.all_rows_def)
  with assms(2) show ?thesis by (simp add: incidents.all_rows_def)
qed

definition sample_incidents :: incident_session where
  "sample_incidents = [''n1'' \<mapsto> new_incident ''w1'' ''late load'' (Some ''u1'') None]"

definition acknowledge_request :: incident_request where
  "acknowledge_request = \<lparr>given_fields = [''status'', ''owner_id''], p_status = Some ''acknowledged'',
     p_owner = Some ''u2'', p_impact = None, p_summary = None, p_audit = True\<rparr>"

lemma sample_incident_get: "incident_get sample_incidents ''n1'' ''w1'' = Some (new_incident ''w1'' ''late load'' (Some ''u1'') None)"
  by (simp add: incident_get_def sample_incidents_def new_incident_def)

theorem incident_timestamps_follow_status_witness:
  "incident_ok (new_incident ''w1'' ''late load'' (Some ''u1'') None)"
proof (rule incident_timestamps_follow_status [OF _ sample_incident_get])
  show "incident_reachable sample_incidents"
    unfolding sample_incidents_def by (rule incident_reachable.insert [OF incident_reachable.empty]) simp
qed

text \<open>
  The alerts of an incident update carry no history: whatever the update changes, every
  alert about a status change names the new status as the old one, and every alert about an
  assignment names the new owner as the previous one.
\<close>

theorem incident_alerts_lose_the_past:
  assumes "update_incident fmt raises now db i w q = Inr (db', a, al)" and "x \<in> set al"
  shows "(al_trigger x = ''incident_status_changed'' \<and>
      map_of (al_payload x) ''old_status'' = map_of (al_payload x) ''new_status'') \<or>
    (al_trigger x = ''incident_assigned'' \<and>
      map_of (al_payload x) ''previous_owner_id'' = map_of (al_payload x) ''owner_id'')"
proof -
  have sub: "set (attempt_alerts raises as) \<subseteq> set as" for as
    by (induction as) auto
  from assms(1) obtain cur u where "al = attempt_alerts raises (incident_alerts i (incident_apply u cur) u)"
    by (rule update_incident_Inr)
  with assms(2) sub have "x \<in> set (incident_alerts i (incident_apply u cur) u)" by blast
  then show ?thesis
    by (auto simp: incident_alerts_def owner_or_none_def split: option.splits)
qed

theorem incident_alerts_lose_the_past_witness:
  "\<exists>db' a x. update_incident (\<lambda>_. []) (\<lambda>_. False) 3 sample_incidents ''n1'' ''w1'' acknowledge_request
      = Inr (db', a, [x, \<lparr>al_trigger = ''incident_assigned'',
          al_payload = [(''incident_id'', PStr ''n1''), (''title'', PStr ''late load''),
            (''owner_id'', PStr ''u2''), (''previous_owner_id'', PStr ''u2'')]\<rparr>]) \<and>
    map_of (al_payload x) ''old_status'' = Some (PStr ''acknowledged'')"
proof -
  let ?x = "\<lparr>al_trigger = ''incident_status_changed'',
    al_payload = [(''incident_id'', PStr ''n1''), (''title'', PStr ''late load''),
      (''old_status'', PStr ''acknowledged''), (''new_status'', PStr ''acknowledged'')]\<rparr>"
  have "\<exists>db' a. update_incident (\<lambda>_. []) (\<lambda>_. False) 3 sample_incidents ''n1'' ''w1'' acknowledge_request
      = Inr (db', a, [?x, \<lparr>al_trigger = ''incident_assigned'',
          al_payload = [(''incident_id'', PStr ''n1''), (''title'', PStr ''late load''),
            (''owner_id'', PStr ''u2''), (''previous_owner_id'', PStr ''u2'')]\<rparr>])"
    by (simp add: update_incident_def incident_recognized_def acknowledge_request_def sample_incident_get
        incident_collect_def incident_summary_missing_def incident_validate_transition_def
        incident_transitions_def new_incident_def incident_alerts_def incident_repo_update_def
        owner_or_none_def Let_def)
  then obtain db' a where u: "update_incident (\<lambda>_. []) (\<lambda>_. False) 3 sample_incidents ''n1'' ''w1'' acknowledge_request
      = Inr (db', a, [?x, \<lparr>al_trigger = ''incident_assigned'',
          al_payload = [(''incident_id'', PStr ''n1''), (''title'', PStr ''late load''),
            (''owner_id'', PStr ''u2''), (''previous_owner_id'', PStr ''u2'')]\<rparr>])" by blast
  from incident_alerts_lose_the_past [OF u, of ?x] u show ?thesis by auto
qed

end
