(* ===== verification/FieldValidation.thy ===== *)
theory FieldValidation
  imports Prelude
begin

text \<open>
  What the payload validators share: how they collect field errors, and the contract of a
  validator that normalises the text it accepts.
\<close>

type_synonym field_error = "string \<times> string"

text \<open>\<open>if c: errors.append(e)\<close>.\<close>

definition err_when :: "bool \<Rightarrow> 'e \<Rightarrow> 'e list" where
  "err_when c e = (if c then [e] else [])"

lemma err_when_Nil [simp]: "err_when c e = [] \<longleftrightarrow> \<not> c"
  by (simp add: err_when_def)

lemma err_when_False [simp]: "err_when False e = []"
  by (simp add: err_when_def)

lemma Nil_err_when [simp]: "[] = err_when c e \<longleftrightarrow> \<not> c"
  by (auto simp: err_when_def)

text \<open>\<open>if x is not None: payload[k] = x\<close>.\<close>

definition put_some :: "string \<Rightarrow> string option \<Rightarrow> dict" where
  "put_some k x = (case x of None \<Rightarrow> [] | Some s \<Rightarrow> [(k, PStr s)])"

lemma put_some_simps [simp]:
  "put_some k None = []" "put_some k (Some s) = [(k, PStr s)]"
  by (simp_all add: put_some_def)

lemma keys_put_some: "set (map fst (put_some k x)) \<subseteq> {k}"
  by (cases x) simp_all

lemma dict_get_simps [simp]:
  "dict_get [] k v = v"
  "dict_get ((k', x) # d) k v = (if k' = k then x else dict_get d k v)"
  by (auto simp: dict_get_def)

text \<open>
  A validator takes a raw value and returns the errors it appends and the normalised text.
  \<open>ok\<close> is what it promises of that text.
\<close>

locale normalizer =
  fixes validate :: "pyval \<Rightarrow> field_error list \<times> string option"
    and ok :: "string \<Rightarrow> bool"
  assumes accepted_ok: "validate v = ([], Some s) \<Longrightarrow> ok s"
    and ok_accepted: "ok s \<Longrightarrow> validate (PStr s) = ([], Some s)"
    and only_text: "validate v = ([], Some s) \<Longrightarrow> is_str v"
begin

text \<open>What is accepted is accepted again, unchanged.\<close>

lemma accepted_again: "validate v = ([], Some s) \<Longrightarrow> validate (PStr s) = ([], Some s)"
  using accepted_ok ok_accepted by blast

lemma accepted_values: "(\<exists>v. validate v = ([], Some s)) \<longleftrightarrow> ok s"
  using accepted_ok ok_accepted by blast

end

end
