(* ===== verification/WorkspaceValidation.thy ===== *)
theory WorkspaceValidation
  imports FieldValidation
begin

text \<open>
  \<open>app/services/workspaces/validation.py\<close>: the normalisation and validation of the payloads that
  create, update and archive a workspace.  The time-zone database is the parameter \<open>zone\<close>
  (the canonical key of an identifier it knows).  Normalisation form C is the identity on the
  code points of the model.
\<close>

section \<open>Normalisation and character checks\<close>

definition normalize_workspace_name :: "string \<Rightarrow> string" where
  "normalize_workspace_name s = strip s"

definition normalize_workspace_slug :: "string \<Rightarrow> string" where
  "normalize_workspace_slug s = lower s"

definition normalize_status_reason :: "string \<Rightarrow> string" where
  "normalize_status_reason s = strip s"

definition resolve_iana_timezone :: "(string \<Rightarrow> string option) \<Rightarrow> string option \<Rightarrow> string option" where
  "resolve_iana_timezone zone v =
     (case v of None \<Rightarrow> None | Some s \<Rightarrow> if s = [] then None else zone s)"

definition contains_forbidden_characters :: "string \<Rightarrow> bool" where
  "contains_forbidden_characters s \<longleftrightarrow>
     (\<exists>c \<in> set s. c \<in> {CHR ''<'', CHR ''>'', CHR ''&'', CHR 0x22, CHR 0x27, CHR ''`''})"

definition contains_ascii_control_characters :: "string \<Rightarrow> bool" where
  "contains_ascii_control_characters s \<longleftrightarrow> (\<exists>c \<in> set s. code_of c \<le> 31 \<or> code_of c = 127)"

text \<open>The pattern \<open>^[a-z0-9-]+$\<close>: the dollar also matches before a final line feed.\<close>

definition slug_char :: "char \<Rightarrow> bool" where
  "slug_char c \<longleftrightarrow> (97 \<le> code_of c \<and> code_of c \<le> 122) \<or> is_digit c \<or> c = CHR ''-''"

definition slug_pattern :: "string \<Rightarrow> bool" where
  "slug_pattern s \<longleftrightarrow>
     (let core = (if s \<noteq> [] \<and> last s = CHR 0x0A then butlast s else s)
      in core \<noteq> [] \<and> list_all slug_char core)"

section \<open>Field validators\<close>

definition validate_workspace_name :: "pyval \<Rightarrow> field_error list \<times> string option" where
  "validate_workspace_name v =
     (let f = ''workspace_name'' in
      if v = PNone \<or> v = PStr [] then ([(f, ''field_required'')], None)
      else case v of
        PStr raw \<Rightarrow>
          (let n = normalize_workspace_name raw in
           if n = [] then ([(f, ''field_required'')], None)
           else (err_when (length n < 2) (f, ''field_too_short'') @
                 err_when (length n > 150) (f, ''field_too_long'') @
                 err_when (contains_forbidden_characters n) (f, ''invalid_characters'') @
                 err_when (contains_ascii_control_characters n) (f, ''invalid_characters''), Some n))
      | _ \<Rightarrow> ([(f, ''invalid_field_type'')], None))"

definition validate_workspace_slug :: "pyval \<Rightarrow> field_error list \<times> string option" where
  "validate_workspace_slug v =
     (let f = ''workspace_slug'' in
      if v = PNone \<or> v = PStr [] then ([(f, ''field_required'')], None)
      else case v of
        PStr raw \<Rightarrow>
          (let n = normalize_workspace_slug raw in
           (err_when (length n < 3) (f, ''field_too_short'') @
            err_when (length n > 80) (f, ''field_too_long'') @
            err_when (\<not> slug_pattern n) (f, ''invalid_characters'') @
            err_when (starts_with ''-'' n) (f, ''invalid_format'') @
            err_when (ends_with ''-'' n) (f, ''invalid_format'') @
            err_when (contains ''--'' n) (f, ''invalid_format''), Some n))
      | _ \<Rightarrow> ([(f, ''invalid_field_type'')], None))"

definition validate_description :: "pyval \<Rightarrow> field_error list \<times> string option" where
  "validate_description v =
     (let f = ''description'' in
      if v = PNone \<or> v = PStr [] then ([], None)
      else case v of
        PStr raw \<Rightarrow>
          (let t = strip raw in
           if t = [] then ([], None)
           else (err_when (length t > 500) (f, ''field_too_long'') @
                 err_when (contains_ascii_control_characters t) (f, ''invalid_characters''), Some t))
      | _ \<Rightarrow> ([(f, ''invalid_field_type'')], None))"

definition validate_default_timezone ::
    "(string \<Rightarrow> string option) \<Rightarrow> pyval \<Rightarrow> field_error list \<times> string option" where
  "validate_default_timezone zone v =
     (let f = ''default_timezone'' in
      case v of
        PNone \<Rightarrow> ([], None)
      | PStr raw \<Rightarrow>
          if raw = [] then ([(f, ''invalid_timezone'')], None)
          else (case resolve_iana_timezone zone (Some raw) of
                  None \<Rightarrow> ([(f, ''invalid_timezone'')], None)
                | Some z \<Rightarrow> ([], Some z))
      | _ \<Rightarrow> ([(f, ''invalid_field_type'')], None))"

definition validate_status_reason :: "pyval \<Rightarrow> field_error list \<times> string option" where
  "validate_status_reason v =
     (let f = ''status_reason'' in
      case v of
        PNone \<Rightarrow> ([(f, ''missing_reason'')], None)
      | PStr raw \<Rightarrow>
          (let n = normalize_status_reason raw in
           if n = [] then ([(f, ''missing_reason'')], None)
           else (err_when (length n < 10) (f, ''reason_too_short'') @
                 err_when (length n > 500) (f, ''field_too_long'') @
                 err_when (contains_ascii_control_characters n) (f, ''invalid_characters''), Some n))
      | _ \<Rightarrow> ([(f, ''invalid_field_type'')], None))"

section \<open>Payloads\<close>

record ValidationResult =
  v_errors :: "field_error list"
  normalized_payload :: dict

definition detect_forbidden_fields :: "dict \<Rightarrow> string list \<Rightarrow> string list" where
  "detect_forbidden_fields p S = filter (\<lambda>k. k \<in> set S) (map fst p)"

definition detect_unknown_fields :: "dict \<Rightarrow> string list \<Rightarrow> string list" where
  "detect_unknown_fields p S = filter (\<lambda>k. k \<notin> set S) (map fst p)"

definition forbidden_fields :: "string list" where
  "forbidden_fields = [''tenant_id'', ''workspace_id'', ''created_by'', ''created_at'',
     ''updated_by'', ''updated_at'', ''status'', ''version'', ''workspace_name_lower'']"

definition create_allowed_fields :: "string list" where
  "create_allowed_fields = [''workspace_name'', ''workspace_slug'', ''description'', ''default_timezone'']"

definition update_allowed_fields :: "string list" where
  "update_allowed_fields = [''workspace_name'', ''description'', ''default_timezone'']"

definition immutable_fields :: "string list" where
  "immutable_fields = [''workspace_slug'']"

definition archive_allowed_fields :: "string list" where
  "archive_allowed_fields = [''status_reason'', ''confirm_last_workspace'']"

definition mark :: "string \<Rightarrow> string list \<Rightarrow> field_error list" where
  "mark r fs = map (\<lambda>f. (f, r)) fs"

definition validate_create_payload :: "(string \<Rightarrow> string option) \<Rightarrow> dict \<Rightarrow> ValidationResult" where
  "validate_create_payload zone p =
     (let forbidden = detect_forbidden_fields p forbidden_fields;
          unknown = detect_unknown_fields p create_allowed_fields
      in if forbidden \<noteq> [] \<or> unknown \<noteq> [] then
           \<lparr>v_errors = mark ''forbidden_field'' forbidden @ mark ''unknown_field'' unknown,
            normalized_payload = []\<rparr>
         else
           (case validate_workspace_name (dict_get p ''workspace_name'' PNone) of (e1, name) \<Rightarrow>
            case validate_workspace_slug (dict_get p ''workspace_slug'' PNone) of (e2, slug) \<Rightarrow>
            case validate_description (dict_get p ''description'' PNone) of (e3, desc) \<Rightarrow>
            case validate_default_timezone zone (dict_get p ''default_timezone'' PNone) of (e4, tz) \<Rightarrow>
              \<lparr>v_errors = e1 @ e2 @ e3 @ e4,
               normalized_payload = put_some ''workspace_name'' name @ put_some ''workspace_slug'' slug @
                 put_some ''description'' desc @ put_some ''default_timezone'' tz\<rparr>))"

definition validate_update_payload :: "(string \<Rightarrow> string option) \<Rightarrow> dict \<Rightarrow> ValidationResult" where
  "validate_update_payload zone p =
     (let immutable = filter (\<lambda>k. k \<in> set immutable_fields) (map fst p);
          forbidden = detect_forbidden_fields p forbidden_fields;
          unknown = detect_unknown_fields p (update_allowed_fields @ immutable_fields)
      in if immutable \<noteq> [] \<or> forbidden \<noteq> [] \<or> unknown \<noteq> [] then
           \<lparr>v_errors = mark ''immutable_field'' immutable @ mark ''forbidden_field'' forbidden @
              mark ''unknown_field'' unknown, normalized_payload = []\<rparr>
         else if p = [] then \<lparr>v_errors = [], normalized_payload = []\<rparr>
         else
           (case (if has_key p ''workspace_name''
                  then (case validate_workspace_name (dict_get p ''workspace_name'' PNone) of
                          (e, n) \<Rightarrow> (e, put_some ''workspace_name'' n))
                  else ([], [])) of (e1, d1) \<Rightarrow>
            case (if has_key p ''description''
                  then (case validate_description (dict_get p ''description'' PNone) of
                          (e, n) \<Rightarrow> (e, [(''description'', case n of None \<Rightarrow> PNone | Some s \<Rightarrow> PStr s)]))
                  else ([], [])) of (e2, d2) \<Rightarrow>
            case (if has_key p ''default_timezone''
                  then (case validate_default_timezone zone (dict_get p ''default_timezone'' PNone) of
                          (e, n) \<Rightarrow> (e, put_some ''default_timezone'' n))
                  else ([], [])) of (e3, d3) \<Rightarrow>
              \<lparr>v_errors = e1 @ e2 @ e3, normalized_payload = d1 @ d2 @ d3\<rparr>))"

definition validate_archive_payload :: "dict \<Rightarrow> ValidationResult" where
  "validate_archive_payload p =
     (let unknown = detect_unknown_fields p archive_allowed_fields
      in if unknown \<noteq> [] then \<lparr>v_errors = mark ''unknown_field'' unknown, normalized_payload = []\<rparr>
         else
           (let confirm = dict_get p ''confirm_last_workspace'' PNone;
                given = has_key p ''confirm_last_workspace''
            in case validate_status_reason (dict_get p ''status_reason'' PNone) of (e, reason) \<Rightarrow>
              \<lparr>v_errors = err_when (given \<and> \<not> is_bool confirm)
                  (''confirm_last_workspace'', ''invalid_field_type'') @ e,
               normalized_payload = put_some ''status_reason'' reason @
                 (if given \<and> is_bool confirm then [(''confirm_last_workspace'', confirm)] else [])\<rparr>))"

section \<open>What the field validators accept\<close>

definition name_ok :: "string \<Rightarrow> bool" where
  "name_ok s \<longleftrightarrow> strip s = s \<and> 2 \<le> length s \<and> length s \<le> 150 \<and>
     \<not> contains_forbidden_characters s \<and> \<not> contains_ascii_control_characters s"

definition slug_ok :: "string \<Rightarrow> bool" where
  "slug_ok s \<longleftrightarrow> lower s = s \<and> 3 \<le> length s \<and> length s \<le> 80 \<and> slug_pattern s \<and>
     \<not> starts_with ''-'' s \<and> \<not> ends_with ''-'' s \<and> \<not> contains ''--'' s"

definition description_ok :: "string \<Rightarrow> bool" where
  "description_ok s \<longleftrightarrow> s \<noteq> [] \<and> strip s = s \<and> length s \<le> 500 \<and> \<not> contains_ascii_control_characters s"

definition reason_ok :: "string \<Rightarrow> bool" where
  "reason_ok s \<longleftrightarrow> strip s = s \<and> 10 \<le> length s \<and> length s \<le> 500 \<and> \<not> contains_ascii_control_characters s"

lemmas field_defs = validate_workspace_name_def validate_workspace_slug_def validate_description_def
  validate_status_reason_def normalize_workspace_name_def normalize_workspace_slug_def
  normalize_status_reason_def

interpretation name: normalizer validate_workspace_name name_ok
  by unfold_locales
    (auto simp: validate_workspace_name_def normalize_workspace_name_def name_ok_def Let_def
      split: pyval.splits if_splits)

interpretation slug: normalizer validate_workspace_slug slug_ok
  by unfold_locales
    (auto simp: validate_workspace_slug_def normalize_workspace_slug_def slug_ok_def Let_def
      split: pyval.splits if_splits)

interpretation description: normalizer validate_description description_ok
  by unfold_locales
    (auto simp: validate_description_def description_ok_def Let_def split: pyval.splits if_splits)

interpretation reason: normalizer validate_status_reason reason_ok
  by unfold_locales
    (auto simp: validate_status_reason_def normalize_status_reason_def reason_ok_def Let_def
      split: pyval.splits if_splits)

section \<open>Slugs as words\<close>

fun split_dash :: "string \<Rightarrow> string list" where
  "split_dash [] = [[]]"
| "split_dash (c # s) =
     (if c = CHR ''-'' then [] # split_dash s
      else (c # hd (split_dash s)) # tl (split_dash s))"

definition slug_word :: "string \<Rightarrow> bool" where
  "slug_word w \<longleftrightarrow> w \<noteq> [] \<and> (\<forall>c \<in> set w. slug_char c \<and> c \<noteq> CHR ''-'')"

lemma split_dash_nonempty: "split_dash s \<noteq> []"
  by (induction s) auto

lemma join_split_dash: "join_with ''-'' (split_dash s) = s"
proof (induction s)
  case (Cons c s)
  then show ?case using split_dash_nonempty [of s]
    by (cases "split_dash s"; cases "tl (split_dash s)") auto
qed simp

lemma split_dash_chars: "w \<in> set (split_dash s) \<Longrightarrow> c \<in> set w \<Longrightarrow> c \<in> set s \<and> c \<noteq> CHR ''-''"
proof (induction s arbitrary: w)
  case (Cons d s)
  obtain v vs where s: "split_dash s = v # vs" using split_dash_nonempty [of s] by (cases "split_dash s") auto
  from Cons.IH [of v] Cons.IH [of w] Cons.prems show ?case by (auto simp: s split: if_splits)
qed simp

lemma ends_with_single: "ends_with [c] s \<longleftrightarrow> s \<noteq> [] \<and> last s = c"
  by (cases s rule: rev_cases) (auto simp: ends_with_def)

lemma starts_with_single: "starts_with [c] s \<longleftrightarrow> s \<noteq> [] \<and> hd s = c"
  by (cases s) auto

lemma split_dash_words:
  "\<not> ends_with ''-'' s \<Longrightarrow> \<not> contains ''--'' s \<Longrightarrow>
   [] \<notin> set (tl (split_dash s)) \<and> (hd (split_dash s) = [] \<longleftrightarrow> s = [] \<or> starts_with ''-'' s)"
proof (induction s)
  case (Cons c s)
  show ?case
  proof (cases "c = CHR ''-''")
    case True
    with Cons.prems have "s \<noteq> []" "\<not> starts_with ''-'' s" "\<not> ends_with ''-'' s" "\<not> contains ''--'' s"
      by (auto simp: ends_with_single starts_with_single split: if_splits)
    with Cons.IH have "[] \<notin> set (split_dash s)"
      using split_dash_nonempty [of s] by (cases "split_dash s") auto
    with True show ?thesis by simp
  next
    case False
    then have "\<not> ends_with ''-'' s" "\<not> contains ''--'' s"
      using Cons.prems by (auto simp: ends_with_single split: if_splits)
    with Cons.IH False show ?thesis by simp
  qed
qed simp

lemma contains_dashes_word: "CHR ''-'' \<notin> set w \<Longrightarrow> contains ''--'' (w @ t) = contains ''--'' t"
  by (induction w) auto

lemma join_words:
  assumes "ws \<noteq> []" and "\<forall>w \<in> set ws. slug_word w"
  shows "join_with ''-'' ws \<noteq> [] \<and> hd (join_with ''-'' ws) \<noteq> CHR ''-'' \<and>
    last (join_with ''-'' ws) \<noteq> CHR ''-'' \<and> \<not> contains ''--'' (join_with ''-'' ws) \<and>
    (\<forall>c \<in> set (join_with ''-'' ws). slug_char c)"
  using assms
proof (induction ws rule: induct_list012)
  case (2 w)
  then have "CHR ''-'' \<notin> set w" by (auto simp: slug_word_def)
  with contains_dashes_word [of w "[]"] 2 show ?case by (cases w) (auto simp: slug_word_def)
next
  case (3 w v ws)
  let ?r = "join_with ''-'' (v # ws)"
  have IH: "?r \<noteq> []" "hd ?r \<noteq> CHR ''-''" "last ?r \<noteq> CHR ''-''" "\<not> contains ''--'' ?r" "\<forall>c \<in> set ?r. slug_char c"
    using "3.IH"(2) "3.prems"(2) by simp_all
  have w: "w \<noteq> []" "\<forall>c \<in> set w. slug_char c \<and> c \<noteq> CHR ''-''"
    using "3.prems"(2) by (auto simp: slug_word_def)
  then have "contains ''--'' (w @ ''-'' @ ?r) = contains ''--'' (''-'' @ ?r)"
    by (intro contains_dashes_word) auto
  also have "\<dots> \<longleftrightarrow> False" using IH by (cases ?r) auto
  finally have no: "\<not> contains ''--'' (w @ ''-'' @ ?r)" by simp
  have "slug_char (CHR ''-'')" by (simp add: slug_char_def)
  with IH w have "\<forall>c \<in> set (w @ ''-'' @ ?r). slug_char c" by auto
  moreover have "hd (w @ ''-'' @ ?r) \<noteq> CHR ''-''" using w by (cases w) auto
  moreover have "last (w @ ''-'' @ ?r) \<noteq> CHR ''-''" using IH by simp
  ultimately show ?case using no by simp
qed simp

lemma lower_slug_char: "slug_char c \<Longrightarrow> lower_char c = c"
proof -
  assume s: "slug_char c"
  have "code_of (CHR ''-'') = 45" by (simp add: code_of_def)
  with s show ?thesis by (auto simp: slug_char_def lower_char_def Let_def is_digit_def)
qed

lemma lower_slug: "\<forall>c \<in> set s. slug_char c \<Longrightarrow> lower s = s"
  by (induction s) (auto simp: lower_def lower_slug_char)

lemma slug_ok_no_lf:
  assumes "CHR 0x0A \<notin> set s"
  shows "slug_ok s \<longleftrightarrow> 3 \<le> length s \<and> length s \<le> 80 \<and>
    (\<exists>ws. ws \<noteq> [] \<and> (\<forall>w \<in> set ws. slug_word w) \<and> s = join_with ''-'' ws)"
proof -
  have p: "slug_pattern s \<longleftrightarrow> s \<noteq> [] \<and> (\<forall>c \<in> set s. slug_char c)"
  proof -
    have "\<not> (s \<noteq> [] \<and> last s = CHR 0x0A)" using assms last_in_set [of s] by metis
    then have "(if s \<noteq> [] \<and> last s = CHR 0x0A then butlast s else s) = s" by metis
    then show ?thesis by (simp add: slug_pattern_def list_all_iff)
  qed
  show ?thesis
  proof
    assume o: "slug_ok s"
    then have w: "[] \<notin> set (split_dash s)"
      using split_dash_words [of s] split_dash_nonempty [of s] p
      by (cases "split_dash s") (auto simp: slug_ok_def)
    have "\<forall>w \<in> set (split_dash s). slug_word w"
      using w split_dash_chars [of _ s] o p by (auto simp: slug_word_def slug_ok_def)
    with o show "3 \<le> length s \<and> length s \<le> 80 \<and>
        (\<exists>ws. ws \<noteq> [] \<and> (\<forall>w \<in> set ws. slug_word w) \<and> s = join_with ''-'' ws)"
      using join_split_dash split_dash_nonempty by (metis slug_ok_def)
  next
    assume r: "3 \<le> length s \<and> length s \<le> 80 \<and>
        (\<exists>ws. ws \<noteq> [] \<and> (\<forall>w \<in> set ws. slug_word w) \<and> s = join_with ''-'' ws)"
    then obtain ws where "ws \<noteq> []" "\<forall>w \<in> set ws. slug_word w" "s = join_with ''-'' ws" by blast
    from join_words [OF this(1,2)] this(3) r p lower_slug [of s] show "slug_ok s"
      by (simp add: slug_ok_def starts_with_single ends_with_single)
  qed
qed

section \<open>Facts about the payload validators\<close>

lemma detect_unknown_Nil: "detect_unknown_fields p S = [] \<longleftrightarrow> set (map fst p) \<subseteq> set S"
  by (auto simp: detect_unknown_fields_def filter_empty_conv)

lemma mark_Nil [simp]: "mark r fs = [] \<longleftrightarrow> fs = []"
  by (simp add: mark_def)

text \<open>A payload is accepted when every field validator accepts its field.\<close>

lemma create_accepted:
  assumes "v_errors (validate_create_payload zone p) = []"
  obtains name slug desc tz where
    "validate_workspace_name (dict_get p ''workspace_name'' PNone) = ([], Some name)"
    "validate_workspace_slug (dict_get p ''workspace_slug'' PNone) = ([], Some slug)"
    "validate_description (dict_get p ''description'' PNone) = ([], desc)"
    "validate_default_timezone zone (dict_get p ''default_timezone'' PNone) = ([], tz)"
    "normalized_payload (validate_create_payload zone p) =
       [(''workspace_name'', PStr name), (''workspace_slug'', PStr slug)] @
       put_some ''description'' desc @ put_some ''default_timezone'' tz"
proof -
  obtain e1 n where 1: "validate_workspace_name (dict_get p ''workspace_name'' PNone) = (e1, n)" by fastforce
  obtain e2 s where 2: "validate_workspace_slug (dict_get p ''workspace_slug'' PNone) = (e2, s)" by fastforce
  obtain e3 d where 3: "validate_description (dict_get p ''description'' PNone) = (e3, d)" by fastforce
  obtain e4 t where 4: "validate_default_timezone zone (dict_get p ''default_timezone'' PNone) = (e4, t)" by fastforce
  from assms 1 2 3 4 have e: "e1 = []" "e2 = []" "e3 = []" "e4 = []"
    and np: "normalized_payload (validate_create_payload zone p) =
      put_some ''workspace_name'' n @ put_some ''workspace_slug'' s @ put_some ''description'' d @ put_some ''default_timezone'' t"
    by (auto simp: validate_create_payload_def Let_def split: if_splits)
  from 1 e(1) have "n \<noteq> None"
    by (auto simp: validate_workspace_name_def Let_def split: if_splits pyval.splits)
  moreover from 2 e(2) have "s \<noteq> None"
    by (auto simp: validate_workspace_slug_def Let_def split: if_splits pyval.splits)
  ultimately show ?thesis using that 1 2 3 4 e np by auto
qed

lemma description_again:
  assumes "validate_description v = ([], d)"
  shows "validate_description (case d of None \<Rightarrow> PNone | Some s \<Rightarrow> PStr s) = ([], d)"
proof (cases d)
  case None
  then show ?thesis by (simp add: validate_description_def)
next
  case (Some s)
  with assms description.accepted_again show ?thesis by simp
qed

section \<open>Properties\<close>

text \<open>
  Normalising twice changes nothing: when a create payload is accepted, its normalised form
  is accepted without errors and normalised to itself, for every time-zone database whose
  canonical identifiers are canonical; the normalised name and slug satisfy all the rules of
  their fields.
\<close>

theorem create_payload_normal_form:
  assumes "v_errors (validate_create_payload zone p) = []"
    and "\<And>s z. zone s = Some z \<Longrightarrow> z \<noteq> [] \<and> zone z = Some z"
  shows "validate_create_payload zone (normalized_payload (validate_create_payload zone p)) =
      validate_create_payload zone p \<and>
    (\<exists>n s d. normalized_payload (validate_create_payload zone p) =
      (''workspace_name'', PStr n) # (''workspace_slug'', PStr s) # d \<and> name_ok n \<and> slug_ok s)"
proof -
  obtain n s d t where v: "validate_workspace_name (dict_get p ''workspace_name'' PNone) = ([], Some n)"
    "validate_workspace_slug (dict_get p ''workspace_slug'' PNone) = ([], Some s)"
    and d: "validate_description (dict_get p ''description'' PNone) = ([], d)"
    and t: "validate_default_timezone zone (dict_get p ''default_timezone'' PNone) = ([], t)"
    and np: "normalized_payload (validate_create_payload zone p) =
       [(''workspace_name'', PStr n), (''workspace_slug'', PStr s)] @
       put_some ''description'' d @ put_some ''default_timezone'' t"
    using create_accepted [OF assms(1)] by metis
  let ?q = "normalized_payload (validate_create_payload zone p)"
  have q: "dict_get ?q ''workspace_name'' PNone = PStr n" "dict_get ?q ''workspace_slug'' PNone = PStr s"
    "dict_get ?q ''description'' PNone = (case d of None \<Rightarrow> PNone | Some x \<Rightarrow> PStr x)"
    "dict_get ?q ''default_timezone'' PNone = (case t of None \<Rightarrow> PNone | Some x \<Rightarrow> PStr x)"
    unfolding np by (cases d; cases t; simp)+
  have t': "validate_default_timezone zone (case t of None \<Rightarrow> PNone | Some x \<Rightarrow> PStr x) = ([], t)"
  proof (cases t)
    case (Some z)
    with t obtain y where "zone y = Some z"
      by (auto simp: validate_default_timezone_def resolve_iana_timezone_def Let_def
          split: pyval.splits if_splits option.splits)
    from assms(2) [OF this] Some show ?thesis
      by (simp add: validate_default_timezone_def resolve_iana_timezone_def)
  qed (simp add: validate_default_timezone_def)
  have "set (map fst ?q) \<subseteq> set create_allowed_fields"
    unfolding np by (cases d; cases t) (auto simp: create_allowed_fields_def)
  then have "detect_unknown_fields ?q create_allowed_fields = []" "detect_forbidden_fields ?q forbidden_fields = []"
    by (auto simp: detect_unknown_Nil detect_forbidden_fields_def filter_empty_conv
        create_allowed_fields_def forbidden_fields_def)
  then have "validate_create_payload zone ?q = \<lparr>v_errors = [], normalized_payload = ?q\<rparr>"
    unfolding validate_create_payload_def [of zone ?q] q
    using name.accepted_again [OF v(1)] slug.accepted_again [OF v(2)] description_again [OF d] t' np
    by simp
  also have "\<dots> = validate_create_payload zone p" using assms(1) by simp
  finally show ?thesis using np name.accepted_ok [OF v(1)] slug.accepted_ok [OF v(2)] by simp
qed

definition sample_zone :: "string \<Rightarrow> string option" where
  "sample_zone s = (if s \<in> {''US/Eastern'', ''America/New_York''} then Some ''America/New_York'' else None)"

definition sample_payload :: dict where
  "sample_payload = [(''workspace_name'', PStr '' Sales ''), (''workspace_slug'', PStr ''Sales-EU''),
     (''default_timezone'', PStr ''US/Eastern'')]"

theorem create_payload_normal_form_witness:
  "\<exists>n s d. normalized_payload (validate_create_payload sample_zone sample_payload) =
      (''workspace_name'', PStr n) # (''workspace_slug'', PStr s) # d \<and> name_ok n \<and> slug_ok s"
proof -
  have v: "v_errors (validate_create_payload sample_zone sample_payload) = []" by code_simp
  show ?thesis
    by (rule conjunct2 [OF create_payload_normal_form [OF v]]) (auto simp: sample_zone_def split: if_splits)
qed

text \<open>
  Apart from texts with a line feed, the accepted slugs are exactly the texts of 3 to 80
  characters that are non-empty words of lower-case letters and digits joined by single hyphens.
  A final line feed slips through the pattern and through the check for a trailing hyphen.
\<close>

theorem accepted_slugs:
  "(CHR 0x0A \<notin> set s \<longrightarrow>
     ((\<exists>v. validate_workspace_slug v = ([], Some s)) \<longleftrightarrow> 3 \<le> length s \<and> length s \<le> 80 \<and>
       (\<exists>ws. ws \<noteq> [] \<and> (\<forall>w \<in> set ws. slug_word w) \<and> s = join_with ''-'' ws))) \<and>
   validate_workspace_slug (PStr (''a-'' @ [CHR 0x0A])) = ([], Some (''a-'' @ [CHR 0x0A]))"
proof -
  have "validate_workspace_slug (PStr (''a-'' @ [CHR 0x0A])) = ([], Some (''a-'' @ [CHR 0x0A]))"
    by code_simp
  then show ?thesis unfolding slug.accepted_values using slug_ok_no_lf [of s] by blast
qed

theorem accepted_slugs_witness:
  "(\<exists>v. validate_workspace_slug v = ([], Some ''eu-1'')) \<longleftrightarrow> 3 \<le> length ''eu-1'' \<and> length ''eu-1'' \<le> 80 \<and>
     (\<exists>ws. ws \<noteq> [] \<and> (\<forall>w \<in> set ws. slug_word w) \<and> ''eu-1'' = join_with ''-'' ws)"
proof -
  have "CHR 0x0A \<notin> set ''eu-1''" by simp
  then show ?thesis using accepted_slugs [of "''eu-1''"] by blast
qed

text \<open>
  An update touches only what it names: the keys of the normalised payload are keys of the
  request, a payload with the slug or a system field is always rejected with nothing normalised,
  and an accepted update never changes the name to one that breaks the rules.
\<close>

theorem update_payload_is_partial:
  "set (map fst (normalized_payload (validate_update_payload zone p))) \<subseteq>
     set (map fst p) \<inter> set update_allowed_fields \<and>
   (set (map fst p) \<inter> set (immutable_fields @ forbidden_fields) \<noteq> {} \<longrightarrow>
     v_errors (validate_update_payload zone p) \<noteq> [] \<and> normalized_payload (validate_update_payload zone p) = []) \<and>
   (v_errors (validate_update_payload zone p) = [] \<longrightarrow> has_key p ''workspace_name'' \<longrightarrow>
     (\<exists>n. map_of (normalized_payload (validate_update_payload zone p)) ''workspace_name'' = Some (PStr n) \<and> name_ok n))"
proof -
  obtain e1 n where 1: "validate_workspace_name (dict_get p ''workspace_name'' PNone) = (e1, n)" by fastforce
  obtain e2 d where 2: "validate_description (dict_get p ''description'' PNone) = (e2, d)" by fastforce
  obtain e3 t where 3: "validate_default_timezone zone (dict_get p ''default_timezone'' PNone) = (e3, t)" by fastforce
  have keys: "set (map fst (normalized_payload (validate_update_payload zone p))) \<subseteq>
      set (map fst p) \<inter> set update_allowed_fields"
    by (cases n; cases t)
      (auto simp: validate_update_payload_def Let_def 1 2 3 has_key_def update_allowed_fields_def split: if_splits)
  have bad: "filter (\<lambda>k. k \<in> set immutable_fields) (map fst p) \<noteq> [] \<or> detect_forbidden_fields p forbidden_fields \<noteq> []"
    if "set (map fst p) \<inter> set (immutable_fields @ forbidden_fields) \<noteq> {}"
    using that by (auto simp: detect_forbidden_fields_def filter_empty_conv)
  have name: "\<exists>n. map_of (normalized_payload (validate_update_payload zone p)) ''workspace_name'' = Some (PStr n) \<and> name_ok n"
    if e: "v_errors (validate_update_payload zone p) = []" and k: "has_key p ''workspace_name''"
  proof -
    have "p \<noteq> []" using k by (auto simp: has_key_def)
    then have "e1 = []" and np: "\<exists>r. normalized_payload (validate_update_payload zone p) = put_some ''workspace_name'' n @ r"
      using e k by (auto simp: validate_update_payload_def Let_def 1 2 3 split: if_splits)
    with 1 obtain m where "n = Some m"
      by (auto simp: validate_workspace_name_def Let_def split: if_splits pyval.splits)
    with np 1 \<open>e1 = []\<close> name.accepted_ok [of _ m] show ?thesis by auto
  qed
  from bad have rej: "set (map fst p) \<inter> set (immutable_fields @ forbidden_fields) \<noteq> {} \<Longrightarrow>
      v_errors (validate_update_payload zone p) \<noteq> [] \<and> normalized_payload (validate_update_payload zone p) = []"
    by (auto simp: validate_update_payload_def Let_def)
  from keys name rej show ?thesis by blast
qed

theorem update_payload_is_partial_witness:
  "v_errors (validate_update_payload (\<lambda>_. None) [(''workspace_slug'', PStr ''new-slug'')]) \<noteq> []"
proof -
  have "set (map fst [(''workspace_slug'', PStr ''new-slug'')]) \<inter> set (immutable_fields @ forbidden_fields) \<noteq> {}"
    by (simp add: immutable_fields_def)
  then show ?thesis using update_payload_is_partial [of "\<lambda>_. None" "[(''workspace_slug'', PStr ''new-slug'')]"] by blast
qed

end
