(* ===== verification/SettingsValidation.thy ===== *)
theory SettingsValidation
  imports WorkspaceValidation
begin

text \<open>
  \<open>app/services/workspaces/settings_validation.py\<close>: the validators of the policies in a settings
  update.  An error is its field and its code; the message texts are left out.  The time-zone
  database and the regular-expression compiler are parameters.  \<open>validate_llm_config\<close> coerces two
  entries of the dict it is given, so it returns the dict as well; \<open>float\<close> of an integer too large
  for a float and \<open>int\<close> of a float that is not finite raise.
\<close>

section \<open>Body-level checks\<close>

definition recognised_policy_fields :: "string list" where
  "recognised_policy_fields = [''timezone_policy'', ''severity_policy'', ''sla_policy'',
     ''issue_grouping_policy'', ''naming_standards'', ''llm_config'', ''incident_policy'']"

definition settings_unknown_fields :: "dict \<Rightarrow> string list" where
  "settings_unknown_fields b = filter (\<lambda>k. k \<notin> set recognised_policy_fields) (map fst b)"

definition is_empty_request :: "dict \<Rightarrow> bool" where
  "is_empty_request b \<longleftrightarrow> \<not> list_ex (\<lambda>k. k \<in> set recognised_policy_fields) (map fst b)"

section \<open>Time zone, labels and hours\<close>

definition validate_timezone_policy :: "(string \<Rightarrow> string option) \<Rightarrow> pyval \<Rightarrow> field_error list" where
  "validate_timezone_policy zone v =
     (let f = ''timezone_policy.default_timezone'';
          raw = (case v of PDict d \<Rightarrow> dict_get d ''default_timezone'' PNone | _ \<Rightarrow> PNone)
      in case raw of
           PNone \<Rightarrow> [(f, ''required_field'')]
         | PStr s \<Rightarrow>
             if strip s = [] then [(f, ''required_field'')]
             else err_when (resolve_iana_timezone zone (Some s) = None) (f, ''invalid_timezone'')
         | _ \<Rightarrow> [(f, ''invalid_field_type'')])"

definition validate_label :: "pyval \<Rightarrow> string \<Rightarrow> field_error option" where
  "validate_label v f =
     (case v of
        PStr s \<Rightarrow>
          if length (strip s) = 0 then Some (f, ''invalid_label'')
          else if length (strip s) > 50 then Some (f, ''invalid_label'')
          else if CHR 0x0A \<in> set s \<or> CHR 0x0D \<in> set s \<or> CHR 0x09 \<in> set s
          then Some (f, ''invalid_label'')
          else None
      | _ \<Rightarrow> Some (f, ''invalid_field_type''))"

definition severity_keys :: "string list" where
  "severity_keys = [''critical_label'', ''major_label'', ''minor_label'', ''informational_label'']"

definition validate_severity_policy :: "pyval \<Rightarrow> field_error list" where
  "validate_severity_policy v =
     (case v of
        PDict d \<Rightarrow>
          if filter (\<lambda>k. \<not> has_key d k) severity_keys \<noteq> []
          then [(''severity_policy'', ''incomplete_severity_policy'')]
          else List.map_filter (\<lambda>k. validate_label (dict_get d k PNone) (''severity_policy.'' @ k)) severity_keys
      | _ \<Rightarrow> [(''severity_policy'', ''invalid_field_type'')])"

definition validate_hours :: "pyval \<Rightarrow> string \<Rightarrow> bool \<Rightarrow> field_error option" where
  "validate_hours v f required =
     (case v of
        PNone \<Rightarrow> if required then Some (f, ''required_field'') else None
      | PInt i \<Rightarrow> if i < 1 \<or> i > 8760 then Some (f, ''invalid_sla_hours'') else None
      | _ \<Rightarrow> Some (f, ''invalid_sla_hours''))"

definition sla_keys :: "string list" where
  "sla_keys = [''critical_hours'', ''major_hours'', ''minor_hours'']"

definition sla_ordering :: "pyval \<Rightarrow> pyval \<Rightarrow> pyval \<Rightarrow> field_error list" where
  "sla_ordering c m n =
     (case (as_int c, as_int m, as_int n) of
        (Some c', Some m', Some n') \<Rightarrow>
          if c' > m' then [(''sla_policy'', ''sla_ordering_violation'')]
          else if m' > n' then [(''sla_policy'', ''sla_ordering_violation'')]
          else []
      | _ \<Rightarrow> [])"

definition validate_sla_policy :: "pyval \<Rightarrow> field_error list" where
  "validate_sla_policy v =
     (case v of
        PDict d \<Rightarrow>
          if filter (\<lambda>k. \<not> has_key d k) sla_keys \<noteq> [] then [(''sla_policy'', ''incomplete_sla_policy'')]
          else
            (let es = List.map_filter (\<lambda>k. validate_hours (dict_get d k PNone) (''sla_policy.'' @ k) True) sla_keys @
                   (if has_key d ''informational_hours'' \<and> dict_get d ''informational_hours'' PNone \<noteq> PNone
                    then (case validate_hours (dict_get d ''informational_hours'' PNone)
                                 ''sla_policy.informational_hours'' False of
                            None \<Rightarrow> [] | Some e \<Rightarrow> [e])
                    else [])
             in if es = [] then sla_ordering (dict_get d ''critical_hours'' PNone)
                  (dict_get d ''major_hours'' PNone) (dict_get d ''minor_hours'' PNone)
                else es)
      | _ \<Rightarrow> [(''sla_policy'', ''invalid_field_type'')])"

definition grouping_modes :: "string list" where
  "grouping_modes = [''one_per_execution'', ''one_per_rule'', ''one_per_day'']"

definition validate_issue_grouping_policy :: "pyval \<Rightarrow> field_error list" where
  "validate_issue_grouping_policy v =
     (case v of
        PStr s \<Rightarrow> err_when (s \<notin> set grouping_modes) (''issue_grouping_policy'', ''invalid_grouping_mode'')
      | _ \<Rightarrow> [(''issue_grouping_policy'', ''invalid_field_type'')])"

section \<open>LLM configuration\<close>

definition llm_providers :: "string list" where
  "llm_providers = [''openai'', ''azure_openai'', ''anthropic'']"

text \<open>
  \<open>float(x)\<close> of an integer: exact below 2^53, which covers every temperature that is accepted;
  from 2^1024 - 2^970 on the conversion overflows.
\<close>

definition float_limit :: int where
  "float_limit = 2 ^ 1024 - 2 ^ 970"

definition py_float :: "pyval \<Rightarrow> py_error + pyfloat" where
  "py_float v =
     (case v of
        PFloat x \<Rightarrow> Inr x
      | PInt i \<Rightarrow> if \<bar>i\<bar> \<ge> float_limit then Inl (OverflowError ''int too large to convert to float'')
                  else Inr (FFin (of_int i))
      | _ \<Rightarrow> Inl (TypeError ''float() argument''))"

definition py_int :: "pyval \<Rightarrow> py_error + int" where
  "py_int v =
     (case v of
        PInt i \<Rightarrow> Inr i
      | PFloat (FFin x) \<Rightarrow> Inr (if x \<ge> 0 then \<lfloor>x\<rfloor> else \<lceil>x\<rceil>)
      | PFloat (FInf b) \<Rightarrow> Inl (OverflowError ''cannot convert float infinity to integer'')
      | PFloat FNan \<Rightarrow> Inl (ValueError ''cannot convert float NaN to integer'')
      | _ \<Rightarrow> Inl (TypeError ''int() argument''))"

text \<open>\<open>temp < 0.0 or temp > 2.0\<close>: every comparison with not-a-number is false.\<close>

fun outside_temperature :: "pyfloat \<Rightarrow> bool" where
  "outside_temperature (FFin x) = (x < 0 \<or> x > 2)"
| "outside_temperature (FInf b) = True"
| "outside_temperature FNan = False"

definition is_number :: "pyval \<Rightarrow> bool" where
  "is_number v = (case v of PInt _ \<Rightarrow> True | PFloat _ \<Rightarrow> True | _ \<Rightarrow> False)"

definition llm_text_errors :: "dict \<Rightarrow> field_error list" where
  "llm_text_errors d =
     (case dict_get d ''provider'' PNone of
        PStr s \<Rightarrow> err_when (s \<notin> set llm_providers) (''llm_config.provider'', ''invalid_llm_provider'')
      | _ \<Rightarrow> [(''llm_config.provider'', ''invalid_llm_provider'')]) @
     (case dict_get d ''api_key'' PNone of
        PStr s \<Rightarrow> err_when (strip s = []) (''llm_config.api_key'', ''invalid_api_key'')
      | _ \<Rightarrow> [(''llm_config.api_key'', ''invalid_api_key'')]) @
     (case dict_get d ''model'' PNone of
        PStr s \<Rightarrow> if strip s = [] then [(''llm_config.model'', ''invalid_model'')]
                  else err_when (length s > 100) (''llm_config.model'', ''invalid_model'')
      | _ \<Rightarrow> [(''llm_config.model'', ''invalid_model'')])"

text \<open>The two optional numbers: the errors and the dict with the coerced value.\<close>

definition llm_temperature :: "dict \<Rightarrow> py_error + field_error list \<times> dict" where
  "llm_temperature d =
     (let v = dict_get d ''temperature'' PNone; f = ''llm_config.temperature'' in
      if \<not> has_key d ''temperature'' \<or> v = PNone then Inr ([], d)
      else if \<not> is_number v then Inr ([(f, ''invalid_temperature'')], d)
      else (case py_float v of
              Inl e \<Rightarrow> Inl e
            | Inr t \<Rightarrow> Inr (err_when (outside_temperature t) (f, ''invalid_temperature''),
                           dict_set d ''temperature'' (PFloat t))))"

definition llm_max_tokens :: "dict \<Rightarrow> py_error + field_error list \<times> dict" where
  "llm_max_tokens d =
     (let v = dict_get d ''max_tokens'' PNone; f = ''llm_config.max_tokens'' in
      if \<not> has_key d ''max_tokens'' \<or> v = PNone then Inr ([], d)
      else if \<not> is_number v then Inr ([(f, ''invalid_max_tokens'')], d)
      else (case py_int v of
              Inl e \<Rightarrow> Inl e
            | Inr i \<Rightarrow> Inr (err_when (i < 1 \<or> i > 16000) (f, ''invalid_max_tokens''),
                           dict_set d ''max_tokens'' (PInt i))))"

definition validate_llm_config :: "pyval \<Rightarrow> py_error + field_error list \<times> pyval" where
  "validate_llm_config v =
     (case v of
        PDict d \<Rightarrow>
          (case llm_temperature d of
             Inl e \<Rightarrow> Inl e
           | Inr (e1, d1) \<Rightarrow>
               (case llm_max_tokens d1 of
                  Inl e \<Rightarrow> Inl e
                | Inr (e2, d2) \<Rightarrow> Inr (llm_text_errors d @ e1 @ e2, PDict d2)))
      | _ \<Rightarrow> Inr ([(''llm_config'', ''invalid_field_type'')], v))"

section \<open>Naming standards\<close>

definition affix_errors :: "dict \<Rightarrow> string \<Rightarrow> string \<Rightarrow> string \<Rightarrow> field_error list" where
  "affix_errors d p k code =
     (if \<not> has_key d k then []
      else case dict_get d k PNone of
             PStr s \<Rightarrow> err_when (strip s = [] \<or> length (strip s) > 50) (p @ ''.'' @ k, code)
           | _ \<Rightarrow> [(p @ ''.'' @ k, ''invalid_field_type'')])"

definition validate_naming_constraint ::
    "(string \<Rightarrow> bool) \<Rightarrow> pyval \<Rightarrow> string \<Rightarrow> field_error list" where
  "validate_naming_constraint compiles v domain =
     (let p = ''naming_standards.'' @ domain in
      case v of
        PDict d \<Rightarrow>
          affix_errors d p ''required_prefix'' ''invalid_prefix'' @
          affix_errors d p ''required_suffix'' ''invalid_suffix'' @
          (if \<not> has_key d ''pattern'' then []
           else case dict_get d ''pattern'' PNone of
                  PStr s \<Rightarrow> err_when (\<not> compiles s) (p @ ''.pattern'', ''invalid_pattern'')
                | _ \<Rightarrow> [(p @ ''.pattern'', ''invalid_field_type'')]) @
          (if \<not> has_key d ''max_length'' then []
           else case dict_get d ''max_length'' PNone of
                  PInt i \<Rightarrow> err_when (i < 1 \<or> i > 500) (p @ ''.max_length'', ''invalid_max_length'')
                | _ \<Rightarrow> [(p @ ''.max_length'', ''invalid_field_type'')]) @
          (if \<not> has_key d ''allow_special_characters'' then []
           else err_when (\<not> is_bool (dict_get d ''allow_special_characters'' PNone))
                  (p @ ''.allow_special_characters'', ''invalid_field_type''))
      | _ \<Rightarrow> [(p, ''invalid_field_type'')])"

definition validate_naming_standards :: "(string \<Rightarrow> bool) \<Rightarrow> pyval \<Rightarrow> field_error list" where
  "validate_naming_standards compiles v =
     (case v of
        PDict d \<Rightarrow>
          (if has_key d ''datasets''
           then validate_naming_constraint compiles (dict_get d ''datasets'' PNone) ''datasets'' else []) @
          (if has_key d ''rules''
           then validate_naming_constraint compiles (dict_get d ''rules'' PNone) ''rules'' else [])
      | _ \<Rightarrow> [(''naming_standards'', ''invalid_field_type'')])"

section \<open>The entry point\<close>

definition part_errors :: "dict \<Rightarrow> string \<Rightarrow> (pyval \<Rightarrow> field_error list) \<Rightarrow> field_error list" where
  "part_errors b k check = (if has_key b k then check (dict_get b k PNone) else [])"

text \<open>The errors with the body, whose \<open>llm_config\<close> has been coerced.\<close>

definition validate_settings_update_payload ::
    "(string \<Rightarrow> string option) \<Rightarrow> (string \<Rightarrow> bool) \<Rightarrow> dict \<Rightarrow> py_error + field_error list \<times> dict" where
  "validate_settings_update_payload zone compiles b =
     (let es = part_errors b ''timezone_policy'' (validate_timezone_policy zone) @
            part_errors b ''severity_policy'' validate_severity_policy @
            part_errors b ''sla_policy'' validate_sla_policy @
            part_errors b ''issue_grouping_policy'' validate_issue_grouping_policy @
            part_errors b ''naming_standards'' (validate_naming_standards compiles)
      in if has_key b ''llm_config''
         then (case validate_llm_config (dict_get b ''llm_config'' PNone) of
                 Inl e \<Rightarrow> Inl e
               | Inr (e, v) \<Rightarrow> Inr (es @ e, dict_set b ''llm_config'' v))
         else Inr (es, b))"

section \<open>What is accepted\<close>

definition hours_within :: "pyval \<Rightarrow> int \<Rightarrow> bool" where
  "hours_within v i \<longleftrightarrow> v = PInt i \<and> 1 \<le> i \<and> i \<le> 8760"

lemma validate_hours_None:
  "validate_hours v f True = None \<longleftrightarrow> (\<exists>i. hours_within v i)"
  "validate_hours v f False = None \<longleftrightarrow> v = PNone \<or> (\<exists>i. hours_within v i)"
  by (auto simp: validate_hours_def hours_within_def split: pyval.splits)

lemma has_key_dict_get: "has_key d k \<longleftrightarrow> (\<exists>v. map_of d k = Some v)"
  using map_of_eq_None_iff [of d k] by (cases "map_of d k") (auto simp: has_key_def)

lemma map_filter_Nil: "List.map_filter f xs = [] \<longleftrightarrow> (\<forall>x \<in> set xs. f x = None)"
  by (induction xs) (auto simp: List.map_filter_simps split: option.splits)

lemma sla_accepted:
  "validate_sla_policy (PDict d) = [] \<longleftrightarrow>
     (\<exists>c m n. hours_within (dict_get d ''critical_hours'' PNone) c \<and>
        hours_within (dict_get d ''major_hours'' PNone) m \<and>
        hours_within (dict_get d ''minor_hours'' PNone) n \<and> c \<le> m \<and> m \<le> n) \<and>
     (dict_get d ''informational_hours'' PNone = PNone \<or>
        (\<exists>i. hours_within (dict_get d ''informational_hours'' PNone) i))"
  (is "?L \<longleftrightarrow> ?R")
proof -
  have present: "has_key d k" if "hours_within (dict_get d k PNone) i" for k i
    using that by (auto simp: has_key_dict_get hours_within_def dict_get_def split: option.splits)
  have info: "\<not> has_key d ''informational_hours'' \<Longrightarrow> dict_get d ''informational_hours'' PNone = PNone"
    by (auto simp: has_key_dict_get dict_get_def split: option.splits)
  let ?c = "dict_get d ''critical_hours'' PNone" and ?m = "dict_get d ''major_hours'' PNone"
    and ?n = "dict_get d ''minor_hours'' PNone" and ?i = "dict_get d ''informational_hours'' PNone"
  show ?thesis
  proof (cases "\<exists>c m n. hours_within ?c c \<and> hours_within ?m m \<and> hours_within ?n n")
    case True
    then obtain c m n where h: "hours_within ?c c" "hours_within ?m m" "hours_within ?n n" by blast
    then have "filter (\<lambda>k. \<not> has_key d k) sla_keys = []"
      using present by (auto simp: sla_keys_def)
    moreover have "List.map_filter (\<lambda>k. validate_hours (dict_get d k PNone) (''sla_policy.'' @ k) True) sla_keys = []"
      using h unfolding map_filter_Nil by (auto simp: sla_keys_def validate_hours_None)
    moreover have "sla_ordering ?c ?m ?n = [] \<longleftrightarrow> c \<le> m \<and> m \<le> n"
      using h by (auto simp: sla_ordering_def hours_within_def)
    moreover have "(\<exists>c m n. hours_within ?c c \<and> hours_within ?m m \<and> hours_within ?n n \<and> c \<le> m \<and> m \<le> n)
        \<longleftrightarrow> c \<le> m \<and> m \<le> n"
      using h by (auto simp: hours_within_def)
    moreover have "validate_hours ?i ''sla_policy.informational_hours'' False = None \<longleftrightarrow>
        ?i = PNone \<or> (\<exists>i. hours_within ?i i)" by (rule validate_hours_None(2))
    ultimately show ?thesis using info
      by (cases "validate_hours ?i ''sla_policy.informational_hours'' False")
        (auto simp: validate_sla_policy_def Let_def)
  next
    case False
    then have "List.map_filter (\<lambda>k. validate_hours (dict_get d k PNone) (''sla_policy.'' @ k) True) sla_keys \<noteq> []"
      unfolding map_filter_Nil by (auto simp: sla_keys_def validate_hours_None)
    then have "\<not> ?L" by (simp add: validate_sla_policy_def Let_def)
    with False show ?thesis by blast
  qed
qed

lemma py_float_number: "is_number v \<Longrightarrow> py_float v = Inl e \<Longrightarrow> \<exists>i. v = PInt i \<and> \<bar>i\<bar> \<ge> float_limit"
  by (auto simp: is_number_def py_float_def split: pyval.splits if_splits)

lemma dict_get_dict_set: "dict_get (dict_set d k v) k' w = (if k' = k then v else dict_get d k' w)"
  by (simp add: dict_get_def)

lemma has_key_dict_set [simp]: "has_key (dict_set d k v) k' \<longleftrightarrow> k' = k \<or> has_key d k'"
  by (simp only: has_key_def keys_dict_set) simp

lemma llm_temperature_other:
  "llm_temperature d = Inr (es, d') \<Longrightarrow> k \<noteq> ''temperature'' \<Longrightarrow>
     dict_get d' k w = dict_get d k w \<and> has_key d' k = has_key d k"
  by (auto simp: llm_temperature_def Let_def dict_get_dict_set split: if_splits sum.splits)

lemma llm_max_tokens_other:
  "llm_max_tokens d = Inr (es, d') \<Longrightarrow> k \<noteq> ''max_tokens'' \<Longrightarrow>
     dict_get d' k w = dict_get d k w \<and> has_key d' k = has_key d k"
  by (auto simp: llm_max_tokens_def Let_def dict_get_dict_set split: if_splits sum.splits)

lemma llm_temperature_value:
  "llm_temperature d = Inr ([], d') \<Longrightarrow> dict_get d' ''temperature'' PNone \<noteq> PNone \<Longrightarrow>
     \<exists>t. dict_get d' ''temperature'' PNone = PFloat t \<and> \<not> outside_temperature t"
  by (auto simp: llm_temperature_def Let_def dict_get_dict_set has_key_dict_get dict_get_def
      split: if_splits sum.splits option.splits)

lemma llm_max_tokens_value:
  "llm_max_tokens d = Inr ([], d') \<Longrightarrow> dict_get d' ''max_tokens'' PNone \<noteq> PNone \<Longrightarrow>
     \<exists>i. dict_get d' ''max_tokens'' PNone = PInt i \<and> 1 \<le> i \<and> i \<le> 16000"
  by (auto simp: llm_max_tokens_def Let_def dict_get_dict_set has_key_dict_get dict_get_def
      split: if_splits sum.splits option.splits)

section \<open>Properties\<close>

text \<open>
  An SLA policy is accepted exactly when it is an object whose critical, major and minor
  hours are integers from 1 to 8760 in non-decreasing order, and whose informational hours are
  absent, null or such an integer.
\<close>

theorem sla_policy_exactly:
  "validate_sla_policy v = [] \<longleftrightarrow>
     (\<exists>d. v = PDict d \<and>
        (\<exists>c m n. hours_within (dict_get d ''critical_hours'' PNone) c \<and>
           hours_within (dict_get d ''major_hours'' PNone) m \<and>
           hours_within (dict_get d ''minor_hours'' PNone) n \<and> c \<le> m \<and> m \<le> n) \<and>
        (dict_get d ''informational_hours'' PNone = PNone \<or>
           (\<exists>i. hours_within (dict_get d ''informational_hours'' PNone) i)))"
  using sla_accepted by (cases v) (auto simp: validate_sla_policy_def)

text \<open>
  In an accepted LLM configuration the provider is known, the key is not blank, the model is
  not blank and has at most 100 characters, a token limit is an integer from 1 to 16000 whatever
  number was sent, and a temperature is a float that is from 0 to 2 or is not a number.
\<close>

theorem accepted_llm_config:
  assumes "validate_llm_config v = Inr ([], v')"
  shows "\<exists>d d'. v = PDict d \<and> v' = PDict d' \<and>
    (\<exists>s. dict_get d' ''provider'' PNone = PStr s \<and> s \<in> set llm_providers) \<and>
    (\<exists>s. dict_get d' ''api_key'' PNone = PStr s \<and> strip s \<noteq> []) \<and>
    (\<exists>s. dict_get d' ''model'' PNone = PStr s \<and> strip s \<noteq> [] \<and> length s \<le> 100) \<and>
    (dict_get d' ''max_tokens'' PNone = PNone \<or>
      (\<exists>i. dict_get d' ''max_tokens'' PNone = PInt i \<and> 1 \<le> i \<and> i \<le> 16000)) \<and>
    (dict_get d' ''temperature'' PNone = PNone \<or>
      (\<exists>t. dict_get d' ''temperature'' PNone = PFloat t \<and> (t = FNan \<or> (\<exists>x. t = FFin x \<and> 0 \<le> x \<and> x \<le> 2))))"
proof -
  obtain d d1 d2 where v: "v = PDict d" and 1: "llm_temperature d = Inr ([], d1)"
    and 2: "llm_max_tokens d1 = Inr ([], d2)" and v': "v' = PDict d2" and t: "llm_text_errors d = []"
    using assms by (auto simp: validate_llm_config_def split: pyval.splits sum.splits)
  have same: "dict_get d2 k PNone = dict_get d k PNone" if "k \<noteq> ''temperature''" "k \<noteq> ''max_tokens''" for k
    using llm_temperature_other [OF 1] llm_max_tokens_other [OF 2] that by simp
  have texts: "(\<exists>s. dict_get d ''provider'' PNone = PStr s \<and> s \<in> set llm_providers) \<and>
    (\<exists>s. dict_get d ''api_key'' PNone = PStr s \<and> strip s \<noteq> []) \<and>
    (\<exists>s. dict_get d ''model'' PNone = PStr s \<and> strip s \<noteq> [] \<and> length s \<le> 100)"
    using t by (auto simp: llm_text_errors_def split: pyval.splits if_splits)
  have out: "\<not> outside_temperature x \<longleftrightarrow> x = FNan \<or> (\<exists>y. x = FFin y \<and> 0 \<le> y \<and> y \<le> 2)" for x
    by (cases x) auto
  have "dict_get d2 ''temperature'' PNone = dict_get d1 ''temperature'' PNone"
    using llm_max_tokens_other [OF 2] by simp
  then have "dict_get d2 ''temperature'' PNone = PNone \<or>
      (\<exists>t. dict_get d2 ''temperature'' PNone = PFloat t \<and> (t = FNan \<or> (\<exists>x. t = FFin x \<and> 0 \<le> x \<and> x \<le> 2)))"
    using llm_temperature_value [OF 1] out by auto
  moreover have "dict_get d2 ''max_tokens'' PNone = PNone \<or>
      (\<exists>i. dict_get d2 ''max_tokens'' PNone = PInt i \<and> 1 \<le> i \<and> i \<le> 16000)"
    using llm_max_tokens_value [OF 2] by blast
  ultimately show ?thesis using texts v v' same by simp
qed

definition sample_llm :: "pyval \<Rightarrow> pyval \<Rightarrow> pyval" where
  "sample_llm t m = PDict [(''provider'', PStr ''openai''), (''api_key'', PStr ''sk-1''), (''model'', PStr ''gpt''),
     (''temperature'', t), (''max_tokens'', m)]"

theorem accepted_llm_config_witness:
  "\<exists>d'. validate_llm_config (sample_llm (PInt 1) (PFloat (FFin (31/2)))) = Inr ([], PDict d') \<and>
    dict_get d' ''max_tokens'' PNone = PInt 15"
proof -
  have "case validate_llm_config (sample_llm (PInt 1) (PFloat (FFin (31/2)))) of
      Inr (es, PDict d') \<Rightarrow> es = [] \<and> dict_get d' ''max_tokens'' PNone = PInt 15 | _ \<Rightarrow> False" by code_simp
  then have "\<exists>d'. validate_llm_config (sample_llm (PInt 1) (PFloat (FFin (31/2)))) = Inr ([], PDict d') \<and>
      dict_get d' ''max_tokens'' PNone = PInt 15"
    by (cases "validate_llm_config (sample_llm (PInt 1) (PFloat (FFin (31/2))))") (auto split: pyval.splits)
  then obtain d' where d': "validate_llm_config (sample_llm (PInt 1) (PFloat (FFin (31/2)))) = Inr ([], PDict d')"
      "dict_get d' ''max_tokens'' PNone = PInt 15"
    by blast
  from accepted_llm_config [OF d'(1)] d' show ?thesis by blast
qed

text \<open>
  The validation of a settings update raises instead of reporting an error exactly when the
  body has an \<open>llm_config\<close> object with an integer temperature too large for a float or a token
  limit that is an infinite float or not a number.
\<close>

theorem settings_validation_raises_exactly:
  "(\<exists>e. validate_settings_update_payload zone compiles b = Inl e) \<longleftrightarrow>
     (\<exists>d. has_key b ''llm_config'' \<and> dict_get b ''llm_config'' PNone = PDict d \<and>
        ((\<exists>i. dict_get d ''temperature'' PNone = PInt i \<and> \<bar>i\<bar> \<ge> float_limit) \<or>
         (\<exists>t. dict_get d ''max_tokens'' PNone = PFloat t \<and> (t = FNan \<or> (\<exists>s. t = FInf s)))))"
proof -
  have key: "dict_get d k PNone \<noteq> PNone \<Longrightarrow> has_key d k" for d k
    by (auto simp: has_key_dict_get dict_get_def split: option.splits)
  have t: "(\<exists>e. llm_temperature d = Inl e) \<longleftrightarrow>
      (\<exists>i. dict_get d ''temperature'' PNone = PInt i \<and> \<bar>i\<bar> \<ge> float_limit)" for d
  proof
    assume "\<exists>e. llm_temperature d = Inl e"
    then obtain e where "is_number (dict_get d ''temperature'' PNone)" "py_float (dict_get d ''temperature'' PNone) = Inl e"
      by (auto simp: llm_temperature_def Let_def split: if_splits sum.splits)
    then show "\<exists>i. dict_get d ''temperature'' PNone = PInt i \<and> \<bar>i\<bar> \<ge> float_limit"
      by (rule py_float_number)
  next
    assume "\<exists>i. dict_get d ''temperature'' PNone = PInt i \<and> \<bar>i\<bar> \<ge> float_limit"
    then show "\<exists>e. llm_temperature d = Inl e"
      using key [of d "''temperature''"] by (auto simp: llm_temperature_def Let_def is_number_def py_float_def)
  qed
  have m: "(\<exists>e. llm_max_tokens d = Inl e) \<longleftrightarrow>
      (\<exists>t. dict_get d ''max_tokens'' PNone = PFloat t \<and> (t = FNan \<or> (\<exists>s. t = FInf s)))" for d
    using key [of d "''max_tokens''"]
    by (auto simp: llm_max_tokens_def Let_def is_number_def py_int_def
        split: pyval.splits pyfloat.splits if_splits sum.splits)
  have "(\<exists>e. validate_llm_config v = Inl e) \<longleftrightarrow> (\<exists>d. v = PDict d \<and>
      ((\<exists>e. llm_temperature d = Inl e) \<or> (\<exists>t. dict_get d ''max_tokens'' PNone = PFloat t \<and> (t = FNan \<or> (\<exists>s. t = FInf s)))))" for v
  proof (cases v)
    case (PDict d)
    show ?thesis
    proof (cases "llm_temperature d")
      case (Inl e)
      with PDict show ?thesis by (simp add: validate_llm_config_def)
    next
      case (Inr r)
      obtain es d1 where r: "r = (es, d1)" by fastforce
      have "dict_get d1 ''max_tokens'' PNone = dict_get d ''max_tokens'' PNone"
        using llm_temperature_other [of d es d1] Inr r by simp
      with Inr r PDict m [of d1] show ?thesis
        by (cases "llm_max_tokens d1") (auto simp: validate_llm_config_def)
    qed
  qed (simp_all add: validate_llm_config_def)
  note llm = this
  have "(\<exists>e. validate_settings_update_payload zone compiles b = Inl e) \<longleftrightarrow>
      has_key b ''llm_config'' \<and> (\<exists>e. validate_llm_config (dict_get b ''llm_config'' PNone) = Inl e)"
    by (cases "validate_llm_config (dict_get b ''llm_config'' PNone)")
      (auto simp: validate_settings_update_payload_def Let_def split: prod.splits)
  then show ?thesis unfolding llm t by blast
qed

text \<open>
  A temperature that is not a number is accepted, and a label may contain control characters
  other than line feed, carriage return and tab.
\<close>

theorem lenient_corners_of_settings:
  "(\<exists>v. validate_llm_config (sample_llm (PFloat FNan) PNone) = Inr ([], v)) \<and>
   validate_label (PStr [CHR ''a'', CHR 0x00, CHR ''b'']) f = None"
proof -
  have "case validate_llm_config (sample_llm (PFloat FNan) PNone) of Inr (es, v) \<Rightarrow> es = [] | _ \<Rightarrow> False"
    by code_simp
  moreover have "validate_label (PStr [CHR ''a'', CHR 0x00, CHR ''b'']) f = None"
    by code_simp
  ultimately show ?thesis by (auto split: sum.splits)
qed

end
