(* ===== verification/DatasetValidation.thy ===== *)
theory DatasetValidation
  imports FieldValidation
begin

text \<open>
  \<open>app/services/datasets/validation.py\<close>: the field and payload validators of datasets and their
  fields, and the validation of a bulk import.  \<open>value in frozenset\<close> raises \<open>TypeError\<close> on a list
  or a dict, so the validators that test membership can raise, and with them the payload
  validators.
\<close>

section \<open>Field validators\<close>

definition must_be :: "string \<Rightarrow> string \<Rightarrow> field_error" where
  "must_be f m = (f, m)"

text \<open>Required text: a string that is neither blank nor, stripped, too long.\<close>

definition required_text :: "string \<Rightarrow> nat \<Rightarrow> pyval \<Rightarrow> field_error list" where
  "required_text f n v =
     (case v of
        PStr s \<Rightarrow>
          if strip s = [] then [(f, ''Cannot be empty.'')]
          else err_when (length (strip s) > n)
                 (f, ''Exceeds maximum length of '' @ nat_digits n @ '' characters.'')
      | _ \<Rightarrow> [(f, ''Must be a string.'')])"

text \<open>Optional text: \<open>None\<close>, or a string that is not too long as it stands.\<close>

definition optional_text :: "string \<Rightarrow> nat \<Rightarrow> pyval \<Rightarrow> field_error list" where
  "optional_text f n v =
     (case v of
        PNone \<Rightarrow> []
      | PStr s \<Rightarrow> err_when (length s > n) (f, ''Exceeds maximum length of '' @ nat_digits n @ '' characters.'')
      | _ \<Rightarrow> [(f, ''Must be a string.'')])"

definition validate_dataset_name :: "pyval \<Rightarrow> field_error list" where
  "validate_dataset_name v = required_text ''dataset_name'' 200 v"

definition validate_physical_identifier :: "pyval \<Rightarrow> field_error list" where
  "validate_physical_identifier v = required_text ''physical_identifier'' 500 v"

definition validate_dataset_description :: "pyval \<Rightarrow> field_error list" where
  "validate_dataset_description v = optional_text ''description'' 1000 v"

definition validate_business_domain :: "pyval \<Rightarrow> field_error list" where
  "validate_business_domain v = optional_text ''business_domain'' 100 v"

definition validate_freshness_expectation :: "pyval \<Rightarrow> field_error list" where
  "validate_freshness_expectation v = optional_text ''freshness_expectation'' 200 v"

definition validate_schema_name :: "pyval \<Rightarrow> field_error list" where
  "validate_schema_name v = optional_text ''schema_name'' 200 v"

definition validate_field_name :: "pyval \<Rightarrow> field_error list" where
  "validate_field_name v = required_text ''field_name'' 200 v"

definition validate_data_type :: "pyval \<Rightarrow> field_error list" where
  "validate_data_type v = required_text ''data_type'' 100 v"

definition validate_business_definition :: "pyval \<Rightarrow> field_error list" where
  "validate_business_definition v = optional_text ''business_definition'' 1000 v"

text \<open>Membership in an enumeration; the message lists the sorted members.\<close>

definition dataset_types :: "string list" where
  "dataset_types = [''file'', ''logical'', ''table'', ''view'']"

definition criticalities :: "string list" where
  "criticalities = [''critical'', ''high'', ''low'', ''medium'']"

definition sensitivities :: "string list" where
  "sensitivities = [''confidential'', ''internal'', ''public'', ''restricted'']"

definition one_of_message :: "string list \<Rightarrow> string" where
  "one_of_message S = ''Must be one of: ['' @
     join_with '', '' (map (\<lambda>s. [CHR 0x27] @ s @ [CHR 0x27]) S) @ ''].''"

definition member_of :: "string \<Rightarrow> string list \<Rightarrow> pyval \<Rightarrow> py_error + field_error list" where
  "member_of f S v =
     (case in_str_set v S of
        Inl e \<Rightarrow> Inl e
      | Inr b \<Rightarrow> Inr (err_when (\<not> b) (f, one_of_message S)))"

definition validate_dataset_type :: "pyval \<Rightarrow> py_error + field_error list" where
  "validate_dataset_type v = member_of ''dataset_type'' dataset_types v"

definition validate_criticality :: "pyval \<Rightarrow> py_error + field_error list" where
  "validate_criticality v = (if v = PNone then Inr [] else member_of ''criticality'' criticalities v)"

definition validate_sensitivity :: "pyval \<Rightarrow> py_error + field_error list" where
  "validate_sensitivity v = member_of ''sensitivity_classification'' sensitivities v"

section \<open>Payload validators\<close>

text \<open>\<open>errors.extend(...)\<close> in sequence; the first exception leaves the function.\<close>

fun extend_all :: "(py_error + 'e list) list \<Rightarrow> py_error + 'e list" where
  "extend_all [] = Inr []"
| "extend_all (x # xs) =
     (case x of
        Inl e \<Rightarrow> Inl e
      | Inr es \<Rightarrow> (case extend_all xs of Inl e \<Rightarrow> Inl e | Inr es' \<Rightarrow> Inr (es @ es')))"

text \<open>\<open>if k in payload: errors.extend(check(payload[k]))\<close>.\<close>

definition when_given ::
    "dict \<Rightarrow> string \<Rightarrow> (pyval \<Rightarrow> py_error + field_error list) \<Rightarrow> py_error + field_error list" where
  "when_given p k check = (if has_key p k then check (dict_get p k PNone) else Inr [])"

definition validate_create_dataset_payload :: "dict \<Rightarrow> py_error + field_error list" where
  "validate_create_dataset_payload p = extend_all
     [Inr (validate_dataset_name (dict_get p ''dataset_name'' (PStr []))),
      validate_dataset_type (dict_get p ''dataset_type'' (PStr [])),
      Inr (validate_physical_identifier (dict_get p ''physical_identifier'' (PStr []))),
      Inr (validate_schema_name (dict_get p ''schema_name'' PNone)),
      Inr (validate_dataset_description (dict_get p ''description'' PNone)),
      Inr (validate_business_domain (dict_get p ''business_domain'' PNone)),
      validate_criticality (dict_get p ''criticality'' (PStr ''low'')),
      Inr (validate_freshness_expectation (dict_get p ''freshness_expectation'' PNone))]"

definition immutable_dataset_fields :: "string list" where
  "immutable_dataset_fields = [''dataset_type'', ''data_source_id'', ''physical_identifier'']"

definition cannot_be_changed :: "string \<Rightarrow> field_error" where
  "cannot_be_changed f = (f, [CHR 0x27] @ f @ [CHR 0x27] @ '' cannot be changed after creation.'')"

text \<open>The loop over the frozen set visits its members in the order of rank \<open>h\<close>.\<close>

definition validate_update_dataset_payload ::
    "(string \<Rightarrow> nat) \<Rightarrow> dict \<Rightarrow> py_error + field_error list" where
  "validate_update_dataset_payload h p = extend_all
     [Inr (map cannot_be_changed (filter (has_key p) (set_list h immutable_dataset_fields))),
      when_given p ''dataset_name'' (\<lambda>v. Inr (validate_dataset_name v)),
      when_given p ''description'' (\<lambda>v. Inr (validate_dataset_description v)),
      when_given p ''business_domain'' (\<lambda>v. Inr (validate_business_domain v)),
      when_given p ''criticality'' validate_criticality,
      when_given p ''freshness_expectation'' (\<lambda>v. Inr (validate_freshness_expectation v)),
      when_given p ''schema_name'' (\<lambda>v. Inr (validate_schema_name v))]"

definition validate_create_field_payload :: "dict \<Rightarrow> py_error + field_error list" where
  "validate_create_field_payload p = extend_all
     [Inr (validate_field_name (dict_get p ''field_name'' (PStr []))),
      Inr (validate_data_type (dict_get p ''data_type'' (PStr []))),
      Inr (validate_business_definition (dict_get p ''business_definition'' PNone)),
      validate_sensitivity (dict_get p ''sensitivity_classification'' (PStr ''internal''))]"

definition validate_update_field_payload :: "dict \<Rightarrow> py_error + field_error list" where
  "validate_update_field_payload p = extend_all
     [Inr (err_when (has_key p ''field_name'') (cannot_be_changed ''field_name'')),
      when_given p ''data_type'' (\<lambda>v. Inr (if v = PNone then [] else validate_data_type v)),
      when_given p ''business_definition'' (\<lambda>v. Inr (validate_business_definition v)),
      when_given p ''sensitivity_classification'' (\<lambda>v. if v = PNone then Inr [] else validate_sensitivity v)]"

section \<open>Bulk import\<close>

definition field_path :: "nat \<Rightarrow> string \<Rightarrow> string" where
  "field_path i f = ''fields['' @ nat_digits i @ ''].'' @ f"

text \<open>\<open>name.strip().lower()\<close> of the field name, when it is a string.\<close>

definition batch_name :: "dict \<Rightarrow> string option" where
  "batch_name f = (case dict_get f ''field_name'' (PStr []) of PStr s \<Rightarrow> Some (lower (strip s)) | _ \<Rightarrow> None)"

definition shown_name :: "dict \<Rightarrow> string" where
  "shown_name f = (case dict_get f ''field_name'' (PStr []) of PStr s \<Rightarrow> s | _ \<Rightarrow> [])"

fun bulk_loop :: "nat \<Rightarrow> string set \<Rightarrow> dict list \<Rightarrow> py_error + field_error list" where
  "bulk_loop i seen [] = Inr []"
| "bulk_loop i seen (f # fs) =
     (let dup = (case batch_name f of None \<Rightarrow> False | Some n \<Rightarrow> n \<in> seen);
          seen' = (case batch_name f of None \<Rightarrow> seen | Some n \<Rightarrow> insert n seen);
          dup_error = (field_path i ''field_name'',
            ''Duplicate field name '' @ [CHR 0x27] @ shown_name f @ [CHR 0x27] @ '' in batch.'')
      in case validate_create_field_payload f of
           Inl e \<Rightarrow> Inl e
         | Inr es \<Rightarrow>
             (case bulk_loop (Suc i) seen' fs of
                Inl e \<Rightarrow> Inl e
              | Inr rest \<Rightarrow> Inr (err_when dup dup_error @ map (\<lambda>(g, m). (field_path i g, m)) es @ rest)))"

definition validate_bulk_import_fields :: "dict list \<Rightarrow> string \<Rightarrow> py_error + field_error list" where
  "validate_bulk_import_fields fs mode =
     (let e = err_when (mode \<noteq> ''append'' \<and> mode \<noteq> ''replace'')
                (''mode'', ''Must be '' @ [CHR 0x27] @ ''append'' @ [CHR 0x27] @ '' or '' @
                           [CHR 0x27] @ ''replace'' @ [CHR 0x27] @ ''.'')
      in if fs = [] then Inr (e @ [(''fields'', ''Field list cannot be empty.'')])
         else if length fs > 500
         then Inr (e @ [(''fields'', ''Cannot import more than 500 fields at once.'')])
         else (case bulk_loop 0 {} fs of Inl x \<Rightarrow> Inl x | Inr es \<Rightarrow> Inr (e @ es)))"

section \<open>What the validators accept\<close>

definition text_within :: "nat \<Rightarrow> pyval \<Rightarrow> bool" where
  "text_within n v \<longleftrightarrow> (\<exists>s. v = PStr s \<and> strip s \<noteq> [] \<and> length (strip s) \<le> n)"

definition none_or_within :: "nat \<Rightarrow> pyval \<Rightarrow> bool" where
  "none_or_within n v \<longleftrightarrow> v = PNone \<or> (\<exists>s. v = PStr s \<and> length s \<le> n)"

lemma required_text_Nil [simp]: "required_text f n v = [] \<longleftrightarrow> text_within n v"
  by (auto simp: required_text_def text_within_def not_less split: pyval.splits)

lemma optional_text_Nil [simp]: "optional_text f n v = [] \<longleftrightarrow> none_or_within n v"
  by (auto simp: optional_text_def none_or_within_def not_less split: pyval.splits)

lemma member_of_Nil [simp]: "member_of f S v = Inr [] \<longleftrightarrow> (\<exists>s. v = PStr s \<and> s \<in> set S)"
  by (auto simp: member_of_def in_str_set_def split: sum.splits pyval.splits)

lemma member_of_Inl [simp]: "(\<exists>e. member_of f S v = Inl e) \<longleftrightarrow> \<not> hashable v"
  by (auto simp: member_of_def in_str_set_def split: sum.splits)

lemma extend_all_Nil: "extend_all xs = Inr [] \<longleftrightarrow> (\<forall>x \<in> set xs. x = Inr [])"
  by (induction xs) (auto split: sum.splits)

lemma extend_all_Inl: "(\<exists>e. extend_all xs = Inl e) \<longleftrightarrow> (\<exists>x \<in> set xs. \<exists>e. x = Inl e)"
  by (induction xs) (auto split: sum.splits)

declare extend_all.simps(2) [simp del]

definition field_ok :: "dict \<Rightarrow> bool" where
  "field_ok p \<longleftrightarrow> text_within 200 (dict_get p ''field_name'' (PStr [])) \<and>
     text_within 100 (dict_get p ''data_type'' (PStr [])) \<and>
     none_or_within 1000 (dict_get p ''business_definition'' PNone) \<and>
     (\<exists>s. dict_get p ''sensitivity_classification'' (PStr ''internal'') = PStr s \<and> s \<in> set sensitivities)"

lemma create_field_Nil: "validate_create_field_payload p = Inr [] \<longleftrightarrow> field_ok p"
  by (auto simp: validate_create_field_payload_def extend_all_Nil field_ok_def validate_field_name_def
      validate_data_type_def validate_business_definition_def validate_sensitivity_def)

text \<open>The loop accepts fields that are each valid and whose names are new.\<close>

lemma bulk_loop_Nil:
  "bulk_loop i seen fs = Inr [] \<longleftrightarrow>
     (\<forall>f \<in> set fs. field_ok f) \<and> distinct (map (\<lambda>f. lower (strip (shown_name f))) fs) \<and>
     (\<forall>f \<in> set fs. lower (strip (shown_name f)) \<notin> seen)"
proof (induction i seen fs rule: bulk_loop.induct)
  case (2 i seen f fs)
  show ?case
  proof (cases "field_ok f")
    case True
    then have v: "validate_create_field_payload f = Inr []" by (simp add: create_field_Nil)
    from True obtain s where "dict_get f ''field_name'' (PStr []) = PStr s"
      by (auto simp: field_ok_def text_within_def)
    then have n: "batch_name f = Some (lower (strip (shown_name f)))"
      by (simp add: batch_name_def shown_name_def)
    have IH: "bulk_loop (Suc i) (insert (lower (strip (shown_name f))) seen) fs = Inr [] \<longleftrightarrow>
        (\<forall>f \<in> set fs. field_ok f) \<and> distinct (map (\<lambda>f. lower (strip (shown_name f))) fs) \<and>
        (\<forall>g \<in> set fs. lower (strip (shown_name g)) \<notin> insert (lower (strip (shown_name f))) seen)"
      using 2 [OF refl refl refl v] n by simp
    have step: "bulk_loop i seen (f # fs) = Inr [] \<longleftrightarrow> lower (strip (shown_name f)) \<notin> seen \<and>
        bulk_loop (Suc i) (insert (lower (strip (shown_name f))) seen) fs = Inr []"
      by (cases "bulk_loop (Suc i) (insert (lower (strip (shown_name f))) seen) fs") (simp_all add: v n Let_def)
    show ?thesis unfolding step IH using True by (force simp: image_iff)
  next
    case False
    then have "validate_create_field_payload f \<noteq> Inr []" by (simp add: create_field_Nil)
    then have "bulk_loop i seen (f # fs) \<noteq> Inr []"
      by (cases "validate_create_field_payload f") (auto simp: Let_def split: sum.splits)
    with False show ?thesis by auto
  qed
qed simp

section \<open>Properties\<close>

text \<open>
  A create payload is accepted exactly when the name and the physical identifier are
  non-blank texts within their bounds, the optional texts are absent or within theirs, and the
  type and the criticality are known; the validation raises exactly when the type or the
  criticality is a list or an object.
\<close>

theorem create_dataset_exactly:
  "(validate_create_dataset_payload p = Inr [] \<longleftrightarrow>
     text_within 200 (dict_get p ''dataset_name'' (PStr [])) \<and>
     (\<exists>s. dict_get p ''dataset_type'' (PStr []) = PStr s \<and> s \<in> set dataset_types) \<and>
     text_within 500 (dict_get p ''physical_identifier'' (PStr [])) \<and>
     none_or_within 200 (dict_get p ''schema_name'' PNone) \<and>
     none_or_within 1000 (dict_get p ''description'' PNone) \<and>
     none_or_within 100 (dict_get p ''business_domain'' PNone) \<and>
     (dict_get p ''criticality'' (PStr ''low'') = PNone \<or>
       (\<exists>s. dict_get p ''criticality'' (PStr ''low'') = PStr s \<and> s \<in> set criticalities)) \<and>
     none_or_within 200 (dict_get p ''freshness_expectation'' PNone)) \<and>
   ((\<exists>e. validate_create_dataset_payload p = Inl e) \<longleftrightarrow>
     \<not> hashable (dict_get p ''dataset_type'' (PStr [])) \<or>
     \<not> hashable (dict_get p ''criticality'' (PStr ''low'')))"
proof -
  have c: "validate_criticality v = Inr [] \<longleftrightarrow> v = PNone \<or> (\<exists>s. v = PStr s \<and> s \<in> set criticalities)"
    "(\<exists>e. validate_criticality v = Inl e) \<longleftrightarrow> \<not> hashable v" for v
    by (auto simp: validate_criticality_def)
  have t: "validate_dataset_type v = Inr [] \<longleftrightarrow> (\<exists>s. v = PStr s \<and> s \<in> set dataset_types)"
    "(\<exists>e. validate_dataset_type v = Inl e) \<longleftrightarrow> \<not> hashable v" for v
    by (simp_all add: validate_dataset_type_def)
  show ?thesis
    unfolding validate_create_dataset_payload_def extend_all_Nil extend_all_Inl
    by (simp add: c t validate_dataset_name_def validate_physical_identifier_def validate_schema_name_def
        validate_dataset_description_def validate_business_domain_def validate_freshness_expectation_def)
qed

theorem create_dataset_exactly_witness:
  "validate_create_dataset_payload [(''dataset_name'', PStr ''orders''), (''dataset_type'', PStr ''table''),
     (''physical_identifier'', PStr ''public.orders'')] = Inr []"
  unfolding conjunct1 [OF create_dataset_exactly]
  by (simp add: text_within_def none_or_within_def dataset_types_def criticalities_def strip_def is_space_def code_of_def)

text \<open>
  A bulk import is accepted exactly when the mode is known, it has 1 to 500 fields, every
  field is valid on its own, and no two fields have the same name up to case and surrounding
  white space.
\<close>

theorem bulk_import_exactly:
  "validate_bulk_import_fields fs mode = Inr [] \<longleftrightarrow>
     mode \<in> {''append'', ''replace''} \<and> 1 \<le> length fs \<and> length fs \<le> 500 \<and>
     (\<forall>f \<in> set fs. field_ok f) \<and> distinct (map (\<lambda>f. lower (strip (shown_name f))) fs)"
proof (cases "fs = [] \<or> length fs > 500")
  case True
  then show ?thesis by (auto simp: validate_bulk_import_fields_def Let_def)
next
  case False
  then have "validate_bulk_import_fields fs mode = Inr [] \<longleftrightarrow>
      mode \<in> {''append'', ''replace''} \<and> bulk_loop 0 {} fs = Inr []"
    by (auto simp: validate_bulk_import_fields_def Let_def split: sum.splits)
  moreover have "1 \<le> length fs \<longleftrightarrow> fs \<noteq> []" by (cases fs) simp_all
  ultimately show ?thesis using False by (simp add: bulk_loop_Nil)
qed

theorem bulk_import_exactly_witness:
  "validate_bulk_import_fields [[(''field_name'', PStr ''id''), (''data_type'', PStr ''int'')]] ''append'' = Inr []"
  unfolding bulk_import_exactly
  by (simp add: field_ok_def text_within_def none_or_within_def sensitivities_def strip_def is_space_def code_of_def)

text \<open>
  The order in which the interpreter visits the immutable fields only permutes the errors of
  an update: acceptance and the set of errors do not depend on it, and a payload that names an
  immutable field is never accepted.
\<close>

theorem update_dataset_order_irrelevant:
  "(case (validate_update_dataset_payload h p, validate_update_dataset_payload h' p) of
      (Inr es, Inr es') \<Rightarrow> set es = set es' \<and> length es = length es'
    | (Inl e, Inl e') \<Rightarrow> e = e' | _ \<Rightarrow> False) \<and>
   (set (map fst p) \<inter> set immutable_dataset_fields \<noteq> {} \<longrightarrow> validate_update_dataset_payload h p \<noteq> Inr [])"
proof -
  define rest where "rest = extend_all
     [when_given p ''dataset_name'' (\<lambda>v. Inr (validate_dataset_name v)),
      when_given p ''description'' (\<lambda>v. Inr (validate_dataset_description v)),
      when_given p ''business_domain'' (\<lambda>v. Inr (validate_business_domain v)),
      when_given p ''criticality'' validate_criticality,
      when_given p ''freshness_expectation'' (\<lambda>v. Inr (validate_freshness_expectation v)),
      when_given p ''schema_name'' (\<lambda>v. Inr (validate_schema_name v))]"
  define first where "first h = map cannot_be_changed (filter (has_key p) (set_list h immutable_dataset_fields))" for h
  have u: "validate_update_dataset_payload h p =
      (case rest of Inl e \<Rightarrow> Inl e | Inr es \<Rightarrow> Inr (first h @ es))" for h
    unfolding validate_update_dataset_payload_def rest_def first_def extend_all.simps(2) [of "Inr _"] by simp
  have s: "set (first h) = set (first h')" and l: "length (first h) = length (first h')" for h h'
  proof -
    show "set (first h) = set (first h')" by (simp add: first_def)
    have "distinct (first h)" for h
      by (auto simp: first_def distinct_map inj_on_def cannot_be_changed_def)
    with \<open>set (first h) = set (first h')\<close> show "length (first h) = length (first h')"
      by (metis distinct_card)
  qed
  have "first h \<noteq> []" if "set (map fst p) \<inter> set immutable_dataset_fields \<noteq> {}"
    using that by (auto simp: first_def filter_empty_conv has_key_def)
  then show ?thesis using s [of h h'] l [of h h'] by (cases rest) (auto simp: u)
qed

theorem update_dataset_order_irrelevant_witness:
  "validate_update_dataset_payload (\<lambda>_. 0) [(''dataset_type'', PStr ''view'')] \<noteq> Inr []"
proof -
  have "set (map fst [(''dataset_type'', PStr ''view'')]) \<inter> set immutable_dataset_fields \<noteq> {}"
    by (simp add: immutable_dataset_fields_def)
  then show ?thesis
    using update_dataset_order_irrelevant [of "\<lambda>_. 0" "[(''dataset_type'', PStr ''view'')]" "\<lambda>_. 0"] by blast
qed

end
