(* ===== verification/ControlPlane.thy ===== *)
theory ControlPlane
  imports Prelude "HOL-Library.Word"
begin

text \<open>
  The control-plane tables the role service, the support-access service and the authorization
  guards read and write (\<open>users\<close>, \<open>control.workspaces\<close>, \<open>control.workspace_role_assignments\<close>,
  \<open>control.workspace_custom_roles\<close> with its permissions, \<open>control.support_access_grants\<close>),
  and the identifiers and SQL operators the queries use.

  A table is the list of its rows; \<open>SELECT\<close> is \<^const>\<open>filter\<close> or \<^const>\<open>find\<close>, \<open>UPDATE\<close>
  is \<open>update_where\<close>, \<open>DELETE\<close> is \<open>delete_where\<close>, \<open>INSERT\<close> appends.  A constraint a
  statement violates is an error of the call, after which the transaction is rolled back.
  Time is a natural number of minutes.
\<close>

section \<open>Identifiers\<close>

text \<open>A \<open>uuid.UUID\<close> is its 128-bit integer; equal texts \<open>str(u)\<close> are equal integers.\<close>

type_synonym uuid = "128 word"

text \<open>
  \<open>int(s, 16)\<close> without a sign \<open>-\<close>: white space around, a sign \<open>+\<close>, a prefix \<open>0x\<close> and single
  underscores between digits are accepted.
\<close>

definition hex_digit :: "char \<Rightarrow> int option" where
  "hex_digit c = (let n = code_of c in
     if 48 \<le> n \<and> n \<le> 57 then Some (int n - 48)
     else if 97 \<le> n \<and> n \<le> 102 then Some (int n - 87)
     else if 65 \<le> n \<and> n \<le> 70 then Some (int n - 55) else None)"

fun hex_digits :: "int \<Rightarrow> string \<Rightarrow> int option" where
  "hex_digits acc [] = Some acc"
| "hex_digits acc (c # s) =
     (case hex_digit (if c = CHR ''_'' \<and> s \<noteq> [] then hd s else c) of
        None \<Rightarrow> None
      | Some d \<Rightarrow> if c = CHR ''_'' \<and> s \<noteq> [] then hex_digits (16 * acc + d) (tl s)
                  else hex_digits (16 * acc + d) s)"

definition int_base16 :: "string \<Rightarrow> int option" where
  "int_base16 s =
     (let s1 = strip s;
          s2 = (if starts_with ''+'' s1 then drop 1 s1 else s1);
          prefixed = starts_with ''0x'' s2 \<or> starts_with ''0X'' s2;
          s3 = (if prefixed then drop 2 s2 else s2);
          s4 = (if prefixed \<and> starts_with ''_'' s3 then drop 1 s3 else s3)
      in if s4 = [] \<or> starts_with ''_'' s4 then None else hex_digits 0 s4)"

text \<open>\<open>s.replace(p, "")\<close> for a non-empty \<open>p\<close>.\<close>

fun remove_all :: "nat \<Rightarrow> string \<Rightarrow> string \<Rightarrow> string" where
  "remove_all 0 p s = s"
| "remove_all (Suc k) p [] = []"
| "remove_all (Suc k) p (c # s) =
     (if starts_with p (c # s) then remove_all k p (drop (length p) (c # s))
      else c # remove_all k p s)"

definition remove_text :: "string \<Rightarrow> string \<Rightarrow> string" where
  "remove_text p s = remove_all (length s) p s"

text \<open>\<open>UUID(text)\<close>: \<open>None\<close> stands for the \<open>ValueError\<close>.\<close>

definition parse_uuid :: "string \<Rightarrow> uuid option" where
  "parse_uuid s =
     (let t = remove_text ''uuid:'' (remove_text ''urn:'' s);
          braces = (\<lambda>c. c = CHR ''{'' \<or> c = CHR ''}'');
          u = rev (dropWhile braces (rev (dropWhile braces t)));
          h = filter (\<lambda>c. c \<noteq> CHR ''-'') u
      in if length h \<noteq> 32 then None else map_option of_int (int_base16 h))"

text \<open>\<open>re.match\<close> of \<open>_UUID_V4_RE\<close>; its \<open>$\<close> also matches before a final line feed.\<close>

definition is_hex :: "char \<Rightarrow> bool" where
  "is_hex c \<longleftrightarrow> hex_digit c \<noteq> None"

definition uuid_v4_at :: "nat \<Rightarrow> char \<Rightarrow> bool" where
  "uuid_v4_at i c =
     (if i \<in> {8, 13, 18, 23} then c = CHR ''-''
      else if i = 14 then c = CHR ''4''
      else if i = 19 then c \<in> set ''89abAB''
      else is_hex c)"

definition uuid_v4_pattern :: "string \<Rightarrow> bool" where
  "uuid_v4_pattern s \<longleftrightarrow>
     (let core = (if s \<noteq> [] \<and> last s = CHR 0x0A then butlast s else s)
      in length core = 36 \<and> list_all (\<lambda>(i, c). uuid_v4_at i c) (zip [0..<36] core))"

section \<open>Rows\<close>

record User =
  us_id :: uuid
  us_email :: string
  us_full_name :: "string option"
  us_platform_role :: "string option"
  us_tenant :: "uuid option"

record Workspace =
  ws_id :: uuid
  ws_tenant :: uuid

record RoleAssignment =
  ra_id :: uuid
  ra_workspace :: uuid
  ra_user :: uuid
  ra_role :: string
  ra_granted_by :: "uuid option"
  ra_granted_at :: nat

record CustomRole =
  cr_id :: uuid
  cr_workspace :: uuid
  cr_name :: string
  cr_display_name :: string
  cr_description :: "string option"
  cr_created_by :: "uuid option"
  cr_created_at :: nat
  cr_updated_at :: nat

record SupportGrant =
  sg_id :: uuid
  sg_tenant :: uuid
  sg_workspace :: "uuid option"
  sg_granted_by :: uuid
  sg_reason :: "string option"
  sg_created_at :: nat
  sg_expires_at :: nat
  sg_revoked_at :: "nat option"
  sg_revoked_by :: "uuid option"

record control_db =
  db_tenants :: "uuid list"
  db_users :: "User list"
  db_workspaces :: "Workspace list"
  db_assignments :: "RoleAssignment list"
  db_roles :: "CustomRole list"
  db_permissions :: "(uuid \<times> string) list"
  db_grants :: "SupportGrant list"

section \<open>Statements\<close>

definition update_where :: "('r \<Rightarrow> bool) \<Rightarrow> ('r \<Rightarrow> 'r) \<Rightarrow> 'r list \<Rightarrow> 'r list" where
  "update_where p f t = map (\<lambda>r. if p r then f r else r) t"

definition delete_where :: "('r \<Rightarrow> bool) \<Rightarrow> 'r list \<Rightarrow> 'r list" where
  "delete_where p t = filter (\<lambda>r. \<not> p r) t"

definition count_where :: "('r \<Rightarrow> bool) \<Rightarrow> 'r list \<Rightarrow> nat" where
  "count_where p t = length (filter p t)"

text \<open>\<open>tenant_id\<close> of a workspace, the query several guards make.\<close>

definition workspace_tenant :: "control_db \<Rightarrow> uuid \<Rightarrow> uuid option" where
  "workspace_tenant db w = map_option ws_tenant (find (\<lambda>x. ws_id x = w) (db_workspaces db))"

definition user_row :: "control_db \<Rightarrow> uuid \<Rightarrow> User option" where
  "user_row db u = find (\<lambda>x. us_id x = u) (db_users db)"

text \<open>\<open>text ILIKE pattern\<close>: \<open>%\<close> any text, \<open>_\<close> one character, \<open>\\\<close> the next character itself.\<close>

fun like :: "string \<Rightarrow> string \<Rightarrow> bool" where
  "like [] s = (s = [])"
| "like (c # p) [] = (c = CHR ''%'' \<and> like p [])"
| "like (c # p) (x # s) =
     (if c = CHR ''%'' then like p (x # s) \<or> like (c # p) s
      else if c = CHR ''_'' then like p s
      else if c = CHR 0x5C then (case p of [] \<Rightarrow> False | d # q \<Rightarrow> d = x \<and> like q s)
      else c = x \<and> like p s)"

definition ilike :: "string \<Rightarrow> string \<Rightarrow> bool" where
  "ilike s p = like (lower p) (lower s)"

section \<open>Facts about the statements\<close>

lemma find_None: "find p t = None \<longleftrightarrow> (\<forall>r \<in> set t. \<not> p r)"
  by (induction t) auto

lemma find_SomeD: "find p t = Some r \<Longrightarrow> r \<in> set t \<and> p r"
  by (induction t) (auto split: if_splits)

text \<open>With a unique key, the row found is the row that is there.\<close>

lemma find_unique:
  assumes "distinct (map k t)" and "r \<in> set t"
  shows "find (\<lambda>x. k x = k r) t = Some r"
  using assms by (induction t) (auto simp: image_iff)

lemma find_unique_iff:
  assumes "distinct (map k t)"
  shows "find (\<lambda>x. k x = a) t = Some r \<longleftrightarrow> r \<in> set t \<and> k r = a"
proof
  assume "find (\<lambda>x. k x = a) t = Some r"
  then show "r \<in> set t \<and> k r = a" by (rule find_SomeD)
next
  assume "r \<in> set t \<and> k r = a"
  with find_unique [OF assms, of r] show "find (\<lambda>x. k x = a) t = Some r" by simp
qed

lemma set_update_where [simp]: "set (update_where p f t) = (\<lambda>r. if p r then f r else r) ` set t"
  by (simp add: update_where_def)

lemma set_delete_where [simp]: "set (delete_where p t) = {r \<in> set t. \<not> p r}"
  by (auto simp: delete_where_def)

lemma map_update_where:
  assumes "\<And>r. p r \<Longrightarrow> k (f r) = k r"
  shows "map k (update_where p f t) = map k t"
  using assms by (simp add: update_where_def)

lemma distinct_delete_where: "distinct (map k t) \<Longrightarrow> distinct (map k (delete_where p t))"
  by (simp add: delete_where_def distinct_map_filter)

lemma find_append_other: "\<not> p x \<Longrightarrow> find p (t @ [x]) = find p t"
  by (induction t) auto

lemma find_append_new: "find p t = None \<Longrightarrow> p x \<Longrightarrow> find p (t @ [x]) = Some x"
  by (induction t) (auto split: if_splits)

lemma find_update_where_other:
  assumes "\<And>r. q r \<Longrightarrow> \<not> p r \<and> \<not> p (f r)"
  shows "find p (update_where q f t) = find p t"
  using assms by (induction t) (auto simp: update_where_def)

lemma find_delete_where_other:
  assumes "\<And>r. q r \<Longrightarrow> \<not> p r"
  shows "find p (delete_where q t) = find p t"
  using assms by (induction t) (auto simp: delete_where_def)

lemma count_where_pos: "0 < count_where p t \<longleftrightarrow> (\<exists>r \<in> set t. p r)"
  by (auto simp: count_where_def filter_empty_conv)

lemma count_where_zero: "count_where p t = 0 \<longleftrightarrow> (\<forall>r \<in> set t. \<not> p r)"
  by (auto simp: count_where_def filter_empty_conv)

lemma image_of_map_eq: "map k t' = map k t \<Longrightarrow> k ` set t' = k ` set t"
  by (metis list.set_map)

text \<open>Patterns without wildcards.\<close>

definition plain_char :: "char \<Rightarrow> bool" where
  "plain_char c \<longleftrightarrow> code_of c \<notin> {37, 95, 92}"

lemma plain_charD: "plain_char c \<Longrightarrow> c \<noteq> CHR ''%'' \<and> c \<noteq> CHR ''_'' \<and> c \<noteq> CHR 0x5C"
  by (auto simp: plain_char_def code_of_def)

lemma like_any [simp]: "like ''%'' s"
  by (induction s) auto

lemma like_prefix: "list_all plain_char p \<Longrightarrow> like (p @ ''%'') s \<longleftrightarrow> starts_with p s"
proof (induction p arbitrary: s)
  case (Cons c p)
  then show ?case by (cases s) (auto dest: plain_charD)
qed simp

lemma like_infix: "list_all plain_char p \<Longrightarrow> like (CHR ''%'' # p @ ''%'') s \<longleftrightarrow> contains p s"
proof (induction s)
  case Nil
  then show ?case using like_prefix [of p "[]"] by (cases p) auto
next
  case (Cons x s)
  then show ?case using like_prefix [of p "x # s"] by simp
qed

lemma lower_char_plain: "plain_char (lower_char c) \<longleftrightarrow> plain_char c"
proof (cases "(65 \<le> code_of c \<and> code_of c \<le> 90) \<or> (192 \<le> code_of c \<and> code_of c \<le> 222 \<and> code_of c \<noteq> 215)")
  case True
  then have "lower_char c = char_of (code_of c + 32)" by (simp add: lower_char_def)
  moreover have "code_of (char_of (code_of c + 32)) = code_of c + 32"
    using True by (intro code_of_char_of) auto
  ultimately have "code_of (lower_char c) = code_of c + 32" by simp
  with True show ?thesis unfolding plain_char_def by auto
next
  case False
  then have "lower_char c = c" by (auto simp: lower_char_def Let_def)
  then show ?thesis by simp
qed

lemma lower_append: "lower (s @ t) = lower s @ lower t"
  by (simp add: lower_def)

end
