(* ===== verification/RBAC.thy ===== *)
theory RBAC
  imports ControlPlane
begin

text \<open>
  \<open>WorkspaceRBACService\<close> of \<open>app/services/workspaces/rbac.py\<close>: the fixed roles and their
  permissions, role assignments with the guard for the last administrator, custom roles, and
  the permission check.  The constraints of the tables are those of the migrations 012 and 050.

  Every operation takes the tables and returns an error or the tables after it; fresh
  identifiers (\<open>uuid4\<close>) and the time are arguments.  The errors stand for the exceptions of
  the code: \<open>InvalidRole\<close> to \<open>RoleInUse\<close> are its \<open>ValueError\<close>s, \<open>DataError\<close> is the exception
  of the database for a value that does not fit its column, which no handler catches.
\<close>

section \<open>Fixed roles\<close>

definition workspace_administrator_permissions :: "string list" where
  "workspace_administrator_permissions =
    [''workspaces:read'', ''workspaces:write'', ''members:read'', ''members:write'',
      ''members:delete'', ''roles:read'', ''roles:assign'', ''roles:write'',
      ''datasources:read'', ''datasources:write'', ''datasources:delete'',
      ''datasources:execute'', ''datasets:read'', ''datasets:write'', ''datasets:delete'',
      ''rules:read'', ''rules:write'', ''rules:execute'', ''rules:delete'', ''flows:read'',
      ''flows:write'', ''flows:execute'', ''flows:delete'', ''executions:read'',
      ''executions:write'', ''issues:read'', ''issues:write'', ''incidents:read'',
      ''incidents:write'', ''alerts:read'', ''alerts:write'', ''reports:read'',
      ''settings:read'', ''settings:write'', ''view_audit_logs'']"

definition data_engineer_permissions :: "string list" where
  "data_engineer_permissions =
    [''workspaces:read'', ''members:read'', ''roles:read'', ''datasources:read'',
      ''datasources:write'', ''datasources:delete'', ''datasources:execute'',
      ''datasets:read'', ''datasets:write'', ''datasets:delete'', ''rules:read'',
      ''rules:write'', ''rules:execute'', ''rules:delete'', ''flows:read'', ''flows:write'',
      ''flows:execute'', ''flows:delete'', ''executions:read'', ''executions:write'',
      ''issues:read'', ''issues:write'', ''incidents:read'', ''incidents:write'',
      ''alerts:read'', ''alerts:write'', ''reports:read'', ''settings:read'']"

definition data_steward_permissions :: "string list" where
  "data_steward_permissions =
    [''workspaces:read'', ''members:read'', ''roles:read'', ''datasources:read'',
      ''datasets:read'', ''datasets:write'', ''rules:read'', ''rules:write'',
      ''rules:execute'', ''flows:read'', ''flows:write'', ''flows:execute'',
      ''executions:read'', ''issues:read'', ''issues:write'', ''incidents:read'',
      ''incidents:write'', ''alerts:read'', ''reports:read'', ''settings:read'']"

definition business_analyst_permissions :: "string list" where
  "business_analyst_permissions =
    [''workspaces:read'', ''members:read'', ''roles:read'', ''datasets:read'', ''rules:read'',
      ''flows:read'', ''executions:read'', ''issues:read'', ''incidents:read'', ''reports:read'']"

definition governance_viewer_permissions :: "string list" where
  "governance_viewer_permissions =
    [''workspaces:read'', ''members:read'', ''roles:read'', ''datasources:read'',
      ''datasets:read'', ''rules:read'', ''flows:read'', ''executions:read'', ''issues:read'',
      ''incidents:read'', ''reports:read'']"

definition FIXED_ROLE_PERMISSIONS :: "(string \<times> string list) list" where
  "FIXED_ROLE_PERMISSIONS =
    [(''workspace_administrator'', workspace_administrator_permissions),
     (''data_engineer'', data_engineer_permissions),
     (''data_steward'', data_steward_permissions),
     (''business_analyst'', business_analyst_permissions),
     (''governance_viewer'', governance_viewer_permissions)]"

definition VALID_ROLE_NAMES :: "string list" where
  "VALID_ROLE_NAMES = map fst FIXED_ROLE_PERMISSIONS"

definition ALL_KNOWN_PERMISSIONS :: "string list" where
  "ALL_KNOWN_PERMISSIONS = concat (map snd FIXED_ROLE_PERMISSIONS)"

abbreviation admin_role :: string where
  "admin_role \<equiv> ''workspace_administrator''"

section \<open>Errors\<close>

datatype rbac_error =
    InvalidRole string
  | ReservedRoleName string
  | UnknownPermissions "string list"
  | DuplicateOrInvalidRole string
  | RoleInUse string nat
  | LastWorkspaceAdministratorError
  | RoleAssignmentNotFoundError
  | RoleGrantFailedError
  | DataError

section \<open>Queries\<close>

definition get_member_role :: "control_db \<Rightarrow> uuid \<Rightarrow> uuid \<Rightarrow> RoleAssignment option" where
  "get_member_role db w u = find (\<lambda>a. ra_workspace a = w \<and> ra_user a = u) (db_assignments db)"

definition is_admin_of :: "uuid \<Rightarrow> RoleAssignment \<Rightarrow> bool" where
  "is_admin_of w a \<longleftrightarrow> ra_workspace a = w \<and> ra_role a = admin_role"

definition get_admin_count :: "control_db \<Rightarrow> uuid \<Rightarrow> nat" where
  "get_admin_count db w = count_where (is_admin_of w) (db_assignments db)"

definition is_workspace_admin_in_tenant :: "control_db \<Rightarrow> uuid \<Rightarrow> uuid \<Rightarrow> bool" where
  "is_workspace_admin_in_tenant db u t \<longleftrightarrow>
     list_ex (\<lambda>a. list_ex (\<lambda>x. ws_id x = ra_workspace a \<and> ra_user a = u \<and> ws_tenant x = t \<and>
                ra_role a = admin_role) (db_workspaces db)) (db_assignments db)"

text \<open>The permissions a custom role is joined with; their order is not modelled.\<close>

definition permissions_of :: "control_db \<Rightarrow> uuid \<Rightarrow> string list" where
  "permissions_of db i = map snd (filter (\<lambda>p. fst p = i) (db_permissions db))"

definition get_custom_role :: "control_db \<Rightarrow> uuid \<Rightarrow> uuid \<Rightarrow> (CustomRole \<times> string list) option" where
  "get_custom_role db w i =
     map_option (\<lambda>r. (r, permissions_of db (cr_id r)))
       (find (\<lambda>r. cr_workspace r = w \<and> cr_id r = i) (db_roles db))"

definition get_custom_role_by_name ::
    "control_db \<Rightarrow> uuid \<Rightarrow> string \<Rightarrow> (CustomRole \<times> string list) option" where
  "get_custom_role_by_name db w n =
     (case find (\<lambda>r. cr_workspace r = w \<and> cr_name r = n) (db_roles db) of
        None \<Rightarrow> None
      | Some r \<Rightarrow> get_custom_role db w (cr_id r))"

definition list_custom_roles :: "control_db \<Rightarrow> uuid \<Rightarrow> (CustomRole \<times> string list) list" where
  "list_custom_roles db w =
     map (\<lambda>r. (r, permissions_of db (cr_id r)))
       (sort_key cr_created_at (filter (\<lambda>r. cr_workspace r = w) (db_roles db)))"

definition get_role_permissions :: "control_db \<Rightarrow> uuid \<Rightarrow> string \<Rightarrow> string list option" where
  "get_role_permissions db w n =
     (case map_of FIXED_ROLE_PERMISSIONS n of
        Some ps \<Rightarrow> Some ps
      | None \<Rightarrow> map_option snd (get_custom_role_by_name db w n))"

definition check_permission :: "control_db \<Rightarrow> uuid \<Rightarrow> uuid \<Rightarrow> string \<Rightarrow> bool" where
  "check_permission db w u act =
     (case get_member_role db w u of
        None \<Rightarrow> False
      | Some a \<Rightarrow> (case get_role_permissions db w (ra_role a) of
                     None \<Rightarrow> False
                   | Some ps \<Rightarrow> act \<in> set ps))"

text \<open>\<open>list_members\<close>: the join with \<open>users\<close>, with \<open>COALESCE(full_name, email)\<close>.\<close>

record Member =
  mb_user :: uuid
  mb_email :: string
  mb_display_name :: string
  mb_role :: string
  mb_granted_by :: "uuid option"
  mb_granted_at :: nat

definition display_name :: "User \<Rightarrow> string" where
  "display_name x = (case us_full_name x of None \<Rightarrow> us_email x | Some n \<Rightarrow> n)"

definition list_members :: "control_db \<Rightarrow> uuid \<Rightarrow> Member list" where
  "list_members db w = sort_key mb_granted_at (concat (map
     (\<lambda>a. map (\<lambda>x. \<lparr>mb_user = ra_user a, mb_email = us_email x, mb_display_name = display_name x,
                 mb_role = ra_role a, mb_granted_by = ra_granted_by a,
                 mb_granted_at = ra_granted_at a\<rparr>)
              (filter (\<lambda>x. us_id x = ra_user a) (db_users db)))
     (filter (\<lambda>a. ra_workspace a = w) (db_assignments db))))"

text \<open>
  \<open>search_non_members\<close>.  \<open>collation\<close> is the rank of a text in the database's order.  A missing
  tenant is bound as the text \<open>None\<close>, which the cast to \<open>UUID\<close> rejects.
\<close>

definition search_non_members ::
    "(string \<Rightarrow> nat) \<Rightarrow> control_db \<Rightarrow> uuid \<Rightarrow> uuid option \<Rightarrow> string \<Rightarrow> nat \<Rightarrow> rbac_error + User list" where
  "search_non_members collation db w t q limit =
     (case t of
        None \<Rightarrow> Inl DataError
      | Some t' \<Rightarrow> Inr (take limit (sort_key (collation \<circ> us_email)
          (filter (\<lambda>x. us_tenant x = Some t' \<and> ilike (us_email x) (q @ ''%'') \<and>
              us_id x \<notin> set (map ra_user (filter (\<lambda>a. ra_workspace a = w) (db_assignments db))))
            (db_users db)))))"

section \<open>Constraints of the tables\<close>

text \<open>\<open>length(trim(role_name)) > 0\<close>: SQL's \<open>trim\<close> removes spaces only.\<close>

definition role_text_ok :: "string \<Rightarrow> bool" where
  "role_text_ok n \<longleftrightarrow> length n \<le> 60 \<and> list_ex (\<lambda>c. c \<noteq> CHR '' '') n"

definition user_exists :: "control_db \<Rightarrow> uuid \<Rightarrow> bool" where
  "user_exists db u \<longleftrightarrow> u \<in> set (map us_id (db_users db))"

definition workspace_exists :: "control_db \<Rightarrow> uuid \<Rightarrow> bool" where
  "workspace_exists db w \<longleftrightarrow> w \<in> set (map ws_id (db_workspaces db))"

text \<open>The regular expression of \<open>ck_wcr_name_format\<close>.\<close>

definition role_name_char :: "char \<Rightarrow> bool" where
  "role_name_char c \<longleftrightarrow> (97 \<le> code_of c \<and> code_of c \<le> 122) \<or> is_digit c \<or> c = CHR ''_''"

definition role_name_format :: "string \<Rightarrow> bool" where
  "role_name_format n \<longleftrightarrow> 3 \<le> length n \<and> length n \<le> 60 \<and>
     97 \<le> code_of (hd n) \<and> code_of (hd n) \<le> 122 \<and> list_all role_name_char n"

text \<open>
  \<open>INSERT ... ON CONFLICT (workspace_id, user_id)\<close>, with \<open>DO NOTHING\<close> (\<open>None\<close>) or
  \<open>DO UPDATE\<close> of the row that is there.  The result \<open>None\<close> is a rejected statement.
\<close>

definition insert_assignment ::
    "(RoleAssignment \<Rightarrow> RoleAssignment) option \<Rightarrow> RoleAssignment \<Rightarrow> control_db \<Rightarrow> control_db option" where
  "insert_assignment on_conflict a db =
     (let same = (\<lambda>b. ra_workspace b = ra_workspace a \<and> ra_user b = ra_user a);
          granter_ok = (\<lambda>b. case ra_granted_by b of None \<Rightarrow> True | Some g \<Rightarrow> user_exists db g)
      in if \<not> role_text_ok (ra_role a) then None
         else case find same (db_assignments db) of
                Some old \<Rightarrow>
                  (case on_conflict of
                     None \<Rightarrow> Some db
                   | Some f \<Rightarrow>
                       if granter_ok (f old)
                       then Some (db\<lparr>db_assignments := update_where same f (db_assignments db)\<rparr>)
                       else None)
              | None \<Rightarrow>
                  if ra_id a \<in> set (map ra_id (db_assignments db)) \<or>
                     \<not> workspace_exists db (ra_workspace a) \<or> \<not> user_exists db (ra_user a) \<or>
                     \<not> granter_ok a
                  then None
                  else Some (db\<lparr>db_assignments := db_assignments db @ [a]\<rparr>))"

section \<open>Role assignments\<close>

definition grant_workspace_admin ::
    "nat \<Rightarrow> uuid \<Rightarrow> uuid \<Rightarrow> uuid \<Rightarrow> control_db \<Rightarrow> rbac_error + control_db" where
  "grant_workspace_admin now i w u db =
     (case insert_assignment None
             \<lparr>ra_id = i, ra_workspace = w, ra_user = u, ra_role = admin_role, ra_granted_by = None,
              ra_granted_at = now\<rparr> db of
        None \<Rightarrow> Inl RoleGrantFailedError
      | Some db' \<Rightarrow> Inr db')"

definition assign_role ::
    "nat \<Rightarrow> uuid \<Rightarrow> uuid \<Rightarrow> uuid \<Rightarrow> string \<Rightarrow> uuid \<Rightarrow> control_db \<Rightarrow>
     rbac_error + (RoleAssignment option \<times> control_db)" where
  "assign_role now i w u n g db =
     (if n \<notin> set VALID_ROLE_NAMES \<and> get_custom_role_by_name db w n = None then Inl (InvalidRole n)
      else
        let existing = get_member_role db w u;
            held = map_option ra_role existing
        in if held = Some admin_role \<and> n \<noteq> admin_role \<and> get_admin_count db w \<le> 1
           then Inl LastWorkspaceAdministratorError
           else if held = Some n then Inr (existing, db)
           else case insert_assignment
                  (Some (\<lambda>b. b\<lparr>ra_role := n, ra_granted_by := Some g, ra_granted_at := now\<rparr>))
                  \<lparr>ra_id = i, ra_workspace = w, ra_user = u, ra_role = n, ra_granted_by = Some g,
                   ra_granted_at = now\<rparr> db of
             None \<Rightarrow> Inl RoleGrantFailedError
           | Some db' \<Rightarrow> Inr (get_member_role db' w u, db'))"

definition revoke_role :: "uuid \<Rightarrow> uuid \<Rightarrow> control_db \<Rightarrow> rbac_error + control_db" where
  "revoke_role w u db =
     (case get_member_role db w u of
        None \<Rightarrow> Inl RoleAssignmentNotFoundError
      | Some a \<Rightarrow>
          if ra_role a = admin_role \<and> get_admin_count db w \<le> 1
          then Inl LastWorkspaceAdministratorError
          else Inr (db\<lparr>db_assignments :=
                 delete_where (\<lambda>b. ra_workspace b = w \<and> ra_user b = u) (db_assignments db)\<rparr>))"

section \<open>Custom roles\<close>

definition unknown_permissions :: "string list \<Rightarrow> string list" where
  "unknown_permissions ps = filter (\<lambda>p. p \<notin> set ALL_KNOWN_PERMISSIONS) ps"

definition create_custom_role ::
    "nat \<Rightarrow> uuid \<Rightarrow> uuid \<Rightarrow> string \<Rightarrow> string \<Rightarrow> string option \<Rightarrow> string list \<Rightarrow> uuid \<Rightarrow> control_db \<Rightarrow>
     rbac_error + ((CustomRole \<times> string list) option \<times> control_db)" where
  "create_custom_role now i w n dn desc ps g db =
     (if n \<in> set VALID_ROLE_NAMES then Inl (ReservedRoleName n)
      else if unknown_permissions ps \<noteq> [] then Inl (UnknownPermissions (unknown_permissions ps))
      else if 60 < length n \<or> 120 < length dn then Inl DataError
      else if \<not> role_name_format n \<or> i \<in> set (map cr_id (db_roles db)) \<or>
              (w, n) \<in> set (map (\<lambda>r. (cr_workspace r, cr_name r)) (db_roles db)) \<or>
              \<not> workspace_exists db w \<or> \<not> user_exists db g
      then Inl (DuplicateOrInvalidRole n)
      else
        let db' = db\<lparr>db_roles := db_roles db @
                    [\<lparr>cr_id = i, cr_workspace = w, cr_name = n, cr_display_name = dn,
                      cr_description = desc, cr_created_by = Some g, cr_created_at = now,
                      cr_updated_at = now\<rparr>],
                    db_permissions := db_permissions db @ map (Pair i) (dict_keys ps)\<rparr>
        in Inr (get_custom_role db' w i, db'))"

definition update_custom_role ::
    "nat \<Rightarrow> uuid \<Rightarrow> uuid \<Rightarrow> string option \<Rightarrow> string option \<Rightarrow> string list option \<Rightarrow> control_db \<Rightarrow>
     rbac_error + ((CustomRole \<times> string list) option \<times> control_db)" where
  "update_custom_role now w i dn desc perms db =
     (case get_custom_role db w i of
        None \<Rightarrow> Inl RoleAssignmentNotFoundError
      | Some (existing, _) \<Rightarrow>
          let unknown = (case perms of None \<Rightarrow> [] | Some ps \<Rightarrow> unknown_permissions ps);
              new_dn = (case dn of None \<Rightarrow> cr_display_name existing | Some s \<Rightarrow> s);
              new_desc = (case desc of None \<Rightarrow> cr_description existing | Some s \<Rightarrow> Some s)
          in if unknown \<noteq> [] then Inl (UnknownPermissions unknown)
             else if 120 < length new_dn then Inl DataError
             else
               let db' = db\<lparr>
                 db_roles := update_where (\<lambda>r. cr_workspace r = w \<and> cr_id r = i)
                   (\<lambda>r. r\<lparr>cr_display_name := new_dn, cr_description := new_desc,
                         cr_updated_at := now\<rparr>) (db_roles db),
                 db_permissions := (case perms of None \<Rightarrow> db_permissions db
                   | Some ps \<Rightarrow> delete_where (\<lambda>p. fst p = i) (db_permissions db) @
                               map (Pair i) (dict_keys ps))\<rparr>
               in Inr (get_custom_role db' w i, db'))"

text \<open>The permissions of a deleted role go with it (\<open>ON DELETE CASCADE\<close>).\<close>

definition delete_custom_role :: "uuid \<Rightarrow> uuid \<Rightarrow> control_db \<Rightarrow> rbac_error + control_db" where
  "delete_custom_role w i db =
     (case get_custom_role db w i of
        None \<Rightarrow> Inl RoleAssignmentNotFoundError
      | Some (existing, _) \<Rightarrow>
          let in_use = count_where (\<lambda>a. ra_workspace a = w \<and> ra_role a = cr_name existing)
                         (db_assignments db)
          in if 0 < in_use then Inl (RoleInUse (cr_name existing) in_use)
             else Inr (db\<lparr>
               db_roles := delete_where (\<lambda>r. cr_workspace r = w \<and> cr_id r = i) (db_roles db),
               db_permissions := delete_where (\<lambda>p. fst p = i) (db_permissions db)\<rparr>))"

section \<open>Well-formed tables\<close>

text \<open>The name of a role that exists in a workspace.\<close>

definition role_known :: "control_db \<Rightarrow> uuid \<Rightarrow> string \<Rightarrow> bool" where
  "role_known db w n \<longleftrightarrow>
     n \<in> set VALID_ROLE_NAMES \<or> (\<exists>r \<in> set (db_roles db). cr_workspace r = w \<and> cr_name r = n)"

definition unique_keys :: "control_db \<Rightarrow> bool" where
  "unique_keys db \<longleftrightarrow>
     distinct (map us_id (db_users db)) \<and> distinct (map ws_id (db_workspaces db)) \<and>
     distinct (map ra_id (db_assignments db)) \<and>
     distinct (map (\<lambda>a. (ra_workspace a, ra_user a)) (db_assignments db)) \<and>
     distinct (map cr_id (db_roles db)) \<and>
     distinct (map (\<lambda>r. (cr_workspace r, cr_name r)) (db_roles db)) \<and>
     distinct (db_permissions db)"

definition assignments_ok :: "control_db \<Rightarrow> bool" where
  "assignments_ok db \<longleftrightarrow>
     (\<forall>a \<in> set (db_assignments db). workspace_exists db (ra_workspace a) \<and>
        user_exists db (ra_user a) \<and> role_known db (ra_workspace a) (ra_role a))"

definition roles_ok :: "control_db \<Rightarrow> bool" where
  "roles_ok db \<longleftrightarrow>
     (\<forall>r \<in> set (db_roles db). workspace_exists db (cr_workspace r) \<and>
        role_name_format (cr_name r) \<and> cr_name r \<notin> set VALID_ROLE_NAMES) \<and>
     (\<forall>p \<in> set (db_permissions db). fst p \<in> cr_id ` set (db_roles db) \<and>
        snd p \<in> set ALL_KNOWN_PERMISSIONS)"

definition rbac_wf :: "control_db \<Rightarrow> bool" where
  "rbac_wf db \<longleftrightarrow> unique_keys db \<and> assignments_ok db \<and> roles_ok db"

lemma wf_keys:
  assumes "rbac_wf db"
  shows "distinct (map ra_id (db_assignments db))"
    and "distinct (map (\<lambda>a. (ra_workspace a, ra_user a)) (db_assignments db))"
    and "distinct (map cr_id (db_roles db))"
    and "distinct (map (\<lambda>r. (cr_workspace r, cr_name r)) (db_roles db))"
  using assms by (simp_all add: rbac_wf_def unique_keys_def)

lemma member_role_iff:
  assumes "rbac_wf db"
  shows "get_member_role db w u = Some a \<longleftrightarrow>
    a \<in> set (db_assignments db) \<and> ra_workspace a = w \<and> ra_user a = u"
  using find_unique_iff [OF wf_keys(2) [OF assms], of "(w, u)" a] by (simp add: get_member_role_def)

lemma custom_role_iff:
  assumes "rbac_wf db"
  shows "get_custom_role db w i = Some (r, ps) \<longleftrightarrow>
    r \<in> set (db_roles db) \<and> cr_workspace r = w \<and> cr_id r = i \<and> ps = permissions_of db i"
proof -
  have "find (\<lambda>r. cr_workspace r = w \<and> cr_id r = i) (db_roles db) = Some r \<longleftrightarrow>
      r \<in> set (db_roles db) \<and> cr_workspace r = w \<and> cr_id r = i" for r
  proof
    assume "r \<in> set (db_roles db) \<and> cr_workspace r = w \<and> cr_id r = i"
    moreover from this wf_keys(3) [OF assms]
    have "\<forall>r' \<in> set (db_roles db). cr_id r' = i \<longrightarrow> r' = r" by (auto simp: distinct_map inj_on_def)
    ultimately show "find (\<lambda>r. cr_workspace r = w \<and> cr_id r = i) (db_roles db) = Some r"
      by (cases "find (\<lambda>r. cr_workspace r = w \<and> cr_id r = i) (db_roles db)")
         (auto simp: find_None dest: find_SomeD)
  qed (auto dest: find_SomeD)
  then show ?thesis by (auto simp: get_custom_role_def)
qed

lemma custom_role_by_name_iff:
  assumes "rbac_wf db"
  shows "get_custom_role_by_name db w n = Some (r, ps) \<longleftrightarrow>
    r \<in> set (db_roles db) \<and> cr_workspace r = w \<and> cr_name r = n \<and> ps = permissions_of db (cr_id r)"
proof -
  have f: "find (\<lambda>r. cr_workspace r = w \<and> cr_name r = n) (db_roles db) = Some r \<longleftrightarrow>
      r \<in> set (db_roles db) \<and> cr_workspace r = w \<and> cr_name r = n" for r
    using find_unique_iff [OF wf_keys(4) [OF assms], of "(w, n)" r] by simp
  show ?thesis
  proof (cases "find (\<lambda>r. cr_workspace r = w \<and> cr_name r = n) (db_roles db)")
    case None
    then show ?thesis using f [of r] by (auto simp: get_custom_role_by_name_def)
  next
    case (Some r')
    with f [of r'] have r': "r' \<in> set (db_roles db)" "cr_workspace r' = w" "cr_name r' = n" by auto
    from Some have "get_custom_role_by_name db w n = get_custom_role db w (cr_id r')"
      by (simp add: get_custom_role_by_name_def)
    moreover have "get_custom_role db w (cr_id r') = Some (r', permissions_of db (cr_id r'))"
      using custom_role_iff [OF assms] r' by blast
    moreover have "r \<in> set (db_roles db) \<and> cr_workspace r = w \<and> cr_name r = n \<longleftrightarrow> r = r'"
      using Some f [of r] by auto
    ultimately show ?thesis by auto
  qed
qed

lemma custom_role_by_name_None:
  assumes "rbac_wf db"
  shows "get_custom_role_by_name db w n = None \<longleftrightarrow>
    \<not> (\<exists>r \<in> set (db_roles db). cr_workspace r = w \<and> cr_name r = n)"
  using custom_role_by_name_iff [OF assms, of w n] by (metis not_None_eq surj_pair)

lemma map_of_fixed: "map_of FIXED_ROLE_PERMISSIONS n = None \<longleftrightarrow> n \<notin> set VALID_ROLE_NAMES"
  by (simp add: map_of_eq_None_iff VALID_ROLE_NAMES_def)

lemma set_permissions_of: "p \<in> set (permissions_of db i) \<longleftrightarrow> (i, p) \<in> set (db_permissions db)"
  by (force simp: permissions_of_def)

text \<open>In well-formed tables every assigned role resolves, to known permissions.\<close>

lemma role_permissions_known:
  assumes "rbac_wf db" and "role_known db w n"
  shows "\<exists>ps. get_role_permissions db w n = Some ps \<and> set ps \<subseteq> set ALL_KNOWN_PERMISSIONS"
proof (cases "map_of FIXED_ROLE_PERMISSIONS n")
  case (Some ps)
  then have "set ps \<subseteq> set ALL_KNOWN_PERMISSIONS"
    using map_of_SomeD [OF Some] by (auto simp: ALL_KNOWN_PERMISSIONS_def)
  with Some show ?thesis by (simp add: get_role_permissions_def)
next
  case None
  with assms(2) obtain r where r: "r \<in> set (db_roles db)" "cr_workspace r = w" "cr_name r = n"
    unfolding role_known_def map_of_fixed by blast
  have "set (permissions_of db (cr_id r)) \<subseteq> set ALL_KNOWN_PERMISSIONS"
    using assms(1) by (fastforce simp: set_permissions_of rbac_wf_def roles_ok_def)
  moreover have "get_custom_role_by_name db w n = Some (r, permissions_of db (cr_id r))"
    using custom_role_by_name_iff [OF assms(1)] r by blast
  ultimately show ?thesis using None by (simp add: get_role_permissions_def)
qed

section \<open>Every operation keeps the tables well-formed\<close>

text \<open>The assignments change: the rows keep their keys, their users and workspaces exist.\<close>

lemma wf_assignments:
  assumes "rbac_wf db" and "db' = db\<lparr>db_assignments := as\<rparr>"
    and "distinct (map ra_id as)" and "distinct (map (\<lambda>a. (ra_workspace a, ra_user a)) as)"
    and "\<And>a. a \<in> set as \<Longrightarrow> workspace_exists db (ra_workspace a) \<and> user_exists db (ra_user a) \<and>
      role_known db (ra_workspace a) (ra_role a)"
  shows "rbac_wf db'"
  using assms by (auto simp: rbac_wf_def unique_keys_def assignments_ok_def roles_ok_def
      workspace_exists_def user_exists_def role_known_def)

lemma wf_assignmentD:
  "rbac_wf db \<Longrightarrow> a \<in> set (db_assignments db) \<Longrightarrow>
   workspace_exists db (ra_workspace a) \<and> user_exists db (ra_user a) \<and>
   role_known db (ra_workspace a) (ra_role a)"
  by (simp add: rbac_wf_def assignments_ok_def)

text \<open>What an accepted \<open>INSERT ... ON CONFLICT\<close> did.\<close>

lemma insert_assignment_cases:
  assumes "insert_assignment oc a db = Some db'"
  obtains (kept) old where "oc = None" "db' = db" "old \<in> set (db_assignments db)"
      "ra_workspace old = ra_workspace a" "ra_user old = ra_user a"
  | (updated) f old where "oc = Some f" "old \<in> set (db_assignments db)"
      "ra_workspace old = ra_workspace a" "ra_user old = ra_user a" "db' = db\<lparr>db_assignments :=
        update_where (\<lambda>b. ra_workspace b = ra_workspace a \<and> ra_user b = ra_user a) f (db_assignments db)\<rparr>"
  | (added) "db' = db\<lparr>db_assignments := db_assignments db @ [a]\<rparr>"
      "get_member_role db (ra_workspace a) (ra_user a) = None"
      "ra_id a \<notin> set (map ra_id (db_assignments db))"
      "workspace_exists db (ra_workspace a)" "user_exists db (ra_user a)"
proof (cases "find (\<lambda>b. ra_workspace b = ra_workspace a \<and> ra_user b = ra_user a) (db_assignments db)")
  case None
  with assms have "db' = db\<lparr>db_assignments := db_assignments db @ [a]\<rparr> \<and>
      ra_id a \<notin> set (map ra_id (db_assignments db)) \<and> workspace_exists db (ra_workspace a) \<and>
      user_exists db (ra_user a)"
    by (simp add: insert_assignment_def Let_def split: if_splits)
  with None that(3) show thesis by (simp add: get_member_role_def)
next
  case (Some old)
  show thesis
  proof (cases oc)
    case None
    with Some assms have "db' = db"
      by (simp add: insert_assignment_def Let_def split: if_splits)
    with None that(1) find_SomeD [OF Some] show thesis by blast
  next
    case oc: (Some f)
    with Some assms have "db' = db\<lparr>db_assignments :=
        update_where (\<lambda>b. ra_workspace b = ra_workspace a \<and> ra_user b = ra_user a) f (db_assignments db)\<rparr>"
      by (simp add: insert_assignment_def Let_def split: if_splits)
    with oc that(2) find_SomeD [OF Some] show thesis by blast
  qed
qed

lemma wf_insert_assignment:
  assumes wf: "rbac_wf db" and ins: "insert_assignment oc a db = Some db'"
    and keys: "\<And>f b. oc = Some f \<Longrightarrow> ra_id (f b) = ra_id b \<and> ra_workspace (f b) = ra_workspace b \<and>
      ra_user (f b) = ra_user b \<and> ra_role (f b) = ra_role a"
    and role: "role_known db (ra_workspace a) (ra_role a)"
  shows "rbac_wf db'"
  using ins
proof (cases rule: insert_assignment_cases)
  case kept
  with wf show ?thesis by simp
next
  case (updated f old)
  show ?thesis using wf updated(5)
  proof (rule wf_assignments)
    show "distinct (map ra_id (update_where (\<lambda>b. ra_workspace b = ra_workspace a \<and> ra_user b = ra_user a)
        f (db_assignments db)))"
      using wf_keys(1) [OF wf] keys [OF updated(1)] by (simp add: map_update_where)
    show "distinct (map (\<lambda>b. (ra_workspace b, ra_user b))
        (update_where (\<lambda>b. ra_workspace b = ra_workspace a \<and> ra_user b = ra_user a) f (db_assignments db)))"
      using wf_keys(2) [OF wf] keys [OF updated(1)] by (simp add: map_update_where)
  qed (use wf_assignmentD [OF wf] keys [OF updated(1)] role in fastforce)
next
  case added
  show ?thesis using wf added(1)
  proof (rule wf_assignments)
    show "distinct (map ra_id (db_assignments db @ [a]))" using wf_keys(1) [OF wf] added(3) by simp
    have "(ra_workspace a, ra_user a) \<notin> (\<lambda>b. (ra_workspace b, ra_user b)) ` set (db_assignments db)"
      using added(2) by (auto simp: get_member_role_def find_None)
    then show "distinct (map (\<lambda>b. (ra_workspace b, ra_user b)) (db_assignments db @ [a]))"
      using wf_keys(2) [OF wf] by simp
  qed (use wf_assignmentD [OF wf] added role in auto)
qed

lemma admin_known [simp]: "role_known db w admin_role"
  by (simp add: role_known_def VALID_ROLE_NAMES_def FIXED_ROLE_PERMISSIONS_def)

lemma wf_grant:
  assumes "rbac_wf db" and "grant_workspace_admin now i w u db = Inr db'"
  shows "rbac_wf db'"
proof -
  have "insert_assignment None \<lparr>ra_id = i, ra_workspace = w, ra_user = u, ra_role = admin_role,
      ra_granted_by = None, ra_granted_at = now\<rparr> db = Some db'"
    using assms(2) by (simp add: grant_workspace_admin_def split: option.splits)
  from wf_insert_assignment [OF assms(1) this] show ?thesis by simp
qed

text \<open>A successful \<open>assign_role\<close>: nothing to do, or an accepted upsert.\<close>

lemma assign_role_cases:
  assumes "assign_role now i w u n g db = Inr (r, db')"
  obtains (same) "db' = db" "r = get_member_role db w u" "map_option ra_role r = Some n"
  | (upsert) f a where "insert_assignment (Some f) a db = Some db'"
      "f = (\<lambda>b. b\<lparr>ra_role := n, ra_granted_by := Some g, ra_granted_at := now\<rparr>)"
      "a = \<lparr>ra_id = i, ra_workspace = w, ra_user = u, ra_role = n, ra_granted_by = Some g,
             ra_granted_at = now\<rparr>"
      "r = get_member_role db' w u" "map_option ra_role (get_member_role db w u) \<noteq> Some n"
      "n \<in> set VALID_ROLE_NAMES \<or> get_custom_role_by_name db w n \<noteq> None"
      "map_option ra_role (get_member_role db w u) = Some admin_role \<longrightarrow> 1 < get_admin_count db w"
proof (cases "map_option ra_role (get_member_role db w u) = Some n")
  case True
  with assms have "db' = db \<and> r = get_member_role db w u"
    unfolding assign_role_def Let_def by (simp split: if_splits)
  with True same show thesis by blast
next
  case False
  let ?f = "\<lambda>b. b\<lparr>ra_role := n, ra_granted_by := Some g, ra_granted_at := now\<rparr>"
  let ?a = "\<lparr>ra_id = i, ra_workspace = w, ra_user = u, ra_role = n, ra_granted_by = Some g,
    ra_granted_at = now\<rparr>"
  have known: "n \<in> set VALID_ROLE_NAMES \<or> get_custom_role_by_name db w n \<noteq> None"
    using assms by (rule contrapos_pp) (simp add: assign_role_def)
  have guard: "\<not> (map_option ra_role (get_member_role db w u) = Some admin_role \<and> n \<noteq> admin_role \<and>
      get_admin_count db w \<le> 1)"
    using assms by (rule contrapos_pn) (use known in \<open>simp add: assign_role_def Let_def\<close>)
  have "assign_role now i w u n g db = (case insert_assignment (Some ?f) ?a db of
      None \<Rightarrow> Inl RoleGrantFailedError | Some db' \<Rightarrow> Inr (get_member_role db' w u, db'))"
    unfolding assign_role_def Let_def using known guard False by (simp only: if_False simp_thms) meson
  with assms have "insert_assignment (Some ?f) ?a db = Some db' \<and> r = get_member_role db' w u"
    by (simp split: option.splits)
  with False guard known upsert show thesis by (metis not_le_imp_less)
qed

lemma wf_assign:
  assumes wf: "rbac_wf db" and "assign_role now i w u n g db = Inr (r, db')"
  shows "rbac_wf db'"
  using assms(2)
proof (cases rule: assign_role_cases)
  case same
  with wf show ?thesis by simp
next
  case (upsert f a)
  have "role_known db w n"
    using upsert(6) custom_role_by_name_None [OF wf] by (auto simp: role_known_def)
  with upsert show ?thesis by (intro wf_insert_assignment [OF wf upsert(1)]) auto
qed

lemma wf_revoke:
  assumes "rbac_wf db" and "revoke_role w u db = Inr db'"
  shows "rbac_wf db'"
proof -
  from assms(2) have "db' = db\<lparr>db_assignments :=
      delete_where (\<lambda>b. ra_workspace b = w \<and> ra_user b = u) (db_assignments db)\<rparr>"
    by (auto simp: revoke_role_def split: option.splits if_splits)
  with assms(1) show ?thesis
    by (rule wf_assignments) (use assms(1) wf_assignmentD wf_keys in \<open>auto intro: distinct_delete_where\<close>)
qed

lemma unknown_Nil: "unknown_permissions ps = [] \<longleftrightarrow> set ps \<subseteq> set ALL_KNOWN_PERMISSIONS"
  by (auto simp: unknown_permissions_def filter_empty_conv)

lemma create_role_spec:
  assumes "create_custom_role now i w n dn desc ps g db = Inr (x, db')"
  shows "n \<notin> set VALID_ROLE_NAMES \<and> set ps \<subseteq> set ALL_KNOWN_PERMISSIONS \<and> role_name_format n \<and>
    i \<notin> set (map cr_id (db_roles db)) \<and>
    (w, n) \<notin> set (map (\<lambda>r. (cr_workspace r, cr_name r)) (db_roles db)) \<and> workspace_exists db w \<and>
    db' = db\<lparr>db_roles := db_roles db @
              [\<lparr>cr_id = i, cr_workspace = w, cr_name = n, cr_display_name = dn,
                cr_description = desc, cr_created_by = Some g, cr_created_at = now,
                cr_updated_at = now\<rparr>],
            db_permissions := db_permissions db @ map (Pair i) (dict_keys ps)\<rparr>"
  using assms unfolding create_custom_role_def Let_def unknown_Nil [symmetric]
  by (simp split: if_splits)

lemma wf_create:
  assumes wf: "rbac_wf db" and "create_custom_role now i w n dn desc ps g db = Inr (x, db')"
  shows "rbac_wf db'"
proof -
  note c = create_role_spec [OF assms(2)]
  have new: "(i, p) \<notin> set (db_permissions db)" for p
    using wf c by (fastforce simp: rbac_wf_def roles_ok_def)
  have "unique_keys db'"
    using wf c new by (auto simp: rbac_wf_def unique_keys_def distinct_map inj_on_def)
  moreover have "assignments_ok db'"
    using wf c by (auto simp: rbac_wf_def assignments_ok_def workspace_exists_def user_exists_def role_known_def)
  moreover have "roles_ok db'"
    using wf c by (auto simp: rbac_wf_def roles_ok_def workspace_exists_def)
  ultimately show ?thesis by (simp add: rbac_wf_def)
qed

lemma update_role_cases:
  assumes "update_custom_role now w i dn desc perms db = Inr (x, db')"
  obtains r qs dn' desc' where "get_custom_role db w i = Some (r, qs)"
    "\<And>ps. perms = Some ps \<Longrightarrow> set ps \<subseteq> set ALL_KNOWN_PERMISSIONS"
    "db' = db\<lparr>
       db_roles := update_where (\<lambda>r. cr_workspace r = w \<and> cr_id r = i)
         (\<lambda>r. r\<lparr>cr_display_name := dn', cr_description := desc', cr_updated_at := now\<rparr>) (db_roles db),
       db_permissions := (case perms of None \<Rightarrow> db_permissions db
         | Some ps \<Rightarrow> delete_where (\<lambda>p. fst p = i) (db_permissions db) @ map (Pair i) (dict_keys ps))\<rparr>"
proof (cases "get_custom_role db w i")
  case None
  with assms show thesis by (simp add: update_custom_role_def)
next
  case (Some rq)
  obtain r qs where rq: "rq = (r, qs)" by (cases rq)
  have "(case perms of None \<Rightarrow> [] | Some ps \<Rightarrow> unknown_permissions ps) = []"
    using assms Some rq by (simp add: update_custom_role_def Let_def split: if_splits)
  then have "set ps \<subseteq> set ALL_KNOWN_PERMISSIONS" if "perms = Some ps" for ps
    using that by (simp add: unknown_Nil)
  moreover have "\<exists>dn' desc'. db' = db\<lparr>
       db_roles := update_where (\<lambda>r. cr_workspace r = w \<and> cr_id r = i)
         (\<lambda>r. r\<lparr>cr_display_name := dn', cr_description := desc', cr_updated_at := now\<rparr>) (db_roles db),
       db_permissions := (case perms of None \<Rightarrow> db_permissions db
         | Some ps \<Rightarrow> delete_where (\<lambda>p. fst p = i) (db_permissions db) @ map (Pair i) (dict_keys ps))\<rparr>"
    using assms Some rq by (simp add: update_custom_role_def Let_def split: if_splits) blast
  ultimately show thesis using that Some rq by blast
qed

lemma wf_update:
  assumes wf: "rbac_wf db" and "update_custom_role now w i dn desc perms db = Inr (x, db')"
  shows "rbac_wf db'"
  using assms(2)
proof (cases rule: update_role_cases)
  case (1 r qs dn' desc')
  let ?f = "\<lambda>r. r\<lparr>cr_display_name := dn', cr_description := desc', cr_updated_at := now\<rparr>"
  let ?roles = "update_where (\<lambda>r. cr_workspace r = w \<and> cr_id r = i) ?f (db_roles db)"
  have keys: "map cr_id ?roles = map cr_id (db_roles db)"
      "map (\<lambda>r. (cr_workspace r, cr_name r)) ?roles = map (\<lambda>r. (cr_workspace r, cr_name r)) (db_roles db)"
    by (simp_all add: map_update_where)
  have ids: "cr_id ` set ?roles = cr_id ` set (db_roles db)" by (rule image_of_map_eq [OF keys(1)])
  have names: "(\<lambda>r. (cr_workspace r, cr_name r)) ` set ?roles = (\<lambda>r. (cr_workspace r, cr_name r)) ` set (db_roles db)"
    by (rule image_of_map_eq [OF keys(2)])
  have i: "i \<in> cr_id ` set (db_roles db)" using 1(1) custom_role_iff [OF wf] by force
  have "unique_keys db'"
    using wf 1(3) keys by (auto simp: rbac_wf_def unique_keys_def delete_where_def distinct_map inj_on_def
        split: option.splits)
  moreover have "role_known db' v n = role_known db v n" for v n
  proof -
    have "(v, n) \<in> (\<lambda>r. (cr_workspace r, cr_name r)) ` set (db_roles db') \<longleftrightarrow>
        (v, n) \<in> (\<lambda>r. (cr_workspace r, cr_name r)) ` set (db_roles db)" using names 1(3) by simp
    then show ?thesis by (fastforce simp: role_known_def image_iff)
  qed
  then have "assignments_ok db'"
    using wf 1(3) by (simp add: rbac_wf_def assignments_ok_def workspace_exists_def user_exists_def)
  moreover have "roles_ok db'"
  proof -
    have "\<forall>r \<in> set ?roles. workspace_exists db (cr_workspace r) \<and> role_name_format (cr_name r) \<and>
        cr_name r \<notin> set VALID_ROLE_NAMES"
      using wf by (auto simp: rbac_wf_def roles_ok_def)
    moreover have "\<forall>p \<in> set (db_permissions db'). fst p \<in> cr_id ` set (db_roles db) \<and>
        snd p \<in> set ALL_KNOWN_PERMISSIONS"
      using wf 1(2,3) i by (auto simp: rbac_wf_def roles_ok_def split: option.splits)
    ultimately show ?thesis using 1(3) ids by (simp add: roles_ok_def workspace_exists_def)
  qed
  ultimately show ?thesis by (simp add: rbac_wf_def)
qed

lemma delete_role_cases:
  assumes "delete_custom_role w i db = Inr db'"
  obtains r qs where "get_custom_role db w i = Some (r, qs)"
    "\<forall>a \<in> set (db_assignments db). \<not> (ra_workspace a = w \<and> ra_role a = cr_name r)"
    "db' = db\<lparr>db_roles := delete_where (\<lambda>r. cr_workspace r = w \<and> cr_id r = i) (db_roles db),
             db_permissions := delete_where (\<lambda>p. fst p = i) (db_permissions db)\<rparr>"
proof (cases "get_custom_role db w i")
  case None
  with assms show thesis by (simp add: delete_custom_role_def)
next
  case (Some rq)
  obtain r qs where rq: "rq = (r, qs)" by (cases rq)
  have "count_where (\<lambda>a. ra_workspace a = w \<and> ra_role a = cr_name r) (db_assignments db) = 0"
    using assms Some rq by (simp add: delete_custom_role_def Let_def split: if_splits)
  then have "\<forall>a \<in> set (db_assignments db). \<not> (ra_workspace a = w \<and> ra_role a = cr_name r)"
    by (simp only: count_where_zero)
  moreover have "db' = db\<lparr>db_roles := delete_where (\<lambda>r. cr_workspace r = w \<and> cr_id r = i) (db_roles db),
      db_permissions := delete_where (\<lambda>p. fst p = i) (db_permissions db)\<rparr>"
    using assms Some rq by (simp add: delete_custom_role_def Let_def split: if_splits)
  ultimately show thesis using that Some rq by blast
qed

lemma wf_delete:
  assumes wf: "rbac_wf db" and "delete_custom_role w i db = Inr db'"
  shows "rbac_wf db'"
  using assms(2)
proof (cases rule: delete_role_cases)
  case (1 r qs)
  have r: "r \<in> set (db_roles db)" "cr_workspace r = w" "cr_id r = i"
    using 1(1) custom_role_iff [OF wf] by blast+
  have only: "r' = r" if "r' \<in> set (db_roles db)" "cr_id r' = i" for r'
    using wf_keys(3) [OF wf] r that by (auto simp: distinct_map inj_on_def)
  have "unique_keys db'"
    using wf 1(3) by (auto simp: rbac_wf_def unique_keys_def intro: distinct_delete_where)
       (simp add: delete_where_def)
  moreover have "assignments_ok db'"
    unfolding assignments_ok_def
  proof
    fix a assume "a \<in> set (db_assignments db')"
    then have a: "a \<in> set (db_assignments db)" using 1(3) by simp
    from wf_assignmentD [OF wf a] have "role_known db (ra_workspace a) (ra_role a)" by blast
    then have "role_known db' (ra_workspace a) (ra_role a)"
      unfolding role_known_def
    proof (elim disjE bexE conjE)
      fix r' assume r': "r' \<in> set (db_roles db)" "cr_workspace r' = ra_workspace a" "cr_name r' = ra_role a"
      then have "cr_id r' \<noteq> i" using 1(2) a only [of r'] r by auto
      with r' 1(3) show "ra_role a \<in> set VALID_ROLE_NAMES \<or>
          (\<exists>r \<in> set (db_roles db'). cr_workspace r = ra_workspace a \<and> cr_name r = ra_role a)"
        by auto
    qed simp
    with wf_assignmentD [OF wf a] 1(3) show "workspace_exists db' (ra_workspace a) \<and>
        user_exists db' (ra_user a) \<and> role_known db' (ra_workspace a) (ra_role a)"
      by (simp add: workspace_exists_def user_exists_def)
  qed
  moreover have "roles_ok db'"
    using wf 1(3) by (force simp: rbac_wf_def roles_ok_def workspace_exists_def)
  ultimately show ?thesis by (simp add: rbac_wf_def)
qed

section \<open>Steps of the role service\<close>

text \<open>One successful call in workspace \<open>w\<close>; a failed one is rolled back.\<close>

inductive rbac_step :: "uuid \<Rightarrow> control_db \<Rightarrow> control_db \<Rightarrow> bool" for w where
  step_grant: "grant_workspace_admin now i w u db = Inr db' \<Longrightarrow> rbac_step w db db'"
| step_assign: "assign_role now i w u n g db = Inr (r, db') \<Longrightarrow> rbac_step w db db'"
| step_revoke: "revoke_role w u db = Inr db' \<Longrightarrow> rbac_step w db db'"
| step_create: "create_custom_role now i w n dn desc ps g db = Inr (x, db') \<Longrightarrow> rbac_step w db db'"
| step_update: "update_custom_role now w i dn' desc perms db = Inr (x, db') \<Longrightarrow> rbac_step w db db'"
| step_delete: "delete_custom_role w i db = Inr db' \<Longrightarrow> rbac_step w db db'"

definition rbac_reaches :: "control_db \<Rightarrow> control_db \<Rightarrow> bool" where
  "rbac_reaches = (\<lambda>db db'. \<exists>w. rbac_step w db db')\<^sup>*\<^sup>*"

lemma wf_step: "rbac_step w db db' \<Longrightarrow> rbac_wf db \<Longrightarrow> rbac_wf db'"
  by (cases rule: rbac_step.cases) (auto intro: wf_grant wf_assign wf_revoke wf_create wf_update wf_delete)

lemma reaches_induct [consumes 1, case_names refl step]:
  assumes "rbac_reaches db db'" and "P db"
    and "\<And>w x y. rbac_reaches db x \<Longrightarrow> rbac_step w x y \<Longrightarrow> P x \<Longrightarrow> P y"
  shows "P db'"
  using assms(1) unfolding rbac_reaches_def
  by (induction rule: rtranclp_induct) (use assms(2,3) in \<open>auto simp: rbac_reaches_def\<close>)

lemma wf_reaches:
  assumes "rbac_reaches db db'" and "rbac_wf db"
  shows "rbac_wf db'"
  using assms(1) by (induction rule: reaches_induct) (use assms(2) wf_step in auto)

subsection \<open>The effect on the assignments\<close>

text \<open>A row of another workspace or of another user is never touched.\<close>

definition same_others :: "uuid \<Rightarrow> uuid \<Rightarrow> control_db \<Rightarrow> control_db \<Rightarrow> bool" where
  "same_others w u db db' \<longleftrightarrow>
     (\<forall>a. (ra_workspace a, ra_user a) \<noteq> (w, u) \<longrightarrow>
        (a \<in> set (db_assignments db') \<longleftrightarrow> a \<in> set (db_assignments db)))"

lemma insert_same_others:
  assumes "insert_assignment oc a db = Some db'"
    and "\<And>f b. oc = Some f \<Longrightarrow> ra_workspace (f b) = ra_workspace b \<and> ra_user (f b) = ra_user b"
  shows "same_others (ra_workspace a) (ra_user a) db db'"
  using assms(1)
proof (cases rule: insert_assignment_cases)
  case kept
  then show ?thesis by (simp add: same_others_def)
next
  case (updated f old)
  have "ra_workspace (f b) = ra_workspace b \<and> ra_user (f b) = ra_user b" for b
    using assms(2) [OF updated(1)] .
  with updated(5) show ?thesis by (auto simp: same_others_def image_iff)
next
  case added
  then show ?thesis by (auto simp: same_others_def)
qed

lemma step_touches_one:
  assumes "rbac_step w db db'"
  shows "\<exists>u. same_others w u db db'"
  using assms
proof cases
  case (step_grant now i u)
  then have "insert_assignment None \<lparr>ra_id = i, ra_workspace = w, ra_user = u, ra_role = admin_role,
      ra_granted_by = None, ra_granted_at = now\<rparr> db = Some db'"
    by (simp add: grant_workspace_admin_def split: option.splits)
  from insert_same_others [OF this] show ?thesis by auto
next
  case (step_assign now i u n g r)
  then show ?thesis
  proof (cases rule: assign_role_cases)
    case same
    then show ?thesis by (simp add: same_others_def)
  next
    case (upsert f a)
    then have "same_others (ra_workspace a) (ra_user a) db db'"
      by (intro insert_same_others [OF upsert(1)]) auto
    with upsert(3) show ?thesis by auto
  qed
next
  case (step_revoke u)
  then have "same_others w u db db'"
    by (auto simp: same_others_def revoke_role_def split: option.splits if_splits)
  then show ?thesis ..
qed (auto simp: same_others_def dest: create_role_spec elim: update_role_cases delete_role_cases)

lemma custom_steps_keep_assignments:
  "create_custom_role now i w n dn desc ps g db = Inr (x, db') \<Longrightarrow> db_assignments db' = db_assignments db"
  "update_custom_role now w i dn' desc perms db = Inr (x, db') \<Longrightarrow> db_assignments db' = db_assignments db"
  "delete_custom_role w i db = Inr db' \<Longrightarrow> db_assignments db' = db_assignments db"
  by (auto dest: create_role_spec elim: update_role_cases delete_role_cases)

lemma one_key: "distinct (map k xs) \<Longrightarrow> \<forall>b \<in> set xs. k b = c \<Longrightarrow> length xs \<le> 1"
proof -
  assume "distinct (map k xs)" and "\<forall>b \<in> set xs. k b = c"
  then have "length xs = card (set (map k xs))" "set (map k xs) \<subseteq> {c}"
    using distinct_card by fastforce+
  then show ?thesis using card_mono [of "{c}" "set (map k xs)"] by simp
qed

text \<open>With two administrators, each of them has a colleague.\<close>

lemma other_admin:
  assumes "rbac_wf db" and "1 < get_admin_count db w"
  shows "\<exists>b \<in> set (db_assignments db). is_admin_of w b \<and> ra_user b \<noteq> u"
proof (rule ccontr)
  assume "\<not> ?thesis"
  then have "\<forall>b \<in> set (filter (is_admin_of w) (db_assignments db)). (ra_workspace b, ra_user b) = (w, u)"
    by (auto simp: is_admin_of_def)
  moreover have "distinct (map (\<lambda>a. (ra_workspace a, ra_user a)) (filter (is_admin_of w) (db_assignments db)))"
    using wf_keys(2) [OF assms(1)] by (rule distinct_map_filter)
  ultimately have "length (filter (is_admin_of w) (db_assignments db)) \<le> 1"
    by (rule one_key [rotated])
  with assms(2) show False by (simp add: get_admin_count_def count_where_def)
qed

definition has_admin :: "control_db \<Rightarrow> uuid \<Rightarrow> bool" where
  "has_admin db w \<longleftrightarrow> (\<exists>a \<in> set (db_assignments db). is_admin_of w a)"

lemma admin_count_pos: "0 < get_admin_count db w \<longleftrightarrow> has_admin db w"
  by (simp add: get_admin_count_def count_where_pos has_admin_def)

lemma has_admin_others:
  assumes "same_others w u db db'" and "b \<in> set (db_assignments db)" "is_admin_of v b"
    and "(ra_workspace b, ra_user b) \<noteq> (w, u)"
  shows "has_admin db' v"
  using assms unfolding same_others_def has_admin_def by blast

end
