(* ===== verification/AuthTokens.thy ===== *)
theory AuthTokens
  imports RBAC
begin

text \<open>
  From a user to a token and back to an actor: \<open>_resolve_actor_role\<close> and the claims of
  \<open>app/services/auth/service.py\<close>, and the helpers every guard of
  \<open>app/api/v1/dependencies\<close> starts with: the bearer header, the decoded token, the actor.

  \<open>jwt.decode\<close> is a parameter: it maps a token text to its verified claims, or to one of the
  two exceptions the code distinguishes.  The claims it returns are those of tokens the service
  has signed, which are texts.
\<close>

section \<open>Errors of the guards\<close>

text \<open>
  \<open>HTTPException\<close> with status and detail, \<open>TenantAPIError\<close> with status, code and message, and
  an exception no handler is registered for, which the client sees as status 500.
\<close>

datatype api_error = HTTPException nat string | TenantAPIError nat string string | Unhandled string

definition InsufficientPermissionsError :: "string \<Rightarrow> api_error" where
  "InsufficientPermissionsError m = HTTPException 403 m"

fun status_code :: "api_error \<Rightarrow> nat" where
  "status_code (HTTPException s m) = s"
| "status_code (TenantAPIError s c m) = s"
| "status_code (Unhandled m) = 500"

section \<open>Claims\<close>

record Claims =
  cl_actor_id :: "string option"
  cl_actor_role :: "string option"
  cl_tenant_id :: "string option"

record Actor =
  ac_id :: uuid
  ac_role :: string
  ac_tenant :: "uuid option"

text \<open>\<open>str(u)\<close>: 32 lower-case digits in groups of 8, 4, 4, 4 and 12.\<close>

definition hex_char :: "int \<Rightarrow> char" where
  "hex_char n = char_of (if n < 10 then 48 + nat n else 87 + nat n)"

fun hex_text :: "nat \<Rightarrow> int \<Rightarrow> string" where
  "hex_text 0 n = []"
| "hex_text (Suc k) n = hex_text k (n div 16) @ [hex_char (n mod 16)]"

definition uuid_text :: "uuid \<Rightarrow> string" where
  "uuid_text u = (let h = hex_text 32 (uint u) in
     take 8 h @ ''-'' @ take 4 (drop 8 h) @ ''-'' @ take 4 (drop 12 h) @ ''-'' @
     take 4 (drop 16 h) @ ''-'' @ drop 20 h)"

text \<open>\<open>_WORKSPACE_ROLE_PRECEDENCE\<close>, highest role first.\<close>

definition WORKSPACE_ROLE_PRECEDENCE :: "string list" where
  "WORKSPACE_ROLE_PRECEDENCE =
     [''workspace_administrator'', ''data_engineer'', ''data_steward'', ''workspace_steward'',
      ''business_analyst'', ''governance_viewer'', ''workspace_viewer'']"

definition resolve_actor_role :: "control_db \<Rightarrow> User option \<Rightarrow> string" where
  "resolve_actor_role db user =
     (case user of
        None \<Rightarrow> ''member''
      | Some x \<Rightarrow>
          (case us_platform_role x of
             Some (c # r) \<Rightarrow> c # r
           | _ \<Rightarrow>
               let roles = map ra_role (filter (\<lambda>a. ra_user a = us_id x) (db_assignments db))
               in case find (\<lambda>c. c \<in> set roles) WORKSPACE_ROLE_PRECEDENCE of
                    None \<Rightarrow> ''member''
                  | Some c \<Rightarrow> c))"

text \<open>The identity claims of the token a login or a refresh issues.\<close>

definition issue_claims :: "control_db \<Rightarrow> User \<Rightarrow> Claims" where
  "issue_claims db x = \<lparr>cl_actor_id = Some (uuid_text (us_id x)),
     cl_actor_role = Some (resolve_actor_role db (Some x)),
     cl_tenant_id = map_option uuid_text (us_tenant x)\<rparr>"

section \<open>Reading a request\<close>

datatype jwt_result = ExpiredSignature | InvalidToken | Decoded Claims

definition bearer_prefix :: string where
  "bearer_prefix = ''Bearer ''"

definition extract_bearer_token :: "string option \<Rightarrow> api_error + string" where
  "extract_bearer_token authorization =
     (case authorization of
        None \<Rightarrow> Inl (HTTPException 401 ''Authorization header is missing'')
      | Some h \<Rightarrow>
          if h = [] then Inl (HTTPException 401 ''Authorization header is missing'')
          else if \<not> starts_with bearer_prefix h
          then Inl (HTTPException 401 ''Authorization header must use Bearer scheme'')
          else if drop (length bearer_prefix) h = []
          then Inl (HTTPException 401 ''Bearer token value is empty'')
          else Inr (drop (length bearer_prefix) h))"

definition decode_token :: "(string \<Rightarrow> jwt_result) \<Rightarrow> string \<Rightarrow> api_error + Claims" where
  "decode_token jwt token =
     (case jwt token of
        ExpiredSignature \<Rightarrow> Inl (HTTPException 401 ''Token has expired'')
      | InvalidToken \<Rightarrow> Inl (HTTPException 401 ''Token is invalid'')
      | Decoded c \<Rightarrow> Inr c)"

text \<open>\<open>not x\<close> for a claim: missing or empty.\<close>

fun given :: "string option \<Rightarrow> bool" where
  "given None = False"
| "given (Some s) = (s \<noteq> [])"

text \<open>\<open>_build_workspace_actor_context\<close>.\<close>

definition build_workspace_actor_context :: "Claims \<Rightarrow> api_error + Actor" where
  "build_workspace_actor_context c =
     (if \<not> given (cl_actor_id c) \<or> \<not> given (cl_actor_role c)
      then Inl (HTTPException 401 ''Token does not contain required identity claims'')
      else case parse_uuid (the (cl_actor_id c)) of
             None \<Rightarrow> Inl (HTTPException 401 ''Token actor_id claim is not a valid UUID'')
           | Some i \<Rightarrow>
               if given (cl_tenant_id c)
               then (case parse_uuid (the (cl_tenant_id c)) of
                       None \<Rightarrow> Inl (HTTPException 401 ''Token tenant_id claim is not a valid UUID'')
                     | Some t \<Rightarrow> Inr \<lparr>ac_id = i, ac_role = the (cl_actor_role c), ac_tenant = Some t\<rparr>)
               else Inr \<lparr>ac_id = i, ac_role = the (cl_actor_role c), ac_tenant = None\<rparr>)"

text \<open>
  \<open>_build_actor_context\<close> of the data source and the dataset guards, which differ in the roles
  whose tokens may omit the tenant.
\<close>

definition build_resource_actor_context :: "string list \<Rightarrow> Claims \<Rightarrow> api_error + Actor" where
  "build_resource_actor_context tenant_optional c =
     (if \<not> given (cl_actor_id c) \<or> \<not> given (cl_actor_role c)
      then Inl (HTTPException 401 ''Token does not contain required identity claims'')
      else if \<not> given (cl_tenant_id c) \<and> the (cl_actor_role c) \<notin> set tenant_optional
      then Inl (HTTPException 401 ''Token does not contain required identity claims'')
      else build_workspace_actor_context c)"

text \<open>\<open>_build_actor_context\<close> of the tenant guards: a tenant that does not parse is dropped.\<close>

definition build_tenant_actor_context :: "Claims \<Rightarrow> api_error + Actor" where
  "build_tenant_actor_context c =
     (if \<not> given (cl_actor_id c) \<or> \<not> given (cl_actor_role c)
      then Inl (TenantAPIError 401 ''unauthorized'' ''Token does not contain required identity claims.'')
      else case parse_uuid (the (cl_actor_id c)) of
             None \<Rightarrow> Inl (TenantAPIError 401 ''unauthorized'' ''Token actor_id claim is not a valid UUID.'')
           | Some i \<Rightarrow> Inr \<lparr>ac_id = i, ac_role = the (cl_actor_role c),
               ac_tenant = (if given (cl_tenant_id c) then parse_uuid (the (cl_tenant_id c)) else None)\<rparr>)"

text \<open>The steps every workspace guard starts with.\<close>

definition workspace_actor :: "(string \<Rightarrow> jwt_result) \<Rightarrow> string option \<Rightarrow> api_error + Actor" where
  "workspace_actor jwt authorization =
     (case extract_bearer_token authorization of
        Inl e \<Rightarrow> Inl e
      | Inr token \<Rightarrow> (case decode_token jwt token of
                        Inl e \<Rightarrow> Inl e
                      | Inr c \<Rightarrow> build_workspace_actor_context c))"

definition resource_actor ::
    "string list \<Rightarrow> (string \<Rightarrow> jwt_result) \<Rightarrow> string option \<Rightarrow> api_error + Actor" where
  "resource_actor tenant_optional jwt authorization =
     (case extract_bearer_token authorization of
        Inl e \<Rightarrow> Inl e
      | Inr token \<Rightarrow> (case decode_token jwt token of
                        Inl e \<Rightarrow> Inl e
                      | Inr c \<Rightarrow> build_resource_actor_context tenant_optional c))"

section \<open>The text of an identifier reads back\<close>

lemma hex_char_code: "0 \<le> n \<Longrightarrow> n < 16 \<Longrightarrow> code_of (hex_char n) = (if n < 10 then 48 + nat n else 87 + nat n)"
  by (auto simp: hex_char_def)

lemma hex_digit_char: "0 \<le> n \<Longrightarrow> n < 16 \<Longrightarrow> hex_digit (hex_char n) = Some n"
  by (auto simp: hex_digit_def hex_char_code Let_def)

definition plain_hex :: "char \<Rightarrow> bool" where
  "plain_hex c \<longleftrightarrow> (48 \<le> code_of c \<and> code_of c \<le> 57) \<or> (97 \<le> code_of c \<and> code_of c \<le> 102)"

lemma hex_char_plain: "0 \<le> n \<Longrightarrow> n < 16 \<Longrightarrow> plain_hex (hex_char n)"
  by (auto simp: plain_hex_def hex_char_code)

lemma hex_text_plain: "list_all plain_hex (hex_text k n)"
  by (induction k arbitrary: n) (auto intro: hex_char_plain)

lemma length_hex_text [simp]: "length (hex_text k n) = k"
  by (induction k arbitrary: n) auto

lemma plain_hex_not: "plain_hex c \<Longrightarrow> c \<notin> {CHR ''_'', CHR ''-'', CHR ''x'', CHR ''X'', CHR ''+'', CHR ''u'', CHR ''{'', CHR ''}''}"
  by (auto simp: plain_hex_def code_of_def)

lemma plain_hex_not_space: "plain_hex c \<Longrightarrow> \<not> is_space c"
  by (auto simp: plain_hex_def is_space_def Let_def)

lemma hex_digits_append:
  assumes "list_all plain_hex s" and "hex_digits acc s = Some v" and "hex_digit c = Some d" and "c \<noteq> CHR ''_''"
  shows "hex_digits acc (s @ [c]) = Some (16 * v + d)"
  using assms(1,2)
proof (induction s arbitrary: acc)
  case Nil
  then show ?case using assms(3,4) by simp
next
  case (Cons x s)
  then have "x \<noteq> CHR ''_''" using plain_hex_not [of x] by auto
  with Cons show ?case by (auto split: option.splits)
qed

lemma hex_digits_text: "hex_digits 0 (hex_text k n) = Some (n mod 16 ^ k)"
proof (induction k arbitrary: n)
  case (Suc k)
  have "hex_char (n mod 16) \<noteq> CHR ''_''" using plain_hex_not [OF hex_char_plain [of "n mod 16"]] by simp
  with hex_digits_append [OF hex_text_plain Suc.IH hex_digit_char]
  have "hex_digits 0 (hex_text (Suc k) n) = Some (16 * (n div 16 mod 16 ^ k) + n mod 16)" by simp
  also have "16 * (n div 16 mod 16 ^ k) + n mod 16 = n mod 16 ^ Suc k"
    by (simp add: mod_mult2_eq zmod_zmult2_eq)
  finally show ?case .
qed simp

lemma remove_text_id: "hd p \<notin> set s \<Longrightarrow> p \<noteq> [] \<Longrightarrow> remove_text p s = s"
proof -
  assume p: "hd p \<notin> set s" "p \<noteq> []"
  have "remove_all k p s = s" for k
    using p
  proof (induction k arbitrary: s)
    case (Suc k)
    then show ?case by (cases s; cases p) auto
  qed simp
  then show ?thesis by (simp add: remove_text_def)
qed

lemma int_base16_plain:
  assumes "list_all plain_hex s" and "2 \<le> length s"
  shows "int_base16 s = hex_digits 0 s"
proof -
  obtain a b r where s: "s = a # b # r" using assms(2) by (cases s; cases "tl s") auto
  have l: "last s \<in> set s" using s by simp
  have "strip s = s"
    using assms(1) s l plain_hex_not_space by (intro strip_id) (auto simp: list_all_iff)
  moreover have "a \<noteq> CHR ''+''" "a \<noteq> CHR ''_''" "b \<noteq> CHR ''x''" "b \<noteq> CHR ''X''"
    using assms(1) s plain_hex_not [of a] plain_hex_not [of b] by auto
  ultimately show ?thesis using s by (auto simp: int_base16_def Let_def)
qed

lemma dashes_out:
  assumes "list_all plain_hex h" and "length h = 32"
  shows "filter (\<lambda>c. c \<noteq> CHR ''-'') (take 8 h @ ''-'' @ take 4 (drop 8 h) @ ''-'' @ take 4 (drop 12 h) @ ''-'' @
     take 4 (drop 16 h) @ ''-'' @ drop 20 h) = h"
proof -
  have "c \<noteq> CHR ''-''" if "c \<in> set h" for c
    using that assms(1) plain_hex_not [of c] by (auto simp: list_all_iff)
  then have id: "filter (\<lambda>c. c \<noteq> CHR ''-'') t = t" if "set t \<subseteq> set h" for t
    using that by (auto intro!: filter_True)
  have sub: "set (take m (drop n h)) \<subseteq> set h" "set (take m h) \<subseteq> set h" "set (drop n h) \<subseteq> set h" for m n
    by (meson order_trans set_take_subset set_drop_subset)+
  have "drop n h = take m (drop n h) @ drop (n + m) h" for m n
    by (metis append_take_drop_id drop_drop add.commute)
  from this [of 8 4] this [of 12 4] this [of 16 4]
  have "take 8 h @ take 4 (drop 8 h) @ take 4 (drop 12 h) @ take 4 (drop 16 h) @ drop 20 h = h"
    by (metis append_take_drop_id numeral_plus_numeral semiring_norm(2,3,4,5,6,8,9,10))
  then show ?thesis by (simp add: id [OF sub(1)] id [OF sub(2)] id [OF sub(3)])
qed

lemma parse_uuid_text: "parse_uuid (uuid_text u) = Some u"
proof -
  define h where "h = hex_text 32 (uint u)"
  have h: "list_all plain_hex h" "length h = 32" by (simp_all add: h_def hex_text_plain)
  let ?t = "take 8 h @ ''-'' @ take 4 (drop 8 h) @ ''-'' @ take 4 (drop 12 h) @ ''-'' @
     take 4 (drop 16 h) @ ''-'' @ drop 20 h"
  have t: "uuid_text u = ?t" by (simp add: uuid_text_def h_def Let_def)
  have chars: "plain_hex c \<or> c = CHR ''-''" if "c \<in> set ?t" for c
    using that h(1) by (auto simp: list_all_iff dest: in_set_takeD in_set_dropD)
  have out: "c \<noteq> CHR ''u'' \<and> c \<noteq> CHR ''{'' \<and> c \<noteq> CHR ''}''" if "c \<in> set ?t" for c
    using chars [OF that] plain_hex_not [of c] by auto
  have "remove_text ''urn:'' ?t = ?t" "remove_text ''uuid:'' ?t = ?t"
    using out by (intro remove_text_id; fastforce)+
  moreover have "hd ?t \<in> set ?t" "last ?t \<in> set ?t" by (intro hd_in_set last_in_set; simp)+
  then have "rev (dropWhile (\<lambda>c. c = CHR ''{'' \<or> c = CHR ''}'') (rev (dropWhile (\<lambda>c. c = CHR ''{'' \<or> c = CHR ''}'') ?t))) = ?t"
    using out by (intro dropWhile_edges) auto
  moreover have "int_base16 h = Some (uint u)"
  proof -
    have "0 \<le> uint u" "uint u < 16 ^ 32" using unsigned_less [of u] by simp_all
    then show ?thesis using int_base16_plain [OF h(1)] h(2) hex_digits_text [of 32 "uint u"] by (simp add: h_def)
  qed
  ultimately show ?thesis
    unfolding parse_uuid_def t Let_def by (simp only: dashes_out [OF h] h(2)) simp
qed

lemma header_token: "token \<noteq> [] \<Longrightarrow> extract_bearer_token (Some (bearer_prefix @ token)) = Inr token"
  by (simp add: extract_bearer_token_def bearer_prefix_def)

lemma uuid_text_not_Nil [simp]: "uuid_text u \<noteq> []"
  by (simp add: uuid_text_def Let_def)

lemma actor_role_not_Nil [simp]: "resolve_actor_role db (Some x) \<noteq> []"
  by (auto simp: resolve_actor_role_def WORKSPACE_ROLE_PRECEDENCE_def Let_def split: option.splits list.splits if_splits)

lemma issued_claims_given [simp]:
  "given (cl_actor_id (issue_claims db x))" "given (cl_actor_role (issue_claims db x))"
  "given (cl_tenant_id (issue_claims db x)) \<longleftrightarrow> us_tenant x \<noteq> None"
  by (cases "us_tenant x"; simp add: issue_claims_def)+

lemma issued_claims_actor:
  "build_workspace_actor_context (issue_claims db x) =
     Inr \<lparr>ac_id = us_id x, ac_role = resolve_actor_role db (Some x), ac_tenant = us_tenant x\<rparr>"
  by (cases "us_tenant x") (simp_all add: build_workspace_actor_context_def issue_claims_def parse_uuid_text)

text \<open>A fresh token reads back as the user it was issued for.\<close>

lemma fresh_token_actor:
  assumes "jwt token = Decoded (issue_claims db x)" and "token \<noteq> []"
  shows "workspace_actor jwt (Some (bearer_prefix @ token)) =
    Inr \<lparr>ac_id = us_id x, ac_role = resolve_actor_role db (Some x), ac_tenant = us_tenant x\<rparr>"
  using assms by (simp add: workspace_actor_def header_token decode_token_def issued_claims_actor)

lemma fresh_token_resource_actor:
  assumes "jwt token = Decoded (issue_claims db x)" and "token \<noteq> []" and "us_tenant x \<noteq> None"
  shows "resource_actor tenant_optional jwt (Some (bearer_prefix @ token)) =
    Inr \<lparr>ac_id = us_id x, ac_role = resolve_actor_role db (Some x), ac_tenant = us_tenant x\<rparr>"
  using assms by (simp add: resource_actor_def header_token decode_token_def issued_claims_actor
      build_resource_actor_context_def)

end
