(* ===== verification/SupportAccess.thy ===== *)
theory SupportAccess
  imports AuthTokens
begin

text \<open>
  Support access grants: \<open>app/services/support_access/service.py\<close> and the endpoints of
  \<open>app/api/v1/endpoints/support_access.py\<close>.  A tenant's own administrator lets the platform
  operators in for a limited time.

  The clock of the application and the clock of the database are one clock in minutes, an
  argument of every operation.  The audit log is the list of committed entries; whether its
  \<open>INSERT\<close> succeeds is an argument too (\<open>audit_ok\<close>).
\<close>

section \<open>The service\<close>

definition MAX_DURATION_MINUTES :: nat where
  "MAX_DURATION_MINUTES = 24 * 60"

definition grant_active :: "nat \<Rightarrow> SupportGrant \<Rightarrow> bool" where
  "grant_active now g \<longleftrightarrow> sg_revoked_at g = None \<and> now < sg_expires_at g"

definition has_active_grant :: "nat \<Rightarrow> control_db \<Rightarrow> uuid option \<Rightarrow> uuid option \<Rightarrow> bool" where
  "has_active_grant now db tenant ws =
     (if tenant = None \<and> ws = None then False
      else case (case tenant of Some t \<Rightarrow> Some t | None \<Rightarrow> workspace_tenant db (the ws)) of
             None \<Rightarrow> False
           | Some t \<Rightarrow> list_ex (\<lambda>g. sg_tenant g = t \<and> (sg_workspace g = None \<or> sg_workspace g = ws) \<and>
                          grant_active now g) (db_grants db))"

text \<open>\<open>max(1, min(duration_minutes, MAX_DURATION_MINUTES))\<close>.\<close>

definition clamp_duration :: "int \<Rightarrow> nat" where
  "clamp_duration d = nat (max 1 (min d (int MAX_DURATION_MINUTES)))"

text \<open>\<open>create_grant\<close>, which commits; \<open>None\<close> is a statement the database rejects.\<close>

definition create_grant ::
    "nat \<Rightarrow> uuid \<Rightarrow> uuid \<Rightarrow> uuid \<Rightarrow> uuid option \<Rightarrow> int \<Rightarrow> string option \<Rightarrow> control_db \<Rightarrow>
     (SupportGrant \<times> control_db) option" where
  "create_grant now i t by ws d reason db =
     (let g = \<lparr>sg_id = i, sg_tenant = t, sg_workspace = ws, sg_granted_by = by, sg_reason = reason,
               sg_created_at = now, sg_expires_at = now + clamp_duration d, sg_revoked_at = None,
               sg_revoked_by = None\<rparr>
      in if i \<in> set (map sg_id (db_grants db)) \<or> t \<notin> set (db_tenants db) \<or>
            (\<exists>w \<in> set_option ws. \<not> workspace_exists db w) \<or> \<not> user_exists db by \<or>
            (\<exists>r \<in> set_option reason. 500 < length r)
         then None
         else Some (g, db\<lparr>db_grants := db_grants db @ [g]\<rparr>))"

definition revoke_grant ::
    "nat \<Rightarrow> uuid \<Rightarrow> uuid \<Rightarrow> uuid \<Rightarrow> control_db \<Rightarrow> (bool \<times> control_db) option" where
  "revoke_grant now t i by db =
     (let hit = (\<lambda>g. sg_id g = i \<and> sg_tenant g = t \<and> sg_revoked_at g = None)
      in if list_ex hit (db_grants db) \<and> \<not> user_exists db by then None
         else Some (list_ex hit (db_grants db),
           db\<lparr>db_grants := update_where hit
               (\<lambda>g. g\<lparr>sg_revoked_at := Some now, sg_revoked_by := Some by\<rparr>) (db_grants db)\<rparr>))"

definition list_grants_for_tenant :: "control_db \<Rightarrow> uuid \<Rightarrow> SupportGrant list" where
  "list_grants_for_tenant db t =
     take 200 (rev (sort_key sg_created_at (filter (\<lambda>g. sg_tenant g = t) (db_grants db))))"

text \<open>Without the names of tenant and workspace the query joins.\<close>

definition list_active_grants_for_platform_admin :: "nat \<Rightarrow> control_db \<Rightarrow> SupportGrant list" where
  "list_active_grants_for_platform_admin now db =
     sort_key sg_expires_at (filter (grant_active now) (db_grants db))"

section \<open>Who may grant\<close>

definition require_client_tenant_admin :: "control_db \<Rightarrow> uuid \<Rightarrow> Actor \<Rightarrow> api_error option" where
  "require_client_tenant_admin db t actor =
     (if ac_role actor = ''tenant_admin''
      then if ac_tenant actor = Some t then None
           else Some (TenantAPIError 403 ''forbidden'' ''Tenant admin privileges do not extend to this tenant.'')
      else case user_row db (ac_id actor) of
             Some x \<Rightarrow>
               if us_tenant x = Some t \<and> is_workspace_admin_in_tenant db (us_id x) t then None
               else Some (TenantAPIError 403 ''forbidden''
                      (''Only the tenant'' @ [CHR 0x27] @ ''s own admin may grant or revoke support access.''))
           | None \<Rightarrow> Some (TenantAPIError 403 ''forbidden''
                      (''Only the tenant'' @ [CHR 0x27] @ ''s own admin may grant or revoke support access.'')))"

text \<open>\<open>validate_uuid_path_param\<close>; a final line feed passes the pattern but not \<open>UUID\<close>.\<close>

definition validate_uuid_path_param :: "string \<Rightarrow> string \<Rightarrow> api_error + uuid" where
  "validate_uuid_path_param v name =
     (if v = [] \<or> \<not> uuid_v4_pattern v
      then Inl (TenantAPIError 400 ''invalid_path_parameter''
             (''Path parameter '' @ [CHR 0x27] @ name @ [CHR 0x27] @ '' must be a valid UUID v4.''))
      else case parse_uuid v of
             None \<Rightarrow> Inl (Unhandled ''ValueError'')
           | Some u \<Rightarrow> Inr u)"

section \<open>The endpoints\<close>

record support_state =
  ss_db :: control_db
  ss_audit :: "(string \<times> uuid) list"

text \<open>
  \<open>POST .../support-access-grants\<close>.  The body model admits 1 to 1440 minutes and 500 characters.
  \<open>create_grant\<close> has committed when the audit entry is written.
\<close>

definition create_support_access_grant ::
    "bool \<Rightarrow> nat \<Rightarrow> uuid \<Rightarrow> string \<Rightarrow> uuid option \<Rightarrow> int \<Rightarrow> string option \<Rightarrow> Actor \<Rightarrow> support_state \<Rightarrow>
     (api_error + SupportGrant) \<times> support_state" where
  "create_support_access_grant audit_ok now i tenant_text ws d reason actor st =
     (if d < 1 \<or> int MAX_DURATION_MINUTES < d \<or> (\<exists>r \<in> set_option reason. 500 < length r)
      then (Inl (HTTPException 422 ''body''), st)
      else case validate_uuid_path_param tenant_text ''tenant_id'' of
        Inl e \<Rightarrow> (Inl e, st)
      | Inr t \<Rightarrow>
          (case require_client_tenant_admin (ss_db st) t actor of
             Some e \<Rightarrow> (Inl e, st)
           | None \<Rightarrow>
               if (\<exists>w \<in> set_option ws. workspace_tenant (ss_db st) w \<noteq> Some t)
               then (Inl (TenantAPIError 422 ''validation_error''
                       ''workspace_id does not belong to this tenant.''), st)
               else (case create_grant now i t (ac_id actor) ws d reason (ss_db st) of
                       None \<Rightarrow> (Inl (Unhandled ''IntegrityError''), st)
                     | Some (g, db) \<Rightarrow>
                         if audit_ok
                         then (Inr g, \<lparr>ss_db = db, ss_audit = ss_audit st @ [(''support_access_granted'', i)]\<rparr>)
                         else (Inl (Unhandled ''AuditWriteFailedError''), st\<lparr>ss_db := db\<rparr>))))"

definition revoke_support_access_grant ::
    "bool \<Rightarrow> nat \<Rightarrow> string \<Rightarrow> string \<Rightarrow> Actor \<Rightarrow> support_state \<Rightarrow> (api_error + unit) \<times> support_state" where
  "revoke_support_access_grant audit_ok now tenant_text grant_text actor st =
     (case validate_uuid_path_param tenant_text ''tenant_id'' of
        Inl e \<Rightarrow> (Inl e, st)
      | Inr t \<Rightarrow>
          (case validate_uuid_path_param grant_text ''grant_id'' of
             Inl e \<Rightarrow> (Inl e, st)
           | Inr i \<Rightarrow>
               (case require_client_tenant_admin (ss_db st) t actor of
                  Some e \<Rightarrow> (Inl e, st)
                | None \<Rightarrow>
                    (case revoke_grant now t i (ac_id actor) (ss_db st) of
                       None \<Rightarrow> (Inl (Unhandled ''IntegrityError''), st)
                     | Some (revoked, db) \<Rightarrow>
                         if \<not> revoked
                         then (Inl (TenantAPIError 404 ''not_found'' ''Grant not found or already revoked.''),
                               st\<lparr>ss_db := db\<rparr>)
                         else if audit_ok
                         then (Inr (), \<lparr>ss_db = db, ss_audit = ss_audit st @ [(''support_access_revoked'', i)]\<rparr>)
                         else (Inl (Unhandled ''AuditWriteFailedError''), st\<lparr>ss_db := db\<rparr>)))))"

section \<open>Runs of the control plane\<close>

text \<open>
  One request at time \<open>now\<close>: a call of the role service, or one of the two endpoints by any
  actor, with any outcome.
\<close>

inductive control_step :: "nat \<Rightarrow> support_state \<Rightarrow> support_state \<Rightarrow> bool" for now where
  step_role: "rbac_step w (ss_db st) db' \<Longrightarrow> control_step now st (st\<lparr>ss_db := db'\<rparr>)"
| step_open: "create_support_access_grant audit_ok now i t ws d reason actor st = (r, st') \<Longrightarrow>
    control_step now st st'"
| step_close: "revoke_support_access_grant audit_ok now t g actor st = (r, st') \<Longrightarrow>
    control_step now st st'"

text \<open>A run from time \<open>t0\<close> to time \<open>t\<close>; the clock does not go back.\<close>

inductive control_run :: "support_state \<Rightarrow> nat \<Rightarrow> support_state \<Rightarrow> nat \<Rightarrow> bool" for st0 t0 where
  run_start: "control_run st0 t0 st0 t0"
| run_wait: "control_run st0 t0 st t \<Longrightarrow> t \<le> t' \<Longrightarrow> control_run st0 t0 st t'"
| run_step: "control_run st0 t0 st t \<Longrightarrow> control_step t st st' \<Longrightarrow> control_run st0 t0 st' t"

end
