(* ===== verification/AuthGuards.thy ===== *)
theory AuthGuards
  imports SupportAccess
begin

text \<open>
  The authorization guards of \<open>app/api/v1/dependencies\<close>: \<open>workspace_auth.py\<close>,
  \<open>data_source_auth.py\<close>, \<open>dataset_auth.py\<close> and \<open>tenant_auth.py\<close>.  A guard maps the
  request (here the authorization header and the path parameters), the tables and the time to an
  error or the actor.  \<open>verify_actor_active\<close> never rejects an actor, so it does not appear;
  neither do the metrics and the log.
\<close>

section \<open>Workspace guards\<close>

definition PLATFORM_OPERATOR_ROLES :: "string list" where
  "PLATFORM_OPERATOR_ROLES = [''platform_admin'', ''platform_viewer'']"

definition PLATFORM_READ_ACTIONS :: "string list" where
  "PLATFORM_READ_ACTIONS = [''view_audit_logs'']"

definition AUDIT_LOG_ALLOWED_ROLES :: "string list" where
  "AUDIT_LOG_ALLOWED_ROLES = ''workspace_administrator'' # PLATFORM_OPERATOR_ROLES"

definition SETTINGS_READ_ALLOWED_ROLES :: "string list" where
  "SETTINGS_READ_ALLOWED_ROLES =
     [''workspace_administrator'', ''data_engineer'', ''data_steward''] @ PLATFORM_OPERATOR_ROLES"

text \<open>\<open>_require_support_grant\<close>; the workspace comes from the path.\<close>

definition require_support_grant ::
    "nat \<Rightarrow> control_db \<Rightarrow> uuid option \<Rightarrow> uuid \<Rightarrow> Actor \<Rightarrow> api_error + Actor" where
  "require_support_grant now db tenant w actor =
     (if has_active_grant now db tenant (Some w) then Inr actor
      else Inl (InsufficientPermissionsError (''This requires an active support access grant from the '' @
        ''tenant admin. Ask the tenant admin to grant temporary support access, or check your '' @
        ''active grants in the admin console.'')))"

text \<open>\<open>verify_workspace_admin_in_tenant\<close> after the actor is known: who may create a workspace.\<close>

definition tenant_has_admin :: "control_db \<Rightarrow> uuid \<Rightarrow> bool" where
  "tenant_has_admin db t \<longleftrightarrow>
     list_ex (\<lambda>a. list_ex (\<lambda>x. ws_id x = ra_workspace a \<and> ws_tenant x = t \<and> ra_role a = admin_role)
                (db_workspaces db)) (db_assignments db)"

definition workspace_create_rule :: "control_db \<Rightarrow> Actor \<Rightarrow> api_error + Actor" where
  "workspace_create_rule db actor =
     (if ac_role actor = ''platform_admin'' then Inr actor
      else if ac_role actor = ''tenant_admin''
      then (if ac_tenant actor = None
            then Inl (HTTPException 401 ''Tenant admin token missing tenant_id claim.'') else Inr actor)
      else case ac_tenant actor of
             None \<Rightarrow> Inl (HTTPException 401 ''Token does not contain tenant_id; cannot create workspace.'')
           | Some t \<Rightarrow>
               if ac_role actor = ''member'' \<and>
                  (is_workspace_admin_in_tenant db (ac_id actor) t \<or>
                   (case user_row db (ac_id actor) of None \<Rightarrow> False | Some x \<Rightarrow> us_tenant x = Some t) \<and>
                   \<not> tenant_has_admin db t)
               then Inr actor
               else Inl (InsufficientPermissionsError
                      ''Only workspace administrators and platform admins can create workspaces''))"

definition verify_workspace_admin_in_tenant ::
    "(string \<Rightarrow> jwt_result) \<Rightarrow> control_db \<Rightarrow> string option \<Rightarrow> api_error + Actor" where
  "verify_workspace_admin_in_tenant jwt db authorization =
     (case workspace_actor jwt authorization of
        Inl e \<Rightarrow> Inl e
      | Inr actor \<Rightarrow> workspace_create_rule db actor)"

definition verify_audit_log_actor ::
    "(string \<Rightarrow> jwt_result) \<Rightarrow> nat \<Rightarrow> control_db \<Rightarrow> string option \<Rightarrow> uuid \<Rightarrow> api_error + Actor" where
  "verify_audit_log_actor jwt now db authorization w =
     (case workspace_actor jwt authorization of
        Inl e \<Rightarrow> Inl e
      | Inr actor \<Rightarrow>
          if ac_role actor \<notin> set AUDIT_LOG_ALLOWED_ROLES
          then Inl (InsufficientPermissionsError
                 ''Only Workspace Administrators and Platform Operators may view audit logs.'')
          else if ac_role actor \<in> set PLATFORM_OPERATOR_ROLES
          then require_support_grant now db (ac_tenant actor) w actor
          else Inr actor)"

definition verify_workspace_settings_read_actor ::
    "(string \<Rightarrow> jwt_result) \<Rightarrow> nat \<Rightarrow> control_db \<Rightarrow> string option \<Rightarrow> uuid \<Rightarrow> api_error + Actor" where
  "verify_workspace_settings_read_actor jwt now db authorization w =
     (case workspace_actor jwt authorization of
        Inl e \<Rightarrow> Inl e
      | Inr actor \<Rightarrow>
          if ac_role actor \<notin> set SETTINGS_READ_ALLOWED_ROLES
          then Inl (InsufficientPermissionsError
                 ''Your role does not have permission to read workspace settings.'')
          else if ac_role actor \<in> set PLATFORM_OPERATOR_ROLES
          then require_support_grant now db (ac_tenant actor) w actor
          else Inr actor)"

definition verify_workspace_settings_write_actor ::
    "(string \<Rightarrow> jwt_result) \<Rightarrow> nat \<Rightarrow> control_db \<Rightarrow> string option \<Rightarrow> uuid \<Rightarrow> api_error + Actor" where
  "verify_workspace_settings_write_actor jwt now db authorization w =
     (case workspace_actor jwt authorization of
        Inl e \<Rightarrow> Inl e
      | Inr actor \<Rightarrow>
          if ac_role actor \<noteq> ''workspace_administrator'' \<and> ac_role actor \<noteq> ''platform_admin''
          then Inl (InsufficientPermissionsError
                 ''Only Workspace Administrators and Platform Admins may update workspace settings.'')
          else if ac_role actor = ''platform_admin''
          then require_support_grant now db (ac_tenant actor) w actor
          else Inr actor)"

text \<open>\<open>require_workspace_permission(action)\<close>, first for a known actor.\<close>

definition permission_rule ::
    "nat \<Rightarrow> string \<Rightarrow> control_db \<Rightarrow> uuid \<Rightarrow> Actor \<Rightarrow> api_error + Actor" where
  "permission_rule now action db w actor =
     (if ac_role actor \<in> set PLATFORM_OPERATOR_ROLES
      then if \<not> has_active_grant now db None (Some w)
           then Inl (InsufficientPermissionsError
             (''This workspace requires an active support access grant from the '' @
              ''tenant admin. Ask them to grant temporary support access, or check '' @
              ''your active grants in the admin console.''))
           else if ac_role actor = ''platform_admin'' then Inr actor
           else if ends_with '':read'' action \<or> action \<in> set PLATFORM_READ_ACTIONS then Inr actor
           else Inl (InsufficientPermissionsError
                  (''Platform viewers may not perform '' @ [CHR 0x27] @ action @ [CHR 0x27] @ '' on workspaces.''))
      else if ac_role actor = ''tenant_admin''
      then if workspace_tenant db w \<noteq> None \<and> ac_tenant actor \<noteq> None \<and> workspace_tenant db w = ac_tenant actor
           then Inr actor
           else Inl (InsufficientPermissionsError ''Tenant admin privileges do not extend to this workspace.'')
      else if check_permission db w (ac_id actor) action then Inr actor
      else Inl (InsufficientPermissionsError
             (''You do not have permission to perform '' @ [CHR 0x27] @ action @ [CHR 0x27] @
              '' in this workspace.'')))"

definition require_workspace_permission ::
    "(string \<Rightarrow> jwt_result) \<Rightarrow> nat \<Rightarrow> string \<Rightarrow> control_db \<Rightarrow> string option \<Rightarrow> uuid \<Rightarrow> api_error + Actor" where
  "require_workspace_permission jwt now action db authorization w =
     (case workspace_actor jwt authorization of
        Inl e \<Rightarrow> Inl e
      | Inr actor \<Rightarrow> permission_rule now action db w actor)"

section \<open>Data source and dataset guards\<close>

definition DATA_SOURCE_WRITE_ROLES :: "string list" where
  "DATA_SOURCE_WRITE_ROLES =
     [''workspace_administrator'', ''data_engineer'', ''tenant_admin'', ''platform_admin'',
      ''workspace_steward'']"

definition DATA_SOURCE_READ_ROLES :: "string list" where
  "DATA_SOURCE_READ_ROLES =
     [''workspace_administrator'', ''data_engineer'', ''data_steward'', ''business_analyst'',
      ''governance_viewer'', ''tenant_admin'', ''member'', ''platform_admin'', ''platform_viewer'',
      ''workspace_steward'', ''workspace_viewer'', ''platform_operator'']"

definition SOURCE_TENANT_OPTIONAL_ROLES :: "string list" where
  "SOURCE_TENANT_OPTIONAL_ROLES = [''platform_admin'', ''platform_viewer'']"

definition DATASET_WRITE_ROLES :: "string list" where
  "DATASET_WRITE_ROLES =
     [''workspace_administrator'', ''data_engineer'', ''data_steward'', ''platform_admin'',
      ''tenant_admin'', ''workspace_steward'']"

definition DATASET_READ_ROLES :: "string list" where
  "DATASET_READ_ROLES =
     [''workspace_administrator'', ''data_engineer'', ''data_steward'', ''business_analyst'',
      ''governance_viewer'', ''platform_admin'', ''platform_viewer'', ''tenant_admin'',
      ''workspace_steward'', ''workspace_viewer'', ''data_owner'', ''platform_operator'']"

definition DATASET_ARCHIVE_ROLES :: "string list" where
  "DATASET_ARCHIVE_ROLES = [''workspace_administrator'', ''platform_admin'', ''tenant_admin'']"

definition DATASET_PAUSE_ROLES :: "string list" where
  "DATASET_PAUSE_ROLES =
     [''workspace_administrator'', ''data_engineer'', ''platform_admin'', ''tenant_admin'']"

definition DATASET_TENANT_OPTIONAL_ROLES :: "string list" where
  "DATASET_TENANT_OPTIONAL_ROLES = [''platform_admin'', ''platform_viewer'', ''platform_operator'']"

text \<open>\<open>_require_support_grant_if_platform_admin\<close>.\<close>

definition require_grant_if_platform_admin ::
    "nat \<Rightarrow> control_db \<Rightarrow> uuid \<Rightarrow> Actor \<Rightarrow> api_error + Actor" where
  "require_grant_if_platform_admin now db w actor =
     (if ac_role actor \<noteq> ''platform_admin'' then Inr actor
      else if has_active_grant now db None (Some w) then Inr actor
      else Inl (HTTPException 403 (''This requires an active support access grant from the tenant admin. '' @
        ''Ask them to grant temporary support access, or check your active '' @
        ''grants in the admin console.'')))"

text \<open>
  The body the six guards share: the role of the token, then the grant.  The detail of the
  rejection goes on with the list of the roles.
\<close>

definition role_guard ::
    "string \<Rightarrow> string list \<Rightarrow> string list \<Rightarrow> (string \<Rightarrow> jwt_result) \<Rightarrow> nat \<Rightarrow> control_db \<Rightarrow> string option \<Rightarrow> uuid \<Rightarrow>
     api_error + Actor" where
  "role_guard purpose tenant_optional roles jwt now db authorization w =
     (case resource_actor tenant_optional jwt authorization of
        Inl e \<Rightarrow> Inl e
      | Inr actor \<Rightarrow>
          if ac_role actor \<notin> set roles then Inl (HTTPException 403
            (''Role '' @ [CHR 0x27] @ ac_role actor @ [CHR 0x27] @ '' is not authorised to '' @ purpose @ ''.''))
          else require_grant_if_platform_admin now db w actor)"

definition verify_data_source_write_actor where
  "verify_data_source_write_actor =
     role_guard ''modify data sources'' SOURCE_TENANT_OPTIONAL_ROLES DATA_SOURCE_WRITE_ROLES"

definition verify_data_source_read_actor where
  "verify_data_source_read_actor =
     role_guard ''read data sources'' SOURCE_TENANT_OPTIONAL_ROLES DATA_SOURCE_READ_ROLES"

definition verify_dataset_write_actor where
  "verify_dataset_write_actor =
     role_guard ''modify datasets'' DATASET_TENANT_OPTIONAL_ROLES DATASET_WRITE_ROLES"

definition verify_dataset_read_actor where
  "verify_dataset_read_actor =
     role_guard ''read datasets'' DATASET_TENANT_OPTIONAL_ROLES DATASET_READ_ROLES"

definition verify_dataset_archive_actor where
  "verify_dataset_archive_actor =
     role_guard ''archive datasets'' DATASET_TENANT_OPTIONAL_ROLES DATASET_ARCHIVE_ROLES"

definition verify_dataset_pause_actor where
  "verify_dataset_pause_actor =
     role_guard ''pause/deactivate datasets'' DATASET_TENANT_OPTIONAL_ROLES DATASET_PAUSE_ROLES"

section \<open>Tenant guards\<close>

definition TENANT_WRITE_ALLOWED :: "string list" where
  "TENANT_WRITE_ALLOWED = [''platform_admin'']"

definition TENANT_READ_ALLOWED :: "string list" where
  "TENANT_READ_ALLOWED = [''platform_admin'', ''platform_viewer'']"

definition tenant_forbidden :: "string \<Rightarrow> api_error" where
  "tenant_forbidden m = TenantAPIError 403 ''forbidden'' m"

text \<open>\<open>require_write_access\<close> and \<open>require_read_access\<close>.\<close>

definition require_write_access :: "Actor \<Rightarrow> api_error + Actor" where
  "require_write_access actor =
     (if ac_role actor \<notin> set TENANT_WRITE_ALLOWED
      then Inl (tenant_forbidden ''This operation requires platform_admin role.'') else Inr actor)"

definition require_read_access :: "Actor \<Rightarrow> api_error + Actor" where
  "require_read_access actor =
     (if ac_role actor \<notin> set TENANT_READ_ALLOWED
      then Inl (tenant_forbidden ''Insufficient role to access this resource.'') else Inr actor)"

text \<open>\<open>_is_tenant_admin\<close>: by the role of the token, or by an assignment in the tenant.\<close>

definition is_tenant_admin :: "control_db \<Rightarrow> uuid \<Rightarrow> Actor \<Rightarrow> bool" where
  "is_tenant_admin db t actor \<longleftrightarrow>
     (ac_role actor = ''tenant_admin'' \<and> ac_tenant actor = Some t) \<or>
     (list_ex (\<lambda>x. us_id x = ac_id actor \<and> us_tenant x = Some t) (db_users db) \<and>
      is_workspace_admin_in_tenant db (ac_id actor) t)"

definition is_workspace_member_of_tenant :: "control_db \<Rightarrow> uuid \<Rightarrow> Actor \<Rightarrow> bool" where
  "is_workspace_member_of_tenant db t actor \<longleftrightarrow>
     list_ex (\<lambda>a. list_ex (\<lambda>x. ws_id x = ra_workspace a \<and> ra_user a = ac_id actor \<and> ws_tenant x = t)
                (db_workspaces db)) (db_assignments db)"

definition require_tenant_read_access :: "control_db \<Rightarrow> string \<Rightarrow> Actor \<Rightarrow> api_error + Actor" where
  "require_tenant_read_access db tenant_text actor =
     (if ac_role actor \<in> set TENANT_READ_ALLOWED then Inr actor
      else case validate_uuid_path_param tenant_text ''tenant_id'' of
             Inl e \<Rightarrow> Inl e
           | Inr t \<Rightarrow> if is_tenant_admin db t actor then Inr actor
                      else Inl (tenant_forbidden ''Insufficient role to access this resource.''))"

definition require_tenant_write_access :: "control_db \<Rightarrow> string \<Rightarrow> Actor \<Rightarrow> api_error + Actor" where
  "require_tenant_write_access db tenant_text actor =
     (if ac_role actor \<in> set TENANT_WRITE_ALLOWED then Inr actor
      else case validate_uuid_path_param tenant_text ''tenant_id'' of
             Inl e \<Rightarrow> Inl e
           | Inr t \<Rightarrow> if is_tenant_admin db t actor then Inr actor
                      else Inl (tenant_forbidden ''This operation requires tenant admin privileges.''))"

definition require_tenant_member_read_access :: "control_db \<Rightarrow> string \<Rightarrow> Actor \<Rightarrow> api_error + Actor" where
  "require_tenant_member_read_access db tenant_text actor =
     (if ac_role actor \<in> set TENANT_READ_ALLOWED then Inr actor
      else case validate_uuid_path_param tenant_text ''tenant_id'' of
             Inl e \<Rightarrow> Inl e
           | Inr t \<Rightarrow> if is_tenant_admin db t actor \<or> is_workspace_member_of_tenant db t actor
                      then Inr actor
                      else Inl (tenant_forbidden ''Insufficient role to access this resource.''))"

text \<open>
  \<open>enforce_data_source_tenant_admin_lockdown\<close>; \<open>lockdown\<close> is the setting
  \<open>WORKSPACE_DATA_SOURCE_TENANT_ADMIN_ONLY\<close>.
\<close>

definition enforce_data_source_tenant_admin_lockdown ::
    "bool \<Rightarrow> control_db \<Rightarrow> uuid \<Rightarrow> Actor \<Rightarrow> api_error option" where
  "enforce_data_source_tenant_admin_lockdown lockdown db w actor =
     (if \<not> lockdown then None
      else if ac_role actor = ''platform_admin'' then None
      else case workspace_tenant db w of
             None \<Rightarrow> Some (HTTPException 404 ''Workspace not found'')
           | Some t \<Rightarrow>
               if ac_tenant actor \<noteq> Some t then Some (HTTPException 404 ''Workspace not found'')
               else if \<not> is_tenant_admin db t actor then Some (HTTPException 403 ''RBAC_FORBIDDEN'')
               else None)"

end
