(* ===== verification/RoleSafety.thy ===== *)
theory RoleSafety
  imports RBAC
begin

text \<open>
  What the role service guarantees: the last administrator of a workspace stays, assigned roles
  never dangle, a workspace is not affected by role changes in another, an assignment does what
  it says and nothing else, and the search for new members.
\<close>

section \<open>Samples\<close>

definition sample_user :: "uuid \<Rightarrow> string \<Rightarrow> uuid \<Rightarrow> User" where
  "sample_user i mail t = \<lparr>us_id = i, us_email = mail, us_full_name = None, us_platform_role = None,
     us_tenant = Some t\<rparr>"

definition sample_assignment :: "uuid \<Rightarrow> uuid \<Rightarrow> uuid \<Rightarrow> string \<Rightarrow> RoleAssignment" where
  "sample_assignment i w u n = \<lparr>ra_id = i, ra_workspace = w, ra_user = u, ra_role = n,
     ra_granted_by = None, ra_granted_at = 0\<rparr>"

text \<open>Tenant 1 with workspaces 10 and 11, users 101, 102 and 103; user 101 administers both.\<close>

definition sample_db :: control_db where
  "sample_db = \<lparr>db_tenants = [1],
     db_users = [sample_user 101 ''ann@x'' 1, sample_user 102 ''bob@x'' 1, sample_user 103 ''Bo%@y'' 1],
     db_workspaces = [\<lparr>ws_id = 10, ws_tenant = 1\<rparr>, \<lparr>ws_id = 11, ws_tenant = 1\<rparr>],
     db_assignments = [sample_assignment 201 10 101 admin_role, sample_assignment 202 11 101 admin_role],
     db_roles = [], db_permissions = [], db_grants = []\<rparr>"

lemmas sample_simps = sample_db_def sample_user_def sample_assignment_def

lemma sample_wf: "rbac_wf sample_db"
  by (simp add: rbac_wf_def unique_keys_def assignments_ok_def roles_ok_def workspace_exists_def
      user_exists_def sample_simps)

section \<open>The last administrator\<close>

lemma admin_kept_grant:
  assumes "grant_workspace_admin now i w u db = Inr db'" and "has_admin db v"
  shows "has_admin db' v"
proof -
  have "insert_assignment None \<lparr>ra_id = i, ra_workspace = w, ra_user = u, ra_role = admin_role,
      ra_granted_by = None, ra_granted_at = now\<rparr> db = Some db'"
    using assms(1) by (simp add: grant_workspace_admin_def split: option.splits)
  then show ?thesis
    by (cases rule: insert_assignment_cases) (use assms(2) in \<open>auto simp: has_admin_def\<close>)
qed

text \<open>The row of one user changes, who is not the only administrator.\<close>

lemma admin_kept_others:
  assumes wf: "rbac_wf db" and same: "same_others w u db db'"
    and guard: "map_option ra_role (get_member_role db w u) = Some admin_role \<longrightarrow> 1 < get_admin_count db w"
    and "has_admin db v"
  shows "has_admin db' v"
proof -
  from assms(4) obtain b where b: "b \<in> set (db_assignments db)" "is_admin_of v b"
    by (auto simp: has_admin_def)
  show ?thesis
  proof (cases "(ra_workspace b, ra_user b) = (w, u)")
    case True
    then have "get_member_role db w u = Some b" using member_role_iff [OF wf] b(1) by simp
    with guard b(2) have "1 < get_admin_count db w" by (simp add: is_admin_of_def)
    from other_admin [OF wf this, of u] obtain c where "c \<in> set (db_assignments db)" "is_admin_of w c"
        "ra_user c \<noteq> u" by blast
    with has_admin_others [OF same, of c w] True b(2) show ?thesis by (simp add: is_admin_of_def)
  next
    case False
    with has_admin_others [OF same b] show ?thesis .
  qed
qed

lemma has_admin_same: "db_assignments db' = db_assignments db \<Longrightarrow> has_admin db v \<Longrightarrow> has_admin db' v"
  by (simp add: has_admin_def)

lemma admin_kept_step:
  assumes "rbac_step w db db'" and wf: "rbac_wf db" and admin: "has_admin db v"
  shows "has_admin db' v"
  using assms(1)
proof cases
  case (step_grant now i u)
  with admin show ?thesis by (auto intro: admin_kept_grant)
next
  case (step_assign now i u n g r)
  then show ?thesis
  proof (cases rule: assign_role_cases)
    case same
    with admin show ?thesis by simp
  next
    case (upsert f a)
    then have "same_others (ra_workspace a) (ra_user a) db db'"
      by (intro insert_same_others [OF upsert(1)]) auto
    with admin_kept_others [OF wf _ upsert(7) admin] upsert(3) show ?thesis by simp
  qed
next
  case (step_revoke u)
  then have "same_others w u db db'"
      "map_option ra_role (get_member_role db w u) = Some admin_role \<longrightarrow> 1 < get_admin_count db w"
    by (auto simp: same_others_def revoke_role_def split: option.splits if_splits)
  from admin_kept_others [OF wf this admin] show ?thesis .
qed (use admin in \<open>auto intro: has_admin_same custom_steps_keep_assignments\<close>)

text \<open>
  C9: A workspace never loses its last administrator: from well-formed tables, no sequence of
  successful calls of the role service, in whatever workspaces and by whomever, takes a workspace
  with an administrator to one without.
\<close>

theorem last_administrator_stays:
  assumes "rbac_reaches db db'" and "rbac_wf db" and "0 < get_admin_count db w"
  shows "0 < get_admin_count db' w"
  using assms(1) unfolding admin_count_pos
proof (induction rule: reaches_induct)
  case refl
  then show ?case using assms(3) by (simp add: admin_count_pos)
next
  case (step v x y)
  then show ?case using wf_reaches [OF _ assms(2)] admin_kept_step by blast
qed

text \<open>The sample after user 102 has become an administrator of workspace 10.\<close>

definition sample_promoted :: control_db where
  "sample_promoted = sample_db\<lparr>db_assignments :=
     db_assignments sample_db @ [\<lparr>ra_id = 203, ra_workspace = 10, ra_user = 102, ra_role = admin_role,
       ra_granted_by = Some 101, ra_granted_at = 7\<rparr>]\<rparr>"

lemma sample_promotion:
  "assign_role 7 203 10 102 admin_role 101 sample_db = Inr (get_member_role sample_promoted 10 102, sample_promoted)"
  by code_simp

lemma sample_reaches: "rbac_reaches sample_db sample_promoted"
  using step_assign [OF sample_promotion] unfolding rbac_reaches_def by blast

theorem last_administrator_stays_witness:
  "0 < get_admin_count sample_promoted 10 \<and> get_admin_count sample_db 10 = 1"
proof -
  have one: "get_admin_count sample_db 10 = 1" by code_simp
  then have "0 < get_admin_count sample_db 10" by simp
  from last_administrator_stays [OF sample_reaches sample_wf this] one show ?thesis by blast
qed

section \<open>Assigned roles resolve\<close>

text \<open>
  The role tables stay well-formed: along every sequence of successful calls the keys stay
  unique and the references intact, and every role a member holds resolves to a set of known
  permissions, although custom roles are created, changed and deleted on the way.
\<close>

theorem assigned_roles_resolve:
  assumes "rbac_reaches db db'" and "rbac_wf db"
  shows "rbac_wf db' \<and>
    (\<forall>w u a. get_member_role db' w u = Some a \<longrightarrow>
       (\<exists>ps. get_role_permissions db' w (ra_role a) = Some ps \<and> set ps \<subseteq> set ALL_KNOWN_PERMISSIONS))"
proof -
  note wf = wf_reaches [OF assms]
  have "\<exists>ps. get_role_permissions db' w (ra_role a) = Some ps \<and> set ps \<subseteq> set ALL_KNOWN_PERMISSIONS"
    if "get_member_role db' w u = Some a" for w u a
  proof -
    from that have "a \<in> set (db_assignments db')" "ra_workspace a = w"
      by (simp_all add: member_role_iff [OF wf])
    then have "role_known db' w (ra_role a)" using wf_assignmentD [OF wf] by blast
    then show ?thesis by (rule role_permissions_known [OF wf])
  qed
  with wf show ?thesis by blast
qed

theorem assigned_roles_resolve_witness:
  "rbac_wf sample_promoted \<and> get_member_role sample_promoted 10 102 \<noteq> None"
  using assigned_roles_resolve [OF sample_reaches sample_wf]
  by (auto simp: sample_promoted_def sample_simps get_member_role_def)

section \<open>What a permission check decides\<close>

lemma custom_role_permissions:
  assumes "rbac_wf db"
  shows "(\<exists>ps. map_option snd (get_custom_role_by_name db w n) = Some ps \<and> act \<in> set ps) \<longleftrightarrow>
    (\<exists>r \<in> set (db_roles db). cr_workspace r = w \<and> cr_name r = n \<and> (cr_id r, act) \<in> set (db_permissions db))"
proof -
  have "(\<exists>ps. map_option snd (get_custom_role_by_name db w n) = Some ps \<and> act \<in> set ps) \<longleftrightarrow>
      (\<exists>r qs. get_custom_role_by_name db w n = Some (r, qs) \<and> act \<in> set qs)"
    by auto
  then show ?thesis unfolding custom_role_by_name_iff [OF assms] set_permissions_of [symmetric] by blast
qed

text \<open>
  A permission check is decided by the one role of the user in that workspace: by the table
  of the fixed roles, or by the grants of the custom role of that name in the same workspace.
  The fixed roles form a chain, from the analyst to the administrator who has every permission.
\<close>

theorem permission_decision:
  assumes "rbac_wf db"
  shows "(check_permission db w u act \<longleftrightarrow>
      (\<exists>a \<in> set (db_assignments db). ra_workspace a = w \<and> ra_user a = u \<and>
         ((\<exists>ps. (ra_role a, ps) \<in> set FIXED_ROLE_PERMISSIONS \<and> act \<in> set ps) \<or>
          (\<exists>r \<in> set (db_roles db). cr_workspace r = w \<and> cr_name r = ra_role a \<and>
             (cr_id r, act) \<in> set (db_permissions db))))) \<and>
    set business_analyst_permissions \<subset> set governance_viewer_permissions \<and>
    set governance_viewer_permissions \<subset> set data_steward_permissions \<and>
    set data_steward_permissions \<subset> set data_engineer_permissions \<and>
    set data_engineer_permissions \<subset> set workspace_administrator_permissions \<and>
    set workspace_administrator_permissions = set ALL_KNOWN_PERMISSIONS"
proof -
  have fixed: "map_of FIXED_ROLE_PERMISSIONS n = Some ps \<longleftrightarrow> (n, ps) \<in> set FIXED_ROLE_PERMISSIONS" for n ps
    by (rule map_of_eq_Some_iff) (simp add: FIXED_ROLE_PERMISSIONS_def)
  have custom: "cr_name r \<notin> set VALID_ROLE_NAMES" if "r \<in> set (db_roles db)" for r
    using assms that by (simp add: rbac_wf_def roles_ok_def)
  have role: "(\<exists>ps. get_role_permissions db w n = Some ps \<and> act \<in> set ps) \<longleftrightarrow>
      (\<exists>ps. (n, ps) \<in> set FIXED_ROLE_PERMISSIONS \<and> act \<in> set ps) \<or>
      (\<exists>r \<in> set (db_roles db). cr_workspace r = w \<and> cr_name r = n \<and> (cr_id r, act) \<in> set (db_permissions db))" for n
  proof (cases "map_of FIXED_ROLE_PERMISSIONS n")
    case None
    then have "get_role_permissions db w n = map_option snd (get_custom_role_by_name db w n)"
      by (simp add: get_role_permissions_def)
    moreover have "\<not> (\<exists>ps. (n, ps) \<in> set FIXED_ROLE_PERMISSIONS)" using None fixed [of n] by simp
    ultimately show ?thesis using custom_role_permissions [OF assms, of w n act] by simp
  next
    case (Some ps)
    then have "n \<in> set VALID_ROLE_NAMES" using map_of_fixed [of n] by auto
    then have "\<not> (\<exists>r \<in> set (db_roles db). cr_workspace r = w \<and> cr_name r = n \<and>
        (cr_id r, act) \<in> set (db_permissions db))" using custom by blast
    moreover have "get_role_permissions db w n = Some ps" using Some by (simp add: get_role_permissions_def)
    moreover have "(n, qs) \<in> set FIXED_ROLE_PERMISSIONS \<longleftrightarrow> qs = ps" for qs
      using fixed [of n qs] unfolding Some by auto
    ultimately show ?thesis by simp blast
  qed
  have "check_permission db w u act \<longleftrightarrow> (\<exists>a. get_member_role db w u = Some a \<and>
      (\<exists>ps. get_role_permissions db w (ra_role a) = Some ps \<and> act \<in> set ps))"
    by (auto simp: check_permission_def split: option.splits)
  also have "\<dots> \<longleftrightarrow> (\<exists>a \<in> set (db_assignments db). ra_workspace a = w \<and> ra_user a = u \<and>
      (\<exists>ps. get_role_permissions db w (ra_role a) = Some ps \<and> act \<in> set ps))"
    using member_role_iff [OF assms, of w u] by blast
  finally have "check_permission db w u act \<longleftrightarrow> \<dots>" .
  moreover have "set business_analyst_permissions \<subset> set governance_viewer_permissions"
      "set governance_viewer_permissions \<subset> set data_steward_permissions"
      "set data_steward_permissions \<subset> set data_engineer_permissions"
      "set data_engineer_permissions \<subset> set workspace_administrator_permissions"
      "set workspace_administrator_permissions = set ALL_KNOWN_PERMISSIONS"
    by code_simp+
  ultimately show ?thesis unfolding role by blast
qed

theorem permission_decision_witness:
  "check_permission sample_db 10 101 ''roles:assign'' \<and> \<not> check_permission sample_db 10 102 ''roles:read''"
  using permission_decision [OF sample_wf, of 10 101 "''roles:assign''"]
    permission_decision [OF sample_wf, of 10 102 "''roles:read''"]
  by (simp add: sample_simps FIXED_ROLE_PERMISSIONS_def workspace_administrator_permissions_def)

section \<open>Workspaces are isolated\<close>

lemma member_role_same:
  assumes "same_others v x db db'" and "(w, u) \<noteq> (v, x)" and "rbac_wf db" and "rbac_wf db'"
  shows "get_member_role db' w u = get_member_role db w u"
proof -
  have "get_member_role db' w u = Some a \<longleftrightarrow> get_member_role db w u = Some a" for a
    unfolding member_role_iff [OF assms(3)] member_role_iff [OF assms(4)]
    using assms(1,2) by (auto simp: same_others_def)
  then show ?thesis by (metis not_None_eq)
qed

text \<open>The custom roles of a workspace, with their permissions.\<close>

definition same_roles :: "uuid \<Rightarrow> control_db \<Rightarrow> control_db \<Rightarrow> bool" where
  "same_roles w db db' \<longleftrightarrow>
     (\<forall>r. cr_workspace r = w \<longrightarrow> (r \<in> set (db_roles db') \<longleftrightarrow> r \<in> set (db_roles db)) \<and>
        (r \<in> set (db_roles db) \<longrightarrow> (\<forall>p. (cr_id r, p) \<in> set (db_permissions db') \<longleftrightarrow>
           (cr_id r, p) \<in> set (db_permissions db))))"

lemma check_permission_iff:
  assumes "rbac_wf db"
  shows "check_permission db w u act \<longleftrightarrow>
    (\<exists>a. get_member_role db w u = Some a \<and>
      (case map_of FIXED_ROLE_PERMISSIONS (ra_role a) of
         Some ps \<Rightarrow> act \<in> set ps
       | None \<Rightarrow> (\<exists>r \<in> set (db_roles db). cr_workspace r = w \<and> cr_name r = ra_role a \<and>
                  (cr_id r, act) \<in> set (db_permissions db))))"
proof (cases "get_member_role db w u")
  case None
  then show ?thesis by (simp add: check_permission_def)
next
  case (Some a)
  then have "check_permission db w u act \<longleftrightarrow>
      (\<exists>ps. get_role_permissions db w (ra_role a) = Some ps \<and> act \<in> set ps)"
    by (simp add: check_permission_def split: option.splits)
  then show ?thesis
    using Some custom_role_permissions [OF assms, of w "ra_role a" act]
    by (cases "map_of FIXED_ROLE_PERMISSIONS (ra_role a)") (simp_all add: get_role_permissions_def)
qed

lemma check_permission_same:
  assumes "rbac_wf db" and "rbac_wf db'" and "same_roles w db db'"
    and "get_member_role db' w u = get_member_role db w u"
  shows "check_permission db' w u act = check_permission db w u act"
proof -
  have "(\<exists>r \<in> set (db_roles db'). cr_workspace r = w \<and> cr_name r = n \<and> (cr_id r, act) \<in> set (db_permissions db')) \<longleftrightarrow>
      (\<exists>r \<in> set (db_roles db). cr_workspace r = w \<and> cr_name r = n \<and> (cr_id r, act) \<in> set (db_permissions db))" for n
    using assms(3) unfolding same_roles_def by blast
  note eq = this
  show ?thesis
    unfolding check_permission_iff [OF assms(1)] check_permission_iff [OF assms(2)] assms(4) eq ..
qed

lemma assignment_steps_keep_roles:
  "grant_workspace_admin now i w u db = Inr db' \<Longrightarrow> same_roles v db db'"
  "assign_role now i w u n g db = Inr (r, db') \<Longrightarrow> same_roles v db db'"
  "revoke_role w u db = Inr db' \<Longrightarrow> same_roles v db db'"
proof -
  have ins: "same_roles v db db'" if "insert_assignment oc a db = Some db'" for oc a
    using that by (cases rule: insert_assignment_cases) (simp_all add: same_roles_def)
  show "same_roles v db db'" if "grant_workspace_admin now i w u db = Inr db'"
    using that ins by (simp add: grant_workspace_admin_def split: option.splits)
  show "same_roles v db db'" if "assign_role now i w u n g db = Inr (r, db')"
    using that
  proof (cases rule: assign_role_cases)
    case same
    then show ?thesis by (simp add: same_roles_def)
  next
    case (upsert f a)
    then show ?thesis by (intro ins)
  qed
  show "same_roles v db db'" if "revoke_role w u db = Inr db'"
    using that by (auto simp: revoke_role_def same_roles_def split: option.splits if_splits)
qed

lemma role_id_in_workspace:
  assumes "rbac_wf db" and "get_custom_role db w i = Some (r, qs)"
    and "r' \<in> set (db_roles db)" and "cr_workspace r' \<noteq> w"
  shows "cr_id r' \<noteq> i"
  using assms wf_keys(3) [OF assms(1)] custom_role_iff [OF assms(1)]
  by (auto simp: distinct_map inj_on_def)

lemma step_keeps_foreign_roles:
  assumes "rbac_step w db db'" and wf: "rbac_wf db" and v: "v \<noteq> w"
  shows "same_roles v db db'"
  using assms(1)
proof cases
  case (step_create now i n dn desc ps g x)
  from create_role_spec [OF this] v show ?thesis by (auto simp: same_roles_def)
next
  case (step_update now i dn' desc perms x)
  then show ?thesis
  proof (cases rule: update_role_cases)
    case (1 r qs dn' desc')
    have "cr_id r' \<noteq> i" if "r' \<in> set (db_roles db)" "cr_workspace r' = v" for r'
      using role_id_in_workspace [OF wf 1(1) that(1)] that(2) v by simp
    with 1(3) v show ?thesis by (auto simp: same_roles_def image_iff split: option.splits)
  qed
next
  case (step_delete i)
  then show ?thesis
  proof (cases rule: delete_role_cases)
    case (1 r qs)
    have "cr_id r' \<noteq> i" if "r' \<in> set (db_roles db)" "cr_workspace r' = v" for r'
      using role_id_in_workspace [OF wf 1(1) that(1)] that(2) v by simp
    with 1(3) v show ?thesis by (auto simp: same_roles_def)
  qed
qed (auto intro: assignment_steps_keep_roles)

text \<open>
  Role administration in one workspace never reaches another: whatever call of the role
  service succeeds in workspace \<open>w\<close>, every user keeps the same role and exactly the same
  permissions in every other workspace.
\<close>

theorem workspaces_are_isolated:
  assumes "rbac_step w db db'" and "rbac_wf db" and "v \<noteq> w"
  shows "get_member_role db' v u = get_member_role db v u \<and>
    check_permission db' v u act = check_permission db v u act"
proof -
  note wf' = wf_step [OF assms(1,2)]
  obtain x where "same_others w x db db'" using step_touches_one [OF assms(1)] by blast
  with assms(3) have m: "get_member_role db' v u = get_member_role db v u"
    by (intro member_role_same [OF _ _ assms(2) wf']) auto
  with check_permission_same [OF assms(2) wf' step_keeps_foreign_roles [OF assms] m] show ?thesis by blast
qed

theorem workspaces_are_isolated_witness:
  "check_permission sample_promoted 11 102 ''roles:assign'' = check_permission sample_db 11 102 ''roles:assign'' \<and>
   check_permission sample_promoted 10 102 ''roles:assign''"
proof -
  have "(11::uuid) \<noteq> 10" by simp
  from workspaces_are_isolated [OF step_assign [OF sample_promotion] sample_wf this]
  have "check_permission sample_promoted 11 102 ''roles:assign'' = check_permission sample_db 11 102 ''roles:assign''"
    by blast
  moreover have "check_permission sample_promoted 10 102 ''roles:assign''" by code_simp
  ultimately show ?thesis by blast
qed

section \<open>What an assignment does\<close>

text \<open>User \<open>u\<close> is an administrator of \<open>w\<close> and there is no other.\<close>

definition sole_admin :: "control_db \<Rightarrow> uuid \<Rightarrow> uuid \<Rightarrow> bool" where
  "sole_admin db w u \<longleftrightarrow> (\<exists>a \<in> set (db_assignments db). is_admin_of w a \<and> ra_user a = u) \<and>
     (\<forall>b \<in> set (db_assignments db). is_admin_of w b \<longrightarrow> ra_user b = u)"

lemma sole_admin_iff:
  assumes wf: "rbac_wf db"
  shows "map_option ra_role (get_member_role db w u) = Some admin_role \<and> get_admin_count db w \<le> 1 \<longleftrightarrow>
    sole_admin db w u"
proof
  assume l: "map_option ra_role (get_member_role db w u) = Some admin_role \<and> get_admin_count db w \<le> 1"
  then obtain a where "get_member_role db w u = Some a" "ra_role a = admin_role" by auto
  then have a: "a \<in> set (filter (is_admin_of w) (db_assignments db))" "ra_user a = u"
    by (simp_all add: member_role_iff [OF wf] is_admin_of_def)
  moreover have "length (filter (is_admin_of w) (db_assignments db)) \<le> 1"
    using l by (simp add: get_admin_count_def count_where_def)
  ultimately have "filter (is_admin_of w) (db_assignments db) = [a]"
    by (cases "filter (is_admin_of w) (db_assignments db)") auto
  then have "{b \<in> set (db_assignments db). is_admin_of w b} = {a}" by (metis set_filter list.set(1) list.simps(15))
  then have "b = a \<longleftrightarrow> b \<in> set (db_assignments db) \<and> is_admin_of w b" for b by blast
  with a(2) show "sole_admin db w u" unfolding sole_admin_def by metis
next
  assume r: "sole_admin db w u"
  then obtain a where "a \<in> set (db_assignments db)" "is_admin_of w a" "ra_user a = u"
    by (auto simp: sole_admin_def)
  then have "get_member_role db w u = Some a" "ra_role a = admin_role"
    by (simp_all add: member_role_iff [OF wf] is_admin_of_def)
  moreover have "get_admin_count db w \<le> 1"
    using r other_admin [OF wf, of w u] unfolding sole_admin_def by (metis not_less)
  ultimately show "map_option ra_role (get_member_role db w u) = Some admin_role \<and> get_admin_count db w \<le> 1"
    by simp
qed

lemma role_text_known:
  assumes "rbac_wf db" and "role_known db w n"
  shows "role_text_ok n"
  using assms(2) unfolding role_known_def
proof
  assume "n \<in> set VALID_ROLE_NAMES"
  moreover have "list_all role_text_ok VALID_ROLE_NAMES" by code_simp
  ultimately show ?thesis by (simp add: list_all_iff)
next
  assume "\<exists>r \<in> set (db_roles db). cr_workspace r = w \<and> cr_name r = n"
  then have f: "role_name_format n" using assms(1) by (auto simp: rbac_wf_def roles_ok_def)
  then have "n \<noteq> []" "hd n \<noteq> CHR '' ''" by (auto simp: role_name_format_def code_of_def)
  then have "list_ex (\<lambda>c. c \<noteq> CHR '' '') n" by (cases n) auto
  with f show ?thesis by (simp add: role_text_ok_def role_name_format_def)
qed

text \<open>The upsert is accepted when the rows it refers to exist.\<close>

definition rows_exist :: "control_db \<Rightarrow> uuid \<Rightarrow> uuid \<Rightarrow> uuid \<Rightarrow> uuid \<Rightarrow> bool" where
  "rows_exist db i w u g \<longleftrightarrow> user_exists db g \<and>
     (get_member_role db w u \<noteq> None \<or>
      i \<notin> set (map ra_id (db_assignments db)) \<and> workspace_exists db w \<and> user_exists db u)"

lemma upsert_accepted:
  assumes "role_text_ok n"
  shows "insert_assignment (Some (\<lambda>b. b\<lparr>ra_role := n, ra_granted_by := Some g, ra_granted_at := now\<rparr>))
      \<lparr>ra_id = i, ra_workspace = w, ra_user = u, ra_role = n, ra_granted_by = Some g,
       ra_granted_at = now\<rparr> db = None \<longleftrightarrow> \<not> rows_exist db i w u g"
  using assms by (auto simp: insert_assignment_def Let_def rows_exist_def get_member_role_def split: option.splits)

lemma assign_role_decided:
  assumes wf: "rbac_wf db"
  shows "assign_role now i w u n g db = Inl e \<longleftrightarrow>
    (\<not> role_known db w n \<and> e = InvalidRole n) \<or>
    (role_known db w n \<and> sole_admin db w u \<and> n \<noteq> admin_role \<and> e = LastWorkspaceAdministratorError) \<or>
    (role_known db w n \<and> \<not> (sole_admin db w u \<and> n \<noteq> admin_role) \<and>
     map_option ra_role (get_member_role db w u) \<noteq> Some n \<and> \<not> rows_exist db i w u g \<and> e = RoleGrantFailedError)"
proof -
  have known: "(n \<notin> set VALID_ROLE_NAMES \<and> get_custom_role_by_name db w n = None) = (\<not> role_known db w n)"
    using custom_role_by_name_None [OF wf, of w n] by (auto simp: role_known_def)
  have guard: "(map_option ra_role (get_member_role db w u) = Some admin_role \<and> n \<noteq> admin_role \<and>
      get_admin_count db w \<le> 1) = (sole_admin db w u \<and> n \<noteq> admin_role)"
    using sole_admin_iff [OF wf, of w u] by blast
  show ?thesis
    unfolding assign_role_def Let_def known guard
    using upsert_accepted [OF role_text_known [OF wf], of w n now g i w u db]
    by (auto split: option.splits)
qed

lemma assign_keeps_roles:
  assumes "assign_role now i w u n g db = Inr (r, db')"
  shows "db_roles db' = db_roles db \<and> db_permissions db' = db_permissions db"
  using assms
proof (cases rule: assign_role_cases)
  case (upsert f a)
  from upsert(1) show ?thesis by (cases rule: insert_assignment_cases) simp_all
qed simp

lemma assign_others:
  assumes "assign_role now i w u n g db = Inr (r, db')"
  shows "same_others w u db db'"
  using assms
proof (cases rule: assign_role_cases)
  case (upsert f a)
  then have "same_others (ra_workspace a) (ra_user a) db db'"
    by (intro insert_same_others [OF upsert(1)]) auto
  with upsert(3) show ?thesis by simp
qed (simp add: same_others_def)

lemma assign_result:
  assumes wf: "rbac_wf db" and "assign_role now i w u n g db = Inr (r, db')"
  shows "r = get_member_role db' w u \<and> map_option ra_role r = Some n"
  using assms(2)
proof (cases rule: assign_role_cases)
  case same
  then show ?thesis by simp
next
  case (upsert f a)
  have wf': "rbac_wf db'" using wf_assign [OF assms] .
  from upsert(1) have "\<exists>b. get_member_role db' w u = Some b \<and> ra_role b = n"
  proof (cases rule: insert_assignment_cases)
    case (updated f' old)
    then have "f old \<in> set (db_assignments db')" using upsert(3) by (auto intro: rev_image_eqI)
    then show ?thesis using updated(3,4) upsert(2,3) member_role_iff [OF wf', of w u "f old"] by simp
  next
    case added
    then show ?thesis using upsert(3) member_role_iff [OF wf', of w u a] by simp
  qed simp
  with upsert(4) show ?thesis by auto
qed

text \<open>
  Assigning a role fails for an unknown role, for taking the role from the only
  administrator, and for rows that do not exist, and in no other case; the tenant of the user is
  never looked at.  When it succeeds the user holds exactly that role and exactly its
  permissions in the workspace, and nobody else's role changes.
\<close>

theorem assign_role_exactly:
  assumes "rbac_wf db"
  shows "case assign_role now i w u n g db of
      Inl e \<Rightarrow> (\<not> role_known db w n \<and> e = InvalidRole n) \<or>
        (role_known db w n \<and> sole_admin db w u \<and> n \<noteq> admin_role \<and> e = LastWorkspaceAdministratorError) \<or>
        (role_known db w n \<and> \<not> (sole_admin db w u \<and> n \<noteq> admin_role) \<and>
         map_option ra_role (get_member_role db w u) \<noteq> Some n \<and> \<not> rows_exist db i w u g \<and>
         e = RoleGrantFailedError)
    | Inr (r, db') \<Rightarrow> role_known db w n \<and> \<not> (sole_admin db w u \<and> n \<noteq> admin_role) \<and>
        (map_option ra_role (get_member_role db w u) = Some n \<or> rows_exist db i w u g) \<and>
        r = get_member_role db' w u \<and> map_option ra_role r = Some n \<and>
        (\<forall>act. check_permission db' w u act \<longleftrightarrow>
           (\<exists>ps. get_role_permissions db w n = Some ps \<and> act \<in> set ps)) \<and>
        (\<forall>v x. (v, x) \<noteq> (w, u) \<longrightarrow> get_member_role db' v x = get_member_role db v x)"
proof (cases "assign_role now i w u n g db")
  case (Inl e)
  then show ?thesis using assign_role_decided [OF assms, of now i w u n g e] by simp
next
  case (Inr p)
  obtain r db' where p: "p = (r, db')" by (cases p)
  note ok = Inr [unfolded p]
  note wf' = wf_assign [OF assms ok]
  have no_error: "assign_role now i w u n g db \<noteq> Inl e" for e using Inr by simp
  have decided: "role_known db w n" "\<not> (sole_admin db w u \<and> n \<noteq> admin_role)"
      "map_option ra_role (get_member_role db w u) = Some n \<or> rows_exist db i w u g"
    using no_error unfolding assign_role_decided [OF assms] by blast+
  have res: "r = get_member_role db' w u" "map_option ra_role r = Some n"
    using assign_result [OF assms ok] by blast+
  have "get_role_permissions db' w n = get_role_permissions db w n"
    using assign_keeps_roles [OF ok]
    by (simp add: get_role_permissions_def get_custom_role_by_name_def get_custom_role_def permissions_of_def
        cong: option.case_cong)
  then have "check_permission db' w u act \<longleftrightarrow> (\<exists>ps. get_role_permissions db w n = Some ps \<and> act \<in> set ps)" for act
    using res by (auto simp: check_permission_def split: option.splits)
  moreover have "get_member_role db' v x = get_member_role db v x" if "(v, x) \<noteq> (w, u)" for v x
    by (rule member_role_same [OF assign_others [OF ok] that assms wf'])
  ultimately show ?thesis using Inr p decided res by simp
qed

theorem assign_role_exactly_witness:
  "get_member_role sample_promoted 10 101 = get_member_role sample_db 10 101 \<and>
   assign_role 8 204 10 101 ''data_steward'' 101 sample_db = Inl LastWorkspaceAdministratorError"
proof -
  have "((10::uuid), (101::uuid)) \<noteq> (10, 102)" by simp
  moreover have "assign_role 8 204 10 101 ''data_steward'' 101 sample_db = Inl LastWorkspaceAdministratorError"
    by code_simp
  ultimately show ?thesis
    using assign_role_exactly [OF sample_wf, where now = 7 and i = 203 and w = 10 and u = 102
        and n = admin_role and g = 101] unfolding sample_promotion by auto
qed

section \<open>The search for new members\<close>

lemma lower_plain: "list_all plain_char q \<Longrightarrow> list_all plain_char (lower q)"
  by (simp add: lower_def list_all_iff lower_char_plain)

lemma lower_percent: "lower_char CHR ''%'' = CHR ''%''"
  by code_simp

lemma ilike_prefix:
  "list_all plain_char q \<Longrightarrow> ilike s (q @ ''%'') \<longleftrightarrow> starts_with (lower q) (lower s)"
  using like_prefix [OF lower_plain, of q "lower s"]
  by (simp add: ilike_def lower_append) (simp add: lower_def lower_percent)

lemma ilike_infix:
  "list_all plain_char q \<Longrightarrow> ilike s (CHR ''%'' # q @ ''%'') \<longleftrightarrow> contains (lower q) (lower s)"
  using like_infix [OF lower_plain, of q "lower s"]
  by (simp add: ilike_def lower_def lower_percent)

text \<open>
  The search for new members returns users of the asking actor's tenant who are not yet
  members, at most the limit of them, and all of them when there are fewer.  For a query without
  wildcards they are those whose address starts with it, in any case; but \<open>%\<close> and \<open>_\<close> in the
  query are not escaped, so a query that starts with \<open>%\<close> finds its text anywhere.  An actor
  without a tenant gets an exception of the database.
\<close>

theorem search_finds_candidates:
  shows "search_non_members coll db w None q limit = Inl DataError \<and>
    (\<exists>us. search_non_members coll db w (Some t) q limit = Inr us \<and> length us \<le> limit \<and>
       (\<forall>x. x \<in> set us \<longrightarrow> x \<in> set (db_users db) \<and> us_tenant x = Some t \<and>
          get_member_role db w (us_id x) = None) \<and>
       (length us < limit \<longrightarrow> (\<forall>x. x \<in> set us \<longleftrightarrow> x \<in> set (db_users db) \<and> us_tenant x = Some t \<and>
          get_member_role db w (us_id x) = None \<and> ilike (us_email x) (q @ ''%'')))) \<and>
    (list_all plain_char p \<longrightarrow>
       (ilike s (p @ ''%'') \<longleftrightarrow> starts_with (lower p) (lower s)) \<and>
       (ilike s (CHR ''%'' # p @ ''%'') \<longleftrightarrow> contains (lower p) (lower s)))"
proof -
  let ?cands = "filter (\<lambda>x. us_tenant x = Some t \<and> ilike (us_email x) (q @ ''%'') \<and>
      us_id x \<notin> set (map ra_user (filter (\<lambda>a. ra_workspace a = w) (db_assignments db)))) (db_users db)"
  let ?us = "take limit (sort_key (coll \<circ> us_email) ?cands)"
  have us: "search_non_members coll db w (Some t) q limit = Inr ?us"
    by (simp add: search_non_members_def)
  have "us_id x \<notin> set (map ra_user (filter (\<lambda>a. ra_workspace a = w) (db_assignments db))) \<longleftrightarrow>
      get_member_role db w (us_id x) = None" for x
    unfolding get_member_role_def find_None by (simp add: image_iff) metis
  then have cand: "x \<in> set ?cands \<longleftrightarrow> x \<in> set (db_users db) \<and> us_tenant x = Some t \<and>
      get_member_role db w (us_id x) = None \<and> ilike (us_email x) (q @ ''%'')" for x
    by auto
  have sub: "set ?us \<subseteq> set ?cands" using set_take_subset [of limit "sort_key (coll \<circ> us_email) ?cands"] by simp
  have "set ?us = set ?cands" if "length ?us < limit"
  proof -
    from that have "length ?cands < limit" by (simp add: min_def split: if_splits)
    then show ?thesis by simp
  qed
  then have "length ?us < limit \<longrightarrow> (\<forall>x. x \<in> set ?us \<longleftrightarrow> x \<in> set (db_users db) \<and> us_tenant x = Some t \<and>
      get_member_role db w (us_id x) = None \<and> ilike (us_email x) (q @ ''%''))"
    using cand by blast
  moreover have "length ?us \<le> limit" by simp
  moreover have "\<forall>x. x \<in> set ?us \<longrightarrow> x \<in> set (db_users db) \<and> us_tenant x = Some t \<and>
      get_member_role db w (us_id x) = None" using sub cand by blast
  moreover have "search_non_members coll db w None q limit = Inl DataError"
    by (simp add: search_non_members_def)
  ultimately show ?thesis using us ilike_prefix [of p s] ilike_infix [of p s] by blast
qed

theorem search_finds_candidates_witness:
  "search_non_members (\<lambda>_. 0) sample_db 10 (Some 1) ''bO'' 20 =
     Inr [sample_user 102 ''bob@x'' 1, sample_user 103 ''Bo%@y'' 1] \<and>
   (ilike ''bob@x'' (''bo'' @ ''%'') \<longleftrightarrow> starts_with (lower ''bo'') (lower ''bob@x''))"
proof -
  have "list_all plain_char ''bo''" by code_simp
  then have "ilike ''bob@x'' (''bo'' @ ''%'') \<longleftrightarrow> starts_with (lower ''bo'') (lower ''bob@x'')"
    using search_finds_candidates [where p = "''bo''" and s = "''bob@x''"] by blast
  moreover have "search_non_members (\<lambda>_. 0) sample_db 10 (Some 1) ''bO'' 20 =
     Inr [sample_user 102 ''bob@x'' 1, sample_user 103 ''Bo%@y'' 1]" by code_simp
  ultimately show ?thesis by blast
qed

section \<open>The specification of role administration\<close>

text \<open>
  The contract without tables: a map from workspace and user to a role.  A call in workspace
  \<open>w\<close> changes at most one entry of \<open>w\<close>; taking the role of an administrator, by another role
  or by dismissal, needs a second one.
\<close>

type_synonym role_state = "uuid \<times> uuid \<Rightarrow> string option"

definition another_admin :: "role_state \<Rightarrow> uuid \<Rightarrow> uuid \<Rightarrow> bool" where
  "another_admin M w u \<longleftrightarrow> (\<exists>v. v \<noteq> u \<and> M (w, v) = Some admin_role)"

inductive role_spec :: "uuid \<Rightarrow> role_state \<Rightarrow> role_state \<Rightarrow> bool" for w where
  spec_keep: "role_spec w M M"
| spec_appoint: "M (w, u) = None \<Longrightarrow> role_spec w M (M((w, u) \<mapsto> n))"
| spec_change: "M (w, u) = Some m \<Longrightarrow> m = admin_role \<longrightarrow> another_admin M w u \<Longrightarrow>
    role_spec w M (M((w, u) \<mapsto> n))"
| spec_dismiss: "M (w, u) = Some m \<Longrightarrow> m = admin_role \<longrightarrow> another_admin M w u \<Longrightarrow>
    role_spec w M (M((w, u) := None))"

inductive_cases role_specE: "role_spec w M M'"

text \<open>The tables as a role map.\<close>

definition role_map :: "control_db \<Rightarrow> role_state" where
  "role_map db = (\<lambda>(w, u). map_option ra_role (get_member_role db w u))"

lemma role_map_one_change:
  assumes "same_others w u db db'" and "rbac_wf db" and "rbac_wf db'"
  shows "role_map db' = (role_map db)((w, u) := map_option ra_role (get_member_role db' w u))"
proof
  fix vx :: "uuid \<times> uuid"
  obtain v x where vx: "vx = (v, x)" by (cases vx)
  show "role_map db' vx = ((role_map db)((w, u) := map_option ra_role (get_member_role db' w u))) vx"
    using member_role_same [OF assms(1) _ assms(2,3), of v x] vx by (auto simp: role_map_def)
qed

lemma role_map_another_admin:
  assumes wf: "rbac_wf db" and "1 < get_admin_count db w"
  shows "another_admin (role_map db) w u"
proof -
  from other_admin [OF assms, of u] obtain b where "b \<in> set (db_assignments db)" "is_admin_of w b" "ra_user b \<noteq> u"
    by blast
  then have "get_member_role db w (ra_user b) = Some b" "ra_role b = admin_role" "ra_user b \<noteq> u"
    by (simp_all add: member_role_iff [OF wf] is_admin_of_def)
  then show ?thesis by (auto simp: another_admin_def role_map_def intro!: exI [of _ "ra_user b"])
qed

lemma role_map_cong: "db_assignments db' = db_assignments db \<Longrightarrow> role_map db' = role_map db"
  by (simp add: role_map_def get_member_role_def)

text \<open>
  C10: The role service refines the specification: what any successful call does to the tables
  is, seen as a map from members to roles, one of the four moves, so that only a member who is
  not the last administrator can lose that role, and a member is only added, changed or removed
  in the workspace of the call.
\<close>

theorem role_service_refines_spec:
  assumes "rbac_step w db db'" and wf: "rbac_wf db"
  shows "role_spec w (role_map db) (role_map db')"
proof -
  note wf' = wf_step [OF assms]
  from assms(1) show ?thesis
  proof cases
    case (step_grant now i u)
    let ?a = "\<lparr>ra_id = i, ra_workspace = w, ra_user = u, ra_role = admin_role, ra_granted_by = None,
      ra_granted_at = now\<rparr>"
    have ins: "insert_assignment None ?a db = Some db'"
      using step_grant by (simp add: grant_workspace_admin_def split: option.splits)
    then have others: "same_others w u db db'" using insert_same_others [OF ins] by simp
    from ins show ?thesis
    proof (cases rule: insert_assignment_cases)
      case kept
      then show ?thesis by (simp add: spec_keep)
    next
      case added
      have "get_member_role db' w u = Some ?a" unfolding member_role_iff [OF wf'] using added(1) by simp
      with role_map_one_change [OF others wf wf'] have "role_map db' = (role_map db)((w, u) \<mapsto> admin_role)" by simp
      moreover have "role_map db (w, u) = None" using added(2) by (simp add: role_map_def)
      ultimately show ?thesis by (simp add: spec_appoint)
    qed simp
  next
    case (step_assign now i u n g r)
    have "map_option ra_role (get_member_role db' w u) = Some n"
      using assign_result [OF wf step_assign] by metis
    with role_map_one_change [OF assign_others [OF step_assign] wf wf']
    have map: "role_map db' = (role_map db)((w, u) \<mapsto> n)" by simp
    from step_assign show ?thesis
    proof (cases rule: assign_role_cases)
      case same
      then show ?thesis by (simp add: spec_keep)
    next
      case (upsert f a)
      have "m = admin_role \<longrightarrow> another_admin (role_map db) w u" if "role_map db (w, u) = Some m" for m
        using that upsert(7) role_map_another_admin [OF wf, of w u] by (auto simp: role_map_def)
      then show ?thesis unfolding map
        by (cases "role_map db (w, u)") (simp_all add: spec_appoint spec_change)
    qed
  next
    case (step_revoke u)
    then have others: "same_others w u db db'" and gone: "get_member_role db' w u = None"
      and held: "\<exists>a. get_member_role db w u = Some a \<and> (ra_role a = admin_role \<longrightarrow> 1 < get_admin_count db w)"
      by (auto simp: same_others_def revoke_role_def get_member_role_def find_None split: option.splits if_splits)
    from held obtain m where "role_map db (w, u) = Some m" "m = admin_role \<longrightarrow> another_admin (role_map db) w u"
      using role_map_another_admin [OF wf, of w u] by (auto simp: role_map_def)
    then show ?thesis using role_map_one_change [OF others wf wf'] gone by (simp add: spec_dismiss)
  qed (auto simp: spec_keep dest!: custom_steps_keep_assignments role_map_cong)
qed

theorem role_service_refines_spec_witness:
  "role_spec 10 (role_map sample_db) (role_map sample_promoted)"
  using role_service_refines_spec [OF step_assign [OF sample_promotion] sample_wf] .

end
