(* ===== verification/GuardSafety.thy ===== *)
theory GuardSafety
  imports AuthGuards RoleSafety
begin

text \<open>
  What the guards guarantee, alone and together with the role service and the support grants
  they consult, and where they do not.
\<close>

section \<open>Guards only let in the actor of the token\<close>

locale guard =
  fixes authenticate :: "'r \<Rightarrow> api_error + Actor"
    and decide :: "'r \<Rightarrow> Actor \<Rightarrow> api_error + Actor"
    and verify :: "'r \<Rightarrow> api_error + Actor"
  assumes verify: "verify r = (case authenticate r of Inl e \<Rightarrow> Inl e | Inr a \<Rightarrow> decide r a)"
    and decide_same: "decide r a = Inr b \<Longrightarrow> b = a"
    and decide_status: "decide r a = Inl e \<Longrightarrow> status_code e = 401 \<or> status_code e = 403"
begin

lemma returns_authenticated: "verify r = Inr b \<Longrightarrow> authenticate r = Inr b \<and> decide r b = Inr b"
  using verify [of r] decide_same by (auto split: sum.splits)

lemma rejected_status:
  "verify r = Inl e \<Longrightarrow> authenticate r = Inl e \<or> status_code e = 401 \<or> status_code e = 403"
  using verify [of r] decide_status by (auto split: sum.splits)

end

type_synonym guard_request = "string option \<times> uuid"

interpretation permission: guard
  "\<lambda>(h, w). workspace_actor jwt h" "\<lambda>(h, w). permission_rule now action db w"
  "\<lambda>(h, w). require_workspace_permission jwt now action db h w" for jwt now action db
  by unfold_locales
     (auto simp: require_workspace_permission_def permission_rule_def InsufficientPermissionsError_def
        split: if_splits)

interpretation create_guard: guard
  "workspace_actor jwt" "\<lambda>h. workspace_create_rule db" "verify_workspace_admin_in_tenant jwt db" for jwt db
  by unfold_locales
     (auto simp: verify_workspace_admin_in_tenant_def workspace_create_rule_def InsufficientPermissionsError_def
        split: if_splits option.splits)

interpretation resource: guard
  "\<lambda>(h, w). resource_actor tenant_optional jwt h"
  "\<lambda>(h, w) a. if ac_role a \<notin> set roles then Inl (HTTPException 403
      (''Role '' @ [CHR 0x27] @ ac_role a @ [CHR 0x27] @ '' is not authorised to '' @ purpose @ ''.''))
    else require_grant_if_platform_admin now db w a"
  "\<lambda>(h, w). role_guard purpose tenant_optional roles jwt now db h w" for tenant_optional jwt roles now db purpose
  by unfold_locales
     (auto simp: role_guard_def require_grant_if_platform_admin_def split: if_splits)

section \<open>Grants along a run\<close>

lemma role_step_static:
  assumes "rbac_step w db db'"
  shows "db_grants db' = db_grants db \<and> db_workspaces db' = db_workspaces db \<and> db_users db' = db_users db"
proof -
  have ins: "db_grants db' = db_grants db \<and> db_workspaces db' = db_workspaces db \<and> db_users db' = db_users db"
    if "insert_assignment oc a db = Some db'" for oc a
    using that by (cases rule: insert_assignment_cases) simp_all
  from assms show ?thesis
  proof cases
    case (step_grant now i u)
    with ins show ?thesis by (simp add: grant_workspace_admin_def split: option.splits)
  next
    case (step_assign now i u n g r)
    then show ?thesis
    proof (cases rule: assign_role_cases)
      case (upsert f a)
      from ins [OF upsert(1)] show ?thesis .
    qed simp
  next
    case (step_revoke u)
    then show ?thesis by (auto simp: revoke_role_def split: option.splits if_splits)
  qed (auto dest: create_role_spec elim: update_role_cases delete_role_cases)
qed

text \<open>What the two endpoints do to the grants.\<close>

lemma open_cases:
  assumes "create_support_access_grant audit_ok now i tt ws d reason actor st = (r, st')"
  obtains (rejected) "st' = st" "\<exists>e. r = Inl e"
  | (opened) t g where
      "g = \<lparr>sg_id = i, sg_tenant = t, sg_workspace = ws, sg_granted_by = ac_id actor, sg_reason = reason,
            sg_created_at = now, sg_expires_at = now + clamp_duration d, sg_revoked_at = None,
            sg_revoked_by = None\<rparr>"
      "ss_db st' = (ss_db st)\<lparr>db_grants := db_grants (ss_db st) @ [g]\<rparr>"
      "i \<notin> set (map sg_id (db_grants (ss_db st)))"
      "require_client_tenant_admin (ss_db st) t actor = None"
      "\<And>w. ws = Some w \<Longrightarrow> workspace_tenant (ss_db st) w = Some t"
      "r = (if audit_ok then Inr g else Inl (Unhandled ''AuditWriteFailedError''))"
      "ss_audit st' = (if audit_ok then ss_audit st @ [(''support_access_granted'', i)] else ss_audit st)"
proof (cases "d < 1 \<or> int MAX_DURATION_MINUTES < d \<or> (\<exists>r \<in> set_option reason. 500 < length r)")
  case True
  with assms have "st' = st \<and> (\<exists>e. r = Inl e)" by (auto simp: create_support_access_grant_def)
  with rejected show thesis by blast
next
  case ok: False
  show thesis
  proof (cases "validate_uuid_path_param tt ''tenant_id''")
    case (Inl e)
    with ok assms have "st' = st \<and> (\<exists>e. r = Inl e)" by (auto simp: create_support_access_grant_def)
    with rejected show thesis by blast
  next
    case t: (Inr t)
    show thesis
    proof (cases "require_client_tenant_admin (ss_db st) t actor = None \<and>
        (\<forall>w \<in> set_option ws. workspace_tenant (ss_db st) w = Some t) \<and>
        create_grant now i t (ac_id actor) ws d reason (ss_db st) \<noteq> None")
      case False
      with ok t assms have "st' = st \<and> (\<exists>e. r = Inl e)"
        by (auto simp: create_support_access_grant_def split: option.splits if_splits)
      with rejected show thesis by blast
    next
      case True
      then obtain g db where g: "create_grant now i t (ac_id actor) ws d reason (ss_db st) = Some (g, db)" by auto
      have "(r, st') = (if audit_ok
          then (Inr g, \<lparr>ss_db = db, ss_audit = ss_audit st @ [(''support_access_granted'', i)]\<rparr>)
          else (Inl (Unhandled ''AuditWriteFailedError''), st\<lparr>ss_db := db\<rparr>))"
        using assms ok t True g by (simp add: create_support_access_grant_def)
      moreover have "db = (ss_db st)\<lparr>db_grants := db_grants (ss_db st) @ [g]\<rparr> \<and>
          i \<notin> set (map sg_id (db_grants (ss_db st))) \<and>
          g = \<lparr>sg_id = i, sg_tenant = t, sg_workspace = ws, sg_granted_by = ac_id actor, sg_reason = reason,
            sg_created_at = now, sg_expires_at = now + clamp_duration d, sg_revoked_at = None,
            sg_revoked_by = None\<rparr>"
        using g by (auto simp: create_grant_def Let_def split: if_splits)
      ultimately show thesis using opened [of g t] True by (cases audit_ok) simp_all
    qed
  qed
qed

lemma close_cases:
  assumes "revoke_support_access_grant audit_ok now tt gt actor st = (r, st')"
  obtains (rejected) "st' = st"
  | (closed) t i where "require_client_tenant_admin (ss_db st) t actor = None"
      "ss_db st' = (ss_db st)\<lparr>db_grants :=
         update_where (\<lambda>g. sg_id g = i \<and> sg_tenant g = t \<and> sg_revoked_at g = None)
           (\<lambda>g. g\<lparr>sg_revoked_at := Some now, sg_revoked_by := Some (ac_id actor)\<rparr>) (db_grants (ss_db st))\<rparr>"
proof (cases "validate_uuid_path_param tt ''tenant_id''")
  case (Inl e)
  with assms rejected show thesis by (simp add: revoke_support_access_grant_def)
next
  case t: (Inr t)
  show thesis
  proof (cases "validate_uuid_path_param gt ''grant_id''")
    case (Inl e)
    with t assms rejected show thesis by (simp add: revoke_support_access_grant_def)
  next
    case i: (Inr i)
    show thesis
    proof (cases "require_client_tenant_admin (ss_db st) t actor = None \<and>
        revoke_grant now t i (ac_id actor) (ss_db st) \<noteq> None")
      case False
      with t i assms have "st' = st"
        by (auto simp: revoke_support_access_grant_def split: option.splits)
      with rejected show thesis .
    next
      case True
      then obtain b db where db: "revoke_grant now t i (ac_id actor) (ss_db st) = Some (b, db)" by auto
      then have "ss_db st' = db"
        using assms t i True by (auto simp: revoke_support_access_grant_def split: if_splits)
      moreover have "db = (ss_db st)\<lparr>db_grants :=
         update_where (\<lambda>g. sg_id g = i \<and> sg_tenant g = t \<and> sg_revoked_at g = None)
           (\<lambda>g. g\<lparr>sg_revoked_at := Some now, sg_revoked_by := Some (ac_id actor)\<rparr>) (db_grants (ss_db st))\<rparr>"
        using db by (auto simp: revoke_grant_def Let_def split: if_splits)
      ultimately show thesis using closed True by blast
    qed
  qed
qed

text \<open>What every grant on record satisfies at time \<open>now\<close>.\<close>

definition grant_ok :: "nat \<Rightarrow> control_db \<Rightarrow> SupportGrant \<Rightarrow> bool" where
  "grant_ok now db g \<longleftrightarrow> sg_created_at g \<le> now \<and> sg_created_at g < sg_expires_at g \<and>
     sg_expires_at g \<le> sg_created_at g + MAX_DURATION_MINUTES \<and>
     (\<forall>w. sg_workspace g = Some w \<longrightarrow> workspace_tenant db w = Some (sg_tenant g))"

definition grants_ok :: "nat \<Rightarrow> control_db \<Rightarrow> bool" where
  "grants_ok now db \<longleftrightarrow> (\<forall>g \<in> set (db_grants db). grant_ok now db g)"

lemma clamp_bounds: "1 \<le> clamp_duration d \<and> clamp_duration d \<le> MAX_DURATION_MINUTES"
  by (auto simp: clamp_duration_def MAX_DURATION_MINUTES_def)

lemma workspace_tenant_same: "db_workspaces db' = db_workspaces db \<Longrightarrow> workspace_tenant db' w = workspace_tenant db w"
  by (simp add: workspace_tenant_def)

text \<open>What happens to the grants in one request: nothing, one more, or some are revoked.\<close>

lemma control_step_cases:
  assumes "control_step now st st'"
  obtains (same) "db_grants (ss_db st') = db_grants (ss_db st)"
  | (opened) g t actor where "db_grants (ss_db st') = db_grants (ss_db st) @ [g]"
      "require_client_tenant_admin (ss_db st) t actor = None"
      "sg_tenant g = t" "sg_granted_by g = ac_id actor" "sg_created_at g = now" "sg_revoked_at g = None"
      "grant_ok now (ss_db st) g" "sg_id g \<notin> set (map sg_id (db_grants (ss_db st)))"
  | (closed) p b where "db_grants (ss_db st') =
        update_where (\<lambda>g. p g \<and> sg_revoked_at g = None)
          (\<lambda>g. g\<lparr>sg_revoked_at := Some now, sg_revoked_by := Some b\<rparr>) (db_grants (ss_db st))"
  using assms
proof cases
  case (step_role w db')
  with same role_step_static [of w "ss_db st" db'] show thesis by simp
next
  case (step_open audit_ok i tt ws d reason actor r)
  then show thesis
  proof (cases rule: open_cases)
    case rejected
    with same show thesis by simp
  next
    case (opened t g)
    have "grant_ok now (ss_db st) g"
      using opened(1,5) clamp_bounds [of d] by (auto simp: grant_ok_def)
    then show thesis using that(2) [of g t actor] opened(1-4) by simp
  qed
next
  case (step_close audit_ok tt gt actor r)
  then show thesis
  proof (cases rule: close_cases)
    case rejected
    with same show thesis by simp
  next
    case (closed t i)
    with that(3) [of "\<lambda>g. sg_id g = i \<and> sg_tenant g = t" "ac_id actor"] show thesis by simp
  qed
qed

lemma control_step_static:
  assumes "control_step now st st'"
  shows "db_workspaces (ss_db st') = db_workspaces (ss_db st) \<and> db_users (ss_db st') = db_users (ss_db st)"
  using assms
proof cases
  case (step_role w db')
  with role_step_static [of w "ss_db st" db'] show ?thesis by simp
next
  case (step_open audit_ok i tt ws d reason actor r)
  then show ?thesis by (cases rule: open_cases) simp_all
next
  case (step_close audit_ok tt gt actor r)
  then show ?thesis by (cases rule: close_cases) simp_all
qed

lemma grant_ok_revoke [simp]:
  "grant_ok now db (g\<lparr>sg_revoked_at := x, sg_revoked_by := y\<rparr>) \<longleftrightarrow> grant_ok now db g"
  by (simp add: grant_ok_def)

lemma grants_ok_later:
  assumes "grants_ok t db" and "t \<le> t'"
  shows "grants_ok t' db"
  unfolding grants_ok_def
proof
  fix g assume "g \<in> set (db_grants db)"
  with assms(1) have "grant_ok t db g" by (simp add: grants_ok_def)
  with assms(2) show "grant_ok t' db g" unfolding grant_ok_def by (blast intro: le_trans)
qed

lemma grants_ok_step:
  assumes "control_step now st st'" and "grants_ok now (ss_db st)"
  shows "grants_ok now (ss_db st')"
proof -
  have ws: "workspace_tenant (ss_db st') w = workspace_tenant (ss_db st) w" for w
    by (rule workspace_tenant_same [OF conjunct1 [OF control_step_static [OF assms(1)]]])
  have "grant_ok now (ss_db st) g" if "g \<in> set (db_grants (ss_db st'))" for g
    using assms(1)
  proof (cases rule: control_step_cases)
    case same
    with that assms(2) show ?thesis by (simp add: grants_ok_def)
  next
    case (opened g' t actor)
    with that assms(2) show ?thesis by (auto simp: grants_ok_def)
  next
    case (closed p b)
    have old: "\<forall>g \<in> set (db_grants (ss_db st)). grant_ok now (ss_db st) g"
      using assms(2) by (simp add: grants_ok_def)
    show ?thesis using that old unfolding closed set_update_where by (auto simp: grant_ok_revoke)
  qed
  then show ?thesis by (simp add: grants_ok_def grant_ok_def ws)
qed

lemma grants_ok_run:
  assumes "control_run st0 t0 st t" and "grants_ok t0 (ss_db st0)"
  shows "grants_ok t (ss_db st)"
  using assms
proof (induction rule: control_run.induct)
  case (run_wait st t t')
  then show ?case by (blast intro: grants_ok_later)
next
  case (run_step st t st')
  then show ?case using grants_ok_step by blast
qed simp

lemma active_grantE:
  assumes "has_active_grant now db None (Some w)"
  obtains g where "g \<in> set (db_grants db)" "workspace_tenant db w = Some (sg_tenant g)"
    "sg_workspace g \<in> {None, Some w}" "sg_revoked_at g = None" "now < sg_expires_at g"
  using assms unfolding has_active_grant_def
  by (auto simp: list_ex_iff grant_active_def split: option.splits)

section \<open>Samples\<close>

text \<open>The tenant of the sample, by the text of its identifier in a path.\<close>

definition sample_tenant_text :: string where
  "sample_tenant_text = ''11111111-1111-4111-8111-111111111111''"

definition sample_tenant :: uuid where
  "sample_tenant = 0x11111111111141118111111111111111"

text \<open>User 101 administers workspace 10 of the tenant; user 900 is a platform administrator.\<close>

definition sample_operator :: User where
  "sample_operator = \<lparr>us_id = 900, us_email = ''op@x'', us_full_name = None,
     us_platform_role = Some ''platform_admin'', us_tenant = None\<rparr>"

definition guarded_db :: control_db where
  "guarded_db = \<lparr>db_tenants = [sample_tenant],
     db_users = [sample_user 101 ''ann@x'' sample_tenant, sample_operator],
     db_workspaces = [\<lparr>ws_id = 10, ws_tenant = sample_tenant\<rparr>, \<lparr>ws_id = 11, ws_tenant = sample_tenant\<rparr>],
     db_assignments = [sample_assignment 201 10 101 admin_role],
     db_roles = [], db_permissions = [], db_grants = []\<rparr>"

definition sample_admin :: Actor where
  "sample_admin = \<lparr>ac_id = 101, ac_role = admin_role, ac_tenant = Some sample_tenant\<rparr>"

definition sample_start :: support_state where
  "sample_start = \<lparr>ss_db = guarded_db, ss_audit = []\<rparr>"

definition sample_grant :: SupportGrant where
  "sample_grant = \<lparr>sg_id = 501, sg_tenant = sample_tenant, sg_workspace = Some 10, sg_granted_by = 101,
     sg_reason = None, sg_created_at = 5, sg_expires_at = 65, sg_revoked_at = None, sg_revoked_by = None\<rparr>"

definition sample_opened :: support_state where
  "sample_opened = \<lparr>ss_db = guarded_db\<lparr>db_grants := [sample_grant]\<rparr>,
     ss_audit = [(''support_access_granted'', 501)]\<rparr>"

lemma sample_opening:
  "create_support_access_grant True 5 501 sample_tenant_text (Some 10) 60 None sample_admin sample_start =
     (Inr sample_grant, sample_opened)"
  by code_simp

lemma sample_run: "control_run sample_start 0 sample_opened 5"
proof -
  have "control_run sample_start 0 sample_start 5" by (rule run_wait [OF run_start]) simp
  then show ?thesis by (rule run_step) (rule step_open [OF sample_opening])
qed

text \<open>A token the service issued to a user, in the header.\<close>

definition token_of :: "control_db \<Rightarrow> User \<Rightarrow> string \<Rightarrow> jwt_result" where
  "token_of db x token = Decoded (issue_claims db x)"

definition sample_header :: "string option" where
  "sample_header = Some (bearer_prefix @ ''t'')"

lemma sample_actor:
  "workspace_actor (token_of db x) sample_header =
     Inr \<lparr>ac_id = us_id x, ac_role = resolve_actor_role db (Some x), ac_tenant = us_tenant x\<rparr>"
  unfolding sample_header_def by (rule fresh_token_actor) (simp_all add: token_of_def)

lemma operator_allowed:
  "require_workspace_permission (token_of guarded_db sample_operator) 5 ''rules:write''
     (ss_db sample_opened) sample_header 10 =
   Inr \<lparr>ac_id = 900, ac_role = ''platform_admin'', ac_tenant = None\<rparr>"
proof -
  have "resolve_actor_role guarded_db (Some sample_operator) = ''platform_admin''" by code_simp
  moreover have "permission_rule 5 ''rules:write'' (ss_db sample_opened) 10
      \<lparr>ac_id = 900, ac_role = ''platform_admin'', ac_tenant = None\<rparr> =
      Inr \<lparr>ac_id = 900, ac_role = ''platform_admin'', ac_tenant = None\<rparr>"
    by code_simp
  ultimately show ?thesis
    by (simp add: require_workspace_permission_def sample_actor) (simp add: sample_operator_def)
qed

section \<open>Platform operators need the client's consent\<close>

text \<open>Every grant was opened during the run, by an administrator of its tenant.\<close>

lemma grant_origin:
  assumes "control_run st0 t0 st t" and "db_grants (ss_db st0) = []" and "g \<in> set (db_grants (ss_db st))"
  shows "\<exists>st1 a. control_run st0 t0 st1 (sg_created_at g) \<and>
    require_client_tenant_admin (ss_db st1) (sg_tenant g) a = None \<and> ac_id a = sg_granted_by g"
  using assms
proof (induction arbitrary: g rule: control_run.induct)
  case (run_step st t st')
  from run_step.hyps(2) show ?case
  proof (cases rule: control_step_cases)
    case same
    with run_step show ?thesis by simp
  next
    case (opened g' t' actor)
    with run_step show ?thesis by (cases "g = g'") auto
  next
    case (closed p b)
    with run_step.prems(2) obtain h where h: "h \<in> set (db_grants (ss_db st))"
        and "g = h \<or> g = h\<lparr>sg_revoked_at := Some t, sg_revoked_by := Some b\<rparr>"
      by (auto split: if_splits)
    then have "sg_created_at g = sg_created_at h" "sg_tenant g = sg_tenant h" "sg_granted_by g = sg_granted_by h"
      by auto
    with run_step.IH [OF run_step.prems(1) h] show ?thesis by simp
  qed
qed simp_all



section \<open>Grants only end\<close>

text \<open>
  C11: A grant never comes back and never grows: along every run of the control plane each grant
  stays on record, unchanged but for being revoked once; a revoked grant never changes again.
\<close>

theorem grants_only_end:
  assumes "control_run st t st' t'" and "g \<in> set (db_grants (ss_db st))"
  shows "\<exists>g' \<in> set (db_grants (ss_db st')). g' = g \<or>
    (sg_revoked_at g = None \<and> (\<exists>x b. g' = g\<lparr>sg_revoked_at := Some x, sg_revoked_by := Some b\<rparr>))"
  using assms
proof (induction rule: control_run.induct)
  case (run_step st1 t1 st2)
  then obtain g1 where g1: "g1 \<in> set (db_grants (ss_db st1))" "g1 = g \<or>
      (sg_revoked_at g = None \<and> (\<exists>x b. g1 = g\<lparr>sg_revoked_at := Some x, sg_revoked_by := Some b\<rparr>))"
    by blast
  have "\<exists>g2 \<in> set (db_grants (ss_db st2)). g2 = g1 \<or>
      (sg_revoked_at g1 = None \<and> (\<exists>x b. g2 = g1\<lparr>sg_revoked_at := Some x, sg_revoked_by := Some b\<rparr>))"
    using run_step.hyps(2)
  proof (cases rule: control_step_cases)
    case (closed p b)
    show ?thesis
    proof (cases "p g1 \<and> sg_revoked_at g1 = None")
      case True
      then have "g1\<lparr>sg_revoked_at := Some t1, sg_revoked_by := Some b\<rparr> \<in> set (db_grants (ss_db st2))"
        unfolding closed set_update_where using g1(1) by (intro rev_image_eqI [of g1]) auto
      with True show ?thesis by blast
    next
      case False
      then have "g1 \<in> set (db_grants (ss_db st2))"
        unfolding closed set_update_where using g1(1) by (intro rev_image_eqI [of g1]) auto
      then show ?thesis by blast
    qed
  qed (use g1(1) in auto)
  then obtain g2 where g2: "g2 \<in> set (db_grants (ss_db st2))" "g2 = g1 \<or>
      (sg_revoked_at g1 = None \<and> (\<exists>x b. g2 = g1\<lparr>sg_revoked_at := Some x, sg_revoked_by := Some b\<rparr>))"
    by blast
  show ?case
  proof (cases "g1 = g")
    case True
    with g2 show ?thesis by blast
  next
    case False
    with g1(2) have "sg_revoked_at g1 \<noteq> None" by auto
    with g2 g1(2) show ?thesis by blast
  qed
qed blast+

theorem grants_only_end_witness:
  "\<exists>g' \<in> set (db_grants (ss_db sample_opened)). sg_expires_at g' = 65"
proof -
  have "control_run sample_opened 5 sample_opened 9" by (rule run_wait [OF run_start]) simp
  moreover have "sample_grant \<in> set (db_grants (ss_db sample_opened))" by (simp add: sample_opened_def)
  ultimately have "\<exists>g' \<in> set (db_grants (ss_db sample_opened)). g' = sample_grant \<or>
      (sg_revoked_at sample_grant = None \<and>
       (\<exists>x b. g' = sample_grant\<lparr>sg_revoked_at := Some x, sg_revoked_by := Some b\<rparr>))"
    by (rule grants_only_end)
  then obtain g' where g': "g' \<in> set (db_grants (ss_db sample_opened))" "g' = sample_grant \<or>
      (\<exists>x b. g' = sample_grant\<lparr>sg_revoked_at := Some x, sg_revoked_by := Some b\<rparr>)" by blast
  then have "sg_expires_at g' = 65" by (auto simp: sample_grant_def)
  with g'(1) show ?thesis by blast
qed

text \<open>
  A grant can be in force without a trace in the audit log: the grant is committed before
  its audit entry is written, so a request whose entry fails is answered with an error, leaves
  the log as it was, and opens the access all the same.
\<close>

theorem audit_failure_leaves_the_grant:
  assumes "create_support_access_grant True now i tt ws d reason actor st = (Inr g, st1)"
  shows "\<exists>e st2. create_support_access_grant False now i tt ws d reason actor st = (Inl e, st2) \<and>
    status_code e = 500 \<and> ss_audit st2 = ss_audit st \<and> ss_db st2 = ss_db st1 \<and>
    has_active_grant now (ss_db st2) (Some (sg_tenant g)) ws"
  using assms
proof (cases rule: open_cases)
  case rejected
  then show ?thesis by blast
next
  case (opened t g')
  then have g: "g = g'" by simp
  have "create_support_access_grant False now i tt ws d reason actor st =
      (Inl (Unhandled ''AuditWriteFailedError''), st\<lparr>ss_db := ss_db st1\<rparr>)"
    using assms by (auto simp: create_support_access_grant_def split: if_splits sum.splits option.splits)
  moreover have "now < sg_expires_at g" using g opened(1) clamp_bounds [of d] by simp
  then have "has_active_grant now (ss_db st1) (Some (sg_tenant g)) ws"
    using g opened(1,2) by (simp add: has_active_grant_def grant_active_def)
  ultimately show ?thesis by simp
qed

theorem audit_failure_leaves_the_grant_witness:
  "\<exists>e st2. create_support_access_grant False 5 501 sample_tenant_text (Some 10) 60 None sample_admin sample_start =
     (Inl e, st2) \<and> status_code e = 500 \<and> ss_audit st2 = []"
  using audit_failure_leaves_the_grant [OF sample_opening] by (auto simp: sample_start_def)

section \<open>Who may create a workspace\<close>

lemma resolve_without_platform_role:
  assumes "us_platform_role x = None" and "a \<in> set (db_assignments db)" and "ra_user a = us_id x"
    and "ra_role a = c" and "WORKSPACE_ROLE_PRECEDENCE = cs @ c # ds"
  shows "resolve_actor_role db (Some x) \<in> set (cs @ [c])"
proof -
  let ?roles = "map ra_role (filter (\<lambda>a. ra_user a = us_id x) (db_assignments db))"
  have c: "c \<in> set ?roles" using assms(2-4) by auto
  have "\<exists>d \<in> set (cs @ [c]). find (\<lambda>c. c \<in> set ?roles) (cs @ c # ds) = Some d"
    using c by (induction cs) auto
  then show ?thesis using assms(1,5) by (auto simp: resolve_actor_role_def Let_def simp del: set_map set_filter)
qed

text \<open>
  A workspace administrator cannot create a workspace with a fresh token.  The login puts
  \<open>workspace_administrator\<close> into the token, and the guard of the endpoint, which is meant for
  them, looks up assignments only for tokens with the role \<open>member\<close>: it answers 401 or 403.  The
  same user with a \<open>member\<close> token would be let in.
\<close>

theorem workspace_admins_cannot_create_workspaces:
  assumes "us_platform_role x = None" and "a \<in> set (db_assignments db)" and "ra_user a = us_id x"
    and "ra_role a = admin_role" and "jwt token = Decoded (issue_claims db x)" and "token \<noteq> []"
  shows "(\<exists>e. verify_workspace_admin_in_tenant jwt db (Some (bearer_prefix @ token)) = Inl e \<and>
      status_code e \<in> {401, 403}) \<and>
    (\<forall>t. is_workspace_admin_in_tenant db (us_id x) t \<longrightarrow>
       workspace_create_rule db \<lparr>ac_id = us_id x, ac_role = ''member'', ac_tenant = Some t\<rparr> =
         Inr \<lparr>ac_id = us_id x, ac_role = ''member'', ac_tenant = Some t\<rparr>)"
proof -
  have role: "resolve_actor_role db (Some x) = admin_role"
    using resolve_without_platform_role [OF assms(1-4), of "[]" "tl WORKSPACE_ROLE_PRECEDENCE"]
    by (simp add: WORKSPACE_ROLE_PRECEDENCE_def)
  have "verify_workspace_admin_in_tenant jwt db (Some (bearer_prefix @ token)) =
      workspace_create_rule db \<lparr>ac_id = us_id x, ac_role = admin_role, ac_tenant = us_tenant x\<rparr>"
    using fresh_token_actor [where db = db and x = x and jwt = jwt and token = token, OF assms(5,6)] role
    by (simp add: verify_workspace_admin_in_tenant_def)
  then show ?thesis
    by (auto simp: workspace_create_rule_def InsufficientPermissionsError_def split: option.splits)
qed

theorem workspace_admins_cannot_create_workspaces_witness:
  "\<exists>e. verify_workspace_admin_in_tenant (token_of guarded_db (sample_user 101 ''ann@x'' sample_tenant)) guarded_db
     sample_header = Inl e \<and> status_code e \<in> {401, 403}"
proof -
  let ?x = "sample_user 101 ''ann@x'' sample_tenant"
  have "us_platform_role ?x = None" "sample_assignment 201 10 101 admin_role \<in> set (db_assignments guarded_db)"
      "ra_user (sample_assignment 201 10 101 admin_role) = us_id ?x"
      "ra_role (sample_assignment 201 10 101 admin_role) = admin_role"
      "token_of guarded_db ?x ''t'' = Decoded (issue_claims guarded_db ?x)" "''t'' \<noteq> []"
    by (simp_all add: sample_user_def sample_assignment_def guarded_db_def token_of_def)
  from workspace_admins_cannot_create_workspaces
    [where jwt = "token_of guarded_db ?x" and token = "''t''", OF this] show ?thesis by (simp add: sample_header_def)
qed

section \<open>The roles in tokens and the permissions of roles\<close>

text \<open>
  For the fixed roles, the role lists of the data source and dataset guards agree with the
  permission table of the role service, with two exceptions: an analyst's token reads data
  sources without the permission \<open>datasources:read\<close>, and an engineer's token does not archive
  datasets although the role has \<open>datasets:delete\<close>.
\<close>

theorem token_roles_against_permissions:
  "list_all (\<lambda>(n, ps).
      (n \<in> set DATA_SOURCE_WRITE_ROLES \<longleftrightarrow> ''datasources:write'' \<in> set ps) \<and>
      (n \<in> set DATA_SOURCE_READ_ROLES \<longleftrightarrow> ''datasources:read'' \<in> set ps \<or> n = ''business_analyst'') \<and>
      (n \<in> set DATASET_WRITE_ROLES \<longleftrightarrow> ''datasets:write'' \<in> set ps) \<and>
      (n \<in> set DATASET_READ_ROLES \<longleftrightarrow> ''datasets:read'' \<in> set ps) \<and>
      (n \<in> set DATASET_PAUSE_ROLES \<longleftrightarrow> ''datasets:delete'' \<in> set ps) \<and>
      (n \<in> set DATASET_ARCHIVE_ROLES \<longleftrightarrow> ''datasets:delete'' \<in> set ps \<and> n \<noteq> ''data_engineer''))
    FIXED_ROLE_PERMISSIONS \<and>
   ''datasources:read'' \<notin> set business_analyst_permissions \<and>
   ''datasets:delete'' \<in> set data_engineer_permissions"
  by code_simp

text \<open>
  The dataset guard does not look at the workspace.  Who may write datasets in any one
  workspace passes the guard for every workspace of every tenant with a fresh token, also where
  the permission guard would refuse the same request because the user is no member.
\<close>

theorem dataset_guard_ignores_the_workspace:
  assumes "us_platform_role x = None" and "us_tenant x = Some t"
    and "a \<in> set (db_assignments db)" and "ra_user a = us_id x"
    and "ra_role a \<in> {admin_role, ''data_engineer'', ''data_steward''}"
    and "jwt token = Decoded (issue_claims db x)" and "token \<noteq> []"
  shows "\<exists>actor. ac_id actor = us_id x \<and>
    (\<forall>w. verify_dataset_write_actor jwt now db (Some (bearer_prefix @ token)) w = Inr actor) \<and>
    (\<forall>w. get_member_role db w (us_id x) = None \<longrightarrow>
       (\<exists>e. require_workspace_permission jwt now ''datasets:write'' db (Some (bearer_prefix @ token)) w = Inl e \<and>
          status_code e = 403))"
proof -
  let ?r = "resolve_actor_role db (Some x)"
  let ?actor = "\<lparr>ac_id = us_id x, ac_role = ?r, ac_tenant = Some t\<rparr>"
  have three: "WORKSPACE_ROLE_PRECEDENCE = [] @ admin_role # tl WORKSPACE_ROLE_PRECEDENCE"
      "WORKSPACE_ROLE_PRECEDENCE = [admin_role] @ ''data_engineer'' # drop 2 WORKSPACE_ROLE_PRECEDENCE"
      "WORKSPACE_ROLE_PRECEDENCE = [admin_role, ''data_engineer''] @ ''data_steward'' # drop 3 WORKSPACE_ROLE_PRECEDENCE"
    by (simp_all add: WORKSPACE_ROLE_PRECEDENCE_def)
  have role: "?r \<in> {admin_role, ''data_engineer'', ''data_steward''}"
    using assms(5) resolve_without_platform_role [OF assms(1,3,4) _ three(1)]
      resolve_without_platform_role [OF assms(1,3,4) _ three(2)]
      resolve_without_platform_role [OF assms(1,3,4) _ three(3)] by auto
  have actor: "workspace_actor jwt (Some (bearer_prefix @ token)) = Inr ?actor"
    using fresh_token_actor [where db = db and x = x and jwt = jwt and token = token, OF assms(6,7)]
    by (simp add: assms(2))
  have "resource_actor DATASET_TENANT_OPTIONAL_ROLES jwt (Some (bearer_prefix @ token)) = Inr ?actor"
    using fresh_token_resource_actor [where db = db and x = x and jwt = jwt and token = token, OF assms(6,7)]
    by (simp add: assms(2))
  with role have "verify_dataset_write_actor jwt now db (Some (bearer_prefix @ token)) w = Inr ?actor" for w
    by (auto simp: verify_dataset_write_actor_def role_guard_def DATASET_WRITE_ROLES_def
        require_grant_if_platform_admin_def)
  moreover have "\<exists>e. require_workspace_permission jwt now ''datasets:write'' db (Some (bearer_prefix @ token)) w = Inl e \<and>
      status_code e = 403" if "get_member_role db w (us_id x) = None" for w
    using that role by (auto simp: require_workspace_permission_def actor permission_rule_def
        PLATFORM_OPERATOR_ROLES_def check_permission_def InsufficientPermissionsError_def)
  ultimately show ?thesis by (intro exI [of _ ?actor]) simp
qed

theorem dataset_guard_ignores_the_workspace_witness:
  "\<exists>actor. verify_dataset_write_actor (token_of guarded_db (sample_user 101 ''ann@x'' sample_tenant)) 7 guarded_db
      sample_header 11 = Inr actor \<and> ac_id actor = 101"
proof -
  let ?x = "sample_user 101 ''ann@x'' sample_tenant"
  have "us_platform_role ?x = None" "us_tenant ?x = Some sample_tenant"
      "sample_assignment 201 10 101 admin_role \<in> set (db_assignments guarded_db)"
      "ra_user (sample_assignment 201 10 101 admin_role) = us_id ?x"
      "ra_role (sample_assignment 201 10 101 admin_role) \<in> {admin_role, ''data_engineer'', ''data_steward''}"
      "token_of guarded_db ?x ''t'' = Decoded (issue_claims guarded_db ?x)" "''t'' \<noteq> []"
    by (simp_all add: sample_user_def sample_assignment_def guarded_db_def token_of_def)
  from dataset_guard_ignores_the_workspace
    [where jwt = "token_of guarded_db ?x" and token = "''t''" and now = 7, OF this]
  show ?thesis by (auto simp: sample_header_def sample_user_def)
qed

end
