(* ===== verification/Binary64.thy ===== *)
theory Binary64
  imports Prelude "HOL-Library.Log_Nat"
begin

text \<open>
  Floating-point numbers as far as the rule executor computes with them.  A finite binary64 value
  is the rational it denotes, and an operation is the exact one followed by \<open>fl\<close>: 53 significant
  bits, ties to even, gradual underflow at the exponent -1074, overflow to an infinity from 2^1024.
  The two zeros are one.
\<close>

section \<open>Rounding\<close>

text \<open>To the nearest integer, ties to even: \<open>round(x)\<close>.\<close>

definition round_half_even :: "rat \<Rightarrow> int" where
  "round_half_even x =
     (let f = \<lfloor>x\<rfloor>; d = x - of_int f
      in if d < 1 / 2 then f else if d > 1 / 2 then f + 1 else if even f then f else f + 1)"

definition pow2 :: "int \<Rightarrow> rat" where
  "pow2 e = (if 0 \<le> e then 2 ^ nat e else 1 / 2 ^ nat (- e))"

text \<open>The exponent of the leading bit.\<close>

definition magnitude :: "rat \<Rightarrow> int" where
  "magnitude x =
     (let (a, b) = quotient_of \<bar>x\<bar>; e = bitlen a - bitlen b
      in if pow2 e \<le> \<bar>x\<bar> then e else e - 1)"

definition fl :: "rat \<Rightarrow> rat" where
  "fl x = (let u = max (magnitude x - 52) (-1074) in of_int (round_half_even (x / pow2 u)) * pow2 u)"

definition to_double :: "rat \<Rightarrow> pyfloat" where
  "to_double x = (if 2 ^ 1024 \<le> \<bar>fl x\<bar> then FInf (0 < x) else FFin (fl x))"

section \<open>Arithmetic\<close>

definition float_mul :: "pyfloat \<Rightarrow> pyfloat \<Rightarrow> pyfloat" where
  "float_mul x y =
     (case (x, y) of
        (FFin a, FFin b) \<Rightarrow> to_double (a * b)
      | (FInf s, FFin b) \<Rightarrow> if b = 0 then FNan else FInf (s = (0 < b))
      | (FFin a, FInf s) \<Rightarrow> if a = 0 then FNan else FInf (s = (0 < a))
      | (FInf s, FInf t) \<Rightarrow> FInf (s = t)
      | _ \<Rightarrow> FNan)"

definition float_sub :: "pyfloat \<Rightarrow> pyfloat \<Rightarrow> pyfloat" where
  "float_sub x y =
     (case (x, y) of
        (FFin a, FFin b) \<Rightarrow> to_double (a - b)
      | (FInf s, FFin b) \<Rightarrow> FInf s
      | (FFin a, FInf s) \<Rightarrow> FInf (\<not> s)
      | (FInf s, FInf t) \<Rightarrow> if s = t then FNan else FInf s
      | _ \<Rightarrow> FNan)"

text \<open>Division by a positive finite number, the only one the code divides by.\<close>

definition float_div_pos :: "pyfloat \<Rightarrow> rat \<Rightarrow> pyfloat" where
  "float_div_pos x b = (case x of FFin a \<Rightarrow> to_double (a / b) | _ \<Rightarrow> x)"

text \<open>\<open>abs(x) <= b\<close>.\<close>

definition float_abs_le :: "pyfloat \<Rightarrow> rat \<Rightarrow> bool" where
  "float_abs_le x b = (case x of FFin a \<Rightarrow> \<bar>a\<bar> \<le> b | _ \<Rightarrow> False)"

text \<open>
  \<open>Decimal(str(round(x, 2)))\<close> in hundredths: \<open>round\<close> with digits rounds the exact value to the
  nearest hundredth, ties to even, and the shortest text of the double nearest to a hundredth
  is that hundredth as long as it has at most 15 digits.
\<close>

definition hundredths :: "rat \<Rightarrow> int" where
  "hundredths x = round_half_even (100 * x)"

section \<open>Lemmas\<close>

lemma round_half_even_dist: "\<bar>of_int (round_half_even x) - x\<bar> \<le> 1 / 2"
proof -
  have "of_int \<lfloor>x\<rfloor> \<le> x" "x < of_int \<lfloor>x\<rfloor> + 1" by (rule of_int_floor_le) (rule floor_less_cancel, simp)
  then show ?thesis by (auto simp: round_half_even_def Let_def)
qed

lemma round_half_even_unique:
  assumes "\<bar>x - of_int n\<bar> < 1 / 2"
  shows "round_half_even x = n"
proof -
  have "\<bar>of_int (round_half_even x) - (of_int n :: rat)\<bar> < 1"
    using assms round_half_even_dist [of x] by linarith
  then have "\<bar>of_int (round_half_even x - n) :: rat\<bar> < 1" by simp
  then have "\<bar>round_half_even x - n\<bar> < 1" by (metis of_int_abs of_int_less_1_iff)
  then show ?thesis by simp
qed

lemma round_half_even_of_int [simp]: "round_half_even (of_int n) = n"
  by (rule round_half_even_unique) simp

lemma round_half_even_mono: "x \<le> y \<Longrightarrow> round_half_even x \<le> round_half_even y"
proof (rule ccontr)
  assume le: "x \<le> y" and "\<not> round_half_even x \<le> round_half_even y"
  then have gt: "round_half_even y + 1 \<le> round_half_even x" by simp
  then have "of_int (round_half_even y) + 1 \<le> (of_int (round_half_even x) :: rat)"
    by (metis of_int_1 of_int_add of_int_le_iff)
  with le round_half_even_dist [of x] round_half_even_dist [of y]
  have "x = y" by linarith
  with gt show False by simp
qed

lemma pow2_pos [simp]: "0 < pow2 e"
  by (simp add: pow2_def)

lemma pow2_nonneg [simp]: "0 \<le> pow2 e"
  by (simp add: less_imp_le)

lemma pow2_nz [simp]: "pow2 e \<noteq> 0"
  using pow2_pos [of e] by linarith

lemma pow2_powi: "pow2 e = 2 powi e"
  by (simp add: pow2_def power_int_def power_one_over inverse_eq_divide)

lemma pow2_add: "pow2 (a + b) = pow2 a * pow2 b"
  by (simp add: pow2_powi power_int_add)

lemma pow2_mono: "a \<le> b \<Longrightarrow> pow2 a \<le> pow2 b"
  by (simp add: pow2_powi power_int_increasing)

lemma pow2_nat [simp]: "pow2 (int n) = 2 ^ n"
  by (simp add: pow2_def)

lemma bitlen_pow2_bounds:
  assumes "0 < n"
  shows "pow2 (bitlen n - 1) \<le> of_int n" and "of_int n < pow2 (bitlen n)"
proof -
  have l: "1 \<le> bitlen n" using assms bitlen_ge_iff_power [of 1 n] by simp
  have p: "pow2 k = of_int (2 ^ nat k)" if "0 \<le> k" for k using that by (simp add: pow2_def)
  from bitlen_bounds [OF assms] l show "pow2 (bitlen n - 1) \<le> of_int n" "of_int n < pow2 (bitlen n)"
    by (simp_all only: p diff_ge_0_iff_ge of_int_le_iff of_int_less_iff)
qed

lemma magnitude_bounds:
  assumes "x \<noteq> 0"
  shows "pow2 (magnitude x) \<le> \<bar>x\<bar>" and "\<bar>x\<bar> < pow2 (magnitude x + 1)"
proof -
  obtain a b where q: "quotient_of \<bar>x\<bar> = (a, b)" by (cases "quotient_of \<bar>x\<bar>")
  have b: "0 < b" using quotient_of_denom_pos [OF q] .
  have x: "\<bar>x\<bar> = of_int a / of_int b" using quotient_of_div [OF q] .
  have a: "0 < a" using assms x b by (metis abs_eq_0_iff abs_ge_zero divide_eq_0_iff divide_less_0_iff
      less_le of_int_0_less_iff of_int_less_0_iff linorder_neqE not_le of_int_0)
  let ?e = "bitlen a - bitlen b"
  note ab = bitlen_pow2_bounds [OF a] bitlen_pow2_bounds [OF b]
  have bp: "(0::rat) < of_int b" using b by simp
  have up: "\<bar>x\<bar> < pow2 (?e + 1)"
  proof -
    have "of_int a < pow2 (?e + 1) * pow2 (bitlen b - 1)"
      using ab(2) by (simp flip: pow2_add)
    also have "\<dots> \<le> pow2 (?e + 1) * of_int b" using ab(3) by (simp add: mult_left_mono)
    finally show ?thesis using bp by (simp add: x pos_divide_less_eq)
  qed
  have lo: "pow2 (?e - 1) \<le> \<bar>x\<bar>"
  proof -
    have "pow2 (?e - 1) * of_int b \<le> pow2 (?e - 1) * pow2 (bitlen b)"
      using ab(4) by (simp add: mult_left_mono)
    also have "\<dots> \<le> of_int a" using ab(1) by (simp flip: pow2_add)
    finally show ?thesis using bp by (simp add: x pos_le_divide_eq)
  qed
  show "pow2 (magnitude x) \<le> \<bar>x\<bar>" "\<bar>x\<bar> < pow2 (magnitude x + 1)"
    using lo up by (auto simp: magnitude_def q Let_def)
qed

text \<open>The relative error of one rounding, outside the range of gradual underflow.\<close>

lemma fl_error:
  assumes "pow2 (-1022) \<le> \<bar>x\<bar>"
  shows "\<bar>fl x - x\<bar> \<le> \<bar>x\<bar> / 2 ^ 53"
proof -
  have nz: "x \<noteq> 0" using assms pow2_pos [of "-1022"] by (metis abs_zero not_less)
  have "pow2 (-1022) < pow2 (magnitude x + 1)" using assms magnitude_bounds(2) [OF nz] by linarith
  then have "-1022 < magnitude x + 1" using pow2_mono [of "magnitude x + 1" "-1022"] by linarith
  then have u: "max (magnitude x - 52) (-1074) = magnitude x - 52" by simp
  let ?u = "pow2 (magnitude x - 52)"
  have up: "0 < ?u" by simp
  have "fl x - x = (of_int (round_half_even (x / ?u)) - x / ?u) * ?u"
    by (simp add: fl_def Let_def u left_diff_distrib)
  then have "\<bar>fl x - x\<bar> = \<bar>of_int (round_half_even (x / ?u)) - x / ?u\<bar> * ?u"
    by (simp add: abs_mult)
  also have "\<dots> \<le> 1 / 2 * ?u" using round_half_even_dist [of "x / ?u"] by (simp add: mult_right_mono)
  also have "\<dots> = pow2 (magnitude x) / 2 ^ 53"
    using pow2_add [of "magnitude x - 52" 52] pow2_nat [of 52] by (simp add: field_simps)
  also have "\<dots> \<le> \<bar>x\<bar> / 2 ^ 53" using magnitude_bounds(1) [OF nz] by (simp add: divide_right_mono)
  finally show ?thesis .
qed

lemma fl_zero [simp]: "fl 0 = 0"
  using round_half_even_of_int [of 0] by (simp add: fl_def)

text \<open>Integers of up to 53 bits are exact.\<close>

lemma fl_int:
  assumes "\<bar>n\<bar> \<le> 2 ^ 53"
  shows "fl (of_int n) = of_int n"
proof (cases "n = 0")
  case False
  let ?x = "of_int n :: rat"
  show ?thesis
  proof (cases "\<bar>n\<bar> = 2 ^ 53")
    case True
    have m: "magnitude ?x = 53"
    proof -
      have b: "pow2 (magnitude ?x) \<le> pow2 53" "pow2 53 < pow2 (magnitude ?x + 1)"
        using magnitude_bounds [of ?x] False True pow2_nat [of 53] by (auto simp flip: of_int_abs)
      then have "\<not> 53 < magnitude ?x" "\<not> magnitude ?x + 1 \<le> 53"
        using pow2_mono [of "magnitude ?x + 1" 53] pow2_mono [of 54 "magnitude ?x"] pow2_nat [of 54] pow2_nat [of 53]
        by auto
      then show ?thesis by simp
    qed
    have "?x / pow2 1 = of_int (n div 2)"
    proof -
      have "n = 2 ^ 53 \<or> n = - (2 ^ 53)" using True by linarith
      then show ?thesis using pow2_nat [of 1] by (elim disjE) simp_all
    qed
    then have "fl ?x = of_int (n div 2) * pow2 1" by (simp add: fl_def m)
    with \<open>?x / pow2 1 = of_int (n div 2)\<close> show ?thesis by (metis nonzero_divide_eq_eq pow2_nz)
  next
    case False': False
    with assms have l: "\<bar>n\<bar> < 2 ^ 53" by simp
    have "pow2 (magnitude ?x) < pow2 53"
      using magnitude_bounds(1) [of ?x] False l pow2_nat [of 53]
      by (metis (no_types, lifting) le_less_trans of_int_abs of_int_eq_0_iff of_int_less_iff of_int_numeral
          of_int_power of_nat_numeral)
    then have m: "magnitude ?x \<le> 52" using pow2_mono [of 53 "magnitude ?x"] by linarith
    let ?u = "max (magnitude ?x - 52) (-1074)"
    have "?u \<le> 0" using m by simp
    then have "?x / pow2 ?u = of_int (n * 2 ^ nat (- ?u))" by (cases "?u = 0") (simp_all add: pow2_def)
    then have "of_int (round_half_even (?x / pow2 ?u)) = ?x / pow2 ?u" by (metis round_half_even_of_int)
    then show ?thesis by (simp add: fl_def)
  qed
qed simp

end
