(* ===== verification/RuleResults.thy ===== *)
theory RuleResults
  imports Binary64
begin

text \<open>
  How \<open>RuleExecutor\<close> of \<open>app/services/rules/executor.py\<close> reads the one row a compiled rule
  returns: \<open>_execute_sql_rule\<close> turns its columns into three counts, \<open>execute_rule\<close> turns the
  counts into a pass rate, and \<open>_check_thresholds\<close> compares both with the thresholds of the rule.

  A number of the row is an \<open>int\<close>, or a \<open>Decimal\<close> or \<open>float\<close> as the rational it denotes; column
  names are distinct.
\<close>

section \<open>Conversions\<close>

text \<open>\<open>int(text)\<close>: spaces around, a sign, digits with single underscores between them.\<close>

fun digits_value :: "int \<Rightarrow> string \<Rightarrow> int option" where
  "digits_value acc [] = Some acc"
| "digits_value acc (c # s) =
     (if is_digit c then digits_value (10 * acc + int (code_of c) - 48) s
      else case s of
             d # s' \<Rightarrow> if c = CHR ''_'' \<and> is_digit d
                      then digits_value (10 * acc + int (code_of d) - 48) s' else None
           | [] \<Rightarrow> None)"

definition unsigned_int :: "string \<Rightarrow> int option" where
  "unsigned_int s = (case s of c # _ \<Rightarrow> if is_digit c then digits_value 0 s else None | [] \<Rightarrow> None)"

definition parse_int :: "string \<Rightarrow> int option" where
  "parse_int s =
     (let t = strip s
      in if starts_with ''-'' t then map_option uminus (unsigned_int (tl t))
         else if starts_with ''+'' t then unsigned_int (tl t)
         else unsigned_int t)"

text \<open>\<open>int(v)\<close>.\<close>

definition to_int :: "pyval \<Rightarrow> py_error + int" where
  "to_int v =
     (case v of
        PInt i \<Rightarrow> Inr i
      | PBool b \<Rightarrow> Inr (if b then 1 else 0)
      | PFloat (FFin x) \<Rightarrow> Inr (if 0 \<le> x then \<lfloor>x\<rfloor> else \<lceil>x\<rceil>)
      | PFloat (FInf b) \<Rightarrow> Inl (OverflowError ''cannot convert float infinity to integer'')
      | PFloat FNan \<Rightarrow> Inl (ValueError ''cannot convert float NaN to integer'')
      | PStr s \<Rightarrow> (case parse_int s of Some i \<Rightarrow> Inr i | None \<Rightarrow> Inl (ValueError ''invalid literal for int()''))
      | _ \<Rightarrow> Inl (TypeError ''int() argument''))"

text \<open>\<open>int(v or 0)\<close>.\<close>

definition int_or_zero :: "pyval \<Rightarrow> py_error + int" where
  "int_or_zero v = (if truthy v then to_int v else Inr 0)"

text \<open>
  \<open>float(v)\<close>; the parser of numeric texts is the parameter \<open>ft\<close>.  An \<open>int\<close> rounds, and raises
  when it is too large.
\<close>

definition to_float :: "(string \<Rightarrow> pyfloat option) \<Rightarrow> pyval \<Rightarrow> py_error + pyfloat" where
  "to_float ft v =
     (case v of
        PInt i \<Rightarrow> (case to_double (of_int i) of
                    FFin x \<Rightarrow> Inr (FFin x)
                  | _ \<Rightarrow> Inl (OverflowError ''int too large to convert to float''))
      | PBool b \<Rightarrow> Inr (FFin (if b then 1 else 0))
      | PFloat (FFin x) \<Rightarrow> Inr (to_double x)
      | PFloat f \<Rightarrow> Inr f
      | PStr s \<Rightarrow> (case ft s of Some f \<Rightarrow> Inr f | None \<Rightarrow> Inl (ValueError ''could not convert string to float''))
      | _ \<Rightarrow> Inl (TypeError ''float() argument''))"

section \<open>The columns of the result\<close>

definition DIM_ALIASES :: "(string \<times> string \<times> string) list" where
  "DIM_ALIASES =
     [(''completeness'', ''non_null_rows'', ''null_rows''),
      (''validity'', ''valid_rows'', ''invalid_rows''),
      (''uniqueness'', ''unique_rows'', ''duplicate_rows''),
      (''conformity'', ''conforming_rows'', ''non_conforming_rows''),
      (''consistency'', ''consistent_rows'', ''inconsistent_rows''),
      (''accuracy'', ''accurate_rows'', ''inaccurate_rows''),
      (''timeliness'', ''timely_rows'', ''untimely_rows''),
      (''reconciliation'', ''matched_rows'', ''unmatched_rows'')]"

definition PASSED_FALLBACKS :: "string list" where
  "PASSED_FALLBACKS =
     [''passed_rows'', ''valid_rows'', ''non_null_rows'', ''conforming_rows'', ''consistent_rows'',
      ''accurate_rows'', ''timely_rows'', ''matched_rows'', ''verified_rows'']"

definition FAILED_FALLBACKS :: "string list" where
  "FAILED_FALLBACKS =
     [''failed_rows'', ''invalid_rows'', ''null_rows'', ''nonconforming_rows'', ''non_conforming_rows'',
      ''inconsistent_rows'', ''inaccurate_rows'', ''untimely_rows'', ''unmatched_rows'',
      ''duplicate_rows'', ''violations'', ''violation_count'']"

text \<open>The first column of a list that is there and not null; \<open>PNone\<close> when there is none.\<close>

definition first_given :: "dict \<Rightarrow> string list \<Rightarrow> pyval" where
  "first_given r ks =
     (case find (\<lambda>k. dict_get r k PNone \<noteq> PNone) ks of None \<Rightarrow> PNone | Some k \<Rightarrow> dict_get r k PNone)"

definition aliased :: "pyval \<Rightarrow> dict \<Rightarrow> pyval \<times> pyval" where
  "aliased dimension r =
     (let own = (case dimension of PStr d \<Rightarrow> map_of DIM_ALIASES d | _ \<Rightarrow> None);
          p = (case own of Some (a, _) \<Rightarrow> dict_get r a PNone | None \<Rightarrow> PNone);
          f = (case own of Some (_, b) \<Rightarrow> dict_get r b PNone | None \<Rightarrow> PNone)
      in (if p = PNone then first_given r PASSED_FALLBACKS else p,
          if f = PNone then first_given r FAILED_FALLBACKS else f))"

section \<open>Reconciliation\<close>

text \<open>The counts on the way: scanned, passed and failed, each still a value of the row.\<close>

type_synonym raw_counts = "pyval \<times> pyval \<times> pyval"

definition ints_or_zero :: "pyval \<Rightarrow> pyval \<Rightarrow> int \<times> int" where
  "ints_or_zero a b =
     (case (int_or_zero a, int_or_zero b) of (Inr x, Inr y) \<Rightarrow> (x, y) | _ \<Rightarrow> (0, 0))"

definition reconcile_counts :: "dict \<Rightarrow> py_error + raw_counts" where
  "reconcile_counts r =
     (let (src, tgt) = ints_or_zero (dict_get r ''source_count'' PNone) (dict_get r ''target_count'' PNone);
          miss = dict_get r ''missing_in_target'' PNone;
          extra = dict_get r ''extra_in_target'' PNone
      in if miss = PNone \<and> extra = PNone
         then Inr (PInt (max src tgt), PInt (min src tgt), PInt \<bar>src - tgt\<bar>)
         else case int_or_zero miss of
                Inl e \<Rightarrow> Inl e
              | Inr m \<Rightarrow> (case int_or_zero extra of
                           Inl e \<Rightarrow> Inl e
                         | Inr x \<Rightarrow> Inr (PInt (max src tgt), PInt (max (max src tgt - (m + x)) 0), PInt (m + x))))"

definition float_or_zero :: "(string \<Rightarrow> pyfloat option) \<Rightarrow> pyval \<Rightarrow> py_error + pyfloat" where
  "float_or_zero ft v = (if truthy v then to_float ft v else Inr (FFin 0))"

text \<open>\<open>1e-9\<close> is the double nearest to the decimal.\<close>

definition reconcile_aggregates :: "(string \<Rightarrow> pyfloat option) \<Rightarrow> dict \<Rightarrow> raw_counts" where
  "reconcile_aggregates ft r =
     (let (a, b) = (case (float_or_zero ft (dict_get r ''source_agg'' PNone),
                          float_or_zero ft (dict_get r ''target_agg'' PNone)) of
                      (Inr x, Inr y) \<Rightarrow> (x, y) | _ \<Rightarrow> (FFin 0, FFin 0));
          failed = (if float_abs_le (float_sub a b) (fl (1 / 10 ^ 9)) then 0 else 1)
      in (PInt 1, PInt (1 - failed), PInt failed))"

text \<open>The two breakdowns by field and by tolerance.\<close>

definition reconcile_pairs :: "string \<Rightarrow> string \<Rightarrow> dict \<Rightarrow> raw_counts \<Rightarrow> py_error + raw_counts" where
  "reconcile_pairs good bad r c =
     (case int_or_zero (dict_get r bad PNone) of
        Inl e \<Rightarrow> Inl e
      | Inr f \<Rightarrow>
          (case int_or_zero (dict_get r good PNone) of
             Inl e \<Rightarrow> Inl e
           | Inr p \<Rightarrow>
               if truthy (fst c) then Inr (fst c, PInt p, PInt f)
               else let m = dict_get r ''matched_count'' PNone
                    in case to_int (if truthy m then m else PInt (p + f)) of
                         Inl e \<Rightarrow> Inl e
                       | Inr s \<Rightarrow> Inr (PInt s, PInt p, PInt f)))"

definition reconciliation :: "(string \<Rightarrow> pyfloat option) \<Rightarrow> dict \<Rightarrow> raw_counts \<Rightarrow> py_error + raw_counts" where
  "reconciliation ft r c =
     (if snd (snd c) \<noteq> PNone then Inr c
      else if has_key r ''source_count'' \<and> has_key r ''target_count'' then reconcile_counts r
      else if has_key r ''source_agg'' \<and> has_key r ''target_agg'' then Inr (reconcile_aggregates ft r)
      else if has_key r ''field_mismatch_count''
      then reconcile_pairs ''field_match_count'' ''field_mismatch_count'' r c
      else if has_key r ''outside_tolerance'' then reconcile_pairs ''within_tolerance'' ''outside_tolerance'' r c
      else Inr c)"

section \<open>Uniqueness\<close>

text \<open>
  \<open>int(round(rows_scanned * float(rate) / 100))\<close>; \<open>None\<close> is an exception, which the code swallows.
\<close>

definition unique_from_rate :: "(string \<Rightarrow> pyfloat option) \<Rightarrow> int \<Rightarrow> pyval \<Rightarrow> int option" where
  "unique_from_rate ft scanned rate =
     (case (to_float ft rate, to_float ft (PInt scanned)) of
        (Inr x, Inr s) \<Rightarrow> (case float_div_pos (float_mul s x) 100 of
                             FFin y \<Rightarrow> Some (round_half_even y) | _ \<Rightarrow> None)
      | _ \<Rightarrow> None)"

definition derive_unique ::
    "(string \<Rightarrow> pyfloat option) \<Rightarrow> dict \<Rightarrow> int \<Rightarrow> int \<Rightarrow> int \<Rightarrow> py_error + int \<times> int" where
  "derive_unique ft r scanned passed failed =
     (if has_key r ''uniqueness_rate''
      then Inr (case unique_from_rate ft scanned (dict_get r ''uniqueness_rate'' PNone) of
                  None \<Rightarrow> (passed, failed)
                | Some p \<Rightarrow> (p, scanned - p))
      else if has_key r ''duplicate_rows''
      then (case int_or_zero (dict_get r ''duplicate_rows'' PNone) of
              Inl e \<Rightarrow> Inl e
            | Inr d \<Rightarrow> Inr (scanned - d, d))
      else Inr (passed, failed))"

section \<open>The counts\<close>

record Counts =
  rows_scanned :: int
  rows_passed :: int
  rows_failed :: int

definition read_counts :: "(string \<Rightarrow> pyfloat option) \<Rightarrow> pyval \<Rightarrow> dict \<Rightarrow> py_error + Counts" where
  "read_counts ft dimension r =
     (if \<not> hashable dimension then Inl (TypeError ''unhashable type'')
      else
        let total = dict_get r ''total_rows'' PNone;
            c0 = (if truthy total then total else PInt 0, aliased dimension r)
        in case (if dimension = PStr ''reconciliation'' then reconciliation ft r c0 else Inr c0) of
             Inl e \<Rightarrow> Inl e
           | Inr (s, p, f) \<Rightarrow>
               (case int_or_zero p of
                  Inl e \<Rightarrow> Inl e
                | Inr passed \<Rightarrow>
                    (case int_or_zero f of
                       Inl e \<Rightarrow> Inl e
                     | Inr failed \<Rightarrow>
                         let scanned = (case int_or_zero s of Inl e \<Rightarrow> 0 | Inr i \<Rightarrow> i)
                         in case (if dimension = PStr ''uniqueness'' \<and> passed = 0 \<and> 0 < scanned
                                  then derive_unique ft r scanned passed failed
                                  else Inr (passed, failed)) of
                              Inl e \<Rightarrow> Inl e
                            | Inr (p', f') \<Rightarrow>
                                Inr \<lparr>rows_scanned = (if scanned = 0 then p' + f' else scanned),
                                     rows_passed = p', rows_failed = f'\<rparr>)))"

section \<open>The pass rate and the thresholds\<close>

text \<open>
  \<open>Decimal(str(round(100.0 * passed / scanned, 2)))\<close> in hundredths of a per cent.  The counts are
  64-bit columns, so no conversion overflows.
\<close>

definition pass_rate :: "Counts \<Rightarrow> int" where
  "pass_rate c =
     (if rows_scanned c > 0
      then hundredths (fl (fl (100 * fl (of_int (rows_passed c))) / fl (of_int (rows_scanned c))))
      else 0)"

text \<open>
  \<open>_check_thresholds\<close>: the configured numbers, \<open>None\<close> where a key is missing or null.  A float
  threshold becomes the decimal of its shortest text, which is the rational given here.
\<close>

record Thresholds =
  pass_threshold :: "rat option"
  max_violations :: "rat option"

definition check_thresholds :: "Thresholds option \<Rightarrow> Counts \<Rightarrow> bool" where
  "check_thresholds cfg c =
     (case cfg of
        None \<Rightarrow> True
      | Some t \<Rightarrow>
          (case pass_threshold t of None \<Rightarrow> True | Some p \<Rightarrow> p \<le> of_int (pass_rate c) / 100) \<and>
          (case max_violations t of None \<Rightarrow> True | Some m \<Rightarrow> of_int (rows_failed c) \<le> m))"

end
