(* ===== verification/SettingsStore.thy ===== *)
theory SettingsStore
  imports SettingsValidation AuthGuards RuleResults
begin

text \<open>
  Reading and updating the settings of a workspace: the domain objects of
  \<open>app/services/workspaces/settings_models.py\<close> and
  \<open>app/services/incidents/auto_incident_models.py\<close>, the rows of \<open>control.workspace_settings\<close> with
  the functions of \<open>settings_repository.py\<close>, and \<open>get_settings\<close> and \<open>update_settings\<close> of
  \<open>settings_service.py\<close> with the endpoint that commits or rolls back.

  A JSONB column is the value it holds, \<open>PNone\<close> for SQL's null.  The encryption of the key of the
  language model and \<open>str\<close> of numbers with a fraction, lists and objects are parameters.
\<close>

section \<open>Domain objects\<close>

record SeverityPolicy =
  critical_label :: pyval
  major_label :: pyval
  minor_label :: pyval
  informational_label :: pyval

record SLAPolicy =
  critical_hours :: pyval
  major_hours :: pyval
  minor_hours :: pyval
  informational_hours :: pyval

record NamingConstraint =
  required_prefix :: pyval
  required_suffix :: pyval
  name_pattern :: pyval
  max_name_length :: pyval
  allow_special_characters :: pyval

record NamingStandards =
  dataset_names :: NamingConstraint
  rule_names :: NamingConstraint

record LLMConfig =
  llm_provider :: pyval
  api_key_encrypted :: pyval
  llm_model :: pyval
  temperature :: pyval
  max_tokens :: pyval

text \<open>The owner is an id once it is read back, and whatever the body holds before.\<close>

datatype owner = Given pyval | Stored uuid

record IncidentPolicy =
  enabled :: bool
  min_severity :: pyval
  recurrence_threshold :: int
  auto_priority :: pyval
  auto_owner :: owner

record WorkspaceSettings =
  st_workspace :: uuid
  st_tenant :: uuid
  default_timezone :: string
  grouping_policy :: string
  settings_updated_at :: nat
  settings_updated_by :: "uuid option"
  severity_policy :: "SeverityPolicy option"
  sla_policy :: "SLAPolicy option"
  naming_standards :: "NamingStandards option"
  incident_policy :: "IncidentPolicy option"
  llm_config :: "LLMConfig option"

record WorkspaceSettingsUpdate =
  new_timezone :: "pyval option"
  new_severity :: "SeverityPolicy option"
  new_sla :: "SLAPolicy option"
  new_grouping :: "pyval option"
  new_naming :: "NamingStandards option"
  new_incident :: "IncidentPolicy option"
  new_llm :: "LLMConfig option"

definition DEFAULT_SEVERITY_POLICY :: SeverityPolicy where
  "DEFAULT_SEVERITY_POLICY = \<lparr>critical_label = PStr ''Critical'', major_label = PStr ''Major'',
     minor_label = PStr ''Minor'', informational_label = PStr ''Informational''\<rparr>"

definition DEFAULT_SLA_POLICY :: SLAPolicy where
  "DEFAULT_SLA_POLICY = \<lparr>critical_hours = PInt 4, major_hours = PInt 24, minor_hours = PInt 72,
     informational_hours = PNone\<rparr>"

definition EMPTY_NAMING_CONSTRAINT :: NamingConstraint where
  "EMPTY_NAMING_CONSTRAINT = \<lparr>required_prefix = PNone, required_suffix = PNone, name_pattern = PNone,
     max_name_length = PNone, allow_special_characters = PNone\<rparr>"

definition DEFAULT_NAMING_STANDARDS :: NamingStandards where
  "DEFAULT_NAMING_STANDARDS =
     \<lparr>dataset_names = EMPTY_NAMING_CONSTRAINT, rule_names = EMPTY_NAMING_CONSTRAINT\<rparr>"

definition DEFAULT_INCIDENT_POLICY :: IncidentPolicy where
  "DEFAULT_INCIDENT_POLICY = \<lparr>enabled = False, min_severity = PStr ''critical'', recurrence_threshold = 1,
     auto_priority = PNone, auto_owner = Given PNone\<rparr>"

definition SHIPPING_DEFAULT_INCIDENT_POLICY :: IncidentPolicy where
  "SHIPPING_DEFAULT_INCIDENT_POLICY = \<lparr>enabled = True, min_severity = PStr ''major'', recurrence_threshold = 1,
     auto_priority = PNone, auto_owner = Given PNone\<rparr>"

definition or_default :: "'a option \<Rightarrow> 'a \<Rightarrow> 'a option" where
  "or_default v d = (case v of None \<Rightarrow> Some d | Some x \<Rightarrow> Some x)"

definition with_defaults :: "WorkspaceSettings \<Rightarrow> WorkspaceSettings" where
  "with_defaults s = s\<lparr>
     severity_policy := or_default (severity_policy s) DEFAULT_SEVERITY_POLICY,
     sla_policy := or_default (sla_policy s) DEFAULT_SLA_POLICY,
     naming_standards := or_default (naming_standards s) DEFAULT_NAMING_STANDARDS,
     incident_policy := or_default (incident_policy s) SHIPPING_DEFAULT_INCIDENT_POLICY\<rparr>"

section \<open>Columns\<close>

text \<open>\<open>d[k]\<close>.\<close>

definition dict_item :: "dict \<Rightarrow> string \<Rightarrow> py_error + pyval" where
  "dict_item d k = (case map_of d k of None \<Rightarrow> Inl (KeyError k) | Some v \<Rightarrow> Inr v)"

text \<open>A column that is null, an object, or something \<open>json.loads\<close> or the subscript rejects.\<close>

definition from_column :: "(dict \<Rightarrow> py_error + 'a) \<Rightarrow> pyval \<Rightarrow> py_error + 'a option" where
  "from_column f v =
     (case v of
        PNone \<Rightarrow> Inr None
      | PDict d \<Rightarrow> (case f d of Inl e \<Rightarrow> Inl e | Inr x \<Rightarrow> Inr (Some x))
      | _ \<Rightarrow> Inl (TypeError ''the JSON object must be str''))"

definition severity_of :: "dict \<Rightarrow> py_error + SeverityPolicy" where
  "severity_of d =
     (case (dict_item d ''critical_label'', dict_item d ''major_label'', dict_item d ''minor_label'',
            dict_item d ''informational_label'') of
        (Inr a, Inr b, Inr c, Inr e) \<Rightarrow>
          Inr \<lparr>critical_label = a, major_label = b, minor_label = c, informational_label = e\<rparr>
      | (Inl x, _) \<Rightarrow> Inl x
      | (_, Inl x, _) \<Rightarrow> Inl x
      | (_, _, Inl x, _) \<Rightarrow> Inl x
      | (_, _, _, Inl x) \<Rightarrow> Inl x)"

definition sla_of :: "dict \<Rightarrow> py_error + SLAPolicy" where
  "sla_of d =
     (case (dict_item d ''critical_hours'', dict_item d ''major_hours'', dict_item d ''minor_hours'') of
        (Inr a, Inr b, Inr c) \<Rightarrow>
          Inr \<lparr>critical_hours = a, major_hours = b, minor_hours = c,
               informational_hours = dict_get d ''informational_hours'' PNone\<rparr>
      | (Inl x, _) \<Rightarrow> Inl x
      | (_, Inl x, _) \<Rightarrow> Inl x
      | (_, _, Inl x) \<Rightarrow> Inl x)"

text \<open>\<open>_deserialize_naming_constraint\<close>, and \<open>_nc\<close> of the service, which is the same.\<close>

definition naming_constraint_of :: "pyval \<Rightarrow> py_error + NamingConstraint" where
  "naming_constraint_of v =
     (case v of
        PDict d \<Rightarrow>
          Inr \<lparr>required_prefix = dict_get d ''required_prefix'' PNone,
               required_suffix = dict_get d ''required_suffix'' PNone,
               name_pattern = dict_get d ''pattern'' PNone,
               max_name_length = dict_get d ''max_length'' PNone,
               allow_special_characters = dict_get d ''allow_special_characters'' PNone\<rparr>
      | _ \<Rightarrow> Inl (AttributeError ''get''))"

definition naming_of :: "dict \<Rightarrow> py_error + NamingStandards" where
  "naming_of d =
     (case naming_constraint_of (dict_get d ''datasets'' (PDict [])) of
        Inl e \<Rightarrow> Inl e
      | Inr a \<Rightarrow>
          (case naming_constraint_of (dict_get d ''rules'' (PDict [])) of
             Inl e \<Rightarrow> Inl e
           | Inr b \<Rightarrow> Inr \<lparr>dataset_names = a, rule_names = b\<rparr>))"

definition llm_of :: "dict \<Rightarrow> py_error + LLMConfig" where
  "llm_of d = Inr
     \<lparr>llm_provider = dict_get d ''provider'' (PStr ''openai''),
      api_key_encrypted = dict_get d ''api_key_encrypted'' (PStr []),
      llm_model = dict_get d ''model'' (PStr ''gpt-4o''),
      temperature = dict_get d ''temperature'' (PFloat (FFin 0)),
      max_tokens = dict_get d ''max_tokens'' (PInt 4096)\<rparr>"

text \<open>\<open>UUID(v)\<close> of a JSON value.\<close>

definition uuid_of :: "pyval \<Rightarrow> py_error + uuid" where
  "uuid_of v =
     (case v of
        PStr s \<Rightarrow> (case parse_uuid s of None \<Rightarrow> Inl (ValueError ''badly formed hexadecimal UUID string'')
                               | Some u \<Rightarrow> Inr u)
      | _ \<Rightarrow> Inl (AttributeError ''replace''))"

definition incident_of :: "dict \<Rightarrow> py_error + IncidentPolicy" where
  "incident_of d =
     (case to_int (dict_get d ''recurrence_threshold'' (PInt 1)) of
        Inl e \<Rightarrow> Inl e
      | Inr n \<Rightarrow>
          let o_raw = dict_get d ''auto_owner_user_id'' PNone
          in case (if truthy o_raw then map_sum id Stored (uuid_of o_raw) else Inr (Given PNone)) of
               Inl e \<Rightarrow> Inl e
             | Inr ow \<Rightarrow> Inr \<lparr>enabled = truthy (dict_get d ''enabled'' (PBool False)),
                          min_severity = dict_get d ''min_severity'' (PStr ''critical''),
                          recurrence_threshold = n,
                          auto_priority = dict_get d ''auto_priority'' PNone,
                          auto_owner = ow\<rparr>)"

text \<open>\<open>dataclasses.asdict\<close> and the object \<open>update_settings\<close> writes for an incident policy.\<close>

definition severity_json :: "SeverityPolicy \<Rightarrow> pyval" where
  "severity_json p = PDict
     [(''critical_label'', critical_label p), (''major_label'', major_label p),
      (''minor_label'', minor_label p), (''informational_label'', informational_label p)]"

definition sla_json :: "SLAPolicy \<Rightarrow> pyval" where
  "sla_json p = PDict
     [(''critical_hours'', critical_hours p), (''major_hours'', major_hours p),
      (''minor_hours'', minor_hours p), (''informational_hours'', informational_hours p)]"

definition naming_constraint_json :: "NamingConstraint \<Rightarrow> pyval" where
  "naming_constraint_json p = PDict
     [(''required_prefix'', required_prefix p), (''required_suffix'', required_suffix p),
      (''pattern'', name_pattern p), (''max_length'', max_name_length p),
      (''allow_special_characters'', allow_special_characters p)]"

definition naming_json :: "NamingStandards \<Rightarrow> pyval" where
  "naming_json p = PDict
     [(''datasets'', naming_constraint_json (dataset_names p)),
      (''rules'', naming_constraint_json (rule_names p))]"

definition llm_json :: "LLMConfig \<Rightarrow> pyval" where
  "llm_json p = PDict
     [(''provider'', llm_provider p), (''api_key_encrypted'', api_key_encrypted p),
      (''model'', llm_model p), (''temperature'', temperature p), (''max_tokens'', max_tokens p)]"

definition incident_json :: "(pyval \<Rightarrow> string) \<Rightarrow> IncidentPolicy \<Rightarrow> pyval" where
  "incident_json str p = PDict
     [(''enabled'', PBool (enabled p)), (''min_severity'', min_severity p),
      (''recurrence_threshold'', PInt (recurrence_threshold p)), (''auto_priority'', auto_priority p),
      (''auto_owner_user_id'',
         (case auto_owner p of
            Stored u \<Rightarrow> PStr (uuid_text u)
          | Given v \<Rightarrow> if truthy v then PStr (str v) else PNone))]"

section \<open>Tables\<close>

record SettingsRow =
  sr_workspace :: uuid
  sr_tenant :: uuid
  sr_timezone :: string
  sr_severity :: pyval
  sr_sla :: pyval
  sr_grouping :: string
  sr_naming :: pyval
  sr_updated_at :: nat
  sr_updated_by :: "uuid option"
  sr_llm :: pyval
  sr_incident :: pyval

record workspace_state =
  sw_id :: uuid
  sw_tenant :: uuid
  sw_archived :: bool

record settings_audit =
  sa_workspace :: uuid
  sa_actor :: uuid
  sa_changed :: "string list"

record settings_db =
  sd_workspaces :: "workspace_state list"
  sd_settings :: "SettingsRow list"
  sd_audit :: "settings_audit list"

definition row_to_settings :: "SettingsRow \<Rightarrow> py_error + WorkspaceSettings" where
  "row_to_settings r =
     (case from_column severity_of (sr_severity r) of Inl e \<Rightarrow> Inl e | Inr sv \<Rightarrow>
     (case from_column sla_of (sr_sla r) of Inl e \<Rightarrow> Inl e | Inr sl \<Rightarrow>
     (case from_column naming_of (sr_naming r) of Inl e \<Rightarrow> Inl e | Inr nm \<Rightarrow>
     (case from_column llm_of (sr_llm r) of Inl e \<Rightarrow> Inl e | Inr lc \<Rightarrow>
     (case from_column incident_of (sr_incident r) of Inl e \<Rightarrow> Inl e | Inr ip \<Rightarrow>
        Inr \<lparr>st_workspace = sr_workspace r, st_tenant = sr_tenant r, default_timezone = sr_timezone r,
             grouping_policy = sr_grouping r, settings_updated_at = sr_updated_at r,
             settings_updated_by = sr_updated_by r, severity_policy = sv, sla_policy = sl,
             naming_standards = nm, incident_policy = ip, llm_config = lc\<rparr>)))))"

definition settings_where :: "uuid \<Rightarrow> uuid option \<Rightarrow> SettingsRow \<Rightarrow> bool" where
  "settings_where w t r \<longleftrightarrow> sr_workspace r = w \<and> (\<forall>t' \<in> set_option t. sr_tenant r = t')"

definition find_settings :: "settings_db \<Rightarrow> uuid \<Rightarrow> uuid option \<Rightarrow> py_error + WorkspaceSettings option" where
  "find_settings db w t =
     (case find (settings_where w t) (sd_settings db) of
        None \<Rightarrow> Inr None
      | Some r \<Rightarrow> map_sum id Some (row_to_settings r))"

text \<open>\<open>find_by_id\<close> of the workspace repository, as far as the settings service reads the row.\<close>

definition find_workspace :: "settings_db \<Rightarrow> uuid \<Rightarrow> uuid option \<Rightarrow> workspace_state option" where
  "find_workspace db w t =
     find (\<lambda>x. sw_id x = w \<and> (\<forall>t' \<in> set_option t. sw_tenant x = t')) (sd_workspaces db)"

datatype settings_error =
    UnknownFieldError "string list"
  | EmptyRequestError
  | WorkspaceNotFound
  | WorkspaceArchived
  | InvalidPayload "field_error list"
  | SettingsNotFoundError
  | SettingsDataError
  | SettingsPython py_error

text \<open>
  \<open>create_default\<close>, with \<open>ON CONFLICT DO NOTHING\<close>; a tenant that is missing is bound as the text
  \<open>None\<close>, which the cast rejects, and the tenant column refers to the tenant of the workspace.
\<close>

definition create_default ::
    "nat \<Rightarrow> settings_db \<Rightarrow> uuid \<Rightarrow> uuid option \<Rightarrow> string \<Rightarrow> settings_error + WorkspaceSettings \<times> settings_db" where
  "create_default now db w t tz =
     (case t of
        None \<Rightarrow> Inl SettingsDataError
      | Some t' \<Rightarrow>
          if list_ex (\<lambda>r. sr_workspace r = w) (sd_settings db)
          then (case find_settings db w t of
                  Inl e \<Rightarrow> Inl (SettingsPython e)
                | Inr None \<Rightarrow> Inl SettingsNotFoundError
                | Inr (Some s) \<Rightarrow> Inr (s, db))
          else
            let r = \<lparr>sr_workspace = w, sr_tenant = t', sr_timezone = tz, sr_severity = PNone, sr_sla = PNone,
                     sr_grouping = ''one_per_execution'', sr_naming = PNone, sr_updated_at = now,
                     sr_updated_by = None, sr_llm = PNone, sr_incident = PNone\<rparr>
            in case row_to_settings r of
                 Inl e \<Rightarrow> Inl (SettingsPython e)
               | Inr s \<Rightarrow> Inr (s, db\<lparr>sd_settings := sd_settings db @ [r]\<rparr>))"

section \<open>The update\<close>

definition set_or :: "('a \<Rightarrow> 'b) \<Rightarrow> 'a option \<Rightarrow> 'b \<Rightarrow> 'b" where
  "set_or f v old = (case v of None \<Rightarrow> old | Some x \<Rightarrow> f x)"

text \<open>The time zone and the grouping mode were validated as texts.\<close>

definition text_of :: "pyval \<Rightarrow> string" where
  "text_of v = (case v of PStr s \<Rightarrow> s | _ \<Rightarrow> [])"

definition updated_row ::
    "(pyval \<Rightarrow> string) \<Rightarrow> nat \<Rightarrow> uuid \<Rightarrow> WorkspaceSettingsUpdate \<Rightarrow> SettingsRow \<Rightarrow> SettingsRow" where
  "updated_row str now actor u r = r\<lparr>
     sr_timezone := set_or text_of (new_timezone u) (sr_timezone r),
     sr_severity := set_or severity_json (new_severity u) (sr_severity r),
     sr_sla := set_or sla_json (new_sla u) (sr_sla r),
     sr_grouping := set_or text_of (new_grouping u) (sr_grouping r),
     sr_naming := set_or naming_json (new_naming u) (sr_naming r),
     sr_updated_at := now,
     sr_updated_by := Some actor,
     sr_llm := set_or llm_json (new_llm u) (sr_llm r),
     sr_incident := set_or (incident_json str) (new_incident u) (sr_incident r)\<rparr>"

text \<open>The constraints of the table on the columns an update can change.\<close>

definition row_allowed :: "SettingsRow \<Rightarrow> bool" where
  "row_allowed r \<longleftrightarrow> length (sr_timezone r) \<le> 100 \<and> list_ex (\<lambda>c. c \<noteq> CHR '' '') (sr_timezone r) \<and>
     sr_grouping r \<in> set grouping_modes"

definition repo_update_settings ::
    "(pyval \<Rightarrow> string) \<Rightarrow> nat \<Rightarrow> settings_db \<Rightarrow> uuid \<Rightarrow> uuid option \<Rightarrow> WorkspaceSettingsUpdate \<Rightarrow> uuid \<Rightarrow>
     settings_error + WorkspaceSettings \<times> settings_db" where
  "repo_update_settings str now db w t u actor =
     (case t of
        None \<Rightarrow> Inl SettingsDataError
      | Some _ \<Rightarrow>
          (case find (settings_where w t) (sd_settings db) of
             None \<Rightarrow> Inl SettingsNotFoundError
           | Some r \<Rightarrow>
               let r' = updated_row str now actor u r
               in if \<not> row_allowed r' then Inl SettingsDataError
                  else case row_to_settings r' of
                         Inl e \<Rightarrow> Inl (SettingsPython e)
                       | Inr s \<Rightarrow> Inr (s, db\<lparr>sd_settings :=
                           update_where (settings_where w t) (updated_row str now actor u) (sd_settings db)\<rparr>)))"

text \<open>A value of the body that differs from the current one; equal values are left out of the update.\<close>

definition changed :: "'a \<Rightarrow> 'a \<Rightarrow> 'a option" where
  "changed new old = (if new = old then None else Some new)"

text \<open>Part of the body, when it is there.\<close>

definition with_part :: "dict \<Rightarrow> string \<Rightarrow> (pyval \<Rightarrow> py_error + 'a option) \<Rightarrow> py_error + 'a option" where
  "with_part b k f = (case map_of b k of None \<Rightarrow> Inr None | Some v \<Rightarrow> f v)"

definition part_of :: "(dict \<Rightarrow> py_error + 'a) \<Rightarrow> pyval \<Rightarrow> py_error + 'a" where
  "part_of f v = (case v of PDict d \<Rightarrow> f d | _ \<Rightarrow> Inl (TypeError ''not subscriptable''))"

text \<open>
  The equality of two priorities: as numbers where both are numbers, which Python compares across
  types.
\<close>

definition as_number :: "pyval \<Rightarrow> rat option" where
  "as_number v =
     (case v of PInt i \<Rightarrow> Some (of_int i) | PBool b \<Rightarrow> Some (if b then 1 else 0)
      | PFloat (FFin x) \<Rightarrow> Some x | _ \<Rightarrow> None)"

definition py_eq :: "pyval \<Rightarrow> pyval \<Rightarrow> bool" where
  "py_eq a b =
     (case (as_number a, as_number b) of (Some x, Some y) \<Rightarrow> x = y | _ \<Rightarrow> a = b \<and> a \<noteq> PFloat FNan)"

definition same_owner :: "owner \<Rightarrow> owner \<Rightarrow> bool" where
  "same_owner a b =
     (case (a, b) of
        (Given v, Given w) \<Rightarrow> py_eq v w
      | (Stored u, Stored v) \<Rightarrow> u = v
      | _ \<Rightarrow> False)"

definition same_incident_policy :: "IncidentPolicy \<Rightarrow> IncidentPolicy option \<Rightarrow> bool" where
  "same_incident_policy p q =
     (case q of
        None \<Rightarrow> False
      | Some q' \<Rightarrow> enabled p = enabled q' \<and> py_eq (min_severity p) (min_severity q') \<and>
          recurrence_threshold p = recurrence_threshold q' \<and> py_eq (auto_priority p) (auto_priority q') \<and>
          same_owner (auto_owner p) (auto_owner q'))"

text \<open>The policy the body asks for, over the current one; \<open>body["incident_policy"] or {}\<close>.\<close>

definition requested_incident ::
    "(pyval \<Rightarrow> string) \<Rightarrow> pyval \<Rightarrow> IncidentPolicy option \<Rightarrow> py_error + IncidentPolicy" where
  "requested_incident str v base =
     (case (if truthy v then v else PDict []) of
        PDict d \<Rightarrow>
          (case (case map_of d ''recurrence_threshold'' of
                   Some x \<Rightarrow> to_int x
                 | None \<Rightarrow> Inr (case base of None \<Rightarrow> 1 | Some p \<Rightarrow> recurrence_threshold p)) of
             Inl e \<Rightarrow> Inl e
           | Inr n \<Rightarrow> Inr
               \<lparr>enabled = truthy (dict_get d ''enabled'' (PBool (case base of None \<Rightarrow> True | Some p \<Rightarrow> enabled p))),
                min_severity = PStr (str (dict_get d ''min_severity''
                  (case base of None \<Rightarrow> PStr ''major'' | Some p \<Rightarrow> min_severity p))),
                recurrence_threshold = n,
                auto_priority = dict_get d ''auto_priority'' (case base of None \<Rightarrow> PNone | Some p \<Rightarrow> auto_priority p),
                auto_owner = (case map_of d ''auto_owner_user_id'' of
                    Some x \<Rightarrow> Given x
                  | None \<Rightarrow> (case base of None \<Rightarrow> Given PNone | Some p \<Rightarrow> auto_owner p))\<rparr>)
      | _ \<Rightarrow> Inl (AttributeError ''get''))"

definition requested_llm :: "(string \<Rightarrow> string) \<Rightarrow> dict \<Rightarrow> py_error + LLMConfig" where
  "requested_llm encrypt d =
     (case (dict_item d ''api_key'', dict_item d ''provider'', dict_item d ''model'') of
        (Inr (PStr k), Inr p, Inr m) \<Rightarrow>
          Inr \<lparr>llm_provider = p, api_key_encrypted = PStr (encrypt k), llm_model = m,
               temperature = dict_get d ''temperature'' (PFloat (FFin 0)),
               max_tokens = dict_get d ''max_tokens'' (PInt 4096)\<rparr>
      | (Inl e, _) \<Rightarrow> Inl e
      | (Inr _, Inl e, _) \<Rightarrow> Inl e
      | (Inr _, Inr _, Inl e) \<Rightarrow> Inl e
      | _ \<Rightarrow> Inl (AttributeError ''encode''))"

definition build_update ::
    "(pyval \<Rightarrow> string) \<Rightarrow> (string \<Rightarrow> string) \<Rightarrow> dict \<Rightarrow> WorkspaceSettings \<Rightarrow> py_error + WorkspaceSettingsUpdate" where
  "build_update str encrypt b cur =
     (case with_part b ''timezone_policy'' (part_of (\<lambda>d.
             Inr (changed (dict_get d ''default_timezone'' PNone) (PStr (default_timezone cur))))) of
        Inl e \<Rightarrow> Inl e | Inr tz \<Rightarrow>
     (case with_part b ''severity_policy'' (\<lambda>v. case part_of severity_of v of Inl e \<Rightarrow> Inl e
             | Inr p \<Rightarrow> Inr (if Some p = severity_policy cur then None else Some p)) of
        Inl e \<Rightarrow> Inl e | Inr sv \<Rightarrow>
     (case with_part b ''sla_policy'' (\<lambda>v. case part_of sla_of v of Inl e \<Rightarrow> Inl e
             | Inr p \<Rightarrow> Inr (if Some p = sla_policy cur then None else Some p)) of
        Inl e \<Rightarrow> Inl e | Inr sl \<Rightarrow>
     (case with_part b ''naming_standards'' (\<lambda>v. case part_of naming_of v of Inl e \<Rightarrow> Inl e
             | Inr p \<Rightarrow> Inr (if Some p = naming_standards cur then None else Some p)) of
        Inl e \<Rightarrow> Inl e | Inr nm \<Rightarrow>
     (case with_part b ''llm_config'' (\<lambda>v. map_sum id Some (part_of (requested_llm encrypt) v)) of
        Inl e \<Rightarrow> Inl e | Inr lc \<Rightarrow>
     (case with_part b ''incident_policy'' (\<lambda>v. case requested_incident str v (incident_policy cur) of
             Inl e \<Rightarrow> Inl e
           | Inr p \<Rightarrow> Inr (if same_incident_policy p (incident_policy cur) then None else Some p)) of
        Inl e \<Rightarrow> Inl e | Inr ip \<Rightarrow>
     Inr \<lparr>new_timezone = tz, new_severity = sv, new_sla = sl,
          new_grouping = (case map_of b ''issue_grouping_policy'' of None \<Rightarrow> None
             | Some v \<Rightarrow> changed v (PStr (grouping_policy cur))),
          new_naming = nm, new_incident = ip, new_llm = lc\<rparr>))))))"

text \<open>
  The names of the fields of an update that are not \<open>None\<close>.  A zone or mode that is the value
  \<open>None\<close> is left out as well; the validation has excluded it.
\<close>

definition changed_fields :: "WorkspaceSettingsUpdate \<Rightarrow> string list" where
  "changed_fields u = concat
     [if new_timezone u \<in> {None, Some PNone} then [] else [''default_timezone''],
      if new_severity u = None then [] else [''severity_policy''],
      if new_sla u = None then [] else [''sla_policy''],
      if new_grouping u \<in> {None, Some PNone} then [] else [''issue_grouping_policy''],
      if new_naming u = None then [] else [''naming_standards''],
      if new_incident u = None then [] else [''incident_policy''],
      if new_llm u = None then [] else [''llm_config'']]"

definition has_changes :: "WorkspaceSettingsUpdate \<Rightarrow> bool" where
  "has_changes u \<longleftrightarrow> changed_fields u \<noteq> []"

definition is_operator :: "Actor \<Rightarrow> bool" where
  "is_operator actor \<longleftrightarrow> ac_role actor \<in> set PLATFORM_OPERATOR_ROLES"

text \<open>The part of \<open>update_settings\<close> after the checks: the effective settings and the tables.\<close>

definition apply_settings ::
    "(pyval \<Rightarrow> string) \<Rightarrow> (string \<Rightarrow> string) \<Rightarrow> nat \<Rightarrow> settings_db \<Rightarrow> workspace_state \<Rightarrow> dict \<Rightarrow> Actor \<Rightarrow>
     settings_error + WorkspaceSettings \<times> settings_db" where
  "apply_settings str encrypt now db x b actor =
     (let w = sw_id x;
          tenant = (if is_operator actor then None else ac_tenant actor);
          repo_tenant = (if is_operator actor then Some (sw_tenant x) else ac_tenant actor)
      in case (case find_settings db w tenant of
                 Inl e \<Rightarrow> Inl (SettingsPython e)
               | Inr (Some s) \<Rightarrow> Inr (s, db)
               | Inr None \<Rightarrow> create_default now db w repo_tenant ''UTC'') of
           Inl e \<Rightarrow> Inl e
         | Inr (s, db1) \<Rightarrow>
             (case build_update str encrypt b (with_defaults s) of
                Inl e \<Rightarrow> Inl (SettingsPython e)
              | Inr u \<Rightarrow>
                  if \<not> has_changes u then Inr (with_defaults s, db1)
                  else case repo_update_settings str now db1 w repo_tenant u (ac_id actor) of
                         Inl e \<Rightarrow> Inl e
                       | Inr (s', db2) \<Rightarrow> Inr (with_defaults s', db2\<lparr>sd_audit := sd_audit db2 @
                           [\<lparr>sa_workspace = w, sa_actor = ac_id actor, sa_changed = changed_fields u\<rparr>]\<rparr>)))"

definition update_settings ::
    "(string \<Rightarrow> string option) \<Rightarrow> (string \<Rightarrow> bool) \<Rightarrow> (pyval \<Rightarrow> string) \<Rightarrow> (string \<Rightarrow> string) \<Rightarrow> nat \<Rightarrow>
     settings_db \<Rightarrow> uuid \<Rightarrow> dict \<Rightarrow> Actor \<Rightarrow> settings_error + WorkspaceSettings \<times> settings_db" where
  "update_settings zone compiles str encrypt now db w b actor =
     (if settings_unknown_fields b \<noteq> [] then Inl (UnknownFieldError (settings_unknown_fields b))
      else if is_empty_request b then Inl EmptyRequestError
      else case find_workspace db w (if is_operator actor then None else ac_tenant actor) of
             None \<Rightarrow> Inl WorkspaceNotFound
           | Some x \<Rightarrow>
               if sw_archived x then Inl WorkspaceArchived
               else case validate_settings_update_payload zone compiles b of
                      Inl e \<Rightarrow> Inl (SettingsPython e)
                    | Inr (es, b') \<Rightarrow>
                        if es \<noteq> [] then Inl (InvalidPayload es)
                        else apply_settings str encrypt now db x b' actor)"

text \<open>The endpoint: what fails is rolled back.\<close>

definition patch_settings ::
    "(string \<Rightarrow> string option) \<Rightarrow> (string \<Rightarrow> bool) \<Rightarrow> (pyval \<Rightarrow> string) \<Rightarrow> (string \<Rightarrow> string) \<Rightarrow> nat \<Rightarrow>
     uuid \<Rightarrow> dict \<Rightarrow> Actor \<Rightarrow> settings_db \<Rightarrow> (settings_error + WorkspaceSettings) \<times> settings_db" where
  "patch_settings zone compiles str encrypt now w b actor db =
     (case update_settings zone compiles str encrypt now db w b actor of
        Inl e \<Rightarrow> (Inl e, db)
      | Inr (s, db') \<Rightarrow> (Inr s, db'))"

definition get_settings ::
    "nat \<Rightarrow> settings_db \<Rightarrow> uuid \<Rightarrow> Actor \<Rightarrow> settings_error + WorkspaceSettings \<times> settings_db" where
  "get_settings now db w actor =
     (let tenant = (if is_operator actor then None else ac_tenant actor)
      in case find_workspace db w tenant of
           None \<Rightarrow> Inl WorkspaceNotFound
         | Some _ \<Rightarrow>
             (case find_settings db w tenant of
                Inl e \<Rightarrow> Inl (SettingsPython e)
              | Inr (Some s) \<Rightarrow> Inr (with_defaults s, db)
              | Inr None \<Rightarrow>
                  (case create_default now db w (ac_tenant actor) ''UTC'' of
                     Inl e \<Rightarrow> Inl e
                   | Inr (s, db') \<Rightarrow> Inr (with_defaults s, db'))))"

section \<open>Round trips\<close>

text \<open>What is written to a column is read back.\<close>

lemma severity_roundtrip [simp]: "from_column severity_of (severity_json p) = Inr (Some p)"
  by (simp add: from_column_def severity_json_def severity_of_def dict_item_def)

lemma sla_roundtrip [simp]: "from_column sla_of (sla_json p) = Inr (Some p)"
  by (simp add: from_column_def sla_json_def sla_of_def dict_item_def dict_get_def)

lemma naming_constraint_roundtrip [simp]: "naming_constraint_of (naming_constraint_json p) = Inr p"
  by (simp add: naming_constraint_of_def naming_constraint_json_def dict_get_def)

lemma naming_roundtrip [simp]: "from_column naming_of (naming_json p) = Inr (Some p)"
  by (simp add: from_column_def naming_json_def naming_of_def dict_get_def)

lemma llm_roundtrip [simp]: "from_column llm_of (llm_json p) = Inr (Some p)"
  by (simp add: from_column_def llm_json_def llm_of_def dict_get_def)

lemma uuid_text_not_empty [simp]: "uuid_text u \<noteq> []"
  by (simp add: uuid_text_def Let_def)

lemma incident_roundtrip:
  "auto_owner p \<in> {Given PNone} \<union> range Stored \<Longrightarrow> from_column incident_of (incident_json str p) = Inr (Some p)"
  by (cases p) (auto simp: from_column_def incident_json_def incident_of_def dict_get_def to_int_def uuid_of_def
      parse_uuid_text)

end
