(* ===== verification/IssueStore.thy ===== *)
theory IssueStore
  imports SettingsStore IssueLifecycle
begin

text \<open>
  The tables behind automatic issues and what is written to them: the inserts and the grouping
  statements of \<open>app/services/issues/issue_repository.py\<close> with the constraints of migrations 013 and
  019, \<open>IssueGroupingService\<close>, \<open>AutoIncidentService\<close> and the masking of \<open>SampleCaptureService\<close>.

  A statement the database rejects is \<open>None\<close>.  It aborts the transaction, which then accepts no
  further statement and commits nothing.  Time stamps are numbers; the text form of a time and the
  day window of a time zone (\<open>None\<close> for a zone the library does not know) are parameters.
\<close>

section \<open>Rows\<close>

record IssueRow =
  is_id :: uuid
  is_tenant :: uuid
  is_workspace :: uuid
  is_execution :: "uuid option"
  is_node_result :: "uuid option"
  is_rule :: "uuid option"
  is_dataset :: "uuid option"
  is_assignee :: "uuid option"
  is_type :: string
  is_severity :: string
  is_status :: string
  is_title :: string
  is_impact :: string
  is_failures :: "int option"
  is_scanned :: "int option"
  is_rate :: "rat option"
  is_due :: "nat option"
  is_opened :: nat
  is_last_seen :: "nat option"
  is_summary :: "string option"
  is_resolved :: "nat option"
  is_closed :: "nat option"

record IncidentRow =
  in_id :: uuid
  in_tenant :: uuid
  in_workspace :: uuid
  in_title :: string
  in_severity :: string
  in_priority :: pyval
  in_status :: string
  in_impact :: string
  in_owner :: "uuid option"

record SampleRow =
  sm_issue :: uuid
  sm_rows :: "dict list"
  sm_masked :: bool

record RuleRow =
  ru_id :: uuid
  ru_workspace :: uuid
  ru_name :: string
  ru_canonical :: pyval
  ru_active :: bool
  ru_updated :: nat
  ru_source :: "string option"
  ru_sql :: "string option"
  ru_postgres :: "string option"
  ru_mysql :: "string option"
  ru_snowflake :: "string option"
  ru_schema :: "string option"
  ru_table :: "string option"
  ru_columns :: "string list"
  ru_thresholds :: "Thresholds option"

record DatasetRow =
  da_id :: uuid
  da_workspace :: uuid
  da_name :: string
  da_physical :: string
  da_schema :: "string option"
  da_owner :: "uuid option"

record quality_db =
  qd_settings :: settings_db
  qd_users :: "uuid list"
  qd_rules :: "RuleRow list"
  qd_datasets :: "DatasetRow list"
  qd_sensitivity :: "(uuid \<times> string \<times> string) list"
  qd_issues :: "IssueRow list"
  qd_incidents :: "IncidentRow list"
  qd_links :: "(uuid \<times> uuid) list"
  qd_samples :: "SampleRow list"

text \<open>The row as the lifecycle service sees it.\<close>

definition lifecycle_view :: "IssueRow \<Rightarrow> Issue" where
  "lifecycle_view r = \<lparr>i_workspace = uuid_text (is_workspace r), i_status = is_status r,
     i_assignee = map_option uuid_text (is_assignee r), i_due = is_due r, i_summary = is_summary r,
     i_resolved_at = is_resolved r, i_closed_at = is_closed r\<rparr>"

section \<open>Inserting an issue\<close>

definition in_int32 :: "int \<Rightarrow> bool" where
  "in_int32 i \<longleftrightarrow> - (2 ^ 31) \<le> i \<and> i < 2 ^ 31"

text \<open>A \<open>DECIMAL(5, 2)\<close> rounds to hundredths, half away from zero.\<close>

definition decimal_5_2 :: "rat \<Rightarrow> rat option" where
  "decimal_5_2 x =
     (let h = (if 0 \<le> x then \<lfloor>100 * x + 1 / 2\<rfloor> else \<lceil>100 * x - 1 / 2\<rceil>)
      in if \<bar>h\<bar> < 100000 then Some (of_int h / 100) else None)"

definition SEVERITIES :: "string list" where
  "SEVERITIES = [''critical'', ''major'', ''minor'', ''informational'']"

definition exists_in :: "'k option \<Rightarrow> 'k list \<Rightarrow> bool" where
  "exists_in k ks \<longleftrightarrow> (case k of None \<Rightarrow> True | Some x \<Rightarrow> x \<in> set ks)"

text \<open>
  The columns, checks and foreign keys of \<open>public.issues\<close>.  The execution and the node result an
  issue refers to are rows of the same request and exist.
\<close>

definition issue_allowed :: "quality_db \<Rightarrow> IssueRow \<Rightarrow> bool" where
  "issue_allowed db r \<longleftrightarrow>
     is_id r \<notin> set (map is_id (qd_issues db)) \<and>
     is_severity r \<in> set SEVERITIES \<and>
     length (is_title r) \<le> 500 \<and>
     (\<forall>n \<in> set_option (is_failures r). in_int32 n \<and> 0 \<le> n) \<and>
     (\<forall>n \<in> set_option (is_scanned r). in_int32 n) \<and>
     (\<forall>x \<in> set_option (is_rate r). 0 \<le> x \<and> x \<le> 100) \<and>
     is_workspace r \<in> set (map sw_id (sd_workspaces (qd_settings db))) \<and>
     exists_in (is_rule r) (map ru_id (qd_rules db)) \<and>
     exists_in (is_dataset r) (map da_id (qd_datasets db)) \<and>
     exists_in (is_assignee r) (qd_users db)"

text \<open>
  \<open>insert\<close>.  The row is opened now: the \<open>opened_at\<close> of the domain object is not passed on, so the
  database fills in its default.
\<close>

definition insert_issue :: "nat \<Rightarrow> IssueRow \<Rightarrow> quality_db \<Rightarrow> (IssueRow \<times> quality_db) option" where
  "insert_issue now r db =
     (case (case is_rate r of None \<Rightarrow> Some None | Some x \<Rightarrow> map_option Some (decimal_5_2 x)) of
        None \<Rightarrow> None
      | Some rate \<Rightarrow>
          let r' = r\<lparr>is_rate := rate, is_opened := now, is_last_seen := None\<rparr>
          in if issue_allowed db r' then Some (r', db\<lparr>qd_issues := qd_issues db @ [r']\<rparr>) else None)"

section \<open>Grouping\<close>

definition GROUPABLE_STATUSES :: "string list" where
  "GROUPABLE_STATUSES = [''open'', ''in_progress'', ''reopened'']"

definition groupable :: "uuid \<Rightarrow> uuid \<Rightarrow> uuid \<Rightarrow> IssueRow \<Rightarrow> bool" where
  "groupable w ru ds r \<longleftrightarrow> is_workspace r = w \<and> is_rule r = Some ru \<and> is_dataset r = Some ds \<and>
     is_status r \<in> set GROUPABLE_STATUSES"

text \<open>
  \<open>find_open_for_grouping\<close>: \<open>ORDER BY opened_at DESC LIMIT 1\<close>; of rows opened at the same time,
  the one inserted last.
\<close>

definition find_open_for_grouping ::
    "quality_db \<Rightarrow> uuid \<Rightarrow> uuid \<Rightarrow> uuid \<Rightarrow> (nat \<times> nat) option \<Rightarrow> IssueRow option" where
  "find_open_for_grouping db w ru ds window =
     (let hits = filter (\<lambda>r. groupable w ru ds r \<and>
                   (\<forall>(a, b) \<in> set_option window. a \<le> is_opened r \<and> is_opened r < b)) (qd_issues db)
      in if hits = [] then None else Some (last (sort_key is_opened hits)))"

text \<open>\<open>update_for_grouping\<close>: the sum must fit the column, and a missing count stays missing.\<close>

definition update_for_grouping ::
    "uuid \<Rightarrow> int \<Rightarrow> string \<Rightarrow> nat option \<Rightarrow> quality_db \<Rightarrow> (IssueRow \<times> quality_db) option" where
  "update_for_grouping i delta impact seen db =
     (let upd = (\<lambda>r. r\<lparr>is_failures := map_option (\<lambda>n. n + delta) (is_failures r), is_impact := impact,
                     is_last_seen := seen\<rparr>)
      in case find (\<lambda>r. is_id r = i) (qd_issues db) of
           None \<Rightarrow> None
         | Some r \<Rightarrow>
             if (\<forall>n \<in> set_option (is_failures (upd r)). in_int32 n \<and> 0 \<le> n)
             then Some (upd r, db\<lparr>qd_issues := update_where (\<lambda>x. is_id x = i) upd (qd_issues db)\<rparr>)
             else None)"

definition grouped_impact_summary :: "(nat option \<Rightarrow> string) \<Rightarrow> int \<Rightarrow> nat option \<Rightarrow> string" where
  "grouped_impact_summary isofmt n t =
     str_of_int n @ '' failures recorded (last seen: '' @ isofmt t @ '')''"

text \<open>What the grouping check does: no candidate, an updated issue, or an aborted transaction.\<close>

datatype grouping = NotGrouped | Grouped IssueRow quality_db | GroupingAborted

definition find_and_update_candidate ::
    "(string \<Rightarrow> nat \<Rightarrow> (nat \<times> nat) option) \<Rightarrow> (nat option \<Rightarrow> string) \<Rightarrow> bool \<Rightarrow>
     quality_db \<Rightarrow> uuid \<Rightarrow> uuid option \<Rightarrow> uuid option \<Rightarrow> string \<Rightarrow> string \<Rightarrow> int \<Rightarrow> nat option \<Rightarrow> grouping" where
  "find_and_update_candidate day_window isofmt db_ok db w rule dataset policy tz failed completed =
     (if policy = ''one_per_execution'' then NotGrouped
      else case (rule, dataset) of
             (Some ru, Some ds) \<Rightarrow>
               let window = (if policy \<noteq> ''one_per_day'' then Some None
                             else case completed of None \<Rightarrow> None | Some t \<Rightarrow> map_option Some (day_window tz t))
               in (case window of
                     None \<Rightarrow> NotGrouped
                   | Some win \<Rightarrow>
                       if \<not> db_ok then GroupingAborted
                       else case find_open_for_grouping db w ru ds win of
                              None \<Rightarrow> NotGrouped
                            | Some r \<Rightarrow>
                                let n = (case is_failures r of None \<Rightarrow> 0 | Some c \<Rightarrow> c) + failed
                                in if completed = None then NotGrouped
                                   else case update_for_grouping (is_id r) failed
                                               (grouped_impact_summary isofmt n completed) completed db of
                                          None \<Rightarrow> GroupingAborted
                                        | Some (r', db') \<Rightarrow> Grouped r' db')
           | _ \<Rightarrow> NotGrouped)"

section \<open>Automatic incidents\<close>

definition SEVERITY_RANK :: "(string \<times> nat) list" where
  "SEVERITY_RANK = [(''critical'', 0), (''major'', 1), (''minor'', 2), (''informational'', 3)]"

definition SEVERITY_PRIORITY :: "(string \<times> string) list" where
  "SEVERITY_PRIORITY = [(''critical'', ''P1''), (''major'', ''P2''), (''minor'', ''P3''), (''informational'', ''P4'')]"

definition severity_met :: "IncidentPolicy \<Rightarrow> string \<Rightarrow> bool" where
  "severity_met p s \<longleftrightarrow>
     (case map_of SEVERITY_RANK s of None \<Rightarrow> 99 | Some n \<Rightarrow> n)
       \<le> (case min_severity p of
            PStr m \<Rightarrow> (case map_of SEVERITY_RANK m of None \<Rightarrow> 0 | Some n \<Rightarrow> n)
          | _ \<Rightarrow> 0)"

definition recurrence_met :: "IncidentPolicy \<Rightarrow> int \<Rightarrow> bool" where
  "recurrence_met p n \<longleftrightarrow> recurrence_threshold p \<le> n"

definition derive_priority :: "IncidentPolicy \<Rightarrow> string \<Rightarrow> pyval" where
  "derive_priority p s =
     (if truthy (auto_priority p) then auto_priority p
      else PStr (case map_of SEVERITY_PRIORITY s of None \<Rightarrow> ''P3'' | Some q \<Rightarrow> q))"

definition issue_has_open_incident :: "quality_db \<Rightarrow> uuid \<Rightarrow> uuid \<Rightarrow> bool" where
  "issue_has_open_incident db i w \<longleftrightarrow>
     list_ex (\<lambda>n. (in_id n, i) \<in> set (qd_links db) \<and> in_workspace n = w \<and> in_status n = ''open'')
       (qd_incidents db)"

text \<open>The columns, checks and foreign keys of \<open>public.incidents\<close>.\<close>

definition incident_allowed :: "quality_db \<Rightarrow> IncidentRow \<Rightarrow> bool" where
  "incident_allowed db n \<longleftrightarrow>
     in_id n \<notin> set (map in_id (qd_incidents db)) \<and>
     in_priority n \<in> {PStr ''P1'', PStr ''P2'', PStr ''P3'', PStr ''P4''} \<and>
     in_severity n \<in> set SEVERITIES \<and> in_title n \<noteq> [] \<and> length (in_title n) \<le> 500 \<and>
     exists_in (in_owner n) (qd_users db)"

definition owner_id :: "owner \<Rightarrow> uuid option" where
  "owner_id w = (case w of Stored u \<Rightarrow> Some u | Given _ \<Rightarrow> None)"

definition auto_title :: "string \<Rightarrow> string" where
  "auto_title t = (let s = ''[Auto] '' @ t in if length s > 500 then take 497 s @ ''...'' else s)"

text \<open>
  \<open>evaluate_and_create\<close>: no incident, the id of a new one, or a rejected statement.  The policy
  read from the settings has a stored owner or none.
\<close>

datatype incident_outcome = NoIncident | IncidentCreated uuid quality_db | IncidentRejected

definition evaluate_and_create ::
    "uuid \<Rightarrow> quality_db \<Rightarrow> uuid \<Rightarrow> uuid \<Rightarrow> uuid \<Rightarrow> string \<Rightarrow> int \<Rightarrow> string \<Rightarrow> IncidentPolicy option \<Rightarrow>
     incident_outcome" where
  "evaluate_and_create j db w t i severity failures title policy =
     (let p = (case policy of None \<Rightarrow> DEFAULT_INCIDENT_POLICY | Some p \<Rightarrow> p)
      in if \<not> enabled p \<or> \<not> severity_met p severity \<or> \<not> recurrence_met p failures \<or>
            issue_has_open_incident db i w
         then NoIncident
         else
           let n = \<lparr>in_id = j, in_tenant = t, in_workspace = w, in_title = auto_title title,
                    in_severity = severity, in_priority = derive_priority p severity, in_status = ''open'',
                    in_impact = ''Auto-created by incident policy for issue severity='' @ severity,
                    in_owner = owner_id (auto_owner p)\<rparr>
           in if \<not> incident_allowed db n then IncidentRejected
              else IncidentCreated j
                     (db\<lparr>qd_incidents := qd_incidents db @ [n], qd_links := qd_links db @ [(j, i)]\<rparr>))"

section \<open>Samples\<close>

definition MASK_SENSITIVE_AT :: "string list" where
  "MASK_SENSITIVE_AT = [''confidential'', ''restricted'']"

definition load_sensitivity_map :: "quality_db \<Rightarrow> uuid \<Rightarrow> (string \<times> string) list" where
  "load_sensitivity_map db ds = rev (map snd (filter (\<lambda>x. fst x = ds) (qd_sensitivity db)))"

definition must_mask :: "(string \<times> string) list \<Rightarrow> string \<Rightarrow> bool" where
  "must_mask sens col \<longleftrightarrow> (case map_of sens col of None \<Rightarrow> False | Some c \<Rightarrow> c \<in> set MASK_SENSITIVE_AT)"

definition apply_masking :: "dict list \<Rightarrow> (string \<times> string) list \<Rightarrow> dict list \<times> bool" where
  "apply_masking rows sens =
     (map (map (\<lambda>(c, v). (c, if must_mask sens c then PStr ''[MASKED]'' else v))) rows,
      list_ex (list_ex (\<lambda>(c, v). must_mask sens c)) rows)"

text \<open>A row that is not an object raises, which the caller swallows: then nothing is stored.\<close>

definition as_row :: "pyval \<Rightarrow> dict option" where
  "as_row v = (case v of PDict r \<Rightarrow> Some r | _ \<Rightarrow> None)"

definition capture_for_issue :: "uuid \<Rightarrow> uuid option \<Rightarrow> pyval list \<Rightarrow> quality_db \<Rightarrow> quality_db" where
  "capture_for_issue i dataset violations db =
     (let capped = take 50 violations;
          sens = (case dataset of None \<Rightarrow> [] | Some ds \<Rightarrow> load_sensitivity_map db ds);
          (rows, masked) = apply_masking (List.map_filter as_row capped) sens
      in if capped = [] \<or> list_ex (\<lambda>v. as_row v = None) capped then db
         else db\<lparr>qd_samples := qd_samples db @ [\<lparr>sm_issue = i, sm_rows = rows, sm_masked = masked\<rparr>]\<rparr>)"

end
