(* ===== verification/IssueCreation.thy ===== *)
theory IssueCreation
  imports IssueStore
begin

text \<open>
  \<open>IssueCreationService\<close> of \<open>app/services/issues/issue_creation_service.py\<close>: an issue from a failed
  node of a flow and an issue from a rule execution, with the helpers that find the rule, the
  dataset, the severity, the title and the due time.

  The service never commits.  Its steps after the insert are meant not to disturb the issue:
  exceptions are caught.  But a statement the database has rejected leaves the transaction
  aborted, so the outcome of a call says whether the caller's commit can still keep the issue.

  The em dash of a title lies outside the modelled code points; U+0097 stands for it.
\<close>

section \<open>Helpers\<close>

definition SEVERITY_MAP :: "(string \<times> string) list" where
  "SEVERITY_MAP =
     [(''blocker'', ''critical''), (''critical'', ''critical''), (''high'', ''major''), (''major'', ''major''),
      (''medium'', ''minor''), (''minor'', ''minor''), (''low'', ''informational''), (''info'', ''informational''),
      (''informational'', ''informational'')]"

definition normalise_severity :: "string \<Rightarrow> string" where
  "normalise_severity s = (case map_of SEVERITY_MAP (lower s) of None \<Rightarrow> ''minor'' | Some v \<Rightarrow> v)"

text \<open>\<open>s.upper()\<close> of a severity, and \<open>f"{x:.1f}"\<close>.\<close>

definition upper :: "string \<Rightarrow> string" where
  "upper s = map (\<lambda>c. if 97 \<le> code_of c \<and> code_of c \<le> 122 then char_of (code_of c - 32) else c) s"

definition fixed1 :: "rat \<Rightarrow> string" where
  "fixed1 x = (let n = round_half_even (10 * \<bar>x\<bar>)
     in (if x < 0 then ''-'' else []) @ str_of_int (n div 10) @ ''.'' @ str_of_int (n mod 10))"

definition float1 :: "pyfloat \<Rightarrow> string" where
  "float1 f = (case f of FFin x \<Rightarrow> fixed1 x | FInf s \<Rightarrow> if s then ''inf'' else ''-inf'' | FNan \<Rightarrow> ''nan'')"

text \<open>The part about the rate is missing without a rate.\<close>

definition impact_summary :: "int \<Rightarrow> int \<Rightarrow> pyfloat option \<Rightarrow> string" where
  "impact_summary failed scanned rate =
     str_of_int failed @ '' of '' @ str_of_int scanned @ '' rows failed'' @
     (case rate of None \<Rightarrow> [] | Some f \<Rightarrow> '' ('' @ float1 f @ ''% pass rate)'')"

definition em_dash :: string where
  "em_dash = [CHR '' '', CHR 0x97, CHR '' '']"

definition bracket_prefixes :: "string list" where
  "bracket_prefixes = [''critical'', ''major'', ''minor'', ''informational'', ''info'']"

definition strip_bracket :: "string \<Rightarrow> string" where
  "strip_bracket s =
     (if starts_with ''['' s \<and> CHR '']'' \<in> set s
      then let close = length (takeWhile (\<lambda>c. c \<noteq> CHR '']'') s)
           in if lower (strip (drop 1 (take close s))) \<in> set bracket_prefixes
              then strip (drop (close + 1) s) else s
      else s)"

definition compose_title :: "string \<Rightarrow> string \<Rightarrow> string option \<Rightarrow> string" where
  "compose_title severity primary dataset =
     (let t = strip_bracket (strip primary);
          head = ''['' @ upper severity @ '']'';
          title = (if t = [] then head else head @ '' '' @ t)
      in take 500 (case dataset of Some (c # d) \<Rightarrow> title @ em_dash @ (c # d) | _ \<Rightarrow> title))"

text \<open>\<open>opened_at + timedelta(hours=...)\<close> in minutes; the hours of a policy were validated.\<close>

definition compute_due_at :: "nat option \<Rightarrow> string \<Rightarrow> SLAPolicy option \<Rightarrow> nat option" where
  "compute_due_at opened severity sla =
     (case (opened, sla) of
        (Some t, Some p) \<Rightarrow>
          (case map_of [(''critical'', critical_hours p), (''major'', major_hours p),
                        (''minor'', minor_hours p), (''informational'', informational_hours p)] severity of
             Some (PInt h) \<Rightarrow> Some (t + 60 * nat h)
           | _ \<Rightarrow> None)
      | _ \<Rightarrow> None)"

text \<open>The severity a canonical rule declares: its text, or what \<open>str\<close> makes of it.\<close>

definition canonical_entry :: "pyval \<Rightarrow> string \<Rightarrow> pyval" where
  "canonical_entry canonical k = (case canonical of PDict d \<Rightarrow> dict_get d k PNone | _ \<Rightarrow> PNone)"

section \<open>The settings of the workspace\<close>

text \<open>\<open>None\<close> without a row; an exception of the deserialisation leaves the service.\<close>

definition effective_settings :: "quality_db \<Rightarrow> uuid \<Rightarrow> py_error + WorkspaceSettings option" where
  "effective_settings db w = map_sum id (map_option with_defaults) (find_settings (qd_settings db) w None)"

definition workspace_tenant_id :: "quality_db \<Rightarrow> uuid \<Rightarrow> uuid option" where
  "workspace_tenant_id db w = map_option sw_tenant (find_workspace (qd_settings db) w None)"

section \<open>After the insert\<close>

text \<open>
  The faults the environment decides: whether the database accepts the statements of the grouping
  check, of the sample capture and of the alert trigger.
\<close>

record db_faults =
  grouping_ok :: bool
  sample_ok :: bool
  alert_ok :: bool

datatype creation =
    Nothing
  | Created IssueRow quality_db
  | Aborted IssueRow
  | Raised

definition follow_up ::
    "db_faults \<Rightarrow> uuid \<Rightarrow> IssueRow \<Rightarrow> pyval list \<Rightarrow> WorkspaceSettings option \<Rightarrow> quality_db \<Rightarrow> creation" where
  "follow_up fts j r violations settings db =
     (if \<not> sample_ok fts then Aborted r
      else case evaluate_and_create j (capture_for_issue (is_id r) (is_dataset r) violations db)
                  (is_workspace r) (is_tenant r) (is_id r) (is_severity r)
                  (case is_failures r of None \<Rightarrow> 0 | Some n \<Rightarrow> n) (is_title r)
                  (case settings of None \<Rightarrow> None | Some s \<Rightarrow> incident_policy s) of
             IncidentRejected \<Rightarrow> Aborted r
           | NoIncident \<Rightarrow>
               if alert_ok fts
               then Created r (capture_for_issue (is_id r) (is_dataset r) violations db) else Aborted r
           | IncidentCreated _ db' \<Rightarrow> if alert_ok fts then Created r db' else Aborted r)"

section \<open>From a rule execution\<close>

record RuleExecution =
  rx_id :: uuid
  rx_rule :: uuid
  rx_status :: string
  rx_scanned :: int
  rx_passed :: int
  rx_failed :: int
  rx_rate :: "int option"
  rx_completed :: "nat option"
  rx_violations :: "dict list"

definition primary_text :: "RuleRow \<Rightarrow> pyval" where
  "primary_text ru =
     (if ru_name ru \<noteq> [] then PStr (ru_name ru)
      else let c = canonical_entry (ru_canonical ru)
           in if truthy (c ''description'') then c ''description''
              else if truthy (c ''nl_text'') then c ''nl_text'' else c ''name'')"

text \<open>\<open>(primary or "").strip()\<close> needs a text; \<open>None\<close> stands for the exception.\<close>

definition title_text :: "pyval \<Rightarrow> string option" where
  "title_text v = (case v of PStr s \<Rightarrow> Some s | _ \<Rightarrow> if truthy v then None else Some [])"

definition rule_severity :: "(pyval \<Rightarrow> string) \<Rightarrow> pyval \<Rightarrow> string" where
  "rule_severity str canonical =
     (let v = canonical_entry canonical ''severity''
      in if truthy v then normalise_severity (str v) else ''minor'')"

definition dataset_of_rule :: "quality_db \<Rightarrow> RuleRow \<Rightarrow> DatasetRow option" where
  "dataset_of_rule db ru =
     (case ru_table ru of
        None \<Rightarrow> None
      | Some t \<Rightarrow> find (\<lambda>d. da_workspace d = ru_workspace ru \<and>
            (lower (da_physical d) = lower t \<or> lower (da_name d) = lower t) \<and>
            (\<forall>s \<in> set_option (ru_schema ru). \<exists>s' \<in> set_option (da_schema d). lower s' = lower s))
          (qd_datasets db))"

definition create_from_rule_execution ::
    "(pyval \<Rightarrow> string) \<Rightarrow> db_faults \<Rightarrow> nat \<Rightarrow> uuid \<Rightarrow> uuid \<Rightarrow> RuleExecution \<Rightarrow> quality_db \<Rightarrow> creation" where
  "create_from_rule_execution str fts now i j x db =
     (if rx_status x \<noteq> ''completed'' \<or> rx_failed x \<le> 0 then Nothing
      else case find (\<lambda>u. ru_id u = rx_rule x) (qd_rules db) of
        None \<Rightarrow> Nothing
      | Some ru \<Rightarrow>
          let w = ru_workspace ru; severity = rule_severity str (ru_canonical ru); ds = dataset_of_rule db ru
          in case workspace_tenant_id db w of
               None \<Rightarrow> Nothing
             | Some t \<Rightarrow>
                 (case (effective_settings db w, title_text (primary_text ru)) of
                    (Inl e, _) \<Rightarrow> Raised
                  | (_, None) \<Rightarrow> Raised
                  | (Inr settings, Some primary) \<Rightarrow>
                      let rate = map_option (\<lambda>h. of_int h / 100) (rx_rate x);
                          r = \<lparr>is_id = i, is_tenant = t, is_workspace = w, is_execution = None,
                            is_node_result = None, is_rule = Some (ru_id ru), is_dataset = map_option da_id ds,
                            is_assignee = Option.bind ds da_owner, is_type = ''threshold_breach'',
                            is_severity = severity, is_status = ''open'',
                            is_title = compose_title severity primary (map_option da_name ds),
                            is_impact = impact_summary (rx_failed x) (rx_scanned x) (map_option to_double rate),
                            is_failures = Some (rx_failed x), is_scanned = Some (rx_scanned x), is_rate = rate,
                            is_due = compute_due_at (rx_completed x) severity (Option.bind settings sla_policy),
                            is_opened = now, is_last_seen = None, is_summary = None, is_resolved = None,
                            is_closed = None\<rparr>
                      in case insert_issue now r db of
                           None \<Rightarrow> Nothing
                         | Some (r', db') \<Rightarrow>
                             follow_up fts j r' (map PDict (take 100 (rx_violations x))) settings db'))"

section \<open>The configuration of a node\<close>

record NodeResult =
  nr_id :: uuid
  nr_node :: string
  nr_status :: string
  nr_data :: pyval
  nr_completed :: "nat option"

record FlowRow =
  fw_id :: uuid
  fw_workspace :: uuid
  fw_definition :: pyval

fun node_with_id :: "string \<Rightarrow> pyval list \<Rightarrow> py_error + pyval" where
  "node_with_id n [] = Inr (PDict [])"
| "node_with_id n (v # vs) =
     (case v of
        PDict d \<Rightarrow> if dict_get d ''id'' PNone = PStr n then Inr (dict_get d ''config'' (PDict [])) else node_with_id n vs
      | _ \<Rightarrow> Inl (AttributeError ''get''))"

definition get_node_config :: "pyval \<Rightarrow> string \<Rightarrow> py_error + pyval" where
  "get_node_config flow n =
     (if \<not> truthy flow then Inr (PDict [])
      else case get_of flow ''nodes'' (PList []) of
             Inl e \<Rightarrow> Inl e
           | Inr v \<Rightarrow> (case elements_of v of Inl e \<Rightarrow> Inl e | Inr vs \<Rightarrow> node_with_id n vs))"

text \<open>\<open>UUID(raw) if raw else None\<close>.\<close>

definition optional_uuid :: "pyval \<Rightarrow> py_error + uuid option" where
  "optional_uuid v = (if truthy v then map_sum id Some (uuid_of v) else Inr None)"

text \<open>
  The first rule of the workspace with the name of the node, active ones first and the latest
  first.  A name that is not a text is rejected by the database, which aborts the transaction.
\<close>

definition rule_order :: "RuleRow \<Rightarrow> RuleRow \<Rightarrow> bool" where
  "rule_order a b \<longleftrightarrow> (ru_active a \<and> \<not> ru_active b) \<or> (ru_active a = ru_active b \<and> ru_updated b \<le> ru_updated a)"

definition first_rule :: "RuleRow list \<Rightarrow> RuleRow option" where
  "first_rule rs = find (\<lambda>a. list_all (rule_order a) rs) rs"

definition resolve_rule_id_fallback :: "quality_db \<Rightarrow> uuid \<Rightarrow> dict \<Rightarrow> py_error + uuid option" where
  "resolve_rule_id_fallback db w cfg =
     (case py_or (py_or (dict_get cfg ''rule_name'' PNone) (dict_get cfg ''ruleName'' PNone))
             (dict_get cfg ''description'' PNone) of
        PStr n \<Rightarrow> Inr (if n = [] then None
          else map_option ru_id (first_rule (filter (\<lambda>r. ru_workspace r = w \<and> ru_name r = n) (qd_rules db))))
      | v \<Rightarrow> if truthy v then Inl (TypeError ''aborted'') else Inr None)"

text \<open>\<open>{n.get("id"): n for n in nodes}\<close>: of nodes with the same id the last one stays.\<close>

fun index_nodes :: "pyval list \<Rightarrow> py_error + (pyval \<times> dict) list" where
  "index_nodes [] = Inr []"
| "index_nodes (v # vs) =
     (case v of
        PDict d \<Rightarrow>
          if hashable (dict_get d ''id'' PNone)
          then map_sum id (\<lambda>m. m @ [(dict_get d ''id'' PNone, d)]) (index_nodes vs)
          else Inl (TypeError ''unhashable type'')
      | _ \<Rightarrow> Inl (AttributeError ''get''))"

text \<open>The first connection into the node whose source is a node of type \<open>source\<close>.\<close>

fun source_of :: "string \<Rightarrow> (pyval \<times> dict) list \<Rightarrow> pyval list \<Rightarrow> py_error + dict option" where
  "source_of n idx [] = Inr None"
| "source_of n idx (v # vs) =
     (case v of
        PDict c \<Rightarrow>
          (let t = py_or (py_or (dict_get c ''to'' PNone) (dict_get c ''target'' PNone)) (dict_get c ''targetNode'' PNone);
               s = py_or (py_or (dict_get c ''from'' PNone) (dict_get c ''source'' PNone)) (dict_get c ''sourceNode'' PNone)
           in if t \<noteq> PStr n then source_of n idx vs
              else if \<not> hashable s then Inl (TypeError ''unhashable type'')
              else case map_of idx s of
                     Some d \<Rightarrow> if dict_get d ''type'' PNone = PStr ''source'' then Inr (Some d) else source_of n idx vs
                   | None \<Rightarrow> source_of n idx vs)
      | _ \<Rightarrow> Inl (AttributeError ''get''))"

definition dataset_by_name :: "quality_db \<Rightarrow> uuid \<Rightarrow> pyval \<Rightarrow> py_error + uuid option" where
  "dataset_by_name db w v =
     (case v of
        PStr n \<Rightarrow> Inr (if n = [] then None
          else map_option da_id (find (\<lambda>d. da_workspace d = w \<and>
                 (lower (da_physical d) = lower n \<or> lower (da_name d) = lower n)) (qd_datasets db)))
      | _ \<Rightarrow> if truthy v then Inl (TypeError ''aborted'') else Inr None)"

text \<open>What the source node says: an id that parses, or a name to look for.\<close>

definition source_hint :: "(pyval \<Rightarrow> string) \<Rightarrow> dict option \<Rightarrow> py_error + uuid option \<times> pyval" where
  "source_hint str source =
     (case source of
        None \<Rightarrow> Inr (None, PNone)
      | Some d \<Rightarrow>
          (case py_or (dict_get d ''config'' (PDict [])) (PDict []) of
             PDict c \<Rightarrow>
               let raw = dict_get c ''dataset_id'' PNone
               in Inr (if truthy raw then parse_uuid (str raw) else None,
                       py_or (dict_get c ''name'' PNone) (dict_get c ''dataset_name'' PNone))
           | _ \<Rightarrow> Inl (AttributeError ''get'')))"

definition resolve_dataset_id_fallback ::
    "(pyval \<Rightarrow> string) \<Rightarrow> quality_db \<Rightarrow> uuid \<Rightarrow> pyval \<Rightarrow> string \<Rightarrow> dict \<Rightarrow> py_error + uuid option" where
  "resolve_dataset_id_fallback str db w flow n cfg =
     (if \<not> truthy flow then Inr None
      else case flow of
        PDict fd \<Rightarrow>
          (case elements_of (dict_get fd ''nodes'' (PList [])) of Inl e \<Rightarrow> Inl e | Inr ns \<Rightarrow>
          (case index_nodes ns of Inl e \<Rightarrow> Inl e | Inr idx \<Rightarrow>
          (case elements_of (py_or (dict_get fd ''connections'' (PList [])) (PList [])) of Inl e \<Rightarrow> Inl e | Inr cs \<Rightarrow>
          (case source_of n idx cs of Inl e \<Rightarrow> Inl e | Inr src \<Rightarrow>
          (case source_hint str src of
             Inl e \<Rightarrow> Inl e
           | Inr (Some u, _) \<Rightarrow> Inr (Some u)
           | Inr (None, name) \<Rightarrow>
               dataset_by_name db w
                 (py_or name (py_or (py_or (dict_get cfg ''dataset_name'' PNone) (dict_get cfg ''datasetName'' PNone))
                                (dict_get cfg ''table'' PNone))))))))
      | _ \<Rightarrow> Inl (AttributeError ''get''))"

section \<open>From a node result\<close>

text \<open>What the node and its configuration determine, before the database is written to.\<close>

record NodeFacts =
  nf_rule :: "uuid option"
  nf_dataset :: "uuid option"
  nf_failed :: int
  nf_scanned :: pyval
  nf_rate :: pyval
  nf_config :: dict
  nf_violations :: "pyval list"

definition violations_of :: "dict \<Rightarrow> pyval list" where
  "violations_of d =
     (case elements_of (py_or (py_or (dict_get d ''canonical_violations'' PNone) (dict_get d ''violations'' PNone)) (PList [])) of
        Inr vs \<Rightarrow> vs
      | Inl _ \<Rightarrow> [])"

definition node_facts ::
    "(pyval \<Rightarrow> string) \<Rightarrow> quality_db \<Rightarrow> FlowRow \<Rightarrow> NodeResult \<Rightarrow> py_error + NodeFacts" where
  "node_facts str db fw nr =
     (case get_node_config (fw_definition fw) (nr_node nr) of
        Inl e \<Rightarrow> Inl e
      | Inr cfgv \<Rightarrow>
     (case cfgv of PDict cfg \<Rightarrow>
       (case optional_uuid (dict_get cfg ''rule_id'' PNone) of Inl e \<Rightarrow> Inl e | Inr r0 \<Rightarrow>
       (case (if r0 = None then resolve_rule_id_fallback db (fw_workspace fw) cfg else Inr r0) of
          Inl e \<Rightarrow> Inl e | Inr rule \<Rightarrow>
       (case optional_uuid (dict_get cfg ''dataset_id'' PNone) of Inl e \<Rightarrow> Inl e | Inr d0 \<Rightarrow>
       (case (if d0 = None
              then resolve_dataset_id_fallback str db (fw_workspace fw) (fw_definition fw) (nr_node nr) cfg
              else Inr d0) of
          Inl e \<Rightarrow> Inl e | Inr ds \<Rightarrow>
       (case py_or (nr_data nr) (PDict []) of
          PDict d \<Rightarrow>
            (case to_int (dict_get d ''rows_failed'' (PInt 0)) of
               Inr f \<Rightarrow>
                 Inr \<lparr>nf_rule = rule, nf_dataset = ds, nf_failed = f,
                      nf_scanned = dict_get d ''rows_scanned'' (PInt 0),
                      nf_rate = dict_get d ''pass_rate'' PNone, nf_config = cfg, nf_violations = violations_of d\<rparr>
             | Inl e \<Rightarrow> Inl e)
        | _ \<Rightarrow> Inl (AttributeError ''get''))))))
      | _ \<Rightarrow> Inl (AttributeError ''get'')))"

text \<open>The severity of the node, overridden by that of the rule.\<close>

definition node_severity ::
    "(pyval \<Rightarrow> string) \<Rightarrow> quality_db \<Rightarrow> NodeFacts \<Rightarrow> py_error + string" where
  "node_severity str db nf =
     (let own = dict_get (nf_config nf) ''severity'' PNone;
          base = (if truthy own then normalise_severity (str own) else ''minor'')
      in case Option.bind (nf_rule nf) (\<lambda>i. find (\<lambda>u. ru_id u = i) (qd_rules db)) of
           None \<Rightarrow> Inr base
         | Some ru \<Rightarrow>
             (case canonical_entry (ru_canonical ru) ''severity'' of
                PStr s \<Rightarrow> Inr (if s = [] then base else normalise_severity s)
              | v \<Rightarrow> if truthy v then Inl (AttributeError ''lower'') else Inr base))"

definition node_title ::
    "quality_db \<Rightarrow> NodeResult \<Rightarrow> NodeFacts \<Rightarrow> string \<Rightarrow> string option \<Rightarrow> py_error + string" where
  "node_title db nr nf severity dataset =
     (let cfg = nf_config nf;
          named = (case Option.bind (nf_rule nf) (\<lambda>i. find (\<lambda>u. ru_id u = i) (qd_rules db)) of
                     None \<Rightarrow> PNone | Some ru \<Rightarrow> primary_text ru);
          v = py_or named (py_or (py_or (dict_get cfg ''rule_name'' PNone) (dict_get cfg ''ruleName'' PNone))
                (py_or (dict_get cfg ''description'' PNone) (dict_get cfg ''nl_rule_text'' PNone)))
      in if \<not> truthy v
         then Inr (take 500 (''['' @ upper severity @ ''] Check failed: node '' @ nr_node nr))
         else case v of
                PStr s \<Rightarrow> Inr (compose_title severity s dataset)
              | _ \<Rightarrow> Inl (AttributeError ''strip''))"

text \<open>The number the summary shows, and the decimal of the domain object (parameter \<open>dec\<close>, \<open>None\<close> when it is refused).\<close>

definition shown_rate :: "(string \<Rightarrow> pyfloat option) \<Rightarrow> pyval \<Rightarrow> py_error + pyfloat option" where
  "shown_rate ft v = (if v = PNone then Inr None else map_sum id Some (to_float ft v))"

definition stored_rate :: "(pyval \<Rightarrow> rat option) \<Rightarrow> pyval \<Rightarrow> rat option option" where
  "stored_rate dec v = (if v = PNone then Some None else map_option Some (dec v))"

record node_env =
  ne_str :: "pyval \<Rightarrow> string"
  ne_float :: "string \<Rightarrow> pyfloat option"
  ne_decimal :: "pyval \<Rightarrow> rat option"
  ne_day_window :: "string \<Rightarrow> nat \<Rightarrow> (nat \<times> nat) option"
  ne_isofmt :: "nat option \<Rightarrow> string"
  ne_faults :: db_faults

text \<open>The grouping policy and the time zone of the settings.\<close>

definition grouping_of :: "WorkspaceSettings option \<Rightarrow> string \<times> string" where
  "grouping_of settings =
     (case settings of None \<Rightarrow> (''one_per_execution'', ''UTC'') | Some s \<Rightarrow> (grouping_policy s, default_timezone s))"

definition insert_node_issue ::
    "node_env \<Rightarrow> nat \<Rightarrow> uuid \<Rightarrow> uuid \<Rightarrow> uuid \<Rightarrow> FlowRow \<Rightarrow> NodeResult \<Rightarrow> NodeFacts \<Rightarrow> WorkspaceSettings option \<Rightarrow>
     quality_db \<Rightarrow> creation" where
  "insert_node_issue E now i j ex fw nr nf settings db =
     (case (node_severity (ne_str E) db nf, to_int (nf_scanned nf), shown_rate (ne_float E) (nf_rate nf)) of
        (Inr severity, Inr scanned, Inr shown) \<Rightarrow>
          (case workspace_tenant_id db (fw_workspace fw) of
             None \<Rightarrow> Nothing
           | Some t \<Rightarrow>
               let ds = Option.bind (nf_dataset nf)
                     (\<lambda>i. find (\<lambda>d. da_id d = i \<and> da_workspace d = fw_workspace fw) (qd_datasets db))
               in (case (node_title db nr nf severity (map_option da_name ds), stored_rate (ne_decimal E) (nf_rate nf)) of
                     (Inr title, Some rate) \<Rightarrow>
                       let r = \<lparr>is_id = i, is_tenant = t, is_workspace = fw_workspace fw, is_execution = Some ex,
                             is_node_result = Some (nr_id nr), is_rule = nf_rule nf, is_dataset = nf_dataset nf,
                             is_assignee = Option.bind ds da_owner, is_type = ''threshold_breach'',
                             is_severity = severity, is_status = ''open'', is_title = title,
                             is_impact = impact_summary (nf_failed nf) scanned shown,
                             is_failures = Some (nf_failed nf), is_scanned = Some scanned, is_rate = rate,
                             is_due = compute_due_at (nr_completed nr) severity (Option.bind settings sla_policy),
                             is_opened = now, is_last_seen = None, is_summary = None, is_resolved = None,
                             is_closed = None\<rparr>
                       in (case insert_issue now r db of
                             None \<Rightarrow> Nothing
                           | Some (r', db') \<Rightarrow>
                               follow_up (ne_faults E) j r' (nf_violations nf) settings db')
                   | _ \<Rightarrow> Raised))
      | _ \<Rightarrow> Raised)"

definition create_from_node_result ::
    "node_env \<Rightarrow> nat \<Rightarrow> uuid \<Rightarrow> uuid \<Rightarrow> uuid \<Rightarrow> FlowRow \<Rightarrow> NodeResult \<Rightarrow> quality_db \<Rightarrow> creation" where
  "create_from_node_result E now i j ex fw nr db =
     (if nr_status nr \<noteq> ''failed'' then Nothing
      else case effective_settings db (fw_workspace fw) of
        Inl e \<Rightarrow> Raised
      | Inr settings \<Rightarrow>
          (case node_facts (ne_str E) db fw nr of
             Inl e \<Rightarrow> Raised
           | Inr nf \<Rightarrow>
               (let (policy, tz) = grouping_of settings
                in case find_and_update_candidate (ne_day_window E) (ne_isofmt E) (grouping_ok (ne_faults E)) db
                          (fw_workspace fw) (nf_rule nf) (nf_dataset nf) policy tz (nf_failed nf) (nr_completed nr) of
                     Grouped r db' \<Rightarrow> Created r db'
                   | GroupingAborted \<Rightarrow> Raised
                   | NotGrouped \<Rightarrow> insert_node_issue E now i j ex fw nr nf settings db)))"

section \<open>The callers\<close>

text \<open>
  The hook after an execution gives every failed node a session of its own, commits what was
  created and rolls back otherwise; the rule executor commits in the same way.  A commit of an
  aborted transaction keeps nothing.
\<close>

definition committed :: "quality_db \<Rightarrow> creation \<Rightarrow> quality_db" where
  "committed db c = (case c of Created r db' \<Rightarrow> db' | _ \<Rightarrow> db)"

text \<open>One failed node with the ids its rows get and the environment it meets.\<close>

record node_event =
  ev_env :: node_env
  ev_now :: nat
  ev_issue :: uuid
  ev_incident :: uuid
  ev_result :: NodeResult

fun raise_issues :: "uuid \<Rightarrow> FlowRow \<Rightarrow> node_event list \<Rightarrow> quality_db \<Rightarrow> quality_db" where
  "raise_issues ex fw [] db = db"
| "raise_issues ex fw (e # es) db =
     raise_issues ex fw es
       (committed db (create_from_node_result (ev_env e) (ev_now e) (ev_issue e) (ev_incident e) ex fw (ev_result e) db))"

end
