(* ===== verification/RuleExecutor.thy ===== *)
theory RuleExecutor
  imports IssueCreation
begin

text \<open>
  \<open>RuleExecutor\<close> of \<open>app/services/rules/executor.py\<close>: running the compiled query of a rule,
  recording the execution, and raising an issue and an alert from it.

  The connector to the customer database and the compiler are parameters, as is whether the
  samples of failing rows can be stored.  The counts fit their 64-bit columns.
\<close>

datatype run_error =
    PyError py_error
  | NoDataSource
  | NoCompiledSql
  | NoResults
  | ConnectorError string

record rule_env =
  xe_str :: "pyval \<Rightarrow> string"
  xe_float :: "string \<Rightarrow> pyfloat option"
  xe_compile :: "pyval \<Rightarrow> string option \<Rightarrow> string option \<Rightarrow> string list option \<Rightarrow> py_error + pyval"
  xe_query :: "string \<Rightarrow> string + dict list"
  xe_store_ok :: bool
  xe_faults :: db_faults

section \<open>The queries\<close>

definition given_sql :: "string option \<Rightarrow> bool" where
  "given_sql s \<longleftrightarrow> (case s of Some (c # r) \<Rightarrow> True | _ \<Rightarrow> False)"

definition select_sql :: "RuleRow \<Rightarrow> string option" where
  "select_sql ru =
     (if ru_source ru = Some ''postgresql'' \<and> given_sql (ru_postgres ru) then ru_postgres ru
      else if ru_source ru = Some ''mysql'' \<and> given_sql (ru_mysql ru) then ru_mysql ru
      else if ru_source ru = Some ''snowflake'' \<and> given_sql (ru_snowflake ru) then ru_snowflake ru
      else ru_sql ru)"

text \<open>\<open>entity.split(".", 1)\<close> with its second part cut at the next dot.\<close>

definition split_entity :: "string \<Rightarrow> string \<times> string option" where
  "split_entity s =
     (let a = takeWhile (\<lambda>c. c \<noteq> CHR ''.'') s; b = dropWhile (\<lambda>c. c \<noteq> CHR ''.'') s
      in (a, case b of [] \<Rightarrow> None | _ # r \<Rightarrow> Some (takeWhile (\<lambda>c. c \<noteq> CHR ''.'') r)))"

definition non_empty :: "string option \<Rightarrow> string option" where
  "non_empty s = (if given_sql s then s else None)"

definition violation_target :: "RuleRow \<Rightarrow> pyval \<Rightarrow> py_error + string option \<times> string option" where
  "violation_target ru canonical =
     (let schema = non_empty (ru_schema ru); tbl = non_empty (ru_table ru)
      in if tbl \<noteq> None then Inr (schema, tbl)
         else case get_of canonical ''entity'' PNone of
                Inl e \<Rightarrow> Inl e
              | Inr v \<Rightarrow>
                  (case py_or v (PStr []) of
                     PStr s \<Rightarrow>
                       (case split_entity s of
                          (a, Some b) \<Rightarrow> Inr (if schema = None then Some a else schema, Some b)
                        | (a, None) \<Rightarrow> Inr (schema, if s = [] then None else Some s))
                   | _ \<Rightarrow> Inl (TypeError ''not a container'')))"

text \<open>\<open>_compile_violation_sql\<close>: whatever goes wrong, there is no query.\<close>

definition compile_violation_sql :: "rule_env \<Rightarrow> RuleRow \<Rightarrow> string option" where
  "compile_violation_sql E ru =
     (if \<not> truthy (ru_canonical ru) then None
      else case violation_target ru (ru_canonical ru) of
             Inl e \<Rightarrow> None
           | Inr (schema, tbl) \<Rightarrow>
               (case xe_compile E (ru_canonical ru) schema tbl
                       (if ru_columns ru = [] then None else Some (ru_columns ru)) of
                  Inr (PDict d) \<Rightarrow>
                    (case dict_get d ''violation_sql'' PNone of PStr s \<Rightarrow> non_empty (Some s) | _ \<Rightarrow> None)
                | _ \<Rightarrow> None))"

section \<open>Running\<close>

record run_result =
  rr_counts :: Counts
  rr_violations :: "dict list"

definition execute_sql_rule :: "rule_env \<Rightarrow> RuleRow \<Rightarrow> nat option \<Rightarrow> run_error + run_result" where
  "execute_sql_rule E ru sample =
     (case non_empty (select_sql ru) of
        None \<Rightarrow> Inl NoCompiledSql
      | Some sql0 \<Rightarrow>
          let sql = (case sample of Some (Suc n) \<Rightarrow> sql0 @ '' LIMIT '' @ str_of_int (int (Suc n)) | _ \<Rightarrow> sql0)
          in case xe_query E sql of
               Inl m \<Rightarrow> Inl (ConnectorError m)
             | Inr [] \<Rightarrow> Inl NoResults
             | Inr (row # _) \<Rightarrow>
                 (case get_of (ru_canonical ru) ''dimension'' PNone of
                    Inl e \<Rightarrow> Inl (PyError e)
                  | Inr dimension \<Rightarrow>
                      (case read_counts (xe_float E) dimension row of
                         Inl e \<Rightarrow> Inl (PyError e)
                       | Inr c \<Rightarrow>
                           (case compile_violation_sql E ru of
                              None \<Rightarrow> Inr \<lparr>rr_counts = c, rr_violations = []\<rparr>
                            | Some vs \<Rightarrow>
                                if rows_failed c \<le> 0 then Inr \<lparr>rr_counts = c, rr_violations = []\<rparr>
                                else case xe_query E (vs @ '' LIMIT 1000'') of
                                       Inl m \<Rightarrow> Inl (ConnectorError m)
                                     | Inr rows \<Rightarrow> Inr \<lparr>rr_counts = c, rr_violations = rows\<rparr>))))"

section \<open>Recording\<close>

record Execution =
  ex_status :: string
  ex_counts :: Counts
  ex_rate :: "int option"
  ex_error :: "run_error option"
  ex_threshold_met :: "bool option"
  ex_violations :: "dict list"

definition no_counts :: Counts where
  "no_counts = \<lparr>rows_scanned = 0, rows_passed = 0, rows_failed = 0\<rparr>"

definition failed_execution :: "run_error \<Rightarrow> Execution" where
  "failed_execution e = \<lparr>ex_status = ''failed'', ex_counts = no_counts, ex_rate = None, ex_error = Some e,
     ex_threshold_met = None, ex_violations = []\<rparr>"

text \<open>
  The body of the \<open>try\<close>.  The counts are set on the row object of the session and not yet written
  when the samples are stored.  When that fails the session is rolled back, which expires the
  object, so the counts are those of the last commit again, and the rate, which the details
  convert with \<open>float\<close>, is missing.
\<close>

definition record_execution :: "rule_env \<Rightarrow> RuleRow \<Rightarrow> nat option \<Rightarrow> Execution" where
  "record_execution E ru sample =
     (if ru_source ru = None then failed_execution NoDataSource
      else case execute_sql_rule E ru sample of
        Inl e \<Rightarrow> failed_execution e
      | Inr res \<Rightarrow>
          if rr_violations res \<noteq> [] \<and> \<not> xe_store_ok E
          then failed_execution (PyError (TypeError ''float() argument''))
          else \<lparr>ex_status = ''completed'', ex_counts = rr_counts res, ex_rate = Some (pass_rate (rr_counts res)),
                ex_error = None, ex_threshold_met = Some (check_thresholds (ru_thresholds ru) (rr_counts res)),
                ex_violations = rr_violations res\<rparr>)"

definition execution_row :: "uuid \<Rightarrow> RuleRow \<Rightarrow> nat \<Rightarrow> Execution \<Rightarrow> RuleExecution" where
  "execution_row k ru now x = \<lparr>rx_id = k, rx_rule = ru_id ru, rx_status = ex_status x,
     rx_scanned = rows_scanned (ex_counts x), rx_passed = rows_passed (ex_counts x),
     rx_failed = rows_failed (ex_counts x), rx_rate = ex_rate x, rx_completed = Some now,
     rx_violations = ex_violations x\<rparr>"

definition alert_of :: "Execution \<Rightarrow> string option" where
  "alert_of x =
     (if ex_status x = ''failed'' then Some ''execution_failed''
      else if ex_status x = ''completed'' \<and> 0 < rows_failed (ex_counts x) then Some ''rule_failed'' else None)"

text \<open>The execution, the tables after the issue, and the alert that is triggered.\<close>

definition execute_rule ::
    "rule_env \<Rightarrow> nat \<Rightarrow> uuid \<Rightarrow> uuid \<Rightarrow> uuid \<Rightarrow> RuleRow \<Rightarrow> nat option \<Rightarrow> quality_db \<Rightarrow>
     Execution \<times> quality_db \<times> string option" where
  "execute_rule E now k i j ru sample db =
     (let x = record_execution E ru sample
      in (x,
          if ex_status x = ''completed'' \<and> 0 < rows_failed (ex_counts x)
          then committed db (create_from_rule_execution (xe_str E) (xe_faults E) now i j (execution_row k ru now x) db)
          else db,
          alert_of x))"

definition cancel_rule_execution :: "string \<Rightarrow> string \<times> bool" where
  "cancel_rule_execution status =
     (if status \<in> {''pending'', ''running''} then (''cancelled'', True) else (status, False))"

end
