(* ===== verification/RuleVerdicts.thy ===== *)
theory RuleVerdicts
  imports RuleResults
begin

text \<open>
  How exact the counts and the pass rate of an execution are: what rounding to two decimals loses,
  in the executor and in the rate a uniqueness query returns.
\<close>

section \<open>Rounding of a quotient\<close>

text \<open>Everything below holds for counts under 2^46, about 7 * 10^13 rows.\<close>

definition in_range :: "int \<Rightarrow> bool" where
  "in_range n \<longleftrightarrow> 0 \<le> n \<and> n < 2 ^ 46"

lemma tiny: "pow2 (-1022) \<le> 1 / 2 ^ 46"
proof -
  have "pow2 (-1022) \<le> pow2 (-46)" by (rule pow2_mono) simp
  then show ?thesis by (simp add: pow2_def)
qed

lemma fl_quotient:
  assumes "0 < s" and "in_range s" and "0 \<le> a"
  shows "\<bar>fl (of_int a / of_int s) - of_int a / of_int s\<bar> \<le> (of_int a / of_int s) / 2 ^ 53"
proof (cases "a = 0")
  case False
  have s: "(0::rat) < of_int s" "(of_int s :: rat) \<le> 2 ^ 46"
  proof -
    have "s \<le> 2 ^ 46" using assms by (simp add: in_range_def)
    then have "(of_int s :: rat) \<le> of_int (2 ^ 46)" by (simp only: of_int_le_iff)
    then show "(0::rat) < of_int s" "(of_int s :: rat) \<le> 2 ^ 46" using assms by simp_all
  qed
  have a: "(1::rat) \<le> of_int a" using False assms by simp
  have "1 / 2 ^ 46 \<le> (of_int a / of_int s :: rat)"
    using frac_le [OF _ a s(1) s(2)] a by simp
  with tiny have "pow2 (-1022) \<le> (of_int a / of_int s :: rat)" by linarith
  moreover have "(0::rat) \<le> of_int a / of_int s" using s a by simp
  ultimately show ?thesis using fl_error [of "of_int a / of_int s"] by (simp only: abs_of_nonneg)
qed simp

text \<open>The pass rate is within half a hundredth, and a rounding error, of the true rate.\<close>

lemma pass_rate_close:
  assumes "0 < rows_scanned c" and "in_range (rows_scanned c)" and "0 \<le> rows_passed c"
    and "rows_passed c \<le> rows_scanned c"
  shows "\<bar>of_int (pass_rate c) - 10000 * (of_int (rows_passed c) / of_int (rows_scanned c))\<bar>
    \<le> (1 / 2 + 1 / 10 ^ 9 :: rat)"
proof -
  let ?p = "rows_passed c" let ?s = "rows_scanned c"
  let ?x = "of_int (100 * ?p) / of_int ?s :: rat"
  have lim: "?s < 2 ^ 46" "?p < 2 ^ 46" using assms by (simp_all add: in_range_def)
  have e: "fl (of_int ?p) = of_int ?p" "fl (of_int (100 * ?p)) = of_int (100 * ?p)" "fl (of_int ?s) = of_int ?s"
    by (rule fl_int; use lim assms in simp)+
  have rate: "pass_rate c = round_half_even (100 * fl ?x)"
    using assms(1) e by (simp add: pass_rate_def hundredths_def)
  have sp: "(0::rat) < of_int ?s" "(0::rat) \<le> of_int ?p" "(of_int ?p :: rat) \<le> of_int ?s"
    using assms by simp_all
  then have x: "0 \<le> ?x" "?x \<le> 100" by (simp_all add: pos_divide_le_eq)
  have "\<bar>fl ?x - ?x\<bar> \<le> ?x / 2 ^ 53" using fl_quotient [of ?s "100 * ?p"] assms by simp
  also have "\<dots> \<le> 100 / 2 ^ 53" using x(2) by (simp add: divide_right_mono)
  finally have d: "\<bar>fl ?x - ?x\<bar> \<le> 100 / 2 ^ 53" .
  have "\<bar>100 * u - 100 * v\<bar> = 100 * \<bar>u - v\<bar>" for u v :: rat
    by (metis abs_mult abs_numeral right_diff_distrib)
  then have m: "\<bar>100 * fl ?x - 100 * ?x\<bar> = 100 * \<bar>fl ?x - ?x\<bar>" .
  have y: "100 * ?x = 10000 * (of_int ?p / of_int ?s)" by simp
  have "100 * (100 / 2 ^ 53) \<le> (1 / 10 ^ 9 :: rat)" by simp
  with d m have "\<bar>100 * fl ?x - 100 * ?x\<bar> \<le> 1 / 10 ^ 9" by linarith
  with round_half_even_dist [of "100 * fl ?x"] show ?thesis unfolding rate y by linarith
qed

lemma pass_rate_bounds:
  assumes "0 < rows_scanned c" and "in_range (rows_scanned c)" and "0 \<le> rows_passed c"
    and "rows_passed c \<le> rows_scanned c"
  shows "0 \<le> pass_rate c \<and> pass_rate c \<le> 10000"
proof -
  let ?q = "of_int (rows_passed c) / of_int (rows_scanned c) :: rat"
  have "0 \<le> ?q" "?q \<le> 1" using assms by (simp_all add: pos_divide_le_eq)
  with pass_rate_close [OF assms]
  have "(of_int (-1) :: rat) < of_int (pass_rate c)" "(of_int (pass_rate c) :: rat) < of_int 10001"
    unfolding abs_le_iff by simp_all
  then show ?thesis by (simp only: of_int_less_iff) simp
qed

section \<open>What a pass rate of 100.00 says\<close>

lemma full_rate:
  assumes "0 < rows_scanned c" and "in_range (rows_scanned c)" and "0 \<le> rows_failed c"
    and "rows_passed c = rows_scanned c - rows_failed c" and "0 \<le> rows_passed c"
  shows "(20001 * rows_failed c \<le> rows_scanned c \<longrightarrow> pass_rate c = 10000) \<and>
    (pass_rate c = 10000 \<longrightarrow> 19999 * rows_failed c \<le> rows_scanned c)"
proof -
  let ?s = "of_int (rows_scanned c) :: rat" and ?f = "of_int (rows_failed c) :: rat"
  have s: "0 < ?s" using assms(1) by simp
  have q: "of_int (rows_passed c) / ?s = 1 - ?f / ?s" using s by (simp add: assms(4) diff_divide_distrib)
  define r where "r = ?f / ?s"
  have close: "\<bar>of_int (pass_rate c) - 10000 * (1 - r)\<bar> \<le> (1 / 2 + 1 / 10 ^ 9 :: rat)"
    using pass_rate_close [of c] assms unfolding q r_def by simp
  have up: "pass_rate c \<le> 10000" using pass_rate_bounds [of c] assms by simp
  have "pass_rate c = 10000" if "20001 * rows_failed c \<le> rows_scanned c"
  proof -
    have "of_int (20001 * rows_failed c) \<le> ?s" using that by (simp only: of_int_le_iff)
    then have "r \<le> 1 / 20001" using s by (simp add: r_def pos_divide_le_eq)
    with abs_le_D2 [OF close] have "(9999 :: rat) < of_int (pass_rate c)"
      by (simp only: minus_diff_eq right_diff_distrib) (simp add: field_simps)
    then have "(of_int 9999 :: rat) < of_int (pass_rate c)" by simp
    then have "9999 < pass_rate c" by (simp only: of_int_less_iff)
    with up show ?thesis by simp
  qed
  moreover have "19999 * rows_failed c \<le> rows_scanned c" if "pass_rate c = 10000"
  proof -
    have "r \<le> 1 / 19999" using close that by simp
    then have "of_int (19999 * rows_failed c) \<le> ?s" using s by (simp add: r_def pos_divide_le_eq)
    then show ?thesis by (simp only: of_int_le_iff)
  qed
  ultimately show ?thesis by blast
qed

section \<open>The uniqueness rate\<close>

text \<open>The row the exact and composite uniqueness queries return; \<open>k\<close> is the rate in hundredths.\<close>

definition uniqueness_row :: "int \<Rightarrow> int \<Rightarrow> int \<Rightarrow> int \<Rightarrow> int \<Rightarrow> dict" where
  "uniqueness_row t g d m k =
     [(''total_rows'', PInt t), (''duplicate_groups'', PInt g), (''duplicate_rows'', PInt d),
      (''max_group_size'', PInt m), (''uniqueness_rate'', PFloat (FFin (of_int k / 100)))]"

lemma fl_rel:
  assumes "x = 0 \<or> 1 / 2 ^ 46 \<le> \<bar>x\<bar>"
  shows "\<bar>fl x - x\<bar> \<le> \<bar>x\<bar> / 2 ^ 53"
  using assms fl_error [of x] tiny by (cases "x = 0") (auto intro: order_trans)

lemma to_double_small:
  assumes "x = 0 \<or> 1 / 2 ^ 46 \<le> \<bar>x\<bar>" and "\<bar>x\<bar> \<le> 2 ^ 60"
  shows "to_double x = FFin (fl x)"
proof -
  have "\<bar>fl x\<bar> \<le> \<bar>x\<bar> + \<bar>x\<bar> / 2 ^ 53" using fl_rel [OF assms(1)] by linarith
  also have "\<dots> \<le> 2 ^ 60 + 2 ^ 60 / 2 ^ 53" using assms(2) by (intro add_mono divide_right_mono) simp_all
  also have "\<dots> < 2 ^ 61" by simp
  also have "\<dots> \<le> (2 ^ 1024 :: rat)" by (rule power_increasing) simp_all
  finally show ?thesis by (simp add: to_double_def)
qed

lemma in_range_rat: "in_range t \<Longrightarrow> (of_int t :: rat) \<le> 2 ^ 46"
proof -
  assume "in_range t"
  then have "t \<le> 2 ^ 46" by (simp add: in_range_def)
  then have "(of_int t :: rat) \<le> of_int (2 ^ 46)" by (simp only: of_int_le_iff)
  then show ?thesis by simp
qed

lemma rel_bounds:
  fixes x y :: rat
  assumes "\<bar>y - x\<bar> \<le> x / 2 ^ 53" and "0 \<le> x"
  shows "x / 2 \<le> y" and "y \<le> x * (101 / 100)"
proof -
  have "x / 2 ^ 53 \<le> x / 100" using assms(2) by (intro divide_left_mono) simp_all
  with assms(1) have "\<bar>y - x\<bar> \<le> x / 100" by linarith
  then have "x - x / 100 \<le> y" "y \<le> x + x / 100" unfolding abs_le_iff by linarith+
  with assms(2) show "x / 2 \<le> y" "y \<le> x * (101 / 100)" by simp_all
qed

text \<open>The count computed from a rate, against the exact share of the rows.\<close>

lemma unique_from_rate_close:
  assumes t: "0 < t" "in_range t" and k: "0 \<le> k" "k \<le> 10000"
  shows "\<exists>p. unique_from_rate ft t (PFloat (FFin (of_int k / 100))) = Some p \<and>
    \<bar>of_int p - of_int t * (of_int k / 10000)\<bar> \<le> (5 / 8 :: rat)"
proof -
  let ?R = "of_int k / 100 :: rat" let ?t = "of_int t :: rat"
  have T: "1 \<le> ?t" "?t \<le> 2 ^ 46" using t in_range_rat by simp_all
  have K: "k = 0 \<or> 1 \<le> k" using k by linarith
  have R: "?R = 0 \<or> 1 / 100 \<le> ?R" "0 \<le> ?R" "?R \<le> 100" using k K by auto
  have R1: "\<bar>fl ?R - ?R\<bar> \<le> ?R / 2 ^ 53"
    using fl_rel [of ?R] R abs_of_nonneg [OF R(2)] by fastforce
  have R2: "to_double ?R = FFin (fl ?R)"
    using to_double_small [of ?R] R abs_of_nonneg [OF R(2)] by fastforce
  have flR: "fl ?R = 0 \<or> 1 / 200 \<le> fl ?R" "0 \<le> fl ?R" "fl ?R \<le> 101"
    using rel_bounds [OF R1 R(2)] R by linarith+
  define u where "u = ?t * fl ?R"
  have u0: "0 \<le> u" using T flR by (simp add: u_def)
  have u1: "u = 0 \<or> 1 / 200 \<le> u"
  proof (cases "fl ?R = 0")
    case False
    then have "1 * (1 / 200) \<le> ?t * fl ?R" using T flR by (intro mult_mono) auto
    then show ?thesis by (simp add: u_def)
  qed (simp add: u_def)
  have u2: "u \<le> 2 ^ 46 * 101" unfolding u_def using T flR by (intro mult_mono) auto
  have ud: "\<bar>u - ?t * ?R\<bar> \<le> 2 ^ 46 * (100 / 2 ^ 53)"
  proof -
    have "\<bar>u - ?t * ?R\<bar> = ?t * \<bar>fl ?R - ?R\<bar>"
      unfolding u_def right_diff_distrib [symmetric] abs_mult using T by (simp only: abs_of_nonneg)
    also have "\<dots> \<le> 2 ^ 46 * (100 / 2 ^ 53)" using T R1 R by (intro mult_mono) auto
    finally show ?thesis .
  qed
  have U1: "\<bar>fl u - u\<bar> \<le> u / 2 ^ 53" using fl_rel [of u] u0 u1 by fastforce
  have U2: "to_double u = FFin (fl u)" using to_double_small [of u] u0 u1 u2 by fastforce
  have flu: "fl u = 0 \<or> 1 / 400 \<le> fl u" "0 \<le> fl u" "fl u \<le> 2 ^ 46 * 103"
    using rel_bounds [OF U1 u0] u1 u0 u2 by linarith+
  define v where "v = fl u / 100"
  have v: "v = 0 \<or> 1 / 40000 \<le> v" "0 \<le> v" "v \<le> 2 ^ 46 * 103 / 100" using flu by (auto simp: v_def)
  have V1: "\<bar>fl v - v\<bar> \<le> v / 2 ^ 53" using fl_rel [of v] v by fastforce
  have V2: "to_double v = FFin (fl v)" using to_double_small [of v] v by fastforce
  have ft: "fl ?t = ?t" "to_double ?t = FFin ?t"
  proof -
    show "fl ?t = ?t" by (rule fl_int) (use t in \<open>simp add: in_range_def\<close>)
    then show "to_double ?t = FFin ?t" using to_double_small [of ?t] T by simp
  qed
  have val: "unique_from_rate ft t (PFloat (FFin ?R)) = Some (round_half_even (fl v))"
    using R2 U2 V2 ft by (simp add: unique_from_rate_def to_float_def float_mul_def float_div_pos_def u_def v_def)
  have "\<bar>fl v - ?t * (of_int k / 10000)\<bar> \<le> 1 / 8"
  proof -
    have "\<bar>fl v - v\<bar> \<le> 1 / 80" using V1 v(3) by simp
    moreover have "\<bar>v - u / 100\<bar> \<le> 1 / 80" using U1 u2 by (simp add: v_def abs_le_iff field_simps)
    moreover have "\<bar>u / 100 - ?t * (of_int k / 10000)\<bar> \<le> 1 / 80" using ud unfolding abs_le_iff by (simp add: field_simps)
    ultimately show ?thesis by linarith
  qed
  with round_half_even_dist [of "fl v"] have "\<bar>of_int (round_half_even (fl v)) - ?t * (of_int k / 10000)\<bar> \<le> 5 / 8"
    by linarith
  with val show ?thesis by blast
qed

lemma read_uniqueness_row:
  assumes "0 < t" and "unique_from_rate ft t (PFloat (FFin (of_int k / 100))) = Some p"
  shows "read_counts ft (PStr ''uniqueness'') (uniqueness_row t g d m k) =
    Inr \<lparr>rows_scanned = t, rows_passed = p, rows_failed = t - p\<rparr>"
proof -
  have "aliased (PStr ''uniqueness'') (uniqueness_row t g d m k) = (PNone, PInt d)"
    by (simp add: aliased_def DIM_ALIASES_def first_given_def PASSED_FALLBACKS_def uniqueness_row_def dict_get_def)
  then show ?thesis using assms
    by (simp add: read_counts_def derive_unique_def uniqueness_row_def dict_get_def has_key_def
        int_or_zero_def to_int_def)
qed

text \<open>What is read from the row, against the number of duplicate rows it states.\<close>

lemma uniqueness_row_report:
  assumes "0 < t" and "t < 2 ^ 46" and "0 \<le> d" and "d \<le> t"
    and "\<bar>of_int k - 10000 * (of_int (t - d) / of_int t)\<bar> \<le> (1 / 2 + 1 / 10 ^ 6 :: rat)"
  shows "\<exists>c. read_counts ft (PStr ''uniqueness'') (uniqueness_row t g d m k) = Inr c \<and>
    rows_scanned c = t \<and> rows_passed c = t - rows_failed c \<and>
    \<bar>of_int (rows_failed c) - of_int d\<bar> \<le> (of_int t / 19999 + 5 / 4 :: rat) \<and>
    (20001 * d \<le> t \<longrightarrow> rows_failed c = 0 \<and> pass_rate c = 10000)"
proof -
  let ?t = "of_int t :: rat" let ?d = "of_int d :: rat" let ?k = "of_int k :: rat"
  have t: "0 < ?t" "0 \<le> ?d" "?d \<le> ?t" using assms by simp_all
  define r where "r = ?d / ?t"
  have r: "0 \<le> r" "r \<le> 1" "?t * r = ?d" using t by (simp_all add: r_def)
  have q: "of_int (t - d) / ?t = 1 - r" using t by (simp add: r_def diff_divide_distrib)
  have close: "?k - 10000 * (1 - r) \<le> 1 / 2 + 1 / 10 ^ 6" "10000 * (1 - r) - ?k \<le> 1 / 2 + 1 / 10 ^ 6"
    using assms(5) unfolding q abs_le_iff by simp_all
  have k: "0 \<le> k" "k \<le> 10000"
  proof -
    have "(of_int (-1) :: rat) < ?k" "?k < of_int 10001" using close r by simp_all
    then show "0 \<le> k" "k \<le> 10000" by (simp_all only: of_int_less_iff)
  qed
  obtain p where p: "unique_from_rate ft t (PFloat (FFin (?k / 100))) = Some p"
      "\<bar>of_int p - ?t * (?k / 10000)\<bar> \<le> (5 / 8 :: rat)"
    using unique_from_rate_close [OF assms(1) _ k] assms by (auto simp: in_range_def)
  note c = read_uniqueness_row [OF assms(1) p(1), of g d m]
  let ?c = "\<lparr>rows_scanned = t, rows_passed = p, rows_failed = t - p\<rparr>"
  have "\<bar>of_int (t - p) - ?d\<bar> \<le> (?t / 19999 + 5 / 4 :: rat)"
  proof -
    have e: "1 - r - ?k / 10000 \<le> 1 / 19999" "?k / 10000 - (1 - r) \<le> 1 / 19999" using close by simp_all
    have "?t * (1 - r - ?k / 10000) \<le> ?t * (1 / 19999)" "?t * (?k / 10000 - (1 - r)) \<le> ?t * (1 / 19999)"
      using e t by (simp_all only: mult_left_mono less_imp_le)
    then have "?t - ?d - ?t * (?k / 10000) \<le> ?t / 19999" "?t * (?k / 10000) - (?t - ?d) \<le> ?t / 19999"
      by (simp_all only: right_diff_distrib r(3) mult_1_right times_divide_eq_right)
    with p(2) show ?thesis unfolding abs_le_iff of_int_diff by linarith
  qed
  moreover have "t - p = 0 \<and> pass_rate ?c = 10000" if "20001 * d \<le> t"
  proof -
    have "of_int (20001 * d) \<le> ?t" using that by (simp only: of_int_le_iff)
    then have "r \<le> 1 / 20001" using t by (simp add: r_def pos_divide_le_eq)
    with close have "(of_int 9999 :: rat) < ?k" by simp
    then have "9999 < k" by (simp only: of_int_less_iff)
    with k have "k = 10000" by simp
    with p(2) have "\<bar>of_int (p - t)\<bar> < (1 :: rat)" by simp
    then have "\<bar>p - t\<bar> < 1" by (metis of_int_abs of_int_less_1_iff)
    then have "p = t" by simp
    with full_rate [of ?c] assms show ?thesis by (simp add: in_range_def)
  qed
  ultimately show ?thesis using c by (intro exI [of _ ?c]) auto
qed

text \<open>
  A uniqueness rule reports the failures it computes back from the rate in the query, which
  has two decimals, and not the number of duplicate rows in the same result.  The report is within
  one in 20000 of the rows and 5/4 of a row of the truth; but up to one duplicate in 20001 rows it is zero,
  and the rule passes.
\<close>

theorem uniqueness_counts:
  assumes "0 < t" and "t < 2 ^ 46" and "0 \<le> d" and "d \<le> t"
    and "\<bar>of_int k - 10000 * (of_int (t - d) / of_int t)\<bar> \<le> (1 / 2 + 1 / 10 ^ 6 :: rat)"
  shows "\<exists>c. read_counts ft (PStr ''uniqueness'') (uniqueness_row t g d m k) = Inr c \<and>
    rows_scanned c = t \<and> rows_passed c = t - rows_failed c \<and>
    \<bar>of_int (rows_failed c) - of_int d\<bar> \<le> (of_int t / 19999 + 5 / 4 :: rat) \<and>
    (20001 * d \<le> t \<longrightarrow> rows_failed c = 0 \<and> pass_rate c = 10000)"
  using assms by (rule uniqueness_row_report)

theorem uniqueness_counts_witness:
  "\<exists>c. read_counts (\<lambda>_. None) (PStr ''uniqueness'') (uniqueness_row 2000000 1 50 50 10000) = Inr c \<and>
     rows_failed c = 0 \<and> pass_rate c = 10000"
  using uniqueness_counts [of 2000000 50 10000 "\<lambda>_. None" 1 50] by auto

text \<open>
  C12: A pass rate lies between 0 and 100 per cent, within 0.005 points and a rounding error of
  the true share; and it reads 100.00 already when one row in 20001 fails, so a rule with the
  threshold 100 is reported to meet it although rows have failed.
\<close>

theorem pass_rate_verdict:
  assumes "0 < rows_scanned c" and "rows_scanned c < 2 ^ 46" and "0 \<le> rows_failed c" and "0 \<le> rows_passed c"
    and "rows_passed c = rows_scanned c - rows_failed c"
  shows "0 \<le> pass_rate c \<and> pass_rate c \<le> 10000 \<and>
    \<bar>of_int (pass_rate c) / 100 - 100 * of_int (rows_passed c) / of_int (rows_scanned c)\<bar>
      \<le> (1 / 200 + 1 / 10 ^ 11 :: rat) \<and>
    (19999 * rows_failed c \<le> rows_scanned c \<or> pass_rate c < 10000) \<and>
    (20001 * rows_failed c \<le> rows_scanned c \<longrightarrow>
       check_thresholds (Some \<lparr>pass_threshold = Some 100, max_violations = None\<rparr>) c)"
proof -
  have R: "in_range (rows_scanned c)" using assms by (simp add: in_range_def)
  have b: "0 \<le> pass_rate c" "pass_rate c \<le> 10000" using pass_rate_bounds [of c] R assms by simp_all
  have "\<bar>of_int (pass_rate c) - 10000 * (of_int (rows_passed c) / of_int (rows_scanned c))\<bar> \<le> (1 / 2 + 1 / 10 ^ 9 :: rat)"
    using pass_rate_close [of c] R assms by simp
  then have "\<bar>of_int (pass_rate c) / 100 - 100 * of_int (rows_passed c) / of_int (rows_scanned c)\<bar> \<le> (1 / 200 + 1 / 10 ^ 11 :: rat)"
    unfolding abs_le_iff by simp
  moreover note f = full_rate [OF assms(1) R assms(3,5,4)]
  ultimately show ?thesis using b by (auto simp: check_thresholds_def)
qed

theorem pass_rate_verdict_witness:
  "check_thresholds (Some \<lparr>pass_threshold = Some 100, max_violations = None\<rparr>)
     \<lparr>rows_scanned = 20001, rows_passed = 20000, rows_failed = 1\<rparr>"
  using pass_rate_verdict [of "\<lparr>rows_scanned = 20001, rows_passed = 20000, rows_failed = 1\<rparr>"] by simp

end
