(* ===== verification/ExecutionOutcomes.thy ===== *)
theory ExecutionOutcomes
  imports RuleExecutor RuleVerdicts
begin

text \<open>
  How a rule execution ends, and what a uniqueness rule reports all the way from the row its query
  returns to the issue and the alert.
\<close>

section \<open>Every execution settles\<close>

text \<open>What the body of the \<open>try\<close> has to come to for the execution to be completed.\<close>

definition stored_result :: "rule_env \<Rightarrow> RuleRow \<Rightarrow> nat option \<Rightarrow> run_result option" where
  "stored_result E ru sample =
     (if ru_source ru = None then None
      else case execute_sql_rule E ru sample of
             Inl e \<Rightarrow> None
           | Inr res \<Rightarrow> if rr_violations res = [] \<or> xe_store_ok E then Some res else None)"

lemma record_execution_cases:
  "(case stored_result E ru sample of
      None \<Rightarrow> \<exists>e. record_execution E ru sample = failed_execution e
    | Some res \<Rightarrow> record_execution E ru sample =
        \<lparr>ex_status = ''completed'', ex_counts = rr_counts res, ex_rate = Some (pass_rate (rr_counts res)),
         ex_error = None, ex_threshold_met = Some (check_thresholds (ru_thresholds ru) (rr_counts res)),
         ex_violations = rr_violations res\<rparr>)"
  by (auto simp: stored_result_def record_execution_def split: sum.splits)

lemma alert_of_failed [simp]: "alert_of (failed_execution e) = Some ''execution_failed''"
  by (simp add: alert_of_def failed_execution_def)

lemma failed_execution_status [simp]:
  "ex_status (failed_execution e) = ''failed''" "ex_counts (failed_execution e) = no_counts"
  by (simp_all add: failed_execution_def)


section \<open>A nearly unique column\<close>

lemma execute_uniqueness_row:
  assumes "non_empty (select_sql ru) = Some sql" and "xe_query E sql = Inr [uniqueness_row t g d m k]"
    and "ru_canonical ru = PDict c" and "dict_get c ''dimension'' PNone = PStr ''uniqueness''"
    and "read_counts (xe_float E) (PStr ''uniqueness'') (uniqueness_row t g d m k) = Inr n" and "rows_failed n = 0"
  shows "execute_sql_rule E ru None = Inr \<lparr>rr_counts = n, rr_violations = []\<rparr>"
  using assms by (simp add: execute_sql_rule_def get_of_def split: option.split)

text \<open>
  A uniqueness rule over a table in which at most one row in 20001 is a duplicate completes
  with the rate 100.00 and no failing row, meets the threshold 100 and the threshold of no
  violation, raises no issue and triggers no alert; although the result it reads states the
  number of duplicate rows.
\<close>

theorem duplicates_stay_silent:
  assumes "0 < t" and "t < 2 ^ 46" and "0 \<le> d" and "20001 * d \<le> t"
    and "\<bar>of_int k - 10000 * (of_int (t - d) / of_int t)\<bar> \<le> (1 / 2 + 1 / 10 ^ 6 :: rat)"
    and "ru_source ru \<noteq> None" and "non_empty (select_sql ru) = Some sql"
    and "xe_query E sql = Inr [uniqueness_row t g d m k]"
    and "ru_canonical ru = PDict c" and "dict_get c ''dimension'' PNone = PStr ''uniqueness''"
    and "ru_thresholds ru = Some \<lparr>pass_threshold = Some 100, max_violations = Some 0\<rparr>"
  shows "\<exists>x. execute_rule E now e i j ru None db = (x, db, None) \<and> ex_status x = ''completed'' \<and>
    ex_rate x = Some 10000 \<and> rows_failed (ex_counts x) = 0 \<and> ex_threshold_met x = Some True"
proof -
  have "d \<le> t" using assms by linarith
  with uniqueness_row_report [OF assms(1-3) _ assms(5), of "xe_float E" g m] assms(4)
  obtain n where n: "read_counts (xe_float E) (PStr ''uniqueness'') (uniqueness_row t g d m k) = Inr n"
      "rows_failed n = 0" "pass_rate n = 10000" by auto
  note run = execute_uniqueness_row [OF assms(7-10) n(1,2)]
  show ?thesis using assms(6,11) n
    by (simp add: execute_rule_def record_execution_def run check_thresholds_def alert_of_def)
qed

text \<open>A rule on a table of two million rows with fifty duplicates.\<close>

definition example_rule :: RuleRow where
  "example_rule = \<lparr>ru_id = 7, ru_workspace = 1, ru_name = ''ids'',
     ru_canonical = PDict [(''dimension'', PStr ''uniqueness'')], ru_active = True, ru_updated = 0,
     ru_source = Some ''postgresql'', ru_sql = Some ''q'', ru_postgres = None, ru_mysql = None,
     ru_snowflake = None, ru_schema = None, ru_table = Some ''t'', ru_columns = [''c''],
     ru_thresholds = Some \<lparr>pass_threshold = Some 100, max_violations = Some 0\<rparr>\<rparr>"

definition example_env :: rule_env where
  "example_env = \<lparr>xe_str = (\<lambda>_. []), xe_float = (\<lambda>_. None), xe_compile = (\<lambda>_ _ _ _. Inl (ValueError [])),
     xe_query = (\<lambda>_. Inr [uniqueness_row 2000000 1 50 50 10000]), xe_store_ok = True,
     xe_faults = \<lparr>grouping_ok = True, sample_ok = True, alert_ok = True\<rparr>\<rparr>"

definition no_rows :: quality_db where
  "no_rows = \<lparr>qd_settings = \<lparr>sd_workspaces = [], sd_settings = [], sd_audit = []\<rparr>, qd_users = [], qd_rules = [],
     qd_datasets = [], qd_sensitivity = [], qd_issues = [], qd_incidents = [], qd_links = [], qd_samples = []\<rparr>"

theorem duplicates_stay_silent_witness:
  "\<exists>x. execute_rule example_env 5 8 9 10 example_rule None no_rows = (x, no_rows, None) \<and> ex_rate x = Some 10000"
  using duplicates_stay_silent [of 2000000 50 10000 example_rule "''q''" example_env 1 50
      "[(''dimension'', PStr ''uniqueness'')]" 5 8 9 10 no_rows]
  by (auto simp: example_rule_def example_env_def select_sql_def given_sql_def non_empty_def dict_get_def)

end
