(* ===== verification/IssuePipeline.thy ===== *)
theory IssuePipeline
  imports ExecutionOutcomes
begin

text \<open>
  The contract of the two ways an issue is created, from a failed node and from a rule execution:
  what has been created is a new row that the table allowed, or an open row that was counted up.
  The lemmas of the locale \<open>issue_creator\<close> rest on this alone and hold for both.
\<close>

section \<open>One step\<close>

text \<open>A new row before it is inserted: open, without a resolution, in the tenant of its workspace.\<close>

definition fresh_issue :: "quality_db \<Rightarrow> IssueRow \<Rightarrow> bool" where
  "fresh_issue db r \<longleftrightarrow>
     is_status r = ''open'' \<and> is_resolved r = None \<and> is_closed r = None \<and> is_summary r = None \<and>
     is_failures r \<noteq> None \<and> workspace_tenant_id db (is_workspace r) = Some (is_tenant r)"

definition appended :: "quality_db \<Rightarrow> IssueRow \<Rightarrow> quality_db \<Rightarrow> bool" where
  "appended db r db' \<longleftrightarrow>
     (\<exists>now r0 db0 fts j vs s. fresh_issue db r0 \<and> insert_issue now r0 db = Some (r, db0) \<and>
        follow_up fts j r vs s db0 = Created r db')"

lemma appendedI:
  "fresh_issue db r0 \<Longrightarrow> insert_issue now r0 db = Some (r, db0) \<Longrightarrow> follow_up fts j r vs s db0 = Created r db' \<Longrightarrow>
     appended db r db'"
  unfolding appended_def by blast

definition counted_up :: "quality_db \<Rightarrow> IssueRow \<Rightarrow> quality_db \<Rightarrow> bool" where
  "counted_up db r db' \<longleftrightarrow> (\<exists>i n impact seen. update_for_grouping i n impact seen db = Some (r, db'))"

text \<open>What no step touches.\<close>

definition same_frame :: "quality_db \<Rightarrow> quality_db \<Rightarrow> bool" where
  "same_frame db db' \<longleftrightarrow>
     qd_settings db' = qd_settings db \<and> qd_users db' = qd_users db \<and> qd_rules db' = qd_rules db \<and>
     qd_datasets db' = qd_datasets db \<and> qd_sensitivity db' = qd_sensitivity db"

lemma capture_frame [simp]:
  "qd_settings (capture_for_issue i ds vs db) = qd_settings db"
  "qd_users (capture_for_issue i ds vs db) = qd_users db"
  "qd_rules (capture_for_issue i ds vs db) = qd_rules db"
  "qd_datasets (capture_for_issue i ds vs db) = qd_datasets db"
  "qd_sensitivity (capture_for_issue i ds vs db) = qd_sensitivity db"
  "qd_issues (capture_for_issue i ds vs db) = qd_issues db"
  "qd_incidents (capture_for_issue i ds vs db) = qd_incidents db"
  "qd_links (capture_for_issue i ds vs db) = qd_links db"
  by (simp_all add: capture_for_issue_def Let_def split: prod.split)

lemma evaluate_created:
  assumes "evaluate_and_create j db w t i sv n title p = IncidentCreated k db'"
  shows "same_frame db db' \<and> qd_issues db' = qd_issues db \<and> qd_samples db' = qd_samples db"
  using assms by (auto simp: evaluate_and_create_def Let_def same_frame_def split: if_splits)

lemma follow_up_created:
  assumes "follow_up fts j r vs s db = Created r' db'"
  shows "r' = r \<and> same_frame db db' \<and> qd_issues db' = qd_issues db \<and>
    qd_samples db' = qd_samples (capture_for_issue (is_id r) (is_dataset r) vs db)"
  using assms by (auto simp: follow_up_def same_frame_def dest!: evaluate_created
      split: if_splits incident_outcome.splits)

lemma insert_issue_Some:
  assumes "insert_issue now r0 db = Some (r, db')"
  obtains rate where "r = r0\<lparr>is_rate := rate, is_opened := now, is_last_seen := None\<rparr>"
    and "issue_allowed db r" and "db' = db\<lparr>qd_issues := qd_issues db @ [r]\<rparr>"
  using assms by (auto simp: insert_issue_def Let_def split: option.splits if_splits)

lemma appendedE:
  assumes "appended db r db'"
  obtains vs where "same_frame db db'" and "qd_issues db' = qd_issues db @ [r]" and "issue_allowed db r"
    and "fresh_issue db r" and "qd_samples db' = qd_samples (capture_for_issue (is_id r) (is_dataset r) vs db)"
proof -
  from assms obtain now r0 db0 fts j vs s where *: "fresh_issue db r0" "insert_issue now r0 db = Some (r, db0)"
    "follow_up fts j r vs s db0 = Created r db'" unfolding appended_def by blast
  from *(2) obtain rate where r: "r = r0\<lparr>is_rate := rate, is_opened := now, is_last_seen := None\<rparr>"
    "issue_allowed db r" "db0 = db\<lparr>qd_issues := qd_issues db @ [r]\<rparr>" by (rule insert_issue_Some)
  have "fresh_issue db r" using *(1) r(1) by (simp add: fresh_issue_def)
  moreover have "qd_samples (capture_for_issue i ds vs db0) = qd_samples (capture_for_issue i ds vs db)" for i ds
    by (auto simp: r(3) capture_for_issue_def Let_def load_sensitivity_map_def split: prod.split option.split)
  ultimately show thesis using that follow_up_created [OF *(3)] r by (simp add: same_frame_def)
qed

lemma counted_upE:
  assumes "counted_up db r db'"
  obtains i n impact seen r0 where "find (\<lambda>x. is_id x = i) (qd_issues db) = Some r0"
    and "r = r0\<lparr>is_failures := map_option (\<lambda>m. m + n) (is_failures r0), is_impact := impact, is_last_seen := seen\<rparr>"
    and "\<forall>m \<in> set_option (is_failures r). in_int32 m \<and> 0 \<le> m"
    and "db' = db\<lparr>qd_issues := update_where (\<lambda>x. is_id x = i)
           (\<lambda>x. x\<lparr>is_failures := map_option (\<lambda>m. m + n) (is_failures x), is_impact := impact, is_last_seen := seen\<rparr>)
           (qd_issues db)\<rparr>"
  using assms by (auto simp: counted_up_def update_for_grouping_def Let_def split: option.splits if_splits)

section \<open>What stays true of the tables\<close>

definition row_valid :: "quality_db \<Rightarrow> IssueRow \<Rightarrow> bool" where
  "row_valid db r \<longleftrightarrow>
     is_severity r \<in> set SEVERITIES \<and> length (is_title r) \<le> 500 \<and>
     (\<forall>n \<in> set_option (is_failures r). in_int32 n \<and> 0 \<le> n) \<and>
     (\<forall>n \<in> set_option (is_scanned r). in_int32 n) \<and>
     (\<forall>x \<in> set_option (is_rate r). 0 \<le> x \<and> x \<le> 100) \<and>
     workspace_tenant_id db (is_workspace r) = Some (is_tenant r) \<and>
     exists_in (is_rule r) (map ru_id (qd_rules db)) \<and>
     exists_in (is_dataset r) (map da_id (qd_datasets db)) \<and>
     issue_ok (lifecycle_view r)"

definition issues_valid :: "quality_db \<Rightarrow> bool" where
  "issues_valid db \<longleftrightarrow> distinct (map is_id (qd_issues db)) \<and> (\<forall>r \<in> set (qd_issues db). row_valid db r)"

lemma fresh_row_valid: "fresh_issue db r \<Longrightarrow> issue_allowed db r \<Longrightarrow> row_valid db r"
  by (simp add: fresh_issue_def issue_allowed_def row_valid_def lifecycle_view_def issue_ok_def)

lemma row_valid_frame: "same_frame db db' \<Longrightarrow> row_valid db' r = row_valid db r"
  by (simp add: same_frame_def row_valid_def workspace_tenant_id_def)

text \<open>A sample belongs to an issue, and what is sensitive in the dataset of the issue is masked in it.\<close>

definition rows_masked :: "quality_db \<Rightarrow> uuid option \<Rightarrow> dict list \<Rightarrow> bool" where
  "rows_masked db dataset rows \<longleftrightarrow>
     (\<forall>ds \<in> set_option dataset. \<forall>row \<in> set rows. \<forall>(c, v) \<in> set row.
        must_mask (load_sensitivity_map db ds) c \<longrightarrow> v = PStr ''[MASKED]'')"

definition samples_masked :: "quality_db \<Rightarrow> bool" where
  "samples_masked db \<longleftrightarrow>
     (\<forall>s \<in> set (qd_samples db). sm_issue s \<in> set (map is_id (qd_issues db)) \<and>
        (\<forall>r \<in> set (qd_issues db). is_id r = sm_issue s \<longrightarrow> rows_masked db (is_dataset r) (sm_rows s)))"

lemma captured_rows_masked:
  "s \<in> set (qd_samples (capture_for_issue i ds vs db)) \<Longrightarrow>
     s \<in> set (qd_samples db) \<or> sm_issue s = i \<and> rows_masked db ds (sm_rows s)"
  by (auto simp: capture_for_issue_def Let_def apply_masking_def rows_masked_def split: if_splits option.splits)

lemma rows_masked_frame: "same_frame db db' \<Longrightarrow> rows_masked db' ds rows = rows_masked db ds rows"
  by (simp add: same_frame_def rows_masked_def load_sensitivity_map_def)

section \<open>The contract\<close>

locale issue_creator =
  fixes create :: "quality_db \<Rightarrow> creation"
  assumes created: "create db = Created r db' \<Longrightarrow> appended db r db' \<or> counted_up db r db'"
begin

lemma committed_cases:
  obtains "committed db (create db) = db"
  | r where "appended db r (committed db (create db))"
  | r where "counted_up db r (committed db (create db))"
  using created [of db] by (cases "create db") (force simp: committed_def)+

lemma frame: "same_frame db (committed db (create db))"
  by (rule committed_cases [of db]; (erule appendedE counted_upE)?) (auto simp: same_frame_def)

lemma stays_valid:
  assumes "issues_valid db"
  shows "issues_valid (committed db (create db))"
proof (cases rule: committed_cases [of db])
  case (2 r)
  note fr = row_valid_frame [OF frame]
  from 2 have "row_valid db r" "qd_issues (committed db (create db)) = qd_issues db @ [r]"
    "is_id r \<notin> set (map is_id (qd_issues db))"
    by (auto elim!: appendedE intro: fresh_row_valid simp: issue_allowed_def)
  with assms show ?thesis by (auto simp: issues_valid_def fr)
next
  case (3 r)
  note fr = row_valid_frame [OF frame]
  let ?db = "committed db (create db)"
  from 3 obtain i n impact seen r0 where find: "find (\<lambda>x. is_id x = i) (qd_issues db) = Some r0"
    and r: "r = r0\<lparr>is_failures := map_option (\<lambda>m. m + n) (is_failures r0), is_impact := impact, is_last_seen := seen\<rparr>"
    and rng: "\<forall>m \<in> set_option (is_failures r). in_int32 m \<and> 0 \<le> m"
    and db': "qd_issues ?db = update_where (\<lambda>x. is_id x = i)
        (\<lambda>x. x\<lparr>is_failures := map_option (\<lambda>m. m + n) (is_failures x), is_impact := impact, is_last_seen := seen\<rparr>)
        (qd_issues db)"
    by (elim counted_upE) auto
  from find have r0: "r0 \<in> set (qd_issues db)" "is_id r0 = i" by (auto simp: find_Some_iff)
  have "x = r0" if "x \<in> set (qd_issues db)" "is_id x = i" for x
    using assms that r0 by (auto simp: issues_valid_def distinct_map inj_on_def)
  moreover have "row_valid db r"
    using assms r0 rng by (auto simp: issues_valid_def r row_valid_def lifecycle_view_def)
  moreover have "map is_id (qd_issues ?db) = map is_id (qd_issues db)"
    unfolding db' by (rule map_update_where) simp
  ultimately show ?thesis using assms unfolding issues_valid_def fr db' by (auto simp: r)
qed (use assms in simp)

lemma stays_masked:
  assumes "samples_masked db"
  shows "samples_masked (committed db (create db))"
proof (cases rule: committed_cases [of db])
  case (2 r)
  note fr = rows_masked_frame [OF frame]
  from 2 obtain vs where "qd_issues (committed db (create db)) = qd_issues db @ [r]"
    "is_id r \<notin> set (map is_id (qd_issues db))"
    "qd_samples (committed db (create db)) = qd_samples (capture_for_issue (is_id r) (is_dataset r) vs db)"
    by (auto elim!: appendedE simp: issue_allowed_def)
  note r = this
  have "sm_issue s \<in> set (map is_id (qd_issues db @ [r])) \<and>
      (\<forall>x \<in> set (qd_issues db @ [r]). is_id x = sm_issue s \<longrightarrow> rows_masked db (is_dataset x) (sm_rows s))"
    if s: "s \<in> set (qd_samples (committed db (create db)))" for s
  proof (cases "s \<in> set (qd_samples db)")
    case True
    with assms r(2) show ?thesis by (fastforce simp: samples_masked_def)
  next
    case False
    with s r(3) have "sm_issue s = is_id r \<and> rows_masked db (is_dataset r) (sm_rows s)"
      using captured_rows_masked by metis
    with r(2) show ?thesis by (auto simp: image_iff)
  qed
  then show ?thesis unfolding samples_masked_def fr r(1) by blast
next
  case (3 r)
  note fr = rows_masked_frame [OF frame]
  from 3 obtain f p where *: "qd_issues (committed db (create db)) = update_where p f (qd_issues db)"
    "qd_samples (committed db (create db)) = qd_samples db" "\<And>x. is_id (f x) = is_id x" "\<And>x. is_dataset (f x) = is_dataset x"
    by (elim counted_upE) auto
  have "map is_id (qd_issues (committed db (create db))) = map is_id (qd_issues db)"
    unfolding *(1) by (rule map_update_where) (simp add: *)
  with assms show ?thesis by (auto simp: samples_masked_def fr *)
qed (use assms in simp)

end

section \<open>Both creators keep it\<close>

lemma follow_up_row: "follow_up fts j r vs s db = Created r' db' \<Longrightarrow> r = r'"
  by (drule follow_up_created) simp

lemma insert_node_issue_created:
  assumes "insert_node_issue E now i j ex fw nr nf s db = Created r db'"
  shows "\<exists>r0 db0. fresh_issue db r0 \<and> insert_issue now r0 db = Some (r, db0) \<and>
    follow_up (ne_faults E) j r (nf_violations nf) s db0 = Created r db' \<and> is_workspace r0 = fw_workspace fw \<and>
    is_rule r0 = nf_rule nf \<and> is_dataset r0 = nf_dataset nf \<and> is_failures r0 = Some (nf_failed nf)"
proof -
  from assms obtain r0 r1 db0 where *: "insert_issue now r0 db = Some (r1, db0)"
    "follow_up (ne_faults E) j r1 (nf_violations nf) s db0 = Created r db'" "fresh_issue db r0"
    "is_workspace r0 = fw_workspace fw" "is_rule r0 = nf_rule nf" "is_dataset r0 = nf_dataset nf"
    "is_failures r0 = Some (nf_failed nf)"
    by (simp add: insert_node_issue_def Let_def fresh_issue_def split: sum.splits option.splits prod.splits)
  with follow_up_row [OF *(2)] show ?thesis by blast
qed

lemma grouped_counted_up:
  "find_and_update_candidate dw fmt ok db w ru ds pol tz n t = Grouped r db' \<Longrightarrow> counted_up db r db'"
  by (auto simp: find_and_update_candidate_def counted_up_def Let_def split: if_splits option.splits)

lemma node_issue_created:
  assumes "create_from_node_result E now i j ex fw nr db = Created r db'"
  obtains s nf where "effective_settings db (fw_workspace fw) = Inr s" and "node_facts (ne_str E) db fw nr = Inr nf"
    and "find_and_update_candidate (ne_day_window E) (ne_isofmt E) (grouping_ok (ne_faults E)) db
          (fw_workspace fw) (nf_rule nf) (nf_dataset nf) (fst (grouping_of s)) (snd (grouping_of s)) (nf_failed nf)
          (nr_completed nr) = Grouped r db'"
  | s nf where "effective_settings db (fw_workspace fw) = Inr s" and "node_facts (ne_str E) db fw nr = Inr nf"
    and "find_and_update_candidate (ne_day_window E) (ne_isofmt E) (grouping_ok (ne_faults E)) db
          (fw_workspace fw) (nf_rule nf) (nf_dataset nf) (fst (grouping_of s)) (snd (grouping_of s)) (nf_failed nf)
          (nr_completed nr) = NotGrouped"
    and "insert_node_issue E now i j ex fw nr nf s db = Created r db'"
  using assms by (auto simp: create_from_node_result_def Let_def case_prod_beta split: if_splits sum.splits grouping.splits)

lemma rule_issue_created:
  assumes "create_from_rule_execution str fts now i j x db = Created r db'"
  shows "\<exists>r0 db0 s vs. fresh_issue db r0 \<and> insert_issue now r0 db = Some (r, db0) \<and>
    follow_up fts j r vs s db0 = Created r db' \<and> is_rule r0 = Some (rx_rule x) \<and> is_failures r0 = Some (rx_failed x)"
proof -
  from assms obtain r0 r1 db0 s vs where *: "insert_issue now r0 db = Some (r1, db0)"
    "follow_up fts j r1 vs s db0 = Created r db'" "fresh_issue db r0" "is_rule r0 = Some (rx_rule x)"
    "is_failures r0 = Some (rx_failed x)"
    by (simp add: create_from_rule_execution_def Let_def fresh_issue_def find_Some_iff
        split: sum.splits option.splits prod.splits if_splits)
  with follow_up_row [OF *(2)] show ?thesis by blast
qed

interpretation node_issues: issue_creator "create_from_node_result E now i j ex fw nr" for E now i j ex fw nr
proof
  fix db r db'
  assume "create_from_node_result E now i j ex fw nr db = Created r db'"
  then show "appended db r db' \<or> counted_up db r db'"
    by (rule node_issue_created) (blast dest: grouped_counted_up insert_node_issue_created intro: appendedI)+
qed

interpretation rule_issues: issue_creator "create_from_rule_execution str fts now i j x" for str fts now i j x
  by unfold_locales (blast dest: rule_issue_created intro: appendedI)

end
