(* ===== verification/SettingsSafety.thy ===== *)
theory SettingsSafety
  imports SettingsStore
begin

text \<open>
  What a request that updates the settings of a workspace can change, and that what it answers is
  what is stored.
\<close>

section \<open>The row of a workspace\<close>

lemma row_of_workspace:
  assumes "distinct (map sr_workspace rows)" and "find (settings_where w (Some t)) rows = Some row"
    and "sr_workspace (f row) = w" and "sr_tenant (f row) = t" and "T = None \<or> T = Some t"
  shows "find (settings_where w T) (update_where (settings_where w (Some t)) f rows) = Some (f row)"
  using assms(1,2)
proof (induction rows)
  case (Cons r rs)
  show ?case
  proof (cases "sr_workspace r = w")
    case True
    with Cons.prems(1) have "\<forall>x \<in> set rs. sr_workspace x \<noteq> w" by (auto simp: image_iff)
    then have "find (settings_where w (Some t)) rs = None" by (simp add: find_None settings_where_def)
    with Cons.prems(2) have "settings_where w (Some t) r" "row = r" by (auto split: if_splits)
    with assms(3-5) show ?thesis by (auto simp: update_where_def settings_where_def)
  next
    case False
    with Cons show ?thesis by (simp add: update_where_def settings_where_def)
  qed
qed simp

lemma updated_row_key [simp]:
  "sr_workspace (updated_row str now actor u r) = sr_workspace r"
  "sr_tenant (updated_row str now actor u r) = sr_tenant r"
  by (simp_all add: updated_row_def)

section \<open>The steps of an update\<close>

lemma validated_keys:
  assumes "validate_settings_update_payload zone compiles b = Inr (es, b')"
  shows "has_key b' k = has_key b k"
  using assms by (auto simp: validate_settings_update_payload_def Let_def has_key_dict_get split: if_splits sum.splits)

lemma with_part_absent: "\<not> has_key b k \<Longrightarrow> with_part b k f = Inr None"
  by (auto simp: with_part_def has_key_dict_get split: option.splits)

text \<open>A part that is not in the body is not in the update.\<close>

lemma build_update_absent:
  assumes "build_update str encrypt b cur = Inr u"
  shows "(\<not> has_key b ''timezone_policy'' \<longrightarrow> new_timezone u = None) \<and>
    (\<not> has_key b ''severity_policy'' \<longrightarrow> new_severity u = None) \<and>
    (\<not> has_key b ''sla_policy'' \<longrightarrow> new_sla u = None) \<and>
    (\<not> has_key b ''issue_grouping_policy'' \<longrightarrow> new_grouping u = None) \<and>
    (\<not> has_key b ''naming_standards'' \<longrightarrow> new_naming u = None) \<and>
    (\<not> has_key b ''incident_policy'' \<longrightarrow> new_incident u = None) \<and>
    (\<not> has_key b ''llm_config'' \<longrightarrow> new_llm u = None)"
  using assms by (auto simp: build_update_def with_part_absent has_key_dict_get split: sum.splits option.splits)

lemma create_default_cases:
  assumes "create_default now db w t tz = Inr (s, db')"
  obtains "db' = db" and "find_settings db w t = Inr (Some s)"
  | r t' where "t = Some t'" and "\<forall>x \<in> set (sd_settings db). sr_workspace x \<noteq> w" and "row_to_settings r = Inr s"
    and "sr_workspace r = w" and "sr_tenant r = t'" and "db' = db\<lparr>sd_settings := sd_settings db @ [r]\<rparr>"
proof -
  from assms obtain t' where t: "t = Some t'" by (auto simp: create_default_def split: option.splits)
  show thesis
  proof (cases "list_ex (\<lambda>r. sr_workspace r = w) (sd_settings db)")
    case True
    with assms t show thesis by (auto simp: create_default_def split: sum.splits option.splits intro: that(1))
  next
    case False
    then have "\<forall>x \<in> set (sd_settings db). sr_workspace x \<noteq> w" by (simp add: list_ex_iff)
    with assms t False show thesis by (auto simp: create_default_def Let_def split: sum.splits intro: that(2))
  qed
qed

lemma repo_update_cases:
  assumes "repo_update_settings str now db w t u actor = Inr (s, db')"
  obtains r t' where "t = Some t'" and "find (settings_where w t) (sd_settings db) = Some r"
    and "row_to_settings (updated_row str now actor u r) = Inr s"
    and "db' = db\<lparr>sd_settings := update_where (settings_where w t) (updated_row str now actor u) (sd_settings db)\<rparr>"
  using assms by (auto simp: repo_update_settings_def Let_def split: option.splits if_splits sum.splits)

text \<open>
  A successful request: the settings found or created, and then either nothing to change or an
  updated row and an audit entry.
\<close>

lemma patch_cases:
  assumes "patch_settings zone compiles str encrypt now w b actor db = (Inr s, db')"
  obtains x s1 db1 u es b' where "find_workspace db w (if is_operator actor then None else ac_tenant actor) = Some x"
    and "validate_settings_update_payload zone compiles b = Inr (es, b')"
    and "find_settings db w (if is_operator actor then None else ac_tenant actor) = Inr (Some s1) \<and> db1 = db \<or>
      find_settings db w (if is_operator actor then None else ac_tenant actor) = Inr None \<and>
      create_default now db w (if is_operator actor then Some (sw_tenant x) else ac_tenant actor) ''UTC'' = Inr (s1, db1)"
    and "build_update str encrypt b' (with_defaults s1) = Inr u"
    and "\<not> has_changes u \<and> s = with_defaults s1 \<and> db' = db1 \<or>
      has_changes u \<and> (\<exists>s2 db2. repo_update_settings str now db1 w
          (if is_operator actor then Some (sw_tenant x) else ac_tenant actor) u (ac_id actor) = Inr (s2, db2) \<and>
        s = with_defaults s2 \<and> db' = db2\<lparr>sd_audit := sd_audit db2 @
          [\<lparr>sa_workspace = w, sa_actor = ac_id actor, sa_changed = changed_fields u\<rparr>]\<rparr>)"
proof -
  from assms obtain x es b' where x: "find_workspace db w (if is_operator actor then None else ac_tenant actor) = Some x"
    and v: "validate_settings_update_payload zone compiles b = Inr (es, b')"
    and a: "apply_settings str encrypt now db x b' actor = Inr (s, db')"
    by (auto simp: patch_settings_def update_settings_def split: if_splits option.splits sum.splits)
  have id: "sw_id x = w" using x by (auto simp: find_workspace_def dest!: find_SomeD)
  show thesis using a that [OF x v] unfolding apply_settings_def id
    by (auto simp: Let_def split: sum.splits option.splits if_splits)
qed

section \<open>What is answered is stored\<close>

lemma get_settings_found:
  assumes "find_workspace db w (if is_operator actor then None else ac_tenant actor) = Some x"
    and "find_settings db w (if is_operator actor then None else ac_tenant actor) = Inr (Some s)"
  shows "get_settings now db w actor = Inr (with_defaults s, db)"
  using assms by (simp add: get_settings_def Let_def)

lemma find_settings_None: "find_settings db w None = Inr None \<Longrightarrow> find_settings db w t = Inr None"
  by (auto simp: find_settings_def find_None settings_where_def map_sum_def split: option.splits sum.splits dest: find_SomeD)

lemma find_settings_appended:
  assumes "\<forall>x \<in> set (sd_settings db). sr_workspace x \<noteq> w" and "sr_workspace r = w" and "T = None \<or> T = Some (sr_tenant r)"
    and "row_to_settings r = Inr s"
  shows "find_settings (db\<lparr>sd_settings := sd_settings db @ [r]\<rparr>) w T = Inr (Some s)"
proof -
  have "find (settings_where w T) (sd_settings db @ [r]) = Some r"
    using assms(1-3) by (intro find_append_new) (auto simp: find_None settings_where_def)
  then show ?thesis using assms(4) by (simp add: find_settings_def)
qed


section \<open>What a request leaves alone\<close>

text \<open>The columns of a row that a body does not name.\<close>

definition keeps_unnamed :: "dict \<Rightarrow> SettingsRow \<Rightarrow> SettingsRow \<Rightarrow> bool" where
  "keeps_unnamed b r r' \<longleftrightarrow> sr_workspace r' = sr_workspace r \<and> sr_tenant r' = sr_tenant r \<and>
     (has_key b ''timezone_policy'' \<or> sr_timezone r' = sr_timezone r) \<and>
     (has_key b ''severity_policy'' \<or> sr_severity r' = sr_severity r) \<and>
     (has_key b ''sla_policy'' \<or> sr_sla r' = sr_sla r) \<and>
     (has_key b ''issue_grouping_policy'' \<or> sr_grouping r' = sr_grouping r) \<and>
     (has_key b ''naming_standards'' \<or> sr_naming r' = sr_naming r) \<and>
     (has_key b ''incident_policy'' \<or> sr_incident r' = sr_incident r) \<and>
     (has_key b ''llm_config'' \<or> sr_llm r' = sr_llm r)"

lemma set_or_absent: "(\<not> P \<longrightarrow> v = None) \<Longrightarrow> P \<or> set_or f v old = old"
  by (auto simp: set_or_def)

lemma updated_row_keeps:
  assumes "validate_settings_update_payload zone compiles b = Inr (es, b')" and "build_update str encrypt b' cur = Inr u"
  shows "keeps_unnamed b r (updated_row str' now actor u r)"
  using build_update_absent [OF assms(2)] unfolding validated_keys [OF assms(1)] keeps_unnamed_def
  by (intro conjI) (simp_all add: updated_row_def set_or_absent)

text \<open>
  A request that fails changes nothing.  One that succeeds changes no workspace and no
  settings of another workspace; in the row of its own workspace it changes only the policies that
  the body names; and it adds at most one audit entry, which names the actor.
\<close>

theorem settings_patch_is_confined:
  "case patch_settings zone compiles str encrypt now w b actor db of
     (Inl e, db') \<Rightarrow> db' = db
   | (Inr s, db') \<Rightarrow> sd_workspaces db' = sd_workspaces db \<and>
       filter (\<lambda>r. sr_workspace r \<noteq> w) (sd_settings db') = filter (\<lambda>r. sr_workspace r \<noteq> w) (sd_settings db) \<and>
       (\<forall>r \<in> set (sd_settings db). sr_workspace r = w \<longrightarrow> (\<exists>r' \<in> set (sd_settings db'). keeps_unnamed b r r')) \<and>
       (sd_audit db' = sd_audit db \<or> (\<exists>ks. sd_audit db' = sd_audit db @
          [\<lparr>sa_workspace = w, sa_actor = ac_id actor, sa_changed = ks\<rparr>]))"
proof (cases "patch_settings zone compiles str encrypt now w b actor db")
  case (Pair res db')
  show ?thesis
  proof (cases res)
    case (Inl e)
    with Pair show ?thesis by (auto simp: patch_settings_def split: sum.splits prod.splits)
  next
    case (Inr s)
    note run = Pair [unfolded Inr]
    from run show ?thesis
    proof (cases rule: patch_cases)
      case (1 x s1 db1 u es b')
      have created: "sd_workspaces db1 = sd_workspaces db \<and> sd_audit db1 = sd_audit db \<and>
          set (sd_settings db) \<subseteq> set (sd_settings db1) \<and>
          filter (\<lambda>r. sr_workspace r \<noteq> w) (sd_settings db1) = filter (\<lambda>r. sr_workspace r \<noteq> w) (sd_settings db)"
        using 1(3) by (elim disjE conjE) (auto elim!: create_default_cases)
      have own: "keeps_unnamed b r r" for r by (simp add: keeps_unnamed_def)
      from 1(5) show ?thesis
      proof (elim disjE conjE exE)
        assume "db' = db1"
        with created own show ?thesis unfolding run by auto
      next
        fix s2 db2
        assume r: "repo_update_settings str now db1 w (if is_operator actor then Some (sw_tenant x) else ac_tenant actor)
            u (ac_id actor) = Inr (s2, db2)"
          and db': "db' = db2\<lparr>sd_audit := sd_audit db2 @
            [\<lparr>sa_workspace = w, sa_actor = ac_id actor, sa_changed = changed_fields u\<rparr>]\<rparr>"
        from r obtain t where db2: "db2 = db1\<lparr>sd_settings :=
            update_where (settings_where w t) (updated_row str now (ac_id actor) u) (sd_settings db1)\<rparr>"
          by (elim repo_update_cases) blast
        have other: "filter (\<lambda>r. sr_workspace r \<noteq> w) (update_where (settings_where w t) (updated_row str now a u) rs) =
            filter (\<lambda>r. sr_workspace r \<noteq> w) rs" for a rs
          by (induction rs) (auto simp: update_where_def settings_where_def)
        have rows: "set (sd_settings db') =
            (\<lambda>r. if settings_where w t r then updated_row str now (ac_id actor) u r else r) ` set (sd_settings db1)"
          by (simp add: db' db2 update_where_def)
        have "\<exists>r' \<in> set (sd_settings db'). keeps_unnamed b r r'" if "r \<in> set (sd_settings db)" for r
        proof (rule bexI)
          let ?r = "if settings_where w t r then updated_row str now (ac_id actor) u r else r"
          show "keeps_unnamed b r ?r" using own updated_row_keeps [OF 1(2,4)] by simp
          show "?r \<in> set (sd_settings db')"
            using created that unfolding rows by blast
        qed
        with created show ?thesis unfolding run by (auto simp: db' db2 other)
      qed
    qed
  qed
qed

definition office_db :: settings_db where
  "office_db = \<lparr>sd_workspaces = [\<lparr>sw_id = 1, sw_tenant = 2, sw_archived = False\<rparr>],
     sd_settings = [\<lparr>sr_workspace = 1, sr_tenant = 2, sr_timezone = ''UTC'', sr_severity = PNone, sr_sla = PNone,
       sr_grouping = ''one_per_rule'', sr_naming = PNone, sr_updated_at = 0, sr_updated_by = None,
       sr_llm = PNone, sr_incident = PNone\<rparr>], sd_audit = []\<rparr>"

definition office_admin :: Actor where
  "office_admin = \<lparr>ac_id = 9, ac_role = ''tenant_admin'', ac_tenant = Some 2\<rparr>"

definition office_request :: dict where
  "office_request = [(''timezone_policy'', PDict [(''default_timezone'', PStr ''CET'')]),
     (''incident_policy'', PDict [(''recurrence_threshold'', PInt 3)])]"

lemma office_patched:
  "case patch_settings Some (\<lambda>_. True) text_of id 80 1 office_request office_admin office_db of
     (Inr s, db') \<Rightarrow> default_timezone s = ''CET'' \<and> map sr_grouping (sd_settings db') = [''one_per_rule''] | _ \<Rightarrow> False"
  by code_simp


theorem settings_patch_is_confined_witness:
  "\<exists>s db'. patch_settings Some (\<lambda>_. True) text_of id 80 1 office_request office_admin office_db = (Inr s, db') \<and>
     sd_workspaces db' = sd_workspaces office_db \<and>
     (\<exists>r' \<in> set (sd_settings db'). sr_grouping r' = ''one_per_rule'' \<and> sr_sla r' = PNone)"
proof -
  obtain s db' where p: "patch_settings Some (\<lambda>_. True) text_of id 80 1 office_request office_admin office_db = (Inr s, db')"
    using office_patched by (auto split: prod.splits sum.splits)
  with settings_patch_is_confined [where zone = Some and compiles = "\<lambda>_. True" and str = text_of and encrypt = id and
      now = 80 and w = 1 and b = office_request and actor = office_admin and db = office_db] show ?thesis
    by (auto simp: office_db_def keeps_unnamed_def office_request_def has_key_def)
qed

end
