(* ===== verification/PipelineSafety.thy ===== *)
theory PipelineSafety
  imports IssuePipeline SettingsSafety
begin

text \<open>
  What the automatic issues of a workspace satisfy, over every sequence of failed nodes and rule
  executions: the rows stay valid, sensitive values stay masked, failures are counted once, a rule
  has one open issue per dataset when the settings ask for it, and how a policy that is stored
  without a check loses issues.
\<close>

section \<open>Rows and samples\<close>

lemma execute_rule_keeps:
  assumes "P db" and "\<And>x. P (committed db (create_from_rule_execution (xe_str E) (xe_faults E) now i j x db))"
  shows "P (fst (snd (execute_rule E now k i j ru sample db)))"
  using assms by (auto simp: execute_rule_def Let_def)

lemma raise_issues_keeps:
  assumes "P db" and "\<And>(e :: node_event) db. P db \<Longrightarrow>
      P (committed db (create_from_node_result (ev_env e) (ev_now e) (ev_issue e) (ev_incident e) ex fw (ev_result e) db))"
  shows "P (raise_issues ex fw es db)"
  using assms(1) by (induction es arbitrary: db) (simp_all add: assms(2))

text \<open>
  C14: The issues that failed nodes and rule executions leave behind are well formed: the ids are
  distinct; each row has a known severity, a title of at most 500 characters, counts that fit
  their columns, a rate between 0 and 100 and the tenant of its workspace; its rule and its
  dataset exist; and its time stamps agree with its status, so the life cycle starts from a state
  that the update operation keeps.
\<close>

theorem issue_rows_stay_valid:
  assumes "issues_valid db"
  shows "issues_valid (raise_issues ex fw es db) \<and>
    issues_valid (fst (snd (execute_rule E now k i j ru sample (raise_issues ex fw es db))))"
  using assms
  by (blast intro: execute_rule_keeps [where P = issues_valid] raise_issues_keeps [where P = issues_valid]
      node_issues.stays_valid rule_issues.stays_valid)

text \<open>A workspace with one rule and one dataset, and a flow whose node failed.\<close>

definition shop_rule :: RuleRow where
  "shop_rule = example_rule\<lparr>ru_canonical := PDict [(''severity'', PStr ''high'')], ru_table := Some ''Orders''\<rparr>"

definition shop_settings :: "pyval \<Rightarrow> SettingsRow" where
  "shop_settings incident = \<lparr>sr_workspace = 1, sr_tenant = 2, sr_timezone = ''UTC'', sr_severity = PNone, sr_sla = PNone,
     sr_grouping = ''one_per_rule'', sr_naming = PNone, sr_updated_at = 0, sr_updated_by = None,
     sr_llm = PNone, sr_incident = incident\<rparr>"

definition shop_db :: quality_db where
  "shop_db = no_rows\<lparr>
     qd_settings := \<lparr>sd_workspaces = [\<lparr>sw_id = 1, sw_tenant = 2, sw_archived = False\<rparr>],
       sd_settings = [shop_settings PNone], sd_audit = []\<rparr>,
     qd_rules := [shop_rule],
     qd_datasets := [\<lparr>da_id = 11, da_workspace = 1, da_name = ''Orders'', da_physical = ''orders'',
        da_schema = None, da_owner = None\<rparr>],
     qd_sensitivity := [(11, ''email'', ''restricted'')]\<rparr>"

definition shop_flow :: FlowRow where
  "shop_flow = \<lparr>fw_id = 4, fw_workspace = 1, fw_definition = PDict
     [(''nodes'', PList
        [PDict [(''id'', PStr ''s''), (''type'', PStr ''source''), (''config'', PDict [(''name'', PStr ''ORDERS'')])],
         PDict [(''id'', PStr ''c''), (''type'', PStr ''check''), (''config'', PDict [(''rule_name'', PStr ''ids'')])]]),
      (''connections'', PList [PDict [(''from'', PStr ''s''), (''to'', PStr ''c'')]])]\<rparr>"

definition shop_env :: node_env where
  "shop_env = \<lparr>ne_str = text_of, ne_float = (\<lambda>_. None), ne_decimal = (\<lambda>v. case v of PFloat (FFin x) \<Rightarrow> Some x | _ \<Rightarrow> None),
     ne_day_window = (\<lambda>z t. Some (0, 1440)), ne_isofmt = (\<lambda>_. ''today''),
     ne_faults = \<lparr>grouping_ok = True, sample_ok = True, alert_ok = True\<rparr>\<rparr>"

definition shop_node :: "int \<Rightarrow> NodeResult" where
  "shop_node n = \<lparr>nr_id = 5, nr_node = ''c'', nr_status = ''failed'',
     nr_data = PDict [(''rows_failed'', PInt n), (''rows_scanned'', PInt 100),
       (''violations'', PList [PDict [(''email'', PStr ''x''), (''id'', PInt 3)]])],
     nr_completed = Some 60\<rparr>"

definition shop_event :: "uuid \<Rightarrow> int \<Rightarrow> node_event" where
  "shop_event i n = \<lparr>ev_env = shop_env, ev_now = 61, ev_issue = i, ev_incident = i + 100, ev_result = shop_node n\<rparr>"

theorem issue_rows_stay_valid_witness:
  "issues_valid (raise_issues 3 shop_flow [shop_event 20 5, shop_event 21 3] shop_db)"
  using issue_rows_stay_valid [of shop_db 3 shop_flow "[shop_event 20 5, shop_event 21 3]"]
  by (simp add: issues_valid_def shop_db_def no_rows_def)



section \<open>Counting failures\<close>

definition count_of :: "IssueRow \<Rightarrow> int" where
  "count_of r = (case is_failures r of None \<Rightarrow> 0 | Some n \<Rightarrow> n)"

text \<open>The failures recorded for a rule and a dataset in a workspace, over all its issues.\<close>

definition recorded_failures :: "quality_db \<Rightarrow> uuid \<Rightarrow> uuid option \<Rightarrow> uuid option \<Rightarrow> int" where
  "recorded_failures db w ru ds =
     (\<Sum>r \<leftarrow> qd_issues db. if is_workspace r = w \<and> is_rule r = ru \<and> is_dataset r = ds then count_of r else 0)"

lemma sum_update_where:
  fixes g :: "'r \<Rightarrow> int"
  assumes "distinct (map key xs)" and "x \<in> set xs"
  shows "sum_list (map g (update_where (\<lambda>y. key y = key x) f xs)) = sum_list (map g xs) + (g (f x) - g x)"
  using assms
proof (induction xs)
  case (Cons y ys)
  show ?case
  proof (cases "key y = key x")
    case True
    with Cons.prems have "y = x" "\<forall>z \<in> set ys. key z \<noteq> key x" by (auto simp: image_iff)
    then have "update_where (\<lambda>y. key y = key x) f ys = ys" by (simp add: update_where_def map_idI)
    moreover have "update_where (\<lambda>y. key y = key x) f (y # ys) = f x # update_where (\<lambda>y. key y = key x) f ys"
      using \<open>y = x\<close> by (simp add: update_where_def)
    ultimately show ?thesis using \<open>y = x\<close> by simp
  next
    case False
    with Cons show ?thesis by (auto simp: update_where_def)
  qed
qed simp

lemma last_sorted: "xs \<noteq> [] \<Longrightarrow> last (sort_key f xs) \<in> set xs"
  using last_in_set [of "sort_key f xs"] by (metis set_empty set_sort)

lemma find_open_Some:
  assumes "find_open_for_grouping db w ru ds win = Some r"
  shows "r \<in> set (qd_issues db) \<and> groupable w ru ds r"
proof -
  define hits where "hits = filter (\<lambda>r. groupable w ru ds r \<and>
    (\<forall>(a, b) \<in> set_option win. a \<le> is_opened r \<and> is_opened r < b)) (qd_issues db)"
  have "hits \<noteq> []" "r = last (sort_key is_opened hits)"
    using assms by (simp_all add: find_open_for_grouping_def Let_def hits_def [symmetric] split: if_splits)
  then have "r \<in> set hits" using last_sorted by blast
  then show ?thesis by (simp add: hits_def)
qed

lemma grouped_candidate:
  assumes "find_and_update_candidate dw fmt ok db w ru ds pol tz n t = Grouped r db'"
  obtains r0 impact seen where "r0 \<in> set (qd_issues db)" and "is_workspace r0 = w" and "is_rule r0 = ru"
    and "is_dataset r0 = ds" and "ru \<noteq> None" and "ds \<noteq> None"
    and "update_for_grouping (is_id r0) n impact seen db = Some (r, db')"
proof -
  from assms obtain ru' ds' win impact seen r0 where *: "ru = Some ru'" "ds = Some ds'"
    "find_open_for_grouping db w ru' ds' win = Some r0"
    "update_for_grouping (is_id r0) n impact seen db = Some (r, db')"
    by (auto simp: find_and_update_candidate_def Let_def split: if_splits option.splits)
  from find_open_Some [OF *(3)] have "r0 \<in> set (qd_issues db)" "groupable w ru' ds' r0" by simp_all
  with *(1,2,4) show thesis by (intro that [of r0 impact seen]) (simp_all add: groupable_def)
qed

lemma counted_up_records:
  assumes "issues_valid db" and "\<forall>r \<in> set (qd_issues db). is_failures r \<noteq> None" and "r0 \<in> set (qd_issues db)"
    and "update_for_grouping (is_id r0) n impact seen db = Some (r, db')"
  shows "(\<forall>r \<in> set (qd_issues db'). is_failures r \<noteq> None) \<and>
    recorded_failures db' w ru ds = recorded_failures db w ru ds +
      (if is_workspace r0 = w \<and> is_rule r0 = ru \<and> is_dataset r0 = ds then n else 0)"
proof -
  let ?f = "\<lambda>x. x\<lparr>is_failures := map_option (\<lambda>m. m + n) (is_failures x), is_impact := impact, is_last_seen := seen\<rparr>"
  have db': "qd_issues db' = update_where (\<lambda>x. is_id x = is_id r0) ?f (qd_issues db)"
    using assms(4) by (auto simp: update_for_grouping_def Let_def split: option.splits if_splits)
  from assms(2,3) obtain m where m: "is_failures r0 = Some m" by blast
  let ?g = "\<lambda>r. if is_workspace r = w \<and> is_rule r = ru \<and> is_dataset r = ds then count_of r else 0"
  have "recorded_failures db' w ru ds = recorded_failures db w ru ds + (?g (?f r0) - ?g r0)"
    unfolding recorded_failures_def db' using assms(1,3) by (intro sum_update_where) (simp_all add: issues_valid_def)
  moreover have "?g (?f r0) - ?g r0 = (if is_workspace r0 = w \<and> is_rule r0 = ru \<and> is_dataset r0 = ds then n else 0)"
    by (simp add: count_of_def m)
  moreover have "\<forall>r \<in> set (qd_issues db'). is_failures r \<noteq> None"
    using assms(2) by (fastforce simp: db')
  ultimately show ?thesis by simp
qed

lemma appended_records:
  assumes "qd_issues db' = qd_issues db @ [r]"
  shows "recorded_failures db' w ru ds = recorded_failures db w ru ds +
    (if is_workspace r = w \<and> is_rule r = ru \<and> is_dataset r = ds then count_of r else 0)"
  by (simp add: recorded_failures_def assms)

lemma inserted_row:
  assumes "fresh_issue db r0" and "insert_issue now r0 db = Some (r, db0)" and "follow_up fts j r vs s db0 = Created r db'"
  shows "qd_issues db' = qd_issues db @ [r] \<and> is_workspace r = is_workspace r0 \<and> is_rule r = is_rule r0 \<and>
    is_dataset r = is_dataset r0 \<and> is_failures r = is_failures r0 \<and> is_status r = ''open'' \<and>
    is_id r \<notin> set (map is_id (qd_issues db))"
proof -
  from assms(2) obtain rate where r: "r = r0\<lparr>is_rate := rate, is_opened := now, is_last_seen := None\<rparr>"
    "issue_allowed db r" "db0 = db\<lparr>qd_issues := qd_issues db @ [r]\<rparr>" by (rule insert_issue_Some)
  then show ?thesis using follow_up_created [OF assms(3)] assms(1)
    by (simp add: fresh_issue_def issue_allowed_def)
qed

text \<open>
  C16: When a failed node has produced or updated an issue, the failures recorded for its rule and
  dataset in the workspace have grown by exactly the failing rows of the node, and those of every
  other rule and dataset have not changed: grouping neither loses nor doubles a count.
\<close>

theorem failures_are_counted_once:
  assumes "issues_valid db" and "\<forall>r \<in> set (qd_issues db). is_failures r \<noteq> None"
    and "create_from_node_result E now i j ex fw nr db = Created r db'"
  shows "\<exists>nf. node_facts (ne_str E) db fw nr = Inr nf \<and> (\<forall>r \<in> set (qd_issues db'). is_failures r \<noteq> None) \<and>
    (\<forall>w ru ds. recorded_failures db' w ru ds = recorded_failures db w ru ds +
       (if fw_workspace fw = w \<and> nf_rule nf = ru \<and> nf_dataset nf = ds then nf_failed nf else 0))"
  using assms(3)
proof (cases rule: node_issue_created)
  case (1 s nf)
  from 1(3) obtain r0 impact seen where "r0 \<in> set (qd_issues db)" "is_workspace r0 = fw_workspace fw"
    "is_rule r0 = nf_rule nf" "is_dataset r0 = nf_dataset nf"
    "update_for_grouping (is_id r0) (nf_failed nf) impact seen db = Some (r, db')" by (rule grouped_candidate)
  with 1(2) counted_up_records [OF assms(1,2) this(1,5)] show ?thesis by auto
next
  case (2 s nf)
  from insert_node_issue_created [OF 2(4)] obtain r0 db0 where *: "fresh_issue db r0"
    "insert_issue now r0 db = Some (r, db0)" "follow_up (ne_faults E) j r (nf_violations nf) s db0 = Created r db'"
    "is_workspace r0 = fw_workspace fw" "is_rule r0 = nf_rule nf" "is_dataset r0 = nf_dataset nf"
    "is_failures r0 = Some (nf_failed nf)" by blast
  from inserted_row [OF *(1-3)] have "qd_issues db' = qd_issues db @ [r]" "is_workspace r = fw_workspace fw"
    "is_rule r = nf_rule nf" "is_dataset r = nf_dataset nf" "count_of r = nf_failed nf" "is_failures r \<noteq> None"
    using * by (simp_all add: count_of_def)
  with 2(2) assms(2) appended_records [of db' db r] show ?thesis by auto
qed

section \<open>One open issue per rule and dataset\<close>

definition one_open_issue :: "quality_db \<Rightarrow> bool" where
  "one_open_issue db \<longleftrightarrow>
     (\<forall>a \<in> set (qd_issues db). \<forall>b \<in> set (qd_issues db). \<forall>w ru ds.
        groupable w ru ds a \<and> groupable w ru ds b \<longrightarrow> is_id a = is_id b)"

lemma find_open_None:
  "find_open_for_grouping db w ru ds None = None \<longleftrightarrow> (\<forall>r \<in> set (qd_issues db). \<not> groupable w ru ds r)"
  by (auto simp: find_open_for_grouping_def Let_def filter_empty_conv)

lemma not_grouped_per_rule:
  assumes "find_and_update_candidate dw fmt ok db w (Some ru) (Some ds) ''one_per_rule'' tz n (Some t) = NotGrouped"
  shows "\<forall>r \<in> set (qd_issues db). \<not> groupable w ru ds r"
  using assms by (auto simp: find_and_update_candidate_def find_open_None [symmetric] Let_def
      split: if_splits option.splits)

lemma one_open_counted_up:
  assumes "one_open_issue db" and "counted_up db r db'"
  shows "one_open_issue db'"
proof -
  from assms(2) obtain p f where db': "qd_issues db' = update_where p f (qd_issues db)"
    and f: "\<And>x. is_id (f x) = is_id x" "\<And>x w ru ds. groupable w ru ds (f x) = groupable w ru ds x"
    by (elim counted_upE) (auto simp: groupable_def)
  have "\<exists>x \<in> set (qd_issues db). is_id x = is_id y \<and> (\<forall>w ru ds. groupable w ru ds x = groupable w ru ds y)"
    if "y \<in> set (qd_issues db')" for y
    using that f unfolding db' by auto
  then show ?thesis using assms(1) unfolding one_open_issue_def by metis
qed

lemma one_open_step:
  assumes "one_open_issue db" and "effective_settings db (fw_workspace fw) = Inr (Some s)"
    and "grouping_policy s = ''one_per_rule''" and "nr_completed nr \<noteq> None"
    and "create_from_node_result E now i j ex fw nr db = Created r db'"
  shows "one_open_issue db'"
  using assms(5)
proof (cases rule: node_issue_created)
  case (1 s' nf)
  then show ?thesis using one_open_counted_up [OF assms(1)] grouped_counted_up by blast
next
  case (2 s' nf)
  from insert_node_issue_created [OF 2(4)] obtain r0 db0 where *: "fresh_issue db r0"
    "insert_issue now r0 db = Some (r, db0)" "follow_up (ne_faults E) j r (nf_violations nf) s' db0 = Created r db'"
    "is_workspace r0 = fw_workspace fw" "is_rule r0 = nf_rule nf" "is_dataset r0 = nf_dataset nf" by blast
  note row = inserted_row [OF *(1-3)]
  have "\<forall>x \<in> set (qd_issues db). \<not> groupable w ru ds x" if "groupable w ru ds r" for w ru ds
  proof -
    from that row * have "w = fw_workspace fw" "nf_rule nf = Some ru" "nf_dataset nf = Some ds" by (auto simp: groupable_def)
    moreover from assms(4) obtain t where "nr_completed nr = Some t" by blast
    moreover have "fst (grouping_of s') = ''one_per_rule''" using 2(1) assms(2,3) by (auto simp: grouping_of_def)
    ultimately show ?thesis using 2(3) not_grouped_per_rule by simp
  qed
  with assms(1) row show ?thesis unfolding one_open_issue_def by auto
qed

text \<open>
  C17: In a workspace whose settings ask for one issue per rule, failed nodes never leave two open
  issues for the same rule and dataset, however many fail: each further failure is counted into
  the issue that is open.
\<close>

theorem failed_nodes_keep_one_open_issue:
  assumes "one_open_issue db" and "effective_settings db (fw_workspace fw) = Inr (Some s)"
    and "grouping_policy s = ''one_per_rule''" and "\<forall>e \<in> set es. nr_completed (ev_result e) \<noteq> None"
  shows "one_open_issue (raise_issues ex fw es db)"
  using assms
proof (induction es arbitrary: db)
  case (Cons e es)
  let ?c = "create_from_node_result (ev_env e) (ev_now e) (ev_issue e) (ev_incident e) ex fw (ev_result e) db"
  have "one_open_issue (committed db ?c)"
  proof (cases ?c)
    case (Created r db')
    moreover have "nr_completed (ev_result e) \<noteq> None" using Cons.prems(4) by simp
    ultimately show ?thesis using one_open_step [OF Cons.prems(1-3)] by (simp add: committed_def)
  qed (use Cons.prems in \<open>simp_all add: committed_def\<close>)
  moreover have "effective_settings (committed db ?c) (fw_workspace fw) = Inr (Some s)"
    using Cons.prems(2) node_issues.frame [of db] by (simp add: same_frame_def effective_settings_def)
  ultimately show ?case using Cons.IH Cons.prems by simp
qed simp

definition default_settings :: WorkspaceSettings where
  "default_settings = with_defaults \<lparr>st_workspace = 1, st_tenant = 2, default_timezone = ''UTC'',
     grouping_policy = ''one_per_rule'', settings_updated_at = 0, settings_updated_by = None,
     severity_policy = None, sla_policy = None, naming_standards = None, incident_policy = None, llm_config = None\<rparr>"

lemma shop_effective: "effective_settings shop_db 1 = Inr (Some default_settings)"
  by (simp add: effective_settings_def shop_db_def no_rows_def find_settings_def settings_where_def
      shop_settings_def row_to_settings_def from_column_def default_settings_def)

theorem failed_nodes_keep_one_open_issue_witness:
  "one_open_issue (raise_issues 3 shop_flow [shop_event 20 5, shop_event 21 3] shop_db)"
  by (rule failed_nodes_keep_one_open_issue [of shop_db shop_flow default_settings])
    (simp_all add: shop_effective shop_flow_def default_settings_def with_defaults_def shop_event_def shop_node_def,
     simp add: one_open_issue_def shop_db_def no_rows_def)

theorem failures_are_counted_once_witness:
  "\<exists>nf. node_facts (ne_str shop_env) shop_db shop_flow (shop_node 5) = Inr nf \<and>
     recorded_failures (raise_issues 3 shop_flow [shop_event 20 5] shop_db) 1 (nf_rule nf) (nf_dataset nf) = nf_failed nf"
proof -
  have "qd_issues (raise_issues 3 shop_flow [shop_event 20 5] shop_db) \<noteq> []" by code_simp
  then obtain r db' where c: "create_from_node_result shop_env 61 20 120 3 shop_flow (shop_node 5) shop_db = Created r db'"
    by (auto simp: shop_event_def committed_def shop_db_def no_rows_def split: creation.splits)
  have "issues_valid shop_db" "\<forall>r \<in> set (qd_issues shop_db). is_failures r \<noteq> None"
    by (simp_all add: issues_valid_def shop_db_def no_rows_def)
  from failures_are_counted_once [OF this c] c show ?thesis
    by (auto simp: shop_event_def committed_def recorded_failures_def shop_flow_def shop_db_def no_rows_def)
qed

text \<open>
  An execution that is started directly never counts into an open issue, whatever the
  settings ask for: each one that fails adds an issue of its own, so a rule that also fails in a
  flow, or twice by hand, has several open issues for the same dataset.
\<close>

theorem direct_executions_never_group:
  assumes "create_from_rule_execution str fts now i j x db = Created r db'"
  shows "qd_issues db' = qd_issues db @ [r] \<and> is_rule r = Some (rx_rule x) \<and> is_status r = ''open'' \<and>
    is_failures r = Some (rx_failed x) \<and>
    (\<forall>a \<in> set (qd_issues db). \<forall>w ru ds. groupable w ru ds a \<and> groupable w ru ds r \<longrightarrow> \<not> one_open_issue db')"
proof -
  from rule_issue_created [OF assms] obtain r0 db0 s vs where *: "fresh_issue db r0"
    "insert_issue now r0 db = Some (r, db0)" "follow_up fts j r vs s db0 = Created r db'"
    "is_rule r0 = Some (rx_rule x)" "is_failures r0 = Some (rx_failed x)" by blast
  note row = inserted_row [OF *(1-3)]
  have "\<not> one_open_issue db'" if "a \<in> set (qd_issues db)" "groupable w ru ds a \<and> groupable w ru ds r" for a w ru ds
  proof
    assume "one_open_issue db'"
    with that row have "is_id a = is_id r" unfolding one_open_issue_def by auto
    with that(1) row show False by (metis image_eqI list.set_map)
  qed
  with row * show ?thesis by auto
qed

definition shop_after :: quality_db where
  "shop_after = raise_issues 3 shop_flow [shop_event 20 5] shop_db"

definition shop_execution :: RuleExecution where
  "shop_execution = \<lparr>rx_id = 40, rx_rule = 7, rx_status = ''completed'', rx_scanned = 100, rx_passed = 98, rx_failed = 2,
     rx_rate = None, rx_completed = Some 70, rx_violations = []\<rparr>"

theorem direct_executions_never_group_witness:
  "\<not> one_open_issue (committed shop_after
     (create_from_rule_execution text_of (ne_faults shop_env) 70 30 130 shop_execution shop_after))"
proof -
  have "case create_from_rule_execution text_of (ne_faults shop_env) 70 30 130 shop_execution shop_after of
      Created r db' \<Rightarrow> list_ex (groupable 1 7 11) (qd_issues shop_after) \<and> groupable 1 7 11 r | _ \<Rightarrow> False"
    by code_simp
  then obtain r db' a where c: "create_from_rule_execution text_of (ne_faults shop_env) 70 30 130 shop_execution shop_after =
      Created r db'" "a \<in> set (qd_issues shop_after)" "groupable 1 7 11 a" "groupable 1 7 11 r"
    by (auto simp: list_ex_iff split: creation.splits)
  with direct_executions_never_group [OF c(1)] show ?thesis by (auto simp: committed_def)
qed

section \<open>A policy that loses issues\<close>

lemma bad_priority_aborts:
  assumes "follow_up fts j r vs (Some s) db = Created r' db'" and "incident_policy s = Some p"
    and "enabled p" and "truthy (auto_priority p)"
    and "auto_priority p \<notin> {PStr ''P1'', PStr ''P2'', PStr ''P3'', PStr ''P4''}"
    and "is_id r \<notin> snd ` set (qd_links db)"
  shows "\<not> severity_met p (is_severity r) \<or> \<not> recurrence_met p (count_of r)"
proof -
  have "\<not> issue_has_open_incident (capture_for_issue (is_id r) (is_dataset r) vs db) (is_id r) (is_workspace r)"
    using assms(6) by (force simp: issue_has_open_incident_def list_ex_iff)
  then show ?thesis using assms(1-5)
    by (auto simp: follow_up_def evaluate_and_create_def incident_allowed_def derive_priority_def Let_def count_of_def
        split: if_splits)
qed

text \<open>The body of a request that sets only the priority, and the policy it leads to.\<close>

definition priority_body :: "string \<Rightarrow> dict" where
  "priority_body q = [(''incident_policy'', PDict [(''auto_priority'', PStr q)])]"

definition priority_policy :: "string \<Rightarrow> IncidentPolicy" where
  "priority_policy q = SHIPPING_DEFAULT_INCIDENT_POLICY\<lparr>auto_priority := PStr q\<rparr>"

definition priority_update :: "string \<Rightarrow> WorkspaceSettingsUpdate" where
  "priority_update q = \<lparr>new_timezone = None, new_severity = None, new_sla = None, new_grouping = None, new_naming = None,
     new_incident = Some (priority_policy q), new_llm = None\<rparr>"

lemma build_priority_update:
  assumes "\<And>z. str (PStr z) = z" and "incident_policy cur = Some SHIPPING_DEFAULT_INCIDENT_POLICY"
  shows "build_update str encrypt (priority_body q) cur = Inr (priority_update q)"
  by (simp add: build_update_def with_part_def priority_body_def requested_incident_def assms dict_get_def
      SHIPPING_DEFAULT_INCIDENT_POLICY_def priority_policy_def priority_update_def same_incident_policy_def py_eq_def as_number_def)

lemma priority_row:
  assumes "row_to_settings r = Inr s"
  shows "row_to_settings (updated_row str now u (priority_update q) r) =
    Inr (s\<lparr>settings_updated_at := now, settings_updated_by := Some u, incident_policy := Some (priority_policy q)\<rparr>)"
proof -
  have "from_column incident_of (incident_json str (priority_policy q)) = Inr (Some (priority_policy q))"
    by (rule incident_roundtrip) (simp add: priority_policy_def SHIPPING_DEFAULT_INCIDENT_POLICY_def)
  with assms show ?thesis by (auto simp: row_to_settings_def updated_row_def set_or_def priority_update_def split: sum.splits)
qed

lemma patch_priority:
  assumes "\<And>z. str (PStr z) = z" and "\<not> is_operator actor" and "ac_tenant actor = Some t"
    and "find_workspace db w (Some t) = Some x" and "\<not> sw_archived x"
    and "find (settings_where w (Some t)) (sd_settings db) = Some row" and "row_allowed row"
    and "row_to_settings row = Inr s" and "incident_policy s = None"
  shows "\<exists>s'. patch_settings zone compiles str encrypt now w (priority_body q) actor db =
    (Inr s', db\<lparr>sd_settings := update_where (settings_where w (Some t)) (updated_row str now (ac_id actor) (priority_update q)) (sd_settings db),
       sd_audit := sd_audit db @ [\<lparr>sa_workspace = w, sa_actor = ac_id actor, sa_changed = [''incident_policy'']\<rparr>]\<rparr>)"
proof -
  have x: "sw_id x = w" using assms(4) by (auto simp: find_workspace_def dest!: find_SomeD)
  have ok: "validate_settings_update_payload zone compiles (priority_body q) = Inr ([], priority_body q)"
    "settings_unknown_fields (priority_body q) = []" "\<not> is_empty_request (priority_body q)"
    by (simp_all add: validate_settings_update_payload_def part_errors_def priority_body_def has_key_def
        settings_unknown_fields_def recognised_policy_fields_def is_empty_request_def)
  have up: "build_update str encrypt (priority_body q) (with_defaults s) = Inr (priority_update q)"
    by (rule build_priority_update) (simp_all add: assms with_defaults_def or_default_def)
  have changes: "changed_fields (priority_update q) = [''incident_policy'']"
    by (simp add: changed_fields_def priority_update_def)
  have "row_allowed (updated_row str now (ac_id actor) (priority_update q) row)"
    using assms(7) by (simp add: row_allowed_def updated_row_def set_or_def priority_update_def)
  then have "update_settings zone compiles str encrypt now db w (priority_body q) actor =
    Inr (with_defaults (s\<lparr>settings_updated_at := now, settings_updated_by := Some (ac_id actor),
        incident_policy := Some (priority_policy q)\<rparr>),
      db\<lparr>sd_settings := update_where (settings_where w (Some t)) (updated_row str now (ac_id actor) (priority_update q)) (sd_settings db),
       sd_audit := sd_audit db @ [\<lparr>sa_workspace = w, sa_actor = ac_id actor, sa_changed = [''incident_policy'']\<rparr>]\<rparr>)"
    using assms(2-6,8)
    by (simp add: update_settings_def ok apply_settings_def find_settings_def up x repo_update_settings_def
        priority_row has_changes_def changes)
  then show ?thesis by (simp add: patch_settings_def)
qed

text \<open>
  The settings service does not check the incident policy of a request.  A tenant
  administrator can store any text as the priority of automatic incidents; when it is not one of
  P1 to P4, the database rejects every automatic incident, which aborts the transaction of the
  issue as well: no new critical or major issue with a failing row is ever kept for a failed node
  of the workspace, until the policy is changed.
\<close>

theorem unchecked_priority_loses_issues:
  assumes "\<And>z. str (PStr z) = z" and "\<not> is_operator actor" and "ac_tenant actor = Some t"
    and "find_workspace (qd_settings db) w (Some t) = Some x" and "\<not> sw_archived x"
    and "find (settings_where w (Some t)) (sd_settings (qd_settings db)) = Some row" and "row_allowed row"
    and "row_to_settings row = Inr s" and "incident_policy s = None"
    and "distinct (map sr_workspace (sd_settings (qd_settings db)))"
    and "snd ` set (qd_links db) \<subseteq> set (map is_id (qd_issues db))"
    and "q \<notin> {[], ''P1'', ''P2'', ''P3'', ''P4''}" and "fw_workspace fw = w"
  shows "\<exists>s' sdb. patch_settings zone compiles str encrypt now w (priority_body q) actor (qd_settings db) = (Inr s', sdb) \<and>
    (\<forall>E now' i j ex nr r db'.
       create_from_node_result E now' i j ex fw nr (db\<lparr>qd_settings := sdb\<rparr>) = Created r db' \<longrightarrow>
       counted_up (db\<lparr>qd_settings := sdb\<rparr>) r db' \<or> is_severity r \<in> {''minor'', ''informational''} \<or> count_of r \<le> 0)"
proof -
  from patch_priority [OF assms(1-9)] obtain s' sdb where patch:
    "patch_settings zone compiles str encrypt now w (priority_body q) actor (qd_settings db) = (Inr s', sdb)"
    and rows: "sd_settings sdb = update_where (settings_where w (Some t))
      (updated_row str now (ac_id actor) (priority_update q)) (sd_settings (qd_settings db))" by fastforce
  let ?p = "priority_policy q" and ?db = "db\<lparr>qd_settings := sdb\<rparr>"
  let ?row = "updated_row str now (ac_id actor) (priority_update q) row"
  have "sr_workspace ?row = w" "sr_tenant ?row = t"
    using find_SomeD [OF assms(6)] by (simp_all add: settings_where_def)
  then have "find (settings_where w None) (sd_settings sdb) = Some ?row"
    unfolding rows by (intro row_of_workspace [OF assms(10,6)]) simp_all
  then obtain s2 where eff: "effective_settings ?db w = Inr (Some s2)" "incident_policy s2 = Some ?p"
    using priority_row [OF assms(8)] by (simp add: effective_settings_def find_settings_def with_defaults_def or_default_def)
  have p: "enabled ?p" "truthy (auto_priority ?p)" "min_severity ?p = PStr ''major''" "recurrence_threshold ?p = 1"
    "auto_priority ?p \<notin> {PStr ''P1'', PStr ''P2'', PStr ''P3'', PStr ''P4''}"
    using assms(12) by (simp_all add: priority_policy_def SHIPPING_DEFAULT_INCIDENT_POLICY_def)
  have "counted_up ?db r db' \<or> is_severity r \<in> {''minor'', ''informational''} \<or> count_of r \<le> 0"
    if "create_from_node_result E now' i j ex fw nr ?db = Created r db'" for E now' i j ex nr r db'
    using that
  proof (cases rule: node_issue_created)
    case (1 s3 nf)
    then show ?thesis using grouped_counted_up by blast
  next
    case (2 s3 nf)
    then have "s3 = Some s2" using eff assms(13) by simp
    with insert_node_issue_created [OF 2(4)] obtain r0 db0 where *: "fresh_issue ?db r0"
      "insert_issue now' r0 ?db = Some (r, db0)" "follow_up (ne_faults E) j r (nf_violations nf) (Some s2) db0 = Created r db'"
      by blast
    from *(2) have new: "is_severity r \<in> set SEVERITIES" "is_id r \<notin> set (map is_id (qd_issues db))" "qd_links db0 = qd_links db"
      by (auto elim!: insert_issue_Some simp: issue_allowed_def)
    with assms(11) have "is_id r \<notin> snd ` set (qd_links db0)" by auto
    from bad_priority_aborts [OF *(3) eff(2) p(1,2,5) this] new(1) show ?thesis
      by (auto simp: severity_met_def recurrence_met_def p SEVERITY_RANK_def SEVERITIES_def)
  qed
  with patch show ?thesis by blast
qed

definition shop_admin :: Actor where
  "shop_admin = \<lparr>ac_id = 9, ac_role = ''tenant_admin'', ac_tenant = Some 2\<rparr>"

theorem unchecked_priority_loses_issues_witness:
  "\<exists>s' sdb. patch_settings (\<lambda>_. None) (\<lambda>_. True) text_of id 80 1 (priority_body ''P0'') shop_admin (qd_settings shop_db) =
       (Inr s', sdb) \<and>
     (\<forall>E now' i j ex nr r db'.
       create_from_node_result E now' i j ex shop_flow nr (shop_db\<lparr>qd_settings := sdb\<rparr>) = Created r db' \<longrightarrow>
       counted_up (shop_db\<lparr>qd_settings := sdb\<rparr>) r db' \<or> is_severity r \<in> {''minor'', ''informational''} \<or> count_of r \<le> 0)"
proof (rule unchecked_priority_loses_issues [where t = 2 and row = "shop_settings PNone"])
  show "row_to_settings (shop_settings PNone) = Inr \<lparr>st_workspace = 1, st_tenant = 2, default_timezone = ''UTC'',
     grouping_policy = ''one_per_rule'', settings_updated_at = 0, settings_updated_by = None,
     severity_policy = None, sla_policy = None, naming_standards = None, incident_policy = None, llm_config = None\<rparr>"
    by (simp add: row_to_settings_def shop_settings_def from_column_def)
  show "find_workspace (qd_settings shop_db) 1 (Some 2) = Some \<lparr>sw_id = 1, sw_tenant = 2, sw_archived = False\<rparr>"
    by (simp add: find_workspace_def shop_db_def no_rows_def)
qed (simp_all add: text_of_def shop_admin_def is_operator_def PLATFORM_OPERATOR_ROLES_def shop_db_def no_rows_def
    shop_settings_def settings_where_def row_allowed_def grouping_modes_def shop_flow_def)

end
