(* ===== verification/SqlText.thy ===== *)
theory SqlText
  imports FilterExpr
begin

text \<open>
  The queries \<open>RuleCompiler\<close> of \<open>app/services/rules/compiler.py\<close> writes: a syntax of conditions,
  aggregates and statements whose printing is the text the compiler's format strings produce,
  and what the text means to a database: conditions have three truth values, \<open>None\<close> is unknown,
  and \<open>WHERE\<close> and \<open>CASE WHEN\<close> take a row when the condition is true.

  The values of the database and its functions on them are parameters, as is the meaning of the
  text a user wrote.  A function of a value that is not null is not null; one that fails ends the
  statement and is left out.
\<close>

section \<open>Conditions\<close>

datatype sql_term =
    Column string
  | Member string string
  | Plain string string
  | Literal string
  | Unescaped string
  | Number string
  | Trim sql_term
  | LowerOf sql_term
  | DateOf sql_term
  | Coalesce "sql_term list"
  | Call string sql_term
  | Typed sql_term string
  | Document sql_term
  | Part string sql_term
  | Bin string sql_term sql_term
  | Group sql_term
  | OrNull sql_term
  | MaxOf string
  | Expr string

datatype cond =
    IsNull sql_term
  | NotNull sql_term
  | Cmp string sql_term sql_term
  | InList sql_term "sql_term list"
  | NotInList sql_term "sql_term list"
  | AllOf "cond list"
  | AnyOf "cond list"
  | Not cond
  | Paren cond
  | Between sql_term sql_term sql_term
  | OrTrue cond
  | Raw string
  | Never

definition dquote :: string where
  "dquote = [CHR 0x22]"

definition newline :: string where
  "newline = [CHR 0x0A]"

definition quoted :: "string \<Rightarrow> string" where
  "quoted c = dquote @ c @ dquote"

fun show_term :: "sql_term \<Rightarrow> string" where
  "show_term (Column c) = quoted c"
| "show_term (Member t c) = t @ ''.'' @ quoted c"
| "show_term (Plain t c) = t @ ''.'' @ c"
| "show_term (Literal s) = [quote] @ double_quotes s @ [quote]"
| "show_term (Unescaped s) = [quote] @ s @ [quote]"
| "show_term (Number s) = s"
| "show_term (Trim t) = ''TRIM('' @ show_term t @ '')''"
| "show_term (LowerOf t) = ''LOWER('' @ show_term t @ '')''"
| "show_term (DateOf t) = ''CAST('' @ show_term t @ '' AS DATE)''"
| "show_term (Coalesce ts) = ''COALESCE('' @ join_with '', '' (map show_term ts) @ '')''"
| "show_term (Call f t) = f @ ''('' @ show_term t @ '')''"
| "show_term (Typed t y) = show_term t @ ''::'' @ y"
| "show_term (Document t) = ''XMLPARSE(DOCUMENT '' @ show_term t @ '')''"
| "show_term (Part p t) = ''EXTRACT('' @ p @ '' FROM '' @ show_term t @ '')''"
| "show_term (Bin f a b) = show_term a @ '' '' @ f @ '' '' @ show_term b"
| "show_term (Group t) = ''('' @ show_term t @ '')''"
| "show_term (OrNull t) = ''NULLIF('' @ show_term t @ '', 0)''"
| "show_term (MaxOf c) = ''MAX('' @ quoted c @ '')''"
| "show_term (Expr s) = s"

fun show_cond :: "cond \<Rightarrow> string" where
  "show_cond (IsNull t) = show_term t @ '' IS NULL''"
| "show_cond (NotNull t) = show_term t @ '' IS NOT NULL''"
| "show_cond (Cmp p a b) = show_term a @ '' '' @ p @ '' '' @ show_term b"
| "show_cond (InList t vs) = show_term t @ '' IN ('' @ join_with '', '' (map show_term vs) @ '')''"
| "show_cond (NotInList t vs) = show_term t @ '' NOT IN ('' @ join_with '', '' (map show_term vs) @ '')''"
| "show_cond (AllOf cs) = join_with '' AND '' (map show_cond cs)"
| "show_cond (AnyOf cs) = join_with '' OR '' (map show_cond cs)"
| "show_cond (Not c) = ''NOT '' @ show_cond c"
| "show_cond (Paren c) = ''('' @ show_cond c @ '')''"
| "show_cond (Between t a b) = show_term t @ '' BETWEEN '' @ show_term a @ '' AND '' @ show_term b"
| "show_cond (OrTrue c) = ''COALESCE(('' @ show_cond c @ ''), TRUE)''"
| "show_cond (Raw s) = s"
| "show_cond Never = ''1=0''"

section \<open>What a condition means\<close>

text \<open>A row gives every column, of the table or of a joined one, its value; \<open>None\<close> is null.\<close>

type_synonym 'v sql_row = "string option \<times> string \<Rightarrow> 'v option"

record 'v engine =
  en_text :: "string \<Rightarrow> 'v"
  en_number :: "string \<Rightarrow> 'v"
  en_trim :: "'v \<Rightarrow> 'v"
  en_lower :: "'v \<Rightarrow> 'v"
  en_date :: "'v \<Rightarrow> 'v"
  en_call :: "string \<Rightarrow> 'v \<Rightarrow> 'v"
  en_bin :: "string \<Rightarrow> 'v \<Rightarrow> 'v \<Rightarrow> 'v"
  en_zero :: "'v \<Rightarrow> bool"
  en_stat :: "string \<Rightarrow> 'v list \<Rightarrow> 'v option"
  en_py :: "'v \<Rightarrow> pyval"
  en_expr :: "string \<Rightarrow> 'v sql_row \<Rightarrow> 'v option"
  en_cmp :: "string \<Rightarrow> 'v \<Rightarrow> 'v \<Rightarrow> bool"
  en_raw :: "string \<Rightarrow> 'v sql_row \<Rightarrow> bool option"

fun first_value :: "'v option list \<Rightarrow> 'v option" where
  "first_value [] = None"
| "first_value (None # vs) = first_value vs"
| "first_value (Some v # vs) = Some v"

fun term_value :: "'v engine \<Rightarrow> 'v sql_row \<Rightarrow> sql_term \<Rightarrow> 'v option" where
  "term_value E r (Column c) = r (None, c)"
| "term_value E r (Member t c) = r (Some t, c)"
| "term_value E r (Plain t c) = r (Some t, c)"
| "term_value E r (Literal s) = Some (en_text E s)"
| "term_value E r (Unescaped s) = Some (en_text E s)"
| "term_value E r (Number s) = Some (en_number E s)"
| "term_value E r (Trim t) = map_option (en_trim E) (term_value E r t)"
| "term_value E r (LowerOf t) = map_option (en_lower E) (term_value E r t)"
| "term_value E r (DateOf t) = map_option (en_date E) (term_value E r t)"
| "term_value E r (Coalesce ts) = first_value (map (term_value E r) ts)"
| "term_value E r (Call f t) = map_option (en_call E f) (term_value E r t)"
| "term_value E r (Typed t y) = map_option (en_call E y) (term_value E r t)"
| "term_value E r (Document t) = map_option (en_call E ''DOCUMENT'') (term_value E r t)"
| "term_value E r (Part p t) = map_option (en_call E p) (term_value E r t)"
| "term_value E r (Bin f a b) =
     (case (term_value E r a, term_value E r b) of (Some x, Some y) \<Rightarrow> Some (en_bin E f x y) | _ \<Rightarrow> None)"
| "term_value E r (Group t) = term_value E r t"
| "term_value E r (OrNull t) =
     (case term_value E r t of None \<Rightarrow> None | Some x \<Rightarrow> if en_zero E x then None else Some x)"
| "term_value E r (MaxOf c) = r (Some ''MAX'', c)"
| "term_value E r (Expr s) = en_expr E s r"

definition t_not :: "bool option \<Rightarrow> bool option" where
  "t_not = map_option HOL.Not"

definition t_and :: "bool option \<Rightarrow> bool option \<Rightarrow> bool option" where
  "t_and a b = (if a = Some False \<or> b = Some False then Some False
     else if a = None \<or> b = None then None else Some True)"

definition t_or :: "bool option \<Rightarrow> bool option \<Rightarrow> bool option" where
  "t_or a b = (if a = Some True \<or> b = Some True then Some True
     else if a = None \<or> b = None then None else Some False)"

definition compare_values :: "'v engine \<Rightarrow> string \<Rightarrow> 'v option \<Rightarrow> 'v option \<Rightarrow> bool option" where
  "compare_values E p a b = (case (a, b) of (Some x, Some y) \<Rightarrow> Some (en_cmp E p x y) | _ \<Rightarrow> None)"

text \<open>\<open>IN\<close> is a disjunction of equalities; \<open>NOT IN\<close> negates it.\<close>

definition in_values :: "'v engine \<Rightarrow> 'v option \<Rightarrow> 'v option list \<Rightarrow> bool option" where
  "in_values E v vs = foldr (\<lambda>w. t_or (compare_values E ''='' v w)) vs (Some False)"

fun holds :: "'v engine \<Rightarrow> 'v sql_row \<Rightarrow> cond \<Rightarrow> bool option" where
  "holds E r (IsNull t) = Some (term_value E r t = None)"
| "holds E r (NotNull t) = Some (term_value E r t \<noteq> None)"
| "holds E r (Cmp p a b) = compare_values E p (term_value E r a) (term_value E r b)"
| "holds E r (InList t vs) = in_values E (term_value E r t) (map (term_value E r) vs)"
| "holds E r (NotInList t vs) = t_not (in_values E (term_value E r t) (map (term_value E r) vs))"
| "holds E r (AllOf cs) = foldr t_and (map (holds E r) cs) (Some True)"
| "holds E r (AnyOf cs) = foldr t_or (map (holds E r) cs) (Some False)"
| "holds E r (Not c) = t_not (holds E r c)"
| "holds E r (Paren c) = holds E r c"
| "holds E r (Between t a b) =
     t_and (compare_values E ''>='' (term_value E r t) (term_value E r a))
       (compare_values E ''<='' (term_value E r t) (term_value E r b))"
| "holds E r (OrTrue c) = (case holds E r c of None \<Rightarrow> Some True | Some b \<Rightarrow> Some b)"
| "holds E r (Raw s) = en_raw E s r"
| "holds E r Never = Some False"

definition selects :: "'v engine \<Rightarrow> cond \<Rightarrow> 'v sql_row \<Rightarrow> bool" where
  "selects E c r \<longleftrightarrow> holds E r c = Some True"

text \<open>
  The operators bind as SQL reads them: a disjunction in a conjunction or below a \<open>NOT\<close> stands in
  parentheses, so the text denotes the condition it is printed from.
\<close>

fun atomic :: "cond \<Rightarrow> bool" where
  "atomic (AllOf cs) = (length cs = 1 \<and> list_all atomic cs)"
| "atomic (AnyOf cs) = (length cs = 1 \<and> list_all atomic cs)"
| "atomic _ = True"

fun no_disjunction :: "cond \<Rightarrow> bool" where
  "no_disjunction (AnyOf cs) = (length cs = 1 \<and> list_all no_disjunction cs)"
| "no_disjunction _ = True"

fun binds :: "cond \<Rightarrow> bool" where
  "binds (AllOf cs) = (cs \<noteq> [] \<and> list_all binds cs \<and> (length cs = 1 \<or> list_all no_disjunction cs))"
| "binds (AnyOf cs) = (cs \<noteq> [] \<and> list_all binds cs)"
| "binds (Not c) = (binds c \<and> atomic c)"
| "binds (Paren c) = binds c"
| "binds (OrTrue c) = binds c"
| "binds _ = True"

section \<open>Statements\<close>

datatype agg =
    CountAll
  | CountCol sql_term
  | CountIf cond
  | Difference agg agg
  | Constant string int

fun show_agg :: "agg \<Rightarrow> string" where
  "show_agg CountAll = ''COUNT(*)''"
| "show_agg (CountCol t) = ''COUNT('' @ show_term t @ '')''"
| "show_agg (CountIf c) = ''COUNT(CASE WHEN '' @ show_cond c @ '' THEN 1 END)''"
| "show_agg (Difference a b) = show_agg a @ '' - '' @ show_agg b"
| "show_agg (Constant s n) = s"

fun agg_value :: "'v engine \<Rightarrow> 'v sql_row list \<Rightarrow> agg \<Rightarrow> int" where
  "agg_value E rs CountAll = int (length rs)"
| "agg_value E rs (CountCol t) = int (length (filter (\<lambda>r. term_value E r t \<noteq> None) rs))"
| "agg_value E rs (CountIf c) = int (length (filter (selects E c) rs))"
| "agg_value E rs (Difference a b) = agg_value E rs a - agg_value E rs b"
| "agg_value E rs (Constant s n) = n"

text \<open>A column of the result: a count, the rounded share of two counts, or the rate of no column.\<close>

datatype item =
    Count agg string
  | Rate agg agg string
  | FullRate string

definition show_item :: "item \<Rightarrow> string" where
  "show_item i =
     (case i of
        Count a n \<Rightarrow> show_agg a @ '' as '' @ n
      | Rate a t n \<Rightarrow> ''ROUND(100.0 * '' @ show_agg a @ '' / NULLIF('' @ show_agg t @ '', 0), 2) as '' @ n
      | FullRate n \<Rightarrow> ''100.00 as '' @ n)"

definition share :: "int \<Rightarrow> int \<Rightarrow> pyval" where
  "share a t =
     (let hundredths = (\<lambda>n. \<lfloor>10000 * of_int n / of_int t + 1 / 2 :: rat\<rfloor>)
      in if t = 0 then PNone else PFloat (FFin (of_int (if 0 \<le> a then hundredths a else - hundredths (- a)) / 100)))"

definition item_value :: "'v engine \<Rightarrow> 'v sql_row list \<Rightarrow> item \<Rightarrow> string \<times> pyval" where
  "item_value E rs i =
     (case i of
        Count a n \<Rightarrow> (n, PInt (agg_value E rs a))
      | Rate a t n \<Rightarrow> (n, share (agg_value E rs a) (agg_value E rs t))
      | FullRate n \<Rightarrow> (n, PFloat (FFin 100)))"

text \<open>
  The rows a statement reads: a table, or a table \<open>t\<close> joined with another, under an alias, that need
  not match.
\<close>

datatype source =
    Table string
  | LeftJoin string string string cond

text \<open>
  A statement: what stands before its \<open>SELECT\<close>, the indentation of its lines, whether a blank
  follows \<open>SELECT\<close>, the selected columns (none for the rows themselves), the source, the
  conditions of the \<open>WHERE\<close> clause and the columns of the groups, which come first in the result.
\<close>

record query =
  q_before :: string
  q_indent :: nat
  q_blank :: bool
  q_items :: "item list"
  q_star :: string
  q_source :: source
  q_where :: "cond list"
  q_group :: "sql_term list"

definition line :: "nat \<Rightarrow> string" where
  "line n = newline @ replicate n CHR '' ''"

definition show_source :: "nat \<Rightarrow> source \<Rightarrow> string" where
  "show_source n s =
     (case s of
        Table t \<Rightarrow> t
      | LeftJoin t u a c \<Rightarrow> t @ '' t'' @ line n @ ''LEFT JOIN '' @ u @ (if a = u then [] else '' '' @ a) @
          '' ON '' @ show_cond c)"

definition show_where :: "cond list \<Rightarrow> string" where
  "show_where cs = (if cs = [] then [] else ''WHERE '' @ show_cond (AllOf cs))"

definition show_query :: "query \<Rightarrow> string" where
  "show_query q =
     (let n = q_indent q in
      (if q_before q = [] then line n else q_before q) @ ''SELECT'' @
      (if q_items q = [] then '' '' @ q_star q
       else (if q_blank q then '' '' else []) @ line (n + 4) @
            join_with ('','' @ line (n + 4))
              ((if q_group q = [] then [] else [join_with '', '' (map show_term (q_group q))]) @
               map show_item (q_items q))) @
      line n @ ''FROM '' @ show_source n (q_source q) @ line n @ show_where (q_where q) @
      (if q_group q = [] then []
       else line n @ ''GROUP BY '' @ join_with '', '' (map show_term (q_group q)) @
            line n @ ''ORDER BY completeness_rate ASC''))"

text \<open>
  The joined rows: every row of the table with each row of the other it matches, or with nulls
  when there is none.
\<close>

definition joined :: "string \<Rightarrow> 'v sql_row \<Rightarrow> 'v sql_row option \<Rightarrow> 'v sql_row" where
  "joined a r other = (\<lambda>(q, c).
     if q = Some a then (case other of None \<Rightarrow> None | Some u \<Rightarrow> u (None, c)) else r (None, c))"

definition join_rows :: "'v engine \<Rightarrow> string \<Rightarrow> cond \<Rightarrow> 'v sql_row list \<Rightarrow> 'v sql_row list \<Rightarrow> 'v sql_row list" where
  "join_rows E a c rows others =
     concat (map (\<lambda>r. let hits = filter (selects E c) (map (\<lambda>u. joined a r (Some u)) others)
                      in if hits = [] then [joined a r None] else hits) rows)"

definition source_rows ::
    "'v engine \<Rightarrow> (string \<Rightarrow> 'v sql_row list) \<Rightarrow> source \<Rightarrow> 'v sql_row list" where
  "source_rows E tables s =
     (case s of Table t \<Rightarrow> tables t | LeftJoin t u a c \<Rightarrow> join_rows E a c (tables t) (tables u))"

definition selected_rows :: "'v engine \<Rightarrow> (string \<Rightarrow> 'v sql_row list) \<Rightarrow> query \<Rightarrow> 'v sql_row list" where
  "selected_rows E tables q = filter (selects E (AllOf (q_where q))) (source_rows E tables (q_source q))"

definition query_result :: "'v engine \<Rightarrow> (string \<Rightarrow> 'v sql_row list) \<Rightarrow> query \<Rightarrow> dict" where
  "query_result E tables q = map (item_value E (selected_rows E tables q)) (q_items q)"

text \<open>With groups there is one result per group, without the columns of the group.\<close>

definition group_results :: "'v engine \<Rightarrow> (string \<Rightarrow> 'v sql_row list) \<Rightarrow> query \<Rightarrow> dict list" where
  "group_results E tables q =
     (let rows = selected_rows E tables q; key = (\<lambda>r. map (term_value E r) (q_group q))
      in map (\<lambda>k. map (item_value E (filter (\<lambda>r. key r = k) rows)) (q_items q)) (dict_keys (map key rows)))"

end
