(* ===== verification/RuleCompiler.thy ===== *)
theory RuleCompiler
  imports SqlText
begin

text \<open>
  \<open>RuleCompiler\<close> of \<open>app/services/rules/compiler.py\<close> for the dimensions completeness and validity:
  from the parameters of a rule to the counting statement and the statement that lists the
  violations, or to the error result, and to the dictionary the compiler returns.

  The text of a value that is not a string, as an f-string prints it, is the parameter \<open>str\<close>.  The
  Spark text of a rule is left out.
\<close>

section \<open>Results\<close>

text \<open>\<open>s.replace(old, new)\<close> for an \<open>old\<close> that is not empty.\<close>

function replace_all :: "string \<Rightarrow> string \<Rightarrow> string \<Rightarrow> string" where
  "replace_all old new [] = []"
| "replace_all old new (c # s) =
     (if starts_with old (c # s) then new @ replace_all old new (drop (length old - 1) s)
      else c # replace_all old new s)"
  by pat_completeness auto

termination by (relation "measure (\<lambda>(old, new, s). length s)") auto

text \<open>
  The two statements of a rule with the replacements that turn the first into its MySQL form, or
  the message of the error.
\<close>

datatype plan = Plan query query "(string \<times> string) list" | Reject string

definition compiled_of :: "plan \<Rightarrow> dict" where
  "compiled_of p =
     (case p of
        Reject m \<Rightarrow> map (\<lambda>k. (k, PStr [])) [''compiled_sql'', ''compiled_postgres'', ''compiled_mysql'',
            ''compiled_snowflake'', ''violation_sql''] @ [(''error'', PBool True), (''error_message'', PStr m)]
      | Plan q v subs \<Rightarrow>
          [(''compiled_sql'', PStr (show_query q)), (''compiled_postgres'', PStr (show_query q)),
           (''compiled_mysql'', PStr (fold (\<lambda>(a, b). replace_all a b) subs (show_query q))),
           (''compiled_snowflake'', PStr (show_query q)), (''violation_sql'', PStr (show_query v))])"

section \<open>Parameters\<close>

definition show_value :: "(pyval \<Rightarrow> string) \<Rightarrow> pyval \<Rightarrow> string" where
  "show_value str v = (case v of PStr s \<Rightarrow> s | _ \<Rightarrow> str v)"

text \<open>The filter of a rule: absent, or a text the guard lets through.\<close>

definition FILTER_ERROR :: string where
  "FILTER_ERROR = ''Filter expression contains forbidden SQL constructs''"

text \<open>\<open>_validate_filter_expression\<close> of any value: only the length of a long list is looked at.\<close>

definition accepts_filter :: "pyval \<Rightarrow> py_error + bool" where
  "accepts_filter v =
     (let fail = Inl (TypeError ''expected string or bytes-like object'')
      in case v of
           PStr s \<Rightarrow> Inr (validate_filter_expression s)
         | PList xs \<Rightarrow> if 2000 < length xs then Inr False else fail
         | PDict d \<Rightarrow> if 2000 < length d then Inr False else fail
         | _ \<Rightarrow> fail)"

definition filter_text :: "pyval \<Rightarrow> string" where
  "filter_text v = (case v of PStr s \<Rightarrow> s | _ \<Rightarrow> [])"

definition rule_filter :: "dict \<Rightarrow> (py_error + (string option + string))" where
  "rule_filter p =
     (let v = dict_get p ''filter_expression'' PNone
      in if \<not> truthy v then Inr (Inl None)
         else map_sum id (\<lambda>ok. if ok then Inl (Some (filter_text v)) else Inr FILTER_ERROR) (accepts_filter v))"

definition where_of :: "string option \<Rightarrow> cond list \<Rightarrow> cond list" where
  "where_of f cs = (case f of None \<Rightarrow> [] | Some s \<Rightarrow> [Paren (Raw s)]) @ map Paren cs"

definition violations_query :: "nat \<Rightarrow> string \<Rightarrow> string \<Rightarrow> source \<Rightarrow> cond list \<Rightarrow> query" where
  "violations_query n prefix star s w = \<lparr>q_before = prefix, q_indent = n, q_blank = False, q_items = [],
     q_star = star, q_source = s, q_where = w, q_group = []\<rparr>"

section \<open>Completeness\<close>

definition VALID_CHECK_MODES :: "string list" where
  "VALID_CHECK_MODES = [''conditional'', ''empty'', ''group'', ''multi_field'', ''null'', ''placeholder'', ''population'']"

text \<open>The MySQL form of a completeness statement.\<close>

definition mysql_ifnull :: "(string \<times> string) list" where
  "mysql_ifnull = [(''NULLIF'', ''IFNULL'')]"

definition counting_query :: "bool \<Rightarrow> string \<Rightarrow> agg \<Rightarrow> agg \<Rightarrow> item \<Rightarrow> cond list \<Rightarrow> query" where
  "counting_query blank tbl present missing rate w = \<lparr>q_before = [], q_indent = 8, q_blank = blank,
     q_items = [Count CountAll ''total_rows'', Count present ''non_null_rows'', Count missing ''null_rows'', rate],
     q_star = ''*'', q_source = Table tbl, q_where = w, q_group = []\<rparr>"

text \<open>
  The statements that count the rows with a value and the rows without; \<open>extra\<close> are conditions on
  all rows.
\<close>

definition present_plan :: "string \<Rightarrow> string option \<Rightarrow> cond list \<Rightarrow> cond \<Rightarrow> cond \<Rightarrow> cond \<Rightarrow> plan" where
  "present_plan tbl f extra present missing violation =
     Plan (counting_query False tbl (CountIf present) (CountIf missing)
             (Rate (CountIf present) CountAll ''completeness_rate'') (where_of f extra))
       (violations_query 8 [] ''*'' (Table tbl) (where_of f [violation])) mysql_ifnull"

definition not_blank :: "string \<Rightarrow> cond list" where
  "not_blank c = [NotNull (Column c), Cmp ''!='' (Trim (Column c)) (Literal [])]"

definition blank :: "string \<Rightarrow> cond list" where
  "blank c = [IsNull (Column c), Cmp ''='' (Trim (Column c)) (Literal [])]"

definition completeness_null :: "(pyval \<Rightarrow> string) \<Rightarrow> string \<Rightarrow> string \<Rightarrow> string option \<Rightarrow> dict \<Rightarrow> py_error + plan" where
  "completeness_null str tbl c f p =
     (case elements_of (dict_get p ''columns'' (PList [])) of
        Inl e \<Rightarrow> Inl e
      | Inr vs \<Rightarrow>
          let cols = map (Column \<circ> show_value str) vs; empty = truthy (dict_get p ''include_empty_strings'' (PBool False))
          in Inr
            (if length vs > 1 \<and> \<not> empty
             then present_plan tbl f [] (AllOf (map NotNull cols)) (AnyOf (map IsNull cols)) (AnyOf (map IsNull cols))
             else if empty
             then present_plan tbl f [] (AllOf (not_blank c)) (AnyOf (blank c)) (AnyOf (blank c))
             else if c = ''*''
             then Plan (counting_query True tbl CountAll (Constant ''0'' 0) (FullRate ''completeness_rate'') (where_of f []))
                    (violations_query 8 [] ''*'' (Table tbl) [Never]) mysql_ifnull
             else Plan (counting_query True tbl (CountCol (Column c)) (Difference CountAll (CountCol (Column c)))
                          (Rate (CountCol (Column c)) CountAll ''completeness_rate'') (where_of f []))
                    (violations_query 8 [] ''*'' (Table tbl) (where_of f [IsNull (Column c)])) mysql_ifnull))"

definition completeness_empty :: "string \<Rightarrow> string \<Rightarrow> string option \<Rightarrow> plan" where
  "completeness_empty tbl c f =
     present_plan tbl f [] (AllOf (not_blank c)) (AnyOf (blank c)) (AnyOf (blank c))"

text \<open>\<open>p.strip().lower()\<close> of every placeholder; only texts have the methods.\<close>

fun placeholder_texts :: "pyval list \<Rightarrow> py_error + string list" where
  "placeholder_texts [] = Inr []"
| "placeholder_texts (v # vs) =
     (case v of
        PStr s \<Rightarrow> map_sum id (Cons (lower (strip s))) (placeholder_texts vs)
      | _ \<Rightarrow> Inl (AttributeError ''strip''))"

definition completeness_placeholder :: "string \<Rightarrow> string \<Rightarrow> string option \<Rightarrow> dict \<Rightarrow> py_error + plan" where
  "completeness_placeholder tbl c f p =
     (let v = dict_get p ''placeholder_values'' (PList [])
      in if \<not> truthy v
         then if v \<in> {PList [], PStr [], PDict []} then Inr (completeness_empty tbl c f)
              else Inl (TypeError ''not iterable'')
         else case elements_of v of
                Inl e \<Rightarrow> Inl e
              | Inr vs \<Rightarrow>
                  (case placeholder_texts vs of
                     Inl e \<Rightarrow> Inl e
                   | Inr ps \<Rightarrow>
                       let t = LowerOf (Trim (Column c)); ls = map Literal ps;
                           missing = AnyOf (blank c @ [InList t ls])
                       in Inr (present_plan tbl f [] (AllOf (not_blank c @ [NotInList t ls])) missing missing)))"

definition completeness_conditional :: "(pyval \<Rightarrow> string) \<Rightarrow> string \<Rightarrow> string \<Rightarrow> string option \<Rightarrow> dict \<Rightarrow> plan" where
  "completeness_conditional str tbl c f p =
     (let cc = dict_get p ''condition_column'' PNone; cv = dict_get p ''condition_value'' PNone
      in if \<not> truthy cc then Reject ''Conditional completeness requires condition_column parameter''
         else if cv = PNone then Reject ''Conditional completeness requires condition_value parameter''
         else let d = Column (show_value str cc);
                  vs = (case cv of PList xs \<Rightarrow> xs | _ \<Rightarrow> [cv]);
                  given = [NotNull d, InList d (map (Literal \<circ> show_value str) vs)]
              in present_plan tbl f [AllOf given] (NotNull (Column c)) (IsNull (Column c))
                   (AllOf (given @ [IsNull (Column c)])))"

definition completeness_multi_field :: "(pyval \<Rightarrow> string) \<Rightarrow> string \<Rightarrow> string option \<Rightarrow> dict \<Rightarrow> py_error + plan" where
  "completeness_multi_field str tbl f p =
     (case elements_of (dict_get p ''columns'' (PList [])) of
        Inl e \<Rightarrow> Inl e
      | Inr vs \<Rightarrow>
          if length vs < 2 then Inr (Reject ''Multi-field completeness requires at least 2 columns'')
          else
            let cols = map (Column \<circ> show_value str) vs;
                (present, missing) =
                  (if dict_get p ''multi_field_mode'' (PStr ''all'') = PStr ''any''
                   then (NotNull (Coalesce cols), AllOf (map IsNull cols))
                   else (AllOf (map NotNull cols), AnyOf (map IsNull cols)))
            in Inr (present_plan tbl f [] present missing missing))"

definition completeness_group :: "(pyval \<Rightarrow> string) \<Rightarrow> string \<Rightarrow> string \<Rightarrow> string option \<Rightarrow> dict \<Rightarrow> py_error + plan" where
  "completeness_group str tbl c f p =
     (let g = dict_get p ''group_by_columns'' (PList [])
      in if \<not> truthy g then Inr (Reject ''Group completeness requires group_by_columns parameter'')
         else case elements_of g of
                Inl e \<Rightarrow> Inl e
              | Inr vs \<Rightarrow>
                  let n = CountCol (Column c);
                      q = (if c = ''*''
                           then counting_query False tbl CountAll (Constant ''0'' 0) (FullRate ''completeness_rate'')
                                  (where_of f [])
                           else counting_query False tbl n (Difference CountAll n) (Rate n CountAll ''completeness_rate'')
                                  (where_of f []))
                  in Inr (Plan (q\<lparr>q_group := map (Column \<circ> show_value str) vs\<rparr>)
                       (violations_query 8 [] ''*'' (Table tbl)
                          (where_of f [if c = ''*'' then Never else IsNull (Column c)])) mysql_ifnull))"

definition completeness_plan :: "(pyval \<Rightarrow> string) \<Rightarrow> string \<Rightarrow> string \<Rightarrow> dict \<Rightarrow> py_error + plan" where
  "completeness_plan str tbl c p =
     (let m = dict_get p ''check_mode'' (PStr ''null'')
      in case in_str_set m VALID_CHECK_MODES of
           Inl e \<Rightarrow> Inl e
         | Inr False \<Rightarrow> Inr (Reject (''Invalid check_mode '' @ [quote] @ show_value str m @ [quote] @ ''. Allowed: '' @
                        join_with '', '' VALID_CHECK_MODES))
         | Inr True \<Rightarrow>
             (case rule_filter p of
                Inl e \<Rightarrow> Inl e
              | Inr (Inr e) \<Rightarrow> Inr (Reject e)
              | Inr (Inl f) \<Rightarrow>
                  if m = PStr ''null'' \<or> m = PStr ''population'' then completeness_null str tbl c f p
                  else if m = PStr ''empty'' then Inr (completeness_empty tbl c f)
                  else if m = PStr ''placeholder'' then completeness_placeholder tbl c f p
                  else if m = PStr ''conditional'' then Inr (completeness_conditional str tbl c f p)
                  else if m = PStr ''multi_field'' then completeness_multi_field str tbl f p
                  else completeness_group str tbl c f p))"

end
