(* ===== verification/ValidityRules.thy ===== *)
theory ValidityRules
  imports RuleCompiler
begin

text \<open>
  The validity dimension of \<open>RuleCompiler\<close>.  The eight kinds of
  checks differ in the condition that makes a row valid; the treatment of nulls is the same.
\<close>

section \<open>Kinds of checks\<close>

definition VALID_VALIDATION_TYPES :: "string list" where
  "VALID_VALIDATION_TYPES = [''allowed_values'', ''business_rule'', ''cross_field'', ''date_logic'', ''negative'',
     ''range'', ''reference_lookup'', ''regex'']"

definition infer_validation_type :: "dict \<Rightarrow> string" where
  "infer_validation_type p =
     (if truthy (dict_get p ''regex_pattern'' PNone) then ''regex''
      else if dict_get p ''min_value'' PNone \<noteq> PNone \<or> dict_get p ''max_value'' PNone \<noteq> PNone then ''range''
      else if truthy (dict_get p ''allowed_values'' PNone) then ''allowed_values''
      else if truthy (dict_get p ''reference_dataset'' PNone) \<or> truthy (dict_get p ''reference_column'' PNone)
      then ''reference_lookup''
      else if truthy (dict_get p ''expression'' PNone) \<or> truthy (dict_get p ''filter_expression'' PNone)
      then ''business_rule''
      else ''unknown'')"

section \<open>The statements of a check\<close>

text \<open>
  The condition of a valid row, as it stands between other conditions and alone, that of an
  invalid one, and when there is nothing to check.
\<close>

record check =
  ck_valid :: cond
  ck_alone :: cond
  ck_invalid :: cond
  ck_null :: cond
  ck_present :: cond

datatype null_mode = NullFail | NullSkip | NullPass

definition null_mode_of :: "dict \<Rightarrow> null_mode" where
  "null_mode_of p =
     (let v = dict_get p ''null_handling'' (PStr ''fail'')
      in if v = PStr ''pass'' then NullPass else if v = PStr ''skip'' then NullSkip else NullFail)"

definition valid_case :: "null_mode \<Rightarrow> check \<Rightarrow> cond" where
  "valid_case m k =
     (case m of
        NullPass \<Rightarrow> AnyOf [ck_valid k, ck_null k]
      | NullSkip \<Rightarrow> AllOf [ck_present k, ck_valid k]
      | NullFail \<Rightarrow> ck_alone k)"

definition invalid_case :: "null_mode \<Rightarrow> check \<Rightarrow> cond" where
  "invalid_case m k =
     (case m of
        NullFail \<Rightarrow> AnyOf [ck_invalid k, ck_null k]
      | _ \<Rightarrow> AllOf [ck_present k, ck_invalid k])"

definition total_expr :: "null_mode \<Rightarrow> check \<Rightarrow> agg" where
  "total_expr m k = (if m = NullSkip then CountIf (ck_present k) else CountAll)"

definition validity_query :: "string \<Rightarrow> source \<Rightarrow> string option \<Rightarrow> null_mode \<Rightarrow> check \<Rightarrow> query" where
  "validity_query prefix s f m k = \<lparr>q_before = prefix, q_indent = 12, q_blank = False,
     q_items = [Count (total_expr m k) ''total_rows'', Count (CountIf (valid_case m k)) ''valid_rows'',
         Count (CountIf (invalid_case m k)) ''invalid_rows'',
         Rate (CountIf (valid_case m k)) (total_expr m k) ''validity_rate''] @
       (if m = NullSkip then [Count (CountIf (ck_null k)) ''skipped_rows''] else []),
     q_star = ''*'', q_source = s, q_where = where_of f [], q_group = []\<rparr>"

definition validity_check_plan ::
    "string \<Rightarrow> string \<Rightarrow> source \<Rightarrow> string option \<Rightarrow> null_mode \<Rightarrow> check \<Rightarrow> (string \<times> string) list \<Rightarrow> plan" where
  "validity_check_plan prefix star s f m k subs =
     Plan (validity_query prefix s f m k)
       (violations_query 12 prefix star s [AnyOf [ck_invalid k, ck_null k]]) subs"

text \<open>A check on one column.\<close>

definition column_check :: "sql_term \<Rightarrow> cond \<Rightarrow> cond \<Rightarrow> cond \<Rightarrow> check" where
  "column_check t ok alone bad = \<lparr>ck_valid = ok, ck_alone = alone, ck_invalid = bad, ck_null = IsNull t,
     ck_present = NotNull t\<rparr>"

definition mysql_regexp :: "(string \<times> string) list" where
  "mysql_regexp = [(''~'', ''REGEXP''), (''!~'', ''NOT REGEXP'')]"

section \<open>The eight kinds\<close>

definition regex_check :: "string \<Rightarrow> string \<Rightarrow> check" where
  "regex_check c pat =
     (let ok = Cmp ''~'' (Column c) (Unescaped pat)
      in column_check (Column c) ok ok (Cmp ''!~'' (Column c) (Unescaped pat)))"

definition validity_regex :: "(pyval \<Rightarrow> string) \<Rightarrow> string \<Rightarrow> string \<Rightarrow> string option \<Rightarrow> dict \<Rightarrow> plan" where
  "validity_regex str tbl c f p =
     validity_check_plan [] ''*'' (Table tbl) f (null_mode_of p)
       (regex_check c (show_value str (dict_get p ''regex_pattern'' (PStr [])))) mysql_regexp"

definition range_check :: "string \<Rightarrow> cond list \<Rightarrow> check" where
  "range_check c bounds = column_check (Column c) (Paren (AllOf bounds)) (AllOf bounds) (Not (Paren (AllOf bounds)))"

definition validity_range :: "(pyval \<Rightarrow> string) \<Rightarrow> string \<Rightarrow> string \<Rightarrow> string option \<Rightarrow> dict \<Rightarrow> plan" where
  "validity_range str tbl c f p =
     (let lo = dict_get p ''min_value'' PNone; hi = dict_get p ''max_value'' PNone;
          bound = (\<lambda>op v. if v = PNone then [] else [Cmp op (Column c) (Number (show_value str v))])
      in if lo = PNone \<and> hi = PNone then Reject ''Range validation requires at least min_value or max_value''
         else validity_check_plan [] ''*'' (Table tbl) f (null_mode_of p)
                (range_check c (bound ''>='' lo @ bound ''<='' hi)) [])"

definition in_check :: "bool \<Rightarrow> string \<Rightarrow> string list \<Rightarrow> check" where
  "in_check case_sensitive c vs =
     (let t = (if case_sensitive then Column c else LowerOf (Column c));
          ls = map Literal (if case_sensitive then vs else map lower vs)
      in column_check (Column c) (InList t ls) (InList t ls) (NotInList t ls))"

text \<open>More than 1000 values are joined instead.\<close>

definition values_before :: "string list \<Rightarrow> string" where
  "values_before vs = ''WITH ref_values AS (SELECT unnest(ARRAY['' @ join_with '', '' (map (show_term \<circ> Literal) vs) @
     '']) AS val)'' @ line 12"

definition values_source :: "bool \<Rightarrow> string \<Rightarrow> string \<Rightarrow> source" where
  "values_source case_sensitive tbl c =
     (let t = Member ''t'' c; v = Plain ''ref_values'' ''val''
      in LeftJoin tbl ''ref_values'' ''ref_values''
           (if case_sensitive then Cmp ''='' t v else Cmp ''='' (LowerOf t) (LowerOf v)))"

definition joined_check :: "string \<Rightarrow> sql_term \<Rightarrow> check" where
  "joined_check c v = column_check (Member ''t'' c) (NotNull v) (NotNull v) (IsNull v)"

definition validity_allowed_values ::
    "(pyval \<Rightarrow> string) \<Rightarrow> string \<Rightarrow> string \<Rightarrow> string option \<Rightarrow> dict \<Rightarrow> py_error + plan" where
  "validity_allowed_values str tbl c f p =
     (let av = dict_get p ''allowed_values'' (PList []); cs = truthy (dict_get p ''case_sensitive'' (PBool True))
      in if \<not> truthy av
         then Inr (Reject ''Allowed values validation requires a non-empty allowed_values list'')
         else case elements_of av of
                Inl e \<Rightarrow> Inl e
              | Inr xs \<Rightarrow>
                  let vs = map (show_value str) xs
                  in Inr (if length xs > 1000
                     then validity_check_plan (values_before vs) ''t.*'' (values_source cs tbl c) f (null_mode_of p)
                            (joined_check c (Plain ''ref_values'' ''val'')) mysql_regexp
                     else validity_check_plan [] ''*'' (Table tbl) f (null_mode_of p) (in_check cs c vs) mysql_regexp))"

text \<open>\<open>^[\w.]+$\<close>: the dollar also matches before a last line feed.\<close>

definition is_word :: "char \<Rightarrow> bool" where
  "is_word c \<longleftrightarrow> is_alpha c \<or> is_digit c \<or> c = CHR ''_'' \<or>
     code_of c \<in> {170, 178, 179, 181, 185, 186, 188, 189, 190} \<or>
     (192 \<le> code_of c \<and> code_of c \<noteq> 215 \<and> code_of c \<noteq> 247)"

definition valid_identifier :: "string \<Rightarrow> bool" where
  "valid_identifier s \<longleftrightarrow>
     (let t = (if s \<noteq> [] \<and> last s = CHR 0x0A then butlast s else s)
      in t \<noteq> [] \<and> list_all (\<lambda>c. is_word c \<or> c = CHR ''.'') t)"

definition quoted_reference :: "string \<Rightarrow> string" where
  "quoted_reference s =
     (if CHR ''.'' \<in> set s
      then quoted (takeWhile (\<lambda>c. c \<noteq> CHR ''.'') s) @ ''.'' @ quoted (tl (dropWhile (\<lambda>c. c \<noteq> CHR ''.'') s))
      else quoted s)"

definition validity_reference_lookup :: "string \<Rightarrow> string \<Rightarrow> string option \<Rightarrow> dict \<Rightarrow> py_error + plan" where
  "validity_reference_lookup tbl c f p =
     (let d = dict_get p ''reference_dataset'' PNone; e = dict_get p ''reference_column'' PNone
      in if \<not> truthy d \<or> \<not> truthy e
         then Inr (Reject ''reference_lookup requires both reference_dataset and reference_column'')
         else case (d, e) of
                (PStr ds, PStr col) \<Rightarrow>
                  Inr (if \<not> valid_identifier ds \<or> \<not> valid_identifier col
                     then Reject ''reference_dataset and reference_column must be valid identifiers''
                     else validity_check_plan [] ''t.*''
                            (LeftJoin tbl (quoted_reference ds) ''ref'' (Cmp ''='' (Member ''t'' c) (Member ''ref'' col))) f
                            (null_mode_of p) (joined_check c (Member ''ref'' col)) [])
              | (PStr ds, _) \<Rightarrow>
                  if valid_identifier ds then Inl (TypeError ''expected string'')
                  else Inr (Reject ''reference_dataset and reference_column must be valid identifiers'')
              | _ \<Rightarrow> Inl (TypeError ''expected string''))"

text \<open>The expression of a rule, and of a constraint that must not hold.\<close>

definition expression_check :: "bool \<Rightarrow> string \<Rightarrow> string \<Rightarrow> check" where
  "expression_check negative c e =
     (let ok = (if negative then Not (Paren (Raw e)) else Paren (Raw e));
          bad = (if negative then Paren (Raw e) else Not (Paren (Raw e)))
      in column_check (Column c) ok ok bad)"

definition validity_expression :: "bool \<Rightarrow> string \<Rightarrow> string \<Rightarrow> string option \<Rightarrow> dict \<Rightarrow> py_error + plan" where
  "validity_expression negative tbl c f p =
     (let kind = (if negative then ''negative'' else ''business_rule'');
          key = (if negative then ''negative_expression'' else ''business_rule_expression'');
          v = dict_get p key PNone
      in if \<not> truthy v then Inr (Reject (kind @ '' requires a '' @ key))
         else case accepts_filter v of
                Inl e \<Rightarrow> Inl e
              | Inr ok \<Rightarrow>
                  Inr (if \<not> ok then Reject (key @ '' contains forbidden SQL constructs'')
                     else validity_check_plan [] ''*'' (Table tbl) f (null_mode_of p)
                            (expression_check negative c (filter_text v)) []))"

definition VALID_COMPARISON_OPERATORS :: "string list" where
  "VALID_COMPARISON_OPERATORS = [''!='', ''<'', ''<='', ''='', ''>'', ''>='']"

definition OP_ALIASES :: "(string \<times> string) list" where
  "OP_ALIASES =
     [(''='', ''=''), (''=='', ''=''), (''eq'', ''=''), (''equal'', ''=''), (''equals'', ''=''),
      (''!='', ''!=''), (''<>'', ''!=''), (''ne'', ''!=''), (''not_equal'', ''!=''), (''not_equals'', ''!=''),
      (''<'', ''<''), (''lt'', ''<''), (''less'', ''<''), (''less_than'', ''<''), (''before'', ''<''),
      (''<='', ''<=''), (''lte'', ''<=''), (''less_equal'', ''<=''), (''less_than_or_equal'', ''<=''),
      (''on_or_before'', ''<=''), (''not_after'', ''<=''),
      (''>'', ''>''), (''gt'', ''>''), (''greater'', ''>''), (''greater_than'', ''>''), (''after'', ''>''),
      (''>='', ''>=''), (''gte'', ''>=''), (''greater_equal'', ''>=''), (''greater_than_or_equal'', ''>=''),
      (''on_or_after'', ''>=''), (''not_before'', ''>='')]"

definition normalize_comparison_operator :: "string \<Rightarrow> string" where
  "normalize_comparison_operator s = (case map_of OP_ALIASES (lower (strip s)) of None \<Rightarrow> s | Some x \<Rightarrow> x)"

definition fields_check :: "bool \<Rightarrow> string \<Rightarrow> string \<Rightarrow> string \<Rightarrow> check" where
  "fields_check dates op c d =
     (let cast = (if dates then DateOf else id);
          cmp = Paren (Cmp op (cast (Column c)) (cast (Column d)));
          either = Paren (AnyOf [IsNull (Column c), IsNull (Column d)])
      in \<lparr>ck_valid = cmp, ck_alone = cmp, ck_invalid = Not cmp, ck_null = either, ck_present = Not either\<rparr>)"

definition validity_fields ::
    "(pyval \<Rightarrow> string) \<Rightarrow> bool \<Rightarrow> string \<Rightarrow> string \<Rightarrow> string option \<Rightarrow> dict \<Rightarrow> plan" where
  "validity_fields str dates tbl c f p =
     (let d = dict_get p ''comparison_column'' PNone;
          raw = py_or (py_or (dict_get p ''comparison_operator'' PNone) (dict_get p ''date_operator'' PNone))
                  (PStr (if dates then ''<='' else ''=''));
          op = normalize_comparison_operator (show_value str raw)
      in if \<not> truthy d
         then Reject ((if dates then ''date_logic'' else ''cross_field'') @ '' requires comparison_column'')
         else if op \<notin> set VALID_COMPARISON_OPERATORS
         then Reject (''Invalid comparison_operator '' @ [quote] @ op @ [quote] @ ''. Allowed: '' @
                join_with '', '' VALID_COMPARISON_OPERATORS)
         else validity_check_plan [] ''*'' (Table tbl) f (null_mode_of p) (fields_check dates op c (show_value str d)) [])"

section \<open>Dispatch\<close>

definition validity_plan :: "(pyval \<Rightarrow> string) \<Rightarrow> string \<Rightarrow> string \<Rightarrow> dict \<Rightarrow> py_error + plan" where
  "validity_plan str tbl c p =
     (let t = dict_get p ''validation_type'' (PStr (infer_validation_type p))
      in case in_str_set t VALID_VALIDATION_TYPES of
           Inl e \<Rightarrow> Inl e
         | Inr False \<Rightarrow> Inr (Reject (''Unknown validation_type '' @ [quote] @ show_value str t @ [quote] @ ''. Allowed: '' @
                        join_with '', '' VALID_VALIDATION_TYPES))
         | Inr True \<Rightarrow>
             (case rule_filter p of
                Inl e \<Rightarrow> Inl e
              | Inr (Inr e) \<Rightarrow> Inr (Reject e)
              | Inr (Inl f) \<Rightarrow>
                  if t = PStr ''allowed_values'' then validity_allowed_values str tbl c f p
                  else if t = PStr ''range'' then Inr (validity_range str tbl c f p)
                  else if t = PStr ''regex'' then Inr (validity_regex str tbl c f p)
                  else if t = PStr ''reference_lookup'' then validity_reference_lookup tbl c f p
                  else if t = PStr ''business_rule'' then validity_expression False tbl c f p
                  else if t = PStr ''negative'' then validity_expression True tbl c f p
                  else Inr (validity_fields str (t = PStr ''date_logic'') tbl c f p)))"

end
