(* ===== verification/CompiledCounts.thy ===== *)
theory CompiledCounts
  imports ValidityRules ExecutionOutcomes
begin

text \<open>
  What the compiled statements count, and whether the rows listed as violations are the rows
  counted as failures; from the parameters of a rule to the counts of its execution.
\<close>

section \<open>Selection\<close>

lemma t_and_true [simp]: "t_and a b = Some True \<longleftrightarrow> a = Some True \<and> b = Some True"
  by (auto simp: t_and_def)

lemma t_or_true [simp]: "t_or a b = Some True \<longleftrightarrow> a = Some True \<or> b = Some True"
  by (auto simp: t_or_def)

lemma foldr_t_and: "foldr t_and xs (Some True) = Some True \<longleftrightarrow> (\<forall>x \<in> set xs. x = Some True)"
  by (induction xs) auto

lemma foldr_t_or: "foldr t_or xs (Some False) = Some True \<longleftrightarrow> (\<exists>x \<in> set xs. x = Some True)"
  by (induction xs) auto

lemma selects_simps [simp]:
  "selects E (IsNull t) r \<longleftrightarrow> term_value E r t = None"
  "selects E (NotNull t) r \<longleftrightarrow> term_value E r t \<noteq> None"
  "selects E (AllOf cs) r \<longleftrightarrow> (\<forall>c \<in> set cs. selects E c r)"
  "selects E (AnyOf cs) r \<longleftrightarrow> (\<exists>c \<in> set cs. selects E c r)"
  "selects E (Paren c) r \<longleftrightarrow> selects E c r"
  "selects E Never r \<longleftrightarrow> False"
proof -
  have "Some True \<in> g ` A \<longleftrightarrow> (\<exists>x \<in> A. g x = Some True)" for g :: "cond \<Rightarrow> bool option" and A
    by force
  then show "selects E (IsNull t) r \<longleftrightarrow> term_value E r t = None"
    "selects E (NotNull t) r \<longleftrightarrow> term_value E r t \<noteq> None"
    "selects E (AllOf cs) r \<longleftrightarrow> (\<forall>c \<in> set cs. selects E c r)"
    "selects E (AnyOf cs) r \<longleftrightarrow> (\<exists>c \<in> set cs. selects E c r)"
    "selects E (Paren c) r \<longleftrightarrow> selects E c r"
    "selects E Never r \<longleftrightarrow> False"
    by (auto simp: selects_def foldr_t_and foldr_t_or)
qed

lemma selects_where_of [simp]:
  "(\<forall>c \<in> set (where_of f cs). selects E c r) \<longleftrightarrow>
     (\<forall>s \<in> set_option f. selects E (Raw s) r) \<and> (\<forall>c \<in> set cs. selects E c r)"
  by (cases f) (auto simp: where_of_def)

text \<open>The conditions are printed as \<open>_build_where_clause\<close> prints them.\<close>

lemma show_where_of:
  assumes "\<And>c. c \<in> set cs \<Longrightarrow> show_cond c \<noteq> []" and "f \<noteq> Some []" and "length cs \<le> 1"
  shows "show_where (where_of f cs) =
    build_where_clause f (case cs of [] \<Rightarrow> None | c # _ \<Rightarrow> Some (show_cond c))"
  using assms by (cases cs; cases f) (auto simp: show_where_def where_of_def build_where_clause_def)

section \<open>Rows with and without a value\<close>

text \<open>A database compares any two values, and its operators come in pairs of opposites.\<close>

definition opposites :: "'v engine \<Rightarrow> string \<Rightarrow> string \<Rightarrow> bool" where
  "opposites E p p' \<longleftrightarrow> (\<forall>x y. en_cmp E p' x y \<longleftrightarrow> \<not> en_cmp E p x y)"

definition engine_ok :: "'v engine \<Rightarrow> bool" where
  "engine_ok E \<longleftrightarrow> opposites E ''='' ''!='' \<and> opposites E ''~'' ''!~'' \<and> opposites E ''<='' ''>'' \<and> opposites E ''>='' ''<''"

lemma engine_okD:
  "engine_ok E \<Longrightarrow> en_cmp E ''!='' x y \<longleftrightarrow> \<not> en_cmp E ''='' x y"
  "engine_ok E \<Longrightarrow> en_cmp E ''!~'' x y \<longleftrightarrow> \<not> en_cmp E ''~'' x y"
  "engine_ok E \<Longrightarrow> en_cmp E ''>'' x y \<longleftrightarrow> \<not> en_cmp E ''<='' x y"
  "engine_ok E \<Longrightarrow> en_cmp E ''<'' x y \<longleftrightarrow> \<not> en_cmp E ''>='' x y"
  by (simp_all add: engine_ok_def opposites_def)

text \<open>Two conditions of which each row satisfies exactly one.\<close>

definition splits_rows :: "'v engine \<Rightarrow> cond \<Rightarrow> cond \<Rightarrow> bool" where
  "splits_rows E present missing \<longleftrightarrow> (\<forall>r. selects E missing r \<longleftrightarrow> \<not> selects E present r)"

lemma splits_null: "splits_rows E (NotNull t) (IsNull t)"
  by (simp add: splits_rows_def)

lemma splits_columns: "splits_rows E (AllOf (map (NotNull \<circ> g) xs)) (AnyOf (map (IsNull \<circ> g) xs))"
  by (simp add: splits_rows_def)

lemma first_value_None: "first_value vs = None \<longleftrightarrow> (\<forall>v \<in> set vs. v = None)"
  by (induction vs rule: first_value.induct) auto

lemma splits_coalesce: "splits_rows E (NotNull (Coalesce (map g xs))) (AllOf (map (IsNull \<circ> g) xs))"
  by (auto simp: splits_rows_def first_value_None)

lemma selects_blank:
  assumes "engine_ok E"
  shows "selects E (Cmp ''!='' (Trim t) (Literal s)) r \<longleftrightarrow>
    term_value E r t \<noteq> None \<and> \<not> selects E (Cmp ''='' (Trim t) (Literal s)) r"
  using assms by (auto simp: engine_okD selects_def compare_values_def split: option.splits)

lemma splits_blank: "engine_ok E \<Longrightarrow> splits_rows E (AllOf (not_blank c)) (AnyOf (blank c))"
  by (auto simp: splits_rows_def not_blank_def blank_def selects_blank)

lemma selects_not_in:
  assumes "\<And>v. v \<in> set vs \<Longrightarrow> term_value E r v \<noteq> None"
  shows "selects E (NotInList t vs) r \<longleftrightarrow> \<not> selects E (InList t vs) r \<and> (vs = [] \<or> term_value E r t \<noteq> None)"
proof -
  have "in_values E x ys = None \<longleftrightarrow> x = None \<and> ys \<noteq> []" if "\<forall>y \<in> set ys. y \<noteq> None" for x and ys :: "'a option list"
    using that by (induction ys) (auto simp: in_values_def compare_values_def t_or_def split: option.splits)
  from this [of "map (term_value E r) vs" "term_value E r t"] assms show ?thesis
    by (auto simp: selects_def t_not_def)
qed

lemma splits_placeholder:
  assumes "engine_ok E"
  shows "splits_rows E (AllOf (not_blank c @ [NotInList (LowerOf (Trim (Column c))) (map Literal ps)]))
    (AnyOf (blank c @ [InList (LowerOf (Trim (Column c))) (map Literal ps)]))"
  unfolding splits_rows_def
proof
  fix r
  have "selects E (NotInList (LowerOf (Trim (Column c))) (map Literal ps)) r \<longleftrightarrow>
      \<not> selects E (InList (LowerOf (Trim (Column c))) (map Literal ps)) r \<and> (map Literal ps = [] \<or> r (None, c) \<noteq> None)"
    by (subst selects_not_in) auto
  with assms show "selects E (AnyOf (blank c @ [InList (LowerOf (Trim (Column c))) (map Literal ps)])) r \<longleftrightarrow>
      \<not> selects E (AllOf (not_blank c @ [NotInList (LowerOf (Trim (Column c))) (map Literal ps)])) r"
    by (auto simp: not_blank_def blank_def selects_blank)
qed

section \<open>Completeness\<close>

definition completeness_row :: "nat \<Rightarrow> nat \<Rightarrow> pyval \<Rightarrow> dict" where
  "completeness_row a b x = [(''total_rows'', PInt (int a + int b)), (''non_null_rows'', PInt (int a)),
     (''null_rows'', PInt (int b)), (''completeness_rate'', x)]"

text \<open>What the executor reads from a row with the columns of a dimension.\<close>

lemma read_row:
  assumes "map_of DIM_ALIASES d = Some (good, bad)" and "d \<notin> {''uniqueness'', ''reconciliation''}"
    and "dict_get r ''total_rows'' PNone = PInt n" and "dict_get r good PNone = PInt a" and "dict_get r bad PNone = PInt b"
  shows "read_counts ft (PStr d) r =
    Inr \<lparr>rows_scanned = (if n = 0 then a + b else n), rows_passed = a, rows_failed = b\<rparr>"
  using assms by (auto simp: read_counts_def aliased_def int_or_zero_def to_int_def Let_def)

lemma read_completeness_row:
  "read_counts ft (PStr ''completeness'') (completeness_row a b x) =
     Inr \<lparr>rows_scanned = int a + int b, rows_passed = int a, rows_failed = int b\<rparr>"
  by (subst read_row [where n = "int a + int b" and a = "int a" and b = "int b"])
    (auto simp: DIM_ALIASES_def completeness_row_def dict_get_def)

text \<open>A statement counts exactly: the rows it reads are with a value or without, and those without are listed.\<close>

definition counts_exactly :: "'v engine \<Rightarrow> (string \<Rightarrow> 'v sql_row list) \<Rightarrow> query \<Rightarrow> query \<Rightarrow> bool" where
  "counts_exactly E tables q v \<longleftrightarrow>
     (\<exists>a x. let b = length (selected_rows E tables v)
            in query_result E tables q = completeness_row a b x \<and> a + b = length (selected_rows E tables q))"

lemma counting_query_simps [simp]:
  "q_source (counting_query n tbl p m i w) = Table tbl" "q_where (counting_query n tbl p m i w) = w"
  "q_group (counting_query n tbl p m i w) = []"
  "q_source (violations_query k pre star s w) = s" "q_where (violations_query k pre star s w) = w"
  by (simp_all add: counting_query_def violations_query_def)

lemma counts_exactlyI:
  assumes "query_result E tables (counting_query n tbl present missing i w) =
      [(''total_rows'', PInt (int (length rs))), (''non_null_rows'', PInt (int (length (filter P rs)))),
       (''null_rows'', PInt (int (length (filter (\<lambda>r. \<not> P r) rs)))), (''completeness_rate'', x)]"
    and "rs = selected_rows E tables (counting_query n tbl present missing i w)"
    and "length (selected_rows E tables v) = length (filter (\<lambda>r. \<not> P r) rs)"
  shows "counts_exactly E tables (counting_query n tbl present missing i w) v"
  unfolding counts_exactly_def Let_def completeness_row_def
  by (rule exI [of _ "length (filter P rs)"])
    (use assms sum_length_filter_compl [of P rs] in \<open>auto simp flip: of_nat_add\<close>)

lemma present_plan_exact:
  assumes "present_plan tbl f extra present missing violation = Plan q v subs" and "splits_rows E present missing"
    and "\<And>r. selects E violation r \<longleftrightarrow> (\<forall>c \<in> set extra. selects E c r) \<and> selects E missing r"
  shows "counts_exactly E tables q v"
proof -
  let ?i = "Rate (CountIf present) CountAll ''completeness_rate''" and ?w = "where_of f extra"
  let ?q = "counting_query False tbl (CountIf present) (CountIf missing) ?i ?w"
  have qv: "q = ?q" "v = violations_query 8 [] ''*'' (Table tbl) (where_of f [violation])"
    using assms(1) by (simp_all add: present_plan_def)
  have missing: "selects E missing = (\<lambda>r. \<not> selects E present r)" using assms(2) by (auto simp: splits_rows_def)
  show ?thesis unfolding qv(1)
  proof (rule counts_exactlyI [where P = "selects E present" and rs = "selected_rows E tables ?q"])
    show "length (selected_rows E tables v) = length (filter (\<lambda>r. \<not> selects E present r) (selected_rows E tables ?q))"
      by (auto simp: qv(2) selected_rows_def source_rows_def assms(3) missing intro!: arg_cong [where f = length] filter_cong)
  qed (auto simp: query_result_def item_value_def missing counting_query_def)
qed

lemma value_count_exact:
  assumes "\<And>rs. agg_value E rs n = int (length (filter P rs))"
    and "\<And>rs. agg_value E rs m = int (length rs) - int (length (filter P rs))"
    and "selected_rows E tables v = filter (\<lambda>r. \<not> P r) (selected_rows E tables (counting_query b tbl n m i w))"
    and "\<And>rs. fst (item_value E rs i) = ''completeness_rate''"
  shows "counts_exactly E tables (counting_query b tbl n m i w) v"
proof (rule counts_exactlyI)
  let ?rs = "selected_rows E tables (counting_query b tbl n m i w)"
  have "int (length ?rs) - int (length (filter P ?rs)) = int (length (filter (\<lambda>r. \<not> P r) ?rs))"
    using sum_length_filter_compl [of P ?rs] by linarith
  then show "query_result E tables (counting_query b tbl n m i w) =
      [(''total_rows'', PInt (int (length ?rs))), (''non_null_rows'', PInt (int (length (filter P ?rs)))),
       (''null_rows'', PInt (int (length (filter (\<lambda>r. \<not> P r) ?rs)))),
       (''completeness_rate'', snd (item_value E ?rs i))]"
    using assms(4) [of ?rs] by (simp add: query_result_def counting_query_def item_value_def assms(1,2) prod_eq_iff)
qed (use assms(3) in auto)

lemma all_present_exact:
  "selected_rows E tables v = [] \<Longrightarrow>
    counts_exactly E tables (counting_query b tbl CountAll (Constant ''0'' 0) (FullRate ''completeness_rate'') w) v"
  by (rule value_count_exact [where P = "\<lambda>_. True"]) (simp_all add: item_value_def)

lemma column_exact:
  "counts_exactly E tables
     (counting_query b tbl (CountCol t) (Difference CountAll (CountCol t)) (Rate (CountCol t) CountAll ''completeness_rate'')
       (where_of f []))
     (violations_query k pre star (Table tbl) (where_of f [IsNull t]))"
  by (rule value_count_exact [where P = "\<lambda>r. term_value E r t \<noteq> None"])
    (auto simp: item_value_def selected_rows_def source_rows_def intro!: filter_cong)

lemma completeness_null_exact:
  assumes "engine_ok E" and "completeness_null str tbl c f p = Inr (Plan q v subs)"
  shows "counts_exactly E tables q v"
proof -
  have none: "selected_rows E tables (violations_query k pre star s [Never]) = []" for k pre star s
    by (simp add: selected_rows_def)
  show ?thesis using assms(2) unfolding completeness_null_def Let_def
    by (auto split: sum.splits if_splits intro!: all_present_exact column_exact none
        elim!: present_plan_exact intro: splits_columns splits_blank [OF assms(1)] simp: selects_simps)
qed

lemma completeness_placeholder_exact:
  assumes "engine_ok E" and "completeness_placeholder tbl c f p = Inr (Plan q v subs)"
  shows "counts_exactly E tables q v"
  using assms(2) unfolding completeness_placeholder_def completeness_empty_def Let_def
  by (auto split: sum.splits if_splits elim!: present_plan_exact
      intro: splits_placeholder [OF assms(1)] splits_blank [OF assms(1)])

lemma completeness_conditional_exact:
  assumes "completeness_conditional str tbl c f p = Plan q v subs"
  shows "counts_exactly E tables q v"
  using assms unfolding completeness_conditional_def Let_def
  by (auto split: if_splits elim!: present_plan_exact intro: splits_null)

lemma completeness_multi_field_exact:
  assumes "completeness_multi_field str tbl f p = Inr (Plan q v subs)"
  shows "counts_exactly E tables q v"
  using assms unfolding completeness_multi_field_def Let_def
  by (auto split: sum.splits if_splits elim!: present_plan_exact intro: splits_columns splits_coalesce)

lemma completeness_plan_exact:
  assumes "engine_ok E" and "completeness_plan str tbl c p = Inr (Plan q v subs)"
    and "dict_get p ''check_mode'' (PStr ''null'') \<noteq> PStr ''group''"
  shows "counts_exactly E tables q v"
proof -
  have "completeness_empty tbl c f = Plan q v subs \<Longrightarrow> counts_exactly E tables q v" for f
    unfolding completeness_empty_def by (elim present_plan_exact) (auto intro: splits_blank [OF assms(1)])
  then show ?thesis
    using assms completeness_null_exact [OF assms(1)] completeness_placeholder_exact [OF assms(1)]
      completeness_conditional_exact completeness_multi_field_exact
    unfolding completeness_plan_def Let_def
    by (auto split: sum.splits bool.splits if_splits simp: in_str_set_def VALID_CHECK_MODES_def split: pyval.splits)
qed

text \<open>
  C19: The statement compiled for a completeness rule of any mode but \<open>group\<close> returns one row whose
  counts are exact: every row the filter lets through is counted once, with a value or without, the
  executor reads these numbers as scanned, passed and failed, and the second statement lists
  exactly as many rows as were counted without a value.  The database takes two texts to differ
  exactly when they are not equal.
\<close>

theorem completeness_counts_are_exact:
  assumes "engine_ok E" and "completeness_plan str tbl c p = Inr (Plan q v subs)"
    and "dict_get p ''check_mode'' (PStr ''null'') \<noteq> PStr ''group''"
  shows "read_counts ft (PStr ''completeness'') (query_result E tables q) =
    Inr \<lparr>rows_scanned = int (length (selected_rows E tables q)),
         rows_passed = int (length (selected_rows E tables q)) - int (length (selected_rows E tables v)),
         rows_failed = int (length (selected_rows E tables v))\<rparr>"
proof -
  from completeness_plan_exact [OF assms, of tables] obtain a x where
    "query_result E tables q = completeness_row a (length (selected_rows E tables v)) x"
    and "a + length (selected_rows E tables v) = length (selected_rows E tables q)"
    by (auto simp: counts_exactly_def Let_def)
  then show ?thesis by (simp add: read_completeness_row flip: of_nat_add)
qed

text \<open>
  A database of texts: patterns are prefixes, and the text of a user names a column that must not be
  empty.
\<close>

definition text_engine :: "string engine" where
  "text_engine = \<lparr>en_text = id, en_number = id, en_trim = strip, en_lower = lower, en_date = id,
     en_call = (\<lambda>f x. if f = ''LOWER'' then lower x else x),
     en_bin = (\<lambda>f x y. x @ y), en_zero = (\<lambda>x. x = ''0''), en_stat = (\<lambda>f vs. None), en_py = PStr, en_expr = (\<lambda>s r. r (None, s)),
     en_cmp = (\<lambda>p x y. if p = ''='' then x = y else if p = ''!='' then x \<noteq> y
       else if p = ''~'' then starts_with y x else if p = ''!~'' then \<not> starts_with y x
       else if p = ''<='' then length x \<le> length y else if p = ''>'' then length y < length x
       else if p = ''>='' then length y \<le> length x else length x < length y),
     en_raw = (\<lambda>s r. map_option (\<lambda>v. v \<noteq> []) (r (None, s)))\<rparr>"

lemma text_engine_ok: "engine_ok text_engine"
  by (auto simp: engine_ok_def opposites_def text_engine_def)

definition text_row :: "(string \<times> string) list \<Rightarrow> string sql_row" where
  "text_row cs = (\<lambda>(t, c). if t = None then map_of cs c else None)"

definition people :: "string sql_row list" where
  "people = [text_row [(''name'', ''ada''), (''city'', ''rome'')], text_row [(''name'', '' ''), (''city'', ''oslo'')],
     text_row [(''city'', ''bonn'')], text_row [(''name'', ''N/A ''), (''city'', ''rome'')]]"

theorem completeness_counts_are_exact_witness:
  "\<exists>q v subs. completeness_plan (\<lambda>_. []) ''people'' ''name'' [(''check_mode'', PStr ''placeholder''),
       (''placeholder_values'', PList [PStr ''n/a''])] = Inr (Plan q v subs) \<and>
     length (selected_rows text_engine (\<lambda>_. people) v) = 3 \<and>
     read_counts (\<lambda>_. None) (PStr ''completeness'') (query_result text_engine (\<lambda>_. people) q) =
       Inr \<lparr>rows_scanned = 4, rows_passed = 1, rows_failed = 3\<rparr>"
proof -
  let ?p = "[(''check_mode'', PStr ''placeholder''), (''placeholder_values'', PList [PStr ''n/a''])]"
  let ?plan = "completeness_plan (\<lambda>_. []) ''people'' ''name'' ?p"
  have "case ?plan of Inr (Plan q v subs) \<Rightarrow> length (selected_rows text_engine (\<lambda>_. people) v) = 3 \<and>
      length (selected_rows text_engine (\<lambda>_. people) q) = 4 | _ \<Rightarrow> False"
    by code_simp
  then obtain q v subs where *: "?plan = Inr (Plan q v subs)"
      "length (selected_rows text_engine (\<lambda>_. people) v) = 3" "length (selected_rows text_engine (\<lambda>_. people) q) = 4"
    by (auto split: sum.splits plan.splits)
  have "dict_get ?p ''check_mode'' (PStr ''null'') \<noteq> PStr ''group''" by simp
  from completeness_counts_are_exact [OF text_engine_ok *(1) this, of "\<lambda>_. None" "\<lambda>_. people"] * show ?thesis
    by auto
qed

end
