(* ===== verification/ValidityCounts.thy ===== *)
theory ValidityCounts
  imports CompiledCounts
begin

text \<open>
  What the statements of the validity dimension count: each row once, except for the expressions a
  user writes, and what the list of violations does not take into account.
\<close>

section \<open>Checks that decide every row\<close>

lemma selects_not [simp]: "selects E (Not c) r \<longleftrightarrow> holds E r c = Some False"
  by (auto simp: selects_def t_not_def)

text \<open>
  A check decides a row when a row with a value is either valid or invalid, in the same way alone and
  between other conditions, and a row without is not valid.
\<close>

definition decides :: "'v engine \<Rightarrow> check \<Rightarrow> 'v sql_row \<Rightarrow> bool" where
  "decides E k r \<longleftrightarrow> (selects E (ck_null k) r \<longleftrightarrow> \<not> selects E (ck_present k) r) \<and>
     (if selects E (ck_present k) r
      then (selects E (ck_alone k) r \<longleftrightarrow> selects E (ck_valid k) r) \<and>
           (selects E (ck_invalid k) r \<longleftrightarrow> \<not> selects E (ck_valid k) r)
      else \<not> selects E (ck_alone k) r)"

text \<open>The rows the counts are about: all of them, or those with a value.\<close>

definition counted :: "'v engine \<Rightarrow> null_mode \<Rightarrow> check \<Rightarrow> 'v sql_row \<Rightarrow> bool" where
  "counted E m k r \<longleftrightarrow> m = NullSkip \<longrightarrow> selects E (ck_present k) r"

lemma decided_cases:
  assumes "decides E k r"
  shows "selects E (valid_case m k) r \<longleftrightarrow> counted E m k r \<and> \<not> selects E (invalid_case m k) r"
    and "selects E (invalid_case m k) r \<Longrightarrow> counted E m k r"
  using assms by (cases m; auto simp: decides_def counted_def valid_case_def invalid_case_def split: if_splits)+

lemma counted_total: "agg_value E rs (total_expr m k) = int (length (filter (counted E m k) rs))"
proof -
  have "counted E NullSkip k = selects E (ck_present k)" "m \<noteq> NullSkip \<Longrightarrow> counted E m k = (\<lambda>_. True)"
    by (auto simp: counted_def)
  then show ?thesis by (cases "m = NullSkip") (simp_all add: total_expr_def)
qed

lemma decided_counts:
  assumes "\<forall>r \<in> set rs. decides E k r"
  shows "length (filter (counted E m k) rs) =
    length (filter (selects E (valid_case m k)) rs) + length (filter (selects E (invalid_case m k)) rs)"
  using assms by (induction rs) (auto simp: decided_cases)

section \<open>The kinds of checks\<close>

lemma decides_regex: "engine_ok E \<Longrightarrow> decides E (regex_check c pat) r"
  by (auto simp: engine_okD decides_def regex_check_def column_check_def selects_def compare_values_def Let_def)

lemma bounds_two_valued:
  assumes "\<forall>b \<in> set bs. \<exists>op s. b = Cmp op (Column c) (Number s)"
  shows "r (None, c) \<noteq> None \<Longrightarrow> holds E r (AllOf bs) \<noteq> None"
    and "r (None, c) = None \<Longrightarrow> holds E r (AllOf bs) = (if bs = [] then Some True else None)"
  using assms by (induction bs) (auto simp: t_and_def compare_values_def)

lemma decides_range:
  assumes "\<forall>b \<in> set bs. \<exists>op s. b = Cmp op (Column c) (Number s)" and "bs \<noteq> []"
  shows "decides E (range_check c bs) r"
proof (cases "r (None, c)")
  case None
  with bounds_two_valued(2) [OF assms(1), of r E] assms(2) show ?thesis
    by (simp add: decides_def range_check_def column_check_def selects_def t_not_def del: holds.simps(6))
next
  case (Some x)
  with bounds_two_valued(1) [OF assms(1), of r E] show ?thesis
    by (auto simp: decides_def range_check_def column_check_def selects_def t_not_def simp del: holds.simps(6))
qed

lemma decides_list:
  assumes "ls = map Literal ws" and "ws \<noteq> []" and "term_value E r t = None \<longleftrightarrow> r (None, c) = None"
  shows "decides E (column_check (Column c) (InList t ls) (InList t ls) (NotInList t ls)) r"
proof -
  have "selects E (InList t us) r \<Longrightarrow> term_value E r t \<noteq> None" for us
    by (induction us) (auto simp: selects_def in_values_def compare_values_def split: option.splits)
  moreover have "selects E (NotInList t ls) r \<longleftrightarrow> \<not> selects E (InList t ls) r \<and> term_value E r t \<noteq> None"
    using assms(2) by (subst selects_not_in) (auto simp: assms(1))
  ultimately show ?thesis using assms(3) by (auto simp: decides_def column_check_def)
qed

lemma decides_in: "vs \<noteq> [] \<Longrightarrow> decides E (in_check cs c vs) r"
  unfolding in_check_def Let_def
  by (rule decides_list [where ws = "if cs then vs else map lower vs"]) auto

lemma decides_fields: "decides E (fields_check dates op c d) r"
  by (cases "r (None, c)"; cases "r (None, d)")
    (auto simp: decides_def fields_check_def Let_def selects_def compare_values_def t_or_def t_not_def)

text \<open>A joined row without a value has no partner.\<close>

lemma join_rows_match:
  assumes "x \<in> set (join_rows E a c rows others)"
  shows "selects E c x \<or> (\<exists>r. x = joined a r None)"
  using assms by (auto simp: join_rows_def Let_def split: if_splits)

lemma selects_equal: "selects E (Cmp p s t) r \<Longrightarrow> term_value E r s \<noteq> None"
  by (auto simp: selects_def compare_values_def split: option.splits)

lemma decides_joined:
  assumes "x \<in> set (source_rows E tables (LeftJoin tbl u a c))" and "v = Member a d \<or> v = Plain a d"
    and "\<And>r. selects E c r \<Longrightarrow> r (Some ''t'', col) \<noteq> None"
  shows "decides E (joined_check col v) x"
proof -
  from assms(1) have "selects E c x \<or> (\<exists>r. x = joined a r None)"
    by (auto simp: source_rows_def dest: join_rows_match)
  then have "x (Some ''t'', col) = None \<Longrightarrow> term_value E x v = None"
    using assms(2) assms(3) [of x] by (auto simp: joined_def)
  with assms(2) show ?thesis
    by (auto simp: decides_def joined_check_def column_check_def joined_def)
qed

section \<open>The statements of a rule\<close>

definition decided_plan :: "'v engine \<Rightarrow> string option \<Rightarrow> null_mode \<Rightarrow> plan \<Rightarrow> bool" where
  "decided_plan E f m pl \<longleftrightarrow>
     (\<exists>before star src k subs. pl = validity_check_plan before star src f m k subs \<and>
        (\<forall>tables. \<forall>r \<in> set (source_rows E tables src). decides E k r))"

lemma decided_of:
  "validity_check_plan before star src f m k subs = pl \<Longrightarrow>
    (\<And>tables r. r \<in> set (source_rows E tables src) \<Longrightarrow> decides E k r) \<Longrightarrow> decided_plan E f m pl"
  unfolding decided_plan_def by blast

lemma decided_regex: "engine_ok E \<Longrightarrow> decided_plan E f (null_mode_of p) (validity_regex str tbl c f p)"
  unfolding validity_regex_def by (rule decided_of [OF refl]) (rule decides_regex)

lemma decided_range:
  "validity_range str tbl c f p = Plan q v subs \<Longrightarrow> decided_plan E f (null_mode_of p) (Plan q v subs)"
  by (auto simp: validity_range_def Let_def split: if_splits elim!: decided_of intro!: decides_range)

lemma elements_truthy: "elements_of v = Inr xs \<Longrightarrow> truthy v \<Longrightarrow> xs \<noteq> []"
  by (auto simp: elements_of_def split: pyval.splits)

lemma decided_values_join:
  assumes "r \<in> set (source_rows E tables (values_source cs tbl c))"
  shows "decides E (joined_check c (Plain ''ref_values'' ''val'')) r"
  using assms unfolding values_source_def Let_def
  by (rule decides_joined) (auto dest!: selects_equal split: if_splits)

lemma decided_allowed_values:
  assumes "validity_allowed_values str tbl c f p = Inr (Plan q v subs)"
  shows "decided_plan E f (null_mode_of p) (Plan q v subs)"
  using assms unfolding validity_allowed_values_def Let_def
  by (auto split: if_splits sum.splits elim!: decided_of intro!: decided_values_join decides_in dest: elements_truthy)

lemma decided_reference_lookup:
  assumes "validity_reference_lookup tbl c f p = Inr (Plan q v subs)"
  shows "decided_plan E f (null_mode_of p) (Plan q v subs)"
  using assms unfolding validity_reference_lookup_def Let_def
  by (auto split: if_splits pyval.splits elim!: decided_of intro!: decides_joined dest!: selects_equal)

lemma decided_fields:
  "validity_fields str dates tbl c f p = Plan q v subs \<Longrightarrow> decided_plan E f (null_mode_of p) (Plan q v subs)"
  by (auto simp: validity_fields_def Let_def split: if_splits elim!: decided_of intro!: decides_fields)

definition rule_kind :: "dict \<Rightarrow> pyval" where
  "rule_kind p = dict_get p ''validation_type'' (PStr (infer_validation_type p))"

lemma validity_plan_cases:
  assumes "validity_plan str tbl c p = Inr (Plan q v subs)"
  obtains (expression) n f where "rule_kind p = PStr (if n then ''negative'' else ''business_rule'')"
      and "rule_filter p = Inr (Inl f)" and "validity_expression n tbl c f p = Inr (Plan q v subs)"
    | (listed) f where "rule_kind p = PStr ''allowed_values''" and "rule_filter p = Inr (Inl f)"
      and "validity_allowed_values str tbl c f p = Inr (Plan q v subs)"
    | (bounds) f where "rule_kind p = PStr ''range''" and "rule_filter p = Inr (Inl f)"
      and "validity_range str tbl c f p = Plan q v subs"
    | (regex) f where "rule_kind p = PStr ''regex''" and "rule_filter p = Inr (Inl f)"
      and "validity_regex str tbl c f p = Plan q v subs"
    | (lookup) f where "rule_kind p = PStr ''reference_lookup''" and "rule_filter p = Inr (Inl f)"
      and "validity_reference_lookup tbl c f p = Inr (Plan q v subs)"
    | (two) f dates where "rule_kind p = PStr (if dates then ''date_logic'' else ''cross_field'')"
      and "rule_filter p = Inr (Inl f)" and "validity_fields str dates tbl c f p = Plan q v subs"
proof -
  have "in_str_set (rule_kind p) VALID_VALIDATION_TYPES = Inr True"
    using assms by (auto simp: validity_plan_def rule_kind_def Let_def split: sum.splits bool.splits)
  then obtain t where t: "rule_kind p = PStr t" "t \<in> set VALID_VALIDATION_TYPES"
    by (auto simp: in_str_set_def split: if_splits pyval.splits)
  obtain f where f: "rule_filter p = Inr (Inl f)"
    using assms by (auto simp: validity_plan_def Let_def split: sum.splits bool.splits)
  from t(2) consider "t = ''business_rule''" | "t = ''negative''" | "t = ''allowed_values''" | "t = ''range''"
    | "t = ''regex''" | "t = ''reference_lookup''" | "t = ''date_logic''" | "t = ''cross_field''"
    unfolding VALID_VALIDATION_TYPES_def by fastforce
  then show ?thesis
    by cases (use t f assms that(1) [of False f] that(1) [of True f] that(2-5) [of f] that(6) [of True f] that(6) [of False f] in
      \<open>simp_all add: validity_plan_def in_str_set_def VALID_VALIDATION_TYPES_def flip: rule_kind_def\<close>)
qed

lemma decided_rule:
  assumes "engine_ok E" and "validity_plan str tbl c p = Inr (Plan q v subs)"
    and "rule_kind p \<notin> {PStr ''business_rule'', PStr ''negative''}"
  obtains f where "rule_filter p = Inr (Inl f)" and "decided_plan E f (null_mode_of p) (Plan q v subs)"
proof (cases rule: validity_plan_cases [OF assms(2)])
  case (1 n f)
  then show ?thesis using assms(3) by (auto split: if_splits)
next
  case (2 f)
  then show ?thesis by (auto intro: that decided_allowed_values)
next
  case (3 f)
  then show ?thesis by (auto intro: that decided_range)
next
  case (4 f)
  then show ?thesis using decided_regex [OF assms(1), of f p str tbl c] by (auto intro: that)
next
  case (5 f)
  then show ?thesis by (auto intro: that decided_reference_lookup)
next
  case (6 f dates)
  then show ?thesis by (auto intro: that decided_fields)
qed

text \<open>The row a check of values returns, and what the executor makes of it.\<close>

definition validity_row :: "nat \<Rightarrow> nat \<Rightarrow> nat option \<Rightarrow> pyval \<Rightarrow> dict" where
  "validity_row a b skipped x = [(''total_rows'', PInt (int a + int b)), (''valid_rows'', PInt (int a)),
     (''invalid_rows'', PInt (int b)), (''validity_rate'', x)] @
     (case skipped of None \<Rightarrow> [] | Some n \<Rightarrow> [(''skipped_rows'', PInt (int n))])"

lemma read_validity_row:
  "read_counts ft (PStr ''validity'') (validity_row a b s x) =
     Inr \<lparr>rows_scanned = int a + int b, rows_passed = int a, rows_failed = int b\<rparr>"
  by (subst read_row [where n = "int a + int b" and a = "int a" and b = "int b"])
    (auto simp: DIM_ALIASES_def validity_row_def dict_get_def)

lemma decided_result:
  assumes "decided_plan E f m (Plan q v subs)"
  obtains a b s x where "query_result E tables q = validity_row a b s x"
    and "if m = NullSkip then s = Some (length (selected_rows E tables q) - (a + b)) \<and> a + b \<le> length (selected_rows E tables q)
         else s = None \<and> a + b = length (selected_rows E tables q)"
    and "m = NullFail \<Longrightarrow> f = None \<Longrightarrow> b = length (selected_rows E tables v)"
proof -
  obtain before star src k where q: "q = validity_query before src f m k"
      "v = violations_query 12 before star src [AnyOf [ck_invalid k, ck_null k]]"
      and ok: "\<And>tables r. r \<in> set (source_rows E tables src) \<Longrightarrow> decides E k r"
    using assms by (auto simp: decided_plan_def validity_check_plan_def)
  let ?rs = "selected_rows E tables q"
  have rs: "\<forall>r \<in> set ?rs. decides E k r" using ok by (auto simp: selected_rows_def q validity_query_def)
  let ?a = "length (filter (selects E (valid_case m k)) ?rs)" and ?b = "length (filter (selects E (invalid_case m k)) ?rs)"
  note sum = decided_counts [OF rs, of m]
  have total: "agg_value E ?rs (total_expr m k) = int ?a + int ?b" by (simp add: counted_total sum)
  let ?s = "if m = NullSkip then Some (length ?rs - (?a + ?b)) else None"
  have skipped: "length (filter (selects E (ck_null k)) ?rs) = length ?rs - (?a + ?b)" if "m = NullSkip"
  proof -
    have "filter (selects E (ck_null k)) ?rs = filter (\<lambda>r. \<not> counted E m k r) ?rs"
      using rs that by (auto simp: decides_def counted_def intro!: filter_cong)
    with sum sum_length_filter_compl [of "counted E m k" ?rs] show ?thesis by simp
  qed
  show ?thesis
  proof (rule that [of ?a ?b ?s])
    show "query_result E tables q = validity_row ?a ?b ?s (snd (item_value E ?rs (Rate (CountIf (valid_case m k)) (total_expr m k) ''validity_rate'')))"
      unfolding query_result_def using total skipped
      by (auto simp: q(1) validity_query_def validity_row_def item_value_def)
    have "counted E m k = (\<lambda>_. True)" if "m \<noteq> NullSkip" using that by (auto simp: counted_def)
    moreover have "?a + ?b \<le> length ?rs" using sum length_filter_le [of "counted E m k" ?rs] by linarith
    ultimately show "if m = NullSkip then ?s = Some (length ?rs - (?a + ?b)) \<and> ?a + ?b \<le> length ?rs
         else ?s = None \<and> ?a + ?b = length ?rs"
      using sum by auto
    show "?b = length (selected_rows E tables v)" if "m = NullFail" "f = None"
      using that by (auto simp: q validity_query_def violations_query_def selected_rows_def where_of_def invalid_case_def
          intro!: arg_cong [where f = length] filter_cong)
  qed
qed

text \<open>
  C20: The statement compiled for a validity rule, of any kind but \<open>business_rule\<close> and \<open>negative\<close>,
  counts every row it reads exactly once: as valid or as invalid, or, when nulls are skipped, as
  skipped, and the executor reads these numbers as scanned, passed and failed.  When nulls fail and
  the rule has no filter, the second statement lists exactly as many rows as were counted invalid.
  This covers the joined rows of a reference lookup and of long lists of values.
\<close>

theorem validity_counts_are_exact:
  assumes "engine_ok E" and "validity_plan str tbl c p = Inr (Plan q v subs)"
    and "rule_kind p \<notin> {PStr ''business_rule'', PStr ''negative''}"
  shows "\<exists>n. read_counts ft (PStr ''validity'') (query_result E tables q) = Inr n \<and>
    rows_scanned n = rows_passed n + rows_failed n \<and> 0 \<le> rows_passed n \<and> 0 \<le> rows_failed n \<and>
    (if null_mode_of p = NullSkip
     then dict_get (query_result E tables q) ''skipped_rows'' PNone =
            PInt (int (length (selected_rows E tables q)) - rows_scanned n)
     else rows_scanned n = int (length (selected_rows E tables q))) \<and>
    (null_mode_of p = NullFail \<and> rule_filter p = Inr (Inl None) \<longrightarrow>
      rows_failed n = int (length (selected_rows E tables v)))"
proof -
  obtain f where f: "rule_filter p = Inr (Inl f)" "decided_plan E f (null_mode_of p) (Plan q v subs)"
    using decided_rule [OF assms] .
  obtain a b s x where *: "query_result E tables q = validity_row a b s x"
    "if null_mode_of p = NullSkip
     then s = Some (length (selected_rows E tables q) - (a + b)) \<and> a + b \<le> length (selected_rows E tables q)
     else s = None \<and> a + b = length (selected_rows E tables q)"
    "null_mode_of p = NullFail \<Longrightarrow> f = None \<Longrightarrow> b = length (selected_rows E tables v)"
    using decided_result [OF f(2)] by blast
  then show ?thesis unfolding *(1) read_validity_row using f(1)
    by (auto simp: validity_row_def split: if_splits)
qed

text \<open>A list of accepted cities, in any case.\<close>

definition city_rule :: dict where
  "city_rule = [(''allowed_values'', PList [PStr ''Rome'', PStr ''Oslo'']), (''case_sensitive'', PBool False)]"

definition cities :: "string sql_row list" where
  "cities = [text_row [(''city'', ''rome'')], text_row [], text_row [(''city'', ''Bonn'')], text_row [(''city'', ''OSLO'')]]"

theorem validity_counts_are_exact_witness:
  "\<exists>q v subs. validity_plan (\<lambda>_. []) ''t'' ''city'' city_rule = Inr (Plan q v subs) \<and>
     (\<exists>n. read_counts (\<lambda>_. None) (PStr ''validity'') (query_result text_engine (\<lambda>_. cities) q) = Inr n \<and>
       rows_scanned n = 4 \<and> rows_passed n = 2 \<and> rows_failed n = 2)"
proof -
  let ?plan = "validity_plan (\<lambda>_. []) ''t'' ''city'' city_rule"
  have "case ?plan of Inr (Plan q v subs) \<Rightarrow> length (selected_rows text_engine (\<lambda>_. cities) q) = 4 \<and>
      length (selected_rows text_engine (\<lambda>_. cities) v) = 2 | _ \<Rightarrow> False"
    by code_simp
  then obtain q v subs where *: "?plan = Inr (Plan q v subs)"
      "length (selected_rows text_engine (\<lambda>_. cities) q) = 4" "length (selected_rows text_engine (\<lambda>_. cities) v) = 2"
    by (auto split: sum.splits plan.splits)
  have p: "rule_kind city_rule \<notin> {PStr ''business_rule'', PStr ''negative''}" "null_mode_of city_rule = NullFail"
      "rule_filter city_rule = Inr (Inl None)"
    by code_simp+
  obtain n where "read_counts (\<lambda>_. None) (PStr ''validity'') (query_result text_engine (\<lambda>_. cities) q) = Inr n"
      "rows_scanned n = rows_passed n + rows_failed n" "rows_scanned n = 4" "rows_failed n = 2"
    using validity_counts_are_exact [OF text_engine_ok *(1) p(1), of "\<lambda>_. None" "\<lambda>_. cities"] p(2,3) *(2,3) by auto
  with *(1) show ?thesis by auto
qed

section \<open>Expressions\<close>

text \<open>What the expression of a rule, or of a constraint that must not hold, says of a row.\<close>

definition expression_holds :: "'v engine \<Rightarrow> bool \<Rightarrow> string \<Rightarrow> 'v sql_row \<Rightarrow> bool option" where
  "expression_holds E negative e r = (if negative then t_not (en_raw E e r) else en_raw E e r)"

lemma selects_expression:
  "selects E (valid_case NullFail (expression_check n c e)) r \<longleftrightarrow> expression_holds E n e r = Some True"
  "selects E (invalid_case NullFail (expression_check n c e)) r \<longleftrightarrow>
     expression_holds E n e r = Some False \<or> r (None, c) = None"
  by (auto simp: expression_check_def column_check_def expression_holds_def valid_case_def invalid_case_def
      Let_def selects_def t_not_def)

lemma expression_count:
  "length (filter (\<lambda>r. h r = Some True) rs) + length (filter (\<lambda>r. h r = Some False \<or> r (None, c) = None) rs) +
     length (filter (\<lambda>r. h r = None \<and> r (None, c) \<noteq> None) rs) =
   length rs + length (filter (\<lambda>r. h r = Some True \<and> r (None, c) = None) rs)"
proof (induction rs)
  case (Cons r rs)
  then show ?case by (cases "h r") (auto split: if_splits)
qed simp

text \<open>
  The statement compiled for an expression of the user, in the mode in which nulls fail, does not
  count every row once: a row without a value whose expression is true is valid and invalid, and a
  row with a value whose expression is unknown is neither.
\<close>

theorem expression_rules_miscount:
  assumes "validity_expression n tbl c f p = Inr (Plan q v subs)" and "null_mode_of p = NullFail"
    and "dict_get p (if n then ''negative_expression'' else ''business_rule_expression'') PNone = PStr e"
    and "rs = selected_rows E tables q"
  shows "\<exists>valid invalid x. query_result E tables q =
      [(''total_rows'', PInt (int (length rs))), (''valid_rows'', PInt (int valid)),
       (''invalid_rows'', PInt (int invalid)), (''validity_rate'', x)] \<and>
    valid + invalid + length (filter (\<lambda>r. expression_holds E n e r = None \<and> r (None, c) \<noteq> None) rs) =
      length rs + length (filter (\<lambda>r. expression_holds E n e r = Some True \<and> r (None, c) = None) rs)"
proof -
  have q: "q = validity_query [] (Table tbl) f NullFail (expression_check n c e)"
    using assms(1-3)
    by (cases n) (auto simp: validity_expression_def Let_def validity_check_plan_def accepts_filter_def filter_text_def
        split: if_splits)
  let ?valid = "filter (\<lambda>r. expression_holds E n e r = Some True) rs"
    and ?invalid = "filter (\<lambda>r. expression_holds E n e r = Some False \<or> r (None, c) = None) rs"
  have "\<exists>x. query_result E tables q = [(''total_rows'', PInt (int (length rs))),
      (''valid_rows'', PInt (int (length ?valid))), (''invalid_rows'', PInt (int (length ?invalid))), (''validity_rate'', x)]"
    unfolding query_result_def assms(4) [symmetric]
    by (simp add: q validity_query_def total_expr_def item_value_def selects_expression [abs_def])
  then show ?thesis using expression_count [of "expression_holds E n e" rs c] by blast
qed

text \<open>A rule about ages that reads another column: one row counts twice, another not at all.\<close>

definition age_rule :: dict where
  "age_rule = [(''validation_type'', PStr ''business_rule''), (''business_rule_expression'', PStr ''guardian'')]"

definition ages :: "string sql_row list" where
  "ages = [text_row [(''guardian'', ''ann'')], text_row [(''guardian'', ''ben''), (''age'', ''12'')],
     text_row [(''age'', ''30'')], text_row [(''guardian'', ''eve'')]]"

theorem expression_rules_miscount_witness:
  "\<exists>q v subs valid invalid x. validity_expression False ''t'' ''age'' None age_rule = Inr (Plan q v subs) \<and>
     query_result text_engine (\<lambda>_. ages) q = [(''total_rows'', PInt 4), (''valid_rows'', PInt (int valid)),
       (''invalid_rows'', PInt (int invalid)), (''validity_rate'', x)] \<and> valid + invalid + 1 = 4 + 2"
proof -
  let ?plan = "validity_expression False ''t'' ''age'' None age_rule" and ?tables = "\<lambda>_. ages"
  have "case ?plan of Inr (Plan q v subs) \<Rightarrow> q_where q = [] \<and> q_source q = Table ''t'' | _ \<Rightarrow> False"
    by code_simp
  then obtain q v subs where *: "?plan = Inr (Plan q v subs)" "q_where q = []" "q_source q = Table ''t''"
    by (auto split: sum.splits plan.splits)
  have rows: "ages = selected_rows text_engine ?tables q"
    by (simp add: selected_rows_def * source_rows_def)
  have p: "null_mode_of age_rule = NullFail"
      "dict_get age_rule (if False then ''negative_expression'' else ''business_rule_expression'') PNone = PStr ''guardian''"
      "length ages = 4"
      "length (filter (\<lambda>r. expression_holds text_engine False ''guardian'' r = None \<and> r (None, ''age'') \<noteq> None) ages) = 1"
      "length (filter (\<lambda>r. expression_holds text_engine False ''guardian'' r = Some True \<and> r (None, ''age'') = None) ages) = 2"
    by code_simp+
  from expression_rules_miscount [OF *(1) p(1,2) rows] *(1) show ?thesis
    unfolding p(3-5) by auto
qed

end
