(* ===== verification/CompiledTexts.thy ===== *)
theory CompiledTexts
  imports ValidityCounts "HOL-Library.Sublist"
begin

text \<open>
  What the compiled texts say: the rows a validity rule lists, whatever its filter and its treatment of
  nulls, and the statement a regular expression becomes for MySQL.
\<close>

section \<open>The list of violations\<close>

definition violations_of :: "plan \<Rightarrow> query option" where
  "violations_of pl = (case pl of Plan q v subs \<Rightarrow> Some v | Reject m \<Rightarrow> None)"

lemma violations_of_check:
  "violations_of (validity_check_plan before star src f m k subs) =
     Some (violations_query 12 before star src [AnyOf [ck_invalid k, ck_null k]])"
  by (simp add: violations_of_def validity_check_plan_def)

lemma violations_of_Reject [simp]: "violations_of (Reject m) = None"
  by (simp add: violations_of_def)

text \<open>Two parameter lists that agree but for the filter and the treatment of nulls.\<close>

definition same_check :: "dict \<Rightarrow> dict \<Rightarrow> bool" where
  "same_check p p' \<longleftrightarrow>
     (\<forall>k d. k \<notin> {''filter_expression'', ''null_handling''} \<longrightarrow> dict_get p' k d = dict_get p k d)"

lemma same_check_get: "same_check p p' \<Longrightarrow> k \<notin> {''filter_expression'', ''null_handling''} \<Longrightarrow> dict_get p' k d = dict_get p k d"
  by (simp add: same_check_def)

lemma given_key: "has_key d k \<Longrightarrow> dict_get d k a = dict_get d k b"
  by (auto simp: has_key_def dict_get_def split: option.split dest: weak_map_of_SomeI)

lemma same_violations:
  assumes "same_check p p'"
  shows "violations_of (validity_regex str tbl c f' p') = violations_of (validity_regex str tbl c f p)"
    and "violations_of (validity_range str tbl c f' p') = violations_of (validity_range str tbl c f p)"
    and "violations_of (validity_fields str dates tbl c f' p') = violations_of (validity_fields str dates tbl c f p)"
    and "map_sum id violations_of (validity_allowed_values str tbl c f' p') =
      map_sum id violations_of (validity_allowed_values str tbl c f p)"
    and "map_sum id violations_of (validity_reference_lookup tbl c f' p') =
      map_sum id violations_of (validity_reference_lookup tbl c f p)"
    and "map_sum id violations_of (validity_expression n tbl c f' p') =
      map_sum id violations_of (validity_expression n tbl c f p)"
  by (simp_all add: validity_regex_def validity_range_def validity_fields_def validity_allowed_values_def
      validity_reference_lookup_def validity_expression_def Let_def same_check_get [OF assms] violations_of_check
      split: sum.split pyval.split)

text \<open>
  The rows a validity rule with a stated kind lists as violations depend neither on its filter nor
  on its treatment of nulls: two rules that differ in these alone are compiled to the same list, so a
  rule that skips or passes nulls lists the rows without a value, and a rule with a filter lists rows
  the filter excludes, although neither counts them as invalid.
\<close>

theorem violations_ignore_filter_and_nulls:
  assumes "validity_plan str tbl c p = Inr (Plan q v subs)" and "validity_plan str tbl c p' = Inr (Plan q' v' subs')"
    and "same_check p p'" and "has_key p ''validation_type''"
  shows "v' = v"
proof -
  have "rule_kind p' = rule_kind p"
    using assms(4) same_check_get [OF assms(3), of "''validation_type''"]
    by (simp add: rule_kind_def) (rule given_key)
  moreover obtain f where f: "rule_filter p = Inr (Inl f)"
    by (rule validity_plan_cases [OF assms(1)]) auto
  moreover obtain f' where f': "rule_filter p' = Inr (Inl f')"
    by (rule validity_plan_cases [OF assms(2)]) auto
  ultimately have "map_sum id violations_of (validity_plan str tbl c p') = map_sum id violations_of (validity_plan str tbl c p)"
    using same_violations [OF assms(3)]
    unfolding validity_plan_def rule_kind_def [symmetric] Let_def
    by (auto split: sum.split bool.split)
  then show ?thesis using assms(1,2) by (simp add: violations_of_def)
qed


text \<open>The cities once more, now only those of a region, and without the rows that have none.\<close>

theorem violations_ignore_filter_and_nulls_witness:
  "\<exists>q v subs q' v' subs'.
     validity_plan (\<lambda>_. []) ''t'' ''city'' ([(''validation_type'', PStr ''allowed_values'')] @ city_rule) = Inr (Plan q v subs) \<and>
     validity_plan (\<lambda>_. []) ''t'' ''city'' ([(''validation_type'', PStr ''allowed_values''), (''null_handling'', PStr ''skip''),
       (''filter_expression'', PStr ''region'')] @ city_rule) = Inr (Plan q' v' subs') \<and> v' = v \<and> q' \<noteq> q"
proof -
  let ?kind = "(''validation_type'', PStr ''allowed_values'')"
  let ?p = "[?kind] @ city_rule" and ?p' = "[?kind, (''null_handling'', PStr ''skip''), (''filter_expression'', PStr ''region'')] @ city_rule"
  have "case (validity_plan (\<lambda>_. []) ''t'' ''city'' ?p, validity_plan (\<lambda>_. []) ''t'' ''city'' ?p') of
      (Inr (Plan q v subs), Inr (Plan q' v' subs')) \<Rightarrow> q_where q = [] \<and> q_where q' \<noteq> [] | _ \<Rightarrow> False"
    by code_simp
  then obtain q v subs q' v' subs' where *: "validity_plan (\<lambda>_. []) ''t'' ''city'' ?p = Inr (Plan q v subs)"
      "validity_plan (\<lambda>_. []) ''t'' ''city'' ?p' = Inr (Plan q' v' subs')" "q' \<noteq> q"
    by (auto split: sum.splits plan.splits)
  have "same_check ?p ?p'" by (auto simp: same_check_def dict_get_def)
  moreover have "has_key ?p ''validation_type''" by (simp add: has_key_def)
  ultimately show ?thesis using violations_ignore_filter_and_nulls [OF *(1,2)] * by blast
qed

section \<open>Regular expressions for MySQL\<close>

lemma replace_char: "replace_all [a] new s = concat (map (\<lambda>c. if c = a then new else [c]) s)"
  by (induction s) auto

lemma starts_with_subset: "starts_with p s \<Longrightarrow> set p \<subseteq> set s"
  by (induction p s rule: starts_with.induct) auto

lemma replace_absent: "x \<in> set old \<Longrightarrow> x \<notin> set s \<Longrightarrow> replace_all old new s = s"
proof (induction s)
  case (Cons c s)
  then have "\<not> starts_with old (c # s)" using starts_with_subset by fastforce
  with Cons show ?case by simp
qed simp

lemma mysql_regexp_text:
  "fold (\<lambda>(a, b). replace_all a b) mysql_regexp s = concat (map (\<lambda>c. if c = CHR ''~'' then ''REGEXP'' else [c]) s)"
proof -
  have "CHR ''~'' \<notin> set (concat (map (\<lambda>c. if c = CHR ''~'' then ''REGEXP'' else [c]) s))" by auto
  then show ?thesis unfolding mysql_regexp_def
    by (simp add: replace_char) (rule replace_absent [of "CHR ''~''"]; simp)
qed

lemma sublist_parts: "sublist x z \<Longrightarrow> sublist x (a @ z)" "sublist x z \<Longrightarrow> sublist x (z @ a)"
  by (auto intro: sublist_order.order.trans)

lemma sublist_join: "x \<in> set xs \<Longrightarrow> sublist x (join_with sep xs)"
  by (induction sep xs rule: join_with.induct) (auto intro: sublist_parts)

text \<open>Every selected column of a statement without groups is part of its text.\<close>

lemma show_query_item:
  assumes "i \<in> set (q_items q)" and "q_group q = []" and "sublist x (show_item i)"
  shows "sublist x (show_query q)"
proof -
  have "sublist x (join_with sep (map show_item (q_items q)))" for sep
    using sublist_join [of "show_item i" "map show_item (q_items q)" sep] assms(1,3)
    by (auto intro: sublist_order.order.trans)
  moreover have "\<exists>a b sep. show_query q = a @ join_with sep (map show_item (q_items q)) @ b"
  proof -
    let ?n = "line (q_indent q + 4)"
    let ?head = "(if q_before q = [] then line (q_indent q) else q_before q) @ ''SELECT'' @ (if q_blank q then '' '' else []) @ ?n"
    have "q_items q \<noteq> []" using assms(1) by auto
    then show ?thesis using assms(2)
      by (intro exI [of _ ?head] exI [of _ "line (q_indent q) @ ''FROM '' @ show_source (q_indent q) (q_source q) @
            line (q_indent q) @ show_where (q_where q)"] exI [of _ "'','' @ ?n"])
        (simp add: show_query_def Let_def)
  qed
  ultimately show ?thesis by (metis sublist_parts)
qed

lemma show_invalid: "sublist (show_cond c) (show_item (Count (CountIf c) n))"
  unfolding show_item_def by (auto intro!: sublist_parts simp del: append_Cons)

lemma show_two: "show_cond (AllOf [a, b]) = (show_cond a @ '' AND '') @ show_cond b" "show_cond (AnyOf [a, b]) = show_cond a @ '' OR '' @ show_cond b"
  by simp_all

lemma regex_invalid_text:
  "sublist '' !~ '' (show_cond (invalid_case m (regex_check c pat)))"
proof -
  have "sublist '' !~ '' (show_cond (ck_invalid (regex_check c pat)))"
    unfolding regex_check_def column_check_def Let_def
    unfolding sublist_def
    by (intro exI [of _ "quoted c"] exI [of _ "[quote] @ pat @ [quote]"]) simp
  then show ?thesis
    by (cases m) (simp_all only: invalid_case_def null_mode.case show_two sublist_parts)
qed

lemma sublist_map_chars: "sublist x s \<Longrightarrow> sublist (concat (map g x)) (concat (map g s))"
  by (auto simp: sublist_def) blast

text \<open>
  The MySQL form of a rule with a regular expression has the operator \<open>!REGEXP\<close>, which MySQL does
  not know: the first replacement takes the tilde of every \<open>!~\<close>, so that the second one, which makes
  it \<open>NOT REGEXP\<close>, finds nothing.
\<close>

theorem mysql_regexp_is_broken:
  assumes "validity_plan str tbl c p = Inr (Plan q v subs)" and "rule_kind p = PStr ''regex''"
    and "dict_get (compiled_of (Plan q v subs)) ''compiled_mysql'' PNone = PStr s"
  shows "s = concat (map (\<lambda>x. if x = CHR ''~'' then ''REGEXP'' else [x]) (show_query q)) \<and> sublist '' !REGEXP '' s"
proof -
  obtain f where "validity_regex str tbl c f p = Plan q v subs"
    using assms(1,2) by (auto elim!: validity_plan_cases split: if_splits)
  then obtain pat where q: "q = validity_query [] (Table tbl) f (null_mode_of p) (regex_check c pat)" "subs = mysql_regexp"
    by (auto simp: validity_regex_def validity_check_plan_def)
  let ?g = "\<lambda>x. if x = CHR ''~'' then ''REGEXP'' else [x]"
  have s: "s = concat (map ?g (show_query q))"
    using assms(3) by (simp add: compiled_of_def q(2) mysql_regexp_text)
  have "sublist '' !~ '' (show_query q)"
    by (rule show_query_item [where i = "Count (CountIf (invalid_case (null_mode_of p) (regex_check c pat))) ''invalid_rows''"])
      (auto simp: q(1) validity_query_def intro: sublist_order.order.trans [OF regex_invalid_text show_invalid])
  from sublist_map_chars [OF this, of ?g] s show ?thesis by simp
qed

theorem mysql_regexp_is_broken_witness:
  "\<exists>q v subs s. validity_plan (\<lambda>_. []) ''t'' ''zip'' [(''regex_pattern'', PStr ''^[0-9]+$'')] = Inr (Plan q v subs) \<and>
     dict_get (compiled_of (Plan q v subs)) ''compiled_mysql'' PNone = PStr s \<and> sublist '' !REGEXP '' s"
proof -
  let ?p = "[(''regex_pattern'', PStr ''^[0-9]+$'')]"
  have p: "rule_kind ?p = PStr ''regex''" "rule_filter ?p = Inr (Inl None)" by code_simp+
  then obtain q v subs where plan: "validity_plan (\<lambda>_. []) ''t'' ''zip'' ?p = Inr (Plan q v subs)"
    by (simp add: validity_plan_def in_str_set_def VALID_VALIDATION_TYPES_def validity_regex_def validity_check_plan_def
        flip: rule_kind_def)
  moreover obtain s where "dict_get (compiled_of (Plan q v subs)) ''compiled_mysql'' PNone = PStr s"
    by (simp add: compiled_of_def)
  ultimately show ?thesis using mysql_regexp_is_broken [OF plan p(1)] by blast
qed

end
