(* ===== verification/TallyText.thy ===== *)
theory TallyText
  imports ValidityRules RuleResults
begin

text \<open>
  The statements of the dimensions that count rows on one line: conformity, consistency, timeliness,
  accuracy and the generic rules.  A statement selects counts from a table, or from the join of a table
  \<open>a\<close> with a table \<open>b\<close>; a second statement lists rows.
\<close>

section \<open>Sources\<close>

datatype rows_of =
    From string
  | JoinAB bool string string "cond list"
  | CrossStats string string "cond list" "(string \<times> string) list"

definition show_rows_of :: "rows_of \<Rightarrow> string" where
  "show_rows_of s =
     (case s of
        From t \<Rightarrow> t
      | CrossStats t c w fs \<Rightarrow> t @ '' t CROSS JOIN stats s''
      | JoinAB outer t u cs \<Rightarrow> t @ '' a '' @ (if outer then ''LEFT'' else ''INNER'') @ '' JOIN '' @ u @ '' b ON '' @
          show_cond (AllOf cs))"

definition inner_rows :: "'v engine \<Rightarrow> cond \<Rightarrow> 'v sql_row list \<Rightarrow> 'v sql_row list \<Rightarrow> 'v sql_row list" where
  "inner_rows E c rows others = concat (map (\<lambda>r. filter (selects E c) (map (\<lambda>u. joined ''b'' r (Some u)) others)) rows)"

text \<open>Every row with the aggregates of one column over other rows, as the columns of \<open>s\<close>.\<close>

definition with_stats ::
    "'v engine \<Rightarrow> string \<Rightarrow> (string \<times> string) list \<Rightarrow> 'v sql_row list \<Rightarrow> 'v sql_row list \<Rightarrow> 'v sql_row list" where
  "with_stats E c fs pool rows =
     (let vs = List.map_filter (\<lambda>r. r (None, c)) pool
      in map (\<lambda>r (q, n). if q = Some ''s'' then (case map_of fs n of None \<Rightarrow> None | Some f \<Rightarrow> en_stat E f vs)
                        else r (None, n)) rows)"

text \<open>The text before the \<open>SELECT\<close>, which computes the aggregates.\<close>

definition show_before :: "rows_of \<Rightarrow> string" where
  "show_before s =
     (case s of
        CrossStats t c w fs \<Rightarrow> ''WITH stats AS (SELECT '' @ join_with '', '' (map (\<lambda>(n, f). f @ '' AS '' @ n) fs) @
          '' FROM '' @ t @ '' '' @ show_where w @ '') ''
      | _ \<Rightarrow> [])"

definition rows_from :: "'v engine \<Rightarrow> (string \<Rightarrow> 'v sql_row list) \<Rightarrow> rows_of \<Rightarrow> 'v sql_row list" where
  "rows_from E tables s =
     (case s of
        From t \<Rightarrow> tables t
      | CrossStats t c w fs \<Rightarrow> with_stats E c fs (filter (selects E (AllOf w)) (tables t)) (tables t)
      | JoinAB outer t u cs \<Rightarrow>
          (if outer then join_rows E ''b'' (AllOf cs) (tables t) (tables u)
           else inner_rows E (AllOf cs) (tables t) (tables u)))"

section \<open>Counts and lists\<close>

text \<open>
  A \<open>SUM\<close> of ones and zeros is null when there is no row, unlike a \<open>COUNT\<close>.  A condition on the table as a
  whole reads the greatest value of a column.
\<close>

datatype count =
    Agg agg
  | SumIf cond
  | Whole sql_term
  | AllIf cond
  | OneIf bool cond

fun greatest :: "'v engine \<Rightarrow> 'v option list \<Rightarrow> 'v option" where
  "greatest E [] = None"
| "greatest E (v # vs) =
     (case (v, greatest E vs) of
        (Some x, Some y) \<Rightarrow> Some (if en_cmp E ''>='' x y then x else y) | (Some x, None) \<Rightarrow> Some x | (None, m) \<Rightarrow> m)"

definition table_row :: "'v engine \<Rightarrow> 'v sql_row list \<Rightarrow> 'v sql_row" where
  "table_row E rs = (\<lambda>(q, c). if q = Some ''MAX'' then greatest E (map (\<lambda>r. r (None, c)) rs) else None)"

definition show_count :: "count \<Rightarrow> string" where
  "show_count k =
     (case k of
        Agg a \<Rightarrow> show_agg a
      | SumIf c \<Rightarrow> ''SUM(CASE WHEN '' @ show_cond c @ '' THEN 1 ELSE 0 END)''
      | Whole t \<Rightarrow> show_term t
      | AllIf c \<Rightarrow> ''CASE WHEN '' @ show_cond c @ '' THEN COUNT(*) ELSE 0 END''
      | OneIf some c \<Rightarrow> ''CASE WHEN COUNT(*) '' @ (if some then ''> 0 AND '' else ''= 0 OR '') @ show_cond c @
          '' THEN 1 ELSE 0 END'')"

definition count_value :: "'v engine \<Rightarrow> 'v sql_row list \<Rightarrow> count \<Rightarrow> pyval" where
  "count_value E rs k =
     (case k of
        Agg a \<Rightarrow> PInt (agg_value E rs a)
      | SumIf c \<Rightarrow> if rs = [] then PNone else PInt (agg_value E rs (CountIf c))
      | Whole t \<Rightarrow> (case term_value E (table_row E rs) t of None \<Rightarrow> PNone | Some x \<Rightarrow> en_py E x)
      | AllIf c \<Rightarrow> PInt (if selects E c (table_row E rs) then int (length rs) else 0)
      | OneIf some c \<Rightarrow>
          (let yes = selects E c (table_row E rs)
           in PInt (if (if some then rs \<noteq> [] \<and> yes else rs = [] \<or> yes) then 1 else 0)))"

record select =
  sl_items :: "(count \<times> string) list"
  sl_source :: rows_of
  sl_where :: "cond list"

record listing =
  li_columns :: string
  li_source :: rows_of
  li_where :: "cond list"

definition read_rows :: "'v engine \<Rightarrow> (string \<Rightarrow> 'v sql_row list) \<Rightarrow> select \<Rightarrow> 'v sql_row list" where
  "read_rows E tables s = filter (selects E (AllOf (sl_where s))) (rows_from E tables (sl_source s))"

definition select_result :: "'v engine \<Rightarrow> (string \<Rightarrow> 'v sql_row list) \<Rightarrow> select \<Rightarrow> dict" where
  "select_result E tables s = map (\<lambda>(k, n). (n, count_value E (read_rows E tables s) k)) (sl_items s)"

definition listed_rows :: "'v engine \<Rightarrow> (string \<Rightarrow> 'v sql_row list) \<Rightarrow> listing \<Rightarrow> 'v sql_row list" where
  "listed_rows E tables l = filter (selects E (AllOf (li_where l))) (rows_from E tables (li_source l))"

definition show_items :: "string \<Rightarrow> string \<Rightarrow> (count \<times> string) list \<Rightarrow> string" where
  "show_items sep as ks = join_with sep (map (\<lambda>(k, n). show_count k @ as @ n) ks)"

definition show_select :: "string \<Rightarrow> select \<Rightarrow> string" where
  "show_select as s = show_before (sl_source s) @ ''SELECT '' @ show_items '', '' as (sl_items s) @ '' FROM '' @ show_rows_of (sl_source s) @ '' '' @
     show_where (sl_where s)"

definition show_listing :: "listing \<Rightarrow> string" where
  "show_listing l = show_before (li_source l) @ ''SELECT '' @ li_columns l @ '' FROM '' @ show_rows_of (li_source l) @ '' '' @ show_where (li_where l)"

text \<open>The statements of a rule, with no list for a rule about a table as a whole, or the message of an error.\<close>

datatype tally = Tally select "listing option" | Fault string

definition error_text :: "string \<Rightarrow> string" where
  "error_text m = ''-- ERROR: '' @ m"

definition one_line :: "(select \<Rightarrow> string) \<Rightarrow> tally \<Rightarrow> dict" where
  "one_line show t =
     (case t of
        Fault m \<Rightarrow> [(''compiled_sql'', PStr (error_text m)), (''compiled_postgres'', PStr (error_text m)),
            (''violation_sql'', PStr (error_text m)), (''error'', PStr m)]
      | Tally s l \<Rightarrow> [(''compiled_sql'', PStr (show s)), (''compiled_postgres'', PStr (show s)),
            (''violation_sql'', PStr (case l of None \<Rightarrow> [] | Some v \<Rightarrow> show_listing v))])"

section \<open>Parameters\<close>

text \<open>\<open>v[0] if v else d\<close>.\<close>

definition first_or :: "pyval \<Rightarrow> pyval \<Rightarrow> py_error + pyval" where
  "first_or d v =
     (if \<not> truthy v then Inr d
      else case v of
             PList (x # _) \<Rightarrow> Inr x
           | PStr (c # _) \<Rightarrow> Inr (PStr [c])
           | PDict _ \<Rightarrow> Inl (KeyError ''0'')
           | _ \<Rightarrow> Inl (TypeError ''not subscriptable''))"

text \<open>How a rule treats rows without a value; each dimension has a mode for what it does not know.\<close>

definition null_mode_or :: "null_mode \<Rightarrow> dict \<Rightarrow> null_mode" where
  "null_mode_or d p =
     (let v = dict_get p ''null_handling'' PNone
      in if v = PStr ''pass'' then NullPass else if v = PStr ''skip'' then NullSkip
         else if v = PStr ''fail'' then NullFail else d)"

definition filter_conds :: "string option \<Rightarrow> cond list" where
  "filter_conds f = (case f of None \<Rightarrow> [] | Some s \<Rightarrow> [Paren (Raw s)])"

end
