(* ===== verification/ConformityRules.thy ===== *)
theory ConformityRules
  imports TallyText
begin

text \<open>
  The conformity dimension of \<open>RuleCompiler\<close>: patterns, standards, lengths, character sets, case and
  structure of the texts of one column.  The dash of one message lies outside the modelled code points;
  U+0097 stands for it.
\<close>

section \<open>Kinds\<close>

text \<open>A regular expression, with its backslashes written as exclamation marks.\<close>

definition pattern :: "string \<Rightarrow> string" where
  "pattern s = map (\<lambda>c. if c = CHR ''!'' then CHR 0x5C else c) s"

definition CONFORMITY_STANDARDS :: "(string \<times> string) list" where
  "CONFORMITY_STANDARDS =
     [(''iso_8601'', pattern ''^!d{4}-!d{2}-!d{2}(T!d{2}:!d{2}(:!d{2})?(!.!d+)?(Z|[+-]!d{2}:!d{2})?)?$''),
      (''e164'', pattern ''^!+[1-9]!d{1,14}$''),
      (''iso_4217'', pattern ''^[A-Z]{3}$''),
      (''iso_3166'', pattern ''^[A-Z]{2}$''),
      (''email_rfc5322'', pattern ''^[a-zA-Z0-9._%+-]+@[a-zA-Z0-9.-]+!.[a-zA-Z]{2,}$''),
      (''iban'', pattern ''^[A-Z]{2}!d{2}[A-Z0-9]{4,30}$''),
      (''url'', pattern ''^https?://[^!s/$.?#].[^!s]*$''),
      (''uuid'', pattern ''^[0-9a-fA-F]{8}-[0-9a-fA-F]{4}-[1-5][0-9a-fA-F]{3}-[89abAB][0-9a-fA-F]{3}-[0-9a-fA-F]{12}$''),
      (''email'', pattern ''^[a-zA-Z0-9._%+-]+@[a-zA-Z0-9.-]+!.[a-zA-Z]{2,}$''),
      (''phone'', pattern ''^!+?[!d!s!-!.!(!)]{7,}$''),
      (''date_iso'', pattern ''^!d{4}-!d{2}-!d{2}(T!d{2}:!d{2}(:!d{2})?(!.!d+)?(Z|[+-]!d{2}:!d{2})?)?$''),
      (''ip_address'', pattern ''^((25[0-5]|2[0-4]!d|[01]?!d!d?)!.){3}(25[0-5]|2[0-4]!d|[01]?!d!d?)$''),
      (''credit_card'', pattern ''^!d{13,19}$''),
      (''postal_code'', pattern ''^[A-Z0-9]{3,10}(-[A-Z0-9]{3,10})?$''),
      (''ssn'', pattern ''^!d{3}-!d{2}-!d{4}$'')]"

definition VALID_CONFORMITY_TYPES :: "string list" where
  "VALID_CONFORMITY_TYPES = [''case'', ''charset'', ''length'', ''regex'', ''standard'', ''structural'']"

definition infer_conformity_type :: "dict \<Rightarrow> string" where
  "infer_conformity_type p =
     (if truthy (dict_get p ''regex_pattern'' PNone) then ''regex''
      else if truthy (dict_get p ''standard_name'' PNone) then ''standard''
      else if dict_get p ''min_length'' PNone \<noteq> PNone \<or> dict_get p ''max_length'' PNone \<noteq> PNone then ''length''
      else if truthy (dict_get p ''allowed_characters'' PNone) then ''charset''
      else if truthy (dict_get p ''case_rule'' PNone) then ''case''
      else if truthy (dict_get p ''structural_format'' PNone) then ''structural''
      else ''regex'')"

section \<open>Statements\<close>

text \<open>Nulls are skipped unless the rule lets them fail or pass; a rule that lets them fail has no condition.\<close>

definition conformity_where :: "null_mode \<Rightarrow> string \<Rightarrow> string option \<Rightarrow> cond list" where
  "conformity_where m c f = (if m = NullSkip then [NotNull (Column c)] else []) @ filter_conds f"

definition conforming_case :: "null_mode \<Rightarrow> check \<Rightarrow> cond" where
  "conforming_case m k = (if m = NullPass then AnyOf [ck_null k, ck_valid k] else ck_alone k)"

definition non_conforming_case :: "null_mode \<Rightarrow> check \<Rightarrow> cond" where
  "non_conforming_case m k = (if m = NullPass then AllOf [ck_present k, ck_invalid k] else ck_invalid k)"

definition conformity_tally :: "string \<Rightarrow> string \<Rightarrow> string option \<Rightarrow> null_mode \<Rightarrow> check \<Rightarrow> cond \<Rightarrow> tally" where
  "conformity_tally tbl c f m k listed =
     Tally \<lparr>sl_items = [(Agg CountAll, ''total_rows''), (Agg (CountIf (conforming_case m k)), ''conforming_rows''),
              (Agg (CountIf (non_conforming_case m k)), ''non_conforming_rows'')],
            sl_source = From tbl, sl_where = conformity_where m c f\<rparr>
       (Some \<lparr>li_columns = ''*'', li_source = From tbl, li_where = conformity_where m c f @ [listed]\<rparr>)"

definition show_conformity :: "select \<Rightarrow> string" where
  "show_conformity s = line 12 @ ''SELECT'' @ line 16 @ show_items ('','' @ line 16) '' as '' (sl_items s) @
     line 12 @ ''FROM '' @ show_rows_of (sl_source s) @ line 12 @ show_where (sl_where s) @ line 8"

definition show_conformity_list :: "listing \<Rightarrow> string" where
  "show_conformity_list l = line 12 @ ''SELECT '' @ li_columns l @ line 12 @ ''FROM '' @ show_rows_of (li_source l) @
     line 12 @ (if length (li_where l) = 1 then '' '' else []) @ show_where (li_where l) @ line 8"

definition conformity_result :: "tally \<Rightarrow> dict" where
  "conformity_result t =
     (case t of
        Fault m \<Rightarrow> [(''error'', PStr m), (''compiled_sql'', PStr (error_text m)), (''compiled_postgres'', PStr (error_text m))]
      | Tally s l \<Rightarrow> [(''compiled_sql'', PStr (show_conformity s)), (''compiled_postgres'', PStr (show_conformity s)),
            (''violation_sql'', PStr (case l of None \<Rightarrow> [] | Some v \<Rightarrow> show_conformity_list v))])"

section \<open>The six kinds\<close>

definition trimmed :: "dict \<Rightarrow> string \<Rightarrow> sql_term" where
  "trimmed p c = (if truthy (dict_get p ''trim_whitespace'' (PBool True)) then Trim (Column c) else Column c)"

definition matching :: "dict \<Rightarrow> string \<Rightarrow> string option \<Rightarrow> string \<Rightarrow> string \<Rightarrow> tally" where
  "matching p tbl f c pat =
     (let t = trimmed p c; ok = Cmp ''~'' t (Unescaped pat); bad = Cmp ''!~'' t (Unescaped pat)
      in conformity_tally tbl c f (null_mode_or NullSkip p) (column_check (Column c) ok ok bad) bad)"

definition conformity_regex :: "(pyval \<Rightarrow> string) \<Rightarrow> string \<Rightarrow> string \<Rightarrow> string option \<Rightarrow> dict \<Rightarrow> tally" where
  "conformity_regex str tbl c f p =
     (let v = py_or (dict_get p ''regex_pattern'' PNone) (dict_get p ''pattern'' (PStr []))
      in if \<not> truthy v then Fault ''regex conformity_type requires regex_pattern parameter''
         else matching p tbl f c (show_value str v))"

definition conformity_standard :: "(pyval \<Rightarrow> string) \<Rightarrow> string \<Rightarrow> string \<Rightarrow> string option \<Rightarrow> dict \<Rightarrow> py_error + tally" where
  "conformity_standard str tbl c f p =
     (let v = dict_get p ''standard_name'' (PStr [])
      in if \<not> truthy v then Inr (Fault ''standard conformity_type requires standard_name parameter'')
         else if \<not> hashable v then Inl (TypeError ''unhashable type'')
         else case (case v of PStr s \<Rightarrow> map_of CONFORMITY_STANDARDS s | _ \<Rightarrow> None) of
                None \<Rightarrow> Inr (Fault (''Unknown standard_name: '' @ show_value str v @ ''. Allowed: '' @
                  ''credit_card, date_iso, e164, email, email_rfc5322, iban, ip_address, iso_3166, iso_4217, iso_8601, phone, postal_code, ssn, url, uuid''))
              | Some pat \<Rightarrow> Inr (matching p tbl f c pat))"

text \<open>\<open>int\<close> of the bounds that are given.\<close>

definition length_bound :: "string \<Rightarrow> sql_term \<Rightarrow> pyval \<Rightarrow> py_error + cond list" where
  "length_bound op t v = (if v = PNone then Inr [] else map_sum id (\<lambda>i. [Cmp op t (Number (str_of_int i))]) (to_int v))"

definition conformity_length :: "string \<Rightarrow> string \<Rightarrow> string option \<Rightarrow> dict \<Rightarrow> py_error + tally" where
  "conformity_length tbl c f p =
     (let lo = dict_get p ''min_length'' PNone; hi = dict_get p ''max_length'' PNone;
          t = Call ''CHAR_LENGTH'' (trimmed p c)
      in if lo = PNone \<and> hi = PNone then Inr (Fault ''length conformity_type requires min_length and/or max_length'')
         else case length_bound ''>='' t lo of
                Inl e \<Rightarrow> Inl e
              | Inr as \<Rightarrow>
                  map_sum id (\<lambda>bs.
                    let ok = AllOf (as @ bs)
                    in conformity_tally tbl c f (null_mode_or NullSkip p)
                         (column_check (Column c) (Paren ok) ok (Not (Paren ok))) (Not (Paren ok)))
                  (length_bound ''<='' t hi))"

definition conformity_charset :: "(pyval \<Rightarrow> string) \<Rightarrow> string \<Rightarrow> string \<Rightarrow> string option \<Rightarrow> dict \<Rightarrow> tally" where
  "conformity_charset str tbl c f p =
     (let v = dict_get p ''allowed_characters'' (PStr [])
      in if \<not> truthy v then Fault ''charset conformity_type requires allowed_characters parameter''
         else matching p tbl f c (''^['' @ show_value str v @ '']*$''))"

definition conformity_case :: "(pyval \<Rightarrow> string) \<Rightarrow> string \<Rightarrow> string \<Rightarrow> string option \<Rightarrow> dict \<Rightarrow> py_error + tally" where
  "conformity_case str tbl c f p =
     (let v = dict_get p ''case_rule'' (PStr []); t = trimmed p c
      in if \<not> truthy v then Inr (Fault ''case conformity_type requires case_rule parameter'')
         else if \<not> hashable v then Inl (TypeError ''unhashable type'')
         else case (case v of PStr s \<Rightarrow> map_of [(''upper'', ''UPPER''), (''lower'', ''LOWER''), (''title'', ''INITCAP'')] s
                    | _ \<Rightarrow> None) of
                None \<Rightarrow> Inr (Fault (''Unknown case_rule: '' @ show_value str v @ ''. Allowed: upper, lower, title''))
              | Some g \<Rightarrow>
                  let ok = Cmp ''='' t (Call g t); bad = Cmp ''!='' t (Call g t)
                  in Inr (conformity_tally tbl c f (null_mode_or NullSkip p) (column_check (Column c) ok ok bad) bad))"

text \<open>
  A text is parsed by a cast or a function that fails on what is not a document, and then ends the
  statement.  The list has the condition of the second count; column names do not contain its
  \<open>CASE WHEN\<close> and \<open>THEN 1 END\<close>.
\<close>

definition structural_check :: "bool \<Rightarrow> string \<Rightarrow> check" where
  "structural_check json c =
     (let t = (if json then Typed (Column c) ''json'' else Document (Column c))
      in column_check (Column c) (if json then Paren (AllOf [NotNull (Column c), NotNull t]) else NotNull t)
           (NotNull t) (IsNull t))"

definition conformity_structural :: "(pyval \<Rightarrow> string) \<Rightarrow> string \<Rightarrow> string \<Rightarrow> string option \<Rightarrow> dict \<Rightarrow> tally" where
  "conformity_structural str tbl c f p =
     (let v = dict_get p ''structural_format'' (PStr []); m = null_mode_or NullSkip p;
          go = (\<lambda>json. conformity_tally tbl c f m (structural_check json c) (non_conforming_case m (structural_check json c)))
      in if \<not> truthy v then Fault ''structural conformity_type requires structural_format parameter''
         else if v = PStr ''json'' then go True
         else if v = PStr ''xml'' then go False
         else Fault (''Unknown structural_format: '' @ show_value str v @ ''. Allowed: json, xml''))"

section \<open>Dispatch\<close>

text \<open>The column: the first of the parameter \<open>columns\<close>, or the target of the rule.\<close>

definition target_column :: "(pyval \<Rightarrow> string) \<Rightarrow> string \<Rightarrow> dict \<Rightarrow> py_error + string" where
  "target_column str c p =
     map_sum id (show_value str) (first_or (PStr c) (dict_get p ''columns'' (PList (if c = [] then [] else [PStr c]))))"

definition conformity_type :: "dict \<Rightarrow> pyval" where
  "conformity_type p = py_or (dict_get p ''conformity_type'' PNone) (PStr (infer_conformity_type p))"

definition conformity_plan :: "(pyval \<Rightarrow> string) \<Rightarrow> string \<Rightarrow> string \<Rightarrow> dict \<Rightarrow> py_error + tally" where
  "conformity_plan str tbl column p =
     (let t = conformity_type p
      in case in_str_set t VALID_CONFORMITY_TYPES of
           Inl e \<Rightarrow> Inl e
         | Inr False \<Rightarrow> Inr (Fault (''Unknown conformity_type: '' @ show_value str t @ ''. Allowed: '' @
                        join_with '', '' VALID_CONFORMITY_TYPES))
         | Inr True \<Rightarrow>
             (case (rule_filter p, target_column str column p) of
                (Inl e, _) \<Rightarrow> Inl e
              | (Inr (Inr e), _) \<Rightarrow> Inr (Fault (''Invalid filter_expression '' @ [CHR 0x97] @ '' possible SQL injection''))
              | (_, Inl e) \<Rightarrow> Inl e
              | (Inr (Inl f), Inr c) \<Rightarrow>
                  if t = PStr ''regex'' then Inr (conformity_regex str tbl c f p)
                  else if t = PStr ''standard'' then conformity_standard str tbl c f p
                  else if t = PStr ''length'' then conformity_length tbl c f p
                  else if t = PStr ''charset'' then Inr (conformity_charset str tbl c f p)
                  else if t = PStr ''case'' then conformity_case str tbl c f p
                  else Inr (conformity_structural str tbl c f p)))"

end
