(* ===== verification/ConsistencyRules.thy ===== *)
theory ConsistencyRules
  imports TallyText
begin

text \<open>
  The consistency dimension of \<open>RuleCompiler\<close> as far as it compares rows one by one: within a record,
  against a formula, between two times, and with the rows of another table.  The kinds that group rows
  are the parameter \<open>grouped\<close>.
\<close>

section \<open>Kinds\<close>

definition VALID_CONSISTENCY_TYPES :: "string list" where
  "VALID_CONSISTENCY_TYPES = [''intra_record'', ''formula'', ''temporal'', ''inter_record'', ''cross_table'', ''aggregation'']"

definition infer_consistency_type :: "dict \<Rightarrow> string" where
  "infer_consistency_type p =
     (let has = (\<lambda>k. truthy (dict_get p k PNone))
      in if has ''aggregation_function'' then ''aggregation''
         else if has ''comparison_dataset'' \<and> has ''join_keys'' then ''cross_table''
         else if has ''group_by_columns'' \<and> has ''comparison_columns'' then ''inter_record''
         else if has ''comparison_column'' then ''temporal''
         else if has ''expected_column'' then ''formula''
         else ''intra_record'')"

section \<open>Statements\<close>

definition consistency_tally ::
    "rows_of \<Rightarrow> string \<Rightarrow> cond list \<Rightarrow> cond \<Rightarrow> cond \<Rightarrow> cond list \<Rightarrow> tally" where
  "consistency_tally src star w good bad listed =
     Tally \<lparr>sl_items = [(Agg CountAll, ''total_rows''), (Agg (CountIf good), ''consistent_rows''),
              (Agg (CountIf bad), ''inconsistent_rows'')], sl_source = src, sl_where = w\<rparr>
       (Some \<lparr>li_columns = star, li_source = src, li_where = listed\<rparr>)"

definition not_nulls :: "null_mode \<Rightarrow> sql_term list \<Rightarrow> cond list" where
  "not_nulls m ts = (if m = NullSkip \<and> ts \<noteq> [] then [AllOf (map NotNull ts)] else [])"

text \<open>The elements of a list of columns, as texts.\<close>

definition column_texts :: "(pyval \<Rightarrow> string) \<Rightarrow> pyval \<Rightarrow> py_error + string list" where
  "column_texts str v = map_sum id (map (show_value str)) (elements_of v)"

section \<open>Within a record\<close>

text \<open>
  The expression of the rule, or the comparison of its column with another, whose operator is any text.
\<close>

definition record_expression :: "(pyval \<Rightarrow> string) \<Rightarrow> string \<Rightarrow> dict \<Rightarrow> string option" where
  "record_expression str c p =
     (let e = dict_get p ''rule_expression'' PNone; d = dict_get p ''reference_column'' PNone
      in if truthy e then Some (show_value str e)
         else if truthy d
         then Some (quoted c @ '' '' @ show_value str (dict_get p ''operator'' (PStr ''='')) @ '' '' @ quoted (show_value str d))
         else None)"

definition consistency_intra_record ::
    "(pyval \<Rightarrow> string) \<Rightarrow> string \<Rightarrow> string \<Rightarrow> string option \<Rightarrow> dict \<Rightarrow> py_error + tally" where
  "consistency_intra_record str tbl c f p =
     (case record_expression str c p of
        None \<Rightarrow> Inr (Fault ''intra_record requires rule_expression'')
      | Some e \<Rightarrow>
          let m = null_mode_or NullFail p;
              ok = Paren (if m = NullPass then OrTrue (Raw e) else Raw e)
          in map_sum id (\<lambda>cols.
               consistency_tally (From tbl) ''*'' (not_nulls m (map Column cols) @ filter_conds f) ok (Not ok)
                 ([Not (Paren (Raw e))] @ filter_conds f))
               (if m = NullSkip then column_texts str (dict_get p ''columns'' (PList [PStr c])) else Inr []))"

section \<open>Deviations\<close>

text \<open>How far a value may be from the expected one; the default deviation is a number of the code.\<close>

definition distance :: "sql_term \<Rightarrow> sql_term \<Rightarrow> sql_term" where
  "distance a b = Call ''ABS'' (Bin ''-'' (Group a) (Group b))"

definition relative_distance :: "sql_term \<Rightarrow> sql_term \<Rightarrow> sql_term" where
  "relative_distance a b =
     Bin ''*'' (Bin ''/'' (distance a b) (OrNull (Call ''ABS'' (Group b)))) (Number ''100'')"

definition deviation :: "(pyval \<Rightarrow> string) \<Rightarrow> string \<Rightarrow> pyval \<Rightarrow> sql_term" where
  "deviation str d v = Number (if v = PNone then d else show_value str v)"

definition consistency_tolerance ::
    "(pyval \<Rightarrow> string) \<Rightarrow> sql_term \<Rightarrow> sql_term \<Rightarrow> pyval \<Rightarrow> pyval \<Rightarrow> cond \<times> cond" where
  "consistency_tolerance str a b kind v =
     (if kind = PStr ''none'' then (Cmp ''='' (Group a) (Group b), Cmp ''!='' (Group a) (Group b))
      else let (t, d) = (if kind = PStr ''percentage'' then (relative_distance a b, deviation str ''1.0'' v)
                         else (distance a b, deviation str ''0.01'' v))
           in (Cmp ''<='' t d, Cmp ''>'' t d))"

section \<open>Formulas\<close>

text \<open>
  The left-hand side of an equation about the expected column is dropped, by a regular expression: blanks,
  a quote, blanks, the column, blanks, a quote, blanks, one equality sign and blanks, with the choices
  in the order in which the matcher takes them back.
\<close>

definition blanks :: "string \<Rightarrow> string list" where
  "blanks s = map (\<lambda>n. drop n s) (rev [0..<Suc (length (takeWhile is_space s))])"

definition perhaps :: "char \<Rightarrow> string \<Rightarrow> string list" where
  "perhaps q s = (case s of c # r \<Rightarrow> if c = q then [r, s] else [s] | [] \<Rightarrow> [s])"

definition literally :: "string \<Rightarrow> string \<Rightarrow> string list" where
  "literally w s = (if starts_with w s then [drop (length w) s] else [])"

definition then_match :: "(string \<Rightarrow> string list) \<Rightarrow> (string \<Rightarrow> string list) \<Rightarrow> string \<Rightarrow> string list" where
  "then_match f g s = concat (map g (f s))"

definition one_equals :: "string \<Rightarrow> string list" where
  "one_equals s = (if starts_with ''='' s \<and> \<not> starts_with ''=='' s then [tl s] else [])"

definition after_left_side :: "string \<Rightarrow> string \<Rightarrow> string list" where
  "after_left_side c =
     then_match blanks (then_match (perhaps CHR 0x22) (then_match blanks (then_match (literally c)
       (then_match blanks (then_match (perhaps CHR 0x22) (then_match blanks (then_match one_equals blanks)))))))"

definition right_hand_side :: "string \<Rightarrow> string \<Rightarrow> string" where
  "right_hand_side c s = strip (case after_left_side c s of [] \<Rightarrow> s | r # _ \<Rightarrow> r)"

definition consistency_formula ::
    "(pyval \<Rightarrow> string) \<Rightarrow> string \<Rightarrow> string option \<Rightarrow> dict \<Rightarrow> py_error + tally" where
  "consistency_formula str tbl f p =
     (let e = py_or (dict_get p ''rule_expression'' PNone) (dict_get p ''formula'' PNone);
          d = dict_get p ''expected_column'' PNone
      in if \<not> truthy e then Inr (Fault ''formula requires rule_expression'')
         else if \<not> truthy d then Inr (Fault ''formula requires expected_column'')
         else case d of
                PStr c \<Rightarrow>
                  let m = null_mode_or NullFail p;
                      (good, bad) = consistency_tolerance str (Column c) (Group (Expr (right_hand_side c (show_value str e))))
                        (dict_get p ''tolerance_type'' (PStr ''absolute'')) (dict_get p ''tolerance_value'' PNone);
                      good' = (if m = NullPass then OrTrue good else good);
                      bad' = (if m = NullPass then Not (OrTrue good') else bad)
                  in Inr (consistency_tally (From tbl) ''*'' (not_nulls m [Column c] @ filter_conds f) good' bad'
                       ([bad'] @ filter_conds f))
              | _ \<Rightarrow> Inl (TypeError ''first argument must be string''))"

section \<open>Times\<close>

definition TEMPORAL_OPERATORS :: "(string \<times> string) list" where
  "TEMPORAL_OPERATORS =
     [(''greater_equal'', ''>=''), (''greater'', ''>''), (''less_equal'', ''<=''), (''less'', ''<''), (''equal'', ''=''),
      (''equals'', ''=''), (''gte'', ''>=''), (''gt'', ''>''), (''lte'', ''<=''), (''lt'', ''<''), (''eq'', ''=''),
      (''>='', ''>=''), (''>'', ''>''), (''<='', ''<=''), (''<'', ''<''), (''='', ''='')]"

definition temporal_operator :: "string \<Rightarrow> string" where
  "temporal_operator s = (case map_of TEMPORAL_OPERATORS (lower s) of None \<Rightarrow> ''>='' | Some x \<Rightarrow> x)"

definition inverse_operator :: "string \<Rightarrow> string" where
  "inverse_operator s =
     (case map_of [(''>='', ''<''), (''>'', ''<=''), (''<='', ''>''), (''<'', ''>=''), (''='', ''!='')] s of
        None \<Rightarrow> ''!='' | Some x \<Rightarrow> x)"

definition compared_column :: "string \<Rightarrow> dict \<Rightarrow> pyval" where
  "compared_column c p =
     (let g = (\<lambda>k. dict_get p k PNone);
          v = py_or (py_or (py_or (g ''comparison_column'') (g ''right_column'')) (g ''start_column'')) (g ''reference_column'')
      in if v = PStr c then py_or (g ''end_column'') v else v)"

definition consistency_temporal :: "(pyval \<Rightarrow> string) \<Rightarrow> string \<Rightarrow> string \<Rightarrow> string option \<Rightarrow> dict \<Rightarrow> tally" where
  "consistency_temporal str tbl c f p =
     (let v = compared_column c p; d = show_value str v;
          op = temporal_operator (show_value str (dict_get p ''operator'' (PStr ''>='')));
          m = null_mode_or NullFail p;
          ok = Cmp op (Column c) (Column d); bad = Cmp (inverse_operator op) (Column c) (Column d)
      in if \<not> truthy v then Fault ''temporal requires comparison_column''
         else consistency_tally (From tbl) ''*'' (not_nulls m [Column c, Column d] @ filter_conds f)
                (if m = NullPass then OrTrue ok else ok) (if m = NullPass then Not (OrTrue ok) else bad)
                ([bad] @ filter_conds f))"

section \<open>Other tables\<close>

definition equal_columns :: "string list \<Rightarrow> cond list" where
  "equal_columns cs = map (\<lambda>c. Cmp ''='' (Member ''a'' c) (Member ''b'' c)) cs"

definition consistency_cross_table :: "(pyval \<Rightarrow> string) \<Rightarrow> string \<Rightarrow> string option \<Rightarrow> dict \<Rightarrow> py_error + tally" where
  "consistency_cross_table str tbl f p =
     (let u = dict_get p ''comparison_dataset'' PNone; ks = dict_get p ''join_keys'' PNone;
          cs = dict_get p ''comparison_columns'' PNone
      in if \<not> truthy u then Inr (Fault ''cross_table requires comparison_dataset'')
         else if \<not> truthy ks then Inr (Fault ''cross_table requires join_keys'')
         else if \<not> truthy cs then Inr (Fault ''cross_table requires comparison_columns'')
         else case (column_texts str ks, column_texts str cs) of
                (Inl e, _) \<Rightarrow> Inl e
              | (_, Inl e) \<Rightarrow> Inl e
              | (Inr keys, Inr cols) \<Rightarrow>
                  let ok = AllOf (equal_columns cols)
                  in Inr (consistency_tally (JoinAB False tbl (show_value str u) (equal_columns keys)) ''a.*''
                       (filter_conds f) ok (Not (Paren ok)) ([Not (Paren ok)] @ filter_conds f)))"

section \<open>Dispatch\<close>

text \<open>A text of the parameters that the guard of filters must accept.\<close>

definition guarded :: "dict \<Rightarrow> string \<Rightarrow> py_error + bool" where
  "guarded p k =
     (let v = dict_get p k PNone
      in if truthy v then accepts_filter v else Inr True)"

definition given_text :: "dict \<Rightarrow> string \<Rightarrow> string option" where
  "given_text p k = (case dict_get p k PNone of PStr (c # s) \<Rightarrow> Some (c # s) | _ \<Rightarrow> None)"

definition consistency_type :: "dict \<Rightarrow> pyval" where
  "consistency_type p = py_or (dict_get p ''consistency_type'' PNone) (PStr (infer_consistency_type p))"

definition consistency_plan ::
    "(pyval \<Rightarrow> string) \<Rightarrow> (string \<Rightarrow> string \<Rightarrow> string \<Rightarrow> dict \<Rightarrow> py_error + tally) \<Rightarrow> string \<Rightarrow> string \<Rightarrow> dict \<Rightarrow>
     py_error + tally" where
  "consistency_plan str grouped tbl c p =
     (let t = consistency_type p; f = given_text p ''filter_expression''
      in case in_str_set t VALID_CONSISTENCY_TYPES of
           Inl e \<Rightarrow> Inl e
         | Inr False \<Rightarrow> Inr (Fault (''Unknown consistency_type: '' @ show_value str t))
         | Inr True \<Rightarrow>
             (case guarded p ''filter_expression'' of
                Inl e \<Rightarrow> Inl e
              | Inr False \<Rightarrow> Inr (Fault ''Dangerous filter_expression rejected'')
              | Inr True \<Rightarrow>
                  (case guarded p ''rule_expression'' of
                     Inl e \<Rightarrow> Inl e
                   | Inr False \<Rightarrow> Inr (Fault ''Dangerous rule_expression rejected'')
                   | Inr True \<Rightarrow>
                       if t = PStr ''intra_record'' then consistency_intra_record str tbl c f p
                       else if t = PStr ''formula'' then consistency_formula str tbl f p
                       else if t = PStr ''temporal'' then Inr (consistency_temporal str tbl c f p)
                       else if t = PStr ''cross_table'' then consistency_cross_table str tbl f p
                       else grouped (show_value str t) tbl c p)))"

end
