(* ===== verification/TimelinessRules.thy ===== *)
theory TimelinessRules
  imports ConsistencyRules
begin

text \<open>
  The timeliness dimension of \<open>RuleCompiler\<close>: the age of a table, of its rows and between two times of
  a row, the hours of delivery, and the sign of life of a table.  The reader of float texts is a
  parameter.
\<close>

section \<open>Durations and times of day\<close>

text \<open>\<open>(\d+(?:\.\d+)?)\s*(m|h|d)\<close> in either case: the number and the unit.\<close>

definition duration_parts :: "string \<Rightarrow> (string \<times> string) option" where
  "duration_parts s =
     (let w = takeWhile is_digit s; r = dropWhile is_digit s;
          d = (case r of c # t \<Rightarrow> if c = CHR ''.'' then takeWhile is_digit t else [] | [] \<Rightarrow> []);
          (num, rest) = (if d = [] then (w, r) else (w @ ''.'' @ d, drop (Suc (length d)) r));
          u = lower (dropWhile is_space rest)
      in if w \<noteq> [] \<and> u \<in> {''m'', ''h'', ''d''} then Some (num, u) else None)"

definition unit_seconds :: "string \<Rightarrow> rat" where
  "unit_seconds u = (if u = ''m'' then 60 else if u = ''h'' then 3600 else 86400)"

definition parse_duration_to_seconds ::
    "(pyval \<Rightarrow> string) \<Rightarrow> (string \<Rightarrow> pyfloat option) \<Rightarrow> pyval \<Rightarrow> py_error + int option" where
  "parse_duration_to_seconds str ft v =
     (case v of
        PNone \<Rightarrow> Inr None
      | PInt i \<Rightarrow> Inr (Some i)
      | PBool b \<Rightarrow> Inr (Some (if b then 1 else 0))
      | PFloat x \<Rightarrow> map_sum id Some (to_int v)
      | _ \<Rightarrow>
          let s = strip (show_value str v)
          in case (case ft s of None \<Rightarrow> Inl (ValueError ''could not convert string to float'') | Some x \<Rightarrow> to_int (PFloat x)) of
               Inr i \<Rightarrow> Inr (Some i)
             | Inl (OverflowError m) \<Rightarrow> Inl (OverflowError m)
             | Inl _ \<Rightarrow>
                 (case duration_parts s of
                    None \<Rightarrow> Inr None
                  | Some (num, u) \<Rightarrow>
                      (case ft num of
                         None \<Rightarrow> Inl (ValueError ''could not convert string to float'')
                       | Some x \<Rightarrow> map_sum id Some (to_int (PFloat (float_mul x (FFin (unit_seconds u))))))))"

definition parse_window_time :: "(pyval \<Rightarrow> string) \<Rightarrow> pyval \<Rightarrow> int option" where
  "parse_window_time str v =
     (let s = (if v = PNone then [] else strip (show_value str v));
          hour = takeWhile is_digit s;
          num = (\<lambda>w. int (foldl (\<lambda>n c. 10 * n + (code_of c - 48)) 0 w))
      in if length hour \<in> {1, 2} \<and> length s = length hour + 3 \<and> s ! length hour = CHR '':'' \<and>
            list_all is_digit (drop (Suc (length hour)) s)
         then let h = num hour; m = num (drop (Suc (length hour)) s)
              in if 23 < h \<or> 59 < m then None else Some (60 * h + m)
         else None)"

section \<open>Statements\<close>

definition VALID_TIMELINESS_TYPES :: "string list" where
  "VALID_TIMELINESS_TYPES =
     [''freshness'', ''record_age'', ''latency'', ''processing_delay'', ''delivery_window'', ''heartbeat'']"

definition infer_timeliness_type :: "dict \<Rightarrow> string" where
  "infer_timeliness_type p =
     (if truthy (dict_get p ''comparison_timestamp'' PNone) then ''latency''
      else if truthy (dict_get p ''delivery_window_start'' PNone) then ''delivery_window''
      else if truthy (dict_get p ''expected_frequency'' PNone) then ''heartbeat''
      else ''freshness'')"

text \<open>The filter of a rule about a table stands alone, without parentheses.\<close>

definition bare_filter :: "string option \<Rightarrow> cond list" where
  "bare_filter f = (case f of None \<Rightarrow> [] | Some s \<Rightarrow> [Raw s])"

definition timeliness_select :: "string \<Rightarrow> cond list \<Rightarrow> (count \<times> string) list \<Rightarrow> count \<Rightarrow> count \<Rightarrow> select" where
  "timeliness_select tbl w items timely untimely =
     \<lparr>sl_items = items @ [(timely, ''timely_rows''), (untimely, ''untimely_rows'')], sl_source = From tbl, sl_where = w\<rparr>"

definition show_timeliness :: "select \<Rightarrow> string" where
  "show_timeliness s = strip (show_select '' AS '' s)"

definition seconds_since :: "sql_term \<Rightarrow> sql_term" where
  "seconds_since t = Part ''EPOCH'' (Group (Bin ''-'' (Expr ''NOW()'') t))"

definition seconds :: "int \<Rightarrow> sql_term" where
  "seconds i = Number (str_of_int i)"

definition got :: "(pyval \<Rightarrow> string) \<Rightarrow> pyval \<Rightarrow> string" where
  "got str v = '' (got: '' @ show_value str v @ '')''"

text \<open>The time of a rule, and a duration, with the messages for their absence.\<close>

definition with_duration ::
    "(pyval \<Rightarrow> string) \<Rightarrow> (string \<Rightarrow> pyfloat option) \<Rightarrow> string \<Rightarrow> string \<Rightarrow> pyval \<Rightarrow> pyval \<Rightarrow>
     (string \<Rightarrow> int \<Rightarrow> tally) \<Rightarrow> py_error + tally" where
  "with_duration str ft kind name ts v go =
     (if \<not> truthy ts then Inr (Fault (''timestamp_column is required for '' @ kind @ '' checks''))
      else case parse_duration_to_seconds str ft v of
             Inl e \<Rightarrow> Inl e
           | Inr None \<Rightarrow> Inr (Fault (name @ '' is required for '' @ kind @ '' checks'' @ got str v))
           | Inr (Some i) \<Rightarrow> Inr (go (show_value str ts) i))"

definition timeliness_freshness ::
    "(pyval \<Rightarrow> string) \<Rightarrow> (string \<Rightarrow> pyfloat option) \<Rightarrow> string \<Rightarrow> string \<Rightarrow> string option \<Rightarrow> dict \<Rightarrow> py_error + tally" where
  "timeliness_freshness str ft tbl c f p =
     with_duration str ft ''freshness'' ''max_age'' (dict_get p ''timestamp_column'' (PStr c)) (dict_get p ''max_age'' PNone)
       (\<lambda>ts i. let age = seconds_since (MaxOf ts)
              in Tally (timeliness_select tbl (bare_filter f)
                     [(Agg CountAll, ''total_rows''), (Whole (MaxOf ts), ''most_recent''), (Whole age, ''age_seconds'')]
                     (AllIf (Cmp ''<='' age (seconds i))) (AllIf (Cmp ''>'' age (seconds i)))) None)"

definition timeliness_heartbeat ::
    "(pyval \<Rightarrow> string) \<Rightarrow> (string \<Rightarrow> pyfloat option) \<Rightarrow> string \<Rightarrow> string \<Rightarrow> string option \<Rightarrow> dict \<Rightarrow> py_error + tally" where
  "timeliness_heartbeat str ft tbl c f p =
     with_duration str ft ''heartbeat'' ''expected_frequency'' (dict_get p ''timestamp_column'' (PStr c))
       (dict_get p ''expected_frequency'' PNone)
       (\<lambda>ts i. let age = seconds_since (MaxOf ts)
              in Tally (timeliness_select tbl (bare_filter f)
                     [(Agg (Constant ''1'' 1), ''total_rows''), (Whole (MaxOf ts), ''most_recent'')]
                     (OneIf True (Cmp ''<='' age (seconds i))) (OneIf False (Cmp ''>'' age (seconds i)))) None)"

text \<open>Ages of rows: \<open>d\<close> is the expression, \<open>ts\<close> the columns it needs and \<open>name\<close> its name in the list.\<close>

definition row_ages :: "string \<Rightarrow> sql_term list \<Rightarrow> sql_term \<Rightarrow> string \<Rightarrow> null_mode \<Rightarrow> string option \<Rightarrow> int \<Rightarrow> tally" where
  "row_ages tbl ts d name m f i =
     (let late = Cmp ''>'' d (seconds i); early = Cmp ''<='' d (seconds i)
      in Tally (timeliness_select tbl (not_nulls m ts @ filter_conds f) [(Agg CountAll, ''total_rows'')]
             (SumIf (if m = NullPass then AnyOf (map IsNull ts @ [early]) else early))
             (SumIf (if m = NullPass then AllOf (map NotNull ts @ [late]) else late)))
           (Some \<lparr>li_columns = ''*, '' @ show_term d @ '' AS '' @ name, li_source = From tbl, li_where = [late]\<rparr>))"

definition timeliness_record_age ::
    "(pyval \<Rightarrow> string) \<Rightarrow> (string \<Rightarrow> pyfloat option) \<Rightarrow> string \<Rightarrow> string \<Rightarrow> string option \<Rightarrow> dict \<Rightarrow> py_error + tally" where
  "timeliness_record_age str ft tbl c f p =
     with_duration str ft ''record_age'' ''max_age'' (dict_get p ''timestamp_column'' (PStr c)) (dict_get p ''max_age'' PNone)
       (\<lambda>ts. row_ages tbl [Column ts] (seconds_since (Column ts)) ''record_age_seconds'' (null_mode_or NullFail p) f)"

definition timeliness_delay ::
    "(pyval \<Rightarrow> string) \<Rightarrow> (string \<Rightarrow> pyfloat option) \<Rightarrow> string \<Rightarrow> string \<Rightarrow> string \<Rightarrow> string option \<Rightarrow> dict \<Rightarrow>
     py_error + tally" where
  "timeliness_delay str ft kind tbl c f p =
     (let v = dict_get p ''comparison_timestamp'' PNone; d = show_value str v
      in if \<not> truthy v then Inr (Fault (''comparison_timestamp is required for '' @ kind @ '' checks''))
         else with_duration str ft kind ''max_age'' (dict_get p ''timestamp_column'' (PStr c)) (dict_get p ''max_age'' PNone)
                (\<lambda>ts. row_ages tbl [Column ts, Column d]
                        (Call ''ABS'' (Part ''EPOCH'' (Group (Bin ''-'' (Column d) (Column ts))))) ''delay_seconds''
                        (null_mode_or NullFail p) f))"

definition minute_of_day :: "string \<Rightarrow> sql_term" where
  "minute_of_day ts =
     Bin ''+'' (Bin ''*'' (Part ''HOUR'' (Column ts)) (Number ''60'')) (Part ''MINUTE'' (Column ts))"

definition timeliness_delivery_window ::
    "(pyval \<Rightarrow> string) \<Rightarrow> string \<Rightarrow> string \<Rightarrow> string option \<Rightarrow> dict \<Rightarrow> tally" where
  "timeliness_delivery_window str tbl c f p =
     (let tsv = dict_get p ''timestamp_column'' (PStr c); ts = show_value str tsv;
          a = dict_get p ''delivery_window_start'' PNone; b = dict_get p ''delivery_window_end'' PNone;
          missing = (\<lambda>n v. Fault (n @ '' is required and must be HH:MM format'' @ got str v))
      in if \<not> truthy tsv then Fault ''timestamp_column is required for delivery_window checks''
         else case (parse_window_time str a, parse_window_time str b) of
                (None, _) \<Rightarrow> missing ''delivery_window_start'' a
              | (Some i, None) \<Rightarrow> missing ''delivery_window_end'' b
              | (Some i, Some j) \<Rightarrow>
                  let w = Paren (Between (minute_of_day ts) (seconds i) (seconds j))
                  in Tally (timeliness_select tbl (bare_filter f)
                         [(Agg CountAll, ''total_rows''), (Whole (MaxOf ts), ''most_recent'')]
                         (SumIf w) (SumIf (Not w))) None)"

definition timeliness_plan ::
    "(pyval \<Rightarrow> string) \<Rightarrow> (string \<Rightarrow> pyfloat option) \<Rightarrow> string \<Rightarrow> string \<Rightarrow> dict \<Rightarrow> py_error + tally" where
  "timeliness_plan str ft tbl c p =
     (let t = py_or (dict_get p ''timeliness_type'' PNone) (PStr (infer_timeliness_type p));
          f = given_text p ''filter_expression''
      in case in_str_set t VALID_TIMELINESS_TYPES of
           Inl e \<Rightarrow> Inl e
         | Inr False \<Rightarrow> Inr (Fault (''Unknown timeliness type: '' @ show_value str t))
         | Inr True \<Rightarrow>
             (case guarded p ''filter_expression'' of
                Inl e \<Rightarrow> Inl e
              | Inr False \<Rightarrow> Inr (Fault (''Dangerous filter expression rejected: '' @
                             show_value str (dict_get p ''filter_expression'' PNone)))
              | Inr True \<Rightarrow>
                  if t = PStr ''freshness'' then timeliness_freshness str ft tbl c f p
                  else if t = PStr ''record_age'' then timeliness_record_age str ft tbl c f p
                  else if t = PStr ''delivery_window'' then Inr (timeliness_delivery_window str tbl c f p)
                  else if t = PStr ''heartbeat'' then timeliness_heartbeat str ft tbl c f p
                  else timeliness_delay str ft (show_value str t) tbl c f p))"

end
