(* ===== verification/AccuracyRules.thy ===== *)
theory AccuracyRules
  imports TimelinessRules
begin

text \<open>
  The accuracy dimension of \<open>RuleCompiler\<close>: values against a reference table, against the distribution
  of their column, and against a formula.
\<close>

section \<open>Kinds\<close>

definition VALID_ACCURACY_TYPES :: "string list" where
  "VALID_ACCURACY_TYPES =
     [''reference_comparison'', ''trusted_source'', ''tolerated_deviation'', ''statistical'', ''derived_value'']"

definition VALID_TOLERANCE_TYPES :: "string list" where
  "VALID_TOLERANCE_TYPES = [''none'', ''absolute'', ''percentage'']"

definition VALID_STATISTICAL_METHODS :: "string list" where
  "VALID_STATISTICAL_METHODS = [''zscore'', ''iqr'']"

definition infer_accuracy_type :: "dict \<Rightarrow> string" where
  "infer_accuracy_type p =
     (if truthy (dict_get p ''statistical_method'' PNone) then ''statistical''
      else if truthy (dict_get p ''formula'' PNone) then ''derived_value''
      else if dict_get p ''tolerance_value'' PNone \<noteq> PNone \<and> truthy (dict_get p ''reference_dataset'' PNone)
      then ''tolerated_deviation''
      else ''reference_comparison'')"

definition accuracy_type :: "dict \<Rightarrow> pyval" where
  "accuracy_type p = py_or (dict_get p ''accuracy_type'' PNone) (PStr (infer_accuracy_type p))"

text \<open>Values must be equal unless a deviation is stated.\<close>

definition accuracy_tolerance ::
    "(pyval \<Rightarrow> string) \<Rightarrow> sql_term \<Rightarrow> sql_term \<Rightarrow> pyval \<Rightarrow> pyval \<Rightarrow> cond \<times> cond" where
  "accuracy_tolerance str a b kind v =
     (if kind = PStr ''percentage''
      then (Cmp ''<='' (relative_distance a b) (deviation str ''1.0'' v), Cmp ''>'' (relative_distance a b) (deviation str ''1.0'' v))
      else if kind = PStr ''absolute''
      then (Cmp ''<='' (distance a b) (deviation str ''0.01'' v), Cmp ''>'' (distance a b) (deviation str ''0.01'' v))
      else (Cmp ''='' (Group a) (Group b), Cmp ''!='' (Group a) (Group b)))"

section \<open>Statements\<close>

definition accuracy_tally ::
    "rows_of \<Rightarrow> string \<Rightarrow> agg \<Rightarrow> agg \<Rightarrow> cond list \<Rightarrow> cond \<Rightarrow> cond \<Rightarrow> cond list \<Rightarrow> tally" where
  "accuracy_tally src star verified rest w good bad listed =
     Tally \<lparr>sl_items = [(Agg CountAll, ''total_rows''), (Agg verified, ''verified_rows''), (Agg rest, ''unverifiable_rows''),
              (Agg (CountIf good), ''accurate_rows''), (Agg (CountIf bad), ''inaccurate_rows'')],
            sl_source = src, sl_where = w\<rparr>
       (Some \<lparr>li_columns = star, li_source = src, li_where = listed\<rparr>)"

definition all_verified :: "rows_of \<Rightarrow> string \<Rightarrow> cond list \<Rightarrow> cond \<Rightarrow> cond \<Rightarrow> cond list \<Rightarrow> tally" where
  "all_verified src star = accuracy_tally src star CountAll (Constant ''0'' 0)"

text \<open>What a rule that passes nulls does with the two conditions.\<close>

definition pass_nulls :: "null_mode \<Rightarrow> sql_term \<Rightarrow> cond \<times> cond \<Rightarrow> cond \<times> cond" where
  "pass_nulls m t gb =
     (if m = NullPass
      then (Paren (AnyOf [IsNull t, Paren (fst gb)]), Paren (AllOf [NotNull t, snd gb]))
      else gb)"

definition accuracy_where :: "null_mode \<Rightarrow> sql_term \<Rightarrow> string option \<Rightarrow> cond list" where
  "accuracy_where m t f = filter_conds f @ (if m = NullSkip then [NotNull t] else [])"

section \<open>References\<close>

definition accuracy_reference ::
    "(pyval \<Rightarrow> string) \<Rightarrow> string \<Rightarrow> string \<Rightarrow> string option \<Rightarrow> dict \<Rightarrow> py_error + tally" where
  "accuracy_reference str tbl c f p =
     (let u = dict_get p ''reference_dataset'' PNone; ks = dict_get p ''join_keys'' PNone;
          kind = dict_get p ''tolerance_type'' (PStr ''none''); v = dict_get p ''tolerance_value'' PNone;
          m = null_mode_or NullFail p; a = Member ''a'' c;
          b = Member ''b'' (show_value str (dict_get p ''reference_column'' (PStr c)))
      in if \<not> truthy u then Inr (Fault ''reference_dataset is required for reference-based accuracy checks'')
         else if \<not> truthy ks then Inr (Fault ''join_keys is required for reference-based accuracy checks'')
         else if accuracy_type p = PStr ''tolerated_deviation'' \<and> (kind = PStr ''none'' \<or> v = PNone)
         then Inr (Fault ''tolerated_deviation requires tolerance_type and tolerance_value'')
         else case in_str_set kind VALID_TOLERANCE_TYPES of
                Inl e \<Rightarrow> Inl e
              | Inr False \<Rightarrow> Inr (Fault (''Invalid tolerance_type: '' @ show_value str kind))
              | Inr True \<Rightarrow>
                  map_sum id (\<lambda>keys.
                    let (good, bad) = pass_nulls m a (accuracy_tolerance str a b kind v);
                        src = JoinAB True tbl (show_value str u) (equal_columns keys)
                    in accuracy_tally src ''a.*'' (CountCol b) (Difference CountAll (CountCol b)) (accuracy_where m a f)
                         (AllOf [NotNull b, good]) (AllOf [NotNull b, bad]) ([NotNull b, bad] @ filter_conds f))
                  (column_texts str ks))"

section \<open>Formulas\<close>

definition accuracy_derived_value ::
    "(pyval \<Rightarrow> string) \<Rightarrow> string \<Rightarrow> string \<Rightarrow> string option \<Rightarrow> dict \<Rightarrow> py_error + tally" where
  "accuracy_derived_value str tbl c f p =
     (let g = dict_get p ''formula'' PNone; kind = dict_get p ''tolerance_type'' (PStr ''none'');
          v = dict_get p ''tolerance_value'' PNone; m = null_mode_or NullFail p
      in if \<not> truthy g then Inr (Fault ''formula is required for derived_value accuracy checks'')
         else case accepts_filter g of
                Inl e \<Rightarrow> Inl e
              | Inr False \<Rightarrow> Inr (Fault (''Dangerous formula rejected: '' @ show_value str g))
              | Inr True \<Rightarrow>
                  (case in_str_set kind VALID_TOLERANCE_TYPES of
                     Inl e \<Rightarrow> Inl e
                   | Inr False \<Rightarrow> Inr (Fault (''Invalid tolerance_type: '' @ show_value str kind))
                   | Inr True \<Rightarrow>
                       let (good, bad) = pass_nulls m (Column c)
                             (accuracy_tolerance str (Column c) (Group (Expr (filter_text g))) kind v)
                       in Inr (all_verified (From tbl) ''*'' (accuracy_where m (Column c) f) good bad
                            ([bad] @ filter_conds f))))"

section \<open>Distributions\<close>

text \<open>
  The limit of a rule, under either of its names; the code writes the second one back into the
  parameters under the first.
\<close>

definition statistical_limit :: "(pyval \<Rightarrow> string) \<Rightarrow> string \<Rightarrow> dict \<Rightarrow> sql_term" where
  "statistical_limit str d p =
     Number (if has_key p ''statistical_threshold'' then show_value str (dict_get p ''statistical_threshold'' PNone)
       else let v = dict_get p ''outlier_threshold'' PNone in if v = PNone then d else show_value str v)"

definition zscore :: "string \<Rightarrow> sql_term" where
  "zscore c = Bin ''/'' (Call ''ABS'' (Bin ''-'' (Member ''t'' c) (Plain ''s'' ''mu''))) (OrNull (Plain ''s'' ''sigma''))"

definition quartile_bound :: "string \<Rightarrow> string \<Rightarrow> sql_term \<Rightarrow> sql_term" where
  "quartile_bound q op k =
     Bin op (Plain ''s'' q) (Bin ''*'' k (Group (Bin ''-'' (Plain ''s'' ''q3'') (Plain ''s'' ''q1''))))"

definition zscore_stats :: "string \<Rightarrow> (string \<times> string) list" where
  "zscore_stats c = [(''mu'', ''AVG('' @ quoted c @ '')''), (''sigma'', ''STDDEV('' @ quoted c @ '')'')]"

definition quartile_stats :: "string \<Rightarrow> (string \<times> string) list" where
  "quartile_stats c =
     (let f = (\<lambda>q. ''percentile_cont('' @ q @ '') WITHIN GROUP (ORDER BY '' @ quoted c @ '')'')
      in [(''q1'', f ''0.25''), (''q3'', f ''0.75'')])"

text \<open>
  The rows of the list outside the quartiles: the filter, when there is one, binds to the second
  alternative only.
\<close>

definition accuracy_statistical ::
    "(pyval \<Rightarrow> string) \<Rightarrow> string \<Rightarrow> string \<Rightarrow> string option \<Rightarrow> dict \<Rightarrow> py_error + tally" where
  "accuracy_statistical str tbl c f p =
     (let meth = py_or (py_or (dict_get p ''statistical_method'' PNone) (dict_get p ''method'' PNone)) (PStr ''zscore'');
          m = null_mode_or NullFail p; w = accuracy_where m (Column c) f; t = Member ''t'' c;
          pass = (\<lambda>(good, bad). if m = NullPass then (AnyOf [IsNull t, good], AllOf [NotNull t, bad]) else (good, bad))
      in if c = [] \<or> c = ''*'' then Inr (Fault ''statistical accuracy check requires a target column to be selected'')
         else case in_str_set meth VALID_STATISTICAL_METHODS of
                Inl e \<Rightarrow> Inl e
              | Inr False \<Rightarrow> Inr (Fault (''Invalid statistical_method: '' @ show_value str meth))
              | Inr True \<Rightarrow>
                  Inr (if meth = PStr ''zscore''
                     then let k = statistical_limit str ''3.0'' p;
                              (good, bad) = pass (Cmp ''<='' (zscore c) k, Cmp ''>'' (zscore c) k)
                          in all_verified (CrossStats tbl c w (zscore_stats c)) ''t.*'' w good bad
                               ([Cmp ''>'' (zscore c) k] @ filter_conds f)
                     else let k = statistical_limit str ''1.5'' p;
                              lo = quartile_bound ''q1'' ''-'' k; hi = quartile_bound ''q3'' ''+'' k;
                              inside = AllOf [Cmp ''>='' t lo, Cmp ''<='' t hi]; outside = AnyOf [Cmp ''<'' t lo, Cmp ''>'' t hi];
                              (good, bad) = (if m = NullPass then pass (Paren inside, Paren outside) else (inside, outside))
                          in all_verified (CrossStats tbl c w (quartile_stats c)) ''t.*'' w good bad
                               [AnyOf [Cmp ''<'' t lo, AllOf (Cmp ''>'' t hi # filter_conds f)]]))"

definition show_accuracy :: "select \<Rightarrow> string" where
  "show_accuracy s = strip (show_select '' AS '' s)"

definition accuracy_plan :: "(pyval \<Rightarrow> string) \<Rightarrow> string \<Rightarrow> string \<Rightarrow> dict \<Rightarrow> py_error + tally" where
  "accuracy_plan str tbl c p =
     (let t = accuracy_type p; f = given_text p ''filter_expression''
      in case in_str_set t VALID_ACCURACY_TYPES of
           Inl e \<Rightarrow> Inl e
         | Inr False \<Rightarrow> Inr (Fault (''Unknown accuracy type: '' @ show_value str t))
         | Inr True \<Rightarrow>
             (case guarded p ''filter_expression'' of
                Inl e \<Rightarrow> Inl e
              | Inr False \<Rightarrow> Inr (Fault (''Dangerous filter expression rejected: '' @
                             show_value str (dict_get p ''filter_expression'' PNone)))
              | Inr True \<Rightarrow>
                  if t = PStr ''statistical'' then accuracy_statistical str tbl c f p
                  else if t = PStr ''derived_value'' then accuracy_derived_value str tbl c f p
                  else accuracy_reference str tbl c f p))"

end
