(* ===== verification/UniquenessRules.thy ===== *)
theory UniquenessRules
  imports ConsistencyRules
begin

text \<open>
  The uniqueness dimension of \<open>RuleCompiler\<close> as far as keys are compared for equality: in a column, in
  several, within a scope and with another table.  The modes that compare pairs of rows for similarity
  or in time are the parameter \<open>by_pairs\<close>.
\<close>

section \<open>Modes\<close>

definition VALID_UNIQUENESS_MODES :: "string list" where
  "VALID_UNIQUENESS_MODES = [''composite'', ''cross_dataset'', ''exact'', ''fuzzy'', ''scoped'', ''temporal'']"

definition infer_uniqueness_mode :: "dict \<Rightarrow> py_error + string" where
  "infer_uniqueness_mode p =
     (let has = (\<lambda>k. truthy (dict_get p k PNone))
      in if has ''scope_columns'' then Inr ''scoped''
         else if has ''cross_dataset_name'' then Inr ''cross_dataset''
         else if has ''fuzzy_algorithm'' then Inr ''fuzzy''
         else if has ''temporal_window'' then Inr ''temporal''
         else map_sum id (\<lambda>cs. if 1 < length cs then ''composite'' else ''exact'')
                (elements_of (dict_get p ''columns'' (PList []))))"

section \<open>Keys\<close>

definition key_of :: "bool \<Rightarrow> bool \<Rightarrow> string \<Rightarrow> sql_term" where
  "key_of nulls case_sensitive c =
     (let t = (if case_sensitive then Column c else LowerOf (Typed (Column c) ''text''))
      in if nulls then Coalesce [Typed t ''text'', Literal ''__NULL__''] else t)"

text \<open>Nulls are excluded unless the rule includes them.\<close>

definition includes_nulls :: "dict \<Rightarrow> bool" where
  "includes_nulls p \<longleftrightarrow> dict_get p ''null_handling'' (PStr ''exclude'') = PStr ''include''"

definition is_case_sensitive :: "dict \<Rightarrow> bool" where
  "is_case_sensitive p = truthy (dict_get p ''case_sensitive'' (PBool True))"

definition key_columns :: "(pyval \<Rightarrow> string) \<Rightarrow> string \<Rightarrow> dict \<Rightarrow> py_error + string list" where
  "key_columns str c p =
     (let v = dict_get p ''columns'' (PList [PStr c]) in column_texts str (if truthy v then v else PList [PStr c]))"

definition uniqueness_where :: "bool \<Rightarrow> string list \<Rightarrow> string option \<Rightarrow> cond list" where
  "uniqueness_where nulls cs f = (if nulls then [] else [AllOf (map (NotNull \<circ> Column) cs)]) @ filter_conds f"

section \<open>Statements\<close>

text \<open>
  The groups of rows with equal keys that have more than one row: the name they are given, the key, in
  parentheses when it is a tuple, and the rows.
\<close>

record duplicates =
  du_name :: string
  du_single :: bool
  du_keys :: "sql_term list"
  du_table :: string
  du_where :: "cond list"

definition show_keys :: "duplicates \<Rightarrow> string" where
  "show_keys d = join_with '', '' (map show_term (du_keys d))"

definition show_groups :: "nat \<Rightarrow> string \<Rightarrow> duplicates \<Rightarrow> string" where
  "show_groups n selected d = line n @ ''SELECT '' @ selected @ line n @ ''FROM '' @ du_table d @ line n @
     show_where (du_where d) @ line n @ ''GROUP BY '' @ show_keys d @ line n @ ''HAVING COUNT(*) > 1''"

definition show_duplicates :: "duplicates \<Rightarrow> string" where
  "show_duplicates d =
     (let n = du_name d; w = show_where (du_where d);
          total = ''(SELECT COUNT(*) FROM '' @ du_table d @ '' '' @ w @ '')'';
          part = (\<lambda>g. ''(SELECT COALESCE('' @ g @ ''(duplicate_count), 0) FROM '' @ n @ '')'')
      in line 12 @ ''WITH '' @ n @ '' AS ('' @
         show_groups 16 (show_keys d @ (if du_single d then '' as key_val'' else []) @ '', COUNT(*) as duplicate_count'') d @
         line 12 @ '')'' @ line 12 @ ''SELECT'' @ line 16 @ total @ '' as total_rows,'' @
         line 16 @ ''(SELECT COUNT(*) FROM '' @ n @ '') as duplicate_groups,'' @
         line 16 @ part ''SUM'' @ '' as duplicate_rows,'' @ line 16 @ part ''MAX'' @ '' as max_group_size,'' @
         line 16 @ ''ROUND(100.0 * ('' @ total @ '' -'' @ line 20 @ part ''SUM'' @ '') /'' @
         line 20 @ ''NULLIF('' @ total @ '', 0), 2) as uniqueness_rate'')"

definition show_duplicate_list :: "duplicates \<Rightarrow> string" where
  "show_duplicate_list d =
     line 12 @ ''SELECT t.*'' @ line 12 @ ''FROM '' @ du_table d @ '' t'' @ line 12 @ ''WHERE '' @
     (if du_single d then show_keys d else ''('' @ show_keys d @ '')'') @ '' IN ('' @
     show_groups 16 (show_keys d) d @ line 12 @ '')''"

section \<open>What they mean\<close>

definition key_value :: "'v engine \<Rightarrow> duplicates \<Rightarrow> 'v sql_row \<Rightarrow> 'v option list" where
  "key_value E d r = map (term_value E r) (du_keys d)"

definition keyed_rows :: "'v engine \<Rightarrow> (string \<Rightarrow> 'v sql_row list) \<Rightarrow> duplicates \<Rightarrow> 'v sql_row list" where
  "keyed_rows E tables d = filter (selects E (AllOf (du_where d))) (tables (du_table d))"

definition group_sizes :: "'v engine \<Rightarrow> (string \<Rightarrow> 'v sql_row list) \<Rightarrow> duplicates \<Rightarrow> nat list" where
  "group_sizes E tables d =
     (let ks = map (key_value E d) (keyed_rows E tables d) in filter (\<lambda>n. 1 < n) (map (count_list ks) (remdups ks)))"

definition duplicates_result :: "'v engine \<Rightarrow> (string \<Rightarrow> 'v sql_row list) \<Rightarrow> duplicates \<Rightarrow> dict" where
  "duplicates_result E tables d =
     (let t = int (length (keyed_rows E tables d)); gs = group_sizes E tables d; n = int (sum_list gs)
      in [(''total_rows'', PInt t), (''duplicate_groups'', PInt (int (length gs))), (''duplicate_rows'', PInt n),
          (''max_group_size'', PInt (int (foldr max gs 0))), (''uniqueness_rate'', share (t - n) t)])"

text \<open>A key is in the list of keys when it has no null and equals one of them.\<close>

definition duplicate_list :: "'v engine \<Rightarrow> (string \<Rightarrow> 'v sql_row list) \<Rightarrow> duplicates \<Rightarrow> 'v sql_row list" where
  "duplicate_list E tables d =
     (let ks = map (key_value E d) (keyed_rows E tables d)
      in filter (\<lambda>r. let k = key_value E d r in None \<notin> set k \<and> 1 < count_list ks k) (tables (du_table d)))"

section \<open>Another table\<close>

record overlaps =
  ov_key :: sql_term
  ov_other :: sql_term
  ov_column :: string
  ov_table :: string
  ov_with :: string
  ov_filter :: "cond list"

definition show_overlap_join :: "overlaps \<Rightarrow> string" where
  "show_overlap_join v = ''INNER JOIN '' @ ov_with v @ '' c ON '' @ show_term (ov_key v) @ '' = '' @ show_term (ov_other v)"

definition overlap_where :: "overlaps \<Rightarrow> cond list" where
  "overlap_where v = NotNull (Member ''t'' (ov_column v)) # ov_filter v"

definition show_overlaps :: "overlaps \<Rightarrow> string" where
  "show_overlaps v =
     (let total = ''(SELECT COUNT(*) FROM '' @ ov_table v @ '' t '' @ show_where (ov_filter v) @ '')'';
          found = ''(SELECT COUNT(*) FROM '' @ ov_table v @ '' t WHERE '' @ show_term (ov_key v) @
            '' IN (SELECT key_val FROM overlaps))''
      in line 12 @ ''WITH overlaps AS ('' @ line 16 @ ''SELECT DISTINCT '' @ show_term (ov_key v) @ '' as key_val'' @
         line 16 @ ''FROM '' @ ov_table v @ '' t'' @ line 16 @ show_overlap_join v @ line 16 @ show_where (overlap_where v) @
         line 12 @ '')'' @ line 12 @ ''SELECT'' @ line 16 @ total @ '' as total_rows,'' @
         line 16 @ ''(SELECT COUNT(*) FROM overlaps) as duplicate_groups,'' @ line 16 @ found @ '' as duplicate_rows,'' @
         line 16 @ ''1 as max_group_size,'' @ line 16 @ ''ROUND(100.0 * ('' @ total @ '' -'' @ line 20 @ found @ '') /'' @
         line 20 @ ''NULLIF('' @ total @ '', 0), 2) as uniqueness_rate'')"

definition show_overlap_list :: "overlaps \<Rightarrow> string" where
  "show_overlap_list v = line 12 @ ''SELECT t.*'' @ line 12 @ ''FROM '' @ ov_table v @ '' t'' @ line 12 @ show_overlap_join v @
     line 12 @ show_where (overlap_where v)"

definition overlap_keys :: "'v engine \<Rightarrow> (string \<Rightarrow> 'v sql_row list) \<Rightarrow> overlaps \<Rightarrow> 'v option list" where
  "overlap_keys E tables v =
     remdups (map (\<lambda>x. term_value E x (ov_key v))
       (filter (\<lambda>x. selects E (AllOf (Cmp ''='' (ov_key v) (ov_other v) # overlap_where v)) x)
         (concat (map (\<lambda>r. map (\<lambda>u. joined ''c'' r (Some u)) (tables (ov_with v))) (tables (ov_table v))))))"

definition overlaps_result :: "'v engine \<Rightarrow> (string \<Rightarrow> 'v sql_row list) \<Rightarrow> overlaps \<Rightarrow> dict" where
  "overlaps_result E tables v =
     (let ks = overlap_keys E tables v; rs = tables (ov_table v);
          t = int (length (filter (selects E (AllOf (ov_filter v))) rs));
          n = int (length (filter (\<lambda>r. in_values E (term_value E r (ov_key v)) ks = Some True) rs))
      in [(''total_rows'', PInt t), (''duplicate_groups'', PInt (int (length ks))), (''duplicate_rows'', PInt n),
          (''max_group_size'', PInt 1), (''uniqueness_rate'', share (t - n) t)])"

section \<open>Dispatch\<close>

datatype uniqueness = Groups duplicates | Overlaps overlaps | Refused string

definition uniqueness_result_of :: "uniqueness \<Rightarrow> dict" where
  "uniqueness_result_of u =
     (let out = (\<lambda>s v. map (\<lambda>k. (k, PStr s)) [''compiled_sql'', ''compiled_postgres'', ''compiled_mysql'', ''compiled_snowflake''] @
            [(''violation_sql'', PStr v)])
      in case u of
           Groups d \<Rightarrow> out (show_duplicates d) (show_duplicate_list d)
         | Overlaps v \<Rightarrow> out (show_overlaps v) (show_overlap_list v)
         | Refused m \<Rightarrow> out [] [] @ [(''error'', PBool True), (''error_message'', PStr m)])"

definition key_groups :: "string \<Rightarrow> bool \<Rightarrow> string list \<Rightarrow> string \<Rightarrow> string list \<Rightarrow> string option \<Rightarrow> dict \<Rightarrow> uniqueness" where
  "key_groups name single scope tbl cs f p =
     Groups \<lparr>du_name = name, du_single = single,
       du_keys = map Column scope @ map (key_of (includes_nulls p) (is_case_sensitive p)) cs, du_table = tbl,
       du_where = uniqueness_where (includes_nulls p) cs f\<rparr>"

definition uniqueness_exact :: "(pyval \<Rightarrow> string) \<Rightarrow> string \<Rightarrow> string \<Rightarrow> string option \<Rightarrow> dict \<Rightarrow> py_error + uniqueness" where
  "uniqueness_exact str tbl c f p =
     map_sum id (\<lambda>v. key_groups ''duplicates'' True [] tbl [show_value str v] f p)
       (first_or (PStr c) (dict_get p ''columns'' (PList [PStr c])))"

definition uniqueness_composite ::
    "(pyval \<Rightarrow> string) \<Rightarrow> string \<Rightarrow> string \<Rightarrow> string option \<Rightarrow> dict \<Rightarrow> py_error + uniqueness" where
  "uniqueness_composite str tbl c f p =
     (case key_columns str c p of
        Inl e \<Rightarrow> Inl e
      | Inr cs \<Rightarrow> if length cs \<le> 1 then uniqueness_exact str tbl c f p
                 else Inr (key_groups ''duplicates'' False [] tbl cs f p))"

definition uniqueness_scoped :: "(pyval \<Rightarrow> string) \<Rightarrow> string \<Rightarrow> string \<Rightarrow> string option \<Rightarrow> dict \<Rightarrow> py_error + uniqueness" where
  "uniqueness_scoped str tbl c f p =
     (let v = dict_get p ''scope_columns'' (PList [])
      in if \<not> truthy v then Inr (Refused ''Scoped uniqueness requires scope_columns'')
         else case (key_columns str c p, column_texts str v) of
                (Inl e, _) \<Rightarrow> Inl e
              | (_, Inl e) \<Rightarrow> Inl e
              | (Inr cs, Inr ss) \<Rightarrow> Inr (key_groups ''scoped_dups'' False ss tbl cs f p))"

definition uniqueness_cross_dataset ::
    "(pyval \<Rightarrow> string) \<Rightarrow> string \<Rightarrow> string \<Rightarrow> string option \<Rightarrow> dict \<Rightarrow> py_error + uniqueness" where
  "uniqueness_cross_dataset str tbl c f p =
     (let u = dict_get p ''cross_dataset_name'' PNone; d = dict_get p ''cross_dataset_column'' PNone;
          key = (\<lambda>a n. if is_case_sensitive p then Member a n else LowerOf (Typed (Member a n) ''text''))
      in if \<not> truthy u then Inr (Refused ''cross_dataset mode requires cross_dataset_name'')
         else if \<not> truthy d then Inr (Refused ''cross_dataset mode requires cross_dataset_column'')
         else map_sum id (\<lambda>v. let n = show_value str v in
                Overlaps \<lparr>ov_key = key ''t'' n, ov_other = key ''c'' (show_value str d), ov_column = n, ov_table = tbl,
                  ov_with = show_value str u, ov_filter = filter_conds f\<rparr>)
                (first_or (PStr c) (dict_get p ''columns'' (PList [PStr c]))))"

definition uniqueness_mode :: "dict \<Rightarrow> py_error + pyval" where
  "uniqueness_mode p =
     map_sum id (\<lambda>inferred. dict_get p ''uniqueness_mode'' (PStr inferred)) (infer_uniqueness_mode p)"

definition uniqueness_plan ::
    "(pyval \<Rightarrow> string) \<Rightarrow> (string \<Rightarrow> string \<Rightarrow> string \<Rightarrow> dict \<Rightarrow> py_error + uniqueness) \<Rightarrow> string \<Rightarrow> string \<Rightarrow> dict \<Rightarrow>
     py_error + uniqueness" where
  "uniqueness_plan str by_pairs tbl c p =
     (let f = given_text p ''filter_expression'' in
      case uniqueness_mode p of
        Inl e \<Rightarrow> Inl e
      | Inr t \<Rightarrow>
          (case in_str_set t VALID_UNIQUENESS_MODES of
             Inl e \<Rightarrow> Inl e
           | Inr False \<Rightarrow> Inr (Refused (''Unknown uniqueness_mode '' @ [quote] @ show_value str t @ [quote] @ ''. Allowed: '' @
                          join_with '', '' VALID_UNIQUENESS_MODES))
           | Inr True \<Rightarrow>
               (case guarded p ''filter_expression'' of
                  Inl e \<Rightarrow> Inl e
                | Inr False \<Rightarrow> Inr (Refused FILTER_ERROR)
                | Inr True \<Rightarrow>
                    if t = PStr ''exact'' then uniqueness_exact str tbl c f p
                    else if t = PStr ''composite'' then uniqueness_composite str tbl c f p
                    else if t = PStr ''scoped'' then uniqueness_scoped str tbl c f p
                    else if t = PStr ''cross_dataset'' then uniqueness_cross_dataset str tbl c f p
                    else by_pairs (show_value str t) tbl c p)))"

end
