(* ===== verification/RuleDispatch.thy ===== *)
theory RuleDispatch
  imports ConformityRules AccuracyRules UniquenessRules
begin

text \<open>
  The remaining dimensions of \<open>RuleCompiler\<close>, the dispatch of \<open>compile_rule\<close> and the check of a
  canonical rule.  What is not modelled is a record of parameters: the kinds of consistency that group
  rows, the uniqueness modes that compare pairs, and reconciliation.
\<close>

section \<open>Statistical and generic rules\<close>

definition statistics :: "(string \<times> string) list" where
  "statistics = [(''mean_value'', ''AVG''), (''stddev_value'', ''STDDEV''), (''min_value'', ''MIN''), (''max_value'', ''MAX'')]"

definition show_statistics :: "string \<Rightarrow> string \<Rightarrow> (string \<times> string) list \<Rightarrow> string" where
  "show_statistics tbl c fs = line 8 @ ''WITH stats AS ('' @ line 12 @ ''SELECT '' @
     line 16 @ join_with ('','' @ line 16) (map (\<lambda>(n, f). f @ ''('' @ quoted c @ '') as '' @ n) fs) @
     line 12 @ ''FROM '' @ tbl @ line 12 @ ''WHERE '' @ quoted c @ '' IS NOT NULL'' @ line 8 @ '')''"

definition statistical_sql :: "string \<Rightarrow> string \<Rightarrow> string" where
  "statistical_sql tbl c = show_statistics tbl c statistics @ line 8 @ ''SELECT '' @
     line 12 @ ''COUNT(*) as total_rows,'' @
     line 12 @ join_with ('','' @ line 12) (map (\<lambda>(n, f). ''(SELECT '' @ n @ '' FROM stats) as '' @ n) statistics) @
     line 8 @ ''FROM '' @ tbl @ line 8"

definition statistical_violations :: "string \<Rightarrow> string \<Rightarrow> string" where
  "statistical_violations tbl c =
     (let bound = (\<lambda>op. ''(stats.mean_value '' @ op @ '' 3 * stats.stddev_value)'')
      in show_statistics tbl c (take 2 statistics) @ line 8 @ ''SELECT t.*'' @ line 8 @ ''FROM '' @ tbl @ '' t, stats'' @
         line 8 @ ''WHERE '' @ quoted c @ '' < '' @ bound ''-'' @ line 11 @ ''OR '' @ quoted c @ '' > '' @ bound ''+'' @ line 8)"

definition four_texts :: "string \<Rightarrow> string \<Rightarrow> dict" where
  "four_texts s v = map (\<lambda>k. (k, PStr s)) [''compiled_sql'', ''compiled_postgres'', ''compiled_mysql'', ''compiled_snowflake''] @
     [(''violation_sql'', PStr v)]"

definition statistical_rule :: "string \<Rightarrow> string \<Rightarrow> dict" where
  "statistical_rule tbl c = four_texts (statistical_sql tbl c) (statistical_violations tbl c)"

text \<open>The row a statistical statement returns.\<close>

definition statistical_result :: "'v engine \<Rightarrow> (string \<Rightarrow> 'v sql_row list) \<Rightarrow> string \<Rightarrow> string \<Rightarrow> dict" where
  "statistical_result E tables tbl c =
     (let vs = List.map_filter (\<lambda>r. r (None, c)) (tables tbl)
      in (''total_rows'', PInt (int (length (tables tbl)))) #
         map (\<lambda>(n, f). (n, case en_stat E f vs of None \<Rightarrow> PNone | Some x \<Rightarrow> en_py E x)) statistics)"

definition generic_select :: "string \<Rightarrow> string \<Rightarrow> select" where
  "generic_select tbl e = \<lparr>sl_items = [(Agg CountAll, ''total_rows''), (Agg (CountIf (Raw e)), ''passed_rows''),
     (Agg (CountIf (Not (Paren (Raw e)))), ''failed_rows'')], sl_source = From tbl, sl_where = []\<rparr>"

definition generic_rule :: "string \<Rightarrow> string \<Rightarrow> dict" where
  "generic_rule tbl e =
     four_texts (line 8 @ ''SELECT '' @ line 12 @ show_items ('','' @ line 12) '' as '' (sl_items (generic_select tbl e)) @
         line 8 @ ''FROM '' @ tbl @ line 8)
       (line 8 @ ''SELECT *'' @ line 8 @ ''FROM '' @ tbl @ line 8 @ ''WHERE '' @ show_cond (Not (Paren (Raw e))) @ line 8)"

section \<open>Dispatch\<close>

record rule_params =
  rp_str :: "pyval \<Rightarrow> string"
  rp_float :: "string \<Rightarrow> pyfloat option"
  rp_grouped :: "string \<Rightarrow> string \<Rightarrow> string \<Rightarrow> dict \<Rightarrow> py_error + tally"
  rp_by_pairs :: "string \<Rightarrow> string \<Rightarrow> string \<Rightarrow> dict \<Rightarrow> py_error + uniqueness"
  rp_reconcile :: "string \<Rightarrow> string \<Rightarrow> dict \<Rightarrow> py_error + dict"

text \<open>The table and the column of a rule; the entity is a text.\<close>

definition table_and_column :: "string \<Rightarrow> string option \<Rightarrow> string option \<Rightarrow> string list option \<Rightarrow> string \<times> string" where
  "table_and_column entity schema tbl cols =
     (let first = takeWhile (\<lambda>c. c \<noteq> CHR ''.'') entity; rest = dropWhile (\<lambda>c. c \<noteq> CHR ''.'') entity;
          given = (case tbl of Some (c # s) \<Rightarrow> c # s | _ \<Rightarrow> first);
          name = (case schema of Some (c # s) \<Rightarrow> quoted (c # s) @ ''.'' @ quoted given | _ \<Rightarrow> quoted given)
      in (name, case cols of Some (c # _) \<Rightarrow> c | _ \<Rightarrow> if rest = [] then ''*'' else tl rest))"

text \<open>The dimensions that read parameters; the others do not look at them.\<close>

definition compile_dimension ::
    "rule_params \<Rightarrow> pyval \<Rightarrow> string \<Rightarrow> string \<Rightarrow> dict \<Rightarrow> (py_error + dict) option" where
  "compile_dimension R d tbl c p =
     (let str = rp_str R
      in if d = PStr ''completeness'' then Some (map_sum id compiled_of (completeness_plan str tbl c p))
         else if d = PStr ''validity'' then Some (map_sum id compiled_of (validity_plan str tbl c p))
         else if d = PStr ''uniqueness''
         then Some (map_sum id uniqueness_result_of (uniqueness_plan str (rp_by_pairs R) tbl c p))
         else if d = PStr ''conformity'' then Some (map_sum id conformity_result (conformity_plan str tbl c p))
         else if d = PStr ''consistency''
         then Some (map_sum id (one_line (show_select '' as '')) (consistency_plan str (rp_grouped R) tbl c p))
         else if d = PStr ''timeliness''
         then Some (map_sum id (one_line show_timeliness) (timeliness_plan str (rp_float R) tbl c p))
         else if d = PStr ''accuracy'' then Some (map_sum id (one_line show_accuracy) (accuracy_plan str tbl c p))
         else if d = PStr ''reconciliation'' then Some (rp_reconcile R tbl c p)
         else None)"

definition compile_for :: "rule_params \<Rightarrow> dict \<Rightarrow> string \<Rightarrow> string \<Rightarrow> py_error + dict" where
  "compile_for R canonical name c =
     (let d = dict_get canonical ''dimension'' PNone; v = dict_get canonical ''parameters'' (PDict [])
      in case compile_dimension R d name c (case v of PDict p \<Rightarrow> p | _ \<Rightarrow> []) of
           Some r \<Rightarrow> (case v of PDict p \<Rightarrow> r | _ \<Rightarrow> Inl (AttributeError ''get''))
         | None \<Rightarrow>
             Inr (if d = PStr ''statistical'' then statistical_rule name c
                  else generic_rule name (show_value (rp_str R) (dict_get canonical ''condition'' PNone))))"

definition compile_rule ::
    "rule_params \<Rightarrow> dict \<Rightarrow> string option \<Rightarrow> string option \<Rightarrow> string list option \<Rightarrow> py_error + dict" where
  "compile_rule R canonical schema tbl cols =
     (case dict_get canonical ''entity'' PNone of
        PStr entity \<Rightarrow> (let (name, c) = table_and_column entity schema tbl cols in compile_for R canonical name c)
      | _ \<Rightarrow> Inl (TypeError ''argument of this type is not iterable''))"

section \<open>Canonical rules\<close>

definition REQUIRED_FIELDS :: "string list" where
  "REQUIRED_FIELDS = [''dimension'', ''entity'', ''condition'', ''expectation'', ''severity'']"

definition RULE_CATEGORIES :: "string list" where
  "RULE_CATEGORIES = [''completeness'', ''validity'', ''conformity'', ''uniqueness'', ''consistency'', ''accuracy'',
     ''timeliness'', ''statistical'', ''reconciliation'']"

record syntax_report =
  sy_valid :: bool
  sy_errors :: "string list"
  sy_warnings :: "string list"

definition validate_rule_syntax :: "dict \<Rightarrow> syntax_report" where
  "validate_rule_syntax r =
     (let errors = map (\<lambda>k. ''Missing required field: '' @ k) (filter (\<lambda>k. \<not> has_key r k) REQUIRED_FIELDS) @
            (if dict_get r ''dimension'' PNone \<in> PStr ` set RULE_CATEGORIES then []
             else [''Invalid dimension. Must be one of: '' @ join_with '', '' RULE_CATEGORIES]) @
            (if truthy (dict_get r ''entity'' (PStr [])) then [] else [''Entity cannot be empty''])
      in \<lparr>sy_valid = (errors = []), sy_errors = errors,
          sy_warnings = (if truthy (dict_get r ''expectation'' (PStr [])) then [] else [''Expectation is empty''])\<rparr>)"

end
