(* ===== verification/PyValues.thy ===== *)
theory PyValues
  imports SettingsValidation
begin

text \<open>
  Comparison of JSON values as Python compares them, and the expressions over them whose parts may
  raise: a chain of \<open>or\<close> evaluates a part only when everything before it is false.
\<close>

section \<open>Equality\<close>

text \<open>
  Numbers compare across their types, not-a-number equals nothing, and the order of the keys of an object
  does not matter.
\<close>

definition number_of :: "pyval \<Rightarrow> rat option" where
  "number_of v =
     (case v of PInt i \<Rightarrow> Some (of_int i) | PBool b \<Rightarrow> Some (if b then 1 else 0)
      | PFloat (FFin x) \<Rightarrow> Some x | _ \<Rightarrow> None)"

fun same :: "pyval \<Rightarrow> pyval \<Rightarrow> bool"
  and same_list :: "pyval list \<Rightarrow> pyval list \<Rightarrow> bool"
  and same_entries :: "dict \<Rightarrow> dict \<Rightarrow> bool" where
  "same (PList xs) v = (case v of PList ys \<Rightarrow> same_list xs ys | _ \<Rightarrow> False)"
| "same (PDict d) v = (case v of PDict e \<Rightarrow> length d = length e \<and> same_entries d e | _ \<Rightarrow> False)"
| "same a v =
     (case (number_of a, number_of v) of (Some x, Some y) \<Rightarrow> x = y | _ \<Rightarrow> a = v \<and> a \<noteq> PFloat FNan)"
| "same_list [] ys = (ys = [])"
| "same_list (x # xs) ys = (case ys of [] \<Rightarrow> False | y # zs \<Rightarrow> same x y \<and> same_list xs zs)"
| "same_entries [] e = True"
| "same_entries ((k, x) # d) e = ((case map_of e k of None \<Rightarrow> False | Some y \<Rightarrow> same x y) \<and> same_entries d e)"

text \<open>A value that JSON can hold: no key occurs twice, and no number is not a number.\<close>

fun is_json :: "pyval \<Rightarrow> bool" where
  "is_json (PFloat x) = (x \<noteq> FNan)"
| "is_json (PList xs) = list_all is_json xs"
| "is_json (PDict d) = (distinct (map fst d) \<and> list_all (\<lambda>(k, v). is_json v) d)"
| "is_json v = True"

lemma same_list_refl: "(\<And>x. x \<in> set xs \<Longrightarrow> same x x) \<Longrightarrow> same_list xs xs"
  by (induction xs) auto

lemma same_entries_refl: "(\<And>k x. (k, x) \<in> set d \<Longrightarrow> map_of e k = Some x \<and> same x x) \<Longrightarrow> same_entries d e"
  by (induction d) force+

lemma same_refl [simp]: "is_json v \<Longrightarrow> same v v"
proof (induction v)
  case (PFloat x)
  then show ?case by (cases x) (simp_all add: number_of_def)
next
  case (PList xs)
  then show ?case by (auto simp: list_all_iff intro: same_list_refl)
next
  case (PDict d)
  then have "same x x" if "(k, x) \<in> set d" for k x
    using that by (fastforce simp: list_all_iff)
  with PDict.prems show ?case by (auto intro: same_entries_refl)
qed (simp_all add: number_of_def)

section \<open>Expressions that may raise\<close>

definition or_else :: "py_error + pyval \<Rightarrow> py_error + pyval \<Rightarrow> py_error + pyval" where
  "or_else a b = (case a of Inl e \<Rightarrow> Inl e | Inr v \<Rightarrow> if truthy v then Inr v else b)"

definition unless_none :: "py_error + pyval \<Rightarrow> py_error + pyval \<Rightarrow> py_error + pyval" where
  "unless_none a b = (case a of Inl e \<Rightarrow> Inl e | Inr v \<Rightarrow> if v = PNone then b else Inr v)"

definition bind :: "'e + 'a \<Rightarrow> ('a \<Rightarrow> 'e + 'b) \<Rightarrow> 'e + 'b" where
  "bind a f = (case a of Inl e \<Rightarrow> Inl e | Inr v \<Rightarrow> f v)"

lemma map_sum_InrE: "map_sum id g x = Inr y \<Longrightarrow> (\<And>z. x = Inr z \<Longrightarrow> y = g z \<Longrightarrow> P) \<Longrightarrow> P"
  by (cases x) auto

lemma map_sum_Inl [simp]: "map_sum id g x = Inl e \<longleftrightarrow> x = Inl e"
  by (cases x) simp_all

fun collect :: "('a \<Rightarrow> 'e + 'b) \<Rightarrow> 'a list \<Rightarrow> 'e + 'b list" where
  "collect f [] = Inr []"
| "collect f (x # xs) = bind (f x) (\<lambda>y. map_sum id (Cons y) (collect f xs))"

lemma bind_Inr_iff: "bind a f = Inr y \<longleftrightarrow> (\<exists>x. a = Inr x \<and> f x = Inr y)"
  by (cases a) (simp_all add: bind_def)

lemma bind_simps [simp]: "bind (Inr x) f = f x" "bind (Inl e) f = Inl e"
  by (simp_all add: bind_def)

lemma collect_Inr: "collect f xs = Inr ys \<longleftrightarrow> list_all2 (\<lambda>x y. f x = Inr y) xs ys"
proof (induction xs arbitrary: ys)
  case Nil
  then show ?case by auto
next
  case (Cons x xs)
  have "map_sum id (Cons y) r = Inr ys \<longleftrightarrow> (\<exists>zs. r = Inr zs \<and> ys = y # zs)" for y and r :: "'a + 'b list"
    by (cases r) auto
  then show ?case by (auto simp: bind_Inr_iff list_all2_Cons1 Cons.IH)
qed

lemma or_else_truthy [simp]: "truthy v \<Longrightarrow> or_else (Inr v) b = Inr v"
  by (simp add: or_else_def)

lemma or_else_falsy [simp]: "\<not> truthy v \<Longrightarrow> or_else (Inr v) b = b"
  by (simp add: or_else_def)

lemma unless_none_simps [simp]: "unless_none (Inr PNone) b = b" "v \<noteq> PNone \<Longrightarrow> unless_none (Inr v) b = Inr v"
  by (simp_all add: unless_none_def)

end
