(* ===== verification/TallyCounts.thy ===== *)
theory TallyCounts
  imports CompiledCounts RuleDispatch PyValues
begin

text \<open>
  What the statements of the dimensions that count rows on one line count: which rows are counted in
  neither way, and what the executor reads and reports for them.
\<close>

section \<open>Two conditions over the rows\<close>

definition undecided :: "'v engine \<Rightarrow> cond \<Rightarrow> cond \<Rightarrow> 'v sql_row list \<Rightarrow> 'v sql_row list" where
  "undecided E good bad rs = filter (\<lambda>r. \<not> selects E good r \<and> \<not> selects E bad r) rs"

lemma undecided_count:
  "(\<And>r. selects E good r \<Longrightarrow> \<not> selects E bad r) \<Longrightarrow>
    length (filter (selects E good) rs) + length (filter (selects E bad) rs) + length (undecided E good bad rs) = length rs"
  unfolding undecided_def by (induction rs) auto

lemma selects_Cmp:
  "selects E (Cmp p a b) r \<longleftrightarrow> (\<exists>x y. term_value E r a = Some x \<and> term_value E r b = Some y \<and> en_cmp E p x y)"
  by (auto simp: selects_def compare_values_def split: option.splits)

lemma selects_OrTrue: "selects E (OrTrue c) r \<longleftrightarrow> holds E r c \<noteq> Some False"
  by (auto simp: selects_def split: option.splits)

lemma holds_selects: "holds E r c = Some True \<longleftrightarrow> selects E c r"
  by (simp add: selects_def)

lemma selects_Not: "selects E (Not c) r \<longleftrightarrow> holds E r c = Some False"
  by (auto simp: selects_def t_not_def)

lemma selects_NotOrTrue: "selects E (Not (OrTrue c)) r \<longleftrightarrow> holds E r c = Some False"
  by (auto simp: selects_Not split: option.splits)

section \<open>Conformity\<close>

text \<open>
  The check of a value: a row with one is either valid or invalid; a row without is not valid, and it is
  invalid only when \<open>b\<close>.
\<close>

definition checks_value :: "'v engine \<Rightarrow> bool \<Rightarrow> string \<Rightarrow> check \<Rightarrow> bool" where
  "checks_value E b c k \<longleftrightarrow> ck_null k = IsNull (Column c) \<and> ck_present k = NotNull (Column c) \<and>
     (\<forall>r. if r (None, c) = None then \<not> selects E (ck_alone k) r \<and> (selects E (ck_invalid k) r \<longleftrightarrow> b)
          else (selects E (ck_alone k) r \<longleftrightarrow> selects E (ck_valid k) r) \<and>
               (selects E (ck_invalid k) r \<longleftrightarrow> \<not> selects E (ck_valid k) r))"

lemma checks_valueD:
  assumes "checks_value E b c k"
  shows "selects E (conforming_case m k) r \<longleftrightarrow>
      (if r (None, c) = None then m = NullPass else selects E (ck_valid k) r)"
    and "selects E (non_conforming_case m k) r \<longleftrightarrow>
      (if r (None, c) = None then m \<noteq> NullPass \<and> b else \<not> selects E (ck_valid k) r)"
    and "ck_null k = IsNull (Column c)" and "ck_present k = NotNull (Column c)"
  using assms by (auto simp: checks_value_def conforming_case_def non_conforming_case_def split: if_splits)

lemma checks_opposites:
  assumes "opposites E p p'" and "\<And>r. term_value E r t = None \<longleftrightarrow> r (None, c) = None"
    and "\<And>r. r (None, c) \<noteq> None \<Longrightarrow> term_value E r u \<noteq> None"
  shows "checks_value E False c (column_check (Column c) (Cmp p t u) (Cmp p t u) (Cmp p' t u))"
proof -
  have "selects E (Cmp p' t u) r \<longleftrightarrow> r (None, c) \<noteq> None \<and> \<not> selects E (Cmp p t u) r"
    "r (None, c) = None \<Longrightarrow> \<not> selects E (Cmp p t u) r" for r
    using assms(1) assms(2,3) [of r] by (auto simp: selects_Cmp opposites_def)
  then show ?thesis by (auto simp: checks_value_def column_check_def)
qed

lemma trimmed_value [simp]: "term_value E r (trimmed p c) = None \<longleftrightarrow> r (None, c) = None"
  by (simp add: trimmed_def)


text \<open>A rule whose statements come from such a check, and whose list has the rows counted as non-conforming.\<close>

definition conformity_shape :: "'v engine \<Rightarrow> bool \<Rightarrow> string \<Rightarrow> null_mode \<Rightarrow> tally \<Rightarrow> bool" where
  "conformity_shape E b c m t \<longleftrightarrow>
     (\<exists>tbl f k bad. checks_value E b c k \<and> t = conformity_tally tbl c f m k bad \<and>
        (\<forall>r. selects E bad r \<longleftrightarrow> selects E (non_conforming_case m k) r))"

lemma shape_invalid:
  assumes "checks_value E False c k" and "bad = ck_invalid k"
  shows "conformity_shape E False c m (conformity_tally tbl c f m k bad)"
proof -
  have "selects E bad r \<longleftrightarrow> selects E (non_conforming_case m k) r" for r
    using assms unfolding checks_valueD(2) [OF assms(1)] by (auto simp: checks_value_def)
  with assms(1) show ?thesis unfolding conformity_shape_def by blast
qed

lemma shape_matching: "engine_ok E \<Longrightarrow> conformity_shape E False c (null_mode_or NullSkip p) (matching p tbl f c pat)"
  unfolding matching_def Let_def
  by (intro shape_invalid checks_opposites) (simp_all add: engine_ok_def column_check_def)

lemma shape_case:
  assumes "engine_ok E" and "conformity_case str tbl c f p = Inr (Tally s l)"
  shows "conformity_shape E False c (null_mode_or NullSkip p) (Tally s l)"
proof -
  let ?t = "trimmed p c" and ?m = "null_mode_or NullSkip p"
  have shape: "conformity_shape E False c ?m T"
    if "conformity_tally tbl c f ?m (column_check (Column c) (Cmp ''='' ?t (Call g ?t)) (Cmp ''='' ?t (Call g ?t))
        (Cmp ''!='' ?t (Call g ?t))) (Cmp ''!='' ?t (Call g ?t)) = T" for g T
    unfolding that [symmetric] by (intro shape_invalid checks_opposites)
      (use assms(1) in \<open>simp_all only: engine_ok_def column_check_def term_value.simps option.map_disc_iff trimmed_value check.simps Let_def not_False_eq_True\<close>)
  show ?thesis using assms(2)
    by (auto simp: conformity_case_def Let_def split: if_splits option.splits pyval.splits intro: shape)
qed

lemma bounds_known:
  assumes "\<forall>b \<in> set bs. \<exists>op i. b = Cmp op t (Number i)" and "term_value E r t = None \<longleftrightarrow> r (None, c) = None"
  shows "if r (None, c) = None then holds E r (AllOf bs) = (if bs = [] then Some True else None)
    else holds E r (AllOf bs) \<noteq> None"
proof (cases "term_value E r t")
  case None
  then show ?thesis using assms by (induction bs) (auto simp: t_and_def compare_values_def)
next
  case (Some x)
  then show ?thesis using assms by (induction bs) (auto simp: t_and_def compare_values_def)
qed

lemma shape_length:
  assumes "conformity_length tbl c f p = Inr (Tally s l)"
  shows "conformity_shape E False c (null_mode_or NullSkip p) (Tally s l)"
proof -
  define t where "t = Call ''CHAR_LENGTH'' (trimmed p c)"
  let ?m = "null_mode_or NullSkip p"
  have t: "term_value E r t = None \<longleftrightarrow> r (None, c) = None" for r by (simp add: t_def)
  have "checks_value E False c (column_check (Column c) (Paren (AllOf bs)) (AllOf bs) (Not (Paren (AllOf bs))))"
    if "\<forall>b \<in> set bs. \<exists>op i. b = Cmp op t (Number i)" "bs \<noteq> []" for bs
  proof -
    have known: "r (None, c) = None \<Longrightarrow> holds E r (AllOf bs) = None"
        "r (None, c) \<noteq> None \<Longrightarrow> holds E r (AllOf bs) = Some True \<or> holds E r (AllOf bs) = Some False" for r
      using bounds_known [OF that(1), of E r c] t [of r] that(2)
      by (auto simp del: holds.simps(6) split: if_splits)
    have "selects E (Paren (AllOf bs)) r = selects E (AllOf bs) r"
      "r (None, c) = None \<Longrightarrow> \<not> selects E (AllOf bs) r \<and> \<not> selects E (Not (Paren (AllOf bs))) r"
      "r (None, c) \<noteq> None \<Longrightarrow> selects E (Not (Paren (AllOf bs))) r \<longleftrightarrow> \<not> selects E (AllOf bs) r" for r
      using known [of r] by (auto simp: selects_def t_not_def simp del: holds.simps(6))
    then show ?thesis
      unfolding checks_value_def column_check_def check.simps by meson
  qed
  then have shape: "conformity_shape E False c ?m T"
    if "conformity_tally tbl c f ?m (column_check (Column c) (Paren (AllOf bs)) (AllOf bs) (Not (Paren (AllOf bs))))
        (Not (Paren (AllOf bs))) = T"
      "\<forall>b \<in> set bs. \<exists>op i. b = Cmp op t (Number i)" "bs \<noteq> []" for bs T
    unfolding that(1) [symmetric] using that(2,3) by (intro shape_invalid) (auto simp: column_check_def)
  show ?thesis using assms
    unfolding conformity_length_def Let_def length_bound_def t_def [symmetric]
    by (cases "to_int (dict_get p ''min_length'' PNone)"; cases "to_int (dict_get p ''max_length'' PNone)")
      (auto split: if_splits elim!: shape)
qed

lemma shape_structural:
  assumes "conformity_structural str tbl c f p = Tally s l"
  shows "conformity_shape E True c (null_mode_or NullSkip p) (Tally s l)"
proof -
  let ?m = "null_mode_or NullSkip p"
  have "checks_value E True c (structural_check json c)" for json
    by (auto simp: checks_value_def structural_check_def column_check_def Let_def)
  then have shape: "conformity_shape E True c ?m T"
    if "conformity_tally tbl c f ?m (structural_check json c) (non_conforming_case ?m (structural_check json c)) = T" for json T
    unfolding conformity_shape_def that [symmetric] by blast
  show ?thesis using assms by (auto simp: conformity_structural_def Let_def split: if_splits intro: shape)
qed

lemma conformity_plan_cases:
  assumes "engine_ok E" and "conformity_plan str tbl column p = Inr (Tally s l)"
  obtains c where "target_column str column p = Inr c"
    and "conformity_shape E (conformity_type p = PStr ''structural'') c
      (null_mode_or NullSkip p) (Tally s l)"
proof -
  let ?shape = "\<lambda>b c. conformity_shape E b c (null_mode_or NullSkip p) (Tally s l)"
  have "in_str_set (conformity_type p) VALID_CONFORMITY_TYPES = Inr True"
    using assms(2) by (auto simp: conformity_plan_def Let_def split: sum.splits bool.splits)
  then obtain t where t: "conformity_type p = PStr t" "t \<in> set VALID_CONFORMITY_TYPES"
    by (auto simp: in_str_set_def split: if_splits pyval.splits)
  obtain f c where fc: "rule_filter p = Inr (Inl f)" "target_column str column p = Inr c"
    using assms(2) by (auto simp: conformity_plan_def Let_def split: sum.splits bool.splits)
  have shape: "?shape False c" if "matching p tbl f c pat = Tally s l" for pat
    unfolding that [symmetric] by (rule shape_matching [OF assms(1)])
  have matched: "conformity_regex str tbl c f p = Tally s l \<Longrightarrow> ?shape False c"
      "conformity_charset str tbl c f p = Tally s l \<Longrightarrow> ?shape False c"
      "conformity_standard str tbl c f p = Inr (Tally s l) \<Longrightarrow> ?shape False c"
    by (auto simp: conformity_regex_def conformity_charset_def conformity_standard_def Let_def
        split: if_splits option.splits pyval.splits intro: shape)
  from t(2) consider "t = ''regex''" | "t = ''standard''" | "t = ''length''" | "t = ''charset''" | "t = ''case''"
    | "t = ''structural''" unfolding VALID_CONFORMITY_TYPES_def by fastforce
  note by_kind = this
  have plan: "Inr (Tally s l) =
      (if t = ''regex'' then Inr (conformity_regex str tbl c f p)
       else if t = ''standard'' then conformity_standard str tbl c f p
       else if t = ''length'' then conformity_length tbl c f p
       else if t = ''charset'' then Inr (conformity_charset str tbl c f p)
       else if t = ''case'' then conformity_case str tbl c f p
       else Inr (conformity_structural str tbl c f p))"
    using assms(2) t by (simp add: conformity_plan_def in_str_set_def fc Let_def eq_commute)
  from by_kind have "?shape (t = ''structural'') c"
  proof cases
    case 3
    then show ?thesis using shape_length [of tbl c f p s l E] plan by simp
  next
    case 5
    then show ?thesis using shape_case [OF assms(1), of str tbl c f p s l] plan by simp
  next
    case 6
    then show ?thesis using shape_structural [of str tbl c f p s l E] plan by simp
  qed (use plan matched in simp_all)
  with t fc(2) that show ?thesis by simp
qed

lemma filter_AllOf_snoc: "filter (selects E (AllOf (w @ [c]))) rs = filter (selects E c) (filter (selects E (AllOf w)) rs)"
  by (auto intro!: filter_cong)

lemma conformity_shape_result:
  assumes "conformity_shape E b c m (Tally s l)"
  obtains a lost v where "l = Some v" and "a + length (listed_rows E tables v) + lost = length (read_rows E tables s)"
    and "select_result E tables s = [(''total_rows'', PInt (int (length (read_rows E tables s)))),
      (''conforming_rows'', PInt (int a)), (''non_conforming_rows'', PInt (int (length (listed_rows E tables v))))]"
    and "lost = (if m = NullFail \<and> \<not> b then length (filter (\<lambda>r. r (None, c) = None) (read_rows E tables s)) else 0)"
proof -
  obtain tbl f k bad where k: "checks_value E b c k" "Tally s l = conformity_tally tbl c f m k bad"
      "\<And>r. selects E bad r \<longleftrightarrow> selects E (non_conforming_case m k) r"
    using assms by (auto simp: conformity_shape_def)
  let ?good = "conforming_case m k" and ?bad = "non_conforming_case m k" and ?rs = "read_rows E tables s"
  have "selects E bad = selects E ?bad" using k(3) by blast
  then obtain v where v: "l = Some v" "listed_rows E tables v = filter (selects E ?bad) ?rs"
    using k(2) by (auto simp: conformity_tally_def listed_rows_def read_rows_def filter_AllOf_snoc)
  have "\<not> selects E ?bad r" if "selects E ?good r" for r
    using that by (auto simp: checks_valueD(1,2) [OF k(1)] split: if_splits)
  note sum = undecided_count [of E ?good ?bad, OF this, of ?rs]
  have skipped: "r (None, c) \<noteq> None" if "r \<in> set ?rs" "m = NullSkip" for r
    using that k(2) by (auto simp: conformity_tally_def read_rows_def conformity_where_def)
  have "undecided E ?good ?bad ?rs = (if m = NullFail \<and> \<not> b then filter (\<lambda>r. r (None, c) = None) ?rs else [])"
    unfolding undecided_def
    by (cases m) (auto simp: checks_valueD(1,2) [OF k(1)] skipped filter_empty_conv intro!: filter_cong)
  moreover have "select_result E tables s = [(''total_rows'', PInt (int (length ?rs))),
      (''conforming_rows'', PInt (int (length (filter (selects E ?good) ?rs)))),
      (''non_conforming_rows'', PInt (int (length (filter (selects E ?bad) ?rs))))]"
    using k(2) by (auto simp: conformity_tally_def select_result_def count_value_def)
  ultimately show ?thesis using sum v by (intro that [of v "length (filter (selects E ?good) ?rs)"]) auto
qed

text \<open>
  C21: A compiled conformity rule counts every row it reads once, as conforming or not, and lists exactly
  the rows it counts as not conforming; except that in the mode in which nulls fail the rows without a
  value count as neither, so they lower the pass rate and are never reported as failing.  Only the check
  of structure counts them.
\<close>

theorem conformity_loses_nulls:
  assumes "engine_ok E" and "conformity_plan str tbl column p = Inr (Tally s l)"
  shows "\<exists>c n v. target_column str column p = Inr c \<and> l = Some v \<and>
    read_counts ft (PStr ''conformity'') (select_result E tables s) = Inr n \<and>
    rows_scanned n = int (length (read_rows E tables s)) \<and> rows_failed n = int (length (listed_rows E tables v)) \<and>
    rows_passed n + rows_failed n +
      (if null_mode_or NullSkip p = NullFail \<and>
          conformity_type p \<noteq> PStr ''structural''
       then int (length (filter (\<lambda>r. r (None, c) = None) (read_rows E tables s))) else 0) = rows_scanned n"
proof -
  obtain c where c: "target_column str column p = Inr c"
    and shape: "conformity_shape E (conformity_type p =
      PStr ''structural'') c (null_mode_or NullSkip p) (Tally s l)"
    using conformity_plan_cases [OF assms] .
  obtain a lost v where *: "l = Some v" "a + length (listed_rows E tables v) + lost = length (read_rows E tables s)"
    "select_result E tables s = [(''total_rows'', PInt (int (length (read_rows E tables s)))),
      (''conforming_rows'', PInt (int a)), (''non_conforming_rows'', PInt (int (length (listed_rows E tables v))))]"
    "lost = (if null_mode_or NullSkip p = NullFail \<and>
          conformity_type p \<noteq> PStr ''structural''
       then length (filter (\<lambda>r. r (None, c) = None) (read_rows E tables s)) else 0)"
    using conformity_shape_result [OF shape] by blast
  have "read_counts ft (PStr ''conformity'') (select_result E tables s) =
      Inr \<lparr>rows_scanned = int (length (read_rows E tables s)), rows_passed = int a,
        rows_failed = int (length (listed_rows E tables v))\<rparr>"
    unfolding *(3)
    by (subst read_row [where n = "int (length (read_rows E tables s))" and a = "int a" and b = "int (length (listed_rows E tables v))"])
      (use *(2) in \<open>auto simp: DIM_ALIASES_def dict_get_def\<close>)
  then show ?thesis using c *(1,2,4) by (intro exI conjI) (auto split: if_splits)
qed

text \<open>Of four people one has no name, and one a blank one.\<close>

theorem conformity_loses_nulls_witness:
  "\<exists>s l n. conformity_plan (\<lambda>_. []) ''people'' ''name''
       [(''min_length'', PInt 1), (''null_handling'', PStr ''fail'')] = Inr (Tally s l) \<and>
     read_counts (\<lambda>_. None) (PStr ''conformity'') (select_result text_engine (\<lambda>_. people) s) = Inr n \<and>
     rows_scanned n = 4 \<and> rows_passed n + rows_failed n = 3"
proof -
  let ?p = "[(''min_length'', PInt 1), (''null_handling'', PStr ''fail'')]"
  let ?plan = "conformity_plan (\<lambda>_. []) ''people'' ''name'' ?p"
  have "case ?plan of Inr (Tally s l) \<Rightarrow> length (read_rows text_engine (\<lambda>_. people) s) = 4 \<and>
      length (filter (\<lambda>r. r (None, ''name'') = None) (read_rows text_engine (\<lambda>_. people) s)) = 1 | _ \<Rightarrow> False"
    by code_simp
  then obtain s l where *: "?plan = Inr (Tally s l)" "length (read_rows text_engine (\<lambda>_. people) s) = 4"
      "length (filter (\<lambda>r. r (None, ''name'') = None) (read_rows text_engine (\<lambda>_. people) s)) = 1"
    by (auto split: sum.splits tally.splits)
  have params: "target_column (\<lambda>_. []) ''name'' ?p = Inr ''name''" "null_mode_or NullSkip ?p = NullFail"
      "conformity_type ?p \<noteq> PStr ''structural''"
    by code_simp+
  from conformity_loses_nulls [OF text_engine_ok *(1), of "\<lambda>_. None" "\<lambda>_. people"] * params show ?thesis
    by fastforce
qed

section \<open>Consistency\<close>

text \<open>
  A rule counts as inconsistent the rows for which its condition is false.  It lists them when \<open>e\<close>, and
  its condition is never unknown when \<open>k\<close>.
\<close>

definition consistency_shape :: "'v engine \<Rightarrow> bool \<Rightarrow> bool \<Rightarrow> tally \<Rightarrow> bool" where
  "consistency_shape E e k t \<longleftrightarrow>
     (\<exists>src star w good bad listed. t = consistency_tally src star w good bad listed \<and>
        (\<forall>r. selects E bad r \<longleftrightarrow> holds E r good = Some False) \<and> (k \<longrightarrow> (\<forall>r. holds E r good \<noteq> None)) \<and>
        (e \<longrightarrow> (\<forall>r. (\<forall>c \<in> set listed. selects E c r) \<longleftrightarrow> (\<forall>c \<in> set w. selects E c r) \<and> selects E bad r)))"

lemma holds_OrTrue: "holds E r (OrTrue c) \<noteq> None" "holds E r (OrTrue c) = Some False \<longleftrightarrow> holds E r c = Some False"
  by (auto split: option.splits)

lemma filter_conds_selects:
  "(\<forall>c \<in> set (filter_conds f). selects E c r) \<longleftrightarrow> (\<forall>s \<in> set_option f. selects E (Raw s) r)"
  by (cases f) (simp_all add: filter_conds_def)

lemma opposite_selects:
  assumes "opposites E p p'"
  shows "selects E (Cmp p' a b) r \<longleftrightarrow> holds E r (Cmp p a b) = Some False"
  using assms by (cases "term_value E r a"; cases "term_value E r b") (auto simp: selects_Cmp opposites_def compare_values_def)

lemma temporal_opposites:
  assumes "engine_ok E"
  shows "opposites E (temporal_operator s) (inverse_operator (temporal_operator s))"
proof -
  have "temporal_operator s \<in> {''>='', ''>'', ''<='', ''<'', ''=''}"
    by (auto simp: temporal_operator_def TEMPORAL_OPERATORS_def split: option.split)
  then show ?thesis using assms by (auto simp: inverse_operator_def engine_ok_def opposites_def)
qed

lemma consistency_shapeI:
  assumes "\<And>r. selects E bad r \<longleftrightarrow> holds E r good = Some False" and "\<And>r. k \<Longrightarrow> holds E r good \<noteq> None"
    and "\<And>r. e \<Longrightarrow> (\<forall>c \<in> set listed. selects E c r) \<longleftrightarrow> (\<forall>c \<in> set w. selects E c r) \<and> selects E bad r"
  shows "consistency_shape E e k (consistency_tally src star w good bad listed)"
  unfolding consistency_shape_def using assms by blast

lemma not_nulls_selects:
  "(\<forall>c \<in> set (not_nulls m ts). selects E c r) \<longleftrightarrow> (m = NullSkip \<longrightarrow> (\<forall>t \<in> set ts. term_value E r t \<noteq> None))"
  by (auto simp: not_nulls_def)

lemma shape_intra_record:
  assumes "consistency_intra_record str tbl c f p = Inr (Tally s l)"
  shows "consistency_shape E (null_mode_or NullFail p \<noteq> NullSkip) (null_mode_or NullFail p = NullPass) (Tally s l)"
proof (cases "record_expression str c p")
  case None
  then show ?thesis using assms by (simp add: consistency_intra_record_def)
next
  case (Some e)
  let ?m = "null_mode_or NullFail p" and ?ok = "Paren (if null_mode_or NullFail p = NullPass then OrTrue (Raw e) else Raw e)"
  obtain cols where T: "Tally s l = consistency_tally (From tbl) ''*'' (not_nulls ?m (map Column cols) @ filter_conds f) ?ok (Not ?ok)
      ([Not (Paren (Raw e))] @ filter_conds f)"
    using assms Some unfolding consistency_intra_record_def Let_def by (simp only: option.case) (erule map_sum_InrE, simp)
  have "selects E (Not ?ok) r \<longleftrightarrow> selects E (Not (Paren (Raw e))) r" for r
    by (auto simp: selects_Not split: option.splits)
  then show ?thesis unfolding T
    by (intro consistency_shapeI) (auto simp: selects_Not not_nulls_def filter_conds_selects split: option.splits)
qed

text \<open>
  A comparison whose opposite is counted: a rule in the mode in which nulls pass takes the negation of
  the comparison instead.
\<close>

lemma shape_compared:
  assumes "opposites E p p'" and "\<And>r t. t \<in> set ts \<Longrightarrow> term_value E r a \<noteq> None \<Longrightarrow> term_value E r b \<noteq> None \<Longrightarrow> term_value E r t \<noteq> None"
    and "good = (if m = NullPass then OrTrue (Cmp p a b) else Cmp p a b)"
    and "\<And>r. selects E bad r \<longleftrightarrow> selects E (Cmp p' a b) r" and "\<And>r. selects E listed r \<longleftrightarrow> selects E (Cmp p' a b) r"
  shows "consistency_shape E True (m = NullPass)
    (consistency_tally (From tbl) ''*'' (not_nulls m ts @ filter_conds f) good bad ([listed] @ filter_conds f))"
proof (rule consistency_shapeI)
  note op = opposite_selects [OF assms(1), of a b]
  show "selects E bad r \<longleftrightarrow> holds E r good = Some False" for r
    unfolding assms(3,4) op by (auto split: option.splits)
  show "m = NullPass \<Longrightarrow> holds E r good \<noteq> None" for r
    unfolding assms(3) by (auto split: option.splits)
  have "\<forall>t \<in> set ts. term_value E r t \<noteq> None" if "selects E (Cmp p' a b) r" for r
    using that assms(2) by (auto simp: selects_Cmp)
  then show "(\<forall>c \<in> set ([listed] @ filter_conds f). selects E c r) \<longleftrightarrow>
      (\<forall>c \<in> set (not_nulls m ts @ filter_conds f). selects E c r) \<and> selects E bad r" for r
    unfolding set_append ball_Un not_nulls_selects by (auto simp: assms(4,5))
qed

lemma shape_temporal:
  assumes "engine_ok E" and "consistency_temporal str tbl c f p = Tally s l"
  shows "consistency_shape E True (null_mode_or NullFail p = NullPass) (Tally s l)"
proof -
  define d where "d = Column (show_value str (compared_column c p))"
  define op where "op = temporal_operator (show_value str (dict_get p ''operator'' (PStr ''>='')))"
  let ?m = "null_mode_or NullFail p" and ?ok = "Cmp op (Column c) d" and ?bad = "Cmp (inverse_operator op) (Column c) d"
  have ops: "opposites E op (inverse_operator op)" unfolding op_def by (rule temporal_opposites [OF assms(1)])
  have T: "Tally s l = consistency_tally (From tbl) ''*'' (not_nulls ?m [Column c, d] @ filter_conds f)
      (if ?m = NullPass then OrTrue ?ok else ?ok) (if ?m = NullPass then Not (OrTrue ?ok) else ?bad) ([?bad] @ filter_conds f)"
    using assms(2) unfolding consistency_temporal_def Let_def d_def op_def by (simp split: if_split_asm)
  have "selects E (Not (OrTrue ?ok)) r \<longleftrightarrow> selects E ?bad r" for r
    unfolding opposite_selects [OF ops] by (rule selects_NotOrTrue)
  then show ?thesis unfolding T by (intro shape_compared [OF ops]) auto
qed

lemma formula_tally:
  assumes "consistency_formula str tbl f p = Inr (Tally s l)"
  shows "\<exists>c t good bad. Tally s l = consistency_tally (From tbl) ''*''
      (not_nulls (null_mode_or NullFail p) [Column c] @ filter_conds f)
      (if null_mode_or NullFail p = NullPass then OrTrue good else good)
      (if null_mode_or NullFail p = NullPass then Not (OrTrue (OrTrue good)) else bad)
      ([if null_mode_or NullFail p = NullPass then Not (OrTrue (OrTrue good)) else bad] @ filter_conds f) \<and>
    (good, bad) = consistency_tolerance str (Column c) t
        (dict_get p ''tolerance_type'' (PStr ''absolute'')) (dict_get p ''tolerance_value'' PNone)"
proof -
  obtain c where c: "dict_get p ''expected_column'' PNone = PStr c"
    using assms unfolding consistency_formula_def Let_def by (auto split: if_split_asm pyval.split_asm)
  define t where "t = Group (Expr (right_hand_side c (show_value str
    (py_or (dict_get p ''rule_expression'' PNone) (dict_get p ''formula'' PNone)))))"
  obtain good bad where gb: "consistency_tolerance str (Column c) t
        (dict_get p ''tolerance_type'' (PStr ''absolute'')) (dict_get p ''tolerance_value'' PNone) = (good, bad)"
    by fastforce
  show ?thesis using assms
    by (intro exI [of _ c] exI [of _ t] exI [of _ good] exI [of _ bad])
      (simp add: consistency_formula_def Let_def c t_def [symmetric] gb split: if_split_asm)
qed

lemma tolerance_opposites:
  assumes "engine_ok E" and "consistency_tolerance str (Column c) t kind v = (good, bad)"
  obtains o1 o2 a b where "good = Cmp o1 a b" "bad = Cmp o2 a b" "opposites E o1 o2"
    "\<And>r. term_value E r a \<noteq> None \<Longrightarrow> r (None, c) \<noteq> None"
proof (cases "kind = PStr ''none''")
  case True
  then show ?thesis using assms by (intro that [of "''=''" _ _ "''!=''"]) (auto simp: consistency_tolerance_def engine_ok_def)
next
  case False
  have known: "term_value E r (distance (Column c) t) \<noteq> None \<Longrightarrow> r (None, c) \<noteq> None"
    "term_value E r (relative_distance (Column c) t) \<noteq> None \<Longrightarrow> r (None, c) \<noteq> None" for r
    by (cases "r (None, c)"; simp add: relative_distance_def distance_def)+
  show ?thesis
  proof (cases "kind = PStr ''percentage''")
    case True
    then show ?thesis using assms False known(2)
      by (intro that [of "''<=''" _ _ "''>''"]) (auto simp: consistency_tolerance_def engine_ok_def)
  next
    case False
    then show ?thesis using assms \<open>kind \<noteq> PStr ''none''\<close> known(1)
      by (intro that [of "''<=''" _ _ "''>''"]) (auto simp: consistency_tolerance_def engine_ok_def)
  qed
qed

lemma shape_formula:
  assumes "engine_ok E" and "consistency_formula str tbl f p = Inr (Tally s l)"
  shows "consistency_shape E True (null_mode_or NullFail p = NullPass) (Tally s l)"
proof -
  obtain c t good bad where T: "Tally s l = consistency_tally (From tbl) ''*''
      (not_nulls (null_mode_or NullFail p) [Column c] @ filter_conds f)
      (if null_mode_or NullFail p = NullPass then OrTrue good else good)
      (if null_mode_or NullFail p = NullPass then Not (OrTrue (OrTrue good)) else bad)
      ([if null_mode_or NullFail p = NullPass then Not (OrTrue (OrTrue good)) else bad] @ filter_conds f)"
    and gb: "(good, bad) = consistency_tolerance str (Column c) t
        (dict_get p ''tolerance_type'' (PStr ''absolute'')) (dict_get p ''tolerance_value'' PNone)"
    using assms(2) formula_tally [of str tbl f p s l] by blast
  obtain o1 o2 a b where *: "good = Cmp o1 a b" "bad = Cmp o2 a b" "opposites E o1 o2"
    "\<And>r. term_value E r a \<noteq> None \<Longrightarrow> term_value E r (Column c) \<noteq> None"
    using tolerance_opposites [OF assms(1) gb [symmetric]] by simp metis
  have "selects E (Not (OrTrue (OrTrue good))) r \<longleftrightarrow> selects E bad r" for r
    unfolding *(1,2) opposite_selects [OF *(3)] selects_NotOrTrue by (auto split: option.splits)
  then show ?thesis unfolding T *(1,2)
    by (intro shape_compared [OF *(3)]) (use *(4) in \<open>auto simp: * split: if_split_asm\<close>)
qed

lemma shape_cross_table:
  assumes "consistency_cross_table str tbl f p = Inr (Tally s l)"
  shows "consistency_shape E True False (Tally s l)"
proof -
  have "consistency_shape E True False (consistency_tally src star (filter_conds f) ok (Not (Paren ok)) ([Not (Paren ok)] @ filter_conds f))"
    for src star ok by (rule consistency_shapeI) (auto simp: selects_Not)
  then show ?thesis using assms unfolding consistency_cross_table_def Let_def
    by (simp split: if_split_asm sum.split_asm) metis
qed

lemma consistency_plan_shape:
  assumes "engine_ok E" and "consistency_plan str grouped tbl c p = Inr (Tally s l)"
    and "consistency_type p \<notin> {PStr ''inter_record'', PStr ''aggregation''}"
  shows "consistency_shape E (consistency_type p \<noteq> PStr ''intra_record'' \<or> null_mode_or NullFail p \<noteq> NullSkip)
    (consistency_type p \<noteq> PStr ''cross_table'' \<and> null_mode_or NullFail p = NullPass) (Tally s l)"
proof -
  have "in_str_set (consistency_type p) VALID_CONSISTENCY_TYPES = Inr True"
    using assms(2) unfolding consistency_plan_def Let_def by (simp split: sum.split_asm bool.split_asm)
  then obtain t where t: "consistency_type p = PStr t" "t \<in> set VALID_CONSISTENCY_TYPES"
    by (auto simp: in_str_set_def split: if_splits pyval.splits)
  let ?f = "given_text p ''filter_expression''"
  have plan: "(if t = ''intra_record'' then consistency_intra_record str tbl c ?f p
       else if t = ''formula'' then consistency_formula str tbl ?f p
       else if t = ''temporal'' then Inr (consistency_temporal str tbl c ?f p)
       else if t = ''cross_table'' then consistency_cross_table str tbl ?f p
       else grouped (show_value str (PStr t)) tbl c p) = Inr (Tally s l)"
    using assms(2) unfolding consistency_plan_def Let_def t(1)
    by (auto split: sum.split_asm bool.split_asm if_split_asm)
  from t assms(3) consider "t = ''intra_record''" | "t = ''formula''" | "t = ''temporal''" | "t = ''cross_table''"
    unfolding VALID_CONSISTENCY_TYPES_def by fastforce
  then show ?thesis
  proof cases
    case 1
    then show ?thesis using shape_intra_record [of str tbl c ?f p s l E] plan t by simp
  next
    case 2
    then show ?thesis using shape_formula [OF assms(1), of str tbl ?f p s l] plan t by simp
  next
    case 3
    then show ?thesis using shape_temporal [OF assms(1), of str tbl c ?f p s l] plan t by simp
  next
    case 4
    then show ?thesis using shape_cross_table [of str tbl ?f p s l E] plan t by simp
  qed
qed

lemma read_consistency_row:
  assumes "a + b \<le> n"
  shows "read_counts ft (PStr ''consistency'') [(''total_rows'', PInt (int n)), (''consistent_rows'', PInt (int a)),
      (''inconsistent_rows'', PInt (int b))] = Inr \<lparr>rows_scanned = int n, rows_passed = int a, rows_failed = int b\<rparr>"
  by (subst read_row [where n = "int n" and a = "int a" and b = "int b"])
    (use assms in \<open>auto simp: DIM_ALIASES_def dict_get_def\<close>)

text \<open>
  C22: A consistency rule that compares rows one by one counts as passed the rows its condition holds for
  and as failed those it is false for, and the rows for which it is unknown as neither.  None is unknown
  in the mode in which nulls pass, except when another table is compared.  The second statement lists as
  many rows as were counted as failed, except for a rule within a record that skips nulls.
\<close>

theorem consistency_loses_unknown:
  assumes "engine_ok E" and "consistency_plan str grouped tbl c p = Inr (Tally s l)"
    and "consistency_type p \<notin> {PStr ''inter_record'', PStr ''aggregation''}"
  shows "\<exists>n v good. l = Some v \<and> (Agg (CountIf good), ''consistent_rows'') \<in> set (sl_items s) \<and>
    read_counts ft (PStr ''consistency'') (select_result E tables s) = Inr n \<and>
    rows_scanned n = int (length (read_rows E tables s)) \<and>
    rows_passed n = int (length (filter (\<lambda>r. holds E r good = Some True) (read_rows E tables s))) \<and>
    rows_failed n = int (length (filter (\<lambda>r. holds E r good = Some False) (read_rows E tables s))) \<and>
    (consistency_type p \<noteq> PStr ''cross_table'' \<and> null_mode_or NullFail p = NullPass \<longrightarrow> (\<forall>r. holds E r good \<noteq> None)) \<and>
    (consistency_type p \<noteq> PStr ''intra_record'' \<or> null_mode_or NullFail p \<noteq> NullSkip \<longrightarrow>
      rows_failed n = int (length (listed_rows E tables v)))"
proof -
  obtain src star w good bad listed where T: "Tally s l = consistency_tally src star w good bad listed"
    and bad: "\<And>r. selects E bad r \<longleftrightarrow> holds E r good = Some False"
    and known: "consistency_type p \<noteq> PStr ''cross_table'' \<Longrightarrow> null_mode_or NullFail p = NullPass \<Longrightarrow>
      \<forall>r. holds E r good \<noteq> None"
    and listed: "\<And>r. consistency_type p \<noteq> PStr ''intra_record'' \<or> null_mode_or NullFail p \<noteq> NullSkip \<Longrightarrow>
      (\<forall>c \<in> set listed. selects E c r) \<longleftrightarrow> (\<forall>c \<in> set w. selects E c r) \<and> selects E bad r"
    using consistency_plan_shape [OF assms] unfolding consistency_shape_def by blast
  let ?rs = "read_rows E tables s" and ?v = "\<lparr>li_columns = star, li_source = src, li_where = listed\<rparr>"
  let ?a = "length (filter (selects E good) ?rs)" and ?b = "length (filter (selects E bad) ?rs)"
  have v: "l = Some ?v" and result: "select_result E tables s = [(''total_rows'', PInt (int (length ?rs))),
      (''consistent_rows'', PInt (int ?a)), (''inconsistent_rows'', PInt (int ?b))]"
    and item: "(Agg (CountIf good), ''consistent_rows'') \<in> set (sl_items s)"
    using T by (auto simp: consistency_tally_def select_result_def count_value_def)
  have "?a + ?b \<le> length ?rs"
    using undecided_count [of E good bad ?rs] unfolding bad unfolding selects_def by simp
  note counts = read_consistency_row [OF this, of ft, folded result]
  have "length (listed_rows E tables ?v) = ?b"
    if "consistency_type p \<noteq> PStr ''intra_record'' \<or> null_mode_or NullFail p \<noteq> NullSkip"
    using T listed [OF that] by (auto simp: listed_rows_def read_rows_def consistency_tally_def intro!: arg_cong [where f = length] filter_cong)
  moreover have "filter (selects E bad) ?rs = filter (\<lambda>r. holds E r good = Some False) ?rs"
    by (rule filter_cong) (simp_all add: bad)
  moreover have "filter (selects E good) ?rs = filter (\<lambda>r. holds E r good = Some True) ?rs"
    by (rule filter_cong) (simp_all add: selects_def)
  ultimately show ?thesis using v item counts known
    by (intro exI [of _ "\<lparr>rows_scanned = int (length ?rs), rows_passed = int ?a, rows_failed = int ?b\<rparr>"] exI [of _ ?v] exI [of _ good]) auto
qed

text \<open>Two names are shorter than their cities, one is not, and one is missing.\<close>

theorem consistency_loses_unknown_witness:
  "\<exists>s l n. consistency_plan (\<lambda>_. []) (\<lambda>_ _ _ _. Inr (Fault [])) ''people'' ''name''
       [(''comparison_column'', PStr ''city''), (''operator'', PStr ''less'')] = Inr (Tally s l) \<and>
     read_counts (\<lambda>_. None) (PStr ''consistency'') (select_result text_engine (\<lambda>_. people) s) = Inr n \<and>
     rows_scanned n = 4 \<and> rows_failed n = 1"
proof -
  let ?p = "[(''comparison_column'', PStr ''city''), (''operator'', PStr ''less'')]"
  let ?plan = "consistency_plan (\<lambda>_. []) (\<lambda>_ _ _ _. Inr (Fault [])) ''people'' ''name'' ?p"
  have "case ?plan of Inr (Tally s (Some v)) \<Rightarrow> length (read_rows text_engine (\<lambda>_. people) s) = 4 \<and>
      length (listed_rows text_engine (\<lambda>_. people) v) = 1 | _ \<Rightarrow> False"
    by code_simp
  then obtain s v where *: "?plan = Inr (Tally s (Some v))" "length (read_rows text_engine (\<lambda>_. people) s) = 4"
      "length (listed_rows text_engine (\<lambda>_. people) v) = 1"
    by (auto split: sum.splits tally.splits option.splits)
  have kind: "consistency_type ?p = PStr ''temporal''"
    by code_simp
  then have "consistency_type ?p \<notin> {PStr ''inter_record'', PStr ''aggregation''}" by simp
  from consistency_loses_unknown [OF text_engine_ok *(1) this, of "\<lambda>_. None" "\<lambda>_. people"] * kind show ?thesis
    by fastforce
qed

end
