(* ===== verification/UniqueCounts.thy ===== *)
theory UniqueCounts
  imports CompiledCounts RuleDispatch
begin

text \<open>
  What the uniqueness statements count and list: from the parameters of a rule to the counts the
  executor reports.
\<close>

section \<open>Repeated keys\<close>

lemma sum_repeated: "sum_list (filter (\<lambda>n. 1 < n) (map (count_list ks) (remdups ks))) = length (filter (\<lambda>k. 1 < count_list ks k) ks)"
proof -
  let ?rep = "\<lambda>k. 1 < count_list ks k" and ?rs = "filter (\<lambda>k. 1 < count_list ks k) ks"
  have "sum_list (filter (\<lambda>n. 1 < n) (map (count_list ks) (remdups ks))) = (\<Sum>k \<leftarrow> filter ?rep (remdups ks). count_list ks k)"
    by (simp add: filter_map comp_def)
  also have "\<dots> = sum (count_list ks) (set ?rs)"
    by (subst sum_list_distinct_conv_sum_set) simp_all
  also have "\<dots> = sum (count_list ?rs) (set ?rs)"
  proof (rule sum.cong [OF refl])
    fix k assume "k \<in> set ?rs"
    then have "?rep k" by simp
    have "count_list (filter Q xs) k = count_list xs k" if "Q k" for Q xs
      using that by (induction xs) auto
    from this [of ?rep, OF \<open>?rep k\<close>] show "count_list ks k = count_list ?rs k" by simp
  qed
  also have "\<dots> = length ?rs" by (rule sum_count_set) simp_all
  finally show ?thesis .
qed

text \<open>The rows that share their key with another of the rows read.\<close>

definition repeated_rows :: "'v engine \<Rightarrow> (string \<Rightarrow> 'v sql_row list) \<Rightarrow> duplicates \<Rightarrow> 'v sql_row list" where
  "repeated_rows E tables d =
     filter (\<lambda>r. 1 < count_list (map (key_value E d) (keyed_rows E tables d)) (key_value E d r)) (keyed_rows E tables d)"

lemma sum_group_sizes: "sum_list (group_sizes E tables d) = length (repeated_rows E tables d)"
  unfolding group_sizes_def Let_def sum_repeated repeated_rows_def by (simp add: filter_map comp_def)

lemma repeated_le: "length (repeated_rows E tables d) \<le> length (keyed_rows E tables d)"
  by (simp add: repeated_rows_def)

section \<open>What is read\<close>

lemma share_rounds:
  assumes "0 \<le> a" and "0 < t"
  obtains k where "share a t = PFloat (FFin (of_int k / 100))"
    and "\<bar>of_int k - 10000 * (of_int a / of_int t)\<bar> \<le> (1 / 2 + 1 / 10 ^ 6 :: rat)"
proof -
  let ?x = "10000 * of_int a / of_int t + 1 / 2 :: rat"
  have "\<bar>of_int \<lfloor>y + 1 / 2\<rfloor> - y\<bar> \<le> (1 / 2 + 1 / 10 ^ 6 :: rat)" for y :: rat
  proof -
    have "of_int \<lfloor>y + 1 / 2\<rfloor> \<le> y + 1 / 2" "y + 1 / 2 < of_int \<lfloor>y + 1 / 2\<rfloor> + 1" by linarith+
    then show ?thesis unfolding abs_le_iff by (auto simp: field_simps)
  qed
  from this [of "10000 * of_int a / of_int t"]
  have "\<bar>of_int \<lfloor>?x\<rfloor> - 10000 * (of_int a / of_int t)\<bar> \<le> (1 / 2 + 1 / 10 ^ 6 :: rat)"
    by (simp only: times_divide_eq_right)
  then show ?thesis using assms by (intro that [of "\<lfloor>?x\<rfloor>"]) (auto simp: share_def Let_def)
qed

lemma duplicates_report:
  assumes "0 < length (keyed_rows E tables d)" and "length (keyed_rows E tables d) < 2 ^ 46"
  shows "\<exists>n. read_counts ft (PStr ''uniqueness'') (duplicates_result E tables d) = Inr n \<and>
    rows_scanned n = int (length (keyed_rows E tables d)) \<and> rows_passed n = rows_scanned n - rows_failed n \<and>
    \<bar>of_int (rows_failed n) - of_nat (length (repeated_rows E tables d))\<bar> \<le> (of_int (rows_scanned n) / 19999 + 5 / 4 :: rat) \<and>
    (20001 * length (repeated_rows E tables d) \<le> length (keyed_rows E tables d) \<longrightarrow> rows_failed n = 0 \<and> pass_rate n = 10000)"
proof -
  define t where "t = int (length (keyed_rows E tables d))"
  define b where "b = int (length (repeated_rows E tables d))"
  have range: "0 < t" "t < 2 ^ 46" "0 \<le> b" "b \<le> t"
    using assms repeated_le [of E tables d] by (auto simp: t_def b_def)
  obtain k where k: "share (t - b) t = PFloat (FFin (of_int k / 100))"
      "\<bar>of_int k - 10000 * (of_int (t - b) / of_int t)\<bar> \<le> (1 / 2 + 1 / 10 ^ 6 :: rat)"
    using share_rounds [of "t - b" t] range by auto
  have "duplicates_result E tables d =
      uniqueness_row t (int (length (group_sizes E tables d))) b (int (foldr max (group_sizes E tables d) 0)) k"
    using k(1) by (simp add: duplicates_result_def Let_def uniqueness_row_def sum_group_sizes t_def b_def)
  with uniqueness_row_report [OF range k(2), of ft "int (length (group_sizes E tables d))" "int (foldr max (group_sizes E tables d) 0)"]
  show ?thesis by (auto simp: t_def b_def simp flip: of_nat_mult)
qed

section \<open>What is listed\<close>

text \<open>The keys of the rows a statement reads are never null, and a row with such a key is read when no filter says otherwise.\<close>

definition keys_known :: "'v engine \<Rightarrow> string option \<Rightarrow> duplicates \<Rightarrow> bool" where
  "keys_known E f d \<longleftrightarrow>
     (\<forall>r. (\<forall>c \<in> set (du_where d). selects E c r) \<longleftrightarrow> None \<notin> set (key_value E d r) \<and> (\<forall>c \<in> set (filter_conds f). selects E c r))"

lemma key_of_value: "term_value E r (key_of nulls cs c) = None \<longleftrightarrow> \<not> nulls \<and> r (None, c) = None"
  by (cases "r (None, c)") (auto simp: key_of_def Let_def)

lemma key_groups_known:
  assumes "key_groups name single [] tbl cs f p = Groups d"
  shows "keys_known E f d"
proof -
  have "None = term_value E r (key_of nulls sens c) \<longleftrightarrow> \<not> nulls \<and> r (None, c) = None" for r nulls sens c
    using key_of_value [of E r nulls sens c] by auto
  then show ?thesis
    using assms by (cases "includes_nulls p") (force simp: keys_known_def key_groups_def key_value_def uniqueness_where_def image_iff)+
qed

lemma known_list:
  assumes "keys_known E f d"
  shows "length (repeated_rows E tables d) \<le> length (duplicate_list E tables d) \<and>
    (f = None \<longrightarrow> length (repeated_rows E tables d) = length (duplicate_list E tables d))"
proof -
  let ?ks = "map (key_value E d) (keyed_rows E tables d)"
  let ?rep = "\<lambda>r. 1 < count_list ?ks (key_value E d r)"
  let ?w = "\<lambda>r. \<forall>c \<in> set (du_where d). selects E c r"
  have rep: "repeated_rows E tables d = filter (\<lambda>r. ?w r \<and> ?rep r) (tables (du_table d))"
    unfolding repeated_rows_def by (simp add: keyed_rows_def conj_commute)
  have list: "duplicate_list E tables d = filter (\<lambda>r. None \<notin> set (key_value E d r) \<and> ?rep r) (tables (du_table d))"
    by (simp add: duplicate_list_def Let_def)
  have mono: "length (filter P xs) \<le> length (filter Q xs)" if "\<And>x. P x \<Longrightarrow> Q x" for P Q and xs :: "'a sql_row list"
    using that by (induction xs) auto
  have "?w r \<Longrightarrow> None \<notin> set (key_value E d r)" for r using assms by (simp add: keys_known_def)
  moreover have "?w r \<longleftrightarrow> None \<notin> set (key_value E d r)" if "f = None" for r
    using assms that by (simp add: keys_known_def filter_conds_def)
  ultimately show ?thesis unfolding rep list by (auto intro: mono)
qed

lemma exact_known: "uniqueness_exact str tbl c f p = Inr (Groups d) \<Longrightarrow> keys_known E f d"
  unfolding uniqueness_exact_def by (cases "first_or (PStr c) (dict_get p ''columns'' (PList [PStr c]))") (auto intro: key_groups_known)

lemma composite_known: "uniqueness_composite str tbl c f p = Inr (Groups d) \<Longrightarrow> keys_known E f d"
  unfolding uniqueness_composite_def by (auto split: sum.splits if_splits intro: key_groups_known exact_known)

lemma plan_known:
  assumes "uniqueness_plan str by_pairs tbl c p = Inr (Groups d)" and "uniqueness_mode p \<in> {Inr (PStr ''exact''), Inr (PStr ''composite'')}"
  shows "keys_known E (given_text p ''filter_expression'') d"
  using assms unfolding uniqueness_plan_def Let_def
  by (auto split: sum.splits bool.splits intro: exact_known composite_known)

text \<open>
  C23: A uniqueness rule over a column, several columns or a scope reads the rows it is meant to; the
  executor reports the rows that share their key with another as failing, within one in 20000 of the rows and
  5/4 of a row, but none up to one in 20001.  The second statement of a rule over one or several columns lists
  exactly the rows that share their key when the rule has no filter; with a filter it may also list rows
  that the filter leaves out.
\<close>

theorem uniqueness_is_counted:
  assumes "uniqueness_plan str by_pairs tbl c p = Inr (Groups d)"
    and "0 < length (keyed_rows E tables d)" and "length (keyed_rows E tables d) < 2 ^ 46"
  shows "\<exists>n. read_counts ft (PStr ''uniqueness'') (duplicates_result E tables d) = Inr n \<and>
    rows_scanned n = int (length (keyed_rows E tables d)) \<and> rows_passed n = rows_scanned n - rows_failed n \<and>
    \<bar>of_int (rows_failed n) - of_nat (length (repeated_rows E tables d))\<bar> \<le> (of_int (rows_scanned n) / 19999 + 5 / 4 :: rat) \<and>
    (20001 * length (repeated_rows E tables d) \<le> length (keyed_rows E tables d) \<longrightarrow> rows_failed n = 0 \<and> pass_rate n = 10000) \<and>
    (uniqueness_mode p \<in> {Inr (PStr ''exact''), Inr (PStr ''composite'')} \<longrightarrow>
       length (repeated_rows E tables d) \<le> length (duplicate_list E tables d) \<and>
       (given_text p ''filter_expression'' = None \<longrightarrow>
          length (repeated_rows E tables d) = length (duplicate_list E tables d)))"
  using duplicates_report [OF assms(2,3), of ft] known_list [OF plan_known [OF assms(1)]] by blast

theorem uniqueness_is_counted_witness:
  "\<exists>d n. uniqueness_plan (\<lambda>_. []) (\<lambda>_ _ _ _. Inr (Refused [])) ''people'' ''city'' [] = Inr (Groups d) \<and>
     length (repeated_rows text_engine (\<lambda>_. people) d) = 2 \<and> length (duplicate_list text_engine (\<lambda>_. people) d) = 2 \<and>
     read_counts (\<lambda>_. None) (PStr ''uniqueness'') (duplicates_result text_engine (\<lambda>_. people) d) = Inr n \<and>
     rows_scanned n = 4 \<and> 0 < rows_failed n"
proof -
  let ?plan = "uniqueness_plan (\<lambda>_. []) (\<lambda>_ _ _ _. Inr (Refused [])) ''people'' ''city'' []"
  have "case ?plan of Inr (Groups d) \<Rightarrow> length (keyed_rows text_engine (\<lambda>_. people) d) = 4 \<and>
      length (repeated_rows text_engine (\<lambda>_. people) d) = 2 | _ \<Rightarrow> False"
    by code_simp
  then obtain d where *: "?plan = Inr (Groups d)" "length (keyed_rows text_engine (\<lambda>_. people) d) = 4"
      "length (repeated_rows text_engine (\<lambda>_. people) d) = 2"
    by (auto split: sum.splits uniqueness.splits)
  have mode: "uniqueness_mode [] = Inr (PStr ''exact'')" "given_text [] ''filter_expression'' = None"
    by code_simp+
  from uniqueness_is_counted [OF *(1), of text_engine "\<lambda>_. people" "\<lambda>_. None"] * mode obtain n where
    n: "read_counts (\<lambda>_. None) (PStr ''uniqueness'') (duplicates_result text_engine (\<lambda>_. people) d) = Inr n"
      "rows_scanned n = 4" "\<bar>of_int (rows_failed n) - 2\<bar> \<le> (4 / 19999 + 5 / 4 :: rat)"
      "length (duplicate_list text_engine (\<lambda>_. people) d) = 2"
    by auto
  have "(0 :: rat) < of_int (rows_failed n)" using n(3) unfolding abs_le_iff by simp
  with n * show ?thesis by auto
qed

end
