(* ===== verification/RuleStore.thy ===== *)
theory RuleStore
  imports RuleDispatch RuleExecutor PyValues
begin

text \<open>
  \<open>RuleService\<close> of \<open>app/services/rules/service.py\<close>: the rules of a workspace, how they are created,
  changed, removed and executed, and the summary of their executions.

  A column keeps the value the code gives it: the texts of \<open>compile_rule\<close>, the objects of the request
  models.  Whether the database takes a change is a parameter.  The Spark text, and attributes that
  are no columns, are left out.
\<close>

section \<open>Rows and requests\<close>

record DQRule =
  dq_id :: uuid
  dq_workspace :: uuid
  dq_source :: "string option"
  dq_name :: pyval
  dq_description :: pyval
  dq_category :: pyval
  dq_type :: pyval
  dq_canonical :: dict
  dq_sql :: pyval
  dq_postgres :: pyval
  dq_mysql :: pyval
  dq_snowflake :: pyval
  dq_schema :: "string option"
  dq_table :: "string option"
  dq_columns :: pyval
  dq_status :: string
  dq_active :: bool
  dq_schedule :: "dict option"
  dq_threshold :: "dict option"
  dq_notification :: "dict option"
  dq_tags :: "string list option"
  dq_meta :: "dict option"
  dq_created_by :: uuid
  dq_owner :: uuid
  dq_updated :: nat

text \<open>\<open>CanonicalRuleDefinition\<close> and what \<open>dict()\<close> makes of it.\<close>

record Canonical =
  cn_dimension :: string
  cn_entity :: string
  cn_condition :: string
  cn_expectation :: string
  cn_severity :: string
  cn_parameters :: "dict option"

definition canonical_dict :: "Canonical \<Rightarrow> dict" where
  "canonical_dict c =
     [(''dimension'', PStr (cn_dimension c)), (''entity'', PStr (cn_entity c)), (''condition'', PStr (cn_condition c)),
      (''expectation'', PStr (cn_expectation c)), (''severity'', PStr (cn_severity c)),
      (''parameters'', case cn_parameters c of None \<Rightarrow> PNone | Some p \<Rightarrow> PDict p)]"

record CreateRule =
  cr_name :: string
  cr_description :: "string option"
  cr_category :: string
  cr_type :: string
  cr_canonical :: Canonical
  cr_source :: "string option"
  cr_schema :: "string option"
  cr_table :: "string option"
  cr_columns :: "string list option"
  cr_status :: "string option"
  cr_active :: bool
  cr_schedule :: "dict option"
  cr_threshold :: "dict option"
  cr_notification :: "dict option"
  cr_tags :: "string list option"
  cr_metadata :: "dict option"

record UpdateRule =
  ur_name :: "string option"
  ur_description :: "string option"
  ur_category :: "string option"
  ur_type :: "string option"
  ur_canonical :: "Canonical option"
  ur_source :: "string option"
  ur_schema :: "string option"
  ur_table :: "string option"
  ur_columns :: "string list option"
  ur_status :: "string option"
  ur_active :: "bool option"
  ur_schedule :: "dict option"
  ur_threshold :: "dict option"
  ur_notification :: "dict option"
  ur_tags :: "string list option"
  ur_metadata :: "dict option"

datatype service_error = Refused_by string | Raised py_error | NotCommitted

datatype db_commit = Committed | NameTaken | CommitFails

section \<open>Creating a rule\<close>

definition opt_str :: "string option \<Rightarrow> pyval" where
  "opt_str s = (case s of None \<Rightarrow> PNone | Some x \<Rightarrow> PStr x)"

definition opt_strs :: "string list option \<Rightarrow> pyval" where
  "opt_strs s = (case s of None \<Rightarrow> PNone | Some xs \<Rightarrow> PList (map PStr xs))"

text \<open>\<open>s.split(".")\<close>.\<close>

fun split_dots :: "string \<Rightarrow> string list" where
  "split_dots [] = [[]]"
| "split_dots (c # s) =
     (if c = CHR ''.'' then [] # split_dots s
      else case split_dots s of w # ws \<Rightarrow> (c # w) # ws | [] \<Rightarrow> [[c]])"

text \<open>The schema, the table and the column of an entity of three, two or one part.\<close>

definition entity_target :: "string \<Rightarrow> string option \<times> string \<times> string option" where
  "entity_target entity =
     (case split_dots entity of
        a # b # c # _ \<Rightarrow> (Some a, b, Some c)
      | [a, b] \<Rightarrow> (None, a, Some b)
      | _ \<Rightarrow> (None, entity, None))"

text \<open>A text or a list of the request, when it is not empty.\<close>

definition supplied :: "'a list option \<Rightarrow> 'a list option" where
  "supplied v = (case v of Some (x # xs) \<Rightarrow> Some (x # xs) | _ \<Rightarrow> None)"

definition or_given :: "'a list option \<Rightarrow> 'a list option \<Rightarrow> 'a list option" where
  "or_given a b = (if supplied a = None then b else a)"

definition create_target :: "CreateRule \<Rightarrow> string option \<times> string option \<times> string option" where
  "create_target q =
     (let (schema, tbl, column) = entity_target (cn_entity (cr_canonical q))
      in (or_given (cr_schema q) schema, or_given (cr_table q) (Some tbl),
          case supplied (cr_columns q) of Some (c # _) \<Rightarrow> Some c | _ \<Rightarrow> column))"

definition created_rule :: "nat \<Rightarrow> uuid \<Rightarrow> uuid \<Rightarrow> uuid \<Rightarrow> CreateRule \<Rightarrow> dict \<Rightarrow> DQRule" where
  "created_rule now k w user q d =
     (let (schema, tbl, column) = create_target q; got = (\<lambda>n. dict_get d n PNone)
      in \<lparr>dq_id = k, dq_workspace = w, dq_source = cr_source q, dq_name = PStr (cr_name q),
          dq_description = opt_str (cr_description q), dq_category = PStr (cn_dimension (cr_canonical q)), dq_type = PNone,
          dq_canonical = canonical_dict (cr_canonical q), dq_sql = got ''compiled_sql'', dq_postgres = got ''compiled_postgres'',
          dq_mysql = got ''compiled_mysql'', dq_snowflake = got ''compiled_snowflake'', dq_schema = schema, dq_table = tbl,
          dq_columns = (case supplied column of
             Some c \<Rightarrow> PList [PStr c] | None \<Rightarrow> opt_strs (or_given (cr_columns q) (Some []))),
          dq_status = ''draft'', dq_active = True, dq_schedule = cr_schedule q, dq_threshold = cr_threshold q,
          dq_notification = cr_notification q, dq_tags = cr_tags q, dq_meta = None, dq_created_by = user, dq_owner = user,
          dq_updated = now\<rparr>)"

definition create_rule ::
    "rule_params \<Rightarrow> db_commit \<Rightarrow> nat \<Rightarrow> uuid \<Rightarrow> uuid \<Rightarrow> uuid \<Rightarrow> CreateRule \<Rightarrow> DQRule list \<Rightarrow>
     service_error + DQRule \<times> DQRule list" where
  "create_rule R commit now k w user q db =
     (let (schema, tbl, column) = create_target q
      in case compile_rule R (canonical_dict (cr_canonical q)) schema tbl (map_option (\<lambda>c. [c]) (supplied column)) of
           Inl e \<Rightarrow> Inl (Raised e)
         | Inr d \<Rightarrow>
             if \<not> truthy (dict_get d ''compiled_sql'' PNone)
             then Inl (Refused_by ''Rule compilation failed - no SQL generated'')
             else case commit of
                    Committed \<Rightarrow> (let r = created_rule now k w user q d in Inr (r, db @ [r]))
                  | NameTaken \<Rightarrow> Inl (Refused_by (''Rule with name '' @ [CHR 0x27] @ cr_name q @ [CHR 0x27] @
                      '' already exists for this organization''))
                  | CommitFails \<Rightarrow> Inl NotCommitted)"

section \<open>Changing a rule\<close>

definition rule_key :: "uuid \<Rightarrow> uuid \<Rightarrow> DQRule \<Rightarrow> bool" where
  "rule_key k w r \<longleftrightarrow> dq_id r = k \<and> dq_workspace r = w"

definition find_rule :: "uuid \<Rightarrow> uuid \<Rightarrow> DQRule list \<Rightarrow> DQRule option" where
  "find_rule k w db = find (rule_key k w) db"

definition recompiled :: "rule_params \<Rightarrow> Canonical \<Rightarrow> DQRule \<Rightarrow> service_error + DQRule" where
  "recompiled R c r =
     (case compile_rule R (canonical_dict c) None None None of
        Inl e \<Rightarrow> Inl (Raised e)
      | Inr d \<Rightarrow>
          let ps = split_dots (cn_entity c); got = (\<lambda>n. dict_get d n PNone)
          in if \<not> truthy (got ''compiled_sql'') then Inl (Refused_by ''Rule recompilation failed - no SQL generated'')
             else Inr (r\<lparr>dq_canonical := canonical_dict c, dq_category := PStr (cn_dimension c), dq_sql := got ''compiled_sql'',
               dq_postgres := got ''compiled_postgres'', dq_mysql := got ''compiled_mysql'',
               dq_snowflake := got ''compiled_snowflake'', dq_schema := (if length ps = 1 then None else Some (hd ps)),
               dq_table := Some (if length ps = 3 then ps ! 1 else hd ps), dq_columns := PList [PStr (last ps)]\<rparr>))"

definition needs_recompilation :: "UpdateRule \<Rightarrow> DQRule \<Rightarrow> bool" where
  "needs_recompilation u r \<longleftrightarrow>
     (case ur_canonical u of None \<Rightarrow> False | Some c \<Rightarrow> \<not> same (PDict (canonical_dict c)) (PDict (dq_canonical r)))"

definition patched :: "nat \<Rightarrow> UpdateRule \<Rightarrow> DQRule \<Rightarrow> DQRule" where
  "patched now u r =
     (let opt = (\<lambda>v f x. case v of None \<Rightarrow> x | Some y \<Rightarrow> f y)
      in r\<lparr>dq_name := opt (ur_name u) PStr (dq_name r), dq_description := opt (ur_description u) PStr (dq_description r),
         dq_category := opt (ur_category u) PStr (dq_category r), dq_type := opt (ur_type u) PStr (dq_type r),
         dq_source := (if ur_source u = None then dq_source r else ur_source u),
         dq_table := (if ur_table u = None then dq_table r else ur_table u),
         dq_columns := (if ur_columns u = None then dq_columns r else opt_strs (ur_columns u)),
         dq_status := (case ur_status u of None \<Rightarrow> dq_status r | Some s \<Rightarrow> s),
         dq_active := (case ur_active u of None \<Rightarrow> dq_active r | Some b \<Rightarrow> b),
         dq_schedule := (if ur_schedule u = None then dq_schedule r else ur_schedule u),
         dq_threshold := (if ur_threshold u = None then dq_threshold r else ur_threshold u),
         dq_notification := (if ur_notification u = None then dq_notification r else ur_notification u),
         dq_tags := (if ur_tags u = None then dq_tags r else ur_tags u),
         dq_meta := (if ur_metadata u = None then dq_meta r else ur_metadata u), dq_updated := now\<rparr>)"

definition update_rule ::
    "rule_params \<Rightarrow> db_commit \<Rightarrow> nat \<Rightarrow> uuid \<Rightarrow> uuid \<Rightarrow> UpdateRule \<Rightarrow> DQRule list \<Rightarrow>
     service_error + DQRule option \<times> DQRule list" where
  "update_rule R commit now k w u db =
     (case find_rule k w db of
        None \<Rightarrow> Inr (None, db)
      | Some r \<Rightarrow>
          (case (if needs_recompilation u r then recompiled R (the (ur_canonical u)) r else Inr r) of
             Inl e \<Rightarrow> Inl e
           | Inr r' \<Rightarrow>
               if commit = Committed
               then Inr (Some (patched now u r'), update_where (rule_key k w) (\<lambda>_. patched now u r') db)
               else Inl NotCommitted))"

definition empty_update :: UpdateRule where
  "empty_update = \<lparr>ur_name = None, ur_description = None, ur_category = None, ur_type = None, ur_canonical = None,
     ur_source = None, ur_schema = None, ur_table = None, ur_columns = None, ur_status = None, ur_active = None,
     ur_schedule = None, ur_threshold = None, ur_notification = None, ur_tags = None, ur_metadata = None\<rparr>"

definition schedule_rule where
  "schedule_rule R commit now k w schedule db = update_rule R commit now k w (empty_update\<lparr>ur_schedule := Some schedule\<rparr>) db"

definition unschedule_rule where
  "unschedule_rule R commit now k w db = update_rule R commit now k w (empty_update\<lparr>ur_schedule := None\<rparr>) db"

definition delete_rule ::
    "db_commit \<Rightarrow> nat \<Rightarrow> uuid \<Rightarrow> uuid \<Rightarrow> bool \<Rightarrow> DQRule list \<Rightarrow> service_error + bool \<times> DQRule list" where
  "delete_rule commit now k w soft db =
     (case find_rule k w db of
        None \<Rightarrow> Inr (False, db)
      | Some r \<Rightarrow>
          if commit \<noteq> Committed then Inl NotCommitted
          else Inr (True,
            if soft then update_where (rule_key k w) (\<lambda>x. x\<lparr>dq_active := False, dq_status := ''archived'', dq_updated := now\<rparr>) db
            else delete_where (rule_key k w) db))"

section \<open>Executions\<close>

text \<open>The executor stores what it finds in the tables; the identifiers are those of its rows.\<close>

type_synonym row_ids = "uuid \<times> uuid \<times> uuid"

definition service_execute ::
    "rule_env \<Rightarrow> nat \<Rightarrow> row_ids \<Rightarrow> uuid \<Rightarrow> uuid \<Rightarrow> nat option \<Rightarrow> quality_db \<Rightarrow> service_error + Execution \<times> quality_db" where
  "service_execute E now ids k w sample db =
     (case find (\<lambda>ru. ru_id ru = k \<and> ru_workspace ru = w) (qd_rules db) of
        None \<Rightarrow> Inl (Refused_by (''Rule '' @ uuid_text k @ '' not found''))
      | Some ru \<Rightarrow>
          if \<not> ru_active ru then Inl (Refused_by (''Rule '' @ uuid_text k @ '' is not active''))
          else let (x, y, z) = ids; (ex, db', alert) = execute_rule E now x y z ru sample db in Inr (ex, db'))"

record bulk_response =
  bu_total :: nat
  bu_successful :: int
  bu_failed :: int
  bu_results :: "(uuid \<times> (service_error + string)) list"

fun bulk_runs ::
    "rule_env \<Rightarrow> nat \<Rightarrow> uuid \<Rightarrow> nat option \<Rightarrow> (uuid \<times> row_ids) list \<Rightarrow> quality_db \<Rightarrow>
     (uuid \<times> (service_error + string)) list \<times> quality_db" where
  "bulk_runs E now w sample [] db = ([], db)"
| "bulk_runs E now w sample ((k, ids) # ks) db =
     (case service_execute E now ids k w sample db of
        Inl e \<Rightarrow> (let (rs, db') = bulk_runs E now w sample ks db in ((k, Inl e) # rs, db'))
      | Inr (ex, db1) \<Rightarrow> (let (rs, db') = bulk_runs E now w sample ks db1 in ((k, Inr (ex_status ex)) # rs, db')))"

definition bulk_execute ::
    "rule_env \<Rightarrow> nat \<Rightarrow> uuid \<Rightarrow> nat option \<Rightarrow> (uuid \<times> row_ids) list \<Rightarrow> quality_db \<Rightarrow> bulk_response \<times> quality_db" where
  "bulk_execute E now w sample ks db =
     (let (rs, db') = bulk_runs E now w sample ks db; failed = length (filter (isl \<circ> snd) rs)
      in (\<lparr>bu_total = length ks, bu_successful = int (length ks) - int failed, bu_failed = int failed, bu_results = rs\<rparr>, db'))"

section \<open>The summary of executions\<close>

text \<open>
  \<open>get_execution_summary\<close> compares the rate of an execution with \<open>rule.pass_threshold\<close>, an attribute
  that the model of a rule does not have; the comparison is skipped only when the status decides.
\<close>

definition no_threshold :: "py_error + bool" where
  "no_threshold = Inl (AttributeError ''pass_threshold'')"

definition counts_passed :: "string \<Rightarrow> py_error + bool" where
  "counts_passed status = (if status = ''completed'' then no_threshold else Inr False)"

definition counts_failed :: "string \<Rightarrow> py_error + bool" where
  "counts_failed status = (if status = ''failed'' then Inr True else no_threshold)"

record exec_summary =
  su_total :: nat
  su_passed :: nat
  su_failed :: nat
  su_running :: nat

definition execution_summary :: "string list \<Rightarrow> py_error + exec_summary" where
  "execution_summary statuses =
     bind (collect counts_passed statuses) (\<lambda>ps.
     bind (collect counts_failed statuses) (\<lambda>fs.
       Inr \<lparr>su_total = length statuses, su_passed = length (filter id ps), su_failed = length (filter id fs),
            su_running = length (filter (\<lambda>s. s = ''running'') statuses)\<rparr>))"

end
