(* ===== verification/RuleStoreSafety.thy ===== *)
theory RuleStoreSafety
  imports RuleStore IssuePipeline
begin

text \<open>
  What the rule service stores and runs: rules that do not compile, rules that are compiled again,
  several executions, and the summary of executions.
\<close>

section \<open>Rules that do not compile\<close>

text \<open>The row of a rule as the executor reads it; the source of the data and the thresholds are those of other columns.\<close>

definition text_column :: "pyval \<Rightarrow> string option" where
  "text_column v = (case v of PStr s \<Rightarrow> Some s | _ \<Rightarrow> None)"

definition reads_rule :: "DQRule \<Rightarrow> RuleRow \<Rightarrow> bool" where
  "reads_rule r ru \<longleftrightarrow> ru_id ru = dq_id r \<and> ru_workspace ru = dq_workspace r \<and> ru_canonical ru = PDict (dq_canonical r) \<and>
     ru_active ru = dq_active r \<and> ru_sql ru = text_column (dq_sql r) \<and> ru_postgres ru = text_column (dq_postgres r) \<and>
     ru_mysql ru = text_column (dq_mysql r) \<and> ru_snowflake ru = text_column (dq_snowflake r) \<and>
     ru_schema ru = dq_schema r \<and> ru_table ru = dq_table r \<and> dq_columns r = PList (map PStr (ru_columns ru))"

definition COMMENT_DIMENSIONS :: "string list" where
  "COMMENT_DIMENSIONS = [''conformity'', ''consistency'', ''timeliness'', ''accuracy'']"

text \<open>The two ways in which the compiler reports an error.\<close>

definition error_comment :: "dict \<Rightarrow> string \<Rightarrow> bool" where
  "error_comment d m \<longleftrightarrow> dict_get d ''compiled_sql'' PNone = PStr (error_text m) \<and>
     dict_get d ''compiled_postgres'' PNone = PStr (error_text m) \<and> dict_get d ''compiled_mysql'' PNone = PNone \<and>
     dict_get d ''compiled_snowflake'' PNone = PNone"

lemma empty_results:
  "truthy (dict_get (compiled_of p) ''error'' PNone) \<Longrightarrow> dict_get (compiled_of p) ''compiled_sql'' PNone = PStr []"
  "truthy (dict_get (uniqueness_result_of u) ''error'' PNone) \<Longrightarrow> dict_get (uniqueness_result_of u) ''compiled_sql'' PNone = PStr []"
proof -
  show "truthy (dict_get (compiled_of p) ''error'' PNone) \<Longrightarrow> dict_get (compiled_of p) ''compiled_sql'' PNone = PStr []"
    by (cases p) (simp_all add: compiled_of_def dict_get_def)
  show "truthy (dict_get (uniqueness_result_of u) ''error'' PNone) \<Longrightarrow> dict_get (uniqueness_result_of u) ''compiled_sql'' PNone = PStr []"
    by (cases u) (simp_all add: uniqueness_result_of_def Let_def dict_get_def)
qed

lemma comment_results:
  "truthy (dict_get (conformity_result t) ''error'' PNone) \<Longrightarrow> \<exists>m. error_comment (conformity_result t) m"
  "truthy (dict_get (one_line f t) ''error'' PNone) \<Longrightarrow> \<exists>m. error_comment (one_line f t) m"
proof -
  have fault: "error_comment (conformity_result (Fault m)) m" "error_comment (one_line f (Fault m)) m" for m
    by (simp_all add: conformity_result_def one_line_def error_comment_def dict_get_def)
  have "\<not> truthy (dict_get (conformity_result (Tally s l)) ''error'' PNone)"
    "\<not> truthy (dict_get (one_line f (Tally s l)) ''error'' PNone)" for s l
    by (simp_all add: conformity_result_def one_line_def dict_get_def)
  then show "truthy (dict_get (conformity_result t) ''error'' PNone) \<Longrightarrow> \<exists>m. error_comment (conformity_result t) m"
    "truthy (dict_get (one_line f t) ''error'' PNone) \<Longrightarrow> \<exists>m. error_comment (one_line f t) m"
    by (cases t; use fault in blast)+
qed

lemma compile_rule_error:
  assumes "compile_rule R (canonical_dict c) schema tbl cols = Inr d" and "truthy (dict_get d ''error'' PNone)"
    and "cn_dimension c \<noteq> ''reconciliation''"
  shows "if cn_dimension c \<in> set COMMENT_DIMENSIONS then \<exists>m. error_comment d m
    else dict_get d ''compiled_sql'' PNone = PStr []"
proof -
  have entries: "dict_get (canonical_dict c) ''entity'' PNone = PStr (cn_entity c)"
      "dict_get (canonical_dict c) ''dimension'' PNone = PStr (cn_dimension c)"
    by (simp_all add: canonical_dict_def dict_get_def)
  have plain: "\<not> truthy (dict_get (statistical_rule t k) ''error'' PNone)" "\<not> truthy (dict_get (generic_rule t k) ''error'' PNone)" for t k
    by (simp_all add: statistical_rule_def generic_rule_def four_texts_def dict_get_def)
  show ?thesis
    using assms empty_results comment_results plain unfolding compile_rule_def compile_for_def entries compile_dimension_def Let_def COMMENT_DIMENSIONS_def
    by (auto split: prod.splits if_split_asm option.split_asm pyval.split_asm elim!: map_sum_InrE)
qed

lemma create_target_compiled:
  assumes "create_target q = (schema, tbl, column)"
    and "compile_rule R (canonical_dict (cr_canonical q)) schema tbl (map_option (\<lambda>c. [c]) (supplied column)) = Inr d"
    and "truthy (dict_get d ''compiled_sql'' PNone)"
  shows "create_rule R Committed now k w user q db =
    Inr (created_rule now k w user q d, db @ [created_rule now k w user q d])"
  using assms by (simp add: create_rule_def Let_def)

text \<open>A compiler without the parts that are parameters, and requests for two rules.\<close>

definition plain_params :: rule_params where
  "plain_params = \<lparr>rp_str = (\<lambda>_. []), rp_float = (\<lambda>_. None), rp_grouped = (\<lambda>_ _ _ _. Inr (Fault [])),
     rp_by_pairs = (\<lambda>_ _ _ _. Inr (Refused [])), rp_reconcile = (\<lambda>_ _ _. Inr [])\<rparr>"

definition request_for :: "string \<Rightarrow> string \<Rightarrow> dict \<Rightarrow> CreateRule" where
  "request_for dimension entity p = \<lparr>cr_name = ''r'', cr_description = None, cr_category = dimension, cr_type = ''check'',
     cr_canonical = \<lparr>cn_dimension = dimension, cn_entity = entity, cn_condition = [], cn_expectation = ''100%'',
       cn_severity = ''minor'', cn_parameters = Some p\<rparr>,
     cr_source = None, cr_schema = None, cr_table = None, cr_columns = None, cr_status = None, cr_active = True,
     cr_schedule = None, cr_threshold = None, cr_notification = None, cr_tags = None, cr_metadata = None\<rparr>"

text \<open>
  C27: A rule the compiler reports an error for is refused when it is about completeness, validity or
  uniqueness, where the error has no text; but it is stored, as an active rule, when it is about
  conformity, consistency, timeliness or accuracy, whose error is a text that starts as a comment: an
  execution sends this text to the database.
\<close>

theorem malformed_rules_are_stored:
  assumes "create_target q = (schema, tbl, column)"
    and "compile_rule R (canonical_dict (cr_canonical q)) schema tbl (map_option (\<lambda>c. [c]) (supplied column)) = Inr d"
    and "truthy (dict_get d ''error'' PNone)" and "cn_dimension (cr_canonical q) \<noteq> ''reconciliation''"
  shows "if cn_dimension (cr_canonical q) \<in> set COMMENT_DIMENSIONS
    then \<exists>m r. create_rule R Committed now k w user q db = Inr (r, db @ [r]) \<and> dq_sql r = PStr (error_text m) \<and> dq_active r \<and>
           (\<forall>ru. reads_rule r ru \<longrightarrow> non_empty (select_sql ru) = Some (error_text m))
    else create_rule R Committed now k w user q db = Inl (Refused_by ''Rule compilation failed - no SQL generated'')"
proof (cases "cn_dimension (cr_canonical q) \<in> set COMMENT_DIMENSIONS")
  case True
  with compile_rule_error [OF assms(2-4)] obtain m where m: "error_comment d m" by auto
  have nonempty: "error_text m \<noteq> []" by (simp add: error_text_def)
  let ?r = "created_rule now k w user q d"
  have sql: "dq_sql ?r = PStr (error_text m)" "dq_postgres ?r = PStr (error_text m)" "dq_mysql ?r = PNone"
      "dq_snowflake ?r = PNone" "dq_active ?r"
    using m by (simp_all add: created_rule_def error_comment_def Let_def split: prod.split)
  have "given_sql (Some (error_text m))" using nonempty by (simp add: given_sql_def split: list.split)
  then have "non_empty (select_sql ru) = Some (error_text m)" if "reads_rule ?r ru" for ru
    using that sql by (auto simp: reads_rule_def text_column_def select_sql_def non_empty_def given_sql_def)
  moreover have "create_rule R Committed now k w user q db = Inr (?r, db @ [?r])"
    using m nonempty by (intro create_target_compiled [OF assms(1,2)]) (simp add: error_comment_def)
  ultimately show ?thesis using True sql by auto
next
  case False
  with compile_rule_error [OF assms(2-4)] have "dict_get d ''compiled_sql'' PNone = PStr []" by simp
  with False assms(1,2) show ?thesis by (simp add: create_rule_def)
qed

theorem malformed_rules_are_stored_witness:
  "\<exists>m r. create_rule plain_params Committed 5 7 1 3 (request_for ''conformity'' ''t.c'' [(''standard_name'', PStr ''zip'')]) [] =
       Inr (r, [r]) \<and> dq_sql r = PStr (error_text m)"
proof -
  let ?q = "request_for ''conformity'' ''t.c'' [(''standard_name'', PStr ''zip'')]"
  have target: "create_target ?q = (None, Some ''t'', Some ''c'')" by code_simp
  have "case compile_rule plain_params (canonical_dict (cr_canonical ?q)) None (Some ''t'') (map_option (\<lambda>c. [c]) (supplied (Some ''c''))) of
      Inr d \<Rightarrow> truthy (dict_get d ''error'' PNone) | _ \<Rightarrow> False"
    by code_simp
  then obtain d where d: "compile_rule plain_params (canonical_dict (cr_canonical ?q)) None (Some ''t'')
      (map_option (\<lambda>c. [c]) (supplied (Some ''c''))) = Inr d" "truthy (dict_get d ''error'' PNone)"
    by (auto split: sum.splits)
  have "cn_dimension (cr_canonical ?q) \<noteq> ''reconciliation''" "cn_dimension (cr_canonical ?q) \<in> set COMMENT_DIMENSIONS"
    by (simp_all add: request_for_def COMMENT_DIMENSIONS_def)
  with malformed_rules_are_stored [OF target d, of 5 7 1 3 "[]"] show ?thesis by auto
qed

section \<open>Rules that are compiled again\<close>

lemma split_dots_plain: "CHR ''.'' \<notin> set s \<Longrightarrow> split_dots s = [s]"
  by (induction s) auto

lemma split_dots_dot: "CHR ''.'' \<notin> set s \<Longrightarrow> split_dots (s @ CHR ''.'' # t) = s # split_dots t"
  by (induction s) auto

definition dotted :: "string list \<Rightarrow> string" where
  "dotted ps = join_with ''.'' ps"

lemma dotted3: "dotted [s, t, c] = s @ CHR ''.'' # t @ CHR ''.'' # c"
  by (simp add: dotted_def)

lemma split_dotted:
  assumes "CHR ''.'' \<notin> set s \<union> set t \<union> set c"
  shows "split_dots (dotted [s, t, c]) = [s, t, c]"
  using assms by (simp add: dotted3 split_dots_dot split_dots_plain)

lemma targets_of_dotted:
  assumes "CHR ''.'' \<notin> set s \<union> set t \<union> set c" and "s \<noteq> []" and "t \<noteq> []" and "c \<noteq> []"
  shows "table_and_column (dotted [s, t, c]) (Some s) (Some t) (Some [c]) = (quoted s @ ''.'' @ quoted t, c)"
    and "table_and_column (dotted [s, t, c]) None None None = (quoted s, t @ ''.'' @ c)"
  using assms by (auto simp: table_and_column_def dotted3 Let_def takeWhile_append dropWhile_append split: list.split)

text \<open>
  A rule on the column \<open>c\<close> of the table \<open>s.t\<close>, named by its entity, is created for this column.
  When its canonical rule is changed in an update, it is compiled for the column \<open>t.c\<close> of the table \<open>s\<close>,
  while the row goes on naming the table \<open>s.t\<close>.
\<close>

theorem updates_compile_for_another_table:
  assumes "CHR ''.'' \<notin> set s \<union> set t \<union> set c" and "s \<noteq> []" and "t \<noteq> []" and "c \<noteq> []"
    and "cn_entity (cr_canonical q) = dotted [s, t, c]" and "cr_schema q = None" and "cr_table q = None" and "cr_columns q = None"
    and "create_rule R Committed now k w user q db = Inr (r, db')"
    and "cn_entity cn = dotted [s, t, c]" and "\<not> same (PDict (canonical_dict cn)) (PDict (dq_canonical r))"
    and "find_rule k w db' = Some r"
    and "update_rule R Committed now' k w (empty_update\<lparr>ur_canonical := Some cn\<rparr>) db' = Inr (Some r', db'')"
  shows "\<exists>d d'. compile_for R (canonical_dict (cr_canonical q)) (quoted s @ ''.'' @ quoted t) c = Inr d \<and>
    dq_sql r = dict_get d ''compiled_sql'' PNone \<and>
    compile_for R (canonical_dict cn) (quoted s) (t @ ''.'' @ c) = Inr d' \<and> dq_sql r' = dict_get d' ''compiled_sql'' PNone \<and>
    (dq_schema r, dq_table r, dq_columns r) = (Some s, Some t, PList [PStr c]) \<and>
    (dq_schema r', dq_table r', dq_columns r') = (Some s, Some t, PList [PStr c])"
proof -
  have entity: "dict_get (canonical_dict x) ''entity'' PNone = PStr (cn_entity x)" for x
    by (simp add: canonical_dict_def dict_get_def)
  note parts = split_dotted [OF assms(1)]
  have supplied: "supplied (Some x) = Some x" if "x \<noteq> []" for x :: "'a list" using that by (cases x) (simp_all add: supplied_def)
  have target: "create_target q = (Some s, Some t, Some c)"
    using assms(5-8) supplied by (simp add: create_target_def entity_target_def parts or_given_def supplied_def)
  have "compile_rule R (canonical_dict (cr_canonical q)) (Some s) (Some t) (Some [c]) =
      compile_for R (canonical_dict (cr_canonical q)) (quoted s @ ''.'' @ quoted t) c"
    by (simp add: compile_rule_def entity assms(5) targets_of_dotted(1) [OF assms(1-4)])
  with assms(9) target obtain d where
    d: "compile_for R (canonical_dict (cr_canonical q)) (quoted s @ ''.'' @ quoted t) c = Inr d" "r = created_rule now k w user q d"
    by (auto simp: create_rule_def supplied [OF assms(4)] Let_def split: sum.splits if_splits)
  have again: "compile_rule R (canonical_dict cn) None None None = compile_for R (canonical_dict cn) (quoted s) (t @ ''.'' @ c)"
    by (simp add: compile_rule_def entity assms(10) targets_of_dotted(2) [OF assms(1-4)])
  have "needs_recompilation (empty_update\<lparr>ur_canonical := Some cn\<rparr>) r"
    using assms(11) by (simp add: needs_recompilation_def)
  with assms(12,13) obtain r1 where r1: "recompiled R cn r = Inr r1" "r' = patched now' (empty_update\<lparr>ur_canonical := Some cn\<rparr>) r1"
    by (auto simp: update_rule_def split: sum.splits)
  then obtain d' where d': "compile_for R (canonical_dict cn) (quoted s) (t @ ''.'' @ c) = Inr d'"
      "dq_sql r1 = dict_get d' ''compiled_sql'' PNone" "(dq_schema r1, dq_table r1, dq_columns r1) = (Some s, Some t, PList [PStr c])"
    using assms(10) by (auto simp: recompiled_def again parts Let_def split: sum.splits if_splits)
  moreover have "dq_sql r = dict_get d ''compiled_sql'' PNone" "(dq_schema r, dq_table r, dq_columns r) = (Some s, Some t, PList [PStr c])"
    using supplied [OF assms(4)] by (simp_all add: d(2) created_rule_def target Let_def)
  moreover have "dq_sql r' = dq_sql r1" "(dq_schema r', dq_table r', dq_columns r') = (dq_schema r1, dq_table r1, dq_columns r1)"
    by (simp_all add: r1(2) patched_def empty_update_def Let_def)
  ultimately show ?thesis using d(1) by auto
qed

theorem updates_compile_for_another_table_witness:
  "\<exists>r db' r' db'' d'. create_rule plain_params Committed 5 7 1 3 (request_for ''completeness'' (dotted [''s'', ''t'', ''c'']) []) [] =
       Inr (r, db') \<and>
     update_rule plain_params Committed 6 7 1 (empty_update\<lparr>ur_canonical :=
       Some ((cr_canonical (request_for ''completeness'' (dotted [''s'', ''t'', ''c'']) []))\<lparr>cn_severity := ''major''\<rparr>)\<rparr>) db' =
       Inr (Some r', db'') \<and> dq_schema r' = Some ''s'' \<and> dq_table r' = Some ''t'' \<and>
     dq_sql r' = dict_get d' ''compiled_sql'' PNone \<and>
     compile_for plain_params (canonical_dict ((cr_canonical (request_for ''completeness'' (dotted [''s'', ''t'', ''c'']) []))\<lparr>cn_severity := ''major''\<rparr>))
       (quoted ''s'') ''t.c'' = Inr d'"
proof -
  let ?q = "request_for ''completeness'' (dotted [''s'', ''t'', ''c'']) []"
  let ?cn = "(cr_canonical ?q)\<lparr>cn_severity := ''major''\<rparr>" and ?R = plain_params
  let ?u = "empty_update\<lparr>ur_canonical := Some ?cn\<rparr>"
  have "case create_rule ?R Committed 5 7 1 3 ?q [] of
      Inr (r, db') \<Rightarrow> \<not> same (PDict (canonical_dict ?cn)) (PDict (dq_canonical r)) \<and> find_rule 7 1 db' \<noteq> None \<and>
        length db' = 1 \<and> (case update_rule ?R Committed 6 7 1 ?u db' of Inr (x, db'') \<Rightarrow> x \<noteq> None | _ \<Rightarrow> False)
    | _ \<Rightarrow> False"
    by code_simp
  then obtain r db' where *: "create_rule ?R Committed 5 7 1 3 ?q [] = Inr (r, db')"
      "\<not> same (PDict (canonical_dict ?cn)) (PDict (dq_canonical r))" "find_rule 7 1 db' \<noteq> None"
    and updated: "case update_rule ?R Committed 6 7 1 ?u db' of Inr (x, db'') \<Rightarrow> x \<noteq> None | _ \<Rightarrow> False"
    by (cases "create_rule ?R Committed 5 7 1 3 ?q []") (auto simp del: same.simps)
  from updated obtain r' db'' where **: "update_rule ?R Committed 6 7 1 ?u db' = Inr (Some r', db'')"
    by (auto split: sum.split_asm)
  have "db' = [r]" using *(1) by (auto simp: create_rule_def Let_def split: sum.split_asm if_split_asm prod.split_asm)
  with *(3) have found: "find_rule 7 1 db' = Some r" by (auto simp: find_rule_def split: if_splits)
  have q: "cn_entity (cr_canonical ?q) = dotted [''s'', ''t'', ''c'']" "cr_schema ?q = None" "cr_table ?q = None" "cr_columns ?q = None"
      "cn_entity ?cn = dotted [''s'', ''t'', ''c'']"
    by (simp_all add: request_for_def)
  have plain: "CHR ''.'' \<notin> set ''s'' \<union> set ''t'' \<union> set ''c''" "''s'' \<noteq> []" "''t'' \<noteq> []" "''c'' \<noteq> []" by simp_all
  have "''t'' @ ''.'' @ ''c'' = ''t.c''" by simp
  with updates_compile_for_another_table [OF plain q(1-4) *(1) q(5) *(2) found **] *(1) ** show ?thesis by auto
qed

section \<open>Several executions\<close>

definition runnable :: "quality_db \<Rightarrow> uuid \<Rightarrow> uuid \<Rightarrow> bool" where
  "runnable db w k \<longleftrightarrow>
     (case find (\<lambda>ru. ru_id ru = k \<and> ru_workspace ru = w) (qd_rules db) of None \<Rightarrow> False | Some ru \<Rightarrow> ru_active ru)"

lemma executor_keeps_rules:
  assumes "execute_rule E now x y z ru sample db = (ex, db', alert)"
  shows "qd_rules db' = qd_rules db"
  using assms rule_issues.frame [of db] by (auto simp: execute_rule_def Let_def same_frame_def)

lemma service_execute_cases:
  "(case service_execute E now ids k w sample db of
      Inl e \<Rightarrow> \<not> runnable db w k | Inr (ex, db') \<Rightarrow> runnable db w k \<and> qd_rules db' = qd_rules db)"
  by (auto simp: service_execute_def runnable_def Let_def dest: executor_keeps_rules split: option.splits prod.splits)

lemma bulk_runs_results:
  assumes "bulk_runs E now w sample ks db = (rs, db')"
  shows "map fst rs = map fst ks \<and> map (isl \<circ> snd) rs = map (\<lambda>(k, _). \<not> runnable db w k) ks"
  using assms
proof (induction ks arbitrary: db rs db')
  case (Cons e ks)
  obtain k ids where e: "e = (k, ids)" by (cases e) blast
  have same: "runnable db1 w = runnable db w" if "qd_rules db1 = qd_rules db" for db1
    using that by (simp add: runnable_def fun_eq_iff)
  have "\<exists>res db1 rs'. rs = (k, res) # rs' \<and> bulk_runs E now w sample ks db1 = (rs', db') \<and>
      isl res = (\<not> runnable db w k) \<and> qd_rules db1 = qd_rules db"
  proof (cases "service_execute E now ids k w sample db")
    case (Inl x)
    then show ?thesis using Cons.prems service_execute_cases [where E = E and now = now and ids = ids and k = k and w = w and sample = sample and db = db]
      by (cases "bulk_runs E now w sample ks db") (force simp: e)
  next
    case (Inr y)
    then show ?thesis using Cons.prems service_execute_cases [where E = E and now = now and ids = ids and k = k and w = w and sample = sample and db = db]
      by (cases y; cases "bulk_runs E now w sample ks (snd y)") (auto simp: e)
  qed
  then obtain res db1 rs' where *: "rs = (k, res) # rs'" "bulk_runs E now w sample ks db1 = (rs', db')"
      "isl res = (\<not> runnable db w k)" "qd_rules db1 = qd_rules db" by blast
  from Cons.IH [OF *(2)] *(1,3) show ?case unfolding same [OF *(4)] by (simp add: e)
qed simp

text \<open>
  Executing several rules tries every one of them, in their order, whatever happens to the ones
  before; the ones that fail are exactly the rules that do not exist in the workspace or are not active,
  and the two counts add up to all of them.  An execution that ends as failed counts as successful.
\<close>

theorem bulk_execution_tries_every_rule:
  "case bulk_execute E now w sample ks db of (resp, db') \<Rightarrow>
     map fst (bu_results resp) = map fst ks \<and>
     map (isl \<circ> snd) (bu_results resp) = map (\<lambda>(k, _). \<not> runnable db w k) ks \<and>
     bu_failed resp = int (length (filter (\<lambda>(k, _). \<not> runnable db w k) ks)) \<and>
     bu_successful resp + bu_failed resp = int (bu_total resp) \<and> bu_total resp = length ks"
proof -
  obtain rs db' where runs: "bulk_runs E now w sample ks db = (rs, db')" by fastforce
  note results = bulk_runs_results [OF runs]
  have "length (filter (isl \<circ> snd) rs) = length (filter id (map (isl \<circ> snd) rs))" by (simp add: filter_map comp_def)
  also have "\<dots> = length (filter (\<lambda>(k, _). \<not> runnable db w k) ks)"
    using results by (simp add: filter_map comp_def case_prod_beta')
  finally show ?thesis using results by (simp add: bulk_execute_def runs Let_def)
qed

section \<open>The summary\<close>

lemma collect_threshold:
  "collect counts_failed ss = (if \<forall>s \<in> set ss. s = ''failed'' then Inr (map (\<lambda>_. True) ss) else no_threshold')"
  if "no_threshold' = Inl (AttributeError ''pass_threshold'')" for no_threshold' :: "py_error + bool list"
  using that by (induction ss) (auto simp: counts_failed_def no_threshold_def bind_def)

lemma collect_passed: "\<forall>s \<in> set ss. s = ''failed'' \<Longrightarrow> collect counts_passed ss = Inr (map (\<lambda>_. False) ss)"
  by (induction ss) (auto simp: counts_passed_def)

lemma collect_passed_error: "collect counts_passed ss = Inl e \<Longrightarrow> e = AttributeError ''pass_threshold''"
  by (induction ss) (auto simp: counts_passed_def no_threshold_def bind_def split: if_splits elim!: map_sum_InrE)

text \<open>
  The summary of the executions of a workspace can be read only while every one of them has failed,
  or there is none: for any other it looks up a threshold the rules do not have.
\<close>

theorem summary_only_of_failures:
  "execution_summary ss =
     (if filter (\<lambda>s. s \<noteq> ''failed'') ss = []
      then Inr \<lparr>su_total = length ss, su_passed = 0, su_failed = length ss, su_running = 0\<rparr>
      else Inl (AttributeError ''pass_threshold''))"
proof (cases "\<forall>s \<in> set ss. s = ''failed''")
  case True
  then have "filter (\<lambda>s. s = ''running'') ss = []" by (auto simp: filter_empty_conv)
  with True show ?thesis
    by (simp add: execution_summary_def collect_passed collect_threshold [OF refl] filter_empty_conv)
next
  case False
  then have "filter (\<lambda>s. s \<noteq> ''failed'') ss \<noteq> []" by (simp add: filter_empty_conv)
  with False show ?thesis using collect_passed_error [of ss]
    by (cases "collect counts_passed ss") (auto simp: execution_summary_def collect_threshold [OF refl])
qed

end
