(* ===== verification/RuleFlowSync.thy ===== *)
theory RuleFlowSync
  imports RuleStore
begin

text \<open>
  \<open>app/services/sync/rule_flow_sync.py\<close>: a change of a rule is written into the check nodes of the flows
  that come from it, and a change of such a node back into the rule.  The configuration the rule keeps of its node is an object.

  The guard against echoes is the argument \<open>syncing\<close>.  The query for flows whose nodes contain the id of
  the rule somewhere is left out: the flows it passes over have no node with that \<open>rule_id\<close>, and stay
  as they are.  Whether the database takes the changes is a parameter.
\<close>

section \<open>From a rule to its nodes\<close>

definition object_or_empty :: "dict option \<Rightarrow> dict" where
  "object_or_empty d = (case d of None \<Rightarrow> [] | Some x \<Rightarrow> x)"

definition check_config :: "DQRule \<Rightarrow> pyval" where
  "check_config r = py_or (dict_get (object_or_empty (dq_meta r)) ''check_config'' PNone) (PDict [])"

definition rule_parameters :: "DQRule \<Rightarrow> pyval" where
  "rule_parameters r = py_or (dict_get (dq_canonical r) ''parameters'' PNone) (PDict [])"

definition rule_columns :: "DQRule \<Rightarrow> pyval" where
  "rule_columns r = (case dq_columns r of PList xs \<Rightarrow> PList xs | _ \<Rightarrow> PList [])"

definition override_values :: "DQRule \<Rightarrow> (string \<times> (py_error + pyval)) list" where
  "override_values r =
     (let ck = (\<lambda>k. get_of (check_config r) k PNone); pa = (\<lambda>k. get_of (rule_parameters r) k PNone);
          th = (\<lambda>k. Inr (dict_get (object_or_empty (dq_threshold r)) k PNone))
      in [(''ruleName'', Inr (dq_name r)), (''rule_name'', Inr (dq_name r)),
          (''description'', Inr (py_or (dq_description r) (PStr []))),
          (''severity'', or_else (Inr (dict_get (dq_canonical r) ''severity'' PNone))
             (or_else (ck ''severity'') (Inr (PStr ''major'')))),
          (''subtype'', or_else (ck ''subtype'') (or_else (Inr (dq_type r)) (pa ''subtype''))),
          (''columns'', or_else (ck ''columns'') (or_else (Inr (rule_columns r)) (or_else (pa ''columns'') (Inr (PList []))))),
          (''threshold_pass'', unless_none (ck ''threshold_pass'') (th ''pass_threshold'')),
          (''threshold_warn'', unless_none (ck ''threshold_warn'') (th ''warning_threshold'')),
          (''null_handling'', or_else (ck ''null_handling'') (pa ''null_handling'')),
          (''filter_expression'', or_else (ck ''filter_expression'') (pa ''filter_expression''))])"

text \<open>What the rule pushes into its nodes; what it does not know it leaves alone.\<close>

definition rule_to_node_config_overrides :: "DQRule \<Rightarrow> py_error + dict" where
  "rule_to_node_config_overrides r =
     map_sum id (filter (\<lambda>(k, v). v \<noteq> PNone)) (collect (\<lambda>(k, v). map_sum id (Pair k) v) (override_values r))"

fun push :: "dict \<Rightarrow> dict \<Rightarrow> dict \<times> bool" where
  "push [] cfg = (cfg, False)"
| "push ((k, v) # ov) cfg =
     (if same (dict_get cfg k PNone) v then push ov cfg else (fst (push ov (dict_set cfg k v)), True))"

text \<open>The object of a node that is a check of the rule.\<close>

definition linked_config :: "uuid \<Rightarrow> dict \<Rightarrow> py_error + dict option" where
  "linked_config k node =
     (if dict_get node ''type'' PNone \<noteq> PStr ''check'' then Inr None
      else let cfg = py_or (dict_get node ''config'' PNone) (PDict [])
           in bind (get_of cfg ''rule_id'' PNone) (\<lambda>v.
                Inr (case cfg of PDict c \<Rightarrow> if v = PStr (uuid_text k) then Some c else None | _ \<Rightarrow> None)))"

definition push_label :: "pyval \<Rightarrow> dict \<Rightarrow> dict \<times> bool" where
  "push_label name node =
     (if truthy name \<and> \<not> same (dict_get node ''label'' PNone) name then (dict_set node ''label'' name, True)
      else (node, False))"

definition sync_node :: "DQRule \<Rightarrow> dict \<Rightarrow> pyval \<Rightarrow> py_error + pyval \<times> bool" where
  "sync_node r ov node =
     (case node of
        PDict n \<Rightarrow>
          bind (linked_config (dq_id r) n) (\<lambda>cfg.
            case cfg of
              None \<Rightarrow> Inr (node, False)
            | Some c \<Rightarrow> (let (c', a) = push ov c; (n', b) = push_label (dq_name r) n
                        in Inr (PDict (dict_set n' ''config'' (PDict c')), a \<or> b)))
      | _ \<Rightarrow> Inl (AttributeError ''get''))"

text \<open>
  A flow: its definition, whose nodes are changed where they are, and its version.  A definition
  whose nodes are no list raises, and so does a node that is no object; then the flow keeps its row.
\<close>

record SyncFlow =
  sf_id :: uuid
  sf_workspace :: uuid
  sf_definition :: "dict option"
  sf_version :: int

definition nodes_of :: "dict option \<Rightarrow> py_error + pyval list" where
  "nodes_of d = elements_of (py_or (dict_get (object_or_empty d) ''nodes'' PNone) (PList []))"

definition sync_flow :: "DQRule \<Rightarrow> dict \<Rightarrow> SyncFlow \<Rightarrow> SyncFlow \<times> bool" where
  "sync_flow r ov f =
     (case bind (nodes_of (sf_definition f)) (collect (sync_node r ov)) of
        Inl e \<Rightarrow> (f, False)
      | Inr ns \<Rightarrow>
          if list_ex snd ns
          then (f\<lparr>sf_definition := Some (dict_set (object_or_empty (sf_definition f)) ''nodes'' (PList (map fst ns))),
                 sf_version := (if sf_version f = 0 then 1 else sf_version f) + 1\<rparr>, True)
          else (f, False))"

definition propagate_rule_to_flows ::
    "bool \<Rightarrow> bool \<Rightarrow> uuid \<Rightarrow> DQRule \<Rightarrow> SyncFlow list \<Rightarrow> py_error + nat \<times> SyncFlow list" where
  "propagate_rule_to_flows syncing commit w r flows =
     (if syncing then Inr (0, flows)
      else map_sum id
        (\<lambda>ov. let rs = map (\<lambda>f. if sf_workspace f = w then sync_flow r ov f else (f, False)) flows;
                 n = length (filter snd rs)
             in if 0 < n \<and> \<not> commit then (0, flows) else (n, map fst rs))
        (rule_to_node_config_overrides r))"

section \<open>From a node to its rule\<close>

definition SEVERITY_TO_BACKEND :: "(string \<times> string) list" where
  "SEVERITY_TO_BACKEND =
     [(''blocker'', ''blocker''), (''critical'', ''critical''), (''high'', ''major''), (''medium'', ''major''),
      (''major'', ''major''), (''low'', ''minor''), (''minor'', ''minor''), (''info'', ''info'')]"

definition backend_severity :: "(pyval \<Rightarrow> string) \<Rightarrow> pyval \<Rightarrow> string" where
  "backend_severity str v =
     (case map_of SEVERITY_TO_BACKEND (lower (show_value str v)) of None \<Rightarrow> ''major'' | Some s \<Rightarrow> s)"

text \<open>The new thresholds, when one that is given differs from the current one.\<close>

definition threshold_patch :: "dict \<Rightarrow> dict \<Rightarrow> dict" where
  "threshold_patch cfg current =
     (let put = (\<lambda>k k' d. let v = dict_get cfg k PNone
                          in if v \<noteq> PNone \<and> \<not> same (dict_get current k' PNone) v then dict_set d k' v else d);
          new = put ''threshold_warn'' ''warning_threshold'' (put ''threshold_pass'' ''pass_threshold'' current)
      in if same (PDict new) (PDict current) then [] else [(''threshold_config'', PDict new)])"

definition column_patch :: "dict \<Rightarrow> DQRule \<Rightarrow> py_error + dict" where
  "column_patch cfg r =
     (let v = dict_get cfg ''columns'' PNone
      in if v = PNone then Inr []
         else map_sum id (\<lambda>xs. if same (PList xs) (rule_columns r) then [] else [(''target_columns'', PList xs)]) (elements_of v))"

definition node_to_rule_patch :: "(pyval \<Rightarrow> string) \<Rightarrow> dict \<Rightarrow> DQRule \<Rightarrow> py_error + dict" where
  "node_to_rule_patch str cfg r =
     (let g = (\<lambda>k. dict_get cfg k PNone);
          name = py_or (g ''ruleName'') (g ''rule_name'');
          when = (\<lambda>b k v. if b then [(k, v)] else []);
          sev = PStr (backend_severity str (g ''severity''))
      in map_sum id (\<lambda>columns.
           when (truthy name \<and> \<not> same name (dq_name r)) ''name'' name @
           when (g ''description'' \<noteq> PNone \<and> \<not> same (g ''description'') (py_or (dq_description r) (PStr [])))
             ''description'' (g ''description'') @
           when (truthy (g ''subtype'') \<and> \<not> same (g ''subtype'') (dq_type r)) ''rule_type'' (g ''subtype'') @
           columns @
           when (truthy (g ''severity'') \<and> sev \<noteq> dict_get (dq_canonical r) ''severity'' PNone)
             ''canonical_rule'' (PDict (dict_set (dq_canonical r) ''severity'' sev)) @
           threshold_patch cfg (object_or_empty (dq_threshold r)))
         (column_patch cfg r))"

text \<open>\<open>_apply_patch_to_rule\<close>; the two objects of the patch are objects.\<close>

definition set_field :: "string \<times> pyval \<Rightarrow> DQRule \<Rightarrow> DQRule" where
  "set_field = (\<lambda>(k, v) r.
     if k = ''canonical_rule'' then (case v of PDict d \<Rightarrow> r\<lparr>dq_canonical := d\<rparr> | _ \<Rightarrow> r)
     else if k = ''threshold_config'' then (case v of PDict d \<Rightarrow> r\<lparr>dq_threshold := Some d\<rparr> | _ \<Rightarrow> r)
     else if k = ''name'' then r\<lparr>dq_name := v\<rparr>
     else if k = ''description'' then r\<lparr>dq_description := v\<rparr>
     else if k = ''rule_type'' then r\<lparr>dq_type := v\<rparr>
     else if k = ''target_columns'' then r\<lparr>dq_columns := v\<rparr>
     else r)"

definition MIRRORED_KEYS :: "string list" where
  "MIRRORED_KEYS =
     [''ruleName'', ''description'', ''severity'', ''subtype'', ''columns'', ''threshold_pass'', ''threshold_warn'',
      ''null_handling'', ''filter_expression'']"

definition merge_check_config :: "dict option \<Rightarrow> dict \<Rightarrow> py_error + dict" where
  "merge_check_config meta cfg =
     (let m = object_or_empty meta in
      case py_or (dict_get m ''check_config'' PNone) (PDict []) of
        PDict saved \<Rightarrow>
          let saved' = fold (\<lambda>k d. if has_key cfg k then dict_set d k (dict_get cfg k PNone) else d) MIRRORED_KEYS saved;
              m' = dict_set m ''check_config'' (PDict saved')
          in Inr (dict_set m' ''dq_check_subtype'' (dict_get cfg ''subtype'' (dict_get m' ''dq_check_subtype'' PNone)))
      | _ \<Rightarrow> Inl (ValueError ''dictionary update sequence''))"

text \<open>
  The check nodes of a definition that name a rule, by their ids; a later node replaces an earlier one
  with its id.
\<close>

fun put_entry :: "pyval \<Rightarrow> 'v \<Rightarrow> (pyval \<times> 'v) list \<Rightarrow> (pyval \<times> 'v) list" where
  "put_entry k v [] = [(k, v)]"
| "put_entry k v ((k', v') # d) = (if same k' k then (k', v) # d else (k', v') # put_entry k v d)"

fun get_entry :: "pyval \<Rightarrow> (pyval \<times> 'v) list \<Rightarrow> 'v option" where
  "get_entry k [] = None"
| "get_entry k ((k', v) # d) = (if same k' k then Some v else get_entry k d)"

definition check_entry :: "(pyval \<Rightarrow> string) \<Rightarrow> pyval \<Rightarrow> py_error + (pyval \<times> dict) option" where
  "check_entry str node =
     (case node of
        PDict n \<Rightarrow>
          if dict_get n ''type'' PNone \<noteq> PStr ''check'' then Inr None
          else (case py_or (dict_get n ''config'' PNone) (PDict []) of
                  PDict c \<Rightarrow>
                    (let rid = dict_get c ''rule_id'' PNone; i = dict_get n ''id'' PNone;
                         key = (if truthy i then i else PStr (show_value str rid))
                     in if \<not> truthy rid then Inr None
                        else if hashable key then Inr (Some (key, c)) else Inl (TypeError ''unhashable type''))
                | _ \<Rightarrow> Inl (AttributeError ''get''))
      | _ \<Rightarrow> Inl (AttributeError ''get''))"

definition extract_check_nodes :: "(pyval \<Rightarrow> string) \<Rightarrow> dict option \<Rightarrow> py_error + (pyval \<times> dict) list" where
  "extract_check_nodes str d =
     bind (nodes_of d) (\<lambda>ns. map_sum id
       (\<lambda>es. fold (\<lambda>e out. case e of None \<Rightarrow> out | Some (k, c) \<Rightarrow> put_entry k c out) es [])
       (collect (check_entry str) ns))"

text \<open>
  One node: the rules, changed or not, and whether one was.  The patch is made outside the \<open>try\<close>; when
  only the configuration kept with the rule is broken, the patch stays on the row but does not count.
\<close>

definition sync_rule ::
    "(pyval \<Rightarrow> string) \<Rightarrow> uuid \<Rightarrow> (pyval \<times> dict) list \<Rightarrow> pyval \<times> dict \<Rightarrow> DQRule list \<Rightarrow> py_error + DQRule list \<times> bool" where
  "sync_rule str w old = (\<lambda>(key, cfg) db.
     case parse_uuid (show_value str (dict_get cfg ''rule_id'' PNone)) of
       None \<Rightarrow> Inr (db, False)
     | Some k \<Rightarrow>
         (case find_rule k w db of
            None \<Rightarrow> Inr (db, False)
          | Some r \<Rightarrow>
              if (case get_entry key old of None \<Rightarrow> False | Some c \<Rightarrow> same (PDict c) (PDict cfg)) then Inr (db, False)
              else bind (node_to_rule_patch str cfg r) (\<lambda>patch.
                if patch = [] then Inr (db, False)
                else let r' = fold set_field patch r
                     in Inr (case merge_check_config (dq_meta r) cfg of
                          Inl e \<Rightarrow> (update_where (rule_key k w) (\<lambda>_. r') db, False)
                        | Inr m \<Rightarrow> (update_where (rule_key k w) (\<lambda>_. r'\<lparr>dq_meta := Some m\<rparr>) db, True)))))"

fun sync_rules ::
    "(pyval \<Rightarrow> string) \<Rightarrow> uuid \<Rightarrow> (pyval \<times> dict) list \<Rightarrow> (pyval \<times> dict) list \<Rightarrow> DQRule list \<Rightarrow>
     py_error + DQRule list \<times> nat" where
  "sync_rules str w old [] db = Inr (db, 0)"
| "sync_rules str w old (e # es) db =
     bind (sync_rule str w old e db) (\<lambda>(db', b).
       map_sum id (map_prod id ((+) (if b then 1 else 0))) (sync_rules str w old es db'))"

text \<open>When nothing counts, nothing is committed, and what is on the rows is lost with the session.\<close>

definition propagate_flow_to_rules ::
    "(pyval \<Rightarrow> string) \<Rightarrow> bool \<Rightarrow> bool \<Rightarrow> uuid \<Rightarrow> dict option \<Rightarrow> dict option \<Rightarrow> DQRule list \<Rightarrow> py_error + nat \<times> DQRule list" where
  "propagate_flow_to_rules str syncing commit w old new db =
     (if syncing then Inr (0, db)
      else bind (extract_check_nodes str old) (\<lambda>olds. bind (extract_check_nodes str new) (\<lambda>news.
        map_sum id (\<lambda>(db', n). if n = 0 \<or> \<not> commit then (0, db) else (n, db')) (sync_rules str w olds news db))))"

end
