(* ===== verification/RuleSyncSafety.thy ===== *)
theory RuleSyncSafety
  imports RuleFlowSync RuleStoreSafety
begin

text \<open>
  Whether the two directions of the synchronisation of rules and flows agree: pushing twice, pushing
  and mirroring back, and what a mirrored change leaves alone.
\<close>

section \<open>Pushing into a configuration\<close>

lemma push_other: "k \<notin> fst ` set ov \<Longrightarrow> dict_get (fst (push ov cfg)) k d = dict_get cfg k d"
  by (induction ov cfg rule: push.induct) (auto simp: dict_get_dict_set)

lemma push_get:
  assumes "distinct (map fst ov)" and "(k, v) \<in> set ov" and "is_json v"
  shows "same (dict_get (fst (push ov cfg)) k PNone) v"
  using assms
proof (induction ov cfg rule: push.induct)
  case (2 k' v' ov cfg)
  then show ?case by (auto simp: push_other dict_get_dict_set)
qed simp

lemma push_stable:
  "(\<And>k v. (k, v) \<in> set ov \<Longrightarrow> same (dict_get cfg k PNone) v) \<Longrightarrow> push ov cfg = (cfg, False)"
  by (induction ov cfg rule: push.induct) auto

lemma push_truthy: "cfg \<noteq> [] \<Longrightarrow> fst (push ov cfg) \<noteq> []"
proof (induction ov cfg rule: push.induct)
  case (2 k v ov cfg)
  have "dict_set cfg k v \<noteq> []" by (cases cfg) (auto split: if_splits)
  with 2 show ?case by simp
qed simp

lemma push_twice:
  assumes "distinct (map fst ov)" and "\<And>k v. (k, v) \<in> set ov \<Longrightarrow> is_json v"
  shows "push ov (fst (push ov cfg)) = (fst (push ov cfg), False)"
  by (rule push_stable) (use push_get [OF assms(1)] assms(2) in blast)

section \<open>The values that are pushed\<close>

definition rule_is_json :: "DQRule \<Rightarrow> bool" where
  "rule_is_json r \<longleftrightarrow> is_json (dq_name r) \<and> is_json (dq_description r) \<and> is_json (dq_type r) \<and> is_json (dq_columns r) \<and>
     is_json (PDict (dq_canonical r)) \<and> is_json (PDict (object_or_empty (dq_meta r))) \<and>
     is_json (PDict (object_or_empty (dq_threshold r)))"

lemma is_json_get: "is_json (PDict d) \<Longrightarrow> is_json (dict_get d k PNone)"
  by (auto simp: dict_get_def list_all_iff split: option.splits dest: map_of_SomeD)

lemma is_json_or: "is_json a \<Longrightarrow> is_json b \<Longrightarrow> is_json (py_or a b)"
  by (simp add: py_or_def)

lemma is_json_get_of: "is_json d \<Longrightarrow> get_of d k PNone = Inr v \<Longrightarrow> is_json v"
  by (cases d) (auto simp: get_of_def intro: is_json_get simp del: is_json.simps)

definition json_result :: "py_error + pyval \<Rightarrow> bool" where
  "json_result x \<longleftrightarrow> (\<forall>v. x = Inr v \<longrightarrow> is_json v)"

lemma json_results:
  "is_json v \<Longrightarrow> json_result (Inr v)"
  "json_result a \<Longrightarrow> json_result b \<Longrightarrow> json_result (or_else a b)"
  "json_result a \<Longrightarrow> json_result b \<Longrightarrow> json_result (unless_none a b)"
  "is_json d \<Longrightarrow> json_result (get_of d k PNone)"
  by (auto simp: json_result_def or_else_def unless_none_def split: sum.splits intro: is_json_get_of)

lemma override_values_json:
  assumes "rule_is_json r" and "(k, Inr v) \<in> set (override_values r)"
  shows "is_json v"
proof -
  have parts: "is_json (check_config r)" "is_json (rule_parameters r)" "is_json (rule_columns r)"
    using assms(1) unfolding rule_is_json_def check_config_def rule_parameters_def rule_columns_def
    by (auto intro!: is_json_or is_json_get split: pyval.splits simp del: is_json.simps) simp_all
  have plain: "is_json (PStr s)" "is_json (PList [])" for s by simp_all
  have "list_all (\<lambda>(k, x). json_result x) (override_values r)"
    using assms(1) parts plain unfolding rule_is_json_def override_values_def Let_def list.pred_inject prod.case
    by (intro conjI TrueI json_results is_json_or is_json_get) simp_all
  with assms(2) show ?thesis by (auto simp: list_all_iff json_result_def)
qed

lemma overrides_cases:
  assumes "rule_to_node_config_overrides r = Inr ov"
  shows "distinct (map fst ov)" and "fst ` set ov \<subseteq> fst ` set (override_values r)"
    and "(k, v) \<in> set ov \<longleftrightarrow> (k, Inr v) \<in> set (override_values r) \<and> v \<noteq> PNone"
    and "(k, x) \<in> set (override_values r) \<Longrightarrow> \<exists>v. x = Inr v"
proof -
  obtain kvs where kvs: "collect (\<lambda>(k, v). map_sum id (Pair k) v) (override_values r) = Inr kvs"
      "ov = filter (\<lambda>(k, v). v \<noteq> PNone) kvs"
    using assms unfolding rule_to_node_config_overrides_def
    by (cases "collect (\<lambda>(k, v). map_sum id (Pair k) v) (override_values r)") auto
  have "map_sum id (Pair k) x = Inr y \<longleftrightarrow> (\<exists>v. x = Inr v \<and> y = (k, v))" for k :: string and x :: "py_error + pyval" and y
    by (cases x) auto
  then have all: "list_all2 (\<lambda>(k, x) y. \<exists>v. x = Inr v \<and> y = (k, v)) (override_values r) kvs"
    using kvs(1) unfolding collect_Inr case_prod_beta by simp
  then have rows: "override_values r = map (\<lambda>(k, v). (k, Inr v)) kvs"
    by (induction rule: list_all2_induct) auto
  have keys: "map fst kvs = map fst (override_values r)" by (simp add: rows comp_def case_prod_beta)
  have "distinct (map fst kvs)" unfolding keys by (simp add: override_values_def Let_def)
  then show "distinct (map fst ov)" unfolding kvs(2) by (rule distinct_map_filter)
  have "fst ` set kvs = fst ` set (override_values r)" using keys by (metis set_map)
  then show "fst ` set ov \<subseteq> fst ` set (override_values r)" unfolding kvs(2) by auto
  show "(k, v) \<in> set ov \<longleftrightarrow> (k, Inr v) \<in> set (override_values r) \<and> v \<noteq> PNone"
    unfolding rows kvs(2) by force
  show "(k, x) \<in> set (override_values r) \<Longrightarrow> \<exists>v. x = Inr v" unfolding rows by auto
qed

lemma override_keys:
  "fst ` set (override_values r) = {''ruleName'', ''rule_name'', ''description'', ''severity'', ''subtype'', ''columns'',
     ''threshold_pass'', ''threshold_warn'', ''null_handling'', ''filter_expression''}"
  by (simp add: override_values_def Let_def insert_commute)

lemma pushed_twice:
  assumes "rule_is_json r" and "rule_to_node_config_overrides r = Inr ov"
  shows "push ov (fst (push ov cfg)) = (fst (push ov cfg), False)"
  using overrides_cases [OF assms(2)] override_values_json [OF assms(1)] by (intro push_twice) auto

section \<open>Pushing twice\<close>

lemma dict_set_id: "map_of d k = Some v \<Longrightarrow> dict_set d k v = d"
  by (induction d) (auto split: if_splits)

lemma not_pushed_get:
  assumes "rule_to_node_config_overrides r = Inr ov" and "k \<in> {''rule_id'', ''type'', ''label'', ''id''}"
  shows "dict_get (fst (push ov cfg)) k d = dict_get cfg k d"
proof (rule push_other)
  have "k \<notin> fst ` set (override_values r)" unfolding override_keys using assms(2) by (elim insertE) simp_all
  then show "k \<notin> fst ` set ov" using overrides_cases(2) [OF assms(1)] by blast
qed

lemma linked_configE:
  assumes "linked_config k n = Inr (Some c)"
  shows "dict_get n ''type'' PNone = PStr ''check''" and "dict_get n ''config'' PNone = PDict c" and "c \<noteq> []"
    and "dict_get c ''rule_id'' PNone = PStr (uuid_text k)"
proof -
  let ?cfg = "py_or (dict_get n ''config'' PNone) (PDict [])"
  show "dict_get n ''type'' PNone = PStr ''check''" using assms by (simp add: linked_config_def split: if_splits)
  then obtain v where v: "get_of ?cfg ''rule_id'' PNone = Inr v"
    and c: "(case ?cfg of PDict c \<Rightarrow> if v = PStr (uuid_text k) then Some c else None | _ \<Rightarrow> None) = Some c"
    using assms by (auto simp: linked_config_def Let_def bind_Inr_iff)
  from c have cfg: "?cfg = PDict c" "v = PStr (uuid_text k)" by (simp_all split: pyval.splits if_splits)
  then show id: "dict_get c ''rule_id'' PNone = PStr (uuid_text k)" using v by (simp add: get_of_def)
  then show "c \<noteq> []" by (auto simp: dict_get_def)
  with cfg(1) show "dict_get n ''config'' PNone = PDict c" by (auto simp: py_or_def split: if_splits)
qed

lemma linked_configI:
  assumes "dict_get n ''type'' PNone = PStr ''check''" and "dict_get n ''config'' PNone = PDict c"
    and "dict_get c ''rule_id'' PNone = PStr (uuid_text k)"
  shows "linked_config k n = Inr (Some c)"
proof -
  have "c \<noteq> []" using assms(3) by (auto simp: dict_get_def)
  then show ?thesis using assms by (simp add: linked_config_def Let_def py_or_def get_of_def)
qed

lemma push_label_get: "k \<noteq> ''label'' \<Longrightarrow> dict_get (fst (push_label name n)) k d = dict_get n k d"
  by (simp add: push_label_def dict_get_dict_set)

lemma push_label_twice: "is_json name \<Longrightarrow> push_label name (dict_set (fst (push_label name n)) ''config'' c) =
    (dict_set (fst (push_label name n)) ''config'' c, False)"
  by (simp add: push_label_def dict_get_dict_set)

text \<open>A node a rule was pushed into: it still belongs to the rule, and has the values of the rule.\<close>

lemma sync_node_linked:
  assumes "rule_to_node_config_overrides r = Inr ov" and "linked_config (dq_id r) n = Inr (Some c)"
    and "sync_node r ov (PDict n) = Inr (n', b)"
  obtains m where "n' = PDict m" and "linked_config (dq_id r) m = Inr (Some (fst (push ov c)))"
    and "m = dict_set (fst (push_label (dq_name r) n)) ''config'' (PDict (fst (push ov c)))"
proof -
  let ?m = "dict_set (fst (push_label (dq_name r) n)) ''config'' (PDict (fst (push ov c)))"
  have "linked_config (dq_id r) ?m = Inr (Some (fst (push ov c)))"
    using linked_configE [OF assms(2)]
    by (intro linked_configI) (simp_all add: dict_get_dict_set push_label_get not_pushed_get [OF assms(1)])
  moreover have "n' = PDict ?m" using assms(2,3) by (simp add: sync_node_def case_prod_beta)
  ultimately show ?thesis using that by simp
qed

lemma sync_node_twice:
  assumes "rule_is_json r" and "rule_to_node_config_overrides r = Inr ov" and "sync_node r ov n = Inr (n', b)"
  shows "sync_node r ov n' = Inr (n', False)"
proof -
  obtain d where d: "n = PDict d" using assms(3) by (cases n) (simp_all add: sync_node_def)
  obtain l where l: "linked_config (dq_id r) d = Inr l"
    using assms(3) d by (cases "linked_config (dq_id r) d") (simp_all add: sync_node_def)
  show ?thesis
  proof (cases l)
    case None
    then show ?thesis using assms(3) d l by (auto simp: sync_node_def)
  next
    case (Some c)
    from sync_node_linked [OF assms(2) l [unfolded Some] assms(3) [unfolded d]] obtain m where
      m: "n' = PDict m" "linked_config (dq_id r) m = Inr (Some (fst (push ov c)))"
        "m = dict_set (fst (push_label (dq_name r) d)) ''config'' (PDict (fst (push ov c)))" .
    have "map_of m ''config'' = Some (PDict (fst (push ov c)))" by (simp add: m(3))
    moreover have "push_label (dq_name r) m = (m, False)"
      unfolding m(3) by (rule push_label_twice) (use assms(1) in \<open>simp add: rule_is_json_def\<close>)
    ultimately show ?thesis
      by (simp add: sync_node_def m(1,2) pushed_twice [OF assms(1,2)] dict_set_id)
  qed
qed

lemma nodes_of_set: "nodes_of (Some (dict_set d ''nodes'' (PList ns))) = Inr ns"
  by (cases ns) (simp_all add: nodes_of_def object_or_empty_def dict_get_dict_set py_or_def elements_of_def)

lemma sync_flow_twice:
  assumes "rule_is_json r" and "rule_to_node_config_overrides r = Inr ov"
  shows "sync_flow r ov (fst (sync_flow r ov f)) = (fst (sync_flow r ov f), False)"
proof (cases "snd (sync_flow r ov f)")
  case False
  then show ?thesis by (auto simp: sync_flow_def split: sum.splits)
next
  case True
  then obtain ns where ns: "bind (nodes_of (sf_definition f)) (collect (sync_node r ov)) = Inr ns"
      "fst (sync_flow r ov f) = f\<lparr>sf_definition := Some (dict_set (object_or_empty (sf_definition f)) ''nodes'' (PList (map fst ns))),
         sf_version := (if sf_version f = 0 then 1 else sf_version f) + 1\<rparr>"
    by (auto simp: sync_flow_def split: sum.splits if_splits)
  obtain xs where "collect (sync_node r ov) xs = Inr ns" using ns(1) by (auto simp: bind_Inr_iff)
  then have "list_all2 (\<lambda>x y. sync_node r ov x = Inr y) xs ns" by (simp add: collect_Inr)
  then have "list_all2 (\<lambda>x y. sync_node r ov x = Inr y) (map fst ns) (map (\<lambda>y. (fst y, False)) ns)"
    by (induction rule: list_all2_induct) (auto intro: sync_node_twice [OF assms])
  then have "bind (nodes_of (sf_definition (fst (sync_flow r ov f)))) (collect (sync_node r ov)) = Inr (map (\<lambda>y. (fst y, False)) ns)"
    by (simp add: ns(2) nodes_of_set collect_Inr)
  moreover have "\<not> list_ex snd (map (\<lambda>y. (fst y, False)) ns)" by (simp add: list_ex_iff)
  ultimately show ?thesis unfolding sync_flow_def [of r ov "fst (sync_flow r ov f)"] by simp
qed

text \<open>
  C24: Writing a rule into its flows a second time changes no flow and counts none, so an edit that is
  repeated, or an echo of it, ends there.  Only flows of the workspace are written.
\<close>

theorem pushing_twice_changes_nothing:
  assumes "rule_is_json r" and "propagate_rule_to_flows False True w r flows = Inr (n, flows')"
  shows "propagate_rule_to_flows False True w r flows' = Inr (0, flows') \<and>
    list_all2 (\<lambda>f f'. sf_id f' = sf_id f \<and> (sf_workspace f \<noteq> w \<longrightarrow> f' = f)) flows flows'"
proof -
  obtain ov where ov: "rule_to_node_config_overrides r = Inr ov"
    using assms(2) by (cases "rule_to_node_config_overrides r") (simp_all add: propagate_rule_to_flows_def)
  let ?g = "\<lambda>f. if sf_workspace f = w then sync_flow r ov f else (f, False)"
  have flows': "flows' = map fst (map ?g flows)"
    using assms(2) ov by (simp add: propagate_rule_to_flows_def Let_def)
  have same: "sf_workspace (fst (sync_flow r ov f)) = sf_workspace f \<and> sf_id (fst (sync_flow r ov f)) = sf_id f" for f
    by (simp add: sync_flow_def split: sum.split)
  have "?g (fst (?g f)) = (fst (?g f), False)" for f
    using sync_flow_twice [OF assms(1) ov, of f] by (simp add: same)
  then have *: "map ?g flows' = map (\<lambda>f. (f, False)) flows'"
    unfolding flows' map_map by (intro map_cong refl) (simp only: comp_def)
  have "propagate_rule_to_flows False True w r flows' = Inr (0, flows')"
    unfolding propagate_rule_to_flows_def ov by (simp only: if_False map_sum.simps Let_def *) (simp add: comp_def)
  moreover have "list_all2 (\<lambda>f f'. sf_id f' = sf_id f \<and> (sf_workspace f \<noteq> w \<longrightarrow> f' = f)) flows flows'"
    unfolding flows' by (simp add: list_all2_conv_all_nth same)
  ultimately show ?thesis ..
qed

section \<open>Pushing and mirroring back\<close>

lemma same_PStr [simp]: "same x (PStr s) \<longleftrightarrow> x = PStr s" "same (PStr s) x \<longleftrightarrow> x = PStr s"
  by (cases x; auto simp: number_of_def split: pyfloat.splits)+

lemma same_PListE: "same x (PList ys) \<Longrightarrow> (\<And>xs. x = PList xs \<Longrightarrow> same_list xs ys \<Longrightarrow> P) \<Longrightarrow> P"
  by (cases x) (auto simp: number_of_def split: pyfloat.splits)

lemma same_list_strs [simp]: "same_list xs (map PStr ss) \<longleftrightarrow> xs = map PStr ss"
  by (induction ss arbitrary: xs) (case_tac xs; auto)+

lemma same_number:
  assumes "number_of v = Some x"
  shows "same a v \<longleftrightarrow> number_of a = Some x" and "same v a \<longleftrightarrow> number_of a = Some x"
  using assms by (cases a; cases v; auto simp: number_of_def split: pyfloat.splits)+

lemma backend_severity_id: "s \<in> {''blocker'', ''critical'', ''major'', ''minor'', ''info''} \<Longrightarrow> backend_severity str (PStr s) = s"
  by (elim insertE emptyE) (simp_all add: backend_severity_def SEVERITY_TO_BACKEND_def show_value_def lower_def lower_char_def code_of_def)

text \<open>A rule with a name, a type, columns, a severity and both thresholds, and nothing kept from a node.\<close>

definition complete_rule :: "DQRule \<Rightarrow> bool" where
  "complete_rule r \<longleftrightarrow> rule_is_json r \<and> check_config r = PDict [] \<and> (\<exists>x xs. dq_name r = PStr (x # xs)) \<and>
     (\<exists>x xs. dq_type r = PStr (x # xs)) \<and> (\<exists>x xs. dq_columns r = PList (x # xs)) \<and>
     (\<exists>s \<in> {''blocker'', ''critical'', ''major'', ''minor'', ''info''}. dict_get (dq_canonical r) ''severity'' PNone = PStr s) \<and>
     number_of (dict_get (object_or_empty (dq_threshold r)) ''pass_threshold'' PNone) \<noteq> None \<and>
     number_of (dict_get (object_or_empty (dq_threshold r)) ''warning_threshold'' PNone) \<noteq> None"

text \<open>What a configuration has of a rule after the rule was pushed into it.\<close>

lemma pushed_values:
  assumes "rule_is_json r" and "rule_to_node_config_overrides r = Inr ov" and "(k, Inr v) \<in> set (override_values r)" and "v \<noteq> PNone"
  shows "same (dict_get (fst (push ov c)) k PNone) v"
proof (rule push_get)
  show "(k, v) \<in> set ov" using assms(3,4) by (simp add: overrides_cases(3) [OF assms(2)])
qed (use overrides_cases(1) [OF assms(2)] override_values_json [OF assms(1,3)] in auto)

lemma mirrored_back:
  assumes "complete_rule r" and "rule_to_node_config_overrides r = Inr ov"
  shows "node_to_rule_patch str (fst (push ov c)) r = Inr []"
proof -
  let ?c = "fst (push ov c)" and ?th = "\<lambda>k. dict_get (object_or_empty (dq_threshold r)) k PNone"
  obtain a a' b b' d d' s where r: "rule_is_json r" "check_config r = PDict []" "dq_name r = PStr (a # a')" "dq_type r = PStr (b # b')"
      "dq_columns r = PList (d # d')" "dict_get (dq_canonical r) ''severity'' PNone = PStr s"
    and s: "s \<in> {''blocker'', ''critical'', ''major'', ''minor'', ''info''}"
    and th: "number_of (?th ''pass_threshold'') \<noteq> None" "number_of (?th ''warning_threshold'') \<noteq> None"
    using assms(1) unfolding complete_rule_def by blast
  have "truthy (PStr s)" using s by auto
  have empty: "get_of (PDict []) k PNone = Inr PNone" for k by (simp add: get_of_def dict_get_def)
  have "py_or (dq_description r) (PStr []) \<noteq> PNone" "?th ''pass_threshold'' \<noteq> PNone" "?th ''warning_threshold'' \<noteq> PNone"
    using th by (auto simp: py_or_def number_of_def)
  then have got: "dict_get ?c ''ruleName'' PNone = PStr (a # a')" "dict_get ?c ''subtype'' PNone = PStr (b # b')"
      "dict_get ?c ''severity'' PNone = PStr s"
      "same (dict_get ?c ''description'' PNone) (py_or (dq_description r) (PStr []))"
      "same (dict_get ?c ''columns'' PNone) (PList (d # d'))"
      "same (dict_get ?c ''threshold_pass'' PNone) (?th ''pass_threshold'')"
      "same (dict_get ?c ''threshold_warn'' PNone) (?th ''warning_threshold'')"
    using \<open>truthy (PStr s)\<close> r(2-6)
    by (auto simp only: same_PStr(1) [symmetric] intro!: pushed_values [OF r(1) assms(2)])
      (simp_all add: override_values_def Let_def empty rule_columns_def)
  obtain xs where xs: "dict_get ?c ''columns'' PNone = PList xs" "same_list xs (d # d')"
    using same_PListE [OF got(5)] by blast
  have columns: "column_patch ?c r = Inr []"
    using xs r(5) by (simp add: column_patch_def elements_of_def rule_columns_def)
  have "same (?th k') (dict_get ?c k PNone)"
    if "same (dict_get ?c k PNone) (?th k')" "number_of (?th k') \<noteq> None" for k k'
    using that same_number by blast
  then have "threshold_patch ?c (object_or_empty (dq_threshold r)) = []"
    using got(6,7) th r(1) by (simp add: threshold_patch_def Let_def rule_is_json_def del: same.simps is_json.simps)
  then show ?thesis using got(1-4) r(3,4,6) columns backend_severity_id [OF s, of str]
    by (simp add: node_to_rule_patch_def Let_def py_or_def)
qed

section \<open>An example\<close>

text \<open>A rule on one column, and a node made from it whose columns were changed since.\<close>

definition example_stored :: DQRule where
  "example_stored = \<lparr>dq_id = 7, dq_workspace = 1, dq_source = None, dq_name = PStr ''ids'', dq_description = PNone,
     dq_category = PStr ''completeness'', dq_type = PStr ''null_check'',
     dq_canonical = [(''dimension'', PStr ''completeness''), (''entity'', PStr ''t.a''), (''severity'', PStr ''major'')],
     dq_sql = PStr ''q'', dq_postgres = PStr ''q'', dq_mysql = PNone, dq_snowflake = PNone, dq_schema = None,
     dq_table = Some ''t'', dq_columns = PList [PStr ''a''], dq_status = ''active'', dq_active = True, dq_schedule = None,
     dq_threshold = Some [(''pass_threshold'', PInt 95), (''warning_threshold'', PInt 90)], dq_notification = None,
     dq_tags = None, dq_meta = None, dq_created_by = 3, dq_owner = 3, dq_updated = 0\<rparr>"

definition example_node :: dict where
  "example_node = [(''id'', PStr ''n1''), (''type'', PStr ''check''), (''label'', PStr ''old''),
     (''config'', PDict [(''rule_id'', PStr (uuid_text 7)), (''columns'', PList [PStr ''b'']), (''severity'', PStr ''high'')])]"

definition example_flow :: SyncFlow where
  "example_flow = \<lparr>sf_id = 20, sf_workspace = 1, sf_definition = Some [(''nodes'', PList [PDict example_node])], sf_version = 1\<rparr>"

lemma example_json: "rule_is_json example_stored" "complete_rule example_stored"
  by (simp_all add: complete_rule_def rule_is_json_def example_stored_def object_or_empty_def check_config_def dict_get_def
      py_or_def number_of_def)

theorem pushing_twice_changes_nothing_witness:
  "\<exists>flows'. propagate_rule_to_flows False True 1 example_stored [example_flow] = Inr (1, flows') \<and>
     propagate_rule_to_flows False True 1 example_stored flows' = Inr (0, flows')"
proof -
  have "case propagate_rule_to_flows False True 1 example_stored [example_flow] of Inr (n, fs) \<Rightarrow> n = 1 | _ \<Rightarrow> False"
    by code_simp
  then obtain flows' where *: "propagate_rule_to_flows False True 1 example_stored [example_flow] = Inr (1, flows')"
    by (auto split: sum.splits)
  with pushing_twice_changes_nothing [OF example_json(1) *] show ?thesis by blast
qed

text \<open>
  C25: After a rule was written into one of its nodes, mirroring the node back leaves the rules as they
  are, whatever the node said before; the rule has to have a name, a type, columns, a severity and both
  thresholds, and must not have mirrored a node before.
\<close>

theorem mirroring_a_pushed_rule_settles:
  assumes "complete_rule r" and "rule_to_node_config_overrides r = Inr ov"
    and "linked_config (dq_id r) n = Inr (Some c)" and "sync_node r ov (PDict n) = Inr (n', b)"
    and "find_rule (dq_id r) w db = Some r"
  shows "\<exists>m c'. n' = PDict m \<and> linked_config (dq_id r) m = Inr (Some c') \<and>
    sync_rule str w old (key, c') db = Inr (db, False)"
proof -
  obtain m where m: "n' = PDict m" "linked_config (dq_id r) m = Inr (Some (fst (push ov c)))"
    using sync_node_linked [OF assms(2-4)] by metis
  have "parse_uuid (show_value str (dict_get (fst (push ov c)) ''rule_id'' PNone)) = Some (dq_id r)"
    using linked_configE(4) [OF m(2)] by (simp add: show_value_def parse_uuid_text)
  then have "sync_rule str w old (key, fst (push ov c)) db = Inr (db, False)"
    using assms(5) mirrored_back [OF assms(1,2), of str c] by (simp add: sync_rule_def)
  with m show ?thesis by blast
qed

theorem mirroring_a_pushed_rule_settles_witness:
  "\<exists>ov n' b m c'. rule_to_node_config_overrides example_stored = Inr ov \<and>
     sync_node example_stored ov (PDict example_node) = Inr (n', b) \<and> n' = PDict m \<and>
     linked_config 7 m = Inr (Some c') \<and> sync_rule (\<lambda>_. []) 1 [] (PStr ''n1'', c') [example_stored] = Inr ([example_stored], False)"
proof -
  obtain ov where ov: "rule_to_node_config_overrides example_stored = Inr ov"
    by (simp add: rule_to_node_config_overrides_def override_values_def Let_def example_stored_def check_config_def
        rule_parameters_def rule_columns_def object_or_empty_def dict_get_def py_or_def get_of_def)
  have id: "dq_id example_stored = 7" by (simp add: example_stored_def)
  obtain c where c: "linked_config (dq_id example_stored) example_node = Inr (Some c)"
    by (simp add: linked_config_def example_node_def dict_get_def py_or_def get_of_def id)
  then obtain n' b where n': "sync_node example_stored ov (PDict example_node) = Inr (n', b)"
    by (simp add: sync_node_def case_prod_beta)
  have "find_rule (dq_id example_stored) 1 [example_stored] = Some example_stored"
    by (simp add: find_rule_def rule_key_def example_stored_def)
  from mirroring_a_pushed_rule_settles [OF example_json(2) ov c n' this, of "\<lambda>_. []" "[]" "PStr ''n1''"] ov n' id
  show ?thesis by auto
qed

section \<open>What a rule keeps of its node\<close>

lemma checked_columns:
  assumes "check_config r = PDict ck" and "dict_get ck ''columns'' PNone = PList (map PStr cs)" and "cs \<noteq> []"
  shows "(''columns'', Inr (PList (map PStr cs))) \<in> set (override_values r)"
  using assms by (simp add: override_values_def Let_def get_of_def)

text \<open>
  C26: Once a change of a node has been mirrored, the columns kept with the rule win over the columns of
  the rule.  When somebody changes the columns of the rule, its nodes keep the old ones, and the next
  change of such a node takes the change of the rule back.
\<close>

theorem rule_edits_are_undone:
  assumes "find_rule k w db = Some r" and "update_rule R Committed now k w u db = Inr (Some r', db')"
    and "ur_canonical u = None" and "ur_metadata u = None" and "ur_columns u = Some ns" and "ns \<noteq> cs"
    and "check_config r = PDict ck" and "dict_get ck ''columns'' PNone = PList (map PStr cs)" and "cs \<noteq> []"
    and "rule_to_node_config_overrides r' = Inr ov" and "linked_config (dq_id r') n = Inr (Some c)"
    and "sync_node r' ov (PDict n) = Inr (n', b)"
  shows "dq_columns r' = PList (map PStr ns) \<and>
    (\<exists>m c'. n' = PDict m \<and> linked_config (dq_id r') m = Inr (Some c') \<and>
      dict_get c' ''columns'' PNone = PList (map PStr cs)) \<and>
    (\<forall>c'. dict_get c' ''columns'' PNone = PList (map PStr cs) \<longrightarrow>
      (\<exists>patch. node_to_rule_patch str c' r' = Inr patch \<and> (''target_columns'', PList (map PStr cs)) \<in> set patch))"
proof -
  have r': "r' = patched now u r"
    using assms(1-3) by (simp add: update_rule_def needs_recompilation_def)
  then have columns: "dq_columns r' = PList (map PStr ns)" and kept: "check_config r' = PDict ck"
    using assms(4,5,7) by (simp_all add: patched_def Let_def opt_strs_def check_config_def)
  obtain m where m: "n' = PDict m" "linked_config (dq_id r') m = Inr (Some (fst (push ov c)))"
    using sync_node_linked [OF assms(10-12)] by metis
  have "is_json (PList (map PStr cs))" by (simp add: list_all_iff)
  moreover have "(''columns'', PList (map PStr cs)) \<in> set ov"
    using checked_columns [OF kept assms(8,9)] by (simp add: overrides_cases(3) [OF assms(10)])
  ultimately have "same (dict_get (fst (push ov c)) ''columns'' PNone) (PList (map PStr cs))"
    using push_get [OF overrides_cases(1) [OF assms(10)]] by blast
  then have pushed: "dict_get (fst (push ov c)) ''columns'' PNone = PList (map PStr cs)"
    by (elim same_PListE) simp
  have "map PStr ns \<noteq> map PStr cs" using assms(6) by (metis list.inj_map_strong pyval.inject(4))
  then have "\<exists>patch. node_to_rule_patch str c' r' = Inr patch \<and> (''target_columns'', PList (map PStr cs)) \<in> set patch"
    if "dict_get c' ''columns'' PNone = PList (map PStr cs)" for c'
    using that columns
    by (auto simp: node_to_rule_patch_def Let_def column_patch_def elements_of_def rule_columns_def)
  with m pushed columns show ?thesis by blast
qed

theorem rule_edits_are_undone_witness:
  "\<exists>r' patch. update_rule plain_params Committed 5 7 1 (empty_update\<lparr>ur_columns := Some [''c'']\<rparr>)
       [example_stored\<lparr>dq_meta := Some [(''check_config'', PDict [(''columns'', PList [PStr ''b''])])]\<rparr>] = Inr (Some r', [r']) \<and>
     dq_columns r' = PList [PStr ''c''] \<and>
     node_to_rule_patch (\<lambda>_. []) [(''columns'', PList [PStr ''b'']), (''description'', PStr ''new'')] r' = Inr patch \<and>
     (''target_columns'', PList [PStr ''b'']) \<in> set patch"
proof -
  let ?ck = "[(''columns'', PList [PStr ''b''])]"
  let ?r = "example_stored\<lparr>dq_meta := Some [(''check_config'', PDict ?ck)]\<rparr>"
  let ?u = "empty_update\<lparr>ur_columns := Some [''c'']\<rparr>" and ?c = "[(''columns'', PList [PStr ''b'']), (''description'', PStr ''new'')]"
  let ?r' = "patched 5 ?u ?r"
  have found: "find_rule 7 1 [?r] = Some ?r" by (simp add: find_rule_def rule_key_def example_stored_def)
  have update: "update_rule plain_params Committed 5 7 1 ?u [?r] = Inr (Some ?r', [?r'])"
    by (simp add: update_rule_def needs_recompilation_def empty_update_def found update_where_def)
      (simp add: rule_key_def example_stored_def)
  obtain ov where ov: "rule_to_node_config_overrides ?r' = Inr ov"
    by (simp add: rule_to_node_config_overrides_def override_values_def Let_def example_stored_def check_config_def patched_def
        rule_parameters_def rule_columns_def object_or_empty_def dict_get_def py_or_def get_of_def empty_update_def opt_strs_def)
  obtain c where c: "linked_config (dq_id ?r') example_node = Inr (Some c)"
    by (simp add: linked_config_def example_node_def dict_get_def py_or_def get_of_def patched_def Let_def example_stored_def)
  then obtain n' b where n': "sync_node ?r' ov (PDict example_node) = Inr (n', b)"
    by (simp add: sync_node_def case_prod_beta)
  have kept: "check_config ?r = PDict ?ck" "dict_get ?ck ''columns'' PNone = PList (map PStr [''b''])"
    by (simp_all add: check_config_def object_or_empty_def dict_get_def py_or_def)
  have u: "ur_canonical ?u = None" "ur_metadata ?u = None" "ur_columns ?u = Some [''c'']" "[''c''] \<noteq> [''b'']" "[''b''] \<noteq> []"
    by (simp_all add: empty_update_def)
  have "dict_get ?c ''columns'' PNone = PList (map PStr [''b''])" by (simp add: dict_get_def)
  with rule_edits_are_undone [OF found update u(1-4) kept u(5) ov c n', of "\<lambda>_. []"] update show ?thesis by auto
qed

section \<open>What mirroring leaves alone\<close>

text \<open>Identity, texts and target of a rule, and whether it runs.\<close>

definition compiled_part where
  "compiled_part r =
     (dq_id r, dq_workspace r, (dq_sql r, dq_postgres r, dq_mysql r, dq_snowflake r), (dq_schema r, dq_table r), dq_status r, dq_active r)"

definition kept_by_mirroring :: "uuid \<Rightarrow> DQRule \<Rightarrow> DQRule \<Rightarrow> bool" where
  "kept_by_mirroring w r r' \<longleftrightarrow> compiled_part r' = compiled_part r \<and>
     (\<forall>k. k \<noteq> ''severity'' \<longrightarrow> dict_get (dq_canonical r') k PNone = dict_get (dq_canonical r) k PNone) \<and>
     (dq_workspace r \<noteq> w \<longrightarrow> r' = r)"

lemma kept_refl: "kept_by_mirroring w r r"
  by (simp add: kept_by_mirroring_def)

lemma kept_trans: "kept_by_mirroring w r s \<Longrightarrow> kept_by_mirroring w s t \<Longrightarrow> kept_by_mirroring w r t"
  unfolding kept_by_mirroring_def by (metis compiled_part_def prod.inject)

lemma set_field_parts:
  "compiled_part (set_field kv s) = compiled_part s"
  "dq_canonical (set_field kv s) =
     (if fst kv = ''canonical_rule'' then (case snd kv of PDict d \<Rightarrow> d | _ \<Rightarrow> dq_canonical s) else dq_canonical s)"
  by (cases kv; simp add: set_field_def compiled_part_def split: pyval.split)+

lemma set_field_kept:
  assumes "kept_by_mirroring w r s" and "dq_workspace r = w"
    and "\<And>d. kv = (''canonical_rule'', PDict d) \<Longrightarrow> \<forall>k. k \<noteq> ''severity'' \<longrightarrow> dict_get d k PNone = dict_get (dq_canonical r) k PNone"
  shows "kept_by_mirroring w r (set_field kv s)"
  using assms unfolding kept_by_mirroring_def set_field_parts
  by (cases kv) (simp split: pyval.split)

lemma patch_kept:
  assumes "dq_workspace r = w" and "kept_by_mirroring w r s"
    and "\<And>d. (''canonical_rule'', PDict d) \<in> set patch \<Longrightarrow>
      \<forall>k. k \<noteq> ''severity'' \<longrightarrow> dict_get d k PNone = dict_get (dq_canonical r) k PNone"
  shows "kept_by_mirroring w r (fold set_field patch s)"
  using assms(2,3)
proof (induction patch arbitrary: s)
  case (Cons kv patch)
  then show ?case by (auto intro!: Cons.IH set_field_kept [OF _ assms(1)])
qed simp

lemma patch_canonical:
  assumes "node_to_rule_patch str cfg r = Inr patch" and "(''canonical_rule'', PDict d) \<in> set patch"
  shows "d = dict_set (dq_canonical r) ''severity'' (PStr (backend_severity str (dict_get cfg ''severity'' PNone)))"
proof -
  obtain cols where cols: "column_patch cfg r = Inr cols"
    using assms(1) by (cases "column_patch cfg r") (simp_all add: node_to_rule_patch_def Let_def)
  have "(''canonical_rule'', x) \<notin> set cols" for x
    using cols by (cases "elements_of (dict_get cfg ''columns'' PNone)") (auto simp: column_patch_def Let_def split: if_split_asm)
  moreover have "(''canonical_rule'', x) \<notin> set (threshold_patch cfg t)" for x t
    by (simp add: threshold_patch_def Let_def)
  ultimately show ?thesis using assms cols by (auto simp: node_to_rule_patch_def Let_def split: if_splits)
qed

lemma sync_rule_cases:
  assumes "sync_rule str w old (key, cfg) db = Inr (db', b)"
  shows "db' = db \<or> (\<exists>k r patch m. find_rule k w db = Some r \<and> node_to_rule_patch str cfg r = Inr patch \<and>
    db' = update_where (rule_key k w) (\<lambda>_. (fold set_field patch r)\<lparr>dq_meta := m\<rparr>) db)"
proof -
  have meta: "s = s\<lparr>dq_meta := dq_meta s\<rparr>" for s :: DQRule by simp
  show ?thesis using assms
    by (auto simp: sync_rule_def bind_Inr_iff Let_def split: option.splits if_splits sum.splits intro: meta) (metis meta)+
qed

lemma patch_of_found_kept:
  assumes "find_rule k w db = Some r" and "node_to_rule_patch str cfg r = Inr patch"
  shows "kept_by_mirroring w r ((fold set_field patch r)\<lparr>dq_meta := m\<rparr>)"
proof -
  have w: "dq_workspace r = w" using assms(1) by (auto simp: find_rule_def find_Some_iff rule_key_def)
  have "\<forall>k. k \<noteq> ''severity'' \<longrightarrow> dict_get d k PNone = dict_get (dq_canonical r) k PNone"
    if "(''canonical_rule'', PDict d) \<in> set patch" for d
    using patch_canonical [OF assms(2) that] by (simp add: dict_get_dict_set)
  then have "kept_by_mirroring w r (fold set_field patch r)" by (intro patch_kept [OF w] kept_refl)
  then show ?thesis using w by (simp add: kept_by_mirroring_def compiled_part_def)
qed

lemma sync_rule_kept:
  assumes "distinct (map dq_id db)" and "sync_rule str w old e db = Inr (db', b)"
  shows "list_all2 (kept_by_mirroring w) db db'"
proof -
  obtain key cfg where e: "e = (key, cfg)" by fastforce
  have "db' = db \<or> (\<exists>k r r'. find_rule k w db = Some r \<and> kept_by_mirroring w r r' \<and>
      db' = update_where (rule_key k w) (\<lambda>_. r') db)"
    using sync_rule_cases [OF assms(2) [unfolded e]] patch_of_found_kept by blast
  then show ?thesis
  proof (elim disjE exE conjE)
    fix k r r'
    assume *: "find_rule k w db = Some r" "kept_by_mirroring w r r'" "db' = update_where (rule_key k w) (\<lambda>_. r') db"
    have "x = r" if "x \<in> set db" "rule_key k w x" for x
    proof -
      have "r \<in> set db" "dq_id r = dq_id x"
        using *(1) that(2) by (auto simp: find_rule_def find_Some_iff rule_key_def in_set_conv_nth)
      then show ?thesis using assms(1) that(1) by (auto simp: distinct_map inj_on_def)
    qed
    then have "kept_by_mirroring w x (if rule_key k w x then r' else x)" if "x \<in> set db" for x
      using that *(2) by (auto simp: kept_refl)
    then show ?thesis unfolding *(3) update_where_def by (simp add: list_all2_conv_all_nth)
  qed (simp add: list_all2_same kept_refl)
qed

lemma kept_ids: "list_all2 (kept_by_mirroring w) db db' \<Longrightarrow> map dq_id db' = map dq_id db"
  by (induction rule: list_all2_induct) (auto simp: kept_by_mirroring_def compiled_part_def)

lemma sync_rules_kept:
  "distinct (map dq_id db) \<Longrightarrow> sync_rules str w old es db = Inr (db', n) \<Longrightarrow> list_all2 (kept_by_mirroring w) db db'"
proof (induction es arbitrary: db n)
  case Nil
  then show ?case by (simp add: list_all2_same kept_refl)
next
  case (Cons e es)
  from Cons.prems(2) obtain db1 b m where step: "sync_rule str w old e db = Inr (db1, b)" "sync_rules str w old es db1 = Inr (db', m)"
    by (auto simp: bind_Inr_iff elim!: map_sum_InrE)
  note first = sync_rule_kept [OF Cons.prems(1) step(1)]
  with Cons.IH [OF _ step(2)] Cons.prems(1) have "list_all2 (kept_by_mirroring w) db1 db'" by (simp add: kept_ids)
  with first show ?case using list_all2_trans [of "kept_by_mirroring w" "kept_by_mirroring w" "kept_by_mirroring w"] kept_trans by blast
qed

text \<open>
  Mirroring the changes of a flow into the rules reaches only rules of the workspace, and of those it
  changes neither the statements that were compiled nor anything of the canonical rule but its severity:
  a rule whose columns were changed in a flow goes on counting in the old ones.
\<close>

theorem mirrored_edits_are_not_compiled:
  assumes "distinct (map dq_id db)" and "propagate_flow_to_rules str syncing commit w old new db = Inr (n, db')"
  shows "list_all2 (kept_by_mirroring w) db db'"
proof -
  have "list_all2 (kept_by_mirroring w) db db" by (simp add: list_all2_same kept_refl)
  then show ?thesis using assms(2) sync_rules_kept [OF assms(1), of str w]
    by (auto simp: propagate_flow_to_rules_def bind_Inr_iff split: if_splits elim!: map_sum_InrE)
qed

theorem mirrored_edits_are_not_compiled_witness:
  "\<exists>r'. propagate_flow_to_rules (\<lambda>_. []) False True 1 None (sf_definition example_flow) [example_stored] = Inr (1, [r']) \<and>
     dq_columns r' = PList [PStr ''b''] \<and> dq_sql r' = PStr ''q''"
proof -
  have "case propagate_flow_to_rules (\<lambda>_. []) False True 1 None (sf_definition example_flow) [example_stored] of
      Inr (n, rs) \<Rightarrow> n = 1 \<and> map dq_columns rs = [PList [PStr ''b'']] | _ \<Rightarrow> False"
    by code_simp
  then obtain r' where *: "propagate_flow_to_rules (\<lambda>_. []) False True 1 None (sf_definition example_flow) [example_stored] = Inr (1, [r'])"
      "dq_columns r' = PList [PStr ''b'']"
    by (auto split: sum.splits)
  from mirrored_edits_are_not_compiled [OF _ *(1)] have "kept_by_mirroring 1 example_stored r'" by simp
  then have "dq_sql r' = dq_sql example_stored" by (simp add: kept_by_mirroring_def compiled_part_def)
  with * show ?thesis by (simp add: example_stored_def)
qed

end
