(* ===== verification/TenantValidation.thy ===== *)
theory TenantValidation
  imports ControlPlane WorkspaceValidation PyValues
begin

text \<open>
  \<open>app/services/tenants/validators.py\<close>: the fields of a tenant, each normalised or refused.  An error
  is its HTTP status, its code and the fields it names; the messages are left out.  A date is its year,
  month and day.
\<close>

datatype tenant_error = TenantRefusal nat string "(string \<times> string) list"

definition invalid_field :: "string \<Rightarrow> string \<Rightarrow> tenant_error" where
  "invalid_field f reason = TenantRefusal 422 ''validation_error'' [(f, reason)]"

definition stripped :: "string option \<Rightarrow> string" where
  "stripped raw = (case raw of None \<Rightarrow> [] | Some s \<Rightarrow> strip s)"

definition VALID_REGIONS :: "string list" where
  "VALID_REGIONS = [''eu-west'', ''eu-central'', ''us-east'', ''us-west'']"

definition VALID_PLANS :: "string list" where
  "VALID_PLANS = [''starter'', ''growth'', ''enterprise'']"

definition VALID_CREATE_STATUSES :: "string list" where
  "VALID_CREATE_STATUSES = [''draft'', ''active'']"

definition validate_tenant_name :: "string option \<Rightarrow> tenant_error + string" where
  "validate_tenant_name raw =
     (let v = stripped raw; bad = (\<lambda>r. Inl (invalid_field ''tenant_name'' r))
      in if v = [] then bad ''required''
         else if length v < 2 then bad ''min_length''
         else if length v > 150 then bad ''max_length''
         else if contains_forbidden_characters v \<or> contains_ascii_control_characters v then bad ''invalid_characters''
         else Inr v)"

definition validate_tenant_slug :: "string option \<Rightarrow> tenant_error + string" where
  "validate_tenant_slug raw =
     (let v = lower (stripped raw); bad = (\<lambda>r. Inl (invalid_field ''tenant_slug'' r))
      in if v = [] then bad ''required''
         else if length v < 3 \<or> length v > 80 then bad ''invalid_length''
         else if \<not> slug_pattern v then bad ''invalid_characters''
         else if starts_with ''-'' v \<or> ends_with ''-'' v then bad ''invalid_format''
         else if contains ''--'' v then bad ''invalid_format''
         else Inr v)"

definition validate_choice :: "string \<Rightarrow> string \<Rightarrow> string list \<Rightarrow> string option \<Rightarrow> tenant_error + string" where
  "validate_choice f code choices raw =
     (let v = lower (stripped raw)
      in if v = [] then Inl (invalid_field f ''required'')
         else if v \<notin> set choices then Inl (TenantRefusal 422 code [])
         else Inr v)"

definition validate_region :: "string option \<Rightarrow> tenant_error + string" where
  "validate_region = validate_choice ''region'' ''invalid_region'' VALID_REGIONS"

definition validate_plan :: "string option \<Rightarrow> tenant_error + string" where
  "validate_plan = validate_choice ''plan'' ''invalid_plan'' VALID_PLANS"

definition validate_initial_status :: "string option \<Rightarrow> tenant_error + string" where
  "validate_initial_status raw =
     (let v = lower (stripped raw)
      in if v = [] then Inr ''draft''
         else if v \<notin> set VALID_CREATE_STATUSES then Inl (TenantRefusal 422 ''invalid_status'' [])
         else Inr v)"

section \<open>Dates\<close>

type_synonym day = "nat \<times> nat \<times> nat"

definition digits_of :: "string \<Rightarrow> nat" where
  "digits_of s = fold (\<lambda>c n. 10 * n + (code_of c - 48)) s 0"

text \<open>The pattern \<open>^\d{4}-\d{2}-\d{2}$\<close>; the text has no white space at its ends.\<close>

definition date_pattern :: "string \<Rightarrow> bool" where
  "date_pattern s \<longleftrightarrow>
     length s = 10 \<and> list_all is_digit (take 4 s) \<and> s ! 4 = CHR ''-'' \<and> list_all is_digit (take 2 (drop 5 s)) \<and>
     s ! 7 = CHR ''-'' \<and> list_all is_digit (drop 8 s)"

definition days_in_month :: "nat \<Rightarrow> nat \<Rightarrow> nat" where
  "days_in_month y m =
     (if m = 2 then if y mod 4 = 0 \<and> (y mod 100 \<noteq> 0 \<or> y mod 400 = 0) then 29 else 28
      else if m \<in> {4, 6, 9, 11} then 30 else 31)"

text \<open>\<open>date.fromisoformat\<close>.\<close>

definition is_day :: "day \<Rightarrow> bool" where
  "is_day = (\<lambda>(y, m, d). 1 \<le> y \<and> 1 \<le> m \<and> m \<le> 12 \<and> 1 \<le> d \<and> d \<le> days_in_month y m)"

definition pad :: "nat \<Rightarrow> nat \<Rightarrow> string" where
  "pad n k = replicate (n - length (nat_digits k)) (CHR ''0'') @ nat_digits k"

definition isoformat :: "day \<Rightarrow> string" where
  "isoformat = (\<lambda>(y, m, d). pad 4 y @ ''-'' @ pad 2 m @ ''-'' @ pad 2 d)"

definition validate_service_start_date :: "string option \<Rightarrow> tenant_error + day option" where
  "validate_service_start_date raw =
     (let s = stripped raw; bad = Inl (invalid_field ''service_start_date'' ''invalid_date'');
          day = (digits_of (take 4 s), digits_of (take 2 (drop 5 s)), digits_of (drop 8 s))
      in if s = [] then Inr None
         else if \<not> date_pattern s then bad
         else if is_day day then Inr (Some day) else bad)"

section \<open>Free texts\<close>

definition validate_text :: "string \<Rightarrow> nat \<Rightarrow> string option \<Rightarrow> tenant_error + string option" where
  "validate_text f limit raw =
     (let v = stripped raw
      in if v = [] then Inr None
         else if length v > limit then Inl (invalid_field f ''max_length'')
         else if contains_ascii_control_characters v then Inl (invalid_field f ''invalid_characters'')
         else Inr (Some v))"

definition validate_tenant_notes :: "string option \<Rightarrow> tenant_error + string option" where
  "validate_tenant_notes = validate_text ''tenant_notes'' 5000"

definition validate_tenant_reason :: "string option \<Rightarrow> tenant_error + string option" where
  "validate_tenant_reason = validate_text ''status_reason'' 500"

section \<open>What is accepted\<close>

lemma validate_choice_Inr: "validate_choice f code choices raw = Inr v \<Longrightarrow> v \<in> set choices"
  by (auto simp: validate_choice_def Let_def split: if_splits)

lemma validate_initial_status_Inr: "validate_initial_status raw = Inr v \<Longrightarrow> v = ''draft'' \<or> v = ''active''"
  by (auto simp: validate_initial_status_def VALID_CREATE_STATUSES_def Let_def split: if_splits)

lemma validate_name_stripped: "validate_tenant_name raw = Inr v \<Longrightarrow> strip v = v \<and> v \<noteq> []"
  by (auto simp: validate_tenant_name_def stripped_def Let_def split: if_splits option.splits)

lemma validate_text_Inr:
  "validate_text f limit raw = Inr (Some v) \<Longrightarrow>
     v \<noteq> [] \<and> strip v = v \<and> length v \<le> limit \<and> \<not> contains_ascii_control_characters v"
  by (auto simp: validate_text_def stripped_def Let_def split: if_splits option.splits)

end
