(* ===== verification/TenantService.thy ===== *)
theory TenantService
  imports TenantValidation AuthTokens
begin

text \<open>
  \<open>TenantService\<close> of \<open>app/services/tenants/service.py\<close> with its repositories, and the workspaces that
  follow their tenant: the rows of \<open>control.tenants\<close>, \<open>control.workspaces\<close>, \<open>control.tenant_audit_logs\<close>
  and \<open>control.outbox_events\<close>, and the handlers of \<open>app/api/v1/endpoints/tenants.py\<close> up to the service.

  A request is one transaction: an error leaves the rows as they were.  What the database itself may do
  (a lock that is taken, a write that fails) is a parameter.  \<open>LOWER\<close> is \<^const>\<open>lower\<close>.
\<close>

section \<open>Rows\<close>

record TenantRow =
  tn_id :: uuid
  tn_name :: string
  tn_slug :: string
  tn_status :: string
  tn_reason :: "string option"
  tn_region :: string
  tn_plan :: string
  tn_start :: "day option"
  tn_notes :: "string option"
  tn_created :: nat
  tn_updated :: nat
  tn_created_by :: uuid
  tn_updated_by :: uuid
  tn_version :: nat

record WorkspaceRow =
  wk_id :: uuid
  wk_tenant :: uuid
  wk_name :: string
  wk_slug :: string
  wk_description :: "string option"
  wk_timezone :: string
  wk_status :: string
  wk_reason :: "string option"
  wk_created :: nat
  wk_updated :: nat
  wk_created_by :: uuid
  wk_updated_by :: uuid
  wk_version :: nat

record TenantAudit =
  ta_id :: uuid
  ta_tenant :: uuid
  ta_event :: string
  ta_actor :: uuid
  ta_role :: string
  ta_previous :: "dict option"
  ta_new :: dict
  ta_at :: nat
  ta_reason :: "string option"

record OutboxEvent =
  oe_id :: uuid
  oe_type :: string
  oe_tenant :: uuid
  oe_payload :: dict
  oe_at :: nat
  oe_delivered :: bool
  oe_delivered_at :: "nat option"
  oe_retries :: nat
  oe_error :: "string option"

record WorkspaceAudit =
  wa_tenant :: uuid
  wa_workspace :: uuid
  wa_action :: string
  wa_actor :: uuid
  wa_role :: string
  wa_previous :: "dict option"
  wa_new :: dict

record plane =
  pl_tenants :: "TenantRow list"
  pl_workspaces :: "WorkspaceRow list"
  pl_audit :: "TenantAudit list"
  pl_outbox :: "OutboxEvent list"
  pl_ws_audit :: "WorkspaceAudit list"
  pl_admins :: "(uuid \<times> uuid) list"

text \<open>Who asks, when, and the identifiers the request draws.\<close>

record request =
  rq_now :: nat
  rq_actor :: uuid
  rq_role :: string
  rq_row :: uuid
  rq_log :: uuid
  rq_event :: uuid

datatype db_behaviour = Works | LockTaken | LockFails | WriteFails

section \<open>Lookups\<close>

definition find_tenant :: "uuid \<Rightarrow> plane \<Rightarrow> TenantRow option" where
  "find_tenant t db = find (\<lambda>r. tn_id r = t) (pl_tenants db)"

text \<open>\<open>TRIM\<close> of the database removes spaces only.\<close>

definition pg_trim :: "string \<Rightarrow> string" where
  "pg_trim s = rev (dropWhile (\<lambda>c. c = CHR '' '') (rev (dropWhile (\<lambda>c. c = CHR '' '') s)))"

definition name_lower :: "string \<Rightarrow> string" where
  "name_lower s = lower (pg_trim s)"

definition check_name_exists :: "string \<Rightarrow> plane \<Rightarrow> bool" where
  "check_name_exists n db \<longleftrightarrow> (\<exists>r \<in> set (pl_tenants db). name_lower (tn_name r) = name_lower n)"

definition check_slug_exists :: "string \<Rightarrow> plane \<Rightarrow> bool" where
  "check_slug_exists s db \<longleftrightarrow> (\<exists>r \<in> set (pl_tenants db). tn_slug r = s)"

definition check_name_exists_excluding :: "string \<Rightarrow> uuid \<Rightarrow> plane \<Rightarrow> bool" where
  "check_name_exists_excluding n t db \<longleftrightarrow>
     (\<exists>r \<in> set (pl_tenants db). name_lower (tn_name r) = name_lower n \<and> tn_id r \<noteq> t)"

text \<open>The row lock of \<open>FOR UPDATE NOWAIT\<close>.\<close>

definition lock_tenant :: "db_behaviour \<Rightarrow> uuid \<Rightarrow> plane \<Rightarrow> tenant_error + TenantRow option" where
  "lock_tenant b t db =
     (if b = LockTaken then Inl (TenantRefusal 409 ''conflict'' [])
      else if b = LockFails then Inl (TenantRefusal 500 ''internal_error'' [])
      else Inr (find_tenant t db))"

definition text_or_null :: "string option \<Rightarrow> pyval" where
  "text_or_null v = (case v of None \<Rightarrow> PNone | Some s \<Rightarrow> PStr s)"

section \<open>Creating a tenant\<close>

record CreateTenant =
  ct_name :: string
  ct_slug :: string
  ct_region :: string
  ct_plan :: string
  ct_status :: string
  ct_reason :: "string option"
  ct_start :: "day option"
  ct_notes :: "string option"

definition new_tenant :: "request \<Rightarrow> CreateTenant \<Rightarrow> TenantRow" where
  "new_tenant q c =
     \<lparr>tn_id = rq_row q, tn_name = ct_name c, tn_slug = ct_slug c, tn_status = ct_status c, tn_reason = ct_reason c,
      tn_region = ct_region c, tn_plan = ct_plan c, tn_start = ct_start c, tn_notes = ct_notes c,
      tn_created = rq_now q, tn_updated = rq_now q, tn_created_by = rq_actor q, tn_updated_by = rq_actor q, tn_version = 0\<rparr>"

definition created_audit :: "request \<Rightarrow> CreateTenant \<Rightarrow> TenantAudit" where
  "created_audit q c =
     \<lparr>ta_id = rq_log q, ta_tenant = rq_row q, ta_event = ''tenant_created'', ta_actor = rq_actor q, ta_role = rq_role q,
      ta_previous = None,
      ta_new = [(''tenant_id'', PStr (uuid_text (rq_row q))), (''tenant_name'', PStr (ct_name c)), (''tenant_slug'', PStr (ct_slug c)),
        (''status'', PStr (ct_status c)), (''region'', PStr (ct_region c)), (''plan'', PStr (ct_plan c)),
        (''created_by'', PStr (uuid_text (rq_actor q)))],
      ta_at = rq_now q, ta_reason = None\<rparr>"

definition create_tenant :: "db_behaviour \<Rightarrow> request \<Rightarrow> CreateTenant \<Rightarrow> plane \<Rightarrow> tenant_error + plane" where
  "create_tenant b q c db =
     (if check_name_exists (ct_name c) db then Inl (TenantRefusal 422 ''duplicate_name'' [])
      else if check_slug_exists (ct_slug c) db then Inl (TenantRefusal 422 ''duplicate_slug'' [])
      else if b = WriteFails then Inl (TenantRefusal 500 ''internal_error'' [])
      else Inr (db\<lparr>pl_tenants := pl_tenants db @ [new_tenant q c], pl_audit := pl_audit db @ [created_audit q c]\<rparr>))"

text \<open>The body of the request: every field a text or absent.\<close>

record TenantBody =
  tb_name :: "string option"
  tb_slug :: "string option"
  tb_region :: "string option"
  tb_plan :: "string option"
  tb_status :: "string option"
  tb_start :: "string option"
  tb_notes :: "string option"
  tb_reason :: "string option"

definition read_tenant_body :: "TenantBody \<Rightarrow> tenant_error + CreateTenant" where
  "read_tenant_body body =
     bind (validate_tenant_name (tb_name body)) (\<lambda>name.
     bind (validate_tenant_slug (tb_slug body)) (\<lambda>slug.
     bind (validate_region (tb_region body)) (\<lambda>region.
     bind (validate_plan (tb_plan body)) (\<lambda>plan.
     bind (validate_initial_status (tb_status body)) (\<lambda>status.
     bind (validate_service_start_date (tb_start body)) (\<lambda>start.
     bind (validate_tenant_notes (tb_notes body)) (\<lambda>notes.
     bind (validate_tenant_reason (tb_reason body)) (\<lambda>reason.
       Inr \<lparr>ct_name = name, ct_slug = slug, ct_region = region, ct_plan = plan, ct_status = status,
            ct_reason = reason, ct_start = start, ct_notes = notes\<rparr>))))))))"

definition post_tenant :: "db_behaviour \<Rightarrow> request \<Rightarrow> TenantBody \<Rightarrow> plane \<Rightarrow> tenant_error + plane" where
  "post_tenant b q body db = bind (read_tenant_body body) (\<lambda>c. create_tenant b q c db)"

section \<open>Changing the fields of a tenant\<close>

definition tenant_field :: "TenantRow \<Rightarrow> string \<Rightarrow> pyval" where
  "tenant_field r k =
     (if k = ''tenant_name'' then PStr (tn_name r)
      else if k = ''plan'' then PStr (tn_plan r)
      else if k = ''status_reason'' then text_or_null (tn_reason r)
      else if k = ''service_start_date'' then text_or_null (map_option isoformat (tn_start r))
      else if k = ''tenant_notes'' then text_or_null (tn_notes r)
      else PNone)"

text \<open>
  A new value of one of the five fields; \<open>key_of_change\<close> is the key of the field, \<open>value_of_change\<close> its value
  in the audit log.
\<close>

datatype tenant_change =
    NewName string
  | NewPlan string
  | NewReason "string option"
  | NewStart "day option"
  | NewNotes "string option"

fun key_of_change :: "tenant_change \<Rightarrow> string" where
  "key_of_change (NewName _) = ''tenant_name''"
| "key_of_change (NewPlan _) = ''plan''"
| "key_of_change (NewReason _) = ''status_reason''"
| "key_of_change (NewStart _) = ''service_start_date''"
| "key_of_change (NewNotes _) = ''tenant_notes''"

fun value_of_change :: "tenant_change \<Rightarrow> pyval" where
  "value_of_change (NewName n) = PStr n"
| "value_of_change (NewPlan p) = PStr p"
| "value_of_change (NewReason r) = text_or_null r"
| "value_of_change (NewStart d) = text_or_null (map_option isoformat d)"
| "value_of_change (NewNotes n) = text_or_null n"

fun differs :: "TenantRow \<Rightarrow> tenant_change \<Rightarrow> bool" where
  "differs r (NewName n) = (n \<noteq> tn_name r)"
| "differs r (NewPlan p) = (p \<noteq> tn_plan r)"
| "differs r (NewReason v) = (v \<noteq> tn_reason r)"
| "differs r (NewStart d) = (d \<noteq> tn_start r)"
| "differs r (NewNotes n) = (n \<noteq> tn_notes r)"

fun set_change :: "tenant_change \<Rightarrow> TenantRow \<Rightarrow> TenantRow" where
  "set_change (NewName n) r = r\<lparr>tn_name := n\<rparr>"
| "set_change (NewPlan p) r = r\<lparr>tn_plan := p\<rparr>"
| "set_change (NewReason v) r = r\<lparr>tn_reason := v\<rparr>"
| "set_change (NewStart d) r = r\<lparr>tn_start := d\<rparr>"
| "set_change (NewNotes n) r = r\<lparr>tn_notes := n\<rparr>"

definition build_change_set :: "tenant_change list \<Rightarrow> TenantRow \<Rightarrow> tenant_change list \<times> dict \<times> dict" where
  "build_change_set fs r =
     (let cs = filter (differs r) fs
      in (cs, map (\<lambda>c. (key_of_change c, tenant_field r (key_of_change c))) cs, map (\<lambda>c. (key_of_change c, value_of_change c)) cs))"

text \<open>The guard of \<open>status_reason\<close> for a suspended tenant.\<close>

definition reason_guard :: "string \<Rightarrow> tenant_change list \<Rightarrow> tenant_error option" where
  "reason_guard status fs =
     (if status \<notin> {''suspended'', ''archived''} then None
      else if NewReason None \<in> set fs then Some (TenantRefusal 422 ''status_reason_required_for_current_status'' [])
      else if \<exists>c \<in> set fs. case c of NewReason (Some s) \<Rightarrow> length s < 10 | _ \<Rightarrow> False
      then Some (invalid_field ''status_reason'' ''min_length'') else None)"

definition changed_tenant :: "request \<Rightarrow> tenant_change list \<Rightarrow> TenantRow \<Rightarrow> TenantRow" where
  "changed_tenant q cs r = (fold set_change cs r)\<lparr>tn_updated := rq_now q, tn_updated_by := rq_actor q, tn_version := tn_version r + 1\<rparr>"

definition updated_audit :: "request \<Rightarrow> uuid \<Rightarrow> dict \<Rightarrow> dict \<Rightarrow> TenantAudit" where
  "updated_audit q t previous new =
     \<lparr>ta_id = rq_log q, ta_tenant = t, ta_event = ''tenant_updated'', ta_actor = rq_actor q, ta_role = rq_role q,
      ta_previous = Some previous, ta_new = new, ta_at = rq_now q, ta_reason = None\<rparr>"

definition update_tenant :: "db_behaviour \<Rightarrow> request \<Rightarrow> uuid \<Rightarrow> tenant_change list \<Rightarrow> plane \<Rightarrow> tenant_error + plane" where
  "update_tenant b q t fs db =
     bind (lock_tenant b t db) (\<lambda>row.
       case row of
         None \<Rightarrow> Inl (TenantRefusal 404 ''not_found'' [])
       | Some r \<Rightarrow>
           if tn_status r = ''archived'' then Inl (TenantRefusal 422 ''archived_tenant'' [])
           else case reason_guard (tn_status r) fs of
             Some e \<Rightarrow> Inl e
           | None \<Rightarrow>
               (case build_change_set fs r of (cs, previous, new) \<Rightarrow>
                  if cs = [] then Inl (TenantRefusal 422 ''no_mutable_fields'' [])
                  else if \<exists>c \<in> set cs. case c of NewName n \<Rightarrow> check_name_exists_excluding n t db | _ \<Rightarrow> False
                  then Inl (TenantRefusal 422 ''duplicate_name'' [])
                  else if b = WriteFails then Inl (TenantRefusal 500 ''internal_error'' [])
                  else Inr (db\<lparr>pl_tenants := update_where (\<lambda>x. tn_id x = t) (changed_tenant q cs) (pl_tenants db),
                       pl_audit := pl_audit db @ [updated_audit q t previous new]\<rparr>)))"

text \<open>
  The body of a patch: the keys that are given, mutable ones with their text or null.  The first immutable
  key that is found is reported; the order of the keys is not fixed.
\<close>

definition MUTABLE_FIELDS :: "string list" where
  "MUTABLE_FIELDS = [''tenant_name'', ''plan'', ''status_reason'', ''service_start_date'', ''tenant_notes'']"

definition IMMUTABLE_FIELDS :: "string list" where
  "IMMUTABLE_FIELDS = [''tenant_slug'', ''region'', ''tenant_id'']"

type_synonym patch_body = "(string \<times> string option) list"

definition read_field :: "patch_body \<Rightarrow> string \<Rightarrow> (string option \<Rightarrow> tenant_error + tenant_change) \<Rightarrow> tenant_error + tenant_change list" where
  "read_field body k f = (case map_of body k of None \<Rightarrow> Inr [] | Some v \<Rightarrow> map_sum id (\<lambda>c. [c]) (f v))"

definition read_patch :: "patch_body \<Rightarrow> tenant_error + tenant_change list" where
  "read_patch body =
     (case find (\<lambda>k. k \<in> fst ` set body) IMMUTABLE_FIELDS of
        Some k \<Rightarrow> Inl (TenantRefusal 422 ''immutable_field'' [(k, ''immutable_field'')])
      | None \<Rightarrow>
          if ''status'' \<in> fst ` set body then Inl (TenantRefusal 422 ''use_status_endpoint'' [])
          else if \<forall>k \<in> set MUTABLE_FIELDS. k \<notin> fst ` set body then Inl (TenantRefusal 422 ''no_mutable_fields'' [])
          else
            bind (read_field body ''tenant_name'' (\<lambda>v. map_sum id NewName (validate_tenant_name v))) (\<lambda>a.
            bind (read_field body ''plan'' (\<lambda>v. map_sum id NewPlan (validate_plan v))) (\<lambda>b.
            bind (read_field body ''status_reason'' (\<lambda>v. map_sum id NewReason (validate_tenant_reason v))) (\<lambda>c.
            bind (read_field body ''service_start_date'' (\<lambda>v. map_sum id NewStart (validate_service_start_date v))) (\<lambda>d.
            bind (read_field body ''tenant_notes'' (\<lambda>v. map_sum id NewNotes (validate_tenant_notes v))) (\<lambda>e.
              Inr (a @ b @ c @ d @ e)))))))"

definition patch_tenant :: "db_behaviour \<Rightarrow> request \<Rightarrow> uuid \<Rightarrow> patch_body \<Rightarrow> plane \<Rightarrow> tenant_error + plane" where
  "patch_tenant b q t body db = bind (read_patch body) (\<lambda>fs. update_tenant b q t fs db)"

section \<open>Changing the status of a tenant\<close>

definition ALLOWED_TRANSITIONS :: "((string \<times> string) \<times> bool) list" where
  "ALLOWED_TRANSITIONS =
     [((''draft'', ''active''), True), ((''draft'', ''suspended''), False), ((''draft'', ''archived''), True),
      ((''active'', ''draft''), False), ((''active'', ''suspended''), True), ((''active'', ''archived''), True),
      ((''suspended'', ''draft''), False), ((''suspended'', ''active''), True), ((''suspended'', ''archived''), True),
      ((''archived'', ''draft''), False), ((''archived'', ''active''), False), ((''archived'', ''suspended''), False),
      ((''archived'', ''archived''), False)]"

definition may_become :: "string \<Rightarrow> string \<Rightarrow> bool" where
  "may_become s s' \<longleftrightarrow> map_of ALLOWED_TRANSITIONS (s, s') = Some True"

definition transition_reason :: "string \<Rightarrow> string option \<Rightarrow> tenant_error + string option" where
  "transition_reason target reason =
     (if target \<notin> {''suspended'', ''archived''} then Inr None
      else let v = stripped reason
           in if v = [] then Inl (TenantRefusal 422 ''missing_status_reason'' [(''status_reason'', ''missing_status_reason'')])
              else if length v < 10 then Inl (invalid_field ''status_reason'' ''min_length'')
              else if length v > 500 then Inl (invalid_field ''status_reason'' ''max_length'')
              else if contains_ascii_control_characters v then Inl (invalid_field ''status_reason'' ''invalid_characters'')
              else Inr (Some v))"

text \<open>The three statements that take the workspaces of a tenant along.\<close>

definition touch_workspace :: "request \<Rightarrow> string \<Rightarrow> string option \<Rightarrow> WorkspaceRow \<Rightarrow> WorkspaceRow" where
  "touch_workspace q s reason w =
     w\<lparr>wk_status := s, wk_reason := reason, wk_updated := rq_now q, wk_updated_by := rq_actor q, wk_version := wk_version w + 1\<rparr>"

definition bulk_suspend_by_tenant :: "request \<Rightarrow> uuid \<Rightarrow> string option \<Rightarrow> WorkspaceRow list \<Rightarrow> WorkspaceRow list" where
  "bulk_suspend_by_tenant q t reason =
     update_where (\<lambda>w. wk_tenant w = t \<and> wk_status w = ''active'') (touch_workspace q ''suspended'' reason)"

definition bulk_activate_by_tenant :: "request \<Rightarrow> uuid \<Rightarrow> WorkspaceRow list \<Rightarrow> WorkspaceRow list" where
  "bulk_activate_by_tenant q t =
     update_where (\<lambda>w. wk_tenant w = t \<and> wk_status w = ''suspended'') (touch_workspace q ''active'' None)"

definition bulk_archive_by_tenant :: "request \<Rightarrow> uuid \<Rightarrow> string option \<Rightarrow> WorkspaceRow list \<Rightarrow> WorkspaceRow list" where
  "bulk_archive_by_tenant q t reason =
     update_where (\<lambda>w. wk_tenant w = t \<and> wk_status w \<noteq> ''archived'') (touch_workspace q ''archived'' reason)"

definition cascade :: "request \<Rightarrow> uuid \<Rightarrow> string \<Rightarrow> string \<Rightarrow> string option \<Rightarrow> WorkspaceRow list \<Rightarrow> WorkspaceRow list" where
  "cascade q t current target reason ws =
     (let ws1 = (if target = ''suspended'' then bulk_suspend_by_tenant q t reason ws else ws);
          ws2 = (if target = ''active'' \<and> current = ''suspended'' then bulk_activate_by_tenant q t ws1 else ws1)
      in if target = ''archived'' then bulk_archive_by_tenant q t reason ws2 else ws2)"

definition suspended_event :: "request \<Rightarrow> uuid \<Rightarrow> OutboxEvent" where
  "suspended_event q t =
     \<lparr>oe_id = rq_event q, oe_type = ''tenant_suspended'', oe_tenant = t,
      oe_payload = [(''event_type'', PStr ''tenant_suspended''), (''tenant_id'', PStr (uuid_text t))],
      oe_at = rq_now q, oe_delivered = False, oe_delivered_at = None, oe_retries = 0, oe_error = None\<rparr>"

definition status_audit :: "request \<Rightarrow> TenantRow \<Rightarrow> string \<Rightarrow> string option \<Rightarrow> TenantAudit" where
  "status_audit q r target reason =
     \<lparr>ta_id = rq_log q, ta_tenant = tn_id r, ta_event = ''tenant_status_changed'', ta_actor = rq_actor q, ta_role = rq_role q,
      ta_previous = Some [(''status'', PStr (tn_status r)), (''status_reason'', text_or_null (tn_reason r))],
      ta_new = [(''status'', PStr target), (''status_reason'', text_or_null reason)], ta_at = rq_now q, ta_reason = reason\<rparr>"

definition change_status :: "db_behaviour \<Rightarrow> request \<Rightarrow> uuid \<Rightarrow> string \<Rightarrow> string option \<Rightarrow> plane \<Rightarrow> tenant_error + plane" where
  "change_status b q t target reason db =
     bind (lock_tenant b t db) (\<lambda>row.
       case row of
         None \<Rightarrow> Inl (TenantRefusal 404 ''not_found'' [])
       | Some r \<Rightarrow>
           if tn_status r = target then Inl (TenantRefusal 422 ''no_op_transition'' [])
           else if \<not> may_become (tn_status r) target then Inl (TenantRefusal 422 ''forbidden_transition'' [])
           else bind (transition_reason target reason) (\<lambda>new_reason.
             if b = WriteFails then Inl (TenantRefusal 500 ''internal_error'' [])
             else Inr (db\<lparr>pl_tenants := update_where (\<lambda>x. tn_id x = t)
                    (\<lambda>x. x\<lparr>tn_status := target, tn_reason := new_reason, tn_updated := rq_now q,
                           tn_updated_by := rq_actor q, tn_version := tn_version x + 1\<rparr>) (pl_tenants db),
                  pl_audit := pl_audit db @ [status_audit q r target new_reason],
                  pl_outbox := pl_outbox db @ (if target = ''suspended'' then [suspended_event q t] else []),
                  pl_workspaces := cascade q t (tn_status r) target new_reason (pl_workspaces db)\<rparr>)))"

definition VALID_TARGET_STATUSES :: "string list" where
  "VALID_TARGET_STATUSES = [''draft'', ''active'', ''suspended'', ''archived'']"

text \<open>The handler; \<open>None\<close> for a request without a body.\<close>

definition post_status ::
    "db_behaviour \<Rightarrow> request \<Rightarrow> uuid \<Rightarrow> (string option \<times> string option) option \<Rightarrow> plane \<Rightarrow> tenant_error + plane" where
  "post_status b q t body db =
     (case body of
        None \<Rightarrow> Inl (TenantRefusal 400 ''missing_request_body'' [])
      | Some (target, reason) \<Rightarrow>
          let s = lower (stripped target); r = stripped reason
          in if s = [] then Inl (invalid_field ''target_status'' ''required'')
             else if s \<notin> set VALID_TARGET_STATUSES then Inl (TenantRefusal 422 ''invalid_target_status'' [])
             else change_status b q t s (if r = [] then None else Some r) db)"

section \<open>Removing a tenant\<close>

definition hard_delete :: "db_behaviour \<Rightarrow> uuid \<Rightarrow> plane \<Rightarrow> tenant_error + plane" where
  "hard_delete b t db =
     (case find_tenant t db of
        None \<Rightarrow> Inl (TenantRefusal 404 ''not_found'' [])
      | Some _ \<Rightarrow>
          if b = WriteFails then Inl (TenantRefusal 500 ''internal_error'' [])
          else let ws = map wk_id (filter (\<lambda>w. wk_tenant w = t) (pl_workspaces db))
               in Inr (db\<lparr>pl_workspaces := delete_where (\<lambda>w. wk_id w \<in> set ws \<or> wk_tenant w = t) (pl_workspaces db),
                    pl_ws_audit := delete_where (\<lambda>a. wa_workspace a \<in> set ws \<or> wa_tenant a = t) (pl_ws_audit db),
                    pl_admins := delete_where (\<lambda>(w, u). w \<in> set ws) (pl_admins db),
                    pl_audit := delete_where (\<lambda>a. ta_tenant a = t) (pl_audit db),
                    pl_outbox := delete_where (\<lambda>e. oe_tenant e = t) (pl_outbox db),
                    pl_tenants := delete_where (\<lambda>r. tn_id r = t) (pl_tenants db)\<rparr>))"

end
