(* ===== verification/WorkspaceService.thy ===== *)
theory WorkspaceService
  imports TenantService
begin

text \<open>
  \<open>WorkspaceService\<close> of \<open>app/services/workspaces/service.py\<close> with its repository: creating, changing,
  archiving and restoring a workspace, and the handlers of \<open>app/api/v1/endpoints/workspaces.py\<close> that
  call it.  The state is the \<^typ>\<open>plane\<close> of the tenant service.  The column \<open>workspace_name_lower\<close> is
  generated by the database from the name (migration 041), so it is not a field of a row.

  Parameters: the time-zone database, the text of a time and of a JSON value, and which of the later
  writes of a request fails.
\<close>

datatype write_outcome = AllWritten | GrantFails | AuditFails

text \<open>The refusals of the handlers, with their status and code, and the exceptions of the service.\<close>

datatype workspace_error =
    WsRefusal nat string "field_error list"
  | WsNotFound
  | WsTenantNotFound
  | WsTenantNotActive
  | WsArchived
  | WsForbiddenTransition
  | WsInvalid "field_error list"
  | WsLastActive
  | WsDuplicateName
  | WsDuplicateSlug
  | WsGrantFailed
  | WsAuditFailed
  | WsUnhandled string

section \<open>Queries\<close>

definition find_workspace_row :: "uuid \<Rightarrow> uuid \<Rightarrow> plane \<Rightarrow> WorkspaceRow option" where
  "find_workspace_row w t db = find (\<lambda>r. wk_id r = w \<and> wk_tenant r = t) (pl_workspaces db)"

definition count_active_workspaces :: "uuid \<Rightarrow> plane \<Rightarrow> nat" where
  "count_active_workspaces t db =
     length (filter (\<lambda>r. wk_tenant r = t \<and> wk_status r = ''active'') (pl_workspaces db))"

text \<open>The two unique constraints: name, then slug, within a tenant.\<close>

definition name_taken :: "uuid \<Rightarrow> string \<Rightarrow> plane \<Rightarrow> bool" where
  "name_taken t n db \<longleftrightarrow> (\<exists>r \<in> set (pl_workspaces db). wk_tenant r = t \<and> name_lower (wk_name r) = name_lower n)"

definition slug_taken :: "uuid \<Rightarrow> string \<Rightarrow> plane \<Rightarrow> bool" where
  "slug_taken t s db \<longleftrightarrow> (\<exists>r \<in> set (pl_workspaces db). wk_tenant r = t \<and> wk_slug r = s)"

definition insert_workspace :: "WorkspaceRow \<Rightarrow> plane \<Rightarrow> workspace_error + plane" where
  "insert_workspace r db =
     (if name_taken (wk_tenant r) (wk_name r) db then Inl WsDuplicateName
      else if slug_taken (wk_tenant r) (wk_slug r) db then Inl WsDuplicateSlug
      else Inr (db\<lparr>pl_workspaces := pl_workspaces db @ [r]\<rparr>))"

text \<open>\<open>UPDATE\<close> of one row; the constraints hold for the new row as well.\<close>

definition save_workspace :: "WorkspaceRow \<Rightarrow> plane \<Rightarrow> workspace_error + plane" where
  "save_workspace r db =
     (if \<exists>x \<in> set (pl_workspaces db). wk_id x \<noteq> wk_id r \<and> wk_tenant x = wk_tenant r \<and>
          (name_lower (wk_name x) = name_lower (wk_name r) \<or> wk_slug x = wk_slug r)
      then Inl (WsUnhandled ''IntegrityError'')
      else if find_workspace_row (wk_id r) (wk_tenant r) db = None then Inl WsNotFound
      else Inr (db\<lparr>pl_workspaces :=
             update_where (\<lambda>x. wk_id x = wk_id r \<and> wk_tenant x = wk_tenant r) (\<lambda>_. r) (pl_workspaces db)\<rparr>))"

definition write_audit :: "write_outcome \<Rightarrow> WorkspaceAudit \<Rightarrow> plane \<Rightarrow> workspace_error + plane" where
  "write_audit b a db = (if b = AuditFails then Inl WsAuditFailed else Inr (db\<lparr>pl_ws_audit := pl_ws_audit db @ [a]\<rparr>))"

definition active_tenant :: "uuid \<Rightarrow> plane \<Rightarrow> workspace_error + unit" where
  "active_tenant t db =
     (case find_tenant t db of
        None \<Rightarrow> Inl WsTenantNotFound
      | Some r \<Rightarrow> if tn_status r \<noteq> ''active'' then Inl WsTenantNotActive else Inr ())"

section \<open>Creating a workspace\<close>

definition text_in :: "dict \<Rightarrow> string \<Rightarrow> string option" where
  "text_in d k = (case dict_get d k PNone of PStr s \<Rightarrow> Some s | _ \<Rightarrow> None)"

definition new_workspace :: "request \<Rightarrow> uuid \<Rightarrow> dict \<Rightarrow> WorkspaceRow" where
  "new_workspace q t d =
     \<lparr>wk_id = rq_row q, wk_tenant = t, wk_name = the (text_in d ''workspace_name''),
      wk_slug = the (text_in d ''workspace_slug''), wk_description = text_in d ''description'',
      wk_timezone = (case text_in d ''default_timezone'' of None \<Rightarrow> ''UTC'' | Some z \<Rightarrow> z),
      wk_status = ''active'', wk_reason = None, wk_created = rq_now q, wk_updated = rq_now q,
      wk_created_by = rq_actor q, wk_updated_by = rq_actor q, wk_version = 0\<rparr>"

definition workspace_created_audit :: "(nat \<Rightarrow> string) \<Rightarrow> request \<Rightarrow> WorkspaceRow \<Rightarrow> WorkspaceAudit" where
  "workspace_created_audit stamp q r =
     \<lparr>wa_tenant = wk_tenant r, wa_workspace = wk_id r, wa_action = ''workspace_created'', wa_actor = rq_actor q,
      wa_role = rq_role q, wa_previous = None,
      wa_new = [(''workspace_id'', PStr (uuid_text (wk_id r))), (''tenant_id'', PStr (uuid_text (wk_tenant r))),
        (''workspace_name'', PStr (wk_name r)), (''workspace_slug'', PStr (wk_slug r)),
        (''description'', text_or_null (wk_description r)), (''default_timezone'', PStr (wk_timezone r)),
        (''status'', PStr (wk_status r)), (''status_reason'', text_or_null (wk_reason r)),
        (''created_at'', PStr (stamp (wk_created r))), (''updated_at'', PStr (stamp (wk_updated r))),
        (''created_by'', PStr (uuid_text (wk_created_by r))), (''updated_by'', PStr (uuid_text (wk_updated_by r)))]\<rparr>"

definition create_workspace ::
    "(string \<Rightarrow> string option) \<Rightarrow> (nat \<Rightarrow> string) \<Rightarrow> write_outcome \<Rightarrow> request \<Rightarrow> uuid \<Rightarrow> dict \<Rightarrow> plane \<Rightarrow> workspace_error + plane" where
  "create_workspace zone stamp b q t payload db =
     (let v = validate_create_payload zone payload; d = normalized_payload v
      in if v_errors v \<noteq> [] then Inl (WsUnhandled ''ValueError'')
         else bind (active_tenant t db) (\<lambda>_.
              let r = new_workspace q t d
              in bind (insert_workspace r db) (\<lambda>db1.
                 if b = GrantFails then Inl WsGrantFailed
                 else write_audit b (workspace_created_audit stamp q r)
                        (db1\<lparr>pl_admins := pl_admins db1 @ [(wk_id r, rq_actor q)]\<rparr>))))"

text \<open>
  The handler: a platform administrator may name the tenant in the body; \<open>stranger\<close> is \<open>str()\<close> of a value
  that is no string.
\<close>

definition target_tenant ::
    "(pyval \<Rightarrow> string) \<Rightarrow> string \<Rightarrow> uuid option \<Rightarrow> pyval \<Rightarrow> workspace_error + uuid" where
  "target_tenant stranger role own v =
     (if v \<noteq> PNone \<and> role \<noteq> ''platform_admin'' then Inl (WsRefusal 403 ''insufficient_permissions'' [])
      else let t = (if v = PNone then Inr own
                    else case parse_uuid (case v of PStr s \<Rightarrow> s | _ \<Rightarrow> stranger v) of
                      None \<Rightarrow> Inl (WsRefusal 422 ''invalid_input'' [(''tenant_id'', ''invalid_uuid'')])
                    | Some u \<Rightarrow> Inr (Some u))
           in bind t (\<lambda>u. case u of
                None \<Rightarrow> Inl (WsRefusal 422 ''invalid_input'' [(''tenant_id'', ''required'')])
              | Some u \<Rightarrow> Inr u))"

definition post_workspace ::
    "(string \<Rightarrow> string option) \<Rightarrow> (nat \<Rightarrow> string) \<Rightarrow> (pyval \<Rightarrow> string) \<Rightarrow> write_outcome \<Rightarrow> request \<Rightarrow> uuid option \<Rightarrow> dict \<Rightarrow>
     plane \<Rightarrow> workspace_error + plane" where
  "post_workspace zone stamp stranger b q own raw db =
     bind (target_tenant stranger (rq_role q) own (dict_get raw ''tenant_id'' PNone)) (\<lambda>t.
       let p = filter (\<lambda>(k, v). k \<noteq> ''tenant_id'') raw;
           bad = mark ''forbidden_field'' (detect_forbidden_fields p forbidden_fields) @
                 mark ''unknown_field'' (detect_unknown_fields p create_allowed_fields);
           v = validate_create_payload zone p
       in if bad \<noteq> [] then Inl (WsRefusal 400 ''invalid_fields'' bad)
          else if v_errors v \<noteq> [] then Inl (WsRefusal 422 ''validation_error'' (v_errors v))
          else create_workspace zone stamp b q t (normalized_payload v) db)"

section \<open>Changing a workspace\<close>

text \<open>\<open>getattr\<close> and \<open>setattr\<close> for the three fields a payload may hold.\<close>

definition workspace_field :: "WorkspaceRow \<Rightarrow> string \<Rightarrow> pyval" where
  "workspace_field r k =
     (if k = ''workspace_name'' then PStr (wk_name r)
      else if k = ''description'' then text_or_null (wk_description r)
      else PStr (wk_timezone r))"

definition set_workspace_field :: "string \<times> pyval \<Rightarrow> WorkspaceRow \<Rightarrow> WorkspaceRow" where
  "set_workspace_field = (\<lambda>(k, v) r.
     let s = (case v of PStr s \<Rightarrow> s | _ \<Rightarrow> [])
     in if k = ''workspace_name'' then r\<lparr>wk_name := s\<rparr>
        else if k = ''description'' then r\<lparr>wk_description := (case v of PStr s \<Rightarrow> Some s | _ \<Rightarrow> None)\<rparr>
        else r\<lparr>wk_timezone := s\<rparr>)"

text \<open>The row that is saved; \<open>updated_by\<close> stays what it was.\<close>

definition changed_workspace :: "request \<Rightarrow> dict \<Rightarrow> WorkspaceRow \<Rightarrow> WorkspaceRow" where
  "changed_workspace q d r =
     (fold set_workspace_field d r)\<lparr>wk_updated := rq_now q, wk_version := wk_version r + 1\<rparr>"

definition other_with_name :: "WorkspaceRow \<Rightarrow> string \<Rightarrow> plane \<Rightarrow> bool" where
  "other_with_name r n db \<longleftrightarrow>
     (\<exists>x \<in> set (pl_workspaces db). wk_tenant x = wk_tenant r \<and>
        name_lower (wk_name x) = lower (normalize_workspace_name n) \<and> wk_id x \<noteq> wk_id r)"

definition metadata_audit :: "request \<Rightarrow> WorkspaceRow \<Rightarrow> dict \<Rightarrow> WorkspaceAudit" where
  "metadata_audit q r d =
     \<lparr>wa_tenant = wk_tenant r, wa_workspace = wk_id r, wa_action = ''workspace_metadata_updated'', wa_actor = rq_actor q,
      wa_role = ''workspace_administrator'', wa_previous = Some (map (\<lambda>(k, v). (k, workspace_field r k)) d), wa_new = d\<rparr>"

definition update_workspace :: "write_outcome \<Rightarrow> request \<Rightarrow> uuid \<Rightarrow> uuid \<Rightarrow> dict \<Rightarrow> plane \<Rightarrow> workspace_error + plane" where
  "update_workspace b q w t d db =
     (case find_workspace_row w t db of
        None \<Rightarrow> Inl WsNotFound
      | Some r \<Rightarrow>
          if wk_status r = ''archived'' then Inl WsArchived
          else bind (active_tenant t db) (\<lambda>_.
            if list_all (\<lambda>(k, v). v = workspace_field r k) d then Inr db
            else if (case text_in d ''workspace_name'' of
                       None \<Rightarrow> False
                     | Some n \<Rightarrow> n \<noteq> wk_name r \<and> other_with_name r n db)
            then Inl WsDuplicateName
            else bind (save_workspace (changed_workspace q d r) db) (write_audit b (metadata_audit q r d))))"

definition patch_workspace ::
    "(string \<Rightarrow> string option) \<Rightarrow> write_outcome \<Rightarrow> request \<Rightarrow> uuid \<Rightarrow> uuid \<Rightarrow> dict \<Rightarrow> plane \<Rightarrow> workspace_error + plane" where
  "patch_workspace zone b q w t raw db =
     (let immutable = filter (\<lambda>k. k \<in> set immutable_fields) (map fst raw);
          bad = mark ''forbidden_field'' (detect_forbidden_fields raw forbidden_fields) @
                mark ''unknown_field'' (detect_unknown_fields raw (update_allowed_fields @ immutable_fields));
          v = validate_update_payload zone raw
      in if immutable \<noteq> [] then Inl (WsRefusal 422 ''immutable_field'' (mark ''immutable_field'' immutable))
         else if bad \<noteq> [] then Inl (WsRefusal 400 ''invalid_fields'' bad)
         else if v_errors v \<noteq> [] then Inl (WsRefusal 422 ''validation_error'' (v_errors v))
         else update_workspace b q w t (normalized_payload v) db)"

section \<open>Archiving and restoring\<close>

definition status_entry :: "string \<Rightarrow> string option \<Rightarrow> dict" where
  "status_entry s reason = [(''status'', PStr s), (''status_reason'', text_or_null reason)]"

definition workspace_status_audit :: "request \<Rightarrow> string \<Rightarrow> WorkspaceRow \<Rightarrow> WorkspaceRow \<Rightarrow> WorkspaceAudit" where
  "workspace_status_audit q action r r' =
     \<lparr>wa_tenant = wk_tenant r, wa_workspace = wk_id r, wa_action = action, wa_actor = rq_actor q, wa_role = rq_role q,
      wa_previous = Some (status_entry (wk_status r) (wk_reason r)), wa_new = status_entry (wk_status r') (wk_reason r')\<rparr>"

definition archive_workspace :: "write_outcome \<Rightarrow> request \<Rightarrow> uuid \<Rightarrow> uuid \<Rightarrow> dict \<Rightarrow> plane \<Rightarrow> workspace_error + plane" where
  "archive_workspace b q w t raw db =
     (case find_workspace_row w t db of
        None \<Rightarrow> Inl WsNotFound
      | Some r \<Rightarrow>
          if wk_status r \<noteq> ''active'' then Inl WsForbiddenTransition
          else (case validate_status_reason (dict_get raw ''status_reason'' PNone) of (errors, reason) \<Rightarrow>
            if errors \<noteq> [] then Inl (WsInvalid errors)
            else if count_active_workspaces t db = 1 \<and> dict_get raw ''confirm_last_workspace'' (PBool False) \<noteq> PBool True
            then Inl WsLastActive
            else let r' = touch_workspace q ''archived'' reason r
                 in bind (save_workspace r' db) (write_audit b (workspace_status_audit q ''workspace_archived'' r r'))))"

definition restore_workspace :: "write_outcome \<Rightarrow> request \<Rightarrow> uuid \<Rightarrow> uuid \<Rightarrow> plane \<Rightarrow> workspace_error + plane" where
  "restore_workspace b q w t db =
     (case find_workspace_row w t db of
        None \<Rightarrow> Inl WsNotFound
      | Some r \<Rightarrow>
          if wk_status r \<noteq> ''archived'' then Inl WsForbiddenTransition
          else bind (active_tenant t db) (\<lambda>_.
            let r' = touch_workspace q ''active'' None r
            in bind (save_workspace r' db) (write_audit b (workspace_status_audit q ''workspace_restored'' r r'))))"

definition post_archive :: "write_outcome \<Rightarrow> request \<Rightarrow> uuid \<Rightarrow> uuid \<Rightarrow> dict \<Rightarrow> plane \<Rightarrow> workspace_error + plane" where
  "post_archive b q w t raw db =
     (let unknown = detect_unknown_fields raw archive_allowed_fields
      in if unknown \<noteq> [] then Inl (WsRefusal 400 ''unknown_field'' (mark ''unknown_field'' unknown))
         else if has_key raw ''confirm_last_workspace'' \<and> \<not> is_bool (dict_get raw ''confirm_last_workspace'' PNone)
         then Inl (WsRefusal 400 ''invalid_field_type'' [(''confirm_last_workspace'', ''invalid_field_type'')])
         else archive_workspace b q w t raw db)"

end
