(* ===== verification/OutboxPoller.thy ===== *)
theory OutboxPoller
  imports WorkspaceService
begin

text \<open>
  \<open>OutboxPoller\<close> of \<open>app/services/tenants/outbox.py\<close>: the background task that delivers the events of
  \<open>control.outbox_events\<close> to the session manager.  Parameters of a cycle: the time, the rows another
  transaction has locked, and what comes of delivering a row.  Times are seconds.
\<close>

section \<open>A cycle\<close>

record poll_config =
  pc_batch :: nat
  pc_max :: nat
  pc_sla :: nat

definition default_config :: poll_config where
  "default_config = \<lparr>pc_batch = 50, pc_max = 5, pc_sla = 30\<rparr>"

text \<open>
  \<open>Delivered\<close>: the call returned and the mark was committed.  \<open>Refused\<close>: one of them raised, with this text,
  and the retry was counted.  \<open>Lost\<close>: the retry could not be counted either.
\<close>

datatype delivery = Delivered | Refused string | Lost

record poll_env =
  pe_now :: nat
  pe_locked :: "uuid list"
  pe_deliver :: "OutboxEvent \<Rightarrow> delivery"

text \<open>The rows, the tenants whose deadline was missed, and the events reported to the operators.\<close>

record poll_state =
  po_events :: "OutboxEvent list"
  po_breaches :: "uuid list"
  po_critical :: "uuid list"

definition awaits_delivery :: "poll_config \<Rightarrow> OutboxEvent \<Rightarrow> bool" where
  "awaits_delivery c e \<longleftrightarrow> \<not> oe_delivered e \<and> oe_retries e < pc_max c"

definition poll_batch :: "poll_config \<Rightarrow> poll_env \<Rightarrow> OutboxEvent list \<Rightarrow> OutboxEvent list" where
  "poll_batch c env evs =
     take (pc_batch c) (sort_key oe_at (filter (\<lambda>e. awaits_delivery c e \<and> oe_id e \<notin> set (pe_locked env)) evs))"

definition mark_delivered :: "nat \<Rightarrow> OutboxEvent \<Rightarrow> OutboxEvent" where
  "mark_delivered now e = e\<lparr>oe_delivered := True, oe_delivered_at := Some now\<rparr>"

definition increment_retry :: "string \<Rightarrow> OutboxEvent \<Rightarrow> OutboxEvent" where
  "increment_retry err e = e\<lparr>oe_retries := oe_retries e + 1, oe_error := Some (take 1000 err)\<rparr>"

definition process_row :: "poll_config \<Rightarrow> poll_env \<Rightarrow> OutboxEvent \<Rightarrow> poll_state \<Rightarrow> poll_state" where
  "process_row c env row st =
     (let st1 = (if oe_at row + pc_sla c < pe_now env then st\<lparr>po_breaches := po_breaches st @ [oe_tenant row]\<rparr> else st);
          write = (\<lambda>f. st1\<lparr>po_events := update_where (\<lambda>e. oe_id e = oe_id row) f (po_events st1)\<rparr>)
      in if pc_max c \<le> oe_retries row then st1\<lparr>po_critical := po_critical st1 @ [oe_id row]\<rparr>
         else case pe_deliver env row of
                Delivered \<Rightarrow> write (mark_delivered (pe_now env))
              | Refused err \<Rightarrow> write (increment_retry err)
              | Lost \<Rightarrow> st1)"

definition poll_cycle :: "poll_config \<Rightarrow> poll_env \<Rightarrow> poll_state \<Rightarrow> poll_state" where
  "poll_cycle c env st = fold (process_row c env) (poll_batch c env (po_events st)) st"

text \<open>The loop of the thread; \<open>None\<close> is a cycle that raised before it changed anything.\<close>

fun run_loop :: "poll_config \<Rightarrow> poll_env option list \<Rightarrow> poll_state \<Rightarrow> poll_state" where
  "run_loop c [] st = st"
| "run_loop c (None # envs) st = run_loop c envs st"
| "run_loop c (Some env # envs) st = run_loop c envs (poll_cycle c env st)"

section \<open>What a row of a cycle does\<close>

lemma poll_batchD: "e \<in> set (poll_batch c env evs) \<Longrightarrow> e \<in> set evs \<and> awaits_delivery c e"
  by (auto simp: poll_batch_def dest: in_set_takeD)

text \<open>The rows change in place: a row is marked, counted up or kept.\<close>

definition progressed :: "OutboxEvent \<Rightarrow> OutboxEvent \<Rightarrow> bool" where
  "progressed e e' \<longleftrightarrow> oe_id e' = oe_id e \<and> oe_tenant e' = oe_tenant e \<and> oe_type e' = oe_type e \<and> oe_payload e' = oe_payload e \<and>
     oe_at e' = oe_at e \<and> oe_retries e \<le> oe_retries e' \<and> (oe_delivered e \<longrightarrow> oe_delivered e')"

lemma progressed_refl [simp]: "progressed e e"
  by (simp add: progressed_def)

lemma progressed_trans: "progressed a b \<Longrightarrow> progressed b c \<Longrightarrow> progressed a c"
  by (auto simp: progressed_def)

lemma all_progressed_refl [simp]: "list_all2 progressed evs evs"
  by (simp add: list_all2_refl)

lemma all_progressed_trans: "list_all2 progressed a b \<Longrightarrow> list_all2 progressed b c \<Longrightarrow> list_all2 progressed a c"
  by (rule list_all2_trans[OF progressed_trans])

lemma process_row_progress: "list_all2 progressed (po_events st) (po_events (process_row c env row st))"
  by (auto simp: process_row_def Let_def update_where_def mark_delivered_def increment_retry_def progressed_def
      list_all2_conv_all_nth split: delivery.splits)

lemma fold_progress: "list_all2 progressed (po_events st) (po_events (fold (process_row c env) rows st))"
proof (induction rows arbitrary: st)
  case (Cons row rows)
  show ?case using all_progressed_trans[OF process_row_progress Cons.IH] by simp
qed simp

lemma poll_cycle_progress: "list_all2 progressed (po_events st) (po_events (poll_cycle c env st))"
  by (simp add: poll_cycle_def fold_progress)

lemma run_loop_progress: "list_all2 progressed (po_events st) (po_events (run_loop c envs st))"
proof (induction c envs st rule: run_loop.induct)
  case (3 c env envs st)
  show ?case using all_progressed_trans[OF poll_cycle_progress 3] by simp
qed simp_all

section \<open>Reports\<close>

lemma process_row_critical: "oe_retries row < pc_max c \<Longrightarrow> po_critical (process_row c env row st) = po_critical st"
  by (auto simp: process_row_def Let_def split: delivery.splits)

lemma poll_cycle_critical: "po_critical (poll_cycle c env st) = po_critical st"
proof -
  have "\<forall>r \<in> set rows. oe_retries r < pc_max c \<Longrightarrow> po_critical (fold (process_row c env) rows s) = po_critical s" for rows s
    by (induction rows arbitrary: s) (simp_all add: process_row_critical)
  moreover have "\<forall>r \<in> set (poll_batch c env (po_events st)). oe_retries r < pc_max c"
    by (auto simp: awaits_delivery_def dest: poll_batchD)
  ultimately show ?thesis by (simp add: poll_cycle_def)
qed

section \<open>The remaining work\<close>

definition tries_left :: "poll_config \<Rightarrow> OutboxEvent \<Rightarrow> nat" where
  "tries_left c e = (if oe_delivered e then 0 else pc_max c - oe_retries e)"

definition work :: "poll_config \<Rightarrow> OutboxEvent list \<Rightarrow> nat" where
  "work c evs = sum_list (map (tries_left c) evs)"

lemma work_le: "list_all2 progressed a b \<Longrightarrow> work c b \<le> work c a"
  by (induction rule: list_all2_induct) (auto simp: work_def tries_left_def progressed_def)

lemma work_less:
  assumes "e \<in> set evs" and "tries_left c (f e) < tries_left c e" and "p e" and "\<And>x. tries_left c (f x) \<le> tries_left c x"
  shows "work c (update_where p f evs) < work c evs"
proof -
  have "sum_list (map (\<lambda>x. tries_left c (if p x then f x else x)) evs) < sum_list (map (tries_left c) evs)"
    using assms(1)
  proof (induction evs)
    case (Cons a evs)
    have "sum_list (map (\<lambda>x. tries_left c (if p x then f x else x)) evs) \<le> sum_list (map (tries_left c) evs)"
      by (rule sum_list_mono) (simp add: assms(4))
    with Cons assms(2-4) show ?case by (auto simp: add_le_less_mono add_less_le_mono)
  qed simp
  then show ?thesis by (simp add: work_def update_where_def comp_def)
qed

lemma process_row_works:
  assumes "row \<in> set (po_events st)" and "awaits_delivery c row" and "pe_deliver env row \<noteq> Lost"
  shows "work c (po_events (process_row c env row st)) < work c (po_events st)"
proof -
  have less: "tries_left c (f row) < tries_left c row \<and> (\<forall>x. tries_left c (f x) \<le> tries_left c x)"
    if "f = mark_delivered (pe_now env) \<or> f = increment_retry err" for f err
    using that assms(2) by (auto simp: tries_left_def awaits_delivery_def mark_delivered_def increment_retry_def)
  have "\<not> pc_max c \<le> oe_retries row" using assms(2) by (simp add: awaits_delivery_def)
  then show ?thesis using assms(1,3) less
    by (auto simp: process_row_def Let_def intro!: work_less split: delivery.splits)
qed

lemma poll_cycle_works:
  assumes "poll_batch c env (po_events st) \<noteq> []" and "\<forall>e. pe_deliver env e \<noteq> Lost"
  shows "work c (po_events (poll_cycle c env st)) < work c (po_events st)"
proof -
  obtain row rows where b: "poll_batch c env (po_events st) = row # rows" using assms(1) by (cases "poll_batch c env (po_events st)") auto
  then have "row \<in> set (po_events st) \<and> awaits_delivery c row" using poll_batchD[of row c env "po_events st"] by simp
  then have "work c (po_events (process_row c env row st)) < work c (po_events st)"
    using assms(2) by (auto intro: process_row_works)
  moreover have "work c (po_events (fold (process_row c env) rows s)) \<le> work c (po_events s)" for s
    by (rule work_le[OF fold_progress])
  ultimately show ?thesis by (simp add: poll_cycle_def b) (blast intro: le_less_trans)
qed

lemma poll_batch_Nil:
  assumes "0 < pc_batch c" and "pe_locked env = []"
  shows "poll_batch c env evs = [] \<longleftrightarrow> (\<forall>e \<in> set evs. \<not> awaits_delivery c e)"
proof -
  have "sort_key oe_at xs = [] \<longleftrightarrow> xs = []" for xs :: "OutboxEvent list"
    by (metis set_empty set_sort)
  then show ?thesis using assms by (auto simp: poll_batch_def filter_empty_conv)
qed

text \<open>A cycle that can work: nothing is locked and a refusal can be counted.\<close>

definition undisturbed :: "poll_env option \<Rightarrow> bool" where
  "undisturbed env = (case env of None \<Rightarrow> False | Some e \<Rightarrow> pe_locked e = [] \<and> (\<forall>x. pe_deliver e x \<noteq> Lost))"

lemma work_0: "work c evs = 0 \<longleftrightarrow> (\<forall>e \<in> set evs. \<not> awaits_delivery c e)"
  by (induction evs) (auto simp: work_def tries_left_def awaits_delivery_def)

lemma undisturbed_cycle:
  assumes "0 < pc_batch c" and "undisturbed (Some env)"
  shows "work c (po_events (poll_cycle c env st)) \<le> work c (po_events st) - 1"
proof (cases "poll_batch c env (po_events st) = []")
  case True
  then have "work c (po_events st) = 0" using assms by (simp add: undisturbed_def poll_batch_Nil work_0)
  then show ?thesis using work_le[OF poll_cycle_progress, of c c env st] by simp
next
  case False
  then show ?thesis using poll_cycle_works[of c env st] assms by (auto simp: undisturbed_def)
qed

lemma run_loop_works:
  assumes "0 < pc_batch c"
  shows "work c (po_events (run_loop c envs st)) \<le> work c (po_events st) - length (filter undisturbed envs)"
  using assms
proof (induction c envs st rule: run_loop.induct)
  case (3 c env envs st)
  then show ?case
    using work_le[OF poll_cycle_progress, of c c env st] undisturbed_cycle[of c env st]
    by (cases "undisturbed (Some env)") auto
qed (simp_all add: undisturbed_def)

lemma work_bound: "work c evs \<le> pc_max c * length evs"
  by (induction evs) (auto simp: work_def tries_left_def)

section \<open>Properties\<close>

definition only_events :: "OutboxEvent list \<Rightarrow> poll_state" where
  "only_events evs = \<lparr>po_events = evs, po_breaches = [], po_critical = []\<rparr>"

text \<open>
  C32: the polling drains the outbox.  However the deliveries turn out, after five undisturbed cycles for each
  event (cycles in which no other transaction holds a row and a refusal can be counted) no event is left that
  the poller would still try: each is delivered or was refused five times.  Cycles that fail or are
  disturbed may come between them.
\<close>

theorem polling_drains_the_outbox:
  assumes "5 * length evs \<le> length (filter undisturbed envs)"
  shows "\<forall>e \<in> set (po_events (run_loop default_config envs (only_events evs))). oe_delivered e \<or> 5 \<le> oe_retries e"
proof -
  have "work default_config (po_events (run_loop default_config envs (only_events evs))) = 0"
    using run_loop_works[of default_config envs "only_events evs"] work_bound[of default_config evs] assms
    by (simp add: default_config_def only_events_def)
  then show ?thesis by (auto simp: work_0 awaits_delivery_def default_config_def)
qed

text \<open>
  C33: an event that can never be delivered is dropped without a word.  No cycle reports an event to the
  operators, whatever is in the outbox, because the query leaves out the events whose tries are used up
  and the report is made for such events only; and an event whose tries are used up is never tried again.
\<close>

theorem exhausted_events_are_never_reported:
  assumes "e \<in> set (po_events st)" and "pc_max c \<le> oe_retries e" and "distinct (map oe_id (po_events st))"
  shows "po_critical (run_loop c envs st) = po_critical st \<and> e \<in> set (po_events (run_loop c envs st))"
proof (intro conjI)
  show "po_critical (run_loop c envs st) = po_critical st"
    by (induction c envs st rule: run_loop.induct) (simp_all add: poll_cycle_critical)
  show "e \<in> set (po_events (run_loop c envs st))" using assms
  proof (induction c envs st rule: run_loop.induct)
    case (3 c env envs st)
    let ?batch = "poll_batch c env (po_events st)"
    have other: "oe_id r \<noteq> oe_id e" if "r \<in> set ?batch" for r
      using poll_batchD[OF that] "3.prems" by (auto simp: awaits_delivery_def distinct_map inj_on_def)
    have "e \<in> set (po_events (fold (process_row c env) rows s))"
      if "\<forall>r \<in> set rows. oe_id r \<noteq> oe_id e" "e \<in> set (po_events s)" for rows s
      using that
    proof (induction rows arbitrary: s)
      case (Cons r rows)
      have "e \<in> set (po_events (process_row c env r s))"
        using Cons.prems by (auto simp: process_row_def Let_def image_iff split: delivery.splits intro!: bexI[of _ e])
      then show ?case using Cons by simp
    qed simp
    then have "e \<in> set (po_events (poll_cycle c env st))" using other "3.prems" by (simp add: poll_cycle_def)
    moreover have "map oe_id (po_events (poll_cycle c env st)) = map oe_id (po_events st)"
      using poll_cycle_progress[of st c env]
      by (auto simp: list_all2_conv_all_nth progressed_def intro!: nth_equalityI)
    ultimately show ?case using "3.IH" "3.prems" by simp
  qed simp_all
qed

definition lost_event :: OutboxEvent where
  "lost_event = \<lparr>oe_id = 1, oe_type = ''tenant_suspended'', oe_tenant = 2, oe_payload = [], oe_at = 0, oe_delivered = False,
     oe_delivered_at = None, oe_retries = 0, oe_error = None\<rparr>"

definition refusing :: "poll_env option" where
  "refusing = Some \<lparr>pe_now = 60, pe_locked = [], pe_deliver = (\<lambda>_. Refused ''down'')\<rparr>"

lemma refusing_undisturbed: "undisturbed refusing"
  by (simp add: undisturbed_def refusing_def)

lemma polling_drains_the_outbox_witness:
  "list_all (\<lambda>e. oe_delivered e \<or> 5 \<le> oe_retries e)
     (po_events (run_loop default_config (replicate 5 refusing) (only_events [lost_event])))"
  using polling_drains_the_outbox[of "[lost_event]" "replicate 5 refusing"] by (simp add: refusing_undisturbed list_all_iff)

lemma exhausted_events_are_never_reported_witness:
  "let st = only_events [lost_event\<lparr>oe_retries := 5\<rparr>]; st' = run_loop default_config [refusing] st
   in po_critical st' = [] \<and> lost_event\<lparr>oe_retries := 5\<rparr> \<in> set (po_events st')"
  using exhausted_events_are_never_reported[of "lost_event\<lparr>oe_retries := 5\<rparr>" "only_events [lost_event\<lparr>oe_retries := 5\<rparr>]"
      default_config "[refusing]"]
  by (simp add: only_events_def default_config_def)

end
