(* ===== verification/PlaneSteps.thy ===== *)
theory PlaneSteps
  imports OutboxPoller
begin

text \<open>
  The life of the control plane: every request of the tenant and workspace handlers and every cycle of the
  poller is a step, and the states reached from the empty tables are the ones the program can be in.  Each operation is
  described by what it changes when it succeeds.
\<close>

section \<open>Steps\<close>

definition empty_plane :: plane where
  "empty_plane = \<lparr>pl_tenants = [], pl_workspaces = [], pl_audit = [], pl_outbox = [], pl_ws_audit = [], pl_admins = []\<rparr>"

text \<open>The identifiers that a request draws are new.\<close>

inductive plane_step :: "plane \<Rightarrow> plane \<Rightarrow> bool" where
  step_create: "\<lbrakk>post_tenant b q body db = Inr db'; rq_row q \<notin> tn_id ` set (pl_tenants db)\<rbrakk> \<Longrightarrow> plane_step db db'"
| step_patch: "patch_tenant b q t patch db = Inr db' \<Longrightarrow> plane_step db db'"
| step_status: "post_status b q t request db = Inr db' \<Longrightarrow> plane_step db db'"
| step_delete: "hard_delete b t db = Inr db' \<Longrightarrow> plane_step db db'"
| step_workspace: "\<lbrakk>post_workspace zone stamp stranger w q own raw db = Inr db'; rq_row q \<notin> wk_id ` set (pl_workspaces db)\<rbrakk> \<Longrightarrow>
    plane_step db db'"
| step_rename: "patch_workspace zone w q i t raw db = Inr db' \<Longrightarrow> plane_step db db'"
| step_archive: "post_archive w q i t raw db = Inr db' \<Longrightarrow> plane_step db db'"
| step_restore: "restore_workspace w q i t db = Inr db' \<Longrightarrow> plane_step db db'"
| step_poll: "plane_step db (db\<lparr>pl_outbox := po_events (poll_cycle c env (only_events (pl_outbox db)))\<rparr>)"

inductive plane_reachable :: "plane \<Rightarrow> bool" where
  plane_empty: "plane_reachable empty_plane"
| plane_next: "plane_reachable db \<Longrightarrow> plane_step db db' \<Longrightarrow> plane_reachable db'"

section \<open>What the operations change\<close>

lemma bind_InrE: "bind a f = Inr y \<Longrightarrow> (\<And>x. a = Inr x \<Longrightarrow> f x = Inr y \<Longrightarrow> P) \<Longrightarrow> P"
  by (auto simp: bind_Inr_iff)

lemma post_tenantE:
  assumes "post_tenant b q body db = Inr db'"
  obtains c where "read_tenant_body body = Inr c" "\<not> check_name_exists (ct_name c) db" "\<not> check_slug_exists (ct_slug c) db"
    "db' = db\<lparr>pl_tenants := pl_tenants db @ [new_tenant q c], pl_audit := pl_audit db @ [created_audit q c]\<rparr>"
  using assms by (auto simp: post_tenant_def create_tenant_def split: if_splits elim!: bind_InrE)

lemma lock_tenant_Inr: "lock_tenant b t db = Inr row \<Longrightarrow> row = find_tenant t db"
  by (auto simp: lock_tenant_def split: if_splits)

lemma update_tenantE:
  assumes "update_tenant b q t fs db = Inr db'"
  obtains r cs previous new where "find_tenant t db = Some r" "tn_status r \<noteq> ''archived''" "reason_guard (tn_status r) fs = None"
    "build_change_set fs r = (cs, previous, new)"
    "\<And>n. NewName n \<in> set cs \<Longrightarrow> \<not> check_name_exists_excluding n t db"
    "db' = db\<lparr>pl_tenants := update_where (\<lambda>x. tn_id x = t) (changed_tenant q cs) (pl_tenants db),
              pl_audit := pl_audit db @ [updated_audit q t previous new]\<rparr>"
proof -
  obtain row where row: "lock_tenant b t db = Inr row" using assms by (auto simp: update_tenant_def elim!: bind_InrE)
  with assms lock_tenant_Inr[OF row] obtain r where r: "find_tenant t db = Some r"
    by (cases "find_tenant t db") (auto simp: update_tenant_def)
  obtain cs previous new where b: "build_change_set fs r = (cs, previous, new)" by (cases "build_change_set fs r") auto
  show thesis
    by (rule that[OF r _ _ b]) (use assms row lock_tenant_Inr[OF row] r b in
      \<open>auto simp: update_tenant_def split: if_splits option.splits tenant_change.splits\<close>)
qed

definition restatus :: "request \<Rightarrow> string \<Rightarrow> string option \<Rightarrow> TenantRow \<Rightarrow> TenantRow" where
  "restatus q target reason x =
     x\<lparr>tn_status := target, tn_reason := reason, tn_updated := rq_now q, tn_updated_by := rq_actor q, tn_version := tn_version x + 1\<rparr>"

lemma post_statusE:
  assumes "post_status b q t request db = Inr db'"
  obtains r target reason given where "\<exists>raw v. request = Some (raw, v) \<and> target = lower (stripped raw)"
    "find_tenant t db = Some r" "target \<noteq> tn_status r" "may_become (tn_status r) target"
    "transition_reason target given = Inr reason"
    "db' = db\<lparr>pl_tenants := update_where (\<lambda>x. tn_id x = t) (restatus q target reason) (pl_tenants db),
              pl_audit := pl_audit db @ [status_audit q r target reason],
              pl_outbox := pl_outbox db @ (if target = ''suspended'' then [suspended_event q t] else []),
              pl_workspaces := cascade q t (tn_status r) target reason (pl_workspaces db)\<rparr>"
proof -
  obtain target given where change: "change_status b q t target given db = Inr db'"
    and asked: "\<exists>raw v. request = Some (raw, v) \<and> target = lower (stripped raw)"
    using assms by (auto simp: post_status_def Let_def split: option.splits if_splits prod.splits)
  then obtain row where row: "lock_tenant b t db = Inr row" by (auto simp: change_status_def elim!: bind_InrE)
  with change lock_tenant_Inr[OF row] obtain r where r: "find_tenant t db = Some r"
    by (cases "find_tenant t db") (auto simp: change_status_def)
  have row': "row = Some r" using lock_tenant_Inr[OF row] r by simp
  have "(\<lambda>x. x\<lparr>tn_status := target, tn_reason := reason, tn_updated := rq_now q, tn_updated_by := rq_actor q,
      tn_version := tn_version x + 1\<rparr>) = restatus q target reason" for reason
    by (simp add: fun_eq_iff restatus_def)
  note restatus = this
  note c = change[unfolded change_status_def row row' bind_simps option.case restatus]
  have ne: "tn_status r \<noteq> target" using c by (cases "tn_status r = target") simp_all
  have may: "may_become (tn_status r) target" using c ne by (cases "may_become (tn_status r) target") simp_all
  obtain reason where reason: "transition_reason target given = Inr reason"
    using c ne may by (cases "transition_reason target given") simp_all
  from ne may reason have ok: "target \<noteq> tn_status r" "may_become (tn_status r) target" "transition_reason target given = Inr reason"
    by simp_all
  have db': "db' = db\<lparr>pl_tenants := update_where (\<lambda>x. tn_id x = t) (restatus q target reason) (pl_tenants db),
              pl_audit := pl_audit db @ [status_audit q r target reason],
              pl_outbox := pl_outbox db @ (if target = ''suspended'' then [suspended_event q t] else []),
              pl_workspaces := cascade q t (tn_status r) target reason (pl_workspaces db)\<rparr>"
    using c ne may by (cases "b = WriteFails") (simp_all add: reason)
  show thesis by (rule that[OF asked r ok db'])
qed

definition restatused :: "request \<Rightarrow> TenantRow \<Rightarrow> string \<Rightarrow> string option \<Rightarrow> plane \<Rightarrow> plane" where
  "restatused q r target reason db = db\<lparr>pl_tenants := update_where (\<lambda>x. tn_id x = tn_id r) (restatus q target reason) (pl_tenants db),
     pl_audit := pl_audit db @ [status_audit q r target reason],
     pl_outbox := pl_outbox db @ (if target = ''suspended'' then [suspended_event q (tn_id r)] else []),
     pl_workspaces := cascade q (tn_id r) (tn_status r) target reason (pl_workspaces db)\<rparr>"

lemma post_status_Inr:
  assumes "lower (stripped raw) = target" and "find_tenant t db = Some r" and "target \<in> set VALID_TARGET_STATUSES" and
    "target \<noteq> []" and "tn_status r \<noteq> target" and "may_become (tn_status r) target" and
    "transition_reason target (if stripped v = [] then None else Some (stripped v)) = Inr reason"
  shows "post_status Works q t (Some (raw, v)) db = Inr (restatused q r target reason db)"
proof -
  have "tn_id r = t" using assms(2) by (auto simp: find_tenant_def dest: find_SomeD)
  then show ?thesis using assms
    by (simp add: post_status_def change_status_def lock_tenant_def restatused_def restatus_def[abs_def] Let_def)
qed

lemma hard_deleteE:
  assumes "hard_delete b t db = Inr db'"
  obtains r where "find_tenant t db = Some r" "pl_tenants db' = delete_where (\<lambda>r. tn_id r = t) (pl_tenants db)"
    "set (pl_workspaces db') \<subseteq> {w \<in> set (pl_workspaces db). wk_tenant w \<noteq> t}"
    "\<exists>p. pl_workspaces db' = filter p (pl_workspaces db)"
    "pl_audit db' = delete_where (\<lambda>a. ta_tenant a = t) (pl_audit db)"
    "pl_outbox db' = delete_where (\<lambda>e. oe_tenant e = t) (pl_outbox db)"
  using assms by (auto simp: hard_delete_def Let_def delete_where_def split: option.splits if_splits intro!: that)


lemma saved_InrE:
  assumes "bind (save_workspace r' db) (write_audit b a) = Inr db'"
  obtains "\<And>x. x \<in> set (pl_workspaces db) \<Longrightarrow> wk_id x \<noteq> wk_id r' \<Longrightarrow> wk_tenant x = wk_tenant r' \<Longrightarrow>
      name_lower (wk_name x) \<noteq> name_lower (wk_name r') \<and> wk_slug x \<noteq> wk_slug r'"
    "db' = db\<lparr>pl_workspaces :=
         update_where (\<lambda>x. wk_id x = wk_id r' \<and> wk_tenant x = wk_tenant r') (\<lambda>_. r') (pl_workspaces db),
       pl_ws_audit := pl_ws_audit db @ [a]\<rparr>"
  using assms by (auto simp: save_workspace_def write_audit_def elim!: bind_InrE split: if_splits)

lemma active_tenant_Inr: "active_tenant t db = Inr u \<longleftrightarrow> (\<exists>r. find_tenant t db = Some r \<and> tn_status r = ''active'')"
  by (auto simp: active_tenant_def split: option.splits)

lemma post_workspaceE:
  assumes "post_workspace zone stamp stranger w q own raw db = Inr db'"
  obtains t d r a adm where "find_tenant t db = Some r" "tn_status r = ''active''"
    "\<not> name_taken t (wk_name (new_workspace q t d)) db" "\<not> slug_taken t (wk_slug (new_workspace q t d)) db"
    "db' = db\<lparr>pl_workspaces := pl_workspaces db @ [new_workspace q t d], pl_admins := adm, pl_ws_audit := a\<rparr>"
proof -
  obtain t p where "create_workspace zone stamp w q t p db = Inr db'"
    using assms by (auto simp: post_workspace_def Let_def elim!: bind_InrE split: if_splits)
  moreover define d where "d = normalized_payload (validate_create_payload zone p)"
  moreover have "wk_tenant (new_workspace q t d) = t" by (simp add: new_workspace_def)
  ultimately obtain r where "find_tenant t db = Some r" "tn_status r = ''active''" and
    rest: "\<not> name_taken t (wk_name (new_workspace q t d)) db" "\<not> slug_taken t (wk_slug (new_workspace q t d)) db"
      "\<exists>adm a. db' = db\<lparr>pl_workspaces := pl_workspaces db @ [new_workspace q t d], pl_admins := adm, pl_ws_audit := a\<rparr>"
    by (fastforce simp: create_workspace_def insert_workspace_def write_audit_def active_tenant_Inr Let_def
        elim!: bind_InrE split: if_splits)
  with that show thesis by blast
qed

lemma fold_set_workspace_field:
  "wk_id (fold set_workspace_field d r) = wk_id r" "wk_tenant (fold set_workspace_field d r) = wk_tenant r"
  "wk_slug (fold set_workspace_field d r) = wk_slug r" "wk_status (fold set_workspace_field d r) = wk_status r"
  "wk_reason (fold set_workspace_field d r) = wk_reason r" "wk_updated_by (fold set_workspace_field d r) = wk_updated_by r"
  by (induction d arbitrary: r) (auto simp: set_workspace_field_def Let_def split: prod.splits)

lemma changed_workspace_simps [simp]:
  "wk_id (changed_workspace q d r) = wk_id r" "wk_tenant (changed_workspace q d r) = wk_tenant r"
  "wk_slug (changed_workspace q d r) = wk_slug r" "wk_status (changed_workspace q d r) = wk_status r"
  "wk_reason (changed_workspace q d r) = wk_reason r" "wk_updated_by (changed_workspace q d r) = wk_updated_by r"
  by (simp_all add: changed_workspace_def fold_set_workspace_field)

lemma touch_workspace_simps [simp]:
  "wk_id (touch_workspace q s v r) = wk_id r" "wk_tenant (touch_workspace q s v r) = wk_tenant r"
  "wk_slug (touch_workspace q s v r) = wk_slug r" "wk_name (touch_workspace q s v r) = wk_name r"
  "wk_status (touch_workspace q s v r) = s" "wk_reason (touch_workspace q s v r) = v"
  by (simp_all add: touch_workspace_def)

lemma find_workspace_row_ids: "find_workspace_row i t db = Some r \<Longrightarrow> wk_id r = i \<and> wk_tenant r = t \<and> r \<in> set (pl_workspaces db)"
  by (auto simp: find_workspace_row_def dest: find_SomeD)

lemma patch_workspaceE:
  assumes "patch_workspace zone b q i t raw db = Inr db'"
  obtains "db' = db" |
    r d a tr where "find_workspace_row i t db = Some r" "find_tenant t db = Some tr" "tn_status tr = ''active''"
      "bind (save_workspace (changed_workspace q d r) db) (write_audit b a) = Inr db'"
proof -
  have "update_workspace b q i t (normalized_payload (validate_update_payload zone raw)) db = Inr db'"
    using assms by (simp add: patch_workspace_def Let_def split: if_splits)
  then obtain r tr where "find_workspace_row i t db = Some r" "find_tenant t db = Some tr" "tn_status tr = ''active''"
    and "db' = db \<or> (\<exists>d a. bind (save_workspace (changed_workspace q d r) db) (write_audit b a) = Inr db')"
    by (fastforce simp: update_workspace_def active_tenant_Inr elim!: bind_InrE[of "active_tenant t db"]
        split: if_splits option.splits)
  with that show thesis by blast
qed

definition reason_given :: "string option \<Rightarrow> bool" where
  "reason_given v = (case v of None \<Rightarrow> False | Some s \<Rightarrow> 10 \<le> length s \<and> length s \<le> 500)"

lemma validate_status_reason_given: "validate_status_reason v = ([], reason) \<Longrightarrow> reason_given reason"
  by (auto simp: validate_status_reason_def reason_given_def err_when_def Let_def split: pyval.splits if_splits)

lemma post_archiveE:
  assumes "post_archive b q i t raw db = Inr db'"
  obtains r reason a where "find_workspace_row i t db = Some r" "wk_status r = ''active''" "reason_given reason"
      "bind (save_workspace (touch_workspace q ''archived'' reason r) db) (write_audit b a) = Inr db'"
      "count_active_workspaces t db = 1 \<longrightarrow> dict_get raw ''confirm_last_workspace'' (PBool False) = PBool True"
  using assms by (auto simp: post_archive_def archive_workspace_def Let_def split: if_splits option.splits prod.splits
      dest: validate_status_reason_given)

lemma restore_workspaceE:
  assumes "restore_workspace b q i t db = Inr db'"
  obtains r a tr where "find_workspace_row i t db = Some r" "wk_status r = ''archived''" "find_tenant t db = Some tr"
      "tn_status tr = ''active''"
      "bind (save_workspace (touch_workspace q ''active'' None r) db) (write_audit b a) = Inr db'"
  using assms by (auto simp: restore_workspace_def Let_def active_tenant_Inr elim!: bind_InrE split: if_splits option.splits)

text \<open>The three requests that save one workspace.\<close>

definition saves :: "WorkspaceRow \<Rightarrow> WorkspaceRow \<Rightarrow> plane \<Rightarrow> plane \<Rightarrow> bool" where
  "saves r r' db db' \<longleftrightarrow> r \<in> set (pl_workspaces db) \<and> wk_id r' = wk_id r \<and> wk_tenant r' = wk_tenant r \<and> wk_slug r' = wk_slug r \<and>
     (\<forall>x \<in> set (pl_workspaces db). wk_id x \<noteq> wk_id r' \<longrightarrow> wk_tenant x = wk_tenant r' \<longrightarrow>
        name_lower (wk_name x) \<noteq> name_lower (wk_name r')) \<and>
     (wk_status r' = wk_status r \<and> wk_reason r' = wk_reason r \<or>
      wk_status r = ''active'' \<and> wk_status r' = ''archived'' \<and> reason_given (wk_reason r') \<or>
      wk_status r = ''archived'' \<and> wk_status r' = ''active'' \<and> wk_reason r' = None \<and>
        (\<exists>tr. find_tenant (wk_tenant r) db = Some tr \<and> tn_status tr = ''active'')) \<and>
     (\<exists>a. db' = db\<lparr>pl_workspaces :=
         update_where (\<lambda>x. wk_id x = wk_id r \<and> wk_tenant x = wk_tenant r) (\<lambda>_. r') (pl_workspaces db), pl_ws_audit := a\<rparr>)"

lemma workspace_requests_save:
  assumes "patch_workspace zone w q i t raw db = Inr db' \<or> post_archive w q i t raw db = Inr db' \<or>
    restore_workspace w q i t db = Inr db'"
  shows "db' = db \<or> (\<exists>r r'. saves r r' db db')"
proof -
  have "\<exists>r r'. saves r r' db db'"
    if f: "find_workspace_row i t db = Some r" and s: "bind (save_workspace r' db) (write_audit w a) = Inr db'"
      and k: "wk_id r' = wk_id r" "wk_tenant r' = wk_tenant r" "wk_slug r' = wk_slug r"
      and st: "wk_status r' = wk_status r \<and> wk_reason r' = wk_reason r \<or>
        wk_status r = ''active'' \<and> wk_status r' = ''archived'' \<and> reason_given (wk_reason r') \<or>
        wk_status r = ''archived'' \<and> wk_status r' = ''active'' \<and> wk_reason r' = None \<and>
        (\<exists>tr. find_tenant (wk_tenant r) db = Some tr \<and> tn_status tr = ''active'')"
    for r r' a
  proof -
    from s have "saves r r' db db'"
      using find_workspace_row_ids[OF f] k st by (elim saved_InrE) (auto simp: saves_def)
    then show ?thesis by blast
  qed
  note save = this
  from assms show ?thesis
  proof (elim disjE)
    assume "patch_workspace zone w q i t raw db = Inr db'"
    then show ?thesis by (elim patch_workspaceE) (auto dest: save)
  next
    assume "post_archive w q i t raw db = Inr db'"
    then show ?thesis by (elim post_archiveE) (auto dest: save)
  next
    assume "restore_workspace w q i t db = Inr db'"
    then obtain r a tr where f: "find_workspace_row i t db = Some r" and r: "wk_status r = ''archived''" "find_tenant t db = Some tr"
        "tn_status tr = ''active''" and s: "bind (save_workspace (touch_workspace q ''active'' None r) db) (write_audit w a) = Inr db'"
      by (rule restore_workspaceE)
    then show ?thesis using save[OF f s] find_workspace_row_ids[OF f] by simp
  qed
qed

lemma workspace_requests_frame:
  assumes "patch_workspace zone w q i t raw db = Inr db' \<or> post_archive w q i t raw db = Inr db' \<or>
    restore_workspace w q i t db = Inr db'"
  shows "pl_tenants db' = pl_tenants db \<and> pl_audit db' = pl_audit db \<and> pl_outbox db' = pl_outbox db"
proof -
  have "pl_tenants db' = pl_tenants db \<and> pl_audit db' = pl_audit db \<and> pl_outbox db' = pl_outbox db" if "saves r r' db db'" for r r'
    using that unfolding saves_def by (elim conjE exE) simp
  then show ?thesis using workspace_requests_save[OF assms] by blast
qed

end
