(* ===== verification/TenantSafety.thy ===== *)
theory TenantSafety
  imports PlaneSteps
begin

text \<open>
  What holds of tenants and workspaces in every reachable state: the keys are unique, the workspaces follow
  their tenant, a reason is given for whatever is not active, and the audit log tells the rows and the
  events of the outbox.
\<close>

section \<open>Unique keys\<close>

definition keys_unique :: "plane \<Rightarrow> bool" where
  "keys_unique db \<longleftrightarrow>
     distinct (map tn_id (pl_tenants db)) \<and> distinct (map (\<lambda>r. name_lower (tn_name r)) (pl_tenants db)) \<and>
     distinct (map tn_slug (pl_tenants db)) \<and> distinct (map wk_id (pl_workspaces db)) \<and>
     distinct (map (\<lambda>w. (wk_tenant w, name_lower (wk_name w))) (pl_workspaces db)) \<and>
     distinct (map (\<lambda>w. (wk_tenant w, wk_slug w)) (pl_workspaces db))"

lemma distinct_update_one:
  assumes "distinct (map i xs)" and "\<And>x. p x \<Longrightarrow> i x = t" and "distinct (map k xs)"
    and "\<And>x y. x \<in> set xs \<Longrightarrow> p x \<Longrightarrow> y \<in> set xs \<Longrightarrow> i y \<noteq> t \<Longrightarrow> k (f x) \<noteq> k y"
  shows "distinct (map k (update_where p f xs))"
  using assms
proof (induction xs)
  case (Cons a xs)
  have IH: "distinct (map k (update_where p f xs))" using Cons by simp
  show ?case
  proof (cases "p a")
    case True
    then have other: "i y \<noteq> t" if "y \<in> set xs" for y using Cons.prems(1,2) that by (force simp: image_iff)
    then have "\<not> p y" if "y \<in> set xs" for y using Cons.prems(2) that by blast
    then have "update_where p f xs = xs" by (simp add: update_where_def map_idI)
    with True other Cons.prems show ?thesis by (auto simp: update_where_def image_iff)
  next
    case False
    have "k a \<noteq> k (f y)" if "y \<in> set xs" "p y" for y
    proof -
      have "i a \<noteq> t" using Cons.prems(1,2) that by (force simp: image_iff)
      then show ?thesis using Cons.prems(4)[of y a] that by force
    qed
    with False IH Cons.prems(3) show ?thesis by (auto simp: update_where_def image_iff split: if_splits)
  qed
qed (simp add: update_where_def)

lemma fold_set_change [simp]:
  "tn_id (fold set_change cs r) = tn_id r" "tn_slug (fold set_change cs r) = tn_slug r"
  "tn_status (fold set_change cs r) = tn_status r" "tn_region (fold set_change cs r) = tn_region r"
proof -
  have one: "tn_id (set_change c r) = tn_id r \<and> tn_slug (set_change c r) = tn_slug r \<and> tn_status (set_change c r) = tn_status r \<and>
      tn_region (set_change c r) = tn_region r" for c r
    by (cases c) simp_all
  show "tn_id (fold set_change cs r) = tn_id r" "tn_slug (fold set_change cs r) = tn_slug r"
    "tn_status (fold set_change cs r) = tn_status r" "tn_region (fold set_change cs r) = tn_region r"
    by (induction cs arbitrary: r) (simp_all add: one)
qed

lemma fold_set_change_name: "tn_name (fold set_change cs r) = tn_name r \<or> NewName (tn_name (fold set_change cs r)) \<in> set cs"
proof (induction cs arbitrary: r)
  case (Cons c cs)
  have "tn_name (set_change c r) = tn_name r \<or> c = NewName (tn_name (set_change c r))" by (cases c) simp_all
  then show ?case using Cons[of "set_change c r"] by auto
qed simp

lemma changed_tenant_simps [simp]:
  "tn_id (changed_tenant q cs r) = tn_id r" "tn_slug (changed_tenant q cs r) = tn_slug r"
  "tn_status (changed_tenant q cs r) = tn_status r" "tn_name (changed_tenant q cs r) = tn_name (fold set_change cs r)"
  "tn_reason (changed_tenant q cs r) = tn_reason (fold set_change cs r)" "tn_region (changed_tenant q cs r) = tn_region r"
  "tn_plan (changed_tenant q cs r) = tn_plan (fold set_change cs r)"
  by (simp_all add: changed_tenant_def)

lemma restatus_simps [simp]:
  "tn_id (restatus q s v r) = tn_id r" "tn_slug (restatus q s v r) = tn_slug r" "tn_name (restatus q s v r) = tn_name r"
  "tn_status (restatus q s v r) = s" "tn_reason (restatus q s v r) = v" "tn_region (restatus q s v r) = tn_region r"
  "tn_plan (restatus q s v r) = tn_plan r"
  by (simp_all add: restatus_def)

text \<open>The bulk statements keep every key.\<close>

lemma cascade_map:
  assumes "\<And>w s v. k (touch_workspace q s v w) = k w"
  shows "map k (cascade q t s s' v ws) = map k ws"
  using assms by (auto simp: cascade_def Let_def bulk_suspend_by_tenant_def bulk_activate_by_tenant_def
      bulk_archive_by_tenant_def map_update_where)

lemma patch_tenantE:
  assumes "patch_tenant b q t body db = Inr db'"
  obtains fs r cs previous new where "read_patch body = Inr fs" "find_tenant t db = Some r" "tn_status r \<noteq> ''archived''"
    "reason_guard (tn_status r) fs = None" "build_change_set fs r = (cs, previous, new)"
    "\<And>n. NewName n \<in> set cs \<Longrightarrow> \<not> check_name_exists_excluding n t db"
    "db' = db\<lparr>pl_tenants := update_where (\<lambda>x. tn_id x = t) (changed_tenant q cs) (pl_tenants db),
              pl_audit := pl_audit db @ [updated_audit q t previous new]\<rparr>"
  using assms by (auto simp: patch_tenant_def elim!: bind_InrE update_tenantE)

lemma find_tenantD: "find_tenant t db = Some r \<Longrightarrow> r \<in> set (pl_tenants db) \<and> tn_id r = t"
  by (auto simp: find_tenant_def dest: find_SomeD)

lemma same_id_same_row: "distinct (map i xs) \<Longrightarrow> x \<in> set xs \<Longrightarrow> y \<in> set xs \<Longrightarrow> i x = i y \<Longrightarrow> x = y"
  by (auto simp: distinct_map inj_on_def)

lemma saves_keys:
  assumes "keys_unique db" and "saves r r' db db'"
  shows "keys_unique db'"
proof -
  let ?p = "\<lambda>x. wk_id x = wk_id r \<and> wk_tenant x = wk_tenant r" and ?ws = "pl_workspaces db"
  note d = assms(1)[unfolded keys_unique_def] and s = assms(2)[unfolded saves_def]
  have same: "x = r" if "x \<in> set ?ws" "?p x" for x
    using same_id_same_row[of wk_id ?ws x r] that d s by simp
  have ids: "map wk_id (update_where ?p (\<lambda>_. r') ?ws) = map wk_id ?ws" using s by (auto simp: update_where_def)
  have names: "distinct (map (\<lambda>w. (wk_tenant w, name_lower (wk_name w))) (update_where ?p (\<lambda>_. r') ?ws))"
    by (rule distinct_update_one[where i = wk_id and t = "wk_id r"]) (use d s in auto)
  have slugs: "map (\<lambda>w. (wk_tenant w, wk_slug w)) (update_where ?p (\<lambda>_. r') ?ws) = map (\<lambda>w. (wk_tenant w, wk_slug w)) ?ws"
    using same s by (auto simp: update_where_def)
  obtain a where "db' = db\<lparr>pl_workspaces := update_where ?p (\<lambda>_. r') ?ws, pl_ws_audit := a\<rparr>" using s by blast
  then have rows: "pl_workspaces db' = update_where ?p (\<lambda>_. r') ?ws" "pl_tenants db' = pl_tenants db" by simp_all
  show ?thesis unfolding keys_unique_def rows ids slugs by (intro conjI names) (use d in blast)+
qed

lemma keys_unique_step:
  assumes "plane_step db db'" and "keys_unique db"
  shows "keys_unique db'"
  using assms
proof (cases rule: plane_step.cases)
  case (step_create b q body)
  from step_create(1) show ?thesis
    by (rule post_tenantE) (use step_create(2) assms(2) in
      \<open>auto simp: keys_unique_def check_name_exists_def check_slug_exists_def new_tenant_def\<close>)
next
  case (step_patch b q t patch)
  then show ?thesis
  proof (cases rule: patch_tenantE)
    case (1 fs r cs previous new)
    have "distinct (map (\<lambda>r. name_lower (tn_name r)) (update_where (\<lambda>x. tn_id x = t) (changed_tenant q cs) (pl_tenants db)))"
    proof (rule distinct_update_one[where i = tn_id and t = t])
      fix x y assume x: "x \<in> set (pl_tenants db)" "tn_id x = t" and y: "y \<in> set (pl_tenants db)" "tn_id y \<noteq> t"
      show "name_lower (tn_name (changed_tenant q cs x)) \<noteq> name_lower (tn_name y)"
      proof (cases "tn_name (fold set_change cs x) = tn_name x")
        case True
        then show ?thesis using same_id_same_row[of "\<lambda>r. name_lower (tn_name r)" "pl_tenants db" x y] x y assms(2)
          by (auto simp: keys_unique_def)
      next
        case False
        then have "\<not> check_name_exists_excluding (tn_name (fold set_change cs x)) t db"
          using fold_set_change_name[of cs x] 1(6) by simp
        then show ?thesis using y by (auto simp: check_name_exists_excluding_def)
      qed
    qed (use assms(2) in \<open>simp_all add: keys_unique_def\<close>)
    then show ?thesis using assms(2) by (simp add: 1(7) keys_unique_def map_update_where)
  qed
next
  case (step_status b q t request)
  then show ?thesis
    by (rule post_statusE) (use assms(2) in \<open>simp add: keys_unique_def map_update_where cascade_map\<close>)
next
  case (step_delete b t)
  then show ?thesis
    by (rule hard_deleteE) (use assms(2) in \<open>auto simp: keys_unique_def distinct_delete_where distinct_map_filter\<close>)
next
  case (step_workspace zone stamp stranger w q own raw)
  from step_workspace(1) show ?thesis
  proof (cases rule: post_workspaceE)
    case (1 t d r a adm)
    have "wk_id (new_workspace q t d) = rq_row q" "wk_tenant (new_workspace q t d) = t" by (simp_all add: new_workspace_def)
    then show ?thesis using assms(2) step_workspace(2) 1(3,4)
      by (auto simp: keys_unique_def 1(5) name_taken_def slug_taken_def)
  qed
next
  case (step_rename zone w q i t raw)
  then show ?thesis using workspace_requests_save[of zone w q i t raw db db'] saves_keys[OF assms(2)] assms(2) by blast
next
  case (step_archive w q i t raw)
  then show ?thesis using workspace_requests_save[of _ w q i t raw db db'] saves_keys[OF assms(2)] assms(2) by blast
next
  case (step_restore w q i t)
  then show ?thesis using workspace_requests_save[of _ w q i t _ db db'] saves_keys[OF assms(2)] assms(2) by blast
next
  case (step_poll c env)
  then show ?thesis using assms(2) by (simp add: keys_unique_def)
qed

section \<open>Workspaces follow their tenant\<close>

definition follows :: "string \<Rightarrow> string \<Rightarrow> bool" where
  "follows s s' \<longleftrightarrow> s \<noteq> ''draft'' \<and> (s' = ''archived'' \<or> s' = s \<and> s \<in> {''active'', ''suspended''})"

definition workspaces_follow :: "plane \<Rightarrow> bool" where
  "workspaces_follow db \<longleftrightarrow>
     (\<forall>w \<in> set (pl_workspaces db). \<exists>r \<in> set (pl_tenants db). tn_id r = wk_tenant w \<and> follows (tn_status r) (wk_status w))"

text \<open>What a change of the status of a tenant does to a row; the three statements never meet.\<close>

definition follow_row :: "request \<Rightarrow> uuid \<Rightarrow> string \<Rightarrow> string \<Rightarrow> string option \<Rightarrow> WorkspaceRow \<Rightarrow> WorkspaceRow" where
  "follow_row q t current target reason w =
     (if wk_tenant w = t \<and> target = ''suspended'' \<and> wk_status w = ''active'' then touch_workspace q ''suspended'' reason w
      else if wk_tenant w = t \<and> target = ''active'' \<and> current = ''suspended'' \<and> wk_status w = ''suspended''
      then touch_workspace q ''active'' None w
      else if wk_tenant w = t \<and> target = ''archived'' \<and> wk_status w \<noteq> ''archived'' then touch_workspace q ''archived'' reason w
      else w)"

lemma cascade_rows: "cascade q t current target reason ws = map (follow_row q t current target reason) ws"
  by (auto simp: cascade_def Let_def bulk_suspend_by_tenant_def bulk_activate_by_tenant_def bulk_archive_by_tenant_def
      update_where_def follow_row_def intro!: map_idI[symmetric])

lemma follow_row_keys [simp]:
  "wk_id (follow_row q t c s v w) = wk_id w" "wk_tenant (follow_row q t c s v w) = wk_tenant w"
  by (simp_all add: follow_row_def)

lemma may_become_iff:
  "may_become s s' \<longleftrightarrow> (s, s') \<in> {(''draft'', ''active''), (''draft'', ''archived''), (''active'', ''suspended''),
     (''active'', ''archived''), (''suspended'', ''active''), (''suspended'', ''archived'')}"
  by (auto simp: may_become_def ALLOWED_TRANSITIONS_def)

lemma follow_row_follows:
  assumes "may_become s s'" and "follows s (wk_status w)"
  shows "follows s' (wk_status (follow_row q (wk_tenant w) s s' v w))"
  using assms by (auto simp: may_become_iff follows_def follow_row_def)

lemma workspaces_followI:
  assumes "workspaces_follow db" and "\<And>w. w \<in> set (pl_workspaces db') \<Longrightarrow> \<exists>w0 \<in> set (pl_workspaces db).
      wk_tenant w = wk_tenant w0 \<and> (\<forall>r \<in> set (pl_tenants db). tn_id r = wk_tenant w0 \<longrightarrow> follows (tn_status r) (wk_status w0) \<longrightarrow>
        (\<exists>r' \<in> set (pl_tenants db'). tn_id r' = tn_id r \<and> follows (tn_status r') (wk_status w)))"
  shows "workspaces_follow db'"
  unfolding workspaces_follow_def
proof
  fix w assume "w \<in> set (pl_workspaces db')"
  with assms(2) obtain w0 where w0: "w0 \<in> set (pl_workspaces db)" "wk_tenant w = wk_tenant w0" and
    step: "\<And>r. r \<in> set (pl_tenants db) \<Longrightarrow> tn_id r = wk_tenant w0 \<Longrightarrow> follows (tn_status r) (wk_status w0) \<Longrightarrow>
      \<exists>r' \<in> set (pl_tenants db'). tn_id r' = tn_id r \<and> follows (tn_status r') (wk_status w)" by blast
  obtain r where "r \<in> set (pl_tenants db)" "tn_id r = wk_tenant w0" "follows (tn_status r) (wk_status w0)"
    using assms(1) w0(1) by (auto simp: workspaces_follow_def)
  with step w0(2) show "\<exists>r \<in> set (pl_tenants db'). tn_id r = wk_tenant w \<and> follows (tn_status r) (wk_status w)" by metis
qed

lemma saves_follow:
  assumes "keys_unique db" and "workspaces_follow db" and "saves r r' db db'"
  shows "workspaces_follow db'"
proof (rule workspaces_followI[OF assms(2)])
  note s = assms(3)[unfolded saves_def]
  obtain a where db': "db' = db\<lparr>pl_workspaces :=
      update_where (\<lambda>x. wk_id x = wk_id r \<and> wk_tenant x = wk_tenant r) (\<lambda>_. r') (pl_workspaces db), pl_ws_audit := a\<rparr>" using s by blast
  have tenant: "tr = x" if "find_tenant t db = Some x" "tr \<in> set (pl_tenants db)" "tn_id tr = t" for tr x t
    using find_tenantD[OF that(1)] same_id_same_row[of tn_id "pl_tenants db" tr x] that assms(1) by (simp add: keys_unique_def)
  fix w assume "w \<in> set (pl_workspaces db')"
  then consider "w = r'" | "w \<in> set (pl_workspaces db)" by (auto simp: db')
  then show "\<exists>w0 \<in> set (pl_workspaces db). wk_tenant w = wk_tenant w0 \<and>
      (\<forall>r \<in> set (pl_tenants db). tn_id r = wk_tenant w0 \<longrightarrow> follows (tn_status r) (wk_status w0) \<longrightarrow>
        (\<exists>r' \<in> set (pl_tenants db'). tn_id r' = tn_id r \<and> follows (tn_status r') (wk_status w)))"
  proof cases
    case 1
    have "follows (tn_status tr) (wk_status r')"
      if tr: "tr \<in> set (pl_tenants db)" "tn_id tr = wk_tenant r" "follows (tn_status tr) (wk_status r)" for tr
    proof (cases "wk_status r' = ''active'' \<and> wk_status r \<noteq> ''active''")
      case True
      then have "tn_status tr = ''active''" using s tenant[OF _ tr(1,2)] by auto
      then show ?thesis using True by (simp add: follows_def)
    next
      case False
      then have "wk_status r' = wk_status r \<or> wk_status r' = ''archived''" using s by auto
      then show ?thesis using tr(3) by (auto simp: follows_def)
    qed
    moreover have "r \<in> set (pl_workspaces db)" "wk_tenant r' = wk_tenant r" using s by simp_all
    ultimately show ?thesis unfolding 1 db' by (intro bexI[of _ r]) auto
  next
    case 2
    then show ?thesis by (intro bexI[of _ w]) (auto simp: db')
  qed
qed

lemma workspaces_follow_step:
  assumes "plane_step db db'" and "keys_unique db" and "workspaces_follow db"
  shows "workspaces_follow db'"
  using assms(1)
proof (cases rule: plane_step.cases)
  case (step_create b q body)
  from step_create(1) show ?thesis
    by (rule post_tenantE) (use assms(3) in \<open>auto simp: workspaces_follow_def\<close>)
next
  case (step_patch b q t patch)
  then show ?thesis
  proof (cases rule: patch_tenantE)
    case (1 fs r cs previous new)
    show ?thesis
    proof (rule workspaces_followI[OF assms(3)])
      fix w assume w: "w \<in> set (pl_workspaces db')"
      have "\<exists>r' \<in> set (pl_tenants db'). tn_id r' = tn_id x \<and> follows (tn_status r') (wk_status w)"
        if "x \<in> set (pl_tenants db)" "follows (tn_status x) (wk_status w)" for x
        using that by (intro bexI[of _ "if tn_id x = t then changed_tenant q cs x else x"]) (auto simp: 1(7))
      moreover have "w \<in> set (pl_workspaces db)" using w by (simp add: 1(7))
      ultimately show "\<exists>w0 \<in> set (pl_workspaces db). wk_tenant w = wk_tenant w0 \<and>
          (\<forall>r \<in> set (pl_tenants db). tn_id r = wk_tenant w0 \<longrightarrow> follows (tn_status r) (wk_status w0) \<longrightarrow>
            (\<exists>r' \<in> set (pl_tenants db'). tn_id r' = tn_id r \<and> follows (tn_status r') (wk_status w)))"
        by blast
    qed
  qed
next
  case (step_status b q t request)
  then show ?thesis
  proof (cases rule: post_statusE)
    case (1 r target reason said)
    show ?thesis
    proof (rule workspaces_followI[OF assms(3)])
      fix w assume "w \<in> set (pl_workspaces db')"
      then obtain w0 where w0: "w0 \<in> set (pl_workspaces db)" "w = follow_row q t (tn_status r) target reason w0"
        by (auto simp: 1(6) cascade_rows)
      have "\<exists>r' \<in> set (pl_tenants db'). tn_id r' = tn_id x \<and> follows (tn_status r') (wk_status w)"
        if x: "x \<in> set (pl_tenants db)" "tn_id x = wk_tenant w0" "follows (tn_status x) (wk_status w0)" for x
      proof (cases "wk_tenant w0 = t")
        case True
        then have "x = r" using find_tenantD[OF 1(2)] same_id_same_row[of tn_id "pl_tenants db" x r] x assms(2)
          by (simp add: keys_unique_def)
        then show ?thesis using x w0 True 1(4) follow_row_follows[of "tn_status r" target w0 q reason]
          by (intro bexI[of _ "restatus q target reason x"]) (auto simp: 1(6) image_iff)
      next
        case False
        then show ?thesis using x w0 by (intro bexI[of _ x]) (auto simp: 1(6) image_iff follow_row_def)
      qed
      then show "\<exists>w0 \<in> set (pl_workspaces db). wk_tenant w = wk_tenant w0 \<and>
          (\<forall>r \<in> set (pl_tenants db). tn_id r = wk_tenant w0 \<longrightarrow> follows (tn_status r) (wk_status w0) \<longrightarrow>
            (\<exists>r' \<in> set (pl_tenants db'). tn_id r' = tn_id r \<and> follows (tn_status r') (wk_status w)))"
        using w0 by (intro bexI[of _ w0]) auto
    qed
  qed
next
  case (step_delete b t)
  then show ?thesis
    by (rule hard_deleteE) (use assms(3) in \<open>force simp: workspaces_follow_def\<close>)
next
  case (step_workspace zone stamp stranger w q own raw)
  from step_workspace(1) show ?thesis
  proof (cases rule: post_workspaceE)
    case (1 t d r a adm)
    then show ?thesis using assms(3) find_tenantD[OF 1(1)]
      by (auto simp: workspaces_follow_def new_workspace_def follows_def)
  qed
next
  case (step_rename zone w q i t raw)
  then show ?thesis using workspace_requests_save[of zone w q i t raw db db'] saves_follow[OF assms(2,3)] assms(3) by blast
next
  case (step_archive w q i t raw)
  then show ?thesis using workspace_requests_save[of _ w q i t raw db db'] saves_follow[OF assms(2,3)] assms(3) by blast
next
  case (step_restore w q i t)
  then show ?thesis using workspace_requests_save[of _ w q i t _ db db'] saves_follow[OF assms(2,3)] assms(3) by blast
next
  case (step_poll c env)
  then show ?thesis using assms(3) by (simp add: workspaces_follow_def)
qed

section \<open>Reasons\<close>

definition tenant_reason_ok :: "TenantRow \<Rightarrow> bool" where
  "tenant_reason_ok r \<longleftrightarrow> tn_status r \<in> {''draft'', ''active'', ''suspended'', ''archived''} \<and>
     (tn_status r \<in> {''suspended'', ''archived''} \<longrightarrow> reason_given (tn_reason r))"

definition workspace_reason_ok :: "WorkspaceRow \<Rightarrow> bool" where
  "workspace_reason_ok w \<longleftrightarrow> (if wk_status w = ''active'' then wk_reason w = None else reason_given (wk_reason w))"

definition reasons_ok :: "plane \<Rightarrow> bool" where
  "reasons_ok db \<longleftrightarrow> (\<forall>r \<in> set (pl_tenants db). tenant_reason_ok r) \<and> (\<forall>w \<in> set (pl_workspaces db). workspace_reason_ok w)"

lemma read_field_Inr:
  "read_field body k (\<lambda>v. map_sum id C (f v)) = Inr l \<Longrightarrow> l = [] \<or> (\<exists>raw x. f raw = Inr x \<and> l = [C x])"
  by (auto simp: read_field_def split: option.splits elim!: map_sum_InrE)

lemma read_patchE:
  assumes "read_patch body = Inr fs"
  obtains a b c d e where "fs = a @ b @ c @ d @ e" "a = [] \<or> (\<exists>x. a = [NewName x])" "b = [] \<or> (\<exists>x. b = [NewPlan x])"
    "c = [] \<or> (\<exists>raw x. validate_tenant_reason raw = Inr x \<and> c = [NewReason x])"
    "d = [] \<or> (\<exists>x. d = [NewStart x])" "e = [] \<or> (\<exists>x. e = [NewNotes x])"
proof -
  have "\<exists>a b c d e. fs = a @ b @ c @ d @ e \<and>
      read_field body ''tenant_name'' (\<lambda>v. map_sum id NewName (validate_tenant_name v)) = Inr a \<and>
      read_field body ''plan'' (\<lambda>v. map_sum id NewPlan (validate_plan v)) = Inr b \<and>
      read_field body ''status_reason'' (\<lambda>v. map_sum id NewReason (validate_tenant_reason v)) = Inr c \<and>
      read_field body ''service_start_date'' (\<lambda>v. map_sum id NewStart (validate_service_start_date v)) = Inr d \<and>
      read_field body ''tenant_notes'' (\<lambda>v. map_sum id NewNotes (validate_tenant_notes v)) = Inr e"
    using assms by (auto simp: read_patch_def elim!: bind_InrE split: option.splits if_splits)
  then obtain a b c d e where l: "fs = a @ b @ c @ d @ e" and
    f: "read_field body ''tenant_name'' (\<lambda>v. map_sum id NewName (validate_tenant_name v)) = Inr a"
      "read_field body ''plan'' (\<lambda>v. map_sum id NewPlan (validate_plan v)) = Inr b"
      "read_field body ''status_reason'' (\<lambda>v. map_sum id NewReason (validate_tenant_reason v)) = Inr c"
      "read_field body ''service_start_date'' (\<lambda>v. map_sum id NewStart (validate_service_start_date v)) = Inr d"
      "read_field body ''tenant_notes'' (\<lambda>v. map_sum id NewNotes (validate_tenant_notes v)) = Inr e" by blast
  note r = f[THEN read_field_Inr]
  show thesis by (rule that[OF l]) (use r in blast)+
qed

lemma validate_tenant_reason_length: "validate_tenant_reason raw = Inr (Some s) \<Longrightarrow> length s \<le> 500"
  by (auto simp: validate_tenant_reason_def dest: validate_text_Inr)

lemma read_patch_reason: "read_patch body = Inr fs \<Longrightarrow> NewReason (Some s) \<in> set fs \<Longrightarrow> length s \<le> 500"
  by (erule read_patchE) (auto dest: validate_tenant_reason_length)

lemma fold_set_change_reason: "tn_reason (fold set_change cs r) = tn_reason r \<or> NewReason (tn_reason (fold set_change cs r)) \<in> set cs"
proof (induction cs arbitrary: r)
  case (Cons c cs)
  have "tn_reason (set_change c r) = tn_reason r \<or> c = NewReason (tn_reason (set_change c r))" by (cases c) simp_all
  then show ?case using Cons[of "set_change c r"] by auto
qed simp

lemma transition_reason_Inr:
  "transition_reason target said = Inr reason \<Longrightarrow>
     if target \<in> {''suspended'', ''archived''} then reason_given reason else reason = None"
  by (auto simp: transition_reason_def reason_given_def Let_def split: if_splits)

lemma build_change_set_sub: "build_change_set fs r = (cs, p, n) \<Longrightarrow> set cs \<subseteq> set fs"
  by (auto simp: build_change_set_def Let_def)

lemma patched_reason:
  assumes "read_patch body = Inr fs" and "reason_guard s fs = None" and "set cs \<subseteq> set fs"
    and "s \<in> {''suspended'', ''archived''}" and "reason_given (tn_reason r)"
  shows "reason_given (tn_reason (fold set_change cs r))"
proof (cases "tn_reason (fold set_change cs r) = tn_reason r")
  case False
  then have new: "NewReason (tn_reason (fold set_change cs r)) \<in> set fs" using fold_set_change_reason[of cs r] assms(3) by auto
  show ?thesis
  proof (cases "tn_reason (fold set_change cs r)")
    case None
    then show ?thesis using new assms(2,4) by (auto simp: reason_guard_def split: if_splits)
  next
    case (Some v)
    then have "10 \<le> length v" using new assms(2,4) by (fastforce simp: reason_guard_def split: if_splits)
    with Some show ?thesis using new read_patch_reason[OF assms(1)] by (simp add: reason_given_def)
  qed
qed (use assms in simp)

lemma follow_row_reason:
  assumes "workspace_reason_ok w" and "target \<in> {''suspended'', ''archived''} \<Longrightarrow> reason_given reason"
  shows "workspace_reason_ok (follow_row q t current target reason w)"
proof -
  have touch: "workspace_reason_ok (touch_workspace q s v w)" if "if s = ''active'' then v = None else reason_given v" for s v
    using that by (simp add: workspace_reason_ok_def)
  show ?thesis unfolding follow_row_def using assms(2) by (simp add: assms(1) touch)
qed

lemma saves_reasons: "reasons_ok db \<Longrightarrow> saves r r' db db' \<Longrightarrow> reasons_ok db'"
  unfolding saves_def reasons_ok_def workspace_reason_ok_def by (elim conjE exE) (force simp: image_iff)

lemma reasons_ok_step:
  assumes "plane_step db db'" and "reasons_ok db" and "keys_unique db"
  shows "reasons_ok db'"
  using assms(1)
proof (cases rule: plane_step.cases)
  case (step_create b q body)
  from step_create(1) show ?thesis
  proof (cases rule: post_tenantE)
    case (1 c)
    have "ct_status c = ''draft'' \<or> ct_status c = ''active''"
      using 1(1) by (auto simp: read_tenant_body_def elim!: bind_InrE dest: validate_initial_status_Inr)
    then show ?thesis using assms(2) by (auto simp: reasons_ok_def tenant_reason_ok_def new_tenant_def 1(4))
  qed
next
  case (step_patch b q t patch)
  then show ?thesis
  proof (cases rule: patch_tenantE)
    case (1 fs r cs previous new)
    have "tenant_reason_ok x'" if x': "x' \<in> set (pl_tenants db')" for x'
    proof -
      obtain x where x: "x \<in> set (pl_tenants db)" "x' = (if tn_id x = t then changed_tenant q cs x else x)"
        using x' by (auto simp: 1(7))
      have ok: "tenant_reason_ok x" using x(1) assms(2) by (simp add: reasons_ok_def)
      show ?thesis
      proof (cases "tn_id x = t")
        case True
        then have "x = r" using find_tenantD[OF 1(2)] same_id_same_row[of tn_id "pl_tenants db" x r] x(1) assms(3)
          by (simp add: keys_unique_def)
        then show ?thesis using patched_reason[OF 1(1,4) build_change_set_sub[OF 1(5)], of x] ok True
          unfolding tenant_reason_ok_def x(2) by simp
      qed (use ok x(2) in simp)
    qed
    then show ?thesis using assms(2) by (simp add: reasons_ok_def 1(7))
  qed
next
  case (step_status b q t request)
  then show ?thesis
  proof (cases rule: post_statusE)
    case (1 r target reason said)
    have "tenant_reason_ok (restatus q target reason x)" for x
      using 1(4) transition_reason_Inr[OF 1(5)] by (auto simp: tenant_reason_ok_def may_become_iff split: if_splits)
    moreover have "workspace_reason_ok (follow_row q t (tn_status r) target reason w)" if "workspace_reason_ok w" for w
      by (rule follow_row_reason[OF that]) (use transition_reason_Inr[OF 1(5)] in \<open>simp split: if_splits\<close>)
    moreover have "pl_tenants db' = update_where (\<lambda>x. tn_id x = t) (restatus q target reason) (pl_tenants db)"
      "pl_workspaces db' = map (follow_row q t (tn_status r) target reason) (pl_workspaces db)"
      by (simp_all add: 1(6) cascade_rows)
    ultimately show ?thesis using assms(2) unfolding reasons_ok_def by auto
  qed
next
  case (step_delete b t)
  then show ?thesis
    by (rule hard_deleteE) (use assms(2) in \<open>fastforce simp: reasons_ok_def\<close>)
next
  case (step_workspace zone stamp stranger w q own raw)
  from step_workspace(1) show ?thesis
    by (rule post_workspaceE) (use assms(2) in \<open>auto simp: reasons_ok_def workspace_reason_ok_def new_workspace_def\<close>)
next
  case (step_rename zone w q i t raw)
  then show ?thesis using workspace_requests_save[of zone w q i t raw db db'] saves_reasons[OF assms(2)] assms(2) by blast
next
  case (step_archive w q i t raw)
  then show ?thesis using workspace_requests_save[of _ w q i t raw db db'] saves_reasons[OF assms(2)] assms(2) by blast
next
  case (step_restore w q i t)
  then show ?thesis using workspace_requests_save[of _ w q i t _ db db'] saves_reasons[OF assms(2)] assms(2) by blast
next
  case (step_poll c env)
  then show ?thesis using assms(2) by (simp add: reasons_ok_def)
qed

section \<open>Reachable states\<close>

lemma reachable_ok: "plane_reachable db \<Longrightarrow> keys_unique db \<and> workspaces_follow db \<and> reasons_ok db"
proof (induction rule: plane_reachable.induct)
  case plane_empty
  then show ?case by (simp add: empty_plane_def keys_unique_def workspaces_follow_def reasons_ok_def)
next
  case (plane_next db db')
  then show ?case by (simp add: keys_unique_step workspaces_follow_step reasons_ok_step)
qed

text \<open>A tenant with one workspace, from the empty tables.\<close>

definition operator_at :: "nat \<Rightarrow> request" where
  "operator_at n = \<lparr>rq_now = n, rq_actor = 7, rq_role = ''platform_admin'', rq_row = of_nat (100 + n), rq_log = of_nat (200 + n),
     rq_event = of_nat (300 + n)\<rparr>"

definition acme_body :: TenantBody where
  "acme_body = \<lparr>tb_name = Some ''Acme Ltd'', tb_slug = Some ''acme'', tb_region = Some ''eu-west'', tb_plan = Some ''growth'',
     tb_status = Some ''active'', tb_start = Some ''2024-02-29'', tb_notes = None, tb_reason = None\<rparr>"

definition sales_body :: dict where
  "sales_body = [(''workspace_name'', PStr ''Sales''), (''workspace_slug'', PStr ''sales'')]"

definition acme :: CreateTenant where
  "acme = \<lparr>ct_name = ''Acme Ltd'', ct_slug = ''acme'', ct_region = ''eu-west'', ct_plan = ''growth'', ct_status = ''active'',
     ct_reason = None, ct_start = Some (2024, 2, 29), ct_notes = None\<rparr>"

definition ops1 :: plane where
  "ops1 = empty_plane\<lparr>pl_tenants := [new_tenant (operator_at 0) acme], pl_audit := [created_audit (operator_at 0) acme]\<rparr>"

definition ops2 :: plane where
  "ops2 = (let w = new_workspace (operator_at 1) 100 sales_body
     in ops1\<lparr>pl_workspaces := [w], pl_admins := [(wk_id w, 7)],
          pl_ws_audit := [workspace_created_audit (\<lambda>_. ''now'') (operator_at 1) w]\<rparr>)"

lemma read_acme: "read_tenant_body acme_body = Inr acme"
  by code_simp

lemma ops1_created: "post_tenant Works (operator_at 0) acme_body empty_plane = Inr ops1"
  by (simp add: post_tenant_def create_tenant_def read_acme check_name_exists_def check_slug_exists_def empty_plane_def ops1_def)

lemma sales_valid: "validate_create_payload Some sales_body = \<lparr>v_errors = [], normalized_payload = sales_body\<rparr>"
  by code_simp

lemma sales_target: "target_tenant (\<lambda>_. []) ''platform_admin'' (Some 100) (dict_get sales_body ''tenant_id'' PNone) = Inr 100"
  by code_simp

lemma sales_fields: "filter (\<lambda>(k, v). k \<noteq> ''tenant_id'') sales_body = sales_body \<and>
    detect_forbidden_fields sales_body forbidden_fields = [] \<and> detect_unknown_fields sales_body create_allowed_fields = []"
  by code_simp

lemma operator_simps: "rq_role (operator_at n) = ''platform_admin''" "rq_actor (operator_at n) = 7" "rq_row (operator_at n) = of_nat (100 + n)"
  by (simp_all add: operator_at_def)

lemma ops2_created:
  "post_workspace Some (\<lambda>_. ''now'') (\<lambda>_. []) AllWritten (operator_at 1) (Some 100) sales_body ops1 = Inr ops2"
  by (simp add: post_workspace_def operator_simps sales_target sales_fields sales_valid mark_def create_workspace_def active_tenant_def
      find_tenant_def ops1_def ops2_def empty_plane_def new_tenant_def acme_def insert_workspace_def name_taken_def slug_taken_def
      write_audit_def Let_def)

definition ops3 :: plane where
  "ops3 = restatused (operator_at 2) (new_tenant (operator_at 0) acme) ''suspended'' (Some ''unpaid invoices'') ops2"

definition ops4 :: plane where
  "ops4 = restatused (operator_at 3)
     (restatus (operator_at 2) ''suspended'' (Some ''unpaid invoices'') (new_tenant (operator_at 0) acme)) ''active'' None ops3"

lemma ops2_tenant: "find_tenant 100 ops2 = Some (new_tenant (operator_at 0) acme)"
  by (simp add: find_tenant_def ops2_def ops1_def Let_def new_tenant_def operator_simps)

lemma ops3_tenant:
  "find_tenant 100 ops3 = Some (restatus (operator_at 2) ''suspended'' (Some ''unpaid invoices'') (new_tenant (operator_at 0) acme))"
  by (simp add: find_tenant_def ops3_def ops2_def ops1_def restatused_def update_where_def Let_def new_tenant_def operator_simps)

lemma ops3_suspended: "post_status Works (operator_at 2) 100 (Some (Some ''suspended'', Some ''unpaid invoices'')) ops2 = Inr ops3"
proof -
  have "lower (stripped (Some ''suspended'')) = ''suspended''" "stripped (Some ''unpaid invoices'') = ''unpaid invoices''"
    "transition_reason ''suspended'' (Some ''unpaid invoices'') = Inr (Some ''unpaid invoices'')"
    by code_simp+
  then show ?thesis unfolding ops3_def
    by (intro post_status_Inr[OF _ ops2_tenant])
      (simp_all add: new_tenant_def acme_def may_become_iff VALID_TARGET_STATUSES_def)
qed

lemma ops4_activated: "post_status Works (operator_at 3) 100 (Some (Some ''active'', None)) ops3 = Inr ops4"
proof -
  have "lower (stripped (Some ''active'')) = ''active''" "stripped None = []" "transition_reason ''active'' None = Inr None"
    by code_simp+
  then show ?thesis unfolding ops4_def
    by (intro post_status_Inr[OF _ ops3_tenant])
      (simp_all add: may_become_iff VALID_TARGET_STATUSES_def)
qed

lemma ops_reachable: "plane_reachable ops1" "plane_reachable ops2" "plane_reachable ops3"
proof -
  show 1: "plane_reachable ops1"
    by (rule plane_next[OF plane_empty step_create[OF ops1_created]]) (simp add: empty_plane_def)
  show 2: "plane_reachable ops2"
    by (rule plane_next[OF 1 step_workspace[OF ops2_created]]) (simp add: ops1_def empty_plane_def)
  show "plane_reachable ops3" by (rule plane_next[OF 2 step_status[OF ops3_suspended]])
qed

lemma ops_workspaces: "pl_workspaces ops2 = [new_workspace (operator_at 1) 100 sales_body]"
  "pl_workspaces ops3 = [touch_workspace (operator_at 2) ''suspended'' (Some ''unpaid invoices'') (new_workspace (operator_at 1) 100 sales_body)]"
  by (simp_all add: ops3_def ops2_def ops1_def restatused_def Let_def cascade_rows follow_row_def new_workspace_def new_tenant_def
      acme_def operator_simps)


text \<open>
  C36: names, slugs and reasons.  In every reachable state no two tenants share a name (without regard to
  case) or a slug, no two workspaces of a tenant do, and every suspended or archived tenant and every
  workspace that is not active has a reason of 10 to 500 characters.
\<close>

theorem control_plane_is_consistent:
  assumes "plane_reachable db"
  shows "distinct (map (\<lambda>r. name_lower (tn_name r)) (pl_tenants db)) \<and> distinct (map tn_slug (pl_tenants db)) \<and>
    distinct (map (\<lambda>w. (wk_tenant w, name_lower (wk_name w))) (pl_workspaces db)) \<and>
    distinct (map (\<lambda>w. (wk_tenant w, wk_slug w)) (pl_workspaces db)) \<and>
    (\<forall>r \<in> set (pl_tenants db). tn_status r \<in> {''suspended'', ''archived''} \<longrightarrow> reason_given (tn_reason r)) \<and>
    (\<forall>w \<in> set (pl_workspaces db). wk_status w \<noteq> ''active'' \<longrightarrow> reason_given (wk_reason w))"
proof -
  have keys: "keys_unique db" and reasons: "reasons_ok db" using reachable_ok[OF assms] by simp_all
  have "reason_given (tn_reason r)" if "r \<in> set (pl_tenants db)" "tn_status r \<in> {''suspended'', ''archived''}" for r
    using reasons that unfolding reasons_ok_def tenant_reason_ok_def by blast
  moreover have "reason_given (wk_reason w)" if "w \<in> set (pl_workspaces db)" "wk_status w \<noteq> ''active''" for w
    using reasons that unfolding reasons_ok_def workspace_reason_ok_def by metis
  ultimately show ?thesis using keys unfolding keys_unique_def by blast
qed

lemma filter_map_same:
  assumes "\<And>w. w \<in> set ws \<Longrightarrow> P w \<Longrightarrow> h w = w" and "\<And>w. w \<in> set ws \<Longrightarrow> P (h w) \<Longrightarrow> P w"
  shows "filter P (map h ws) = filter P ws"
proof -
  have "P (h w) = P w" if "w \<in> set ws" for w using assms that by metis
  then have "filter P (map h ws) = map h (filter P ws)" by (simp add: filter_map comp_def cong: filter_cong)
  also have "... = filter P ws" using assms(1) by (intro map_idI) simp
  finally show ?thesis .
qed

text \<open>
  C35: suspending a tenant and activating it again gives every workspace the status and the reason it had;
  the archived workspaces of the tenant and all workspaces of other tenants stay exactly as they were.
\<close>

theorem suspension_is_undone:
  assumes "plane_reachable db"
    and "post_status b q t (Some (Some ''suspended'', reason)) db = Inr db1"
    and "post_status b' q' t (Some (Some ''active'', reason')) db1 = Inr db2"
  shows "map (\<lambda>w. (wk_id w, wk_status w, wk_reason w)) (pl_workspaces db2) =
      map (\<lambda>w. (wk_id w, wk_status w, wk_reason w)) (pl_workspaces db) \<and>
    filter (\<lambda>w. wk_tenant w \<noteq> t \<or> wk_status w = ''archived'') (pl_workspaces db2) =
      filter (\<lambda>w. wk_tenant w \<noteq> t \<or> wk_status w = ''archived'') (pl_workspaces db)"
proof -
  note ok = reachable_ok[OF assms(1)]
  have texts: "lower (stripped (Some ''suspended'')) = ''suspended''" "lower (stripped (Some ''active'')) = ''active''"
    by code_simp+
  have suspended: "\<exists>r v. find_tenant t db = Some r \<and> may_become (tn_status r) ''suspended'' \<and>
      pl_tenants db1 = update_where (\<lambda>x. tn_id x = t) (restatus q ''suspended'' v) (pl_tenants db) \<and>
      pl_workspaces db1 = cascade q t (tn_status r) ''suspended'' v (pl_workspaces db)"
    using assms(2) by (rule post_statusE) (simp add: texts, blast)
  have activated: "\<exists>r v. find_tenant t db1 = Some r \<and>
      pl_workspaces db2 = cascade q' t (tn_status r) ''active'' v (pl_workspaces db1)"
    using assms(3) by (rule post_statusE) (simp add: texts, blast)
  obtain r v where r: "find_tenant t db = Some r" "may_become (tn_status r) ''suspended''"
    and t1: "pl_tenants db1 = update_where (\<lambda>x. tn_id x = t) (restatus q ''suspended'' v) (pl_tenants db)"
    and w1: "pl_workspaces db1 = map (follow_row q t (tn_status r) ''suspended'' v) (pl_workspaces db)"
    using suspended unfolding cascade_rows by blast
  obtain r1 v' where r1: "find_tenant t db1 = Some r1"
    and w2: "pl_workspaces db2 = map (follow_row q' t (tn_status r1) ''active'' v') (pl_workspaces db1)"
    using activated unfolding cascade_rows by blast
  obtain x where "r1 = (if tn_id x = t then restatus q ''suspended'' v x else x)"
    using find_tenantD[OF r1] unfolding t1 set_update_where by blast
  then have s1: "tn_status r1 = ''suspended''" using find_tenantD[OF r1] by (cases "tn_id x = t") simp_all
  have s: "tn_status r = ''active''" using r(2) by (auto simp: may_become_iff)
  let ?h = "\<lambda>w. follow_row q' t ''suspended'' ''active'' v' (follow_row q t ''active'' ''suspended'' v w)"
  have w: "pl_workspaces db2 = map ?h (pl_workspaces db)" by (simp add: w1 w2 s s1 comp_def)
  have "follows ''active'' (wk_status x)" if x: "x \<in> set (pl_workspaces db)" "wk_tenant x = t" for x
  proof -
    obtain y where "y \<in> set (pl_tenants db)" "tn_id y = t" "follows (tn_status y) (wk_status x)"
      using ok x by (auto simp: workspaces_follow_def)
    moreover have "y = r" using calculation find_tenantD[OF r(1)] same_id_same_row[of tn_id "pl_tenants db" y r] ok
      by (simp add: keys_unique_def)
    ultimately show ?thesis using s by simp
  qed
  then have cases: "wk_status x = ''active'' \<and> wk_reason x = None \<or> wk_status x = ''archived''"
    if "x \<in> set (pl_workspaces db)" "wk_tenant x = t" for x
    using that ok by (fastforce simp: follows_def reasons_ok_def workspace_reason_ok_def)
  have "wk_status (?h x) = wk_status x \<and> wk_reason (?h x) = wk_reason x" if "x \<in> set (pl_workspaces db)" for x
    using cases[OF that] by (auto simp: follow_row_def)
  moreover have "filter (\<lambda>w. wk_tenant w \<noteq> t \<or> wk_status w = ''archived'') (map ?h (pl_workspaces db)) =
      filter (\<lambda>w. wk_tenant w \<noteq> t \<or> wk_status w = ''archived'') (pl_workspaces db)"
    by (rule filter_map_same) (auto simp: follow_row_def split: if_splits)
  ultimately show ?thesis by (simp add: w)
qed


lemma control_plane_is_consistent_witness:
  "distinct (map tn_slug (pl_tenants ops3)) \<and> distinct (map (\<lambda>w. (wk_tenant w, wk_slug w)) (pl_workspaces ops3)) \<and>
    reason_given (tn_reason (restatus (operator_at 2) ''suspended'' (Some ''unpaid invoices'') (new_tenant (operator_at 0) acme)))"
  using control_plane_is_consistent[OF ops_reachable(3)] find_tenantD[OF ops3_tenant] by auto

lemma suspension_is_undone_witness:
  "map (\<lambda>w. (wk_id w, wk_status w, wk_reason w)) (pl_workspaces ops4) = [(101, ''active'', None)]"
  using conjunct1[OF suspension_is_undone[OF ops_reachable(2) ops3_suspended ops4_activated]]
  by (simp add: ops_workspaces new_workspace_def operator_simps)

end
