(* ===== verification/TenantHistory.thy ===== *)
theory TenantHistory
  imports TenantSafety
begin

text \<open>
  The audit log of the tenants as their history: what it records last of a tenant is what the row holds, it
  has one suspension for each event of the outbox, and an archived tenant has no later history but its
  removal.
\<close>

section \<open>Replaying the log\<close>

definition last_recorded :: "TenantAudit list \<Rightarrow> uuid \<Rightarrow> string \<Rightarrow> pyval option" where
  "last_recorded entries t k =
     fold (\<lambda>a v. if ta_tenant a = t then (case map_of (ta_new a) k of Some x \<Rightarrow> Some x | None \<Rightarrow> v) else v) entries None"

definition recorded_columns :: "string list" where
  "recorded_columns = [''tenant_name'', ''tenant_slug'', ''status'', ''region'', ''plan'']"

definition column_of :: "TenantRow \<Rightarrow> string \<Rightarrow> pyval" where
  "column_of r k =
     (if k = ''tenant_name'' then PStr (tn_name r) else if k = ''tenant_slug'' then PStr (tn_slug r)
      else if k = ''status'' then PStr (tn_status r) else if k = ''region'' then PStr (tn_region r) else PStr (tn_plan r))"

lemma last_recorded_snoc:
  "last_recorded (entries @ [a]) t k =
     (if ta_tenant a = t then (case map_of (ta_new a) k of Some x \<Rightarrow> Some x | None \<Rightarrow> last_recorded entries t k)
      else last_recorded entries t k)"
  by (simp add: last_recorded_def split: option.split)

lemma last_recorded_delete:
  assumes "t \<noteq> u"
  shows "last_recorded (delete_where (\<lambda>a. ta_tenant a = u) entries) t k = last_recorded entries t k"
proof (induction entries rule: rev_induct)
  case (snoc a entries)
  have "delete_where (\<lambda>a. ta_tenant a = u) (entries @ [a]) =
      delete_where (\<lambda>a. ta_tenant a = u) entries @ (if ta_tenant a = u then [] else [a])"
    by (simp add: delete_where_def)
  then show ?case using assms snoc by (simp add: last_recorded_snoc split: option.split)
qed (simp add: delete_where_def)

definition told_by_log :: "plane \<Rightarrow> bool" where
  "told_by_log db \<longleftrightarrow>
     (\<forall>r \<in> set (pl_tenants db). \<forall>k \<in> set recorded_columns. last_recorded (pl_audit db) (tn_id r) k = Some (column_of r k))"

lemma told_by_logI:
  assumes "told_by_log db" and "pl_audit db' = pl_audit db" and "set (pl_tenants db') \<subseteq> set (pl_tenants db)"
  shows "told_by_log db'"
  using assms by (auto simp: told_by_log_def)

lemma read_patch_keys: "read_patch body = Inr fs \<Longrightarrow> distinct (map key_of_change fs)"
  by (erule read_patchE, elim disjE exE) simp_all

lemma column_set_change:
  "k \<in> set recorded_columns \<Longrightarrow> column_of (set_change c r) k = (if k = key_of_change c then value_of_change c else column_of r k)"
  by (cases c) (auto simp: recorded_columns_def column_of_def)

lemma column_of_changes:
  assumes "distinct (map key_of_change cs)" and "k \<in> set recorded_columns"
  shows "column_of (fold set_change cs r) k =
    (case map_of (map (\<lambda>c. (key_of_change c, value_of_change c)) cs) k of Some x \<Rightarrow> x | None \<Rightarrow> column_of r k)"
  using assms(1)
proof (induction cs arbitrary: r)
  case (Cons c cs)
  then have IH: "column_of (fold set_change cs (set_change c r)) k =
      (case map_of (map (\<lambda>c. (key_of_change c, value_of_change c)) cs) k of Some x \<Rightarrow> x | None \<Rightarrow> column_of (set_change c r) k)"
    by simp
  show ?case
  proof (cases "k = key_of_change c")
    case True
    then have "map_of (map (\<lambda>c. (key_of_change c, value_of_change c)) cs) k = None"
      using Cons.prems by (auto simp: map_of_eq_None_iff)
    then show ?thesis using IH True assms(2) by (simp add: column_set_change)
  next
    case False
    then have "column_of (set_change c r) k = column_of r k" using assms(2) by (simp add: column_set_change)
    with False IH show ?thesis by (simp split: option.split)
  qed
qed simp

lemma column_changed_tenant: "column_of (changed_tenant q cs r) k = column_of (fold set_change cs r) k"
  by (simp add: column_of_def)

lemma told_by_log_update:
  assumes "told_by_log db" and "keys_unique db" and "find_tenant t db = Some r" and "tn_id (f r) = tn_id r" and "ta_tenant a = t"
    and "\<And>k. k \<in> set recorded_columns \<Longrightarrow> column_of (f r) k = (case map_of (ta_new a) k of Some x \<Rightarrow> x | None \<Rightarrow> column_of r k)"
    and "pl_tenants db' = update_where (\<lambda>x. tn_id x = t) f (pl_tenants db)" and "pl_audit db' = pl_audit db @ [a]"
  shows "told_by_log db'"
  unfolding told_by_log_def
proof (intro ballI)
  fix x' k assume "x' \<in> set (pl_tenants db')" and k: "k \<in> set recorded_columns"
  then obtain x where x: "x \<in> set (pl_tenants db)" "x' = (if tn_id x = t then f x else x)" using assms(7) by auto
  have entries: "last_recorded (pl_audit db) (tn_id x) k = Some (column_of x k)" using assms(1) x(1) k by (simp add: told_by_log_def)
  show "last_recorded (pl_audit db') (tn_id x') k = Some (column_of x' k)"
  proof (cases "tn_id x = t")
    case True
    then have "x = r" using find_tenantD[OF assms(3)] same_id_same_row[of tn_id "pl_tenants db" x r] x(1) assms(2)
      by (simp add: keys_unique_def)
    then show ?thesis using True x(2) entries assms(4,5,6,8) k
      by (auto simp: last_recorded_snoc split: option.splits)
  next
    case False
    then show ?thesis using x(2) entries assms(5,8) by (auto simp: last_recorded_snoc)
  qed
qed

lemma told_by_log_step:
  assumes "plane_step db db'" and "keys_unique db" and "told_by_log db"
  shows "told_by_log db'"
  using assms(1)
proof (cases rule: plane_step.cases)
  case (step_create b q body)
  from step_create(1) show ?thesis
  proof (cases rule: post_tenantE)
    case (1 c)
    have "last_recorded (pl_audit db') (tn_id r) k = Some (column_of r k)"
      if "r \<in> set (pl_tenants db)" "k \<in> set recorded_columns" for r k
    proof -
      have "tn_id r \<noteq> rq_row q" using step_create(2) that(1) by force
      then show ?thesis using assms(3) that by (simp add: 1(4) last_recorded_snoc created_audit_def told_by_log_def)
    qed
    moreover have "last_recorded (pl_audit db') (tn_id (new_tenant q c)) k = Some (column_of (new_tenant q c) k)"
      if "k \<in> set recorded_columns" for k
      using that by (auto simp: 1(4) last_recorded_snoc created_audit_def new_tenant_def recorded_columns_def column_of_def)
    moreover have "set (pl_tenants db') = insert (new_tenant q c) (set (pl_tenants db))" by (simp add: 1(4))
    ultimately show ?thesis unfolding told_by_log_def by (metis insert_iff)
  qed
next
  case (step_patch b q t patch)
  then show ?thesis
  proof (cases rule: patch_tenantE)
    case (1 fs r cs previous new)
    have cs: "cs = filter (differs r) fs" "new = map (\<lambda>c. (key_of_change c, value_of_change c)) cs"
      using 1(5) by (auto simp: build_change_set_def Let_def)
    have "distinct (map key_of_change cs)" using read_patch_keys[OF 1(1)] by (simp add: cs(1) distinct_map_filter)
    then show ?thesis
      by (intro told_by_log_update[OF assms(3,2) 1(2), where f = "changed_tenant q cs" and a = "updated_audit q t previous new"])
        (simp_all add: 1(7) updated_audit_def column_changed_tenant column_of_changes cs(2))
  qed
next
  case (step_status b q t request)
  then show ?thesis
  proof (cases rule: post_statusE)
    case (1 r target reason said)
    show ?thesis
      by (rule told_by_log_update[OF assms(3,2) 1(2), where f = "restatus q target reason" and a = "status_audit q r target reason"])
        (use find_tenantD[OF 1(2)] in \<open>auto simp: 1(6) status_audit_def column_of_def recorded_columns_def\<close>)
  qed
next
  case (step_delete b t)
  then show ?thesis
    by (rule hard_deleteE) (use assms(3) in \<open>simp add: told_by_log_def last_recorded_delete\<close>)
next
  case (step_workspace zone stamp stranger w q own raw)
  from step_workspace(1) show ?thesis
    by (rule post_workspaceE) (use assms(3) in \<open>simp add: told_by_log_def\<close>)
next
  case (step_rename zone w q i t raw)
  then show ?thesis using workspace_requests_frame[of zone w q i t raw db db'] assms(3) by (simp add: told_by_log_def)
next
  case (step_archive w q i t raw)
  then show ?thesis using workspace_requests_frame[of _ w q i t raw db db'] assms(3) by (simp add: told_by_log_def)
next
  case (step_restore w q i t)
  then show ?thesis using workspace_requests_frame[of _ w q i t _ db db'] assms(3) by (simp add: told_by_log_def)
next
  case (step_poll c env)
  then show ?thesis using assms(3) by (simp add: told_by_log_def)
qed




section \<open>Events\<close>

definition is_suspension :: "uuid \<Rightarrow> TenantAudit \<Rightarrow> bool" where
  "is_suspension t a \<longleftrightarrow> ta_tenant a = t \<and> ta_event a = ''tenant_status_changed'' \<and>
     map_of (ta_new a) ''status'' = Some (PStr ''suspended'')"

definition is_event_of :: "uuid \<Rightarrow> OutboxEvent \<Rightarrow> bool" where
  "is_event_of t e \<longleftrightarrow> oe_tenant e = t \<and> oe_type e = ''tenant_suspended''"

definition events_match :: "plane \<Rightarrow> bool" where
  "events_match db \<longleftrightarrow>
     (\<forall>t. length (filter (is_event_of t) (pl_outbox db)) = length (filter (is_suspension t) (pl_audit db)))"

lemma progressed_events:
  "list_all2 progressed evs evs' \<Longrightarrow> length (filter (is_event_of t) evs') = length (filter (is_event_of t) evs)"
  by (induction rule: list_all2_induct) (auto simp: progressed_def is_event_of_def)

lemma filter_delete_where: "filter p (delete_where d xs) = filter (\<lambda>x. p x \<and> \<not> d x) xs"
  by (simp add: delete_where_def conj_commute)

lemma events_match_step:
  assumes "plane_step db db'" and "events_match db"
  shows "events_match db'"
  using assms(1)
proof (cases rule: plane_step.cases)
  case (step_create b q body)
  from step_create(1) show ?thesis
    by (rule post_tenantE) (use assms(2) in \<open>simp add: events_match_def is_suspension_def created_audit_def\<close>)
next
  case (step_patch b q t patch)
  then show ?thesis
    by (rule patch_tenantE) (use assms(2) in \<open>simp add: events_match_def is_suspension_def updated_audit_def\<close>)
next
  case (step_status b q t request)
  then show ?thesis
  proof (cases rule: post_statusE)
    case (1 r target reason said)
    then show ?thesis using assms(2) find_tenantD[OF 1(2)]
      by (simp add: events_match_def is_suspension_def is_event_of_def status_audit_def suspended_event_def)
  qed
next
  case (step_delete b t)
  then show ?thesis
  proof (cases rule: hard_deleteE)
    case (1 r)
    have "length (filter (is_event_of u) (pl_outbox db')) = length (filter (is_suspension u) (pl_audit db'))" for u
    proof (cases "u = t")
      case True
      then have "filter (is_event_of u) (pl_outbox db') = []" "filter (is_suspension u) (pl_audit db') = []"
        by (auto simp: 1(5,6) filter_empty_conv is_event_of_def is_suspension_def)
      then show ?thesis by simp
    next
      case False
      then have "(\<lambda>e. is_event_of u e \<and> oe_tenant e \<noteq> t) = is_event_of u" "(\<lambda>a. is_suspension u a \<and> ta_tenant a \<noteq> t) = is_suspension u"
        by (auto simp: fun_eq_iff is_event_of_def is_suspension_def)
      then show ?thesis using assms(2) by (simp add: 1(5,6) filter_delete_where events_match_def)
    qed
    then show ?thesis by (simp add: events_match_def)
  qed
next
  case (step_workspace zone stamp stranger w q own raw)
  from step_workspace(1) show ?thesis
    by (rule post_workspaceE) (use assms(2) in \<open>simp add: events_match_def\<close>)
next
  case (step_rename zone w q i t raw)
  then show ?thesis using workspace_requests_frame[of zone w q i t raw db db'] assms(2) by (simp add: events_match_def)
next
  case (step_archive w q i t raw)
  then show ?thesis using workspace_requests_frame[of _ w q i t raw db db'] assms(2) by (simp add: events_match_def)
next
  case (step_restore w q i t)
  then show ?thesis using workspace_requests_frame[of _ w q i t _ db db'] assms(2) by (simp add: events_match_def)
next
  case (step_poll c env)
  have "length (filter (is_event_of t) (po_events (poll_cycle c env (only_events (pl_outbox db))))) =
      length (filter (is_event_of t) (pl_outbox db))" for t
    using progressed_events[OF poll_cycle_progress[of "only_events (pl_outbox db)" c env]] by (simp add: only_events_def)
  then show ?thesis using assms(2) by (simp add: step_poll events_match_def)
qed

text \<open>
  C34: each suspension announces itself once.  In every reachable state the outbox holds, delivered or not,
  exactly as many events of a tenant as its log has suspensions, however often the poller ran.
\<close>

theorem one_event_for_each_suspension:
  assumes "plane_reachable db"
  shows "length (filter (is_event_of t) (pl_outbox db)) = length (filter (is_suspension t) (pl_audit db))"
proof -
  from assms have "events_match db"
  proof (induction rule: plane_reachable.induct)
    case plane_empty
    then show ?case by (simp add: events_match_def empty_plane_def)
  next
    case (plane_next db db')
    then show ?case using events_match_step by blast
  qed
  then show ?thesis by (simp add: events_match_def)
qed

lemma one_event_for_each_suspension_witness:
  "length (filter (is_event_of 100) (pl_outbox ops3)) = length (filter (is_suspension 100) (pl_audit ops3))"
  by (rule one_event_for_each_suspension[OF ops_reachable(3)])

section \<open>The end of a tenant\<close>

text \<open>
  C39: archiving a tenant is final.  Whatever request or cycle follows, the row of an archived tenant stays
  exactly as it is, or the tenant is removed altogether.
\<close>

theorem archived_tenants_are_final:
  assumes "plane_step db db'" and "find_tenant t db = Some r" and "tn_status r = ''archived''"
  shows "find_tenant t db' = Some r \<or> find_tenant t db' = None"
proof -
  have r: "r \<in> set (pl_tenants db)" "tn_id r = t" using find_tenantD[OF assms(2)] by simp_all
  have keep: "find_tenant t (db\<lparr>pl_tenants := update_where (\<lambda>x. tn_id x = u) f (pl_tenants db)\<rparr>) = Some r"
    if "u \<noteq> t" "\<And>x. tn_id (f x) = tn_id x" for u f
    using find_update_where_other[of "\<lambda>x. tn_id x = u" "\<lambda>x. tn_id x = t" f "pl_tenants db"] that assms(2)
    by (auto simp: find_tenant_def)
  from assms(1) show ?thesis
  proof (cases rule: plane_step.cases)
    case (step_create b q body)
    from step_create(1) show ?thesis
    proof (cases rule: post_tenantE)
      case (1 c)
      then show ?thesis using assms(2) r step_create(2)
        find_append_other[of "\<lambda>x. tn_id x = t" "new_tenant q c" "pl_tenants db"]
        by (auto simp: find_tenant_def new_tenant_def)
    qed
  next
    case (step_patch b q u patch)
    then show ?thesis
    proof (cases rule: patch_tenantE)
      case (1 fs x cs previous new)
      then have "u \<noteq> t" using assms(2,3) by auto
      then show ?thesis using keep[of u "changed_tenant q cs"] by (simp add: 1(7) find_tenant_def)
    qed
  next
    case (step_status b q u request)
    then show ?thesis
    proof (cases rule: post_statusE)
      case (1 x target reason said)
      then have "u \<noteq> t" using assms(2,3) by (auto simp: may_become_iff)
      then show ?thesis using keep[of u "restatus q target reason"] by (simp add: 1(6) find_tenant_def)
    qed
  next
    case (step_delete b u)
    then show ?thesis
    proof (cases rule: hard_deleteE)
      case (1 x)
      show ?thesis
      proof (cases "u = t")
        case True
        then show ?thesis by (simp add: 1(2) find_tenant_def find_None)
      next
        case False
        then show ?thesis using assms(2) find_delete_where_other[of "\<lambda>x. tn_id x = u" "\<lambda>x. tn_id x = t" "pl_tenants db"]
          by (simp add: 1(2) find_tenant_def)
      qed
    qed
  next
    case (step_workspace zone stamp stranger w q own raw)
    from step_workspace(1) show ?thesis by (rule post_workspaceE) (use assms(2) in \<open>simp add: find_tenant_def\<close>)
  next
    case (step_rename zone w q i u raw)
    then show ?thesis using workspace_requests_frame[of zone w q i u raw db db'] assms(2) by (simp add: find_tenant_def)
  next
    case (step_archive w q i u raw)
    then show ?thesis using workspace_requests_frame[of _ w q i u raw db db'] assms(2) by (simp add: find_tenant_def)
  next
    case (step_restore w q i u)
    then show ?thesis using workspace_requests_frame[of _ w q i u _ db db'] assms(2) by (simp add: find_tenant_def)
  next
    case (step_poll c env)
    then show ?thesis using assms(2) by (simp add: find_tenant_def)
  qed
qed

definition archived_ops :: plane where
  "archived_ops = restatused (operator_at 2) (new_tenant (operator_at 0) acme) ''archived'' (Some ''no longer used'') ops2"

lemma archived_ops_tenant:
  "find_tenant 100 archived_ops = Some (restatus (operator_at 2) ''archived'' (Some ''no longer used'') (new_tenant (operator_at 0) acme))"
  by (simp add: find_tenant_def archived_ops_def ops2_def ops1_def restatused_def update_where_def Let_def new_tenant_def operator_simps)

lemma archived_tenants_are_final_witness:
  "let db' = archived_ops\<lparr>pl_outbox := po_events (poll_cycle default_config (the refusing) (only_events (pl_outbox archived_ops)))\<rparr>;
       r = restatus (operator_at 2) ''archived'' (Some ''no longer used'') (new_tenant (operator_at 0) acme)
   in find_tenant 100 db' = Some r \<or> find_tenant 100 db' = None"
  unfolding Let_def by (rule archived_tenants_are_final[OF step_poll archived_ops_tenant]) simp

section \<open>Workspaces\<close>

lemma another_element: "distinct xs \<Longrightarrow> r \<in> set xs \<Longrightarrow> length xs \<noteq> 1 \<Longrightarrow> \<exists>w \<in> set xs. w \<noteq> r"
  by (cases xs rule: remdups_adj.cases) auto

text \<open>
  C40: the last active workspace of a tenant is archived only with the confirmation of the caller: after any
  other archiving the tenant still has an active workspace.
\<close>

theorem last_workspace_needs_confirmation:
  assumes "plane_reachable db" and "post_archive b q i t raw db = Inr db'"
    and "dict_get raw ''confirm_last_workspace'' (PBool False) \<noteq> PBool True"
  shows "0 < count_active_workspaces t db'"
  using assms(2)
proof (cases rule: post_archiveE)
  case (1 r reason a)
  have r: "r \<in> set (pl_workspaces db)" "wk_id r = i" "wk_tenant r = t" using find_workspace_row_ids[OF 1(1)] by simp_all
  let ?act = "filter (\<lambda>w. wk_tenant w = t \<and> wk_status w = ''active'') (pl_workspaces db)"
  have ids: "distinct (map wk_id (pl_workspaces db))" using reachable_ok[OF assms(1)] by (simp add: keys_unique_def)
  have len: "length ?act \<noteq> 1" using 1(5) assms(3) by (auto simp: count_active_workspaces_def)
  have mem: "r \<in> set ?act" using r 1(2) by simp
  have "distinct ?act" using ids by (simp add: distinct_map)
  from another_element[OF this mem len] obtain w where w: "w \<in> set ?act" "w \<noteq> r" by auto
  from 1(4) have rows: "pl_workspaces db' = update_where (\<lambda>x. wk_id x = i \<and> wk_tenant x = t) (\<lambda>_. touch_workspace q ''archived'' reason r)
      (pl_workspaces db)"
    by (rule saved_InrE) (simp add: r)
  have "wk_id w \<noteq> i" using same_id_same_row[OF ids, of w r] w r by auto
  then have "w \<in> set (pl_workspaces db')" using w(1) by (auto simp: rows image_iff intro!: bexI[of _ w])
  then have "w \<in> set (filter (\<lambda>w. wk_tenant w = t \<and> wk_status w = ''active'') (pl_workspaces db'))" using w(1) by simp
  then show ?thesis unfolding count_active_workspaces_def by (rule length_pos_if_in_set)
qed

definition support_body :: dict where
  "support_body = [(''workspace_name'', PStr ''Support''), (''workspace_slug'', PStr ''support'')]"

definition ops2b :: plane where
  "ops2b = (let w = new_workspace (operator_at 2) 100 support_body
     in ops2\<lparr>pl_workspaces := pl_workspaces ops2 @ [w], pl_admins := pl_admins ops2 @ [(wk_id w, 7)],
          pl_ws_audit := pl_ws_audit ops2 @ [workspace_created_audit (\<lambda>_. ''now'') (operator_at 2) w]\<rparr>)"

lemma ops2b_created:
  "post_workspace Some (\<lambda>_. ''now'') (\<lambda>_. []) AllWritten (operator_at 2) (Some 100) support_body ops2 = Inr ops2b"
proof -
  have v: "validate_create_payload Some support_body = \<lparr>v_errors = [], normalized_payload = support_body\<rparr>"
    "target_tenant (\<lambda>_. []) ''platform_admin'' (Some 100) (dict_get support_body ''tenant_id'' PNone) = Inr 100"
    "filter (\<lambda>(k, v). k \<noteq> ''tenant_id'') support_body = support_body" "detect_forbidden_fields support_body forbidden_fields = []"
    "detect_unknown_fields support_body create_allowed_fields = []" "name_lower ''Sales'' \<noteq> name_lower ''Support''"
    "text_in sales_body ''workspace_name'' = Some ''Sales''" "text_in support_body ''workspace_name'' = Some ''Support''"
    "text_in sales_body ''workspace_slug'' = Some ''sales''" "text_in support_body ''workspace_slug'' = Some ''support''"
    by code_simp+
  have w: "wk_name (new_workspace q t sales_body) = ''Sales''" "wk_slug (new_workspace q t sales_body) = ''sales''"
    "wk_name (new_workspace q t support_body) = ''Support''" "wk_slug (new_workspace q t support_body) = ''support''"
    "wk_tenant (new_workspace q t d) = t" for q t d
    by (simp_all add: new_workspace_def v)
  have n: "\<not> name_taken 100 ''Support'' ops2" "\<not> slug_taken 100 ''support'' ops2"
    using v(6) by (simp_all add: name_taken_def slug_taken_def ops_workspaces w)
  have a: "active_tenant 100 ops2 = Inr ()" by (simp add: active_tenant_def ops2_tenant new_tenant_def acme_def)
  show ?thesis
    by (simp add: post_workspace_def operator_simps v mark_def create_workspace_def a insert_workspace_def w n write_audit_def Let_def
        ops2b_def)
qed

lemma ops2b_reachable: "plane_reachable ops2b"
  by (rule plane_next[OF ops_reachable(2) step_workspace[OF ops2b_created]]) (simp add: ops_workspaces new_workspace_def operator_simps)

definition closing :: dict where
  "closing = [(''status_reason'', PStr ''merged with support'')]"

lemma sales_archived: "\<exists>db'. post_archive AllWritten (operator_at 3) 101 100 closing ops2b = Inr db'"
proof -
  have c: "detect_unknown_fields closing archive_allowed_fields = []" "has_key closing ''confirm_last_workspace'' = False"
    "validate_status_reason (dict_get closing ''status_reason'' PNone) = ([], Some ''merged with support'')"
    "name_lower ''Sales'' \<noteq> name_lower ''Support''"
    "text_in sales_body ''workspace_name'' = Some ''Sales''" "text_in support_body ''workspace_name'' = Some ''Support''"
    "text_in sales_body ''workspace_slug'' = Some ''sales''" "text_in support_body ''workspace_slug'' = Some ''support''"
    by code_simp+
  have rows: "pl_workspaces ops2b = [new_workspace (operator_at 1) 100 sales_body, new_workspace (operator_at 2) 100 support_body]"
    by (simp add: ops2b_def ops_workspaces Let_def)
  have w: "wk_name (new_workspace q t sales_body) = ''Sales''" "wk_slug (new_workspace q t sales_body) = ''sales''"
    "wk_name (new_workspace q t support_body) = ''Support''" "wk_slug (new_workspace q t support_body) = ''support''"
    "wk_tenant (new_workspace q t d) = t" "wk_id (new_workspace q t d) = rq_row q" "wk_status (new_workspace q t d) = ''active''" for q t d
    by (simp_all add: new_workspace_def c)
  show ?thesis using c(4)
    by (simp add: post_archive_def c(1-3) archive_workspace_def find_workspace_row_def rows w operator_simps count_active_workspaces_def
        save_workspace_def write_audit_def Let_def)
qed

lemma last_workspace_needs_confirmation_witness:
  "\<exists>db'. post_archive AllWritten (operator_at 3) 101 100 closing ops2b = Inr db' \<and> 0 < count_active_workspaces 100 db'"
proof -
  obtain db' where a: "post_archive AllWritten (operator_at 3) 101 100 closing ops2b = Inr db'" using sales_archived by blast
  have "dict_get closing ''confirm_last_workspace'' (PBool False) \<noteq> PBool True" by code_simp
  from last_workspace_needs_confirmation[OF ops2b_reachable a this] a show ?thesis by blast
qed

text \<open>
  whoever edits a workspace leaves no trace in its row: the column \<open>updated_by\<close> keeps the actor of the
  change before, although the time of the change and the version are new.
\<close>

theorem edits_keep_the_previous_editor:
  assumes "plane_reachable db" and "patch_workspace zone b q i t raw db = Inr db'"
  shows "map (\<lambda>w. (wk_id w, wk_updated_by w)) (pl_workspaces db') = map (\<lambda>w. (wk_id w, wk_updated_by w)) (pl_workspaces db)"
  using assms(2)
proof (cases rule: patch_workspaceE)
  case (2 r d a tr)
  have ids: "distinct (map wk_id (pl_workspaces db))" using reachable_ok[OF assms(1)] by (simp add: keys_unique_def)
  have r: "r \<in> set (pl_workspaces db)" using find_workspace_row_ids[OF 2(1)] by simp
  from 2(4) have "pl_workspaces db' =
      update_where (\<lambda>x. wk_id x = wk_id r \<and> wk_tenant x = wk_tenant r) (\<lambda>_. changed_workspace q d r) (pl_workspaces db)"
    by (rule saved_InrE) simp
  moreover have "x = r" if "x \<in> set (pl_workspaces db)" "wk_id x = wk_id r" for x
    using same_id_same_row[OF ids that(1) r that(2)] .
  ultimately show ?thesis by (auto simp: update_where_def)
qed simp

definition rename_by :: request where
  "rename_by = (operator_at 2)\<lparr>rq_actor := 8\<rparr>"

definition new_description :: dict where
  "new_description = [(''description'', PStr ''Europe'')]"

lemma renamed_sales: "\<exists>db'. patch_workspace Some AllWritten rename_by 101 100 new_description ops2 = Inr db' \<and>
    map wk_description (pl_workspaces db') = [Some ''Europe'']"
proof -
  have d: "filter (\<lambda>k. k \<in> set immutable_fields) (map fst new_description) = []" "detect_forbidden_fields new_description forbidden_fields = []"
    "detect_unknown_fields new_description (update_allowed_fields @ immutable_fields) = []"
    "validate_update_payload Some new_description = \<lparr>v_errors = [], normalized_payload = new_description\<rparr>"
    "text_in new_description ''workspace_name'' = None"
    by code_simp+
  let ?w = "new_workspace (operator_at 1) 100 sales_body"
  have w: "wk_status ?w = ''active''" "wk_id ?w = 101" "wk_tenant ?w = 100" "wk_description ?w = None"
    by (simp_all add: new_workspace_def operator_simps sales_body_def text_in_def dict_get_def)
  have f: "find_workspace_row 101 100 ops2 = Some ?w" by (simp add: find_workspace_row_def ops_workspaces w del: One_nat_def)
  have c: "wk_description (changed_workspace rename_by new_description ?w) = Some ''Europe''"
    by (simp add: changed_workspace_def new_description_def set_workspace_field_def Let_def)
  have n: "\<not> list_all (\<lambda>(k, v). v = workspace_field ?w k) new_description"
    by (simp add: new_description_def workspace_field_def text_or_null_def w del: One_nat_def)
  show ?thesis
    by (simp add: patch_workspace_def d mark_def update_workspace_def f w n c active_tenant_def ops2_tenant save_workspace_def ops_workspaces
        update_where_def write_audit_def Let_def new_tenant_def acme_def del: One_nat_def)
qed

lemma edits_keep_the_previous_editor_witness:
  "\<exists>db'. patch_workspace Some AllWritten rename_by 101 100 new_description ops2 = Inr db' \<and>
    map (\<lambda>w. (wk_id w, wk_updated_by w)) (pl_workspaces db') = [(101, 7)]"
proof -
  obtain db' where "patch_workspace Some AllWritten rename_by 101 100 new_description ops2 = Inr db'" using renamed_sales by blast
  with edits_keep_the_previous_editor[OF ops_reachable(2) this]
  show ?thesis by (simp add: ops_workspaces new_workspace_def operator_simps)
qed

end
