(* ===== verification/RegistryBreaker.thy ===== *)
theory RegistryBreaker
  imports ControlPlane
begin

text \<open>
  The circuit breaker of \<open>app/services/tenants/registry.py\<close> and the client it wraps, with the call that
  \<open>TenantService.get_tenant_detail\<close> makes (\<open>_safe_registry_call\<close>).  Times are milliseconds of the monotonic
  clock.  What the wrapped client does is a parameter.
\<close>

section \<open>The breaker\<close>

datatype circuit = Closed | Open | HalfOpen

record breaker =
  cb_state :: circuit
  cb_failures :: "nat list"
  cb_opened :: "nat option"

definition FAILURE_THRESHOLD :: nat where "FAILURE_THRESHOLD = 3"
definition WINDOW :: nat where "WINDOW = 10000"
definition HALF_OPEN_AFTER :: nat where "HALF_OPEN_AFTER = 30000"

definition new_breaker :: breaker where
  "new_breaker = \<lparr>cb_state = Closed, cb_failures = [], cb_opened = None\<rparr>"

definition effective_state :: "nat \<Rightarrow> breaker \<Rightarrow> breaker" where
  "effective_state now b =
     (case cb_opened b of
        None \<Rightarrow> b
      | Some t \<Rightarrow> if cb_state b = Open \<and> HALF_OPEN_AFTER \<le> now - t then b\<lparr>cb_state := HalfOpen\<rparr> else b)"

definition allow_request :: "nat \<Rightarrow> breaker \<Rightarrow> bool \<times> breaker" where
  "allow_request now b = (let b' = effective_state now b in (cb_state b' \<noteq> Open, b'))"

definition record_success :: "breaker \<Rightarrow> breaker" where
  "record_success b = b\<lparr>cb_failures := [], cb_opened := None, cb_state := Closed\<rparr>"

definition record_failure :: "nat \<Rightarrow> breaker \<Rightarrow> breaker" where
  "record_failure now b =
     (let fs = filter (\<lambda>t. now - t \<le> WINDOW) (cb_failures b @ [now]); b1 = b\<lparr>cb_failures := fs\<rparr>
      in if FAILURE_THRESHOLD \<le> length fs then b1\<lparr>cb_state := Open, cb_opened := Some now\<rparr> else b1)"

section \<open>The wrapped client\<close>

datatype call_outcome = Returned int | TimedOut | InnerOpen | Raised

datatype registry_error = RegistryCallError | RegistryTimeoutError | CircuitOpenError

text \<open>The clock is read when the call is let through and when its failure is recorded.\<close>

definition get_count :: "nat \<Rightarrow> nat \<Rightarrow> call_outcome \<Rightarrow> breaker \<Rightarrow> (registry_error + int) \<times> breaker" where
  "get_count asked finished out b =
     (case allow_request asked b of (ok, b1) \<Rightarrow>
        if \<not> ok then (Inl CircuitOpenError, b1)
        else case out of
          Returned n \<Rightarrow> (Inr n, record_success b1)
        | TimedOut \<Rightarrow> (Inl RegistryTimeoutError, record_failure finished b1)
        | InnerOpen \<Rightarrow> (Inl CircuitOpenError, b1)
        | Raised \<Rightarrow> (Inl RegistryCallError, record_failure finished b1))"

text \<open>The count that is shown, and whether it is known.\<close>

definition safe_registry_call :: "nat \<Rightarrow> nat \<Rightarrow> call_outcome \<Rightarrow> breaker \<Rightarrow> (int \<times> bool) \<times> breaker" where
  "safe_registry_call asked finished out b =
     (case get_count asked finished out b of (Inr n, b') \<Rightarrow> ((n, True), b') | (Inl _, b') \<Rightarrow> ((0, False), b'))"

section \<open>What the breaker counts\<close>

text \<open>
  The calls of several threads interleave, so a breaker sees successes, failures and questions in any order;
  only the clock never runs back.
\<close>

datatype breaker_event = Success nat | Failure nat | Asked nat

fun event_time :: "breaker_event \<Rightarrow> nat" where
  "event_time (Success t) = t"
| "event_time (Failure t) = t"
| "event_time (Asked t) = t"

fun breaker_step :: "breaker_event \<Rightarrow> breaker \<Rightarrow> breaker" where
  "breaker_step (Success t) b = record_success b"
| "breaker_step (Failure t) b = record_failure t b"
| "breaker_step (Asked t) b = snd (allow_request t b)"

definition run_breaker :: "breaker_event list \<Rightarrow> breaker" where
  "run_breaker es = fold breaker_step es new_breaker"

text \<open>
  The specification: the failures since the last success, newest first, and the last of them that was the
  third within ten seconds.
\<close>

fun failures_since :: "breaker_event list \<Rightarrow> nat list \<Rightarrow> nat list" where
  "failures_since [] fs = fs"
| "failures_since (Success t # es) fs = failures_since es []"
| "failures_since (Failure t # es) fs = failures_since es (t # fs)"
| "failures_since (Asked t # es) fs = failures_since es fs"

fun last_trip :: "nat list \<Rightarrow> nat option" where
  "last_trip [] = None"
| "last_trip (t # fs) =
     (if FAILURE_THRESHOLD \<le> length (filter (\<lambda>u. t - u \<le> WINDOW) (t # fs)) then Some t else last_trip fs)"

definition blocked :: "nat list \<Rightarrow> nat \<Rightarrow> bool" where
  "blocked fs now = (case last_trip fs of None \<Rightarrow> False | Some t \<Rightarrow> now - t < HALF_OPEN_AFTER)"

definition represents :: "nat \<Rightarrow> nat list \<Rightarrow> breaker \<Rightarrow> bool" where
  "represents clock fs b \<longleftrightarrow>
     sorted (rev fs) \<and> (\<forall>t \<in> set fs. t \<le> clock) \<and>
     cb_failures b = (case fs of [] \<Rightarrow> [] | t # _ \<Rightarrow> filter (\<lambda>u. t - u \<le> WINDOW) (rev fs)) \<and>
     cb_opened b = last_trip fs \<and>
     (case last_trip fs of None \<Rightarrow> cb_state b = Closed
      | Some t \<Rightarrow> cb_state b = Open \<or> cb_state b = HalfOpen \<and> HALF_OPEN_AFTER \<le> clock - t)"

lemma represents_new: "represents 0 [] new_breaker"
  by (simp add: represents_def new_breaker_def)

lemma represents_success: "represents clock fs b \<Longrightarrow> represents now [] (record_success b)"
  by (simp add: represents_def record_success_def)

lemma represents_later:
  assumes "represents clock fs b" and "clock \<le> now"
  shows "represents now fs b"
  using assms by (force simp: represents_def split: option.splits)

lemma represents_asked:
  assumes "represents clock fs b" and "clock \<le> now"
  shows "represents now fs (effective_state now b) \<and> (cb_state (effective_state now b) = Open \<longleftrightarrow> blocked fs now)"
  using represents_later[OF assms] assms
  by (cases "last_trip fs") (auto simp: represents_def effective_state_def blocked_def)

lemma represents_failure:
  assumes "represents clock fs b" and "clock \<le> now"
  shows "represents now (now # fs) (record_failure now b)"
proof -
  note r = assms(1)[unfolded represents_def]
  have le: "\<forall>t \<in> set fs. t \<le> now" using r assms(2) by auto
  have pruned: "filter (\<lambda>t. now - t \<le> WINDOW) (cb_failures b) = filter (\<lambda>t. now - t \<le> WINDOW) (rev fs)"
  proof (cases fs)
    case (Cons u us)
    then have "now - t \<le> WINDOW \<Longrightarrow> u - t \<le> WINDOW" for t using le diff_le_mono[of u now t] by simp
    then show ?thesis using r Cons by (auto simp: conj_commute intro: filter_cong)
  qed (use r in simp)
  have len: "length (filter p (rev fs)) = length (filter p fs)" for p
    by (metis length_rev rev_filter)
  have new: "cb_failures (record_failure now b) = filter (\<lambda>u. now - u \<le> WINDOW) (rev (now # fs))"
    by (simp add: record_failure_def pruned Let_def)
  have was: "cb_opened b = last_trip fs" "case last_trip fs of None \<Rightarrow> cb_state b = Closed
      | Some t \<Rightarrow> cb_state b = Open \<or> cb_state b = HalfOpen \<and> HALF_OPEN_AFTER \<le> clock - t" using r by blast+
  have opened: "cb_opened (record_failure now b) = last_trip (now # fs)"
    using was(1) by (simp add: record_failure_def pruned Let_def len)
  have "case last_trip (now # fs) of None \<Rightarrow> cb_state (record_failure now b) = Closed
      | Some t \<Rightarrow> cb_state (record_failure now b) = Open \<or>
          cb_state (record_failure now b) = HalfOpen \<and> HALF_OPEN_AFTER \<le> now - t"
    using was(2) assms(2) by (force simp: record_failure_def pruned Let_def len split: option.splits)
  then show ?thesis using r le new opened by (simp add: represents_def sorted_append)
qed

lemma represents_run:
  assumes "sorted (map event_time es)" and "represents clock fs b" and "\<forall>e \<in> set es. clock \<le> event_time e"
  shows "\<exists>clock'. (es = [] \<longrightarrow> clock' = clock) \<and> (es \<noteq> [] \<longrightarrow> clock' = event_time (last es)) \<and>
    represents clock' (failures_since es fs) (fold breaker_step es b)"
  using assms
proof (induction es arbitrary: clock fs b)
  case (Cons e es)
  have clock: "clock \<le> event_time e" and b: "represents clock fs b" using Cons.prems by simp_all
  have "\<exists>fs'. represents (event_time e) fs' (breaker_step e b) \<and> failures_since (e # es) fs = failures_since es fs'"
  proof (cases e)
    case (Success t)
    then show ?thesis using represents_success[OF b] by (intro exI[of _ "[]"]) simp
  next
    case (Failure t)
    then show ?thesis using represents_failure[OF b] clock by (intro exI[of _ "t # fs"]) simp
  next
    case (Asked t)
    then show ?thesis using represents_asked[OF b] clock by (intro exI[of _ fs]) (simp add: allow_request_def Let_def)
  qed
  then obtain fs' where fs': "represents (event_time e) fs' (breaker_step e b)" "failures_since (e # es) fs = failures_since es fs'"
    by blast
  have "\<exists>clock'. (es = [] \<longrightarrow> clock' = event_time e) \<and> (es \<noteq> [] \<longrightarrow> clock' = event_time (last es)) \<and>
      represents clock' (failures_since es fs') (fold breaker_step es (breaker_step e b))"
    using Cons.prems(1) by (intro Cons.IH fs'(1)) simp_all
  then show ?case using fs'(2) by auto
qed simp

text \<open>
  C37: the breaker counts failures in a sliding window.  After any interleaving of successes, failures and
  questions in the order of the clock, a call is refused exactly when, since the last success, some failure
  was the third within ten seconds and the last such failure is less than thirty seconds ago, although
  the breaker forgets the older failures and keeps only a state and a time.
\<close>

theorem breaker_counts_failures_in_a_window:
  assumes "sorted (map event_time es)" and "\<forall>e \<in> set es. event_time e \<le> now"
  shows "fst (allow_request now (run_breaker es)) = (\<not> blocked (failures_since es []) now)"
proof -
  obtain clock where "clock \<le> now" "represents clock (failures_since es []) (run_breaker es)"
    using represents_run[OF assms(1) represents_new] assms(2) unfolding run_breaker_def
    by (metis last_in_set le0)
  then show ?thesis using represents_asked by (simp add: allow_request_def Let_def)
qed

text \<open>
  C38: a probe that fails does not open the circuit again.  Thirty seconds after the circuit opened the
  breaker lets calls through, and when the first of them fails it goes on letting calls through.
\<close>

theorem failed_probes_do_not_reopen:
  assumes "cb_state b = Open" and "cb_opened b = Some t" and "\<forall>u \<in> set (cb_failures b). u \<le> t"
    and "t + HALF_OPEN_AFTER \<le> asked" and "asked \<le> finished" and "out = Raised \<or> out = TimedOut"
  shows "isl (fst (get_count asked finished out b)) \<and> fst (allow_request later (snd (get_count asked finished out b)))"
proof -
  have h: "allow_request asked b = (True, b\<lparr>cb_state := HalfOpen\<rparr>)"
    using assms(1,2,4) by (simp add: allow_request_def effective_state_def)
  have "filter (\<lambda>u. finished - u \<le> WINDOW) (cb_failures b) = []"
    using assms(3-5) by (auto simp: filter_empty_conv WINDOW_def HALF_OPEN_AFTER_def)
  then have "cb_state (record_failure finished (b\<lparr>cb_state := HalfOpen\<rparr>)) = HalfOpen"
    by (simp add: record_failure_def FAILURE_THRESHOLD_def Let_def)
  then have "fst (allow_request later (record_failure finished (b\<lparr>cb_state := HalfOpen\<rparr>)))"
    by (auto simp: allow_request_def effective_state_def Let_def split: option.splits)
  then show ?thesis using assms(6) by (auto simp: get_count_def h)
qed

definition opened_breaker :: breaker where
  "opened_breaker = run_breaker [Failure 1000, Failure 2000, Failure 3000]"

lemma opened_breaker_eval: "opened_breaker = \<lparr>cb_state = Open, cb_failures = [1000, 2000, 3000], cb_opened = Some 3000\<rparr>"
  by code_simp

lemma breaker_counts_failures_in_a_window_witness:
  "fst (allow_request 4000 (run_breaker [Failure 1000, Failure 2000, Failure 3000])) = False"
  using breaker_counts_failures_in_a_window[of "[Failure 1000, Failure 2000, Failure 3000]" 4000]
  by (simp add: blocked_def FAILURE_THRESHOLD_def WINDOW_def HALF_OPEN_AFTER_def)

lemma failed_probes_do_not_reopen_witness:
  "isl (fst (get_count 33000 33500 TimedOut opened_breaker)) \<and> fst (allow_request 33600 (snd (get_count 33000 33500 TimedOut opened_breaker)))"
  by (rule failed_probes_do_not_reopen[where t = 3000]) (simp_all add: opened_breaker_eval HALF_OPEN_AFTER_def)

end
