(* ===== verification/Spec2Isabelle.thy ===== *)
theory Spec2Isabelle
  imports FlowRuns FilterExpr ConnectionLifecycle DatasetLifecycle IssueLifecycle
    IncidentLifecycle WorkspaceValidation SettingsValidation DatasetValidation
    GuardSafety PipelineSafety CompiledTexts TallyCounts UniqueCounts RuleStoreSafety RuleSyncSafety TenantHistory RegistryBreaker
begin

text \<open>
  A verification development for the backend of the data-quality platform (\<open>src/backend/app\<close>).

  The program.  Users describe data-quality rules and connect them to flows, graphs of source,
  check and output nodes.  A flow is validated and planned, its nodes run level by level, and
  what fails becomes issues, which people work on and which may be gathered in incidents.  All of
  this happens in workspaces of tenants; who may do what is decided by roles, by the token of the
  request and, for the operators of the platform, by temporary grants.  The services keep their
  state in tables, so most operations here are functions on tables; the rest are pure.

  Where to find what.  Paths are relative to \<open>src/backend/app\<close>.

  Shared: \<open>Prelude\<close> (Python values, dictionaries, string methods, exceptions as sums),
  \<open>FieldValidation\<close> (how validators collect errors, the contract of a normaliser), \<open>Lifecycle\<close>
  (the contract of a table of state transitions), \<open>Tickets\<close> (rows scoped to a workspace, the
  difference an audit entry reports).

  Flows: \<open>FlowModel\<close> holds the data of \<open>schemas/flow.py\<close>; \<open>FlowOrder\<close>, \<open>FlowCycles\<close> and
  \<open>FlowValidator\<close> the planners, the cycle search and the validation of
  \<open>services/flows/validator.py\<close>; \<open>FlowExecutor\<close> the executor of \<open>services/flows/executor.py\<close> with
  the sanitiser of \<open>utils/json_utils.py\<close>; \<open>FlowRuns\<close> states the interface between planner and
  executor and proves what a run does.  The lemmas show that the levels are a partition in which
  predecessors come first, that both planners and the cycle search agree on what a cycle is, what
  strict and lenient validation accept, and that a valid flow is run to its end, every node with
  the outputs of all its predecessors; and where runs go wrong.

  Rules: \<open>FilterExpr\<close> is the guard of user-written filter expressions in
  \<open>services/rules/compiler.py\<close> with the clauses built around them.  The lemmas show that an
  accepted expression cannot leave its parentheses, in which dialects it can all the same, and
  that a list of placeholders reads back.

  Tickets: \<open>IssueLifecycle\<close> and \<open>IncidentLifecycle\<close> are the update operations of
  \<open>services/issues/issue_lifecycle_service.py\<close> and
  \<open>services/incidents/incident_lifecycle_service.py\<close> over their repositories, with the audit
  entries and alerts they write.  The lemmas show that time stamps follow the status in every
  reachable table, exactly when an update succeeds, and that it is confined to its row.

  State columns: \<open>ConnectionLifecycle\<close> and \<open>DatasetLifecycle\<close> are
  \<open>services/connections/lifecycle.py\<close> and \<open>services/datasets/lifecycle.py\<close>, two instances of the
  contract in \<open>Lifecycle\<close>.

  Payloads: \<open>WorkspaceValidation\<close>, \<open>SettingsValidation\<close> and \<open>DatasetValidation\<close> are the validation
  modules of \<open>services/workspaces\<close> and \<open>services/datasets\<close>.  The lemmas give the accepted inputs
  exactly, the normal form of what is accepted, and the inputs on which the code raises.

  Access: \<open>ControlPlane\<close> holds the tables; \<open>RBAC\<close> is \<open>services/workspaces/rbac.py\<close> with the
  constraints of the migrations; \<open>AuthTokens\<close> the claims a login issues (\<open>services/auth/service.py\<close>)
  and the actor a request is turned into; \<open>SupportAccess\<close> is \<open>services/support_access/service.py\<close>
  with its endpoints; \<open>AuthGuards\<close> the guards of \<open>api/v1/dependencies\<close>.  \<open>RoleSafety\<close> and
  \<open>GuardSafety\<close> prove what they guarantee, alone and along runs in which the operations
  interleave: the last administrator stays, roles resolve, workspaces are isolated, no operator
  gets in without a grant of the tenant; and where the guards of data sources and datasets differ.

  Conventions and bounds.  A \<open>raise\<close> is the left injection of a sum or of an option.  Strings are
  lists of \<^typ>\<open>char\<close>, so texts are modelled on the code points up to U+00FF.  Python integers are
  \<^typ>\<open>int\<close>; floating-point values in payloads are exact rationals, infinities or not a number.  A
  UUID is a 128-bit word.  The one bound is the depth of Python's recursion in the cycle search: it
  is a parameter, and one more than the number of nodes is proved to be enough.  Every other loop
  is structural or has a measure.  The clock of the grants counts minutes; time stamps elsewhere
  are numbers.  Log output, metrics and durations are left out.

  Parameters, where the code calls what is not under \<open>src\<close> or what only the environment decides:
  the handler of a node, faults of the session and the moment of a cancellation; the iteration
  order of a set of strings; the order of a collation; the time-zone database; the compiler of
  regular expressions; \<open>jwt.decode\<close>; the alert trigger; the text form of a time stamp.

  Not modelled: input and output (connectors, discovery, Spark, file parsers, mail, webhooks),
  services around a language model, listings and reports, which are SQL and presentation, the
  request and response bodies, the frontend and the deployment.  Tenants, provisioning, the
  services of workspaces, datasets and data sources, the resolution of columns and the quality
  indicators have logic of their own and are not modelled yet.
\<close>

end
